(* ===== verification/Nibiru_Prelude.thy ===== *)
theory Nibiru_Prelude
  imports
    Main
    "HOL-Library.List_Lexorder"
    "HOL-Library.Char_ord"
    "HOL-Library.Product_Lexorder"
begin

text \<open>
  Shared material of the development: the result type of fallible Go code and its sequencing,
  Go's truncating division, the ordered key-value store that stands for a keeper's
  collections (an association list sorted by key, since iteration order matters), and the
  generic lemmas on lists and integers that the component theories use.  The collection
  \<open>res_simps\<close> carries the equations that open a chain of fallible calls.
\<close>

named_theorems res_simps \<open>rewrite rules for chains of fallible calls\<close>


section \<open>Results of fallible calls\<close>

text \<open>
  A Go function with result \<open>(T, error)\<close> is modelled with a sum: \<open>Inl\<close> holds the error of an
  early return (or of a panic) and \<open>Inr\<close> the result.
\<close>

type_synonym ('e, 'a) result = "'e + 'a"

definition bindE :: "'e + 'a \<Rightarrow> ('a \<Rightarrow> 'e + 'b) \<Rightarrow> 'e + 'b" where
  "bindE m f = (case m of Inl e \<Rightarrow> Inl e | Inr x \<Rightarrow> f x)"

text \<open>Unfolded, the sequencing evaluates its continuation only on the result.\<close>

declare bindE_def [code_unfold]

definition checkE :: "bool \<Rightarrow> 'e \<Rightarrow> 'e + unit" where
  "checkE b e = (if b then Inr () else Inl e)"

definition getE :: "'e \<Rightarrow> 'a option \<Rightarrow> 'e + 'a" where
  "getE e m = (case m of None \<Rightarrow> Inl e | Some x \<Rightarrow> Inr x)"

definition mapErr :: "('e \<Rightarrow> 'f) \<Rightarrow> 'e + 'a \<Rightarrow> 'f + 'a" where
  "mapErr g m = (case m of Inl e \<Rightarrow> Inl (g e) | Inr x \<Rightarrow> Inr x)"

lemma bindE_Inl [simp]: "bindE (Inl e) f = Inl e"
  and bindE_Inr [simp]: "bindE (Inr x) f = f x"
  by (simp_all add: bindE_def)

lemma bindE_eq_Inr [res_simps]:
  "bindE m f = Inr y \<longleftrightarrow> (\<exists>x. m = Inr x \<and> f x = Inr y)"
  by (cases m) (simp_all add: bindE_def)

lemma bindE_eq_Inl:
  "bindE m f = Inl e \<longleftrightarrow> m = Inl e \<or> (\<exists>x. m = Inr x \<and> f x = Inl e)"
  by (cases m) (simp_all add: bindE_def)

lemma bindE_InrE [elim]:
  assumes "bindE m f = Inr y"
  obtains x where "m = Inr x" and "f x = Inr y"
  using assms by (auto simp: bindE_eq_Inr)

lemma bindE_assoc: "bindE (bindE m f) g = bindE m (\<lambda>x. bindE (f x) g)"
  by (cases m) simp_all

lemma checkE_eq_Inr [res_simps, simp]: "checkE b e = Inr u \<longleftrightarrow> b"
  by (simp add: checkE_def)

lemma checkE_eq_Inl [simp]: "checkE b e = Inl e' \<longleftrightarrow> \<not> b \<and> e' = e"
  by (auto simp: checkE_def)

lemma checkE_True [simp]: "checkE True e = Inr ()"
  and checkE_False [simp]: "checkE False e = Inl e"
  by (simp_all add: checkE_def)

lemma getE_Some [simp]: "getE e (Some x) = Inr x"
  and getE_None [simp]: "getE e None = Inl e"
  by (simp_all add: getE_def)

lemma getE_eq_Inr [res_simps]: "getE e m = Inr x \<longleftrightarrow> m = Some x"
  by (cases m) (simp_all add: getE_def)

lemma mapErr_simps [simp]: "mapErr g (Inl e) = Inl (g e)" "mapErr g (Inr x) = Inr x"
  by (simp_all add: mapErr_def)

lemma mapErr_eq_Inr [res_simps]: "mapErr g m = Inr x \<longleftrightarrow> m = Inr x"
  by (cases m) simp_all


lemma not_isl_Inr: "\<not> isl m \<Longrightarrow> \<exists>x. m = Inr x"
  by (cases m) auto


section \<open>Go's truncating division\<close>

definition go_quo :: "int \<Rightarrow> int \<Rightarrow> int" where
  "go_quo a b = sgn a * sgn b * (\<bar>a\<bar> div \<bar>b\<bar>)"

lemma go_quo_nonneg: "0 \<le> a \<Longrightarrow> 0 < b \<Longrightarrow> go_quo a b = a div b"
  by (cases "a = 0") (simp_all add: go_quo_def)

lemma go_quo_minus_left: "go_quo (- a) b = - go_quo a b"
  by (simp add: go_quo_def)

lemma go_quo_minus_right: "go_quo a (- b) = - go_quo a b"
  by (simp add: go_quo_def)

lemma go_quo_abs: "\<bar>go_quo a b\<bar> = (if b = 0 then 0 else \<bar>a\<bar> div \<bar>b\<bar>)"
  by (auto simp: go_quo_def abs_mult abs_sgn_eq div_int_pos_iff)

lemma go_quo_mult_self:
  assumes "b \<noteq> 0"
  shows "go_quo a b * b = sgn a * (\<bar>a\<bar> div \<bar>b\<bar> * \<bar>b\<bar>)"
proof -
  have "sgn b * b = \<bar>b\<bar>" by (simp add: abs_sgn mult.commute)
  then show ?thesis by (simp add: go_quo_def mult.assoc mult.left_commute mult.commute)
qed

lemma go_quo_remainder:
  assumes "b \<noteq> 0"
  shows "\<bar>a - go_quo a b * b\<bar> < \<bar>b\<bar>" and "\<bar>go_quo a b * b\<bar> \<le> \<bar>a\<bar>"
proof -
  have m: "\<bar>a\<bar> = \<bar>a\<bar> div \<bar>b\<bar> * \<bar>b\<bar> + \<bar>a\<bar> mod \<bar>b\<bar>" by simp
  have r: "0 \<le> \<bar>a\<bar> mod \<bar>b\<bar>" "\<bar>a\<bar> mod \<bar>b\<bar> < \<bar>b\<bar>" using assms by simp_all
  have "a - go_quo a b * b = sgn a * (\<bar>a\<bar> - \<bar>a\<bar> div \<bar>b\<bar> * \<bar>b\<bar>)"
    by (simp add: go_quo_mult_self [OF assms] right_diff_distrib sgn_mult_abs)
  also have "\<dots> = sgn a * (\<bar>a\<bar> mod \<bar>b\<bar>)" using m by (metis add_diff_cancel_left')
  finally show "\<bar>a - go_quo a b * b\<bar> < \<bar>b\<bar>"
    using r by (auto simp: abs_mult abs_sgn_eq)
  show "\<bar>go_quo a b * b\<bar> \<le> \<bar>a\<bar>"
  proof -
    have "0 \<le> \<bar>a\<bar> div \<bar>b\<bar>" by (simp add: div_int_pos_iff)
    then have "\<bar>go_quo a b * b\<bar> \<le> \<bar>a\<bar> div \<bar>b\<bar> * \<bar>b\<bar>"
      by (auto simp: go_quo_mult_self [OF assms] abs_mult abs_sgn_eq)
    with m r show ?thesis by linarith
  qed
qed

lemma go_quo_mono: "a \<le> b \<Longrightarrow> 0 < c \<Longrightarrow> go_quo a c \<le> go_quo b c"
proof -
  assume le: "a \<le> b" and c: "0 < c"
  consider "0 \<le> a" | "a < 0" "0 \<le> b" | "b < 0" using le by linarith
  then show ?thesis
  proof cases
    case 1 then show ?thesis using le c by (simp add: go_quo_nonneg zdiv_mono1)
  next
    case 2
    have "go_quo a c = - ((- a) div c)"
      using 2 c go_quo_nonneg [of "- a" c] go_quo_minus_left [of a c] by simp
    moreover have "0 \<le> (- a) div c" "0 \<le> b div c"
      using 2 c by (simp_all add: pos_imp_zdiv_nonneg_iff)
    ultimately show ?thesis using 2 c by (simp add: go_quo_nonneg)
  next
    case 3
    have "go_quo a c = - ((- a) div c)" "go_quo b c = - ((- b) div c)"
      using 3 le c go_quo_nonneg [of "- a" c] go_quo_minus_left [of a c]
        go_quo_nonneg [of "- b" c] go_quo_minus_left [of b c] by simp_all
    moreover have "(- b) div c \<le> (- a) div c" using le c by (simp add: zdiv_mono1)
    ultimately show ?thesis by simp
  qed
qed


section \<open>Distances between integers\<close>

lemma abs_half_less: "2 * \<bar>x :: int\<bar> \<le> p \<Longrightarrow> 0 < p \<Longrightarrow> \<bar>x\<bar> < \<bar>p\<bar>"
  by linarith

lemma abs_half_lower: "2 * \<bar>x - y :: int\<bar> \<le> p \<Longrightarrow> 2 * y - p \<le> 2 * x"
  by arith

lemma abs_half_upper: "2 * \<bar>x - y :: int\<bar> \<le> p \<Longrightarrow> 2 * x \<le> 2 * y + p"
  by arith

lemma abs_less_lower: "\<bar>x - y :: int\<bar> < p \<Longrightarrow> y - p < x"
  by arith

lemma abs_less_upper: "\<bar>x - y :: int\<bar> < p \<Longrightarrow> x < y + p"
  by arith

lemma abs_sum_bound: "2 * \<bar>u :: int\<bar> \<le> p \<Longrightarrow> \<bar>v\<bar> < x \<Longrightarrow> 2 * \<bar>v + u\<bar> < 2 * x + p"
  by arith

lemma dvd_abs_less_zero: "(n :: int) dvd x \<Longrightarrow> \<bar>x\<bar> < \<bar>n\<bar> \<Longrightarrow> x = 0"
  using dvd_imp_le_int [of x n] by linarith

end
