(* ===== verification/Sdk_Decimal.thy ===== *)
theory Sdk_Decimal
  imports Nibiru_Prelude
begin

text \<open>
  The decimal numbers of the modules (\<open>sdk.Dec\<close>) are fixed-point numbers with
  \<^verbatim>\<open>Precision = 18\<close> decimals over an unbounded integer, the value that \<open>BigInt()\<close> reads.
  A decimal is represented by that integer, so that addition, subtraction, negation,
  comparison, \<open>NewDec\<close>/\<open>ToDec\<close> and multiplication by an integer are the integer operations.
  The operations that round (\<open>Mul\<close>, \<open>Quo\<close>, \<open>QuoInt64\<close>, \<open>RoundInt\<close>, \<open>Ceil\<close>, \<open>TruncateInt\<close>)
  belong to the SDK, whose code is not part of the repository: they are the fields of the
  record \<open>sdk_dec\<close>, an argument of every definition that uses them, and what is relied on is
  the locale \<open>sdk_decimal\<close>.  The SDK's panic on results above 315 bits is not modelled:
  a panic discards the whole message, so it removes runs and changes no result.
\<close>

type_synonym dec = int

definition PREC :: int where
  "PREC = 1000000000000000000"

lemma PREC_pos [simp, intro]: "0 < PREC" and PREC_nonneg [simp]: "0 \<le> PREC"
  and PREC_nonzero [simp]: "PREC \<noteq> 0" and abs_PREC [simp]: "\<bar>PREC\<bar> = PREC"
  by (simp_all add: PREC_def)

definition NewDec :: "int \<Rightarrow> dec" where
  "NewDec i = i * PREC"

definition OneDec :: dec where
  "OneDec = PREC"

record sdk_dec =
  dec_Mul :: "dec \<Rightarrow> dec \<Rightarrow> dec"
  dec_Quo :: "dec \<Rightarrow> dec \<Rightarrow> dec"
  dec_QuoInt64 :: "dec \<Rightarrow> int \<Rightarrow> dec"
  dec_RoundInt :: "dec \<Rightarrow> int"
  dec_Ceil :: "dec \<Rightarrow> dec"
  dec_TruncateInt :: "dec \<Rightarrow> int"


section \<open>What the modules rely on\<close>

text \<open>
  \<open>Mul\<close> and \<open>RoundInt\<close> round to the nearest representable value, \<open>Quo\<close> is off by less than
  one unit in the last place, \<open>QuoInt64\<close> and \<open>TruncateInt\<close> truncate towards zero, \<open>Ceil\<close> is the
  next whole number; rounding is symmetric about zero and monotone.
\<close>

locale sdk_decimal =
  fixes mul :: "dec \<Rightarrow> dec \<Rightarrow> dec"
    and quo :: "dec \<Rightarrow> dec \<Rightarrow> dec"
    and quoInt :: "dec \<Rightarrow> int \<Rightarrow> dec"
    and roundInt :: "dec \<Rightarrow> int"
    and ceil :: "dec \<Rightarrow> dec"
    and truncInt :: "dec \<Rightarrow> int"
  assumes mul_nearest: "2 * \<bar>mul a b * PREC - a * b\<bar> \<le> PREC"
    and mul_comm: "mul a b = mul b a"
    and mul_minus: "mul (- a) b = - mul a b"
    and mul_mono: "a \<le> a' \<Longrightarrow> 0 \<le> b \<Longrightarrow> mul a b \<le> mul a' b"
    and quo_near: "b \<noteq> 0 \<Longrightarrow> \<bar>quo a b * b - a * PREC\<bar> < \<bar>b\<bar>"
    and quo_mono: "a \<le> a' \<Longrightarrow> 0 < b \<Longrightarrow> quo a b \<le> quo a' b"
    and quoInt_trunc: "n \<noteq> 0 \<Longrightarrow> \<bar>a - quoInt a n * n\<bar> < \<bar>n\<bar> \<and> \<bar>quoInt a n * n\<bar> \<le> \<bar>a\<bar>"
    and roundInt_nearest: "2 * \<bar>roundInt a * PREC - a\<bar> \<le> PREC"
    and roundInt_minus: "roundInt (- a) = - roundInt a"
    and roundInt_mono: "a \<le> a' \<Longrightarrow> roundInt a \<le> roundInt a'"
    and ceil_bounds: "a \<le> ceil a \<and> ceil a < a + PREC \<and> PREC dvd ceil a"
    and truncInt_trunc: "\<bar>a - truncInt a * PREC\<bar> < PREC \<and> \<bar>truncInt a * PREC\<bar> \<le> \<bar>a\<bar>"
begin

lemma mul_0 [simp]: "mul 0 b = 0" "mul a 0 = 0"
proof -
  have z: "mul 0 c = 0" for c using mul_minus [of 0 c] by simp
  then show "mul 0 b = 0" .
  show "mul a 0 = 0" using z [of a] by (simp add: mul_comm [of a 0])
qed

lemma mul_bounds: "2 * (a * b) - PREC \<le> 2 * (mul a b * PREC)" "2 * (mul a b * PREC) \<le> 2 * (a * b) + PREC"
  using abs_half_lower [OF mul_nearest [of a b]] abs_half_upper [OF mul_nearest [of a b]] by simp_all

lemma mul_nonneg: "0 \<le> a \<Longrightarrow> 0 \<le> b \<Longrightarrow> 0 \<le> mul a b"
  using mul_mono [of 0 a b] by simp

lemma mul_nonpos: "a \<le> 0 \<Longrightarrow> 0 \<le> b \<Longrightarrow> mul a b \<le> 0"
  using mul_mono [of a 0 b] by simp

lemma mul_exact: "PREC dvd a * b \<Longrightarrow> mul a b * PREC = a * b"
proof -
  assume "PREC dvd a * b"
  then have "PREC dvd mul a b * PREC - a * b" by simp
  moreover have "\<bar>mul a b * PREC - a * b\<bar> < \<bar>PREC\<bar>"
    using mul_nearest [of a b] PREC_pos by (rule abs_half_less)
  ultimately have "mul a b * PREC - a * b = 0" by (rule dvd_abs_less_zero)
  then show ?thesis by simp
qed

lemma mul_whole: "mul a (NewDec n) = a * n"
proof -
  have "mul a (NewDec n) * PREC = a * NewDec n" by (rule mul_exact) (simp add: NewDec_def)
  then show ?thesis by (simp add: NewDec_def)
qed

lemma mul_One [simp]: "mul a OneDec = a"
  using mul_whole [of a 1] by (simp add: NewDec_def OneDec_def)

lemma quo_exact: "b \<noteq> 0 \<Longrightarrow> b dvd a * PREC \<Longrightarrow> quo a b * b = a * PREC"
proof -
  assume b: "b \<noteq> 0" and "b dvd a * PREC"
  then have "b dvd quo a b * b - a * PREC" by simp
  moreover have "\<bar>quo a b * b - a * PREC\<bar> < \<bar>b\<bar>" using b by (rule quo_near)
  ultimately have "quo a b * b - a * PREC = 0" by (rule dvd_abs_less_zero)
  then show ?thesis by simp
qed

lemma quo_nonneg: "0 \<le> a \<Longrightarrow> 0 < b \<Longrightarrow> 0 \<le> quo a b"
proof -
  assume a: "0 \<le> a" and b: "0 < b"
  have "quo 0 b * b = 0 * PREC" using b by (intro quo_exact) simp_all
  then have "quo 0 b = 0" using b by simp
  then show ?thesis using quo_mono [OF a b] by simp
qed

lemma roundInt_0 [simp]: "roundInt 0 = 0"
  using roundInt_minus [of 0] by simp

lemma roundInt_nonneg: "0 \<le> a \<Longrightarrow> 0 \<le> roundInt a"
  using roundInt_mono [of 0 a] by simp

lemma roundInt_NewDec [simp]: "roundInt (NewDec n) = n"
proof -
  have "PREC dvd roundInt (NewDec n) * PREC - NewDec n" by (simp add: NewDec_def)
  moreover have "\<bar>roundInt (NewDec n) * PREC - NewDec n\<bar> < \<bar>PREC\<bar>"
    using roundInt_nearest [of "NewDec n"] PREC_pos by (rule abs_half_less)
  ultimately have "roundInt (NewDec n) * PREC - NewDec n = 0" by (rule dvd_abs_less_zero)
  then show ?thesis by (simp add: NewDec_def)
qed

lemma truncInt_whole: "PREC dvd a \<Longrightarrow> truncInt a * PREC = a"
proof -
  assume "PREC dvd a"
  then have "PREC dvd a - truncInt a * PREC" by simp
  moreover have "\<bar>a - truncInt a * PREC\<bar> < \<bar>PREC\<bar>" using truncInt_trunc [of a] PREC_pos by linarith
  ultimately have "a - truncInt a * PREC = 0" by (rule dvd_abs_less_zero)
  then show ?thesis by simp
qed

lemma ceil_truncInt: "a \<le> truncInt (ceil a) * PREC" "truncInt (ceil a) * PREC < a + PREC"
  using ceil_bounds [of a] truncInt_whole [of "ceil a"] by simp_all

lemma quoInt_bounds:
  assumes "0 < n"
  shows "0 \<le> a \<Longrightarrow> 0 \<le> quoInt a n" and "0 \<le> a \<Longrightarrow> quoInt a n * n \<le> a"
    and "a < quoInt a n * n + n" and "quoInt a n * n - n < a"
proof -
  have t: "\<bar>a - quoInt a n * n\<bar> < n" "\<bar>quoInt a n * n\<bar> \<le> \<bar>a\<bar>"
    using quoInt_trunc [of n a] assms by auto
  show "a < quoInt a n * n + n" "quoInt a n * n - n < a" using t(1) by linarith+
  show le: "quoInt a n * n \<le> a" if "0 \<le> a" using t(2) that by linarith
  show "0 \<le> quoInt a n" if "0 \<le> a"
  proof (rule ccontr)
    assume "\<not> 0 \<le> quoInt a n"
    then have "quoInt a n * n \<le> - n" using assms mult_right_mono [of "quoInt a n" "-1" n] by simp
    with t(1) that show False by linarith
  qed
qed

lemma quoInt_between:
  assumes "0 < n" and "0 \<le> lo" and "lo * n \<le> x" and "x \<le> hi * n"
  shows "lo \<le> quoInt x n" and "quoInt x n \<le> hi"
proof -
  have x: "0 \<le> x" using assms(1-3) by (metis mult_nonneg_nonneg less_imp_le order_trans)
  have "quoInt x n * n \<le> hi * n" using quoInt_bounds(2) [OF assms(1) x] assms(4) by linarith
  then show "quoInt x n \<le> hi" using assms(1) by simp
  have "lo * n < (quoInt x n + 1) * n" using quoInt_bounds(3) [OF assms(1), of x] assms(3) by (simp add: distrib_right)
  then show "lo \<le> quoInt x n" using assms(1) by simp
qed

end

text \<open>The contract of a record of decimal operations.\<close>

definition dec_laws :: "'z sdk_dec_scheme \<Rightarrow> bool" where
  "dec_laws E \<longleftrightarrow> sdk_decimal (dec_Mul E) (dec_Quo E) (dec_QuoInt64 E) (dec_RoundInt E)
     (dec_Ceil E) (dec_TruncateInt E)"

lemma dec_lawsD: "dec_laws E \<Longrightarrow> sdk_decimal (dec_Mul E) (dec_Quo E) (dec_QuoInt64 E)
    (dec_RoundInt E) (dec_Ceil E) (dec_TruncateInt E)"
  by (simp add: dec_laws_def)

end
