(* ===== verification/Common_Dec.thy ===== *)
theory Common_Dec
  imports Sdk_Decimal
begin

text \<open>
  \<^verbatim>\<open>x/common/dec.go\<close>: bankers' rounding (\<open>ChopPrecisionAndRound\<close>), integer and decimal
  square roots, powers of ten.  The rounding routine of this file is the one the SDK's
  decimals use, so the record \<open>ref_dec\<close> built from it discharges the contract of
  \<open>sdk_decimal\<close>; the witnesses of the development compute with it.
\<close>

datatype common_error = SqrtPanic | TooMuchPrecision | RepeatPanic


section \<open>Bankers' rounding\<close>

definition fivePrecision :: int where
  "fivePrecision = go_quo PREC 2"

definition chop_nonneg :: "int \<Rightarrow> int" where
  "chop_nonneg d =
     (let quo = go_quo d PREC; rem = d - quo * PREC in
      if rem = 0 then quo
      else if rem < fivePrecision then quo
      else if fivePrecision < rem then quo + 1
      else if even quo then quo
      else quo + 1)"

definition ChopPrecisionAndRound :: "int \<Rightarrow> int" where
  "ChopPrecisionAndRound d =
     (if d < 0 then - chop_nonneg (- d) else chop_nonneg d)"

lemma fivePrecision_eq: "2 * fivePrecision = PREC"
  by (simp add: fivePrecision_def PREC_def go_quo_def)

lemma chop_nonneg_nearest:
  assumes "0 \<le> d"
  shows "2 * \<bar>chop_nonneg d * PREC - d\<bar> \<le> PREC"
proof -
  define q r where "q = d div PREC" and "r = d - q * PREC"
  have d: "d = q * PREC + r" and r0: "0 \<le> r" and r1: "r < PREC"
    by (simp_all add: q_def r_def minus_div_mult_eq_mod)
  have c: "chop_nonneg d \<in> {q, q + 1}"
    and lo: "chop_nonneg d = q \<Longrightarrow> 2 * r \<le> PREC"
    and hi: "chop_nonneg d = q + 1 \<Longrightarrow> PREC \<le> 2 * r"
    using assms r0 fivePrecision_eq PREC_pos
    by (auto simp: chop_nonneg_def go_quo_nonneg Let_def q_def r_def
        split: if_splits)
  from c consider "chop_nonneg d = q" | "chop_nonneg d = q + 1" by blast
  then show ?thesis
  proof cases
    case 1 then show ?thesis using lo r0 d by simp
  next
    case 2
    then have "chop_nonneg d * PREC - d = PREC - r" using d by (simp add: algebra_simps)
    then show ?thesis using hi [OF 2] r1 by simp
  qed
qed

lemma chop_nearest: "2 * \<bar>ChopPrecisionAndRound d * PREC - d\<bar> \<le> PREC"
proof (cases "d < 0")
  case True
  have "ChopPrecisionAndRound d * PREC - d = - (chop_nonneg (- d) * PREC - (- d))"
    using True by (simp add: ChopPrecisionAndRound_def)
  then show ?thesis using True chop_nonneg_nearest [of "- d"] by (simp only: abs_minus_cancel)
next
  case False
  then show ?thesis using chop_nonneg_nearest [of d] by (simp add: ChopPrecisionAndRound_def)
qed

lemma chop_nonneg_0 [simp]: "chop_nonneg 0 = 0"
  by (simp add: chop_nonneg_def go_quo_def)

lemma chop_minus: "ChopPrecisionAndRound (- d) = - ChopPrecisionAndRound d"
  by (auto simp: ChopPrecisionAndRound_def)

text \<open>A value that is nearest on both sides is monotone as soon as ties are resolved alike.\<close>

lemma chop_mono:
  assumes "d \<le> e"
  shows "ChopPrecisionAndRound d \<le> ChopPrecisionAndRound e"
proof (rule ccontr)
  let ?c = ChopPrecisionAndRound
  assume "\<not> ?c d \<le> ?c e"
  then have gt: "?c e + 1 \<le> ?c d" by simp
  then have m: "?c e * PREC + PREC \<le> ?c d * PREC"
    using mult_right_mono [of "?c e + 1" "?c d" PREC] PREC_pos by (simp add: distrib_right)
  have "2 * (?c d * PREC) \<le> 2 * d + PREC" by (rule abs_half_upper [OF chop_nearest])
  moreover have "2 * e - PREC \<le> 2 * (?c e * PREC)" by (rule abs_half_lower [OF chop_nearest])
  ultimately have "d = e" using assms m by simp
  with gt show False by simp
qed


section \<open>The decimal operations built on this rounding\<close>

definition ref_dec :: sdk_dec where
  "ref_dec = \<lparr>
     dec_Mul = (\<lambda>a b. ChopPrecisionAndRound (a * b)),
     dec_Quo = (\<lambda>a b. ChopPrecisionAndRound (go_quo (a * PREC * PREC) b)),
     dec_QuoInt64 = go_quo,
     dec_RoundInt = ChopPrecisionAndRound,
     dec_Ceil = (\<lambda>a. if go_quo a PREC * PREC < a then go_quo a PREC * PREC + PREC
                      else go_quo a PREC * PREC),
     dec_TruncateInt = (\<lambda>a. go_quo a PREC) \<rparr>"

lemma abs_mult_less: "\<bar>x :: int\<bar> < y \<Longrightarrow> 0 < k \<Longrightarrow> \<bar>k * x\<bar> < k * y"
  by (simp add: abs_mult)

lemma ref_quo_near:
  assumes "b \<noteq> 0"
  shows "\<bar>ChopPrecisionAndRound (go_quo (a * PREC * PREC) b) * b - a * PREC\<bar> < \<bar>b\<bar>"
proof -
  define g where "g = go_quo (a * PREC * PREC) b"
  define c where "c = ChopPrecisionAndRound g"
  have c: "2 * \<bar>c * PREC - g\<bar> \<le> PREC" unfolding c_def by (rule chop_nearest)
  have g: "\<bar>a * PREC * PREC - g * b\<bar> < \<bar>b\<bar>" unfolding g_def by (rule go_quo_remainder [OF assms])
  have "2 * \<bar>(c * PREC - g) * b\<bar> \<le> PREC * \<bar>b\<bar>"
    using mult_right_mono [OF c, of "\<bar>b\<bar>"] by (simp add: abs_mult mult.assoc)
  moreover have "PREC * (c * b - a * PREC) = (c * PREC - g) * b - (a * PREC * PREC - g * b)"
    by (simp add: algebra_simps)
  then have "\<bar>PREC * (c * b - a * PREC)\<bar> \<le> \<bar>(c * PREC - g) * b\<bar> + \<bar>a * PREC * PREC - g * b\<bar>"
    by (metis abs_triangle_ineq4)
  ultimately have "2 * \<bar>PREC * (c * b - a * PREC)\<bar> < PREC * \<bar>b\<bar> + 2 * \<bar>b\<bar>" using g by linarith
  moreover have "PREC * \<bar>b\<bar> + 2 * \<bar>b\<bar> \<le> 2 * (PREC * \<bar>b\<bar>)"
    using mult_right_mono [of 2 PREC "\<bar>b\<bar>"] by (simp add: PREC_def)
  moreover have "\<bar>PREC * (c * b - a * PREC)\<bar> = PREC * \<bar>c * b - a * PREC\<bar>" by (simp add: abs_mult)
  ultimately have "PREC * \<bar>c * b - a * PREC\<bar> < PREC * \<bar>b\<bar>" by linarith
  then show ?thesis by (simp add: c_def g_def)
qed

interpretation ref: sdk_decimal "dec_Mul ref_dec" "dec_Quo ref_dec" "dec_QuoInt64 ref_dec"
    "dec_RoundInt ref_dec" "dec_Ceil ref_dec" "dec_TruncateInt ref_dec"
proof (unfold_locales, goal_cases)
  case (1 a b) show ?case by (simp add: ref_dec_def chop_nearest)
next
  case (2 a b) show ?case by (simp add: ref_dec_def mult.commute)
next
  case (3 a b) show ?case using chop_minus [of "a * b"] by (simp add: ref_dec_def)
next
  case (4 a a' b) then show ?case by (simp add: ref_dec_def chop_mono mult_right_mono)
next
  case (5 b a) then show ?case by (simp add: ref_dec_def ref_quo_near)
next
  case (6 a a' b)
  then have "a * PREC * PREC \<le> a' * PREC * PREC" by (simp add: PREC_def)
  with 6 show ?case by (simp add: ref_dec_def chop_mono go_quo_mono)
next
  case (7 n a) then show ?case by (simp add: ref_dec_def go_quo_remainder)
next
  case (8 a) show ?case by (simp add: ref_dec_def chop_nearest)
next
  case (9 a) show ?case by (simp add: ref_dec_def chop_minus)
next
  case (10 a a') then show ?case by (simp add: ref_dec_def chop_mono)
next
  case (11 a) show ?case using go_quo_remainder [of PREC a] by (auto simp: ref_dec_def)
next
  case (12 a) show ?case using go_quo_remainder [of PREC a] by (simp add: ref_dec_def)
qed

lemma ref_dec_laws: "dec_laws ref_dec"
  unfolding dec_laws_def by (rule ref.sdk_decimal_axioms)


section \<open>Square roots\<close>

text \<open>\<open>big.Int.Sqrt\<close> is the integer part of the square root; it panics on a negative number.\<close>

function isqrt :: "int \<Rightarrow> int" where
  "isqrt n = (if n \<le> 0 then 0
     else let r = 2 * isqrt (n div 4) in if (r + 1) * (r + 1) \<le> n then r + 1 else r)"
  by pat_completeness auto
termination
  by (relation "measure nat") auto

declare isqrt.simps [simp del]

definition MustSqrtBigInt :: "int \<Rightarrow> common_error + int" where
  "MustSqrtBigInt i = (if i < 0 then Inl SqrtPanic else Inr (isqrt i))"

definition calcPrecisionMultiplier :: "int \<Rightarrow> common_error + int" where
  "calcPrecisionMultiplier prec =
     (if prec > 9 then Inl TooMuchPrecision else Inr (10 ^ nat (9 - prec)))"

definition PRECISION_MULT :: int where
  "PRECISION_MULT = (case calcPrecisionMultiplier 0 of Inr m \<Rightarrow> m | Inl _ \<Rightarrow> 0)"

definition BigIntPow10 :: "int \<Rightarrow> common_error + int" where
  "BigIntPow10 pow = (if pow < 0 then Inl RepeatPanic else Inr (10 ^ nat pow))"

definition MustSqrtDec :: "'z sdk_dec_scheme \<Rightarrow> dec \<Rightarrow> common_error + dec" where
  "MustSqrtDec E d = bindE (MustSqrtBigInt d)
     (\<lambda>s. Inr (dec_Quo E (NewDec s) (NewDec PRECISION_MULT)))"

text \<open>\<open>SqrtDec\<close> and \<open>SqrtBigInt\<close> run the panicking version under \<open>TryCatch\<close>, so the panic
  becomes the error they return.\<close>

definition TryCatch :: "common_error + 'a \<Rightarrow> common_error + 'a" where
  "TryCatch callback = (case callback of Inl p \<Rightarrow> Inl p | Inr x \<Rightarrow> Inr x)"

definition SqrtDec :: "'z sdk_dec_scheme \<Rightarrow> dec \<Rightarrow> common_error + dec" where
  "SqrtDec E d = TryCatch (MustSqrtDec E d)"

definition SqrtBigInt :: "int \<Rightarrow> common_error + int" where
  "SqrtBigInt i = TryCatch (MustSqrtBigInt i)"

lemma PRECISION_MULT_eq: "PRECISION_MULT = 1000000000"
  by (simp add: PRECISION_MULT_def calcPrecisionMultiplier_def)

lemma isqrt_nonneg: "0 \<le> isqrt n"
  by (induction n rule: isqrt.induct) (simp add: isqrt.simps Let_def)

lemma isqrt_spec: "0 \<le> n \<Longrightarrow> isqrt n * isqrt n \<le> n \<and> n < (isqrt n + 1) * (isqrt n + 1)"
proof (induction n rule: isqrt.induct)
  case (1 n)
  show ?case
  proof (cases "n = 0")
    case True then show ?thesis by (simp add: isqrt.simps [of 0])
  next
    case False
    define s where "s = isqrt (n div 4)"
    have IH: "s * s \<le> n div 4" "n div 4 < (s + 1) * (s + 1)" using "1.IH" "1.prems" False by (simp_all add: s_def)
    have eq: "isqrt n = (if (2 * s + 1) * (2 * s + 1) \<le> n then 2 * s + 1 else 2 * s)"
      using False "1.prems" by (simp add: isqrt.simps [of n] s_def Let_def)
    have "4 * (s * s) \<le> n" using IH(1) by linarith
    moreover have "n < 4 * ((s + 1) * (s + 1))" using IH(2) by linarith
    ultimately show ?thesis by (auto simp: eq algebra_simps)
  qed
qed

lemma MustSqrtDec_eq:
  assumes "dec_laws E" and "0 \<le> d"
  shows "MustSqrtDec E d = Inr (isqrt d * PRECISION_MULT)"
proof -
  let ?s = "isqrt d"
  have P: "NewDec PRECISION_MULT \<noteq> 0" by (simp add: NewDec_def PRECISION_MULT_eq)
  have "NewDec PRECISION_MULT dvd NewDec ?s * PREC"
    by (rule dvdI [of _ _ "?s * PRECISION_MULT"]) (simp add: NewDec_def PRECISION_MULT_eq PREC_def)
  then have "dec_Quo E (NewDec ?s) (NewDec PRECISION_MULT) * NewDec PRECISION_MULT = NewDec ?s * PREC"
    by (rule sdk_decimal.quo_exact [OF dec_lawsD [OF assms(1)] P])
  also have "\<dots> = (?s * PRECISION_MULT) * NewDec PRECISION_MULT"
    by (simp add: NewDec_def PRECISION_MULT_eq PREC_def)
  finally have "dec_Quo E (NewDec ?s) (NewDec PRECISION_MULT) = ?s * PRECISION_MULT" using P by simp
  then show ?thesis using assms(2) by (simp add: MustSqrtDec_def MustSqrtBigInt_def)
qed

end
