(* ===== verification/Asset_Pair.thy ===== *)
theory Asset_Pair
  imports Nibiru_Prelude
begin

text \<open>
  \<^verbatim>\<open>x/common/asset/pair.go\<close>: asset pairs are strings \<open>base:quote\<close>.  \<open>strings.Split\<close> is
  modelled by \<open>split_at\<close>; indexing its result out of range is the panic \<open>IndexOutOfRange\<close>.
  The denomination check \<open>sdk.ValidateDenom\<close> is the parameter \<open>vd\<close>.
\<close>

type_synonym pair = string

datatype asset_error = ErrInvalidTokenPair | DuplicatePair | IndexOutOfRange

fun split_at :: "char \<Rightarrow> string \<Rightarrow> string list" where
  "split_at c [] = [[]]"
| "split_at c (x # xs) =
     (if x = c then [] # split_at c xs
      else case split_at c xs of [] \<Rightarrow> [[x]] | y # ys \<Rightarrow> (x # y) # ys)"

abbreviation colon :: char where "colon \<equiv> CHR '':''"

definition NewPair :: "string \<Rightarrow> string \<Rightarrow> pair" where
  "NewPair base quote = base @ [colon] @ quote"

definition BaseDenom :: "pair \<Rightarrow> asset_error + string" where
  "BaseDenom pair = (case split_at colon pair of b # _ \<Rightarrow> Inr b | [] \<Rightarrow> Inl IndexOutOfRange)"

definition QuoteDenom :: "pair \<Rightarrow> asset_error + string" where
  "QuoteDenom pair = (case split_at colon pair of _ # q # _ \<Rightarrow> Inr q | _ \<Rightarrow> Inl IndexOutOfRange)"

definition Inverse :: "pair \<Rightarrow> asset_error + pair" where
  "Inverse pair = bindE (QuoteDenom pair) (\<lambda>q. bindE (BaseDenom pair) (\<lambda>b. Inr (NewPair q b)))"

definition Pair_Validate :: "(string \<Rightarrow> bool) \<Rightarrow> pair \<Rightarrow> asset_error + unit" where
  "Pair_Validate vd pair =
     (case split_at colon pair of
        [b, q] \<Rightarrow> bindE (checkE (vd b) ErrInvalidTokenPair) (\<lambda>_.
                   checkE (vd q) ErrInvalidTokenPair)
      | _ \<Rightarrow> Inl ErrInvalidTokenPair)"

definition TryNewPair :: "(string \<Rightarrow> bool) \<Rightarrow> string \<Rightarrow> asset_error + pair" where
  "TryNewPair vd pair =
     (case split_at colon pair of
        [b, q] \<Rightarrow>
          (if b = [] \<or> q = [] then Inl ErrInvalidTokenPair
           else bindE (Pair_Validate vd (NewPair b q)) (\<lambda>_. Inr (NewPair b q)))
      | _ \<Rightarrow> Inl ErrInvalidTokenPair)"

fun News :: "(string \<Rightarrow> bool) \<Rightarrow> string list \<Rightarrow> asset_error + pair list" where
  "News vd [] = Inr []"
| "News vd (s # ss) = bindE (TryNewPair vd s) (\<lambda>p. bindE (News vd ss) (\<lambda>ps. Inr (p # ps)))"

fun Pairs_Contains :: "pair list \<Rightarrow> pair \<Rightarrow> bool" where
  "Pairs_Contains [] needle = False"
| "Pairs_Contains (p # ps) needle = (if p = needle then True else Pairs_Contains ps needle)"

fun Pairs_Validate_from :: "(string \<Rightarrow> bool) \<Rightarrow> pair list \<Rightarrow> pair list \<Rightarrow> asset_error + unit" where
  "Pairs_Validate_from vd seen [] = Inr ()"
| "Pairs_Validate_from vd seen (p # ps) =
     (if p \<in> set seen then Inl DuplicatePair
      else bindE (Pair_Validate vd p) (\<lambda>_. Pairs_Validate_from vd (p # seen) ps))"

definition Pairs_Validate :: "(string \<Rightarrow> bool) \<Rightarrow> pair list \<Rightarrow> asset_error + unit" where
  "Pairs_Validate vd ps = Pairs_Validate_from vd [] ps"


section \<open>Splitting and joining\<close>

fun join_with :: "char \<Rightarrow> string list \<Rightarrow> string" where
  "join_with c [] = []"
| "join_with c [s] = s"
| "join_with c (s # ss) = s @ [c] @ join_with c ss"

lemma split_at_nonempty [simp]: "split_at c s \<noteq> []"
  by (induction s) (auto split: list.splits)

lemma join_split: "join_with c (split_at c s) = s"
proof (induction s)
  case (Cons x s)
  obtain y ys where "split_at c s = y # ys" by (cases "split_at c s") auto
  with Cons show ?case by (cases ys) auto
qed simp

lemma split_at_free: "c \<notin> set s \<Longrightarrow> split_at c s = [s]"
  by (induction s) auto

lemma split_at_append: "c \<notin> set s \<Longrightarrow> split_at c (s @ c # t) = s # split_at c t"
  by (induction s) auto

lemma split_at_pieces: "p \<in> set (split_at c s) \<Longrightarrow> c \<notin> set p"
proof (induction s arbitrary: p)
  case (Cons x s)
  obtain y ys where "split_at c s = y # ys" by (cases "split_at c s") auto
  with Cons show ?case by (auto split: if_splits)
qed simp

lemma split_at_pairD:
  assumes "split_at colon s = [b, q]"
  shows "s = NewPair b q" and "colon \<notin> set b" and "colon \<notin> set q"
  using assms join_split [of colon s] split_at_pieces [of _ colon s]
  by (auto simp: NewPair_def)

lemma split_at_NewPair:
  "colon \<notin> set b \<Longrightarrow> colon \<notin> set q \<Longrightarrow> split_at colon (NewPair b q) = [b, q]"
  by (simp add: NewPair_def split_at_append split_at_free)

lemma denoms_NewPair:
  assumes "colon \<notin> set b" and "colon \<notin> set q"
  shows "BaseDenom (NewPair b q) = Inr b" and "QuoteDenom (NewPair b q) = Inr q"
  using assms by (simp_all add: BaseDenom_def QuoteDenom_def split_at_NewPair)

lemma Pair_Validate_iff:
  "Pair_Validate vd p = Inr () \<longleftrightarrow>
     (\<exists>b q. p = NewPair b q \<and> colon \<notin> set b \<and> colon \<notin> set q \<and> vd b \<and> vd q)"
proof
  assume "Pair_Validate vd p = Inr ()"
  then obtain b q where s: "split_at colon p = [b, q]" and "vd b" "vd q"
    by (auto simp: Pair_Validate_def bindE_eq_Inr split: list.splits)
  then show "\<exists>b q. p = NewPair b q \<and> colon \<notin> set b \<and> colon \<notin> set q \<and> vd b \<and> vd q"
    using split_at_pairD [OF s] by blast
next
  assume "\<exists>b q. p = NewPair b q \<and> colon \<notin> set b \<and> colon \<notin> set q \<and> vd b \<and> vd q"
  then show "Pair_Validate vd p = Inr ()"
    by (auto simp: Pair_Validate_def split_at_NewPair)
qed

lemma TryNewPair_Inr: "TryNewPair vd s = Inr p \<Longrightarrow> p = s \<and> Pair_Validate vd p = Inr ()"
proof -
  assume t: "TryNewPair vd s = Inr p"
  then obtain b q where s: "split_at colon s = [b, q]" and "p = NewPair b q"
      and "Pair_Validate vd (NewPair b q) = Inr ()"
    by (auto simp: TryNewPair_def bindE_eq_Inr split: list.splits if_splits)
  then show ?thesis using split_at_pairD(1) [OF s] by simp
qed

lemma Pairs_Contains_iff: "Pairs_Contains ps p \<longleftrightarrow> p \<in> set ps"
  by (induction ps) auto

lemma Pairs_Validate_from_iff:
  "Pairs_Validate_from vd seen ps = Inr () \<longleftrightarrow>
     distinct ps \<and> set ps \<inter> set seen = {} \<and> (\<forall>p \<in> set ps. Pair_Validate vd p = Inr ())"
  by (induction ps arbitrary: seen) (auto simp: bindE_eq_Inr)

end
