(* ===== verification/Sdk_Bank.thy ===== *)
theory Sdk_Bank
  imports Sdk_Decimal Asset_Pair
begin

text \<open>
  The keepers call other SDK modules through the interfaces of
  \<^verbatim>\<open>expected_keepers.go\<close>: coins, addresses and the bank.  Those modules are not part of
  the repository, so their operations are the fields of the record \<open>sdk\<close> (which extends the
  decimal operations), over a bank state of an arbitrary type.  Every transfer in the modelled
  code carries exactly one coin.  The contract of the bank is the locale \<open>bank_keeper\<close>; it is
  interpreted on a ledger of balances, the instance the witnesses compute with.
\<close>

type_synonym denom = string
type_synonym addr = string

record coin =
  Denom :: denom
  Amount :: int

record 'b sdk = sdk_dec +
  ValidateDenom :: "string \<Rightarrow> bool"
  NewCoin :: "denom \<Rightarrow> int \<Rightarrow> coin option"
  AccAddressFromBech32 :: "string \<Rightarrow> addr option"
  AccAddressString :: "addr \<Rightarrow> string"
  GetModuleAddress :: "string \<Rightarrow> addr"
  GetBalance :: "'b \<Rightarrow> addr \<Rightarrow> denom \<Rightarrow> int"
  SendCoinsFromAccountToModule :: "'b \<Rightarrow> addr \<Rightarrow> string \<Rightarrow> coin \<Rightarrow> string + 'b"
  SendCoinsFromModuleToAccount :: "'b \<Rightarrow> string \<Rightarrow> addr \<Rightarrow> coin \<Rightarrow> string + 'b"
  SendCoinsFromModuleToModule :: "'b \<Rightarrow> string \<Rightarrow> string \<Rightarrow> coin \<Rightarrow> string + 'b"

text \<open>The balances after one coin has moved from one account to another.\<close>

definition transfer :: "addr \<Rightarrow> addr \<Rightarrow> coin \<Rightarrow> (addr \<Rightarrow> denom \<Rightarrow> int) \<Rightarrow> addr \<Rightarrow> denom \<Rightarrow> int" where
  "transfer src dst c bal a d =
     bal a d + (if d = Denom c then (if a = dst then Amount c else 0) - (if a = src then Amount c else 0)
                else 0)"

locale bank_keeper =
  fixes bal :: "'b \<Rightarrow> addr \<Rightarrow> denom \<Rightarrow> int"
    and modAddr :: "string \<Rightarrow> addr"
    and a2m :: "'b \<Rightarrow> addr \<Rightarrow> string \<Rightarrow> coin \<Rightarrow> string + 'b"
    and m2a :: "'b \<Rightarrow> string \<Rightarrow> addr \<Rightarrow> coin \<Rightarrow> string + 'b"
    and m2m :: "'b \<Rightarrow> string \<Rightarrow> string \<Rightarrow> coin \<Rightarrow> string + 'b"
  assumes a2m_ok: "a2m b a m c = Inr b' \<Longrightarrow>
      bal b' = transfer a (modAddr m) c (bal b) \<and> Amount c \<le> bal b a (Denom c)"
    and m2a_ok: "m2a b m a c = Inr b' \<Longrightarrow>
      bal b' = transfer (modAddr m) a c (bal b) \<and> Amount c \<le> bal b (modAddr m) (Denom c)"
    and m2m_ok: "m2m b m n c = Inr b' \<Longrightarrow>
      bal b' = transfer (modAddr m) (modAddr n) c (bal b) \<and> Amount c \<le> bal b (modAddr m) (Denom c)"
    and m2m_enough: "0 \<le> Amount c \<Longrightarrow> Amount c \<le> bal b (modAddr m) (Denom c) \<Longrightarrow>
      \<exists>b'. m2m b m n c = Inr b'"
begin

lemma m2m_short: "bal b (modAddr m) (Denom c) < Amount c \<Longrightarrow> \<exists>e. m2m b m n c = Inl e"
  by (cases "m2m b m n c") (auto dest: m2m_ok)

lemma m2m_moves:
  assumes "m2m b m n c = Inr b'" and "modAddr m \<noteq> modAddr n"
  shows "bal b' (modAddr m) (Denom c) = bal b (modAddr m) (Denom c) - Amount c"
    and "bal b' (modAddr n) (Denom c) = bal b (modAddr n) (Denom c) + Amount c"
    and "a \<noteq> modAddr m \<Longrightarrow> a \<noteq> modAddr n \<Longrightarrow> bal b' a d = bal b a d"
    and "d \<noteq> Denom c \<Longrightarrow> bal b' a d = bal b a d"
  using m2m_ok [OF assms(1)] assms(2) by (auto simp: transfer_def)

lemma m2a_moves:
  assumes "m2a b m a c = Inr b'" and "modAddr m \<noteq> a"
  shows "bal b' (modAddr m) (Denom c) = bal b (modAddr m) (Denom c) - Amount c"
    and "bal b' a (Denom c) = bal b a (Denom c) + Amount c"
    and "x \<noteq> modAddr m \<Longrightarrow> x \<noteq> a \<Longrightarrow> bal b' x d = bal b x d"
  using m2a_ok [OF assms(1)] assms(2) by (auto simp: transfer_def)

lemma a2m_moves:
  assumes "a2m b a m c = Inr b'" and "modAddr m \<noteq> a"
  shows "bal b' (modAddr m) (Denom c) = bal b (modAddr m) (Denom c) + Amount c"
    and "bal b' a (Denom c) = bal b a (Denom c) - Amount c"
    and "x \<noteq> modAddr m \<Longrightarrow> x \<noteq> a \<Longrightarrow> bal b' x d = bal b x d"
  using a2m_ok [OF assms(1)] assms(2) by (auto simp: transfer_def)

end

definition bank_laws :: "'b sdk \<Rightarrow> bool" where
  "bank_laws E \<longleftrightarrow> bank_keeper (GetBalance E) (GetModuleAddress E)
     (SendCoinsFromAccountToModule E) (SendCoinsFromModuleToAccount E) (SendCoinsFromModuleToModule E)"

lemma bank_lawsD: "bank_laws E \<Longrightarrow> bank_keeper (GetBalance E) (GetModuleAddress E)
     (SendCoinsFromAccountToModule E) (SendCoinsFromModuleToAccount E) (SendCoinsFromModuleToModule E)"
  by (simp add: bank_laws_def)

text \<open>\<open>sdk.NewCoin\<close> builds the coin it is asked for and panics on a negative amount.\<close>

definition coin_laws :: "'b sdk \<Rightarrow> bool" where
  "coin_laws E \<longleftrightarrow> (\<forall>d n c. NewCoin E d n = Some c \<longrightarrow> 0 \<le> n \<and> Denom c = d \<and> Amount c = n)"

lemma coin_lawsD:
  "coin_laws E \<Longrightarrow> NewCoin E d n = Some c \<Longrightarrow> 0 \<le> n \<and> Denom c = d \<and> Amount c = n"
  by (auto simp: coin_laws_def)

text \<open>Bech32 decoding is the inverse of encoding.\<close>

definition addr_laws :: "'b sdk \<Rightarrow> bool" where
  "addr_laws E \<longleftrightarrow> (\<forall>a. AccAddressFromBech32 E (AccAddressString E a) = Some a)"


section \<open>A ledger as the bank\<close>

type_synonym ledger = "addr \<Rightarrow> denom \<Rightarrow> int"

definition ledger_send :: "ledger \<Rightarrow> addr \<Rightarrow> addr \<Rightarrow> coin \<Rightarrow> string + ledger" where
  "ledger_send b src dst c =
     (if b src (Denom c) < Amount c then Inl ''insufficient funds'' else Inr (transfer src dst c b))"

definition ledger_module :: "string \<Rightarrow> addr" where
  "ledger_module name = ''module/'' @ name"

interpretation ledger: bank_keeper "\<lambda>b. b" ledger_module
    "\<lambda>b a m. ledger_send b a (ledger_module m)"
    "\<lambda>b m a. ledger_send b (ledger_module m) a"
    "\<lambda>b m n. ledger_send b (ledger_module m) (ledger_module n)"
  by unfold_locales (auto simp: ledger_send_def split: if_splits)

end
