(* ===== verification/KV_Store.thy ===== *)
theory KV_Store
  imports Nibiru_Prelude
begin

text \<open>
  The keepers keep their state in ordered key-value collections
  (\<open>collections.Map\<close>: \<open>Get\<close>, \<open>Insert\<close>, \<open>Delete\<close> and iteration in key order).  A collection is
  modelled as an association list whose keys are strictly increasing; the interface the
  keepers rely on is the locale \<open>kv_collection\<close>, interpreted here on that representation.
\<close>

type_synonym ('k, 'v) kv = "('k \<times> 'v) list"

fun kv_insert :: "'k::linorder \<Rightarrow> 'v \<Rightarrow> ('k, 'v) kv \<Rightarrow> ('k, 'v) kv" where
  "kv_insert k v [] = [(k, v)]"
| "kv_insert k v ((k', v') # xs) =
     (if k < k' then (k, v) # (k', v') # xs
      else if k = k' then (k, v) # xs
      else (k', v') # kv_insert k v xs)"

fun kv_delete :: "'k::linorder \<Rightarrow> ('k, 'v) kv \<Rightarrow> ('k, 'v) kv" where
  "kv_delete k [] = []"
| "kv_delete k ((k', v') # xs) = (if k = k' then xs else (k', v') # kv_delete k xs)"

abbreviation kv_get :: "('k, 'v) kv \<Rightarrow> 'k \<Rightarrow> 'v option" where
  "kv_get \<equiv> map_of"

definition kv_wf :: "('k::linorder, 'v) kv \<Rightarrow> bool" where
  "kv_wf xs \<longleftrightarrow> sorted_wrt (<) (map fst xs)"

abbreviation kv_values :: "('k, 'v) kv \<Rightarrow> 'v list" where
  "kv_values \<equiv> map snd"

lemma kv_wf_Nil [simp]: "kv_wf []"
  by (simp add: kv_wf_def)

lemma kv_wf_Cons [simp]: "kv_wf (x # xs) \<longleftrightarrow> (\<forall>k \<in> fst ` set xs. fst x < k) \<and> kv_wf xs"
  by (auto simp: kv_wf_def)

lemma kv_wf_distinct: "kv_wf xs \<Longrightarrow> distinct (map fst xs)"
  by (induction xs) auto

lemma kv_get_insert [simp]: "kv_get (kv_insert k v xs) = (kv_get xs)(k \<mapsto> v)"
  by (induction k v xs rule: kv_insert.induct) (auto simp: fun_eq_iff)

lemma keys_kv_insert [simp]: "fst ` set (kv_insert k v xs) = insert k (fst ` set xs)"
  by (induction k v xs rule: kv_insert.induct) auto

lemma kv_wf_insert [simp, intro]: "kv_wf xs \<Longrightarrow> kv_wf (kv_insert k v xs)"
  by (induction k v xs rule: kv_insert.induct) force+

lemma set_kv_delete: "x \<in> set (kv_delete k xs) \<Longrightarrow> x \<in> set xs"
  by (induction k xs rule: kv_delete.induct) (auto split: if_splits)

lemma kv_wf_delete [simp, intro]: "kv_wf xs \<Longrightarrow> kv_wf (kv_delete k xs)"
  by (induction k xs rule: kv_delete.induct) (auto dest!: set_kv_delete)

lemma kv_get_below: "\<forall>x \<in> set xs. (k :: 'k::linorder) < fst x \<Longrightarrow> kv_get xs k = None"
  by (force simp: map_of_eq_None_iff)

lemma kv_get_delete: "kv_wf xs \<Longrightarrow> kv_get (kv_delete k xs) = (kv_get xs)(k := None)"
  by (induction k xs rule: kv_delete.induct) (auto simp: fun_eq_iff kv_get_below)

lemma kv_delete_absent: "kv_get xs k = None \<Longrightarrow> kv_delete k xs = xs"
  by (induction k xs rule: kv_delete.induct) (auto split: if_splits)


text \<open>A collection is determined by what its keys map to.\<close>

lemma kv_ext:
  assumes wf: "kv_wf xs" "kv_wf ys" and eq: "kv_get xs = kv_get ys"
  shows "xs = ys"
proof -
  have d: "distinct (map fst xs)" "distinct (map fst ys)" using wf by (simp_all add: kv_wf_distinct)
  have "set (map fst xs) = set (map fst ys)" using arg_cong [OF eq, of dom] by (simp add: dom_map_of_conv_image_fst)
  moreover have "sorted (map fst xs)" "sorted (map fst ys)"
    using wf by (simp_all add: kv_wf_def strict_sorted_iff)
  ultimately have k: "map fst xs = map fst ys" using d sorted_distinct_set_unique by blast
  have "map (\<lambda>k. (k, the (kv_get zs k))) (map fst zs) = zs" if "distinct (map fst zs)" for zs :: "('a \<times> 'b) list"
    using that by (auto intro!: map_idI)
  then show ?thesis using d k eq by metis
qed


section \<open>Aggregates over a collection\<close>

text \<open>
  The sum of a quantity over the entries of a collection, and how insertion and deletion
  change it: this is what global accounting invariants over a collection rest on.
\<close>

definition kv_sum :: "('k \<Rightarrow> 'v \<Rightarrow> int) \<Rightarrow> ('k, 'v) kv \<Rightarrow> int" where
  "kv_sum f xs = sum_list (map (\<lambda>(k, v). f k v) xs)"

definition kv_at :: "('k \<Rightarrow> 'v \<Rightarrow> int) \<Rightarrow> ('k, 'v) kv \<Rightarrow> 'k \<Rightarrow> int" where
  "kv_at f xs k = (case kv_get xs k of None \<Rightarrow> 0 | Some v \<Rightarrow> f k v)"

lemma kv_sum_simps [simp]:
  "kv_sum f [] = 0" "kv_sum f ((k, v) # xs) = f k v + kv_sum f xs"
  by (simp_all add: kv_sum_def)

lemma kv_sum_insert:
  "kv_wf xs \<Longrightarrow> kv_sum f (kv_insert k v xs) = kv_sum f xs - kv_at f xs k + f k v"
proof (induction k v xs rule: kv_insert.induct)
  case (1 k v)
  then show ?case by (simp add: kv_at_def)
next
  case (2 k v k' v' xs)
  consider "k < k'" | "k = k'" | "k' < k" by fastforce
  then show ?case
  proof cases
    case 1
    then have "kv_get xs k = None" using 2(2) by (force simp: map_of_eq_None_iff)
    with 1 show ?thesis by (auto simp: kv_at_def)
  next
    case 2
    then show ?thesis by (simp add: kv_at_def)
  next
    case 3
    then have "kv_sum f (kv_insert k v xs) = kv_sum f xs - kv_at f xs k + f k v"
      using "2.IH" "2.prems" by auto
    with 3 show ?thesis by (auto simp: kv_at_def)
  qed
qed

lemma kv_sum_delete: "kv_wf xs \<Longrightarrow> kv_sum f (kv_delete k xs) = kv_sum f xs - kv_at f xs k"
proof (induction k xs rule: kv_delete.induct)
  case (1 k)
  then show ?case by (simp add: kv_at_def)
next
  case (2 k k' v' xs)
  then show ?case by (auto simp: kv_at_def)
qed


section \<open>The interface of a collection\<close>

locale kv_collection =
  fixes get :: "'s \<Rightarrow> 'k \<Rightarrow> 'v option"
    and ins :: "'k \<Rightarrow> 'v \<Rightarrow> 's \<Rightarrow> 's"
    and del :: "'k \<Rightarrow> 's \<Rightarrow> 's"
    and total :: "('k \<Rightarrow> 'v \<Rightarrow> int) \<Rightarrow> 's \<Rightarrow> int"
    and wf :: "'s \<Rightarrow> bool"
  assumes get_ins: "get (ins k v s) = (get s)(k \<mapsto> v)"
    and get_del: "wf s \<Longrightarrow> get (del k s) = (get s)(k := None)"
    and wf_ins: "wf s \<Longrightarrow> wf (ins k v s)"
    and wf_del: "wf s \<Longrightarrow> wf (del k s)"
    and total_ins: "wf s \<Longrightarrow>
      total f (ins k v s) = total f s - (case get s k of None \<Rightarrow> 0 | Some w \<Rightarrow> f k w) + f k v"
    and total_del: "wf s \<Longrightarrow>
      total f (del k s) = total f s - (case get s k of None \<Rightarrow> 0 | Some w \<Rightarrow> f k w)"
begin

lemma ins_same: "get (ins k v s) k = Some v"
  by (simp add: get_ins)

lemma ins_other: "k' \<noteq> k \<Longrightarrow> get (ins k v s) k' = get s k'"
  by (simp add: get_ins)

lemma ins_overwrite: "get (ins k w (ins k v s)) = get (ins k w s)"
  by (simp add: get_ins)

lemma total_replace:
  assumes "wf s" and "get s k = Some w"
  shows "total f (ins k v s) = total f s + (f k v - f k w)"
  using assms by (simp add: total_ins)

lemma total_fresh:
  assumes "wf s" and "get s k = None"
  shows "total f (ins k v s) = total f s + f k v"
  using assms by (simp add: total_ins)

lemma total_ins_del: "wf s \<Longrightarrow> total f (ins k v (del k s)) = total f (ins k v s)"
  by (simp add: total_ins total_del wf_del get_del)

end

interpretation kv: kv_collection map_of kv_insert kv_delete kv_sum kv_wf
  by unfold_locales
    (simp_all add: kv_get_delete kv_sum_insert kv_sum_delete kv_at_def)

lemma kv_wf_filter: "kv_wf xs \<Longrightarrow> kv_wf (filter P xs)"
  by (induction xs) auto

end
