(* ===== verification/Perp_Types.thy ===== *)
theory Perp_Types
  imports Common_Dec Sdk_Bank KV_Store
begin

text \<open>
  The data of the perpetual-futures module (\<^verbatim>\<open>x/perp/types/v2\<close>): markets, AMMs, positions,
  reserve snapshots, the responses of the clearing house, the events it emits, its errors, the
  validation of each of these, and the keeper's state (\<^verbatim>\<open>x/perp/keeper/v2/keeper.go\<close>).  Times are
  nanoseconds since the Unix epoch.  A nil decimal exists only where the code asks for it: such
  an argument is an \<open>option\<close>.
\<close>

datatype Direction = DIRECTION_UNSPECIFIED | LONG | SHORT

datatype TwapCalcOption = TWAP_CALC_OPTION_UNSPECIFIED | SPOT | QUOTE_ASSET_SWAP | BASE_ASSET_SWAP

datatype perp_error =
    ErrQuoteReserveAtZero
  | ErrBaseReserveAtZero
  | ErrOverFluctuationLimit
  | ErrAssetFailsUserLimit
  | ErrNoValidTWAP
  | ErrNonPositiveReserves
  | ErrLiquidityDepth
  | ErrPairNotFound
  | ErrQuoteAmountIsZero
  | ErrLeverageIsZero
  | ErrMarginRatioTooLow
  | ErrLeverageIsTooHigh
  | ErrAllLiquidationsFailed
  | ErrPositionHealthy
  | ErrLiquidityDepthOverflow
  | ErrMarketNotEnabled
  | ErrNonPositivePegMultiplier
  | ErrNonPositiveSwapInvariantMutliplier
  | ErrNilSwapInvariantMutliplier
  | ErrNotEnoughFundToPayAction
  | ErrNotFound
  | ErrBech32
  | ErrAsset asset_error
  | ErrCommon common_error
  | ErrBank string
  | ErrText string
  | Panic string

record amm =
  amm_Pair :: pair
  BaseReserve :: dec
  QuoteReserve :: dec
  SqrtDepth :: dec
  PriceMultiplier :: dec
  TotalLong :: dec
  TotalShort :: dec

record market =
  mkt_Pair :: pair
  Enabled :: bool
  PriceFluctuationLimitRatio :: dec
  MaintenanceMarginRatio :: dec
  MaxLeverage :: dec
  mkt_LatestCumulativePremiumFraction :: dec
  ExchangeFeeRatio :: dec
  EcosystemFundFeeRatio :: dec
  LiquidationFeeRatio :: dec
  PartialLiquidationRatio :: dec
  FundingRateEpochId :: string
  TwapLookbackWindow :: int
  PrepaidBadDebt :: coin

record position =
  TraderAddress :: string
  pos_Pair :: pair
  Size :: dec
  Margin :: dec
  OpenNotional :: dec
  pos_LatestCumulativePremiumFraction :: dec
  LastUpdatedBlockNumber :: int

record reserve_snapshot =
  snap_Amm :: amm
  TimestampMs :: int

record position_resp =
  resp_Position :: position
  ExchangedNotionalValue :: dec
  ExchangedPositionSize :: dec
  BadDebt :: dec
  FundingPaymentApplied :: dec
  RealizedPnl :: dec
  UnrealizedPnlAfter :: dec
  MarginToVault :: dec
  PositionNotional :: dec

record liquidate_resp =
  lr_BadDebt :: int
  FeeToLiquidator :: int
  FeeToPerpEcosystemFund :: int
  lr_Liquidator :: string
  lr_PositionResp :: position_resp


section \<open>Events\<close>

datatype liquidation_failed_reason = POSITION_HEALTHY | NONEXISTENT_PAIR | NONEXISTENT_POSITION

record position_changed_event =
  pce_TraderAddress :: string
  pce_Pair :: pair
  pce_Margin :: coin
  pce_PositionNotional :: dec
  pce_ExchangedNotional :: dec
  pce_ExchangedSize :: dec
  pce_TransactionFee :: coin
  pce_PositionSize :: dec
  pce_RealizedPnl :: dec
  pce_UnrealizedPnlAfter :: dec
  pce_BadDebt :: coin
  pce_FundingPayment :: dec
  pce_BlockHeight :: int
  pce_BlockTimeMs :: int

record position_liquidated_event =
  ple_Pair :: pair
  ple_TraderAddress :: string
  ple_ExchangedQuoteAmount :: dec
  ple_ExchangedPositionSize :: dec
  ple_LiquidatorAddress :: string
  ple_FeeToLiquidator :: coin
  ple_FeeToEcosystemFund :: coin
  ple_BadDebt :: coin
  ple_Margin :: coin
  ple_PositionNotional :: dec
  ple_PositionSize :: dec
  ple_UnrealizedPnl :: dec
  ple_MarkPrice :: dec
  ple_BlockHeight :: int
  ple_BlockTimeMs :: int

record funding_rate_event =
  fre_Pair :: pair
  fre_MarkPrice :: dec
  fre_IndexPrice :: dec
  fre_LatestFundingRate :: dec
  fre_LatestPremiumFraction :: dec
  fre_CumulativePremiumFraction :: dec
  fre_BlockHeight :: int
  fre_BlockTimeMs :: int

text \<open>The margin operations emit the first version of the event, which also has the mark price.\<close>

datatype perp_event =
    PositionChangedEvent position_changed_event
  | PositionChangedEventV1 position_changed_event dec
  | PositionLiquidatedEvent position_liquidated_event
  | LiquidationFailedEvent pair string string liquidation_failed_reason
  | FundingRateChangedEvent funding_rate_event


section \<open>The keeper's state and the block context\<close>

record 'b perp_state =
  Markets :: "(pair, market) kv"
  AMMs :: "(pair, amm) kv"
  Positions :: "(pair \<times> addr, position) kv"
  ReserveSnapshots :: "(pair \<times> int, reserve_snapshot) kv"
  bank :: 'b
  events :: "perp_event list"

record block_ctx =
  BlockHeight :: int
  BlockTime :: int

definition UnixMilli :: "int \<Rightarrow> int" where
  "UnixMilli t = t div 1000000"

definition VaultModuleAccount :: string where "VaultModuleAccount = ''vault''"
definition PerpEFModuleAccount :: string where "PerpEFModuleAccount = ''perp_ef''"
definition FeePoolModuleAccount :: string where "FeePoolModuleAccount = ''fee_pool''"

definition emit :: "perp_event \<Rightarrow> 'b perp_state \<Rightarrow> 'b perp_state" where
  "emit e s = s\<lparr>events := events s @ [e]\<rparr>"

text \<open>Fallible helpers of the environment, with their panics as errors.\<close>

definition quoteDenomE :: "pair \<Rightarrow> perp_error + denom" where
  "quoteDenomE p = mapErr (\<lambda>_. Panic ''index out of range'') (QuoteDenom p)"

definition newCoinE :: "'b sdk \<Rightarrow> denom \<Rightarrow> int \<Rightarrow> perp_error + coin" where
  "newCoinE E d n = getE (Panic ''invalid coin'') (NewCoin E d n)"

definition quoE :: "'z sdk_dec_scheme \<Rightarrow> dec \<Rightarrow> dec \<Rightarrow> perp_error + dec" where
  "quoE E a b = (if b = 0 then Inl (Panic ''division by zero'') else Inr (dec_Quo E a b))"

lemma quoE_eq_Inr [res_simps]: "quoE E a b = Inr c \<longleftrightarrow> b \<noteq> 0 \<and> c = dec_Quo E a b"
  by (auto simp: quoE_def)

lemma emit_sel [simp]:
  "Markets (emit e s) = Markets s" "AMMs (emit e s) = AMMs s" "Positions (emit e s) = Positions s"
  "ReserveSnapshots (emit e s) = ReserveSnapshots s" "bank (emit e s) = bank s"
  "events (emit e s) = events s @ [e]"
  by (simp_all add: emit_def)


section \<open>Validation\<close>

definition AMM_Validate :: "amm \<Rightarrow> perp_error + unit" where
  "AMM_Validate a =
     (if BaseReserve a \<le> 0 then Inl (ErrText ''init pool token supply must be > 0'')
      else if QuoteReserve a \<le> 0 then Inl (ErrText ''init pool token supply must be > 0'')
      else if PriceMultiplier a \<le> 0 then Inl (ErrText ''init price multiplier must be > 0'')
      else if SqrtDepth a \<le> 0 then Inl (ErrText ''init sqrt depth must be > 0'')
      else Inr ())"

definition isPercent :: "dec \<Rightarrow> bool" where
  "isPercent v \<longleftrightarrow> 0 \<le> v \<and> v \<le> OneDec"

definition Market_Validate :: "'z sdk_dec_scheme \<Rightarrow> market \<Rightarrow> perp_error + unit" where
  "Market_Validate E m =
     (if \<not> isPercent (PriceFluctuationLimitRatio m) then Inl (ErrText ''fluctuation limit ratio must be 0 <= ratio <= 1'')
      else if \<not> isPercent (MaintenanceMarginRatio m) then Inl (ErrText ''maintenance margin ratio ratio must be 0 <= ratio <= 1'')
      else if \<not> isPercent (EcosystemFundFeeRatio m) then Inl (ErrText ''ecosystem fund fee ratio must be 0 <= ratio <= 1'')
      else if \<not> isPercent (ExchangeFeeRatio m) then Inl (ErrText ''exchange fee ratio must be 0 <= ratio <= 1'')
      else if \<not> isPercent (LiquidationFeeRatio m) then Inl (ErrText ''liquidation fee ratio must be 0 <= ratio <= 1'')
      else if \<not> isPercent (PartialLiquidationRatio m) then Inl (ErrText ''partial liquidation ratio must be 0 <= ratio <= 1'')
      else if MaxLeverage m \<le> 0 then Inl (ErrText ''max leverage must be > 0'')
      else bindE (quoE E OneDec (MaxLeverage m)) (\<lambda>r.
        if r < MaintenanceMarginRatio m
        then Inl (ErrText ''margin ratio opened with max leverage position will be lower than Maintenance margin ratio'')
        else Inr ()))"

definition Position_Validate :: "'b sdk \<Rightarrow> position \<Rightarrow> perp_error + unit" where
  "Position_Validate E p =
     bindE (getE ErrBech32 (AccAddressFromBech32 E (TraderAddress p))) (\<lambda>_.
     bindE (mapErr ErrAsset (Pair_Validate (ValidateDenom E) (pos_Pair p))) (\<lambda>_.
     if Size p = 0 then Inl (ErrText ''zero size'')
     else if Margin p < 0 \<or> Margin p = 0 then Inl (ErrText ''margin <= 0'')
     else if OpenNotional p < 0 \<or> OpenNotional p = 0 then Inl (ErrText ''open notional <= 0'')
     else if LastUpdatedBlockNumber p < 0 then Inl (ErrText ''invalid block number'')
     else Inr ()))"

definition ReserveSnapshot_Validate :: "'b sdk \<Rightarrow> reserve_snapshot \<Rightarrow> perp_error + unit" where
  "ReserveSnapshot_Validate E s =
     bindE (mapErr ErrAsset (Pair_Validate (ValidateDenom E) (amm_Pair (snap_Amm s)))) (\<lambda>_.
     if BaseReserve (snap_Amm s) < 0 then Inl (ErrText ''base asset reserve from snapshot cannot be negative'')
     else if QuoteReserve (snap_Amm s) < 0 then Inl (ErrText ''quote asset reserve from snapshot cannot be negative'')
     else if PriceMultiplier (snap_Amm s) < 0 then Inl (ErrText ''peg multiplier from snapshot cannot be negative'')
     else if TimestampMs s < - 62135596800000 then Inl (ErrText ''snapshot time before earliest possible UTC time'')
     else Inr ())"

definition LiquidateResp_Validate :: "'b sdk \<Rightarrow> liquidate_resp \<Rightarrow> perp_error + unit" where
  "LiquidateResp_Validate E l =
     bindE (getE ErrBech32 (AccAddressFromBech32 E (lr_Liquidator l))) (\<lambda>_. Inr ())"

definition ZeroPosition :: "'b sdk \<Rightarrow> block_ctx \<Rightarrow> pair \<Rightarrow> addr \<Rightarrow> position" where
  "ZeroPosition E ctx tokenPair traderAddr = \<lparr>
     TraderAddress = AccAddressString E traderAddr,
     pos_Pair = tokenPair,
     Size = 0,
     Margin = 0,
     OpenNotional = 0,
     pos_LatestCumulativePremiumFraction = 0,
     LastUpdatedBlockNumber = BlockHeight ctx \<rparr>"

definition MarketsAreEqual :: "market \<Rightarrow> market \<Rightarrow> perp_error + unit" where
  "MarketsAreEqual expected actual =
     (if mkt_Pair expected \<noteq> mkt_Pair actual then Inl (ErrText ''pair'')
      else if PriceFluctuationLimitRatio expected \<noteq> PriceFluctuationLimitRatio actual then Inl (ErrText ''price fluctuation limit ratio'')
      else if MaintenanceMarginRatio expected \<noteq> MaintenanceMarginRatio actual then Inl (ErrText ''maintenance margin ratio'')
      else if MaxLeverage expected \<noteq> MaxLeverage actual then Inl (ErrText ''max leverage'')
      else if EcosystemFundFeeRatio expected \<noteq> EcosystemFundFeeRatio actual then Inl (ErrText ''ecosystem fund fee ratio'')
      else if ExchangeFeeRatio expected \<noteq> ExchangeFeeRatio actual then Inl (ErrText ''exchange fee ratio'')
      else if LiquidationFeeRatio expected \<noteq> LiquidationFeeRatio actual then Inl (ErrText ''liquidation fee ratio'')
      else if PartialLiquidationRatio expected \<noteq> PartialLiquidationRatio actual then Inl (ErrText ''partial liquidation ratio'')
      else if FundingRateEpochId expected \<noteq> FundingRateEpochId actual then Inl (ErrText ''funding rate epoch id'')
      else if PrepaidBadDebt expected \<noteq> PrepaidBadDebt actual then Inl (ErrText ''prepaid bad debt'')
      else if Enabled expected \<noteq> Enabled actual then Inl (ErrText ''enabled'')
      else if TwapLookbackWindow expected \<noteq> TwapLookbackWindow actual then Inl (ErrText ''twap lookback window'')
      else if mkt_LatestCumulativePremiumFraction expected \<noteq> mkt_LatestCumulativePremiumFraction actual
        then Inl (ErrText ''latest cumulative premium fraction'')
      else Inr ())"

definition PositionsAreEqual :: "position \<Rightarrow> position \<Rightarrow> perp_error + unit" where
  "PositionsAreEqual expected actual =
     (if pos_Pair expected \<noteq> pos_Pair actual then Inl (ErrText ''pair'')
      else if TraderAddress expected \<noteq> TraderAddress actual then Inl (ErrText ''trader address'')
      else if Margin expected \<noteq> Margin actual then Inl (ErrText ''margin'')
      else if OpenNotional expected \<noteq> OpenNotional actual then Inl (ErrText ''open notional'')
      else if Size expected \<noteq> Size actual then Inl (ErrText ''size'')
      else if LastUpdatedBlockNumber expected \<noteq> LastUpdatedBlockNumber actual then Inl (ErrText ''block number'')
      else if pos_LatestCumulativePremiumFraction expected \<noteq> pos_LatestCumulativePremiumFraction actual
        then Inl (ErrText ''latest cumulative premium fraction'')
      else Inr ())"

lemma AMM_Validate_iff:
  "AMM_Validate a = Inr () \<longleftrightarrow>
     0 < BaseReserve a \<and> 0 < QuoteReserve a \<and> 0 < PriceMultiplier a \<and> 0 < SqrtDepth a"
  by (auto simp: AMM_Validate_def)

lemma MarketsAreEqual_iff: "MarketsAreEqual m n = Inr () \<longleftrightarrow> m = n"
  by (auto simp: MarketsAreEqual_def)

lemma PositionsAreEqual_iff: "PositionsAreEqual p q = Inr () \<longleftrightarrow> p = q"
  by (auto simp: PositionsAreEqual_def)

end
