(* ===== verification/Sdk_Reference.thy ===== *)
theory Sdk_Reference
  imports Common_Dec Sdk_Bank
begin

text \<open>
  One record of SDK operations that satisfies every contract: the decimals of \<open>ref_dec\<close>,
  the ledger as the bank, non-empty denominations and addresses written after a one-letter prefix.  The
  witnesses of the development evaluate the model on it.
\<close>

fun ref_decode :: "string \<Rightarrow> addr option" where
  "ref_decode [] = None"
| "ref_decode (c # a) = (if c = CHR ''n'' then Some a else None)"

definition ref_sdk :: "ledger sdk" where
  "ref_sdk = \<lparr>
     dec_Mul = dec_Mul ref_dec, dec_Quo = dec_Quo ref_dec, dec_QuoInt64 = dec_QuoInt64 ref_dec,
     dec_RoundInt = dec_RoundInt ref_dec, dec_Ceil = dec_Ceil ref_dec,
     dec_TruncateInt = dec_TruncateInt ref_dec,
     ValidateDenom = (\<lambda>d. d \<noteq> []),
     NewCoin = (\<lambda>d n. if n < 0 then None else Some \<lparr>Denom = d, Amount = n\<rparr>),
     AccAddressFromBech32 = ref_decode,
     AccAddressString = (\<lambda>a. CHR ''n'' # a),
     GetModuleAddress = ledger_module,
     GetBalance = (\<lambda>b. b),
     SendCoinsFromAccountToModule = (\<lambda>b a m. ledger_send b a (ledger_module m)),
     SendCoinsFromModuleToAccount = (\<lambda>b m a. ledger_send b (ledger_module m) a),
     SendCoinsFromModuleToModule = (\<lambda>b m n. ledger_send b (ledger_module m) (ledger_module n)) \<rparr>"

lemma ref_sdk_sel:
  "dec_Mul ref_sdk = dec_Mul ref_dec" "dec_Quo ref_sdk = dec_Quo ref_dec"
  "dec_QuoInt64 ref_sdk = dec_QuoInt64 ref_dec" "dec_RoundInt ref_sdk = dec_RoundInt ref_dec"
  "dec_Ceil ref_sdk = dec_Ceil ref_dec" "dec_TruncateInt ref_sdk = dec_TruncateInt ref_dec"
  "ValidateDenom ref_sdk = (\<lambda>d. d \<noteq> [])"
  "NewCoin ref_sdk = (\<lambda>d n. if n < 0 then None else Some \<lparr>Denom = d, Amount = n\<rparr>)"
  "AccAddressFromBech32 ref_sdk = ref_decode"
  "AccAddressString ref_sdk = (\<lambda>a. CHR ''n'' # a)"
  "GetModuleAddress ref_sdk = ledger_module"
  "GetBalance ref_sdk = (\<lambda>b. b)"
  "SendCoinsFromAccountToModule ref_sdk = (\<lambda>b a m. ledger_send b a (ledger_module m))"
  "SendCoinsFromModuleToAccount ref_sdk = (\<lambda>b m a. ledger_send b (ledger_module m) a)"
  "SendCoinsFromModuleToModule ref_sdk = (\<lambda>b m n. ledger_send b (ledger_module m) (ledger_module n))"
  by (simp_all add: ref_sdk_def)

lemma ref_sdk_dec_laws: "dec_laws ref_sdk"
  using ref_dec_laws by (simp add: dec_laws_def ref_sdk_sel)

lemma ref_sdk_bank_laws: "bank_laws ref_sdk"
  unfolding bank_laws_def ref_sdk_sel by (rule ledger.bank_keeper_axioms)

lemma ref_sdk_coin_laws: "coin_laws ref_sdk"
  by (simp add: coin_laws_def ref_sdk_sel)

lemma ref_sdk_addr_laws: "addr_laws ref_sdk"
  by (simp add: addr_laws_def ref_sdk_sel)

end
