(* ===== verification/Perp_AMM.thy ===== *)
theory Perp_AMM
  imports Perp_Types Sdk_Reference
begin

text \<open>
  The virtual constant-product market maker of a market (\<^verbatim>\<open>x/perp/types/v2/amm.go\<close>): prices,
  swaps in either asset, the bias, and the two governance changes (price multiplier and swap
  invariant) with their costs.  The lemmas give the accounting law of the swaps (base reserve
  plus bias never changes), how far rounding can move the constant product, the round trip of a
  swap, and what the costs are.
\<close>

definition ValidateReserves :: "amm \<Rightarrow> perp_error + unit" where
  "ValidateReserves a =
     (if \<not> 0 < QuoteReserve a \<or> \<not> 0 < BaseReserve a then Inl ErrNonPositiveReserves else Inr ())"

text \<open>\<open>big.Int.BitLen\<close>: the length of the absolute value in bits.\<close>

function bits :: "int \<Rightarrow> nat" where
  "bits n = (if n \<le> 0 then 0 else Suc (bits (n div 2)))"
  by pat_completeness auto
termination
  by (relation "measure nat") auto

declare bits.simps [simp del]

definition BitLen :: "int \<Rightarrow> nat" where
  "BitLen i = bits \<bar>i\<bar>"

definition MaxDecBitLen :: nat where
  "MaxDecBitLen = 256 + (60 - 1)"

text \<open>The product that is checked for overflow is the square of the base reserve.\<close>

definition ComputeSqrtDepth :: "'z sdk_dec_scheme \<Rightarrow> amm \<Rightarrow> perp_error + dec" where
  "ComputeSqrtDepth E a =
     (let mul = BaseReserve a * BaseReserve a; chopped = ChopPrecisionAndRound mul in
      if MaxDecBitLen < BitLen chopped then Inl ErrLiquidityDepthOverflow
      else let liqDepth = dec_Mul E (QuoteReserve a) (BaseReserve a)
           in mapErr ErrCommon (SqrtDec E liqDepth))"

definition ValidateLiquidityDepth :: "'z sdk_dec_scheme \<Rightarrow> amm \<Rightarrow> perp_error + unit" where
  "ValidateLiquidityDepth E a =
     bindE (ComputeSqrtDepth E a) (\<lambda>computedSqrtDepth.
       if \<not> 0 < SqrtDepth a then Inl ErrLiquidityDepth
       else if \<not> \<bar>SqrtDepth a - computedSqrtDepth\<bar> \<le> NewDec 1 then Inl ErrLiquidityDepth
       else Inr ())"

definition FromQuoteAssetToReserve :: "'z sdk_dec_scheme \<Rightarrow> amm \<Rightarrow> dec \<Rightarrow> perp_error + dec" where
  "FromQuoteAssetToReserve E a quoteAsset = quoE E quoteAsset (PriceMultiplier a)"

definition FromQuoteReserveToAsset :: "'z sdk_dec_scheme \<Rightarrow> amm \<Rightarrow> dec \<Rightarrow> dec" where
  "FromQuoteReserveToAsset E a quoteReserve = dec_Mul E quoteReserve (PriceMultiplier a)"

definition GetBaseReserveAmt :: "'z sdk_dec_scheme \<Rightarrow> amm \<Rightarrow> dec \<Rightarrow> Direction \<Rightarrow> perp_error + dec" where
  "GetBaseReserveAmt E a quoteReserveAmt dir =
     (if quoteReserveAmt \<le> 0 then Inr 0
      else
        let inv = dec_Mul E (QuoteReserve a) (BaseReserve a);
            quoteReservesAfter =
              (if dir = LONG then QuoteReserve a + quoteReserveAmt
               else QuoteReserve a - quoteReserveAmt)
        in if quoteReservesAfter \<le> 0 then Inl ErrQuoteReserveAtZero
           else bindE (quoE E inv quoteReservesAfter) (\<lambda>baseReservesAfter.
                  Inr \<bar>baseReservesAfter - BaseReserve a\<bar>))"

definition GetQuoteReserveAmt :: "'z sdk_dec_scheme \<Rightarrow> amm \<Rightarrow> dec \<Rightarrow> Direction \<Rightarrow> perp_error + dec" where
  "GetQuoteReserveAmt E a baseReserveAmt dir =
     (if baseReserveAmt \<le> 0 then Inr 0
      else
        let inv = dec_Mul E (QuoteReserve a) (BaseReserve a);
            baseReservesAfter =
              (if dir = LONG then BaseReserve a - baseReserveAmt
               else BaseReserve a + baseReserveAmt)
        in if baseReservesAfter \<le> 0 then Inl ErrBaseReserveAtZero
           else bindE (quoE E inv baseReservesAfter) (\<lambda>quoteReservesAfter.
                  Inr \<bar>quoteReservesAfter - QuoteReserve a\<bar>))"

definition MarkPrice :: "'z sdk_dec_scheme \<Rightarrow> amm \<Rightarrow> dec" where
  "MarkPrice E a =
     (if BaseReserve a = 0 \<or> QuoteReserve a = 0 then 0
      else dec_Mul E (dec_Quo E (QuoteReserve a) (BaseReserve a)) (PriceMultiplier a))"

definition amm_SwapQuoteAsset ::
    "'z sdk_dec_scheme \<Rightarrow> amm \<Rightarrow> dec \<Rightarrow> Direction \<Rightarrow> perp_error + amm \<times> dec" where
  "amm_SwapQuoteAsset E a quoteAssetAmt dir =
     bindE (FromQuoteAssetToReserve E a quoteAssetAmt) (\<lambda>quoteReserveAmt.
     bindE (GetBaseReserveAmt E a quoteReserveAmt dir) (\<lambda>baseReserveDelta.
       let a' =
         (if dir = LONG then
            a\<lparr>QuoteReserve := QuoteReserve a + quoteReserveAmt,
              BaseReserve := BaseReserve a - baseReserveDelta,
              TotalLong := TotalLong a + baseReserveDelta\<rparr>
          else if dir = SHORT then
            a\<lparr>QuoteReserve := QuoteReserve a - quoteReserveAmt,
              BaseReserve := BaseReserve a + baseReserveDelta,
              TotalShort := TotalShort a + baseReserveDelta\<rparr>
          else a)
       in Inr (a', baseReserveDelta)))"

definition amm_SwapBaseAsset ::
    "'z sdk_dec_scheme \<Rightarrow> amm \<Rightarrow> dec \<Rightarrow> Direction \<Rightarrow> perp_error + amm \<times> dec" where
  "amm_SwapBaseAsset E a baseAssetAmt dir =
     bindE (GetQuoteReserveAmt E a baseAssetAmt dir) (\<lambda>quoteReserveDelta.
       let a' =
         (if dir = LONG then
            a\<lparr>QuoteReserve := QuoteReserve a + quoteReserveDelta,
              BaseReserve := BaseReserve a - baseAssetAmt,
              TotalLong := TotalLong a + baseAssetAmt\<rparr>
          else if dir = SHORT then
            a\<lparr>QuoteReserve := QuoteReserve a - quoteReserveDelta,
              BaseReserve := BaseReserve a + baseAssetAmt,
              TotalShort := TotalShort a + baseAssetAmt\<rparr>
          else a)
       in Inr (a', FromQuoteReserveToAsset E a' quoteReserveDelta))"

definition Bias :: "amm \<Rightarrow> dec" where
  "Bias a = TotalLong a - TotalShort a"

definition CalcRepegCost :: "'z sdk_dec_scheme \<Rightarrow> amm \<Rightarrow> dec \<Rightarrow> perp_error + int" where
  "CalcRepegCost E a newPriceMultiplier =
     (if \<not> 0 < newPriceMultiplier then Inl ErrNonPositivePegMultiplier
      else let bias = Bias a in
      if bias = 0 then Inr 0
      else let dir = (if 0 < bias then SHORT else LONG) in
      bindE (GetQuoteReserveAmt E a \<bar>bias\<bar> dir) (\<lambda>biasInQuoteReserve.
        let costDec0 = dec_Mul E biasInQuoteReserve (newPriceMultiplier - PriceMultiplier a);
            costDec = (if bias < 0 then - costDec0 else costDec0)
        in Inr (dec_TruncateInt E (dec_Ceil E costDec))))"

definition GetMarketValue :: "'z sdk_dec_scheme \<Rightarrow> amm \<Rightarrow> perp_error + dec" where
  "GetMarketValue E a =
     (let bias = Bias a in
      if bias = 0 then Inr 0
      else let dir = (if 0 < bias then SHORT else LONG) in
      bindE (GetQuoteReserveAmt E a \<bar>bias\<bar> dir) (\<lambda>marketValueInReserves0.
        let marketValueInReserves =
              (if bias < 0 then - marketValueInReserves0 else marketValueInReserves0)
        in Inr (FromQuoteReserveToAsset E a marketValueInReserves)))"

definition UpdateSwapInvariant :: "'z sdk_dec_scheme \<Rightarrow> amm \<Rightarrow> dec \<Rightarrow> perp_error + amm" where
  "UpdateSwapInvariant E a newSwapInvariant =
     bindE (mapErr (\<lambda>_. Panic ''square root of negative number'') (MustSqrtDec E newSwapInvariant))
       (\<lambda>newSqrtDepth.
     bindE (quoE E newSqrtDepth (SqrtDepth a)) (\<lambda>multiplier.
       let a' = a\<lparr>SqrtDepth := newSqrtDepth,
                  BaseReserve := dec_Mul E (BaseReserve a) multiplier,
                  QuoteReserve := dec_Mul E (QuoteReserve a) multiplier\<rparr>
       in bindE (AMM_Validate a') (\<lambda>_. Inr a')))"

definition CalcUpdateSwapInvariantCost ::
    "'z sdk_dec_scheme \<Rightarrow> amm \<Rightarrow> dec option \<Rightarrow> perp_error + int" where
  "CalcUpdateSwapInvariantCost E a newSwapInvariant =
     (case newSwapInvariant of
        None \<Rightarrow> Inl ErrNilSwapInvariantMutliplier
      | Some n \<Rightarrow>
         if \<not> 0 < n then Inl ErrNonPositiveSwapInvariantMutliplier
         else bindE (GetMarketValue E a) (\<lambda>marketValueBefore.
              bindE (UpdateSwapInvariant E a n) (\<lambda>a'.
              bindE (GetMarketValue E a') (\<lambda>marketValueAfter.
                Inr (dec_TruncateInt E (dec_Ceil E (marketValueAfter - marketValueBefore)))))))"


section \<open>Facts shared by the proofs\<close>

lemma GetBaseReserveAmt_nonneg: "GetBaseReserveAmt E a q dir = Inr d \<Longrightarrow> 0 \<le> d"
  by (auto simp: GetBaseReserveAmt_def Let_def res_simps split: if_splits)

lemma GetQuoteReserveAmt_nonneg: "GetQuoteReserveAmt E a q dir = Inr d \<Longrightarrow> 0 \<le> d"
  by (auto simp: GetQuoteReserveAmt_def Let_def res_simps split: if_splits)

lemma GetBaseReserveAmt_cases:
  assumes "GetBaseReserveAmt E a q dir = Inr d" and "0 < q"
  defines "Q' \<equiv> (if dir = LONG then QuoteReserve a + q else QuoteReserve a - q)"
  shows "0 < Q'"
    and "d = \<bar>dec_Quo E (dec_Mul E (QuoteReserve a) (BaseReserve a)) Q' - BaseReserve a\<bar>"
  using assms by (auto simp: GetBaseReserveAmt_def Let_def res_simps split: if_splits)

lemma GetQuoteReserveAmt_cases:
  assumes "GetQuoteReserveAmt E a b dir = Inr d" and "0 < b"
  defines "B' \<equiv> (if dir = LONG then BaseReserve a - b else BaseReserve a + b)"
  shows "0 < B'"
    and "d = \<bar>dec_Quo E (dec_Mul E (QuoteReserve a) (BaseReserve a)) B' - QuoteReserve a\<bar>"
  using assms by (auto simp: GetQuoteReserveAmt_def Let_def res_simps split: if_splits)

text \<open>
  The arithmetic behind both swaps: one reserve moves from \<open>x\<close> to \<open>x'\<close>, the other from \<open>y\<close> in
  the opposite direction by \<open>\<bar>c - y\<bar>\<close>, where \<open>c\<close> is the rounded quotient of the rounded product.
\<close>

lemma quotient_near_product:
  fixes x' c k x y P :: int
  assumes "2 * \<bar>k * P - x * y\<bar> \<le> P" and "\<bar>c * x' - k * P\<bar> < x'"
  shows "2 * \<bar>c * x' - x * y\<bar> < 2 * x' + P"
proof -
  have "2 * \<bar>(c * x' - k * P) + (k * P - x * y)\<bar> < 2 * x' + P"
    using assms by (rule abs_sum_bound)
  then show ?thesis by simp
qed

lemma opposite_move_near_product:
  fixes x y x' c :: int
  assumes near: "2 * \<bar>c * x' - x * y\<bar> < B" and pos: "0 < x'" "0 \<le> y"
    and move: "x \<le> x' \<and> y' = y - \<bar>c - y\<bar> \<or> x' \<le> x \<and> y' = y + \<bar>c - y\<bar>"
  shows "2 * \<bar>x' * y' - x * y\<bar> < B"
proof -
  define e where "e = c * x' - x * y"
  have "\<bar>x' * y' - x * y\<bar> \<le> \<bar>e\<bar>"
  proof (cases "y' = c")
    case True then show ?thesis by (simp add: e_def mult.commute)
  next
    case False
    from move consider (up) "x \<le> x'" "y < c" "y' = 2 * y - c" | (down) "x' \<le> x" "c < y" "y' = 2 * y - c"
      using False by (auto simp: abs_if split: if_splits)
    then show ?thesis
    proof cases
      case up
      have 1: "x * y \<le> x' * y" and 2: "x' * y \<le> x' * c"
        using up pos by (simp_all add: mult_right_mono mult_left_mono)
      have "x' * y' - x * y = 2 * (x' * y) - x' * c - x * y" using up(3) by (simp add: right_diff_distrib)
      then show ?thesis using 1 2 by (simp add: e_def mult.commute [of c])
    next
      case down
      have 1: "x' * y \<le> x * y" and 2: "x' * c \<le> x' * y"
        using down pos by (simp_all add: mult_right_mono mult_left_mono)
      have "x' * y' - x * y = 2 * (x' * y) - x' * c - x * y" using down(3) by (simp add: right_diff_distrib)
      then show ?thesis using 1 2 by (simp add: e_def mult.commute [of c])
    qed
  qed
  with near show ?thesis by (simp add: e_def)
qed

lemma quo_mul_near:
  assumes "dec_laws E" and "0 < x'"
  shows "2 * \<bar>dec_Quo E (dec_Mul E x y) x' * x' - x * y\<bar> < 2 * x' + PREC"
proof (rule quotient_near_product)
  show "2 * \<bar>dec_Mul E x y * PREC - x * y\<bar> \<le> PREC"
    by (rule sdk_decimal.mul_nearest [OF dec_lawsD [OF assms(1)]])
  show "\<bar>dec_Quo E (dec_Mul E x y) x' * x' - dec_Mul E x y * PREC\<bar> < x'"
    using sdk_decimal.quo_near [OF dec_lawsD [OF assms(1)], of x' "dec_Mul E x y"] assms(2) by simp
qed


lemma FromQuoteAssetToReserve_nonneg:
  assumes "dec_laws E" and "FromQuoteAssetToReserve E a q = Inr r" and "0 \<le> q" and "0 < PriceMultiplier a"
  shows "0 \<le> r"
  using assms sdk_decimal.quo_nonneg [OF dec_lawsD [OF assms(1)]]
  by (auto simp: FromQuoteAssetToReserve_def res_simps)

lemma amm_SwapQuoteAsset_cases:
  assumes "amm_SwapQuoteAsset E a q dir = Inr (a', d)"
  obtains r where "FromQuoteAssetToReserve E a q = Inr r" and "GetBaseReserveAmt E a r dir = Inr d"
    and "QuoteReserve a' = (case dir of LONG \<Rightarrow> QuoteReserve a + r | SHORT \<Rightarrow> QuoteReserve a - r | _ \<Rightarrow> QuoteReserve a)"
    and "BaseReserve a' = (case dir of LONG \<Rightarrow> BaseReserve a - d | SHORT \<Rightarrow> BaseReserve a + d | _ \<Rightarrow> BaseReserve a)"
    and "Bias a' = (case dir of LONG \<Rightarrow> Bias a + d | SHORT \<Rightarrow> Bias a - d | _ \<Rightarrow> Bias a)"
    and "amm_Pair a' = amm_Pair a" and "PriceMultiplier a' = PriceMultiplier a" and "SqrtDepth a' = SqrtDepth a"
  using assms
  by (cases dir) (auto simp: amm_SwapQuoteAsset_def Bias_def res_simps Let_def)

lemma amm_SwapBaseAsset_cases:
  assumes "amm_SwapBaseAsset E a b dir = Inr (a', d)"
  obtains r where "GetQuoteReserveAmt E a b dir = Inr r" and "d = FromQuoteReserveToAsset E a r"
    and "QuoteReserve a' = (case dir of LONG \<Rightarrow> QuoteReserve a + r | SHORT \<Rightarrow> QuoteReserve a - r | _ \<Rightarrow> QuoteReserve a)"
    and "BaseReserve a' = (case dir of LONG \<Rightarrow> BaseReserve a - b | SHORT \<Rightarrow> BaseReserve a + b | _ \<Rightarrow> BaseReserve a)"
    and "Bias a' = (case dir of LONG \<Rightarrow> Bias a + b | SHORT \<Rightarrow> Bias a - b | _ \<Rightarrow> Bias a)"
    and "amm_Pair a' = amm_Pair a" and "PriceMultiplier a' = PriceMultiplier a" and "SqrtDepth a' = SqrtDepth a"
  using assms
  by (cases dir) (auto simp: amm_SwapBaseAsset_def Bias_def FromQuoteReserveToAsset_def res_simps Let_def)

lemma amm_SwapQuoteAsset_product:
  assumes E: "dec_laws E" and sw: "amm_SwapQuoteAsset E a q dir = Inr (a', d)" and dir: "dir \<noteq> DIRECTION_UNSPECIFIED"
    and pos: "0 < BaseReserve a" "0 < QuoteReserve a" "0 < PriceMultiplier a" and q: "0 \<le> q"
  shows "0 < QuoteReserve a'"
    and "2 * \<bar>QuoteReserve a' * BaseReserve a' - QuoteReserve a * BaseReserve a\<bar> < 2 * QuoteReserve a' + PREC"
proof -
  from sw obtain r where r: "FromQuoteAssetToReserve E a q = Inr r" and g: "GetBaseReserveAmt E a r dir = Inr d"
    and Q': "QuoteReserve a' = (case dir of LONG \<Rightarrow> QuoteReserve a + r | SHORT \<Rightarrow> QuoteReserve a - r | _ \<Rightarrow> QuoteReserve a)"
    and B': "BaseReserve a' = (case dir of LONG \<Rightarrow> BaseReserve a - d | SHORT \<Rightarrow> BaseReserve a + d | _ \<Rightarrow> BaseReserve a)"
    by (rule amm_SwapQuoteAsset_cases)
  have r0: "0 \<le> r" by (rule FromQuoteAssetToReserve_nonneg [OF E r q pos(3)])
  show "0 < QuoteReserve a'"
  proof (cases "r = 0")
    case True then show ?thesis using Q' pos by (cases dir) auto
  next
    case False then show ?thesis using GetBaseReserveAmt_cases(1) [OF g] r0 Q' dir by (cases dir) auto
  qed
  show "2 * \<bar>QuoteReserve a' * BaseReserve a' - QuoteReserve a * BaseReserve a\<bar> < 2 * QuoteReserve a' + PREC"
  proof (cases "r = 0")
    case True
    then have "d = 0" using g by (simp add: GetBaseReserveAmt_def)
    then show ?thesis using True Q' B' pos by (cases dir) (auto intro: add_pos_pos)
  next
    case False
    with r0 have "0 < r" by simp
    note c = GetBaseReserveAmt_cases [OF g this]
    show ?thesis
      using c(2) Q' B' dir r0 pos
      by (intro opposite_move_near_product [OF quo_mul_near [OF E \<open>0 < QuoteReserve a'\<close>]
            \<open>0 < QuoteReserve a'\<close>]) (cases dir; simp)+
  qed
qed

lemma amm_SwapBaseAsset_product:
  assumes E: "dec_laws E" and sw: "amm_SwapBaseAsset E a b dir = Inr (a', d)" and dir: "dir \<noteq> DIRECTION_UNSPECIFIED"
    and pos: "0 < BaseReserve a" "0 < QuoteReserve a" and b: "0 \<le> b"
  shows "0 < BaseReserve a'"
    and "2 * \<bar>BaseReserve a' * QuoteReserve a' - BaseReserve a * QuoteReserve a\<bar> < 2 * BaseReserve a' + PREC"
proof -
  from sw obtain r where g: "GetQuoteReserveAmt E a b dir = Inr r"
    and Q': "QuoteReserve a' = (case dir of LONG \<Rightarrow> QuoteReserve a + r | SHORT \<Rightarrow> QuoteReserve a - r | _ \<Rightarrow> QuoteReserve a)"
    and B': "BaseReserve a' = (case dir of LONG \<Rightarrow> BaseReserve a - b | SHORT \<Rightarrow> BaseReserve a + b | _ \<Rightarrow> BaseReserve a)"
    by (rule amm_SwapBaseAsset_cases)
  show B'pos: "0 < BaseReserve a'"
  proof (cases "b = 0")
    case True then show ?thesis using B' pos by (cases dir) auto
  next
    case False then show ?thesis using GetQuoteReserveAmt_cases(1) [OF g] b B' dir by (cases dir) auto
  qed
  have mc: "dec_Mul E (QuoteReserve a) (BaseReserve a) = dec_Mul E (BaseReserve a) (QuoteReserve a)"
    by (rule sdk_decimal.mul_comm [OF dec_lawsD [OF E]])
  show "2 * \<bar>BaseReserve a' * QuoteReserve a' - BaseReserve a * QuoteReserve a\<bar> < 2 * BaseReserve a' + PREC"
  proof (cases "b = 0")
    case True
    then have "r = 0" using g by (simp add: GetQuoteReserveAmt_def)
    then show ?thesis using True Q' B' pos by (cases dir) (auto intro: add_pos_pos)
  next
    case False
    with b have "0 < b" by simp
    note c = GetQuoteReserveAmt_cases [OF g this]
    show ?thesis
      using c(2) Q' B' dir b pos
      by (intro opposite_move_near_product [OF quo_mul_near [OF E B'pos] B'pos])
        (cases dir; simp add: mc)+
  qed
qed


section \<open>Sequences of swaps\<close>

text \<open>The trades a market maker can see: any sequence of swaps in either asset.\<close>

inductive amm_trades :: "'z sdk_dec_scheme \<Rightarrow> amm \<Rightarrow> amm \<Rightarrow> bool" for E where
  refl: "amm_trades E a a"
| quote: "amm_trades E a b \<Longrightarrow> amm_SwapQuoteAsset E b q dir = Inr (c, d) \<Longrightarrow> amm_trades E a c"
| base: "amm_trades E a b \<Longrightarrow> amm_SwapBaseAsset E b q dir = Inr (c, d) \<Longrightarrow> amm_trades E a c"

lemma swap_quote_frame:
  assumes "amm_SwapQuoteAsset E a q dir = Inr (a', d)"
  shows "BaseReserve a' + Bias a' = BaseReserve a + Bias a" and "amm_Pair a' = amm_Pair a"
    and "PriceMultiplier a' = PriceMultiplier a" and "SqrtDepth a' = SqrtDepth a"
  using assms by (auto elim!: amm_SwapQuoteAsset_cases split: Direction.splits)

lemma swap_base_frame:
  assumes "amm_SwapBaseAsset E a b dir = Inr (a', d)"
  shows "BaseReserve a' + Bias a' = BaseReserve a + Bias a" and "amm_Pair a' = amm_Pair a"
    and "PriceMultiplier a' = PriceMultiplier a" and "SqrtDepth a' = SqrtDepth a"
  using assms by (auto elim!: amm_SwapBaseAsset_cases split: Direction.splits)

text \<open>C7: whatever sequence of swaps a market maker goes through, in either asset and either
  direction, the base reserve plus the bias (longs minus shorts) stays exactly the same, and the
  pair, price multiplier and recorded depth are untouched.\<close>

theorem amm_trades_base_plus_bias:
  assumes "amm_trades E a a'"
  shows "BaseReserve a' + Bias a' = BaseReserve a + Bias a \<and> amm_Pair a' = amm_Pair a
    \<and> PriceMultiplier a' = PriceMultiplier a \<and> SqrtDepth a' = SqrtDepth a"
  using assms by induction (auto dest: swap_quote_frame swap_base_frame)

definition ex_amm :: amm where
  "ex_amm = \<lparr>amm_Pair = ''ubtc:unusd'', BaseReserve = NewDec 1000000, QuoteReserve = NewDec 1000000,
     SqrtDepth = NewDec 1000000, PriceMultiplier = NewDec 6, TotalLong = 0, TotalShort = 0\<rparr>"

definition ex_amm_long :: amm where
  "ex_amm_long = ex_amm\<lparr>QuoteReserve := 1000100000000000000000000,
     BaseReserve := 999900009999000099990001, TotalLong := 99990000999900009999\<rparr>"

lemma ex_amm_swap:
  "amm_SwapQuoteAsset ref_sdk ex_amm (NewDec 600) LONG = Inr (ex_amm_long, 99990000999900009999)"
  by code_simp

theorem amm_trades_base_plus_bias_witness:
  "amm_trades ref_sdk ex_amm ex_amm_long
   \<and> BaseReserve ex_amm_long + Bias ex_amm_long = BaseReserve ex_amm + Bias ex_amm"
proof -
  have t: "amm_trades ref_sdk ex_amm ex_amm_long"
    by (rule amm_trades.quote [OF amm_trades.refl ex_amm_swap])
  show ?thesis using t amm_trades_base_plus_bias [OF t] by simp
qed

text \<open>A swap of a quote amount on a market maker with positive reserves keeps the quote
  reserve positive, and moves the product of the reserves by less than one quote reserve plus
  half a unit of rounding: the constant-product invariant up to rounding.\<close>

theorem swap_quote_constant_product:
  assumes "dec_laws E" and "amm_SwapQuoteAsset E a q dir = Inr (a', d)"
    and "dir \<noteq> DIRECTION_UNSPECIFIED" and "AMM_Validate a = Inr ()" and "0 \<le> q"
  shows "0 < QuoteReserve a' \<and>
    2 * \<bar>QuoteReserve a' * BaseReserve a' - QuoteReserve a * BaseReserve a\<bar> < 2 * QuoteReserve a' + PREC"
  using amm_SwapQuoteAsset_product [OF assms(1-3)] assms(4,5) by (simp add: AMM_Validate_iff)

theorem swap_quote_constant_product_witness:
  "0 < QuoteReserve ex_amm_long \<and>
   2 * \<bar>QuoteReserve ex_amm_long * BaseReserve ex_amm_long - QuoteReserve ex_amm * BaseReserve ex_amm\<bar>
     < 2 * QuoteReserve ex_amm_long + PREC"
proof (rule swap_quote_constant_product [OF ref_sdk_dec_laws ex_amm_swap])
  show "AMM_Validate ex_amm = Inr ()" by code_simp
qed (simp_all add: NewDec_def)

text \<open>The same for a swap of a base amount: the base reserve stays positive and the product
  of the reserves moves by less than one base reserve plus half a unit of rounding.\<close>

theorem swap_base_constant_product:
  assumes "dec_laws E" and "amm_SwapBaseAsset E a b dir = Inr (a', d)"
    and "dir \<noteq> DIRECTION_UNSPECIFIED" and "AMM_Validate a = Inr ()" and "0 \<le> b"
  shows "0 < BaseReserve a' \<and>
    2 * \<bar>BaseReserve a' * QuoteReserve a' - BaseReserve a * QuoteReserve a\<bar> < 2 * BaseReserve a' + PREC"
  using amm_SwapBaseAsset_product [OF assms(1-3)] assms(4,5) by (simp add: AMM_Validate_iff)

definition ex_amm_short :: amm where
  "ex_amm_short = ex_amm\<lparr>QuoteReserve := 999900009999000099990001,
     BaseReserve := 1000100000000000000000000, TotalShort := 100000000000000000000\<rparr>"

lemma ex_amm_swap_base:
  "amm_SwapBaseAsset ref_sdk ex_amm (NewDec 100) SHORT = Inr (ex_amm_short, 599940005999400059994)"
  by code_simp

theorem swap_base_constant_product_witness:
  "0 < BaseReserve ex_amm_short \<and>
   2 * \<bar>BaseReserve ex_amm_short * QuoteReserve ex_amm_short - BaseReserve ex_amm * QuoteReserve ex_amm\<bar>
     < 2 * BaseReserve ex_amm_short + PREC"
proof (rule swap_base_constant_product [OF ref_sdk_dec_laws ex_amm_swap_base])
  show "AMM_Validate ex_amm = Inr ()" by code_simp
qed (simp_all add: NewDec_def)


section \<open>Round trips and governance changes\<close>

lemma abs_abs_diff_le: "\<bar>\<bar>x\<bar> - y :: int\<bar> \<le> \<bar>x - y\<bar>" if "0 \<le> y"
  using that by arith

lemma round_trip_arith:
  fixes Q B Q' B' c P :: int
  assumes k: "2 * \<bar>Q' * B' - Q * B\<bar> < 2 * Q' + P" and c: "2 * \<bar>c * B - Q' * B'\<bar> < 2 * B + P" and "0 < B"
  shows "\<bar>c - Q\<bar> * B < B + Q' + P"
proof -
  have "(c - Q) * B = (c * B - Q' * B') + (Q' * B' - Q * B)" by (simp add: algebra_simps)
  then have "2 * \<bar>(c - Q) * B\<bar> \<le> 2 * \<bar>c * B - Q' * B'\<bar> + 2 * \<bar>Q' * B' - Q * B\<bar>"
    using abs_triangle_ineq [of "c * B - Q' * B'" "Q' * B' - Q * B"] by simp
  then have "2 * \<bar>(c - Q) * B\<bar> < 2 * (B + Q' + P)" using k c by simp
  then show ?thesis using \<open>0 < B\<close> by (simp add: abs_mult)
qed

lemma scaled_cross_bound:
  fixes x y x' y' m P :: int
  assumes "2 * \<bar>x' * P - x * m\<bar> \<le> P" and "2 * \<bar>y' * P - y * m\<bar> \<le> P" and "0 \<le> x" "0 \<le> y" and "0 < P"
  shows "2 * \<bar>x' * y - y' * x\<bar> \<le> x + y"
proof -
  have "(x' * y - y' * x) * P = (x' * P - x * m) * y - (y' * P - y * m) * x"
    by (simp add: algebra_simps)
  then have "\<bar>x' * y - y' * x\<bar> * P \<le> \<bar>x' * P - x * m\<bar> * y + \<bar>y' * P - y * m\<bar> * x"
    using abs_triangle_ineq4 [of "(x' * P - x * m) * y" "(y' * P - y * m) * x"] assms(3-5)
    by (simp add: abs_mult)
  moreover have "2 * (\<bar>x' * P - x * m\<bar> * y) \<le> P * y" "2 * (\<bar>y' * P - y * m\<bar> * x) \<le> P * x"
    using mult_right_mono [OF assms(1,4)] mult_right_mono [OF assms(2,3)] by (simp_all add: mult.assoc)
  ultimately have "(2 * \<bar>x' * y - y' * x\<bar>) * P \<le> (x + y) * P" by (simp add: algebra_simps)
  then show ?thesis using assms(5) by simp
qed



lemma UpdateSwapInvariant_cases:
  assumes "UpdateSwapInvariant E a n = Inr a'"
  obtains sd m where "MustSqrtDec E n = Inr sd" and "SqrtDepth a \<noteq> 0" and "m = dec_Quo E sd (SqrtDepth a)"
    and "a' = a\<lparr>SqrtDepth := sd, BaseReserve := dec_Mul E (BaseReserve a) m,
                QuoteReserve := dec_Mul E (QuoteReserve a) m\<rparr>"
    and "AMM_Validate a' = Inr ()"
  using assms by (auto simp: UpdateSwapInvariant_def res_simps Let_def)

text \<open>Changing the swap invariant succeeds only into a valid market maker whose depth is the
  square root of the new invariant, leaves pair, multiplier and open interest alone, and keeps the
  price: the cross products of the reserves differ by at most half the sum of the old
  reserves.\<close>

theorem UpdateSwapInvariant_keeps_price:
  assumes E: "dec_laws E" and u: "UpdateSwapInvariant E a n = Inr a'"
    and pos: "0 \<le> BaseReserve a" "0 \<le> QuoteReserve a" "0 \<le> n"
  shows "AMM_Validate a' = Inr () \<and> SqrtDepth a' = isqrt n * PRECISION_MULT
    \<and> amm_Pair a' = amm_Pair a \<and> PriceMultiplier a' = PriceMultiplier a \<and> Bias a' = Bias a
    \<and> 2 * \<bar>QuoteReserve a' * BaseReserve a - BaseReserve a' * QuoteReserve a\<bar>
        \<le> QuoteReserve a + BaseReserve a"
proof -
  from u obtain sd m where sd: "MustSqrtDec E n = Inr sd" and v: "AMM_Validate a' = Inr ()"
    and a': "a' = a\<lparr>SqrtDepth := sd, BaseReserve := dec_Mul E (BaseReserve a) m,
                QuoteReserve := dec_Mul E (QuoteReserve a) m\<rparr>"
    by (rule UpdateSwapInvariant_cases)
  have "2 * \<bar>dec_Mul E (QuoteReserve a) m * PREC - QuoteReserve a * m\<bar> \<le> PREC"
    "2 * \<bar>dec_Mul E (BaseReserve a) m * PREC - BaseReserve a * m\<bar> \<le> PREC"
    by (rule sdk_decimal.mul_nearest [OF dec_lawsD [OF E]])+
  from scaled_cross_bound [OF this pos(2,1) PREC_pos] show ?thesis
    using v sd MustSqrtDec_eq [OF E pos(3)] by (simp add: a' Bias_def)
qed

definition ex_amm_deep :: amm where
  "ex_amm_deep = ex_amm\<lparr>SqrtDepth := NewDec 2000000, BaseReserve := NewDec 2000000,
     QuoteReserve := NewDec 2000000\<rparr>"

lemma ex_amm_deepen: "UpdateSwapInvariant ref_sdk ex_amm (NewDec 4000000000000) = Inr ex_amm_deep"
  by code_simp

theorem UpdateSwapInvariant_keeps_price_witness:
  "AMM_Validate ex_amm_deep = Inr ()
   \<and> 2 * \<bar>QuoteReserve ex_amm_deep * BaseReserve ex_amm - BaseReserve ex_amm_deep * QuoteReserve ex_amm\<bar>
       \<le> QuoteReserve ex_amm + BaseReserve ex_amm"
  using UpdateSwapInvariant_keeps_price [OF ref_sdk_dec_laws ex_amm_deepen]
  by (simp add: ex_amm_def NewDec_def)

text \<open>The cost of moving the price multiplier of a market that is net long is the value change
  of the net position, rounded up to a whole coin: never less than the change, less than one coin
  more, and non-negative exactly when the multiplier does not fall below the old one by enough to
  matter (a rise never pays out).\<close>

theorem CalcRepegCost_net_long:
  assumes E: "dec_laws E" and c: "CalcRepegCost E a n = Inr cost" and b: "0 < Bias a"
  shows "0 < n \<and> (\<exists>r. GetQuoteReserveAmt E a (Bias a) SHORT = Inr r
    \<and> dec_Mul E r (n - PriceMultiplier a) \<le> NewDec cost
    \<and> NewDec cost < dec_Mul E r (n - PriceMultiplier a) + PREC
    \<and> (PriceMultiplier a \<le> n \<longrightarrow> 0 \<le> cost) \<and> (n \<le> PriceMultiplier a \<longrightarrow> cost \<le> 0))"
proof -
  from c b obtain r where n: "0 < n" and r: "GetQuoteReserveAmt E a (Bias a) SHORT = Inr r"
    and cost: "cost = dec_TruncateInt E (dec_Ceil E (dec_Mul E r (n - PriceMultiplier a)))"
    by (auto simp: CalcRepegCost_def Let_def res_simps split: if_splits)
  let ?x = "dec_Mul E r (n - PriceMultiplier a)"
  have ce: "?x \<le> NewDec cost" "NewDec cost < ?x + PREC"
    unfolding cost NewDec_def by (rule sdk_decimal.ceil_truncInt [OF dec_lawsD [OF E]])+
  have r0: "0 \<le> r" by (rule GetQuoteReserveAmt_nonneg [OF r])
  have "0 \<le> cost" if "PriceMultiplier a \<le> n"
    using ce(1) that r0 sdk_decimal.mul_nonneg [OF dec_lawsD [OF E], of r "n - PriceMultiplier a"]
    by (simp add: NewDec_def) (meson PREC_pos order_trans zero_le_mult_iff not_le)
  moreover have "cost \<le> 0" if "n \<le> PriceMultiplier a"
  proof -
    have "?x \<le> 0"
      using sdk_decimal.mul_nonpos [OF dec_lawsD [OF E], of "n - PriceMultiplier a" r] that r0
      by (simp add: sdk_decimal.mul_comm [OF dec_lawsD [OF E], of r])
    with ce(2) have "cost * PREC < 1 * PREC" unfolding NewDec_def by linarith
    then have "cost < 1" by (rule mult_right_less_imp_less) simp
    then show ?thesis by simp
  qed
  ultimately show ?thesis using n r ce by blast
qed

theorem CalcRepegCost_net_long_witness:
  "CalcRepegCost ref_sdk ex_amm_long (NewDec 7) = Inr 100
   \<and> (\<exists>r. GetQuoteReserveAmt ref_sdk ex_amm_long (Bias ex_amm_long) SHORT = Inr r
        \<and> dec_Mul ref_sdk r (NewDec 7 - PriceMultiplier ex_amm_long) \<le> NewDec 100)"
proof -
  have c: "CalcRepegCost ref_sdk ex_amm_long (NewDec 7) = Inr 100" by code_simp
  have b: "0 < Bias ex_amm_long" by code_simp
  show ?thesis using c CalcRepegCost_net_long [OF ref_sdk_dec_laws c b] by blast
qed

end
