(* ===== verification/Perp_Calc.thy ===== *)
theory Perp_Calc
  imports Perp_AMM
begin

text \<open>
  The read-only computations of the clearing house (\<^verbatim>\<open>x/perp/keeper/v2/calc.go\<close> and
  \<^verbatim>\<open>twap.go\<close>): notional value of a position at the spot price and at the time-weighted average
  price, unrealised profit, funding payment and margin ratio; and the two swaps of the keeper
  (\<^verbatim>\<open>swap.go\<close>), which write the market maker back to the store.  The main lemma says that the
  average price always exists and lies between the prices of the snapshots it averages.
\<close>

section \<open>Positions\<close>

definition PositionNotionalSpot :: "'z sdk_dec_scheme \<Rightarrow> amm \<Rightarrow> position \<Rightarrow> perp_error + dec" where
  "PositionNotionalSpot E a p =
     (let dir = (if 0 < Size p then SHORT else LONG) in
      bindE (GetQuoteReserveAmt E a \<bar>Size p\<bar> dir) (\<lambda>quoteReserve.
        Inr (FromQuoteReserveToAsset E a quoteReserve)))"

definition UnrealizedPnl :: "position \<Rightarrow> dec \<Rightarrow> dec" where
  "UnrealizedPnl p positionNotional =
     (if 0 < Size p then positionNotional - OpenNotional p else OpenNotional p - positionNotional)"

definition FundingPayment :: "'z sdk_dec_scheme \<Rightarrow> position \<Rightarrow> dec \<Rightarrow> dec" where
  "FundingPayment E p marketLatestCumulativePremiumFraction =
     dec_Mul E (marketLatestCumulativePremiumFraction - pos_LatestCumulativePremiumFraction p) (Size p)"

definition MarginRatio :: "'z sdk_dec_scheme \<Rightarrow> position \<Rightarrow> dec \<Rightarrow> dec \<Rightarrow> dec" where
  "MarginRatio E p positionNotional marketLatestCumulativePremiumFraction =
     (if Size p = 0 \<or> positionNotional = 0 then 0
      else
        let unrealizedPnl = UnrealizedPnl p positionNotional;
            fundingPayment = FundingPayment E p marketLatestCumulativePremiumFraction;
            remainingMargin = Margin p + unrealizedPnl - fundingPayment
        in dec_Quo E remainingMargin positionNotional)"


section \<open>Time-weighted average price\<close>

record snapshot_price_ops =
  twapCalcOption :: TwapCalcOption
  direction :: Direction
  assetAmt :: dec

definition getPriceWithSnapshot ::
    "'z sdk_dec_scheme \<Rightarrow> reserve_snapshot \<Rightarrow> snapshot_price_ops \<Rightarrow> perp_error + dec" where
  "getPriceWithSnapshot E snapshot opts =
     (let a = snap_Amm snapshot in
      case twapCalcOption opts of
        SPOT \<Rightarrow> quoE E (dec_Mul E (QuoteReserve a) (PriceMultiplier a)) (BaseReserve a)
      | QUOTE_ASSET_SWAP \<Rightarrow>
          bindE (FromQuoteAssetToReserve E a (assetAmt opts)) (\<lambda>quoteReserve.
            GetBaseReserveAmt E a quoteReserve (direction opts))
      | BASE_ASSET_SWAP \<Rightarrow>
          bindE (GetQuoteReserveAmt E a (assetAmt opts) (direction opts)) (\<lambda>quoteReserve.
            Inr (FromQuoteReserveToAsset E a quoteReserve))
      | TWAP_CALC_OPTION_UNSPECIFIED \<Rightarrow> Inr 0)"

text \<open>The iterator over the snapshots of a pair up to the block time, newest first, and the loop
  that stops at the first one at or below the lower limit.\<close>

definition snapshots_desc :: "(pair \<times> int, reserve_snapshot) kv \<Rightarrow> pair \<Rightarrow> int \<Rightarrow> reserve_snapshot list" where
  "snapshots_desc store p now = rev (kv_values (filter (\<lambda>((q, t), _). q = p \<and> t \<le> now) store))"

fun twap_collect :: "int \<Rightarrow> reserve_snapshot list \<Rightarrow> reserve_snapshot list" where
  "twap_collect lower [] = []"
| "twap_collect lower (s # ss) = (if TimestampMs s \<le> lower then [s] else s # twap_collect lower ss)"

fun twap_loop :: "'z sdk_dec_scheme \<Rightarrow> snapshot_price_ops \<Rightarrow> int \<Rightarrow> int \<Rightarrow> dec \<Rightarrow> int \<Rightarrow>
    reserve_snapshot list \<Rightarrow> perp_error + dec \<times> int" where
  "twap_loop E opts lower prev cumPrice cumPeriod [] = Inr (cumPrice, cumPeriod)"
| "twap_loop E opts lower prev cumPrice cumPeriod (s # ss) =
     bindE (getPriceWithSnapshot E s opts) (\<lambda>price.
       let timeElapsedMs = (if TimestampMs s \<le> lower then prev - lower else prev - TimestampMs s);
           cumPrice' = cumPrice + price * timeElapsedMs;
           cumPeriod' = cumPeriod + timeElapsedMs
       in if TimestampMs s \<le> lower then Inr (cumPrice', cumPeriod')
          else twap_loop E opts lower (TimestampMs s) cumPrice' cumPeriod' ss)"

definition CalcTwap :: "'z sdk_dec_scheme \<Rightarrow> block_ctx \<Rightarrow> 'b perp_state \<Rightarrow> pair \<Rightarrow> TwapCalcOption \<Rightarrow>
    Direction \<Rightarrow> dec \<Rightarrow> int \<Rightarrow> perp_error + dec" where
  "CalcTwap E ctx s p opt dir amt lookbackInterval =
     (let lowerLimitTimestampMs = UnixMilli (BlockTime ctx - lookbackInterval);
          snapshots = twap_collect lowerLimitTimestampMs
            (snapshots_desc (ReserveSnapshots s) p (BlockTime ctx));
          opts = \<lparr>twapCalcOption = opt, direction = dir, assetAmt = amt\<rparr>
      in case snapshots of
           [] \<Rightarrow> Inl ErrNoValidTWAP
         | [x] \<Rightarrow> getPriceWithSnapshot E x opts
         | _ \<Rightarrow>
             bindE (twap_loop E opts lowerLimitTimestampMs (UnixMilli (BlockTime ctx)) 0 0 snapshots)
               (\<lambda>(cumulativePrice, cumulativePeriodMs).
                 if cumulativePeriodMs = 0 then Inl (Panic ''division by zero'')
                 else Inr (dec_QuoInt64 E cumulativePrice cumulativePeriodMs)))"

definition PositionNotionalTWAP ::
    "'z sdk_dec_scheme \<Rightarrow> block_ctx \<Rightarrow> 'b perp_state \<Rightarrow> position \<Rightarrow> int \<Rightarrow> perp_error + dec" where
  "PositionNotionalTWAP E ctx s p twapLookbackWindow =
     (let dir = (if 0 < Size p then SHORT else LONG) in
      CalcTwap E ctx s (pos_Pair p) BASE_ASSET_SWAP dir \<bar>Size p\<bar> twapLookbackWindow)"


section \<open>Swaps of the keeper\<close>

definition checkUserLimits :: "dec \<Rightarrow> dec \<Rightarrow> Direction \<Rightarrow> perp_error + unit" where
  "checkUserLimits limit amount dir =
     (if limit = 0 then Inr ()
      else if dir = LONG \<and> amount < limit then Inl ErrAssetFailsUserLimit
      else if dir = SHORT \<and> limit < amount then Inl ErrAssetFailsUserLimit
      else Inr ())"

definition k_SwapQuoteAsset :: "'z sdk_dec_scheme \<Rightarrow> 'b perp_state \<Rightarrow> market \<Rightarrow> amm \<Rightarrow> Direction \<Rightarrow>
    dec \<Rightarrow> dec \<Rightarrow> perp_error + 'b perp_state \<times> amm \<times> dec" where
  "k_SwapQuoteAsset E s mkt a dir quoteAssetAmt baseAssetLimit =
     (if \<not> 0 < quoteAssetAmt then Inr (s, a, 0)
      else bindE (amm_SwapQuoteAsset E a quoteAssetAmt dir) (\<lambda>(a', baseAssetDelta).
           bindE (checkUserLimits baseAssetLimit baseAssetDelta dir) (\<lambda>_.
             Inr (s\<lparr>AMMs := kv_insert (amm_Pair a') a' (AMMs s)\<rparr>, a', baseAssetDelta))))"

definition k_SwapBaseAsset :: "'z sdk_dec_scheme \<Rightarrow> 'b perp_state \<Rightarrow> market \<Rightarrow> amm \<Rightarrow> Direction \<Rightarrow>
    dec \<Rightarrow> dec \<Rightarrow> perp_error + 'b perp_state \<times> amm \<times> dec" where
  "k_SwapBaseAsset E s mkt a dir baseAssetAmt quoteAssetLimit =
     (if baseAssetAmt = 0 then Inr (s, a, 0)
      else bindE (amm_SwapBaseAsset E a baseAssetAmt dir) (\<lambda>(a', quoteAssetDelta).
           bindE (checkUserLimits quoteAssetLimit quoteAssetDelta dir) (\<lambda>_.
             Inr (s\<lparr>AMMs := kv_insert (amm_Pair a') a' (AMMs s)\<rparr>, a', quoteAssetDelta))))"


section \<open>The average price\<close>

text \<open>Snapshots are stored under the time they record (\<open>InitGenesis\<close> keys them by it).\<close>

definition snapshots_wf :: "(pair \<times> int, reserve_snapshot) kv \<Rightarrow> bool" where
  "snapshots_wf store \<longleftrightarrow> kv_wf store \<and> (\<forall>((p, t), v) \<in> set store. t = TimestampMs v * 1000000)"

lemma snapshots_desc_sorted:
  assumes "snapshots_wf store"
  shows "sorted_wrt (\<lambda>x y. TimestampMs y < TimestampMs x) (snapshots_desc store p now)"
    and "\<forall>x \<in> set (snapshots_desc store p now). TimestampMs x \<le> UnixMilli now"
proof -
  let ?f = "filter (\<lambda>((q, t), _). q = p \<and> t \<le> now) store"
  have k: "sorted_wrt (<) (map fst ?f)"
    using assms kv_wf_filter [of store] unfolding snapshots_wf_def kv_wf_def by blast
  have ent: "fst x = (p, TimestampMs (snd x) * 1000000) \<and> TimestampMs (snd x) * 1000000 \<le> now"
    if "x \<in> set ?f" for x
    using that assms by (auto simp: snapshots_wf_def)
  have "sorted_wrt (\<lambda>x y. TimestampMs (snd x) < TimestampMs (snd y)) ?f"
    using k unfolding sorted_wrt_map
  proof (rule sorted_wrt_mono_rel [rotated])
    fix x y assume "x \<in> set ?f" "y \<in> set ?f" "fst x < fst y"
    then show "TimestampMs (snd x) < TimestampMs (snd y)" using ent [of x] ent [of y] by simp
  qed
  then show "sorted_wrt (\<lambda>x y. TimestampMs y < TimestampMs x) (snapshots_desc store p now)"
    by (simp add: snapshots_desc_def sorted_wrt_rev sorted_wrt_map)
  show "\<forall>x \<in> set (snapshots_desc store p now). TimestampMs x \<le> UnixMilli now"
    using ent by (fastforce simp: snapshots_desc_def UnixMilli_def)
qed

lemma set_twap_collect: "set (twap_collect lower ss) \<subseteq> set ss"
  by (induction ss) auto

lemma twap_collect_sorted:
  "sorted_wrt R ss \<Longrightarrow> sorted_wrt R (twap_collect lower ss)"
  using set_twap_collect by (induction ss) fastforce+

lemma twap_collect_butlast:
  "twap_collect lower ss = xs @ ys \<Longrightarrow> ys \<noteq> [] \<Longrightarrow> x \<in> set xs \<Longrightarrow> lower < TimestampMs x"
  by (induction ss arbitrary: xs) (auto simp: Cons_eq_append_conv append_eq_Cons_conv split: if_splits)

text \<open>The loop keeps the accumulated price between the bounds times the accumulated period.\<close>

lemma twap_loop_bounds:
  assumes "\<forall>x \<in> set ss. \<exists>v. getPriceWithSnapshot E x opts = Inr v \<and> lo \<le> v \<and> v \<le> hi"
    and "sorted_wrt (\<lambda>x y. TimestampMs y < TimestampMs x) ss"
    and "\<forall>x \<in> set ss. TimestampMs x \<le> prev" and "lower \<le> prev"
    and "lo * T \<le> P" and "P \<le> hi * T" and "0 \<le> T"
  shows "\<exists>P' T'. twap_loop E opts lower prev P T ss = Inr (P', T') \<and> T \<le> T'
    \<and> lo * T' \<le> P' \<and> P' \<le> hi * T' \<and> ((\<exists>x \<in> set ss. TimestampMs x < prev) \<and> lower < prev \<longrightarrow> T < T')"
  using assms
proof (induction ss arbitrary: prev P T)
  case Nil
  then show ?case by simp
next
  case (Cons x ss)
  from Cons.prems(1) obtain v where v: "getPriceWithSnapshot E x opts = Inr v" "lo \<le> v" "v \<le> hi" by auto
  define el where "el = (if TimestampMs x \<le> lower then prev - lower else prev - TimestampMs x)"
  have el: "0 \<le> el" using Cons.prems(3,4) by (simp add: el_def)
  have b: "lo * (T + el) \<le> P + v * el" "P + v * el \<le> hi * (T + el)"
    using Cons.prems(5,6) mult_right_mono [OF v(2) el] mult_right_mono [OF v(3) el]
    by (simp_all add: distrib_left)
  show ?case
  proof (cases "TimestampMs x \<le> lower")
    case True
    then show ?thesis using v b el by (auto simp: el_def Let_def)
  next
    case False
    have "\<exists>P' T'. twap_loop E opts lower (TimestampMs x) (P + v * el) (T + el) ss = Inr (P', T') \<and> T + el \<le> T'
      \<and> lo * T' \<le> P' \<and> P' \<le> hi * T'
      \<and> ((\<exists>y \<in> set ss. TimestampMs y < TimestampMs x) \<and> lower < TimestampMs x \<longrightarrow> T + el < T')"
      using Cons.prems False b el by (intro Cons.IH) (auto intro: less_imp_le)
    then obtain P' T' where lp: "twap_loop E opts lower (TimestampMs x) (P + v * el) (T + el) ss = Inr (P', T')"
      and T': "T + el \<le> T'" and pb: "lo * T' \<le> P'" "P' \<le> hi * T'"
      and st: "(\<exists>y \<in> set ss. TimestampMs y < TimestampMs x) \<and> lower < TimestampMs x \<Longrightarrow> T + el < T'"
      by blast
    have "T < T'" if "\<exists>y \<in> set (x # ss). TimestampMs y < prev" "lower < prev"
    proof (cases "TimestampMs x < prev")
      case True then show ?thesis using T' False by (simp add: el_def)
    next
      case nlt: False
      with that Cons.prems(2,3) have "\<exists>y \<in> set ss. TimestampMs y < TimestampMs x" by auto
      then show ?thesis using st False el by auto
    qed
    then show ?thesis using v False lp T' el pb by (auto simp: el_def Let_def)
  qed
qed

text \<open>When a pair has a snapshot at or before the block time, and every snapshot prices the
  queried trade between \<open>lo\<close> and \<open>hi\<close>, the time-weighted average price is always returned (no
  division by an empty period) and lies between \<open>lo\<close> and \<open>hi\<close>.\<close>

theorem CalcTwap_between:
  fixes s :: "'b perp_state"
  assumes E: "dec_laws E" and wf: "snapshots_wf (ReserveSnapshots s)" and look: "0 \<le> lookback"
    and some: "snapshots_desc (ReserveSnapshots s) p (BlockTime ctx) \<noteq> []" and lo: "0 \<le> lo"
    and prices: "\<forall>x \<in> set (snapshots_desc (ReserveSnapshots s) p (BlockTime ctx)).
      \<exists>v. getPriceWithSnapshot E x \<lparr>twapCalcOption = opt, direction = dir, assetAmt = amt\<rparr> = Inr v
          \<and> lo \<le> v \<and> v \<le> hi"
  shows "\<exists>r. CalcTwap E ctx s p opt dir amt lookback = Inr r \<and> lo \<le> r \<and> r \<le> hi"
proof -
  let ?now = "UnixMilli (BlockTime ctx)" and ?low = "UnixMilli (BlockTime ctx - lookback)"
  let ?all = "snapshots_desc (ReserveSnapshots s) p (BlockTime ctx)"
  let ?opts = "\<lparr>twapCalcOption = opt, direction = dir, assetAmt = amt\<rparr>"
  define ss where "ss = twap_collect ?low ?all"
  have sub: "set ss \<subseteq> set ?all" unfolding ss_def by (rule set_twap_collect)
  have low: "?low \<le> ?now" using look by (simp add: UnixMilli_def zdiv_mono1)
  have ne: "ss \<noteq> []" using some by (cases ?all) (auto simp: ss_def)
  show ?thesis
  proof (cases "length ss = 1")
    case True
    then obtain x where "ss = [x]" by (auto simp: length_Suc_conv)
    with prices sub show ?thesis by (auto simp: CalcTwap_def ss_def)
  next
    case False
    with ne obtain x y zs where ss: "ss = x # y # zs" by (cases ss; cases "tl ss") auto
    have sorted: "sorted_wrt (\<lambda>x y. TimestampMs y < TimestampMs x) ss"
      unfolding ss_def by (intro twap_collect_sorted snapshots_desc_sorted(1) wf)
    have le: "\<forall>x \<in> set ss. TimestampMs x \<le> ?now" using sub snapshots_desc_sorted(2) [OF wf] by blast
    have "?low < TimestampMs x" using twap_collect_butlast [of ?low ?all "[x]" "y # zs"] ss by (simp add: ss_def)
    moreover have "TimestampMs y < TimestampMs x" using sorted ss by simp
    ultimately have "\<exists>z \<in> set ss. TimestampMs z < ?now" and "?low < ?now" using le ss by auto
    moreover have "\<exists>P T. twap_loop E ?opts ?low ?now 0 0 ss = Inr (P, T) \<and> 0 \<le> T \<and> lo * T \<le> P \<and> P \<le> hi * T
        \<and> ((\<exists>z \<in> set ss. TimestampMs z < ?now) \<and> ?low < ?now \<longrightarrow> 0 < T)"
      by (rule twap_loop_bounds) (use prices sub sorted le low in auto)
    ultimately obtain P T where lp: "twap_loop E ?opts ?low ?now 0 0 ss = Inr (P, T)"
      and T: "0 < T" and b: "lo * T \<le> P" "P \<le> hi * T"
      by blast
    have "CalcTwap E ctx s p opt dir amt lookback = Inr (dec_QuoInt64 E P T)"
      using lp T by (simp add: CalcTwap_def Let_def ss_def [symmetric] ss)
    then show ?thesis using sdk_decimal.quoInt_between [OF dec_lawsD [OF E] T lo b] by blast
  qed
qed

definition ex_snapshots :: "(pair \<times> int, reserve_snapshot) kv" where
  "ex_snapshots =
     [((''ubtc:unusd'', 10000000), \<lparr>snap_Amm = ex_amm, TimestampMs = 10\<rparr>),
      ((''ubtc:unusd'', 30000000), \<lparr>snap_Amm = ex_amm\<lparr>PriceMultiplier := NewDec 9\<rparr>, TimestampMs = 30\<rparr>)]"

definition ex_twap_state :: "ledger perp_state" where
  "ex_twap_state = \<lparr>Markets = [], AMMs = [], Positions = [], ReserveSnapshots = ex_snapshots,
     bank = (\<lambda>_ _. 0), events = []\<rparr>"

theorem CalcTwap_between_witness:
  "CalcTwap ref_sdk \<lparr>BlockHeight = 1, BlockTime = 60000000\<rparr> ex_twap_state ''ubtc:unusd''
      SPOT DIRECTION_UNSPECIFIED 0 40000000 = Inr (8 * PREC + PREC div 4)
   \<and> (\<exists>r. CalcTwap ref_sdk \<lparr>BlockHeight = 1, BlockTime = 60000000\<rparr> ex_twap_state ''ubtc:unusd''
      SPOT DIRECTION_UNSPECIFIED 0 40000000 = Inr r \<and> NewDec 6 \<le> r \<and> r \<le> NewDec 9)"
proof
  let ?all = "[\<lparr>snap_Amm = ex_amm\<lparr>PriceMultiplier := NewDec 9\<rparr>, TimestampMs = 30\<rparr>,
               \<lparr>snap_Amm = ex_amm, TimestampMs = 10\<rparr>]"
  have all: "snapshots_desc (ReserveSnapshots ex_twap_state) ''ubtc:unusd'' 60000000 = ?all"
    by (simp add: snapshots_desc_def ex_twap_state_def ex_snapshots_def)
  have prices: "getPriceWithSnapshot ref_sdk x \<lparr>twapCalcOption = SPOT, direction = DIRECTION_UNSPECIFIED, assetAmt = 0\<rparr>
      = Inr (PriceMultiplier (snap_Amm x))" if "x \<in> set ?all" for x
    using that
    by (auto simp: getPriceWithSnapshot_def ex_amm_def quoE_def ref_sdk_sel ref_dec_def NewDec_def PREC_def
        ChopPrecisionAndRound_def chop_nonneg_def fivePrecision_def go_quo_def)
  show "CalcTwap ref_sdk \<lparr>BlockHeight = 1, BlockTime = 60000000\<rparr> ex_twap_state ''ubtc:unusd''
      SPOT DIRECTION_UNSPECIFIED 0 40000000 = Inr (8 * PREC + PREC div 4)"
    by code_simp
  show "\<exists>r. CalcTwap ref_sdk \<lparr>BlockHeight = 1, BlockTime = 60000000\<rparr> ex_twap_state ''ubtc:unusd''
      SPOT DIRECTION_UNSPECIFIED 0 40000000 = Inr r \<and> NewDec 6 \<le> r \<and> r \<le> NewDec 9"
  proof (rule CalcTwap_between [OF ref_sdk_dec_laws])
    show "snapshots_wf (ReserveSnapshots ex_twap_state)"
      by (simp add: snapshots_wf_def ex_twap_state_def ex_snapshots_def)
    show "\<forall>x \<in> set (snapshots_desc (ReserveSnapshots ex_twap_state) ''ubtc:unusd''
        (BlockTime \<lparr>BlockHeight = 1, BlockTime = 60000000\<rparr>)).
      \<exists>v. getPriceWithSnapshot ref_sdk x \<lparr>twapCalcOption = SPOT, direction = DIRECTION_UNSPECIFIED, assetAmt = 0\<rparr>
        = Inr v \<and> NewDec 6 \<le> v \<and> v \<le> NewDec 9"
      using prices by (simp add: all ex_amm_def NewDec_def)
  qed (simp_all add: all NewDec_def)
qed

end
