(* ===== verification/Perp_Vault.thy ===== *)
theory Perp_Vault
  imports Perp_Calc
begin

text \<open>
  The vault and the ecosystem fund (\<^verbatim>\<open>x/perp/keeper/v2/withdraw.go\<close>): withdrawals from the
  vault, topped up by the ecosystem fund against prepaid bad debt, and the realisation of bad
  debt.  The lemmas say exactly which balances and which debt change.
\<close>

section \<open>Transfers on the keeper's state\<close>

definition sendM2M :: "'b sdk \<Rightarrow> string \<Rightarrow> string \<Rightarrow> denom \<Rightarrow> int \<Rightarrow> 'b perp_state \<Rightarrow> perp_error + 'b perp_state" where
  "sendM2M E from to d n s =
     bindE (newCoinE E d n) (\<lambda>c.
     bindE (mapErr ErrBank (SendCoinsFromModuleToModule E (bank s) from to c)) (\<lambda>b.
       Inr (s\<lparr>bank := b\<rparr>)))"

definition sendM2A :: "'b sdk \<Rightarrow> string \<Rightarrow> addr \<Rightarrow> denom \<Rightarrow> int \<Rightarrow> 'b perp_state \<Rightarrow> perp_error + 'b perp_state" where
  "sendM2A E from to d n s =
     bindE (newCoinE E d n) (\<lambda>c.
     bindE (mapErr ErrBank (SendCoinsFromModuleToAccount E (bank s) from to c)) (\<lambda>b.
       Inr (s\<lparr>bank := b\<rparr>)))"

definition sendA2M :: "'b sdk \<Rightarrow> addr \<Rightarrow> string \<Rightarrow> denom \<Rightarrow> int \<Rightarrow> 'b perp_state \<Rightarrow> perp_error + 'b perp_state" where
  "sendA2M E from to d n s =
     bindE (newCoinE E d n) (\<lambda>c.
     bindE (mapErr ErrBank (SendCoinsFromAccountToModule E (bank s) from to c)) (\<lambda>b.
       Inr (s\<lparr>bank := b\<rparr>)))"


section \<open>Withdrawals and bad debt\<close>

definition IncrementPrepaidBadDebt :: "market \<Rightarrow> int \<Rightarrow> 'b perp_state \<Rightarrow> 'b perp_state" where
  "IncrementPrepaidBadDebt m amount s =
     (let m' = m\<lparr>PrepaidBadDebt := (PrepaidBadDebt m)\<lparr>Amount := Amount (PrepaidBadDebt m) + amount\<rparr>\<rparr>
      in s\<lparr>Markets := kv_insert (mkt_Pair m) m' (Markets s)\<rparr>)"

definition ZeroPrepaidBadDebt :: "market \<Rightarrow> 'b perp_state \<Rightarrow> 'b perp_state" where
  "ZeroPrepaidBadDebt m s =
     (let m' = m\<lparr>PrepaidBadDebt := (PrepaidBadDebt m)\<lparr>Amount := 0\<rparr>\<rparr>
      in s\<lparr>Markets := kv_insert (mkt_Pair m) m' (Markets s)\<rparr>)"

definition DecrementPrepaidBadDebt :: "market \<Rightarrow> int \<Rightarrow> 'b perp_state \<Rightarrow> 'b perp_state" where
  "DecrementPrepaidBadDebt m amount s =
     (let m' = m\<lparr>PrepaidBadDebt := (PrepaidBadDebt m)\<lparr>Amount := Amount (PrepaidBadDebt m) - amount\<rparr>\<rparr>
      in s\<lparr>Markets := kv_insert (mkt_Pair m) m' (Markets s)\<rparr>)"

definition Withdraw :: "'b sdk \<Rightarrow> 'b perp_state \<Rightarrow> market \<Rightarrow> addr \<Rightarrow> int \<Rightarrow> perp_error + 'b perp_state" where
  "Withdraw E s m receiver amountToWithdraw =
     (if \<not> 0 < amountToWithdraw then Inr s
      else bindE (quoteDenomE (mkt_Pair m)) (\<lambda>d.
        let vaultQuoteBalance = GetBalance E (bank s) (GetModuleAddress E VaultModuleAccount) d in
        bindE
          (if vaultQuoteBalance < amountToWithdraw then
             let shortage = amountToWithdraw - vaultQuoteBalance in
             sendM2M E PerpEFModuleAccount VaultModuleAccount d shortage
               (IncrementPrepaidBadDebt m shortage s)
           else Inr s)
          (\<lambda>s1. sendM2A E VaultModuleAccount receiver d amountToWithdraw s1)))"

definition realizeBadDebt :: "'b sdk \<Rightarrow> 'b perp_state \<Rightarrow> market \<Rightarrow> int \<Rightarrow> perp_error + 'b perp_state" where
  "realizeBadDebt E s m badDebtToRealize =
     (if badDebtToRealize \<le> Amount (PrepaidBadDebt m) then
        Inr (DecrementPrepaidBadDebt m badDebtToRealize s)
      else
        bindE (quoteDenomE (mkt_Pair m)) (\<lambda>d.
          sendM2M E PerpEFModuleAccount VaultModuleAccount d
            (badDebtToRealize - Amount (PrepaidBadDebt m)) (ZeroPrepaidBadDebt m s)))"


section \<open>Which balances move\<close>

text \<open>The accounts of the module are distinct, and the receiver is not one of them.\<close>

definition accounts_distinct :: "'b sdk \<Rightarrow> bool" where
  "accounts_distinct E \<longleftrightarrow>
     GetModuleAddress E VaultModuleAccount \<noteq> GetModuleAddress E PerpEFModuleAccount
     \<and> GetModuleAddress E VaultModuleAccount \<noteq> GetModuleAddress E FeePoolModuleAccount
     \<and> GetModuleAddress E PerpEFModuleAccount \<noteq> GetModuleAddress E FeePoolModuleAccount"

definition outsider :: "'b sdk \<Rightarrow> addr \<Rightarrow> bool" where
  "outsider E a \<longleftrightarrow> a \<noteq> GetModuleAddress E VaultModuleAccount
     \<and> a \<noteq> GetModuleAddress E PerpEFModuleAccount \<and> a \<noteq> GetModuleAddress E FeePoolModuleAccount"

abbreviation vaultBal :: "'b sdk \<Rightarrow> 'b perp_state \<Rightarrow> denom \<Rightarrow> int" where
  "vaultBal E s d \<equiv> GetBalance E (bank s) (GetModuleAddress E VaultModuleAccount) d"

abbreviation efBal :: "'b sdk \<Rightarrow> 'b perp_state \<Rightarrow> denom \<Rightarrow> int" where
  "efBal E s d \<equiv> GetBalance E (bank s) (GetModuleAddress E PerpEFModuleAccount) d"

abbreviation feeBal :: "'b sdk \<Rightarrow> 'b perp_state \<Rightarrow> denom \<Rightarrow> int" where
  "feeBal E s d \<equiv> GetBalance E (bank s) (GetModuleAddress E FeePoolModuleAccount) d"

abbreviation accBal :: "'b sdk \<Rightarrow> 'b perp_state \<Rightarrow> addr \<Rightarrow> denom \<Rightarrow> int" where
  "accBal E s a d \<equiv> GetBalance E (bank s) a d"

definition prepaid :: "'b perp_state \<Rightarrow> pair \<Rightarrow> int" where
  "prepaid s p = (case kv_get (Markets s) p of None \<Rightarrow> 0 | Some m \<Rightarrow> Amount (PrepaidBadDebt m))"

lemma newCoinE_Inr:
  "coin_laws E \<Longrightarrow> newCoinE E d n = Inr c \<Longrightarrow> 0 \<le> n \<and> Denom c = d \<and> Amount c = n"
  by (auto simp: newCoinE_def res_simps dest: coin_lawsD)

text \<open>A successful transfer changes the bank only, by moving the coin.\<close>

lemma sendM2M_Inr:
  assumes "bank_laws E" and "coin_laws E" and "sendM2M E from to d n s = Inr s'"
  shows "\<exists>b. s' = s\<lparr>bank := b\<rparr> \<and> GetBalance E b = transfer (GetModuleAddress E from) (GetModuleAddress E to)
      \<lparr>Denom = d, Amount = n\<rparr> (GetBalance E (bank s))"
    and "0 \<le> n" and "n \<le> GetBalance E (bank s) (GetModuleAddress E from) d"
  using assms(3) newCoinE_Inr [OF assms(2)] bank_keeper.m2m_ok [OF bank_lawsD [OF assms(1)]]
  by (fastforce simp: sendM2M_def res_simps transfer_def fun_eq_iff)+

lemma sendM2A_Inr:
  assumes "bank_laws E" and "coin_laws E" and "sendM2A E from to d n s = Inr s'"
  shows "\<exists>b. s' = s\<lparr>bank := b\<rparr> \<and> GetBalance E b = transfer (GetModuleAddress E from) to
      \<lparr>Denom = d, Amount = n\<rparr> (GetBalance E (bank s))"
    and "0 \<le> n" and "n \<le> GetBalance E (bank s) (GetModuleAddress E from) d"
  using assms(3) newCoinE_Inr [OF assms(2)] bank_keeper.m2a_ok [OF bank_lawsD [OF assms(1)]]
  by (fastforce simp: sendM2A_def res_simps transfer_def fun_eq_iff)+

lemma sendA2M_Inr:
  assumes "bank_laws E" and "coin_laws E" and "sendA2M E from to d n s = Inr s'"
  shows "\<exists>b. s' = s\<lparr>bank := b\<rparr> \<and> GetBalance E b = transfer from (GetModuleAddress E to)
      \<lparr>Denom = d, Amount = n\<rparr> (GetBalance E (bank s))"
    and "0 \<le> n" and "n \<le> GetBalance E (bank s) from d"
  using assms(3) newCoinE_Inr [OF assms(2)] bank_keeper.a2m_ok [OF bank_lawsD [OF assms(1)]]
  by (fastforce simp: sendA2M_def res_simps transfer_def fun_eq_iff)+

text \<open>Whatever the environment, a transfer leaves the collections alone.\<close>

lemma send_frame:
  "sendM2M E from to d n s = Inr s' \<Longrightarrow> \<exists>b. s' = s\<lparr>bank := b\<rparr>"
  "sendM2A E from a d n s = Inr s' \<Longrightarrow> \<exists>b. s' = s\<lparr>bank := b\<rparr>"
  "sendA2M E a to d n s = Inr s' \<Longrightarrow> \<exists>b. s' = s\<lparr>bank := b\<rparr>"
  by (auto simp: sendM2M_def sendM2A_def sendA2M_def res_simps)

lemma quoteDenomE_Inr: "quoteDenomE p = Inr d \<longleftrightarrow> QuoteDenom p = Inr d"
  by (simp add: quoteDenomE_def mapErr_eq_Inr)

lemma Withdraw_Inr:
  assumes B: "bank_laws E" and C: "coin_laws E" and acc: "accounts_distinct E" "outsider E r"
    and w: "Withdraw E s m r n = Inr s'" and n: "0 < n"
  obtains d b where "QuoteDenom (mkt_Pair m) = Inr d"
    and "s' = (if vaultBal E s d < n then IncrementPrepaidBadDebt m (n - vaultBal E s d) s else s)\<lparr>bank := b\<rparr>"
    and "accBal E s' r d = accBal E s r d + n"
    and "efBal E s' d = efBal E s d - max 0 (n - vaultBal E s d)"
    and "vaultBal E s' d = max 0 (vaultBal E s d - n)"
    and "\<And>a e. a \<noteq> r \<Longrightarrow> a \<noteq> GetModuleAddress E VaultModuleAccount \<and> a \<noteq> GetModuleAddress E PerpEFModuleAccount
      \<or> e \<noteq> d \<Longrightarrow> accBal E s' a e = accBal E s a e"
proof -
  from w n obtain d s1 where d: "QuoteDenom (mkt_Pair m) = Inr d"
    and s1: "(if vaultBal E s d < n then sendM2M E PerpEFModuleAccount VaultModuleAccount d
        (n - vaultBal E s d) (IncrementPrepaidBadDebt m (n - vaultBal E s d) s) else Inr s) = Inr s1"
    and s2: "sendM2A E VaultModuleAccount r d n s1 = Inr s'"
    unfolding Withdraw_def Let_def by (auto simp: bindE_eq_Inr quoteDenomE_Inr)
  from sendM2A_Inr(1) [OF B C s2] obtain b2 where b2: "s' = s1\<lparr>bank := b2\<rparr>"
    and t2: "GetBalance E b2 = transfer (GetModuleAddress E VaultModuleAccount) r
      \<lparr>Denom = d, Amount = n\<rparr> (GetBalance E (bank s1))" by blast
  show thesis
  proof (cases "vaultBal E s d < n")
    case True
    from sendM2M_Inr(1) [OF B C] s1 True obtain b1
      where b1: "s1 = (IncrementPrepaidBadDebt m (n - vaultBal E s d) s)\<lparr>bank := b1\<rparr>"
      and t1: "GetBalance E b1 = transfer (GetModuleAddress E PerpEFModuleAccount)
          (GetModuleAddress E VaultModuleAccount) \<lparr>Denom = d, Amount = n - vaultBal E s d\<rparr>
          (GetBalance E (bank s))"
      by (force simp: IncrementPrepaidBadDebt_def Let_def)
    show thesis
      by (rule that [OF d, of b2])
        (use True b1 b2 t1 t2 acc in \<open>auto simp: transfer_def accounts_distinct_def outsider_def\<close>)
  next
    case False
    then have "s1 = s" using s1 by simp
    then show thesis
      by (intro that [OF d, of b2])
        (use False b2 t2 acc in \<open>auto simp: transfer_def accounts_distinct_def outsider_def\<close>)
  qed
qed

lemma prepaid_Increment:
  "prepaid (IncrementPrepaidBadDebt m n s) p =
     (if p = mkt_Pair m then Amount (PrepaidBadDebt m) + n else prepaid s p)"
  "prepaid (DecrementPrepaidBadDebt m n s) p =
     (if p = mkt_Pair m then Amount (PrepaidBadDebt m) - n else prepaid s p)"
  "prepaid (ZeroPrepaidBadDebt m s) p = (if p = mkt_Pair m then 0 else prepaid s p)"
  by (simp_all add: prepaid_def IncrementPrepaidBadDebt_def DecrementPrepaidBadDebt_def
      ZeroPrepaidBadDebt_def Let_def)

lemma prepaid_bank [simp]: "prepaid (s\<lparr>bank := b\<rparr>) p = prepaid s p"
  by (simp add: prepaid_def)

lemma prepaid_frame [simp]:
  "Positions (IncrementPrepaidBadDebt m n s) = Positions s" "AMMs (IncrementPrepaidBadDebt m n s) = AMMs s"
  "ReserveSnapshots (IncrementPrepaidBadDebt m n s) = ReserveSnapshots s"
  "bank (IncrementPrepaidBadDebt m n s) = bank s" "events (IncrementPrepaidBadDebt m n s) = events s"
  "Positions (DecrementPrepaidBadDebt m n s) = Positions s" "AMMs (DecrementPrepaidBadDebt m n s) = AMMs s"
  "ReserveSnapshots (DecrementPrepaidBadDebt m n s) = ReserveSnapshots s"
  "bank (DecrementPrepaidBadDebt m n s) = bank s" "events (DecrementPrepaidBadDebt m n s) = events s"
  "Positions (ZeroPrepaidBadDebt m s) = Positions s" "AMMs (ZeroPrepaidBadDebt m s) = AMMs s"
  "ReserveSnapshots (ZeroPrepaidBadDebt m s) = ReserveSnapshots s"
  "bank (ZeroPrepaidBadDebt m s) = bank s" "events (ZeroPrepaidBadDebt m s) = events s"
  by (simp_all add: IncrementPrepaidBadDebt_def DecrementPrepaidBadDebt_def ZeroPrepaidBadDebt_def Let_def)

text \<open>A withdrawal that succeeds pays the receiver exactly the amount; the vault pays what it
  has and the ecosystem fund pays exactly the shortage, which is booked as prepaid bad debt of the
  market on top of the debt the market handed in; nothing else of the state or of any other
  balance changes.\<close>

theorem Withdraw_pays_and_books:
  fixes s :: "'b perp_state"
  assumes "bank_laws E" and "coin_laws E" and "accounts_distinct E" and "outsider E r"
    and "kv_get (Markets s) (mkt_Pair m) = Some m"
    and "Withdraw E s m r n = Inr s'" and "0 < n" and "QuoteDenom (mkt_Pair m) = Inr d"
  shows "accBal E s' r d = accBal E s r d + n
    \<and> vaultBal E s' d = max 0 (vaultBal E s d - n)
    \<and> efBal E s' d = efBal E s d - max 0 (n - vaultBal E s d)
    \<and> prepaid s' (mkt_Pair m) = prepaid s (mkt_Pair m) + max 0 (n - vaultBal E s d)
    \<and> (\<forall>p. p \<noteq> mkt_Pair m \<longrightarrow> prepaid s' p = prepaid s p)
    \<and> Positions s' = Positions s \<and> AMMs s' = AMMs s \<and> ReserveSnapshots s' = ReserveSnapshots s"
proof -
  obtain b where s': "s' = (if vaultBal E s d < n then IncrementPrepaidBadDebt m (n - vaultBal E s d) s else s)\<lparr>bank := b\<rparr>"
    and bal: "accBal E s' r d = accBal E s r d + n" "efBal E s' d = efBal E s d - max 0 (n - vaultBal E s d)"
      "vaultBal E s' d = max 0 (vaultBal E s d - n)"
    using Withdraw_Inr [OF assms(1-4,6,7)] assms(8) by (metis Inr_inject)
  have "prepaid s (mkt_Pair m) = Amount (PrepaidBadDebt m)" using assms(5) by (simp add: prepaid_def)
  then show ?thesis
    using bal unfolding s' by (auto simp: prepaid_Increment max_def)
qed

text \<open>Realising bad debt first consumes the market's prepaid bad debt, and only the remainder is
  moved from the ecosystem fund into the vault, so that debt the fund has prepaid is never paid
  twice.\<close>

theorem realizeBadDebt_consumes_prepaid:
  fixes s :: "'b perp_state"
  assumes B: "bank_laws E" and C: "coin_laws E" and acc: "accounts_distinct E"
    and m: "kv_get (Markets s) (mkt_Pair m) = Some m"
    and r: "realizeBadDebt E s m debt = Inr s'" and d: "QuoteDenom (mkt_Pair m) = Inr d"
    and "0 \<le> debt"
  shows "prepaid s' (mkt_Pair m) = max 0 (prepaid s (mkt_Pair m) - debt)
    \<and> efBal E s' d = efBal E s d - max 0 (debt - prepaid s (mkt_Pair m))
    \<and> vaultBal E s' d = vaultBal E s d + max 0 (debt - prepaid s (mkt_Pair m))
    \<and> Positions s' = Positions s \<and> AMMs s' = AMMs s \<and> ReserveSnapshots s' = ReserveSnapshots s"
proof -
  have p: "prepaid s (mkt_Pair m) = Amount (PrepaidBadDebt m)" using m by (simp add: prepaid_def)
  show ?thesis
  proof (cases "debt \<le> Amount (PrepaidBadDebt m)")
    case True
    then have "s' = DecrementPrepaidBadDebt m debt s" using r by (simp add: realizeBadDebt_def)
    then show ?thesis using True p by (simp add: prepaid_Increment)
  next
    case False
    then have "sendM2M E PerpEFModuleAccount VaultModuleAccount d (debt - Amount (PrepaidBadDebt m))
        (ZeroPrepaidBadDebt m s) = Inr s'"
      using r d by (simp add: realizeBadDebt_def quoteDenomE_def)
    from sendM2M_Inr(1) [OF B C this] False p acc show ?thesis
      by (auto simp: prepaid_Increment transfer_def accounts_distinct_def)
  qed
qed

text \<open>The witnesses run on a market with a vault of 10 coins and a fund of 1000.\<close>

definition ex_market :: market where
  "ex_market = \<lparr>mkt_Pair = ''ubtc:unusd'', Enabled = True, PriceFluctuationLimitRatio = PREC div 10,
     MaintenanceMarginRatio = PREC div 16, MaxLeverage = NewDec 10,
     mkt_LatestCumulativePremiumFraction = 0, ExchangeFeeRatio = PREC div 1000,
     EcosystemFundFeeRatio = PREC div 1000, LiquidationFeeRatio = PREC div 20,
     PartialLiquidationRatio = PREC div 2, FundingRateEpochId = ''30 min'',
     TwapLookbackWindow = 1800000000000, PrepaidBadDebt = \<lparr>Denom = ''unusd'', Amount = 5\<rparr>\<rparr>"

definition ex_ledger :: ledger where
  "ex_ledger a d =
     (if d \<noteq> ''unusd'' then 0
      else if a = ledger_module VaultModuleAccount then 10
      else if a = ledger_module PerpEFModuleAccount then 1000
      else if a = ''alice'' then 500 else 0)"

definition ex_state :: "ledger perp_state" where
  "ex_state = \<lparr>Markets = [(''ubtc:unusd'', ex_market)], AMMs = [(''ubtc:unusd'', ex_amm)], Positions = [],
     ReserveSnapshots = [((''ubtc:unusd'', 10000000), \<lparr>snap_Amm = ex_amm, TimestampMs = 10\<rparr>)],
     bank = ex_ledger, events = []\<rparr>"

lemma ref_accounts_distinct: "accounts_distinct ref_sdk"
  by (simp add: accounts_distinct_def ref_sdk_sel ledger_module_def VaultModuleAccount_def
      PerpEFModuleAccount_def FeePoolModuleAccount_def)

lemma ref_outsider: "outsider ref_sdk ''alice''" "outsider ref_sdk ''bob''"
  by (simp_all add: outsider_def ref_sdk_sel ledger_module_def VaultModuleAccount_def
      PerpEFModuleAccount_def FeePoolModuleAccount_def)

theorem Withdraw_pays_and_books_witness:
  "\<exists>s'. Withdraw ref_sdk ex_state ex_market ''alice'' 30 = Inr s'
     \<and> prepaid s' ''ubtc:unusd'' = 25 \<and> accBal ref_sdk s' ''alice'' ''unusd'' = 530
     \<and> efBal ref_sdk s' ''unusd'' = 980"
proof -
  have d: "QuoteDenom (mkt_Pair ex_market) = Inr ''unusd''" by code_simp
  have m: "kv_get (Markets ex_state) (mkt_Pair ex_market) = Some ex_market" by code_simp
  have "\<not> isl (Withdraw ref_sdk ex_state ex_market ''alice'' 30)" by code_simp
  then obtain s' where w: "Withdraw ref_sdk ex_state ex_market ''alice'' 30 = Inr s'"
    using not_isl_Inr by blast
  have p: "mkt_Pair ex_market = ''ubtc:unusd''" by (simp add: ex_market_def)
  show ?thesis
    using w Withdraw_pays_and_books [OF ref_sdk_bank_laws ref_sdk_coin_laws ref_accounts_distinct
        ref_outsider(1) m w _ d]
    by (simp add: p) (simp add: prepaid_def ex_state_def ex_market_def ex_ledger_def ref_sdk_sel
        ledger_module_def VaultModuleAccount_def PerpEFModuleAccount_def)
qed

theorem realizeBadDebt_consumes_prepaid_witness:
  "\<exists>s'. realizeBadDebt ref_sdk ex_state ex_market 8 = Inr s'
     \<and> prepaid s' ''ubtc:unusd'' = 0 \<and> efBal ref_sdk s' ''unusd'' = 997"
proof -
  have d: "QuoteDenom (mkt_Pair ex_market) = Inr ''unusd''" by code_simp
  have m: "kv_get (Markets ex_state) (mkt_Pair ex_market) = Some ex_market" by code_simp
  have p: "mkt_Pair ex_market = ''ubtc:unusd''" by (simp add: ex_market_def)
  have "\<not> isl (realizeBadDebt ref_sdk ex_state ex_market 8)" by code_simp
  then obtain s' where r: "realizeBadDebt ref_sdk ex_state ex_market 8 = Inr s'"
    using not_isl_Inr by blast
  show ?thesis
    using r realizeBadDebt_consumes_prepaid [OF ref_sdk_bank_laws ref_sdk_coin_laws ref_accounts_distinct m r d]
    by (simp add: p) (simp add: prepaid_def ex_state_def ex_market_def ex_ledger_def ref_sdk_sel
        ledger_module_def VaultModuleAccount_def PerpEFModuleAccount_def)
qed

end
