(* ===== verification/Perp_ClearingHouse.thy ===== *)
theory Perp_ClearingHouse
  imports Perp_Vault
begin

text \<open>
  The clearing house (\<^verbatim>\<open>x/perp/keeper/v2/clearing_house.go\<close>): opening, increasing, decreasing,
  reversing and closing positions, with the checks, transfers and store writes of the code.  Every
  operation maps a state to an error or to the new state and its results; an error discards the
  state, as the transaction does.
\<close>

section \<open>Position changes\<close>

definition increasePosition :: "'b sdk \<Rightarrow> block_ctx \<Rightarrow> 'b perp_state \<Rightarrow> market \<Rightarrow> amm \<Rightarrow> position \<Rightarrow>
    Direction \<Rightarrow> dec \<Rightarrow> dec \<Rightarrow> dec \<Rightarrow> perp_error + 'b perp_state \<times> amm \<times> position_resp" where
  "increasePosition E ctx s mkt a currentPosition dir increasedNotional baseAmtLimit leverage =
     bindE (quoE E increasedNotional leverage) (\<lambda>marginDelta.
     let fundingPayment = FundingPayment E currentPosition (mkt_LatestCumulativePremiumFraction mkt);
         remainingMarginSigned = Margin currentPosition + marginDelta - fundingPayment
     in
     bindE (k_SwapQuoteAsset E s mkt a dir increasedNotional baseAmtLimit)
       (\<lambda>(s', updatedAMM, baseAssetDeltaAbs).
     bindE (PositionNotionalSpot E a currentPosition) (\<lambda>positionNotional.
     bindE (case dir of LONG \<Rightarrow> Inr baseAssetDeltaAbs | SHORT \<Rightarrow> Inr (- baseAssetDeltaAbs)
            | DIRECTION_UNSPECIFIED \<Rightarrow> Inl (Panic ''nil decimal'')) (\<lambda>exchangedPositionSize.
     let newPositionNotional = positionNotional + increasedNotional;
         p' = \<lparr>TraderAddress = TraderAddress currentPosition,
               pos_Pair = pos_Pair currentPosition,
               Size = Size currentPosition + exchangedPositionSize,
               Margin = \<bar>max 0 remainingMarginSigned\<bar>,
               OpenNotional = OpenNotional currentPosition + increasedNotional,
               pos_LatestCumulativePremiumFraction = mkt_LatestCumulativePremiumFraction mkt,
               LastUpdatedBlockNumber = BlockHeight ctx\<rparr>
     in Inr (s', updatedAMM,
          \<lparr>resp_Position = p',
           ExchangedNotionalValue = increasedNotional,
           ExchangedPositionSize = exchangedPositionSize,
           BadDebt = \<bar>min 0 remainingMarginSigned\<bar>,
           FundingPaymentApplied = fundingPayment,
           RealizedPnl = 0,
           UnrealizedPnlAfter = UnrealizedPnl p' newPositionNotional,
           MarginToVault = marginDelta,
           PositionNotional = newPositionNotional\<rparr>)))))"

definition decreasePosition :: "'b sdk \<Rightarrow> block_ctx \<Rightarrow> 'b perp_state \<Rightarrow> market \<Rightarrow> amm \<Rightarrow> position \<Rightarrow>
    dec \<Rightarrow> dec \<Rightarrow> bool \<Rightarrow> perp_error + 'b perp_state \<times> amm \<times> position_resp" where
  "decreasePosition E ctx s mkt a currentPosition decreasedNotional baseAmtLimit skipFluctuationLimitCheck =
     (if Size currentPosition = 0 then Inl (ErrText ''current position size is zero, nothing to decrease'')
      else
     let dir = (if 0 < Size currentPosition then SHORT else LONG) in
     bindE (PositionNotionalSpot E a currentPosition) (\<lambda>currentPositionNotional.
     let currentUnrealizedPnl = UnrealizedPnl currentPosition currentPositionNotional in
     bindE (k_SwapQuoteAsset E s mkt a dir decreasedNotional baseAmtLimit)
       (\<lambda>(s', updatedAMM, baseAssetDeltaAbs).
     let exchangedPositionSize = (if dir = LONG then baseAssetDeltaAbs else - baseAssetDeltaAbs);
         realizedPnl = dec_Mul E currentUnrealizedPnl
           (dec_Quo E \<bar>exchangedPositionSize\<bar> \<bar>Size currentPosition\<bar>);
         fundingPayment = FundingPayment E currentPosition (mkt_LatestCumulativePremiumFraction mkt);
         remainingMargin = Margin currentPosition + realizedPnl - fundingPayment;
         unrealizedPnlAfter = currentUnrealizedPnl - realizedPnl;
         positionNotional = currentPositionNotional - decreasedNotional;
         remainOpenNotional =
           (if 0 < Size currentPosition then positionNotional - unrealizedPnlAfter
            else positionNotional + unrealizedPnlAfter)
     in if remainOpenNotional < 0 then Inl (ErrText ''value of open notional < 0'')
        else Inr (s', updatedAMM,
          \<lparr>resp_Position =
             \<lparr>TraderAddress = TraderAddress currentPosition,
              pos_Pair = pos_Pair currentPosition,
              Size = Size currentPosition + exchangedPositionSize,
              Margin = \<bar>max 0 remainingMargin\<bar>,
              OpenNotional = remainOpenNotional,
              pos_LatestCumulativePremiumFraction = mkt_LatestCumulativePremiumFraction mkt,
              LastUpdatedBlockNumber = BlockHeight ctx\<rparr>,
           ExchangedNotionalValue = decreasedNotional,
           ExchangedPositionSize = exchangedPositionSize,
           BadDebt = \<bar>min 0 remainingMargin\<bar>,
           FundingPaymentApplied = fundingPayment,
           RealizedPnl = realizedPnl,
           UnrealizedPnlAfter = unrealizedPnlAfter,
           MarginToVault = 0,
           PositionNotional = positionNotional\<rparr>))))"

definition closePositionEntirely :: "'b sdk \<Rightarrow> block_ctx \<Rightarrow> 'b perp_state \<Rightarrow> market \<Rightarrow> amm \<Rightarrow> position \<Rightarrow>
    dec \<Rightarrow> perp_error + 'b perp_state \<times> amm \<times> position_resp" where
  "closePositionEntirely E ctx s mkt a currentPosition quoteAssetAmountLimit =
     (if Size currentPosition = 0 then Inl (ErrText ''zero position size'')
      else
     bindE (getE ErrBech32 (AccAddressFromBech32 E (TraderAddress currentPosition))) (\<lambda>trader.
     bindE (PositionNotionalSpot E a currentPosition) (\<lambda>positionNotional.
     let unrealizedPnl = UnrealizedPnl currentPosition positionNotional;
         fundingPayment = FundingPayment E currentPosition (mkt_LatestCumulativePremiumFraction mkt);
         remainingMargin = Margin currentPosition + unrealizedPnl - fundingPayment;
         sideToTake = (if 0 < Size currentPosition then SHORT else LONG)
     in
     bindE (k_SwapBaseAsset E s mkt a sideToTake \<bar>Size currentPosition\<bar> quoteAssetAmountLimit)
       (\<lambda>(s', updatedAMM, exchangedNotionalValue).
     bindE (checkE (kv_get (Positions s') (pos_Pair currentPosition, trader) \<noteq> None) ErrNotFound) (\<lambda>_.
       Inr (s'\<lparr>Positions := kv_delete (pos_Pair currentPosition, trader) (Positions s')\<rparr>, updatedAMM,
          \<lparr>resp_Position =
             \<lparr>TraderAddress = TraderAddress currentPosition,
              pos_Pair = pos_Pair currentPosition,
              Size = 0,
              Margin = 0,
              OpenNotional = 0,
              pos_LatestCumulativePremiumFraction = mkt_LatestCumulativePremiumFraction mkt,
              LastUpdatedBlockNumber = BlockHeight ctx\<rparr>,
           ExchangedNotionalValue = exchangedNotionalValue,
           ExchangedPositionSize = - Size currentPosition,
           BadDebt = (if 0 < remainingMargin then 0 else \<bar>remainingMargin\<bar>),
           FundingPaymentApplied = fundingPayment,
           RealizedPnl = unrealizedPnl,
           UnrealizedPnlAfter = 0,
           MarginToVault = (if 0 < remainingMargin then - remainingMargin else 0),
           PositionNotional = 0\<rparr>))))))"

definition closeAndOpenReversePosition :: "'b sdk \<Rightarrow> block_ctx \<Rightarrow> 'b perp_state \<Rightarrow> market \<Rightarrow> amm \<Rightarrow>
    position \<Rightarrow> dec \<Rightarrow> dec \<Rightarrow> dec \<Rightarrow> perp_error + 'b perp_state \<times> amm \<times> position_resp" where
  "closeAndOpenReversePosition E ctx s mkt a existingPosition quoteAssetAmount leverage baseAmtLimit =
     bindE (getE ErrBech32 (AccAddressFromBech32 E (TraderAddress existingPosition))) (\<lambda>trader.
     bindE (closePositionEntirely E ctx s mkt a existingPosition 0) (\<lambda>(s1, amm1, closeResp).
     if 0 < BadDebt closeResp then Inl (ErrText ''underwater position'')
     else
     let reverseNotionalValue = dec_Mul E leverage quoteAssetAmount;
         remainingReverseNotionalValue = reverseNotionalValue - ExchangedNotionalValue closeResp
     in
     if remainingReverseNotionalValue < 0 then
       Inl (ErrText ''provided quote asset amount and leverage not large enough to close position'')
     else if 0 < remainingReverseNotionalValue then
       let updatedBaseAmtLimit =
             (if 0 < baseAmtLimit then baseAmtLimit - \<bar>ExchangedPositionSize closeResp\<bar> else baseAmtLimit)
       in
       if updatedBaseAmtLimit < 0 then
         Inl (ErrText ''position size changed by greater than the specified base limit'')
       else
         let sideToTake = (if 0 < Size existingPosition then SHORT else LONG);
             newPosition = ZeroPosition E ctx (pos_Pair existingPosition) trader
         in
         bindE (increasePosition E ctx s1 mkt amm1 newPosition sideToTake remainingReverseNotionalValue
             updatedBaseAmtLimit leverage) (\<lambda>(s2, amm2, incResp).
           Inr (s2, amm2,
             \<lparr>resp_Position = resp_Position incResp,
              ExchangedNotionalValue = ExchangedNotionalValue closeResp + ExchangedNotionalValue incResp,
              ExchangedPositionSize = ExchangedPositionSize closeResp + ExchangedPositionSize incResp,
              BadDebt = BadDebt closeResp + BadDebt incResp,
              FundingPaymentApplied = FundingPaymentApplied closeResp + FundingPaymentApplied incResp,
              RealizedPnl = RealizedPnl closeResp + RealizedPnl incResp,
              UnrealizedPnlAfter = 0,
              MarginToVault = MarginToVault closeResp + MarginToVault incResp,
              PositionNotional = PositionNotional incResp\<rparr>))
     else Inr (s1, amm1, closeResp)))"

definition openReversePosition :: "'b sdk \<Rightarrow> block_ctx \<Rightarrow> 'b perp_state \<Rightarrow> market \<Rightarrow> amm \<Rightarrow>
    position \<Rightarrow> dec \<Rightarrow> dec \<Rightarrow> dec \<Rightarrow> perp_error + 'b perp_state \<times> amm \<times> position_resp" where
  "openReversePosition E ctx s mkt a currentPosition quoteAssetAmount leverage baseAmtLimit =
     (let notionalToDecreaseBy = dec_Mul E leverage quoteAssetAmount in
      bindE (PositionNotionalSpot E a currentPosition) (\<lambda>currentPositionNotional.
        if notionalToDecreaseBy < currentPositionNotional then
          decreasePosition E ctx s mkt a currentPosition notionalToDecreaseBy baseAmtLimit False
        else
          closeAndOpenReversePosition E ctx s mkt a currentPosition quoteAssetAmount leverage baseAmtLimit))"


section \<open>Checks and settlement\<close>

definition checkOpenPositionRequirements :: "market \<Rightarrow> int \<Rightarrow> dec \<Rightarrow> perp_error + unit" where
  "checkOpenPositionRequirements mkt quoteAssetAmt leverage =
     (if quoteAssetAmt = 0 then Inl ErrQuoteAmountIsZero
      else if leverage = 0 then Inl ErrLeverageIsZero
      else if MaxLeverage mkt < leverage then Inl ErrLeverageIsTooHigh
      else Inr ())"

definition latestSnapshot :: "(pair \<times> int, reserve_snapshot) kv \<Rightarrow> pair \<Rightarrow> reserve_snapshot option" where
  "latestSnapshot store p =
     (case rev (filter (\<lambda>((q, _), _). q = p) store) of [] \<Rightarrow> None | (_, v) # _ \<Rightarrow> Some v)"

definition checkPriceFluctuationLimitRatio ::
    "'z sdk_dec_scheme \<Rightarrow> 'b perp_state \<Rightarrow> market \<Rightarrow> amm \<Rightarrow> perp_error + unit" where
  "checkPriceFluctuationLimitRatio E s mkt a =
     (if PriceFluctuationLimitRatio mkt = 0 then Inr ()
      else
        case latestSnapshot (ReserveSnapshots s) (amm_Pair a) of
          None \<Rightarrow> Inl (ErrText ''error getting last snapshot number for pair'')
        | Some snapshot \<Rightarrow>
            let snapshotMarkPrice = MarkPrice E (snap_Amm snapshot);
                snapshotUpperLimit = dec_Mul E snapshotMarkPrice (OneDec + PriceFluctuationLimitRatio mkt);
                snapshotLowerLimit = dec_Mul E snapshotMarkPrice (OneDec - PriceFluctuationLimitRatio mkt)
            in if snapshotUpperLimit < MarkPrice E a \<or> MarkPrice E a < snapshotLowerLimit
               then Inl ErrOverFluctuationLimit else Inr ())"

definition transferFee :: "'b sdk \<Rightarrow> 'b perp_state \<Rightarrow> pair \<Rightarrow> addr \<Rightarrow> dec \<Rightarrow> perp_error + 'b perp_state \<times> int" where
  "transferFee E s p trader positionNotional =
     bindE (getE ErrNotFound (kv_get (Markets s) p)) (\<lambda>m.
     let feeToExchangeFeePool = dec_RoundInt E (dec_Mul E (ExchangeFeeRatio m) positionNotional);
         feeToEcosystemFund = dec_RoundInt E (dec_Mul E (EcosystemFundFeeRatio m) positionNotional)
     in
     bindE (if 0 < feeToExchangeFeePool
            then bindE (quoteDenomE p) (\<lambda>d. sendA2M E trader FeePoolModuleAccount d feeToExchangeFeePool s)
            else Inr s) (\<lambda>s1.
     bindE (if 0 < feeToEcosystemFund
            then bindE (quoteDenomE p) (\<lambda>d. sendA2M E trader PerpEFModuleAccount d feeToEcosystemFund s1)
            else Inr s1) (\<lambda>s2.
     Inr (s2, feeToExchangeFeePool + feeToEcosystemFund))))"

definition settleMargin :: "'b sdk \<Rightarrow> 'b perp_state \<Rightarrow> market \<Rightarrow> addr \<Rightarrow> int \<Rightarrow> perp_error + 'b perp_state" where
  "settleMargin E s mkt traderAddr marginToVault =
     (if 0 < marginToVault then
        bindE (quoteDenomE (mkt_Pair mkt)) (\<lambda>d. sendA2M E traderAddr VaultModuleAccount d marginToVault s)
      else if marginToVault < 0 then Withdraw E s mkt traderAddr \<bar>marginToVault\<bar>
      else Inr s)"

definition checkMarginRatio ::
    "'b sdk \<Rightarrow> block_ctx \<Rightarrow> 'b perp_state \<Rightarrow> market \<Rightarrow> amm \<Rightarrow> position \<Rightarrow> perp_error + unit" where
  "checkMarginRatio E ctx s mkt a p =
     (if Size p \<noteq> 0 then
        bindE (PositionNotionalSpot E a p) (\<lambda>spotNotional.
        bindE (PositionNotionalTWAP E ctx s p (TwapLookbackWindow mkt)) (\<lambda>twapNotional.
        let positionNotional = max spotNotional twapNotional;
            marginRatio = MarginRatio E p positionNotional (mkt_LatestCumulativePremiumFraction mkt)
        in if marginRatio < MaintenanceMarginRatio mkt then Inl ErrMarginRatioTooLow else Inr ()))
      else Inr ())"

definition positionChangedEvent :: "'b sdk \<Rightarrow> block_ctx \<Rightarrow> market \<Rightarrow> addr \<Rightarrow> position_resp \<Rightarrow> int \<Rightarrow>
    perp_error + perp_event" where
  "positionChangedEvent E ctx mkt traderAddr r transferredFee =
     (let p = resp_Position r;
          positionNotional =
            (if 0 < Size p then OpenNotional p + UnrealizedPnlAfter r
             else if Size p < 0 then OpenNotional p - UnrealizedPnlAfter r
             else 0)
      in
      bindE (quoteDenomE (mkt_Pair mkt)) (\<lambda>d.
      bindE (newCoinE E d (dec_RoundInt E (Margin p))) (\<lambda>margin.
      bindE (newCoinE E d transferredFee) (\<lambda>fee.
      bindE (newCoinE E d (dec_RoundInt E (BadDebt r))) (\<lambda>badDebt.
      Inr (PositionChangedEvent
        \<lparr>pce_TraderAddress = AccAddressString E traderAddr, pce_Pair = mkt_Pair mkt, pce_Margin = margin,
         pce_PositionNotional = positionNotional, pce_ExchangedNotional = ExchangedNotionalValue r,
         pce_ExchangedSize = ExchangedPositionSize r, pce_TransactionFee = fee, pce_PositionSize = Size p,
         pce_RealizedPnl = RealizedPnl r, pce_UnrealizedPnlAfter = UnrealizedPnlAfter r,
         pce_BadDebt = badDebt, pce_FundingPayment = FundingPaymentApplied r,
         pce_BlockHeight = BlockHeight ctx, pce_BlockTimeMs = UnixMilli (BlockTime ctx)\<rparr>))))))"

definition afterPositionUpdate :: "'b sdk \<Rightarrow> block_ctx \<Rightarrow> 'b perp_state \<Rightarrow> market \<Rightarrow> amm \<Rightarrow> addr \<Rightarrow>
    position_resp \<Rightarrow> perp_error + 'b perp_state" where
  "afterPositionUpdate E ctx s mkt a traderAddr r =
     (if BadDebt r \<noteq> 0 then Inl (ErrText ''bad debt must be zero to prevent attacker from leveraging it'')
      else
     bindE (checkPriceFluctuationLimitRatio E s mkt a) (\<lambda>_.
     bindE (checkMarginRatio E ctx s mkt a (resp_Position r)) (\<lambda>_.
     bindE (settleMargin E s mkt traderAddr (dec_RoundInt E (MarginToVault r))) (\<lambda>s1.
     bindE (transferFee E s1 (mkt_Pair mkt) traderAddr (ExchangedNotionalValue r)) (\<lambda>(s2, transferredFee).
     let s3 = (if Size (resp_Position r) \<noteq> 0
               then s2\<lparr>Positions := kv_insert (mkt_Pair mkt, traderAddr) (resp_Position r) (Positions s2)\<rparr>
               else s2)
     in bindE (positionChangedEvent E ctx mkt traderAddr r transferredFee) (\<lambda>ev. Inr (emit ev s3)))))))"


section \<open>Entry points\<close>

definition OpenPosition :: "'b sdk \<Rightarrow> block_ctx \<Rightarrow> 'b perp_state \<Rightarrow> pair \<Rightarrow> Direction \<Rightarrow> addr \<Rightarrow> int \<Rightarrow> dec \<Rightarrow>
    dec \<Rightarrow> perp_error + 'b perp_state \<times> position_resp" where
  "OpenPosition E ctx s p dir traderAddr quoteAssetAmt leverage baseAmtLimit =
     bindE (getE ErrPairNotFound (kv_get (Markets s) p)) (\<lambda>mkt.
     if \<not> Enabled mkt then Inl ErrMarketNotEnabled
     else
     bindE (getE ErrPairNotFound (kv_get (AMMs s) p)) (\<lambda>a.
     bindE (checkOpenPositionRequirements mkt quoteAssetAmt leverage) (\<lambda>_.
     let found = kv_get (Positions s) (p, traderAddr);
         isNewPosition = (found = None);
         pos = (case found of None \<Rightarrow> ZeroPosition E ctx p traderAddr | Some q \<Rightarrow> q);
         sameSideLong = (0 < Size pos \<and> dir = LONG);
         sameSideShort = (Size pos < 0 \<and> dir = SHORT);
         openSideMatchesPosition = (sameSideLong \<or> sameSideShort)
     in
     bindE
       (if isNewPosition \<or> openSideMatchesPosition
        then increasePosition E ctx s mkt a pos dir (leverage * quoteAssetAmt) baseAmtLimit leverage
        else openReversePosition E ctx s mkt a pos (NewDec quoteAssetAmt) leverage baseAmtLimit)
       (\<lambda>(s1, updatedAMM, positionResp).
     bindE (afterPositionUpdate E ctx s1 mkt updatedAMM traderAddr positionResp) (\<lambda>s2.
       Inr (s2, positionResp))))))"

definition ClosePosition :: "'b sdk \<Rightarrow> block_ctx \<Rightarrow> 'b perp_state \<Rightarrow> pair \<Rightarrow> addr \<Rightarrow>
    perp_error + 'b perp_state \<times> position_resp" where
  "ClosePosition E ctx s p traderAddr =
     bindE (getE ErrNotFound (kv_get (Positions s) (p, traderAddr))) (\<lambda>pos.
     bindE (getE ErrPairNotFound (kv_get (Markets s) p)) (\<lambda>mkt.
     bindE (getE ErrNotFound (kv_get (AMMs s) p)) (\<lambda>a.
     bindE (closePositionEntirely E ctx s mkt a pos 0) (\<lambda>(s1, updatedAMM, positionResp).
     if 0 < BadDebt positionResp then Inl (ErrText ''underwater position'')
     else bindE (afterPositionUpdate E ctx s1 mkt updatedAMM traderAddr positionResp) (\<lambda>s2.
       Inr (s2, positionResp))))))"

end
