(* ===== verification/Perp_Accounting.thy ===== *)
theory Perp_Accounting
  imports Perp_ClearingHouse
begin

text \<open>
  The contract that every change of a position fulfils, stated once as the locale
  \<open>position_change\<close> and interpreted on increasing, decreasing, closing and reversing: sizes follow
  the exchanged size, the bias of the market maker moves by the same amount, and margin, bad debt,
  vault payment, realised profit and funding balance exactly.  From it follows the global
  invariant of the clearing house: the bias of a market maker is the sum of the sizes of the
  stored positions of its pair.
\<close>

section \<open>The swaps of the keeper\<close>

lemma k_SwapQuoteAsset_Inr:
  assumes "k_SwapQuoteAsset E s mkt a dir q lim = Inr (s', a', d)"
  shows "0 \<le> d" and "amm_Pair a' = amm_Pair a"
    and "s' = s\<lparr>AMMs := AMMs s'\<rparr>"
    and "AMMs s' = AMMs s \<and> a' = a \<or> AMMs s' = kv_insert (amm_Pair a) a' (AMMs s)"
    and "Bias a' = (case dir of LONG \<Rightarrow> Bias a + d | SHORT \<Rightarrow> Bias a - d | _ \<Rightarrow> Bias a)"
  using assms
  by (auto simp: k_SwapQuoteAsset_def res_simps split: if_splits Direction.splits
      elim!: amm_SwapQuoteAsset_cases dest: GetBaseReserveAmt_nonneg)

lemma k_SwapBaseAsset_Inr:
  assumes "k_SwapBaseAsset E s mkt a dir b lim = Inr (s', a', d)"
  shows "amm_Pair a' = amm_Pair a" and "s' = s\<lparr>AMMs := AMMs s'\<rparr>"
    and "AMMs s' = AMMs s \<and> a' = a \<or> AMMs s' = kv_insert (amm_Pair a) a' (AMMs s)"
    and "Bias a' = (case dir of LONG \<Rightarrow> Bias a + b | SHORT \<Rightarrow> Bias a - b | _ \<Rightarrow> Bias a)"
  using assms
  by (auto simp: k_SwapBaseAsset_def res_simps split: if_splits Direction.splits
      elim!: amm_SwapBaseAsset_cases)


section \<open>The contract of a position change\<close>

locale position_change =
  fixes E :: "'b sdk"
    and change :: "'b perp_state \<Rightarrow> market \<Rightarrow> amm \<Rightarrow> position \<Rightarrow> perp_error + 'b perp_state \<times> amm \<times> position_resp"
  assumes change_size: "change s mkt a p = Inr (s', a', r) \<Longrightarrow>
      Size (resp_Position r) = Size p + ExchangedPositionSize r"
    and change_bias: "change s mkt a p = Inr (s', a', r) \<Longrightarrow>
      Bias a' = Bias a + ExchangedPositionSize r \<and> amm_Pair a' = amm_Pair a"
    and change_margin: "change s mkt a p = Inr (s', a', r) \<Longrightarrow>
      Margin (resp_Position r) - BadDebt r - MarginToVault r
        = Margin p + RealizedPnl r - FundingPaymentApplied r"
    and change_signs: "change s mkt a p = Inr (s', a', r) \<Longrightarrow>
      0 \<le> Margin (resp_Position r) \<and> 0 \<le> BadDebt r"
    and change_owner: "change s mkt a p = Inr (s', a', r) \<Longrightarrow>
      pos_Pair (resp_Position r) = pos_Pair p
      \<and> (AccAddressFromBech32 E (TraderAddress p) = Some t \<longrightarrow>
         TraderAddress (resp_Position r) \<in> {TraderAddress p, AccAddressString E t})"
    and change_frame: "change s mkt a p = Inr (s', a', r) \<Longrightarrow>
      s' = s\<lparr>AMMs := AMMs s', Positions := Positions s'\<rparr>"
    and change_amms: "change s mkt a p = Inr (s', a', r) \<Longrightarrow> kv_get (AMMs s) (amm_Pair a) = Some a \<Longrightarrow>
      kv_get (AMMs s') = (kv_get (AMMs s))(amm_Pair a \<mapsto> a')"
    and change_positions: "change s mkt a p = Inr (s', a', r) \<Longrightarrow>
      Positions s' = Positions s
      \<or> (\<exists>t. AccAddressFromBech32 E (TraderAddress p) = Some t
           \<and> Positions s' = kv_delete (pos_Pair p, t) (Positions s))"
begin

lemma change_pure_frame:
  assumes "change s mkt a p = Inr (s', a', r)"
  shows "Markets s' = Markets s" and "ReserveSnapshots s' = ReserveSnapshots s"
    and "bank s' = bank s" and "events s' = events s"
  using arg_cong [OF change_frame [OF assms], of Markets]
    arg_cong [OF change_frame [OF assms], of ReserveSnapshots]
    arg_cong [OF change_frame [OF assms], of bank] arg_cong [OF change_frame [OF assms], of events]
  by simp_all

text \<open>With no bad debt, what the vault receives and what it keeps for the position balance.\<close>

lemma change_solvent:
  assumes "change s mkt a p = Inr (s', a', r)" and "BadDebt r = 0"
  shows "Margin (resp_Position r) - MarginToVault r = Margin p + RealizedPnl r - FundingPaymentApplied r"
  using change_margin [OF assms(1)] assms(2) by simp

end

lemma amms_after_swap:
  assumes "AMMs s' = AMMs s \<and> a' = a \<or> AMMs s' = kv_insert (amm_Pair a) a' (AMMs s)"
    and "kv_get (AMMs s) (amm_Pair a) = Some a"
  shows "kv_get (AMMs s') = (kv_get (AMMs s))(amm_Pair a \<mapsto> a')"
  using assms by auto

lemma margin_split: "\<bar>max 0 (x :: int)\<bar> - \<bar>min 0 x\<bar> = x"
  by (auto simp: max_def min_def)

lemma increasePosition_Inr:
  assumes "increasePosition E ctx s mkt a p dir n lim lev = Inr (s', a', r)"
  obtains md d sn where "lev \<noteq> 0" and "md = dec_Quo E n lev"
    and "k_SwapQuoteAsset E s mkt a dir n lim = Inr (s', a', d)"
    and "PositionNotionalSpot E a p = Inr sn"
    and "dir = LONG \<and> ExchangedPositionSize r = d \<or> dir = SHORT \<and> ExchangedPositionSize r = - d"
    and "resp_Position r = \<lparr>TraderAddress = TraderAddress p, pos_Pair = pos_Pair p,
           Size = Size p + ExchangedPositionSize r,
           Margin = \<bar>max 0 (Margin p + md - FundingPaymentApplied r)\<bar>,
           OpenNotional = OpenNotional p + n,
           pos_LatestCumulativePremiumFraction = mkt_LatestCumulativePremiumFraction mkt,
           LastUpdatedBlockNumber = BlockHeight ctx\<rparr>"
    and "BadDebt r = \<bar>min 0 (Margin p + md - FundingPaymentApplied r)\<bar>"
    and "FundingPaymentApplied r = FundingPayment E p (mkt_LatestCumulativePremiumFraction mkt)"
    and "RealizedPnl r = 0" and "MarginToVault r = md"
    and "PositionNotional r = sn + n" and "ExchangedNotionalValue r = n"
    and "UnrealizedPnlAfter r = UnrealizedPnl (resp_Position r) (sn + n)"
  using assms
  by (cases dir) (auto simp: increasePosition_def Let_def bindE_eq_Inr quoE_eq_Inr)

lemma decreasePosition_Inr:
  assumes "decreasePosition E ctx s mkt a p n lim skip = Inr (s', a', r)"
  obtains d sn where "Size p \<noteq> 0"
    and "PositionNotionalSpot E a p = Inr sn"
    and "k_SwapQuoteAsset E s mkt a (if 0 < Size p then SHORT else LONG) n lim = Inr (s', a', d)"
    and "ExchangedPositionSize r = (if 0 < Size p then - d else d)"
    and "RealizedPnl r = dec_Mul E (UnrealizedPnl p sn) (dec_Quo E d \<bar>Size p\<bar>)"
    and "FundingPaymentApplied r = FundingPayment E p (mkt_LatestCumulativePremiumFraction mkt)"
    and "UnrealizedPnlAfter r = UnrealizedPnl p sn - RealizedPnl r"
    and "PositionNotional r = sn - n" and "ExchangedNotionalValue r = n"
    and "MarginToVault r = 0"
    and "BadDebt r = \<bar>min 0 (Margin p + RealizedPnl r - FundingPaymentApplied r)\<bar>"
    and "resp_Position r = \<lparr>TraderAddress = TraderAddress p, pos_Pair = pos_Pair p,
           Size = Size p + ExchangedPositionSize r,
           Margin = \<bar>max 0 (Margin p + RealizedPnl r - FundingPaymentApplied r)\<bar>,
           OpenNotional = (if 0 < Size p then PositionNotional r - UnrealizedPnlAfter r
                           else PositionNotional r + UnrealizedPnlAfter r),
           pos_LatestCumulativePremiumFraction = mkt_LatestCumulativePremiumFraction mkt,
           LastUpdatedBlockNumber = BlockHeight ctx\<rparr>"
    and "0 \<le> OpenNotional (resp_Position r)"
  using assms k_SwapQuoteAsset_Inr(1)
  by (fastforce simp: decreasePosition_def Let_def bindE_eq_Inr split: if_splits)

lemma closePositionEntirely_Inr:
  assumes "closePositionEntirely E ctx s mkt a p lim = Inr (s', a', r)"
  obtains t sn s1 where "Size p \<noteq> 0"
    and "AccAddressFromBech32 E (TraderAddress p) = Some t"
    and "PositionNotionalSpot E a p = Inr sn"
    and "k_SwapBaseAsset E s mkt a (if 0 < Size p then SHORT else LONG) \<bar>Size p\<bar> lim
           = Inr (s1, a', ExchangedNotionalValue r)"
    and "kv_get (Positions s1) (pos_Pair p, t) \<noteq> None"
    and "s' = s1\<lparr>Positions := kv_delete (pos_Pair p, t) (Positions s1)\<rparr>"
    and "resp_Position r = \<lparr>TraderAddress = TraderAddress p, pos_Pair = pos_Pair p, Size = 0, Margin = 0,
           OpenNotional = 0, pos_LatestCumulativePremiumFraction = mkt_LatestCumulativePremiumFraction mkt,
           LastUpdatedBlockNumber = BlockHeight ctx\<rparr>"
    and "ExchangedPositionSize r = - Size p"
    and "RealizedPnl r = UnrealizedPnl p sn"
    and "FundingPaymentApplied r = FundingPayment E p (mkt_LatestCumulativePremiumFraction mkt)"
    and "BadDebt r = max 0 (- (Margin p + RealizedPnl r - FundingPaymentApplied r))"
    and "MarginToVault r = - max 0 (Margin p + RealizedPnl r - FundingPaymentApplied r)"
    and "UnrealizedPnlAfter r = 0" and "PositionNotional r = 0"
  using assms
  by (cases "Size p = 0") (auto simp: closePositionEntirely_def Let_def bindE_eq_Inr getE_eq_Inr max_def)

interpretation inc: position_change E "\<lambda>s mkt a p. increasePosition E ctx s mkt a p dir n lim lev"
  for E ctx dir n lim lev
proof (unfold_locales, goal_cases)
  case (1 s mkt a p s' a' r) then show ?case by (auto elim!: increasePosition_Inr)
next
  case (2 s mkt a p s' a' r) then show ?case
    by (elim increasePosition_Inr) (auto dest: k_SwapQuoteAsset_Inr)
next
  case (3 s mkt a p s' a' r) then show ?case
    by (elim increasePosition_Inr) (simp add: algebra_simps margin_split)
next
  case (4 s mkt a p s' a' r) then show ?case by (auto elim!: increasePosition_Inr)
next
  case (5 s mkt a p s' a' r t) then show ?case by (auto elim!: increasePosition_Inr)
next
  case (6 s mkt a p s' a' r)
  then show ?case using k_SwapQuoteAsset_Inr(3) by (elim increasePosition_Inr) fastforce
next
  case (7 s mkt a p s' a' r)
  then show ?case using k_SwapQuoteAsset_Inr(4) amms_after_swap by (elim increasePosition_Inr) fastforce
next
  case (8 s mkt a p s' a' r)
  then show ?case using arg_cong [OF k_SwapQuoteAsset_Inr(3), of _ _ _ _ _ _ _ _ _ _ Positions]
    by (elim increasePosition_Inr) fastforce
qed

interpretation dec: position_change E "\<lambda>s mkt a p. decreasePosition E ctx s mkt a p n lim skip"
  for E ctx n lim skip
proof (unfold_locales, goal_cases)
  case (1 s mkt a p s' a' r) then show ?case by (elim decreasePosition_Inr) simp
next
  case (2 s mkt a p s' a' r) then show ?case
    by (elim decreasePosition_Inr) (auto dest: k_SwapQuoteAsset_Inr split: if_splits)
next
  case (3 s mkt a p s' a' r) then show ?case
    by (elim decreasePosition_Inr) (simp add: margin_split)
next
  case (4 s mkt a p s' a' r) then show ?case by (elim decreasePosition_Inr) simp
next
  case (5 s mkt a p s' a' r t) then show ?case by (elim decreasePosition_Inr) simp
next
  case (6 s mkt a p s' a' r)
  then show ?case using k_SwapQuoteAsset_Inr(3) by (elim decreasePosition_Inr) fastforce
next
  case (7 s mkt a p s' a' r)
  then show ?case using k_SwapQuoteAsset_Inr(4) amms_after_swap by (elim decreasePosition_Inr) fastforce
next
  case (8 s mkt a p s' a' r)
  then show ?case using arg_cong [OF k_SwapQuoteAsset_Inr(3), of _ _ _ _ _ _ _ _ _ _ Positions]
    by (elim decreasePosition_Inr) fastforce
qed

interpretation cls: position_change E "\<lambda>s mkt a p. closePositionEntirely E ctx s mkt a p lim"
  for E ctx lim
proof (unfold_locales, goal_cases)
  case (1 s mkt a p s' a' r) then show ?case by (elim closePositionEntirely_Inr) simp
next
  case (2 s mkt a p s' a' r) then show ?case
    by (elim closePositionEntirely_Inr) (auto dest: k_SwapBaseAsset_Inr split: if_splits)
next
  case (3 s mkt a p s' a' r) then show ?case
    by (elim closePositionEntirely_Inr) (simp add: max_def)
next
  case (4 s mkt a p s' a' r) then show ?case by (elim closePositionEntirely_Inr) simp
next
  case (5 s mkt a p s' a' r t) then show ?case by (elim closePositionEntirely_Inr) simp
next
  case (6 s mkt a p s' a' r)
  from 6 obtain t s1 where k: "k_SwapBaseAsset E s mkt a (if 0 < Size p then SHORT else LONG) \<bar>Size p\<bar> lim
      = Inr (s1, a', ExchangedNotionalValue r)"
    and s': "s' = s1\<lparr>Positions := kv_delete (pos_Pair p, t) (Positions s1)\<rparr>"
    by (elim closePositionEntirely_Inr)
  have "s1 = s\<lparr>AMMs := AMMs s1\<rparr>" by (rule k_SwapBaseAsset_Inr(2) [OF k])
  then show ?case unfolding s' by (cases s; cases s1) simp
next
  case (7 s mkt a p s' a' r)
  from 7(1) obtain t s1 where k: "k_SwapBaseAsset E s mkt a (if 0 < Size p then SHORT else LONG) \<bar>Size p\<bar> lim
      = Inr (s1, a', ExchangedNotionalValue r)"
    and s': "s' = s1\<lparr>Positions := kv_delete (pos_Pair p, t) (Positions s1)\<rparr>"
    by (elim closePositionEntirely_Inr)
  show ?case using amms_after_swap [OF k_SwapBaseAsset_Inr(3) [OF k] 7(2)] s' by simp
next
  case (8 s mkt a p s' a' r)
  from 8 obtain t s1 where t: "AccAddressFromBech32 E (TraderAddress p) = Some t"
    and k: "k_SwapBaseAsset E s mkt a (if 0 < Size p then SHORT else LONG) \<bar>Size p\<bar> lim
      = Inr (s1, a', ExchangedNotionalValue r)"
    and s': "s' = s1\<lparr>Positions := kv_delete (pos_Pair p, t) (Positions s1)\<rparr>"
    by (elim closePositionEntirely_Inr)
  have "Positions s1 = Positions s" using arg_cong [OF k_SwapBaseAsset_Inr(2) [OF k], of Positions] by simp
  with t s' show ?case by auto
qed

lemma closePosition_margin:
  assumes "closePositionEntirely E ctx s mkt a p lim = Inr (s', a', r)"
  shows "Margin (resp_Position r) = 0" and "Size p + ExchangedPositionSize r = 0"
    and "Size (resp_Position r) = 0"
  using assms by (auto elim: closePositionEntirely_Inr)

lemma increasePosition_owner:
  "increasePosition E ctx s mkt a p dir n lim lev = Inr (s', a', r) \<Longrightarrow>
    pos_Pair (resp_Position r) = pos_Pair p \<and> TraderAddress (resp_Position r) = TraderAddress p"
  by (auto elim: increasePosition_Inr)

lemma increasePosition_positions:
  "increasePosition E ctx s mkt a p dir n lim lev = Inr (s', a', r) \<Longrightarrow> Positions s' = Positions s"
  using arg_cong [OF k_SwapQuoteAsset_Inr(3), of _ _ _ _ _ _ _ _ _ _ Positions]
  by (elim increasePosition_Inr) fastforce

text \<open>Closing and reopening composes a close and an increase of a fresh position, so its contract
  follows from theirs.\<close>

lemma closeAndOpenReversePosition_Inr:
  assumes "closeAndOpenReversePosition E ctx s mkt a p q lev lim = Inr (s', a', r)"
  obtains (closed) "closePositionEntirely E ctx s mkt a p 0 = Inr (s', a', r)" "BadDebt r \<le> 0"
  | (reversed) t s1 a1 c i lim' where "AccAddressFromBech32 E (TraderAddress p) = Some t"
      and "closePositionEntirely E ctx s mkt a p 0 = Inr (s1, a1, c)" and "BadDebt c \<le> 0"
      and "increasePosition E ctx s1 mkt a1 (ZeroPosition E ctx (pos_Pair p) t)
             (if 0 < Size p then SHORT else LONG) (dec_Mul E lev q - ExchangedNotionalValue c) lim' lev
           = Inr (s', a', i)"
      and "0 < dec_Mul E lev q - ExchangedNotionalValue c"
      and "r = \<lparr>resp_Position = resp_Position i,
              ExchangedNotionalValue = ExchangedNotionalValue c + ExchangedNotionalValue i,
              ExchangedPositionSize = ExchangedPositionSize c + ExchangedPositionSize i,
              BadDebt = BadDebt c + BadDebt i,
              FundingPaymentApplied = FundingPaymentApplied c + FundingPaymentApplied i,
              RealizedPnl = RealizedPnl c + RealizedPnl i,
              UnrealizedPnlAfter = 0,
              MarginToVault = MarginToVault c + MarginToVault i,
              PositionNotional = PositionNotional i\<rparr>"
  using assms
  by (auto simp: closeAndOpenReversePosition_def Let_def bindE_eq_Inr getE_eq_Inr not_less split: if_splits)

interpretation rev: position_change E
    "\<lambda>s mkt a p. closeAndOpenReversePosition E ctx s mkt a p q lev lim"
  for E ctx q lev lim
proof (unfold_locales, goal_cases)
  case (1 s mkt a p s' a' r) then show ?case
    by (elim closeAndOpenReversePosition_Inr)
      (auto dest: cls.change_size closePosition_margin(2) dest!: inc.change_size simp: ZeroPosition_def)
next
  case (2 s mkt a p s' a' r) then show ?case
    by (elim closeAndOpenReversePosition_Inr) (auto dest!: cls.change_bias inc.change_bias)
next
  case (3 s mkt a p s' a' r) then show ?case
  proof (elim closeAndOpenReversePosition_Inr, goal_cases)
    case 1 from cls.change_margin [OF 1(1)] show ?case .
  next
    case (2 t s1 a1 c i lim')
    from cls.change_margin [OF 2(2)] inc.change_margin [OF 2(4)] closePosition_margin(1) [OF 2(2)] 2(6)
    show ?case by (simp add: ZeroPosition_def)
  qed
next
  case (4 s mkt a p s' a' r) then show ?case
    by (elim closeAndOpenReversePosition_Inr) (auto dest!: cls.change_signs inc.change_signs)
next
  case (5 s mkt a p s' a' r t) then show ?case
    by (elim closeAndOpenReversePosition_Inr)
      (auto dest!: cls.change_owner [of _ _ _ _ _ _ _ _ _ _ t] increasePosition_owner simp: ZeroPosition_def)
next
  case (6 s mkt a p s' a' r) then show ?case
  proof (elim closeAndOpenReversePosition_Inr, goal_cases)
    case 1 from cls.change_frame [OF 1(1)] show ?case .
  next
    case (2 t s1 a1 c i lim')
    from cls.change_frame [OF 2(2)] inc.change_frame [OF 2(4)] show ?case
      by (cases s; cases s1; cases s') simp
  qed
next
  case (7 s mkt a p s' a' r) from 7(1) show ?case
  proof (elim closeAndOpenReversePosition_Inr, goal_cases)
    case 1 from cls.change_amms [OF 1(1) 7(2)] show ?case .
  next
    case (2 t s1 a1 c i lim')
    have a1: "amm_Pair a1 = amm_Pair a" using cls.change_bias [OF 2(2)] by simp
    note c = cls.change_amms [OF 2(2) 7(2)]
    then have "kv_get (AMMs s1) (amm_Pair a1) = Some a1" by (simp add: a1)
    from inc.change_amms [OF 2(4) this] show ?case by (simp add: a1 c)
  qed
next
  case (8 s mkt a p s' a' r) then show ?case
  proof (elim closeAndOpenReversePosition_Inr, goal_cases)
    case 1 from cls.change_positions [OF 1(1)] show ?case .
  next
    case (2 t s1 a1 c i lim')
    from cls.change_positions [OF 2(2)] increasePosition_positions [OF 2(4)] show ?case by simp
  qed
qed

lemma openReversePosition_Inr:
  assumes "openReversePosition E ctx s mkt a p q lev lim = Inr (s', a', r)"
  obtains (decreased) sn where "PositionNotionalSpot E a p = Inr sn" and "dec_Mul E lev q < sn"
      and "decreasePosition E ctx s mkt a p (dec_Mul E lev q) lim False = Inr (s', a', r)"
  | (reversed) sn where "PositionNotionalSpot E a p = Inr sn" and "sn \<le> dec_Mul E lev q"
      and "closeAndOpenReversePosition E ctx s mkt a p q lev lim = Inr (s', a', r)"
  using assms unfolding openReversePosition_def Let_def bindE_eq_Inr
  by (metis not_less)

interpretation opr: position_change E
    "\<lambda>s mkt a p. openReversePosition E ctx s mkt a p q lev lim"
  for E ctx q lev lim
proof (unfold_locales, goal_cases)
  case (1 s mkt a p s' a' r) then show ?case
    by (elim openReversePosition_Inr) (blast dest: dec.change_size rev.change_size)+
next
  case (2 s mkt a p s' a' r) then show ?case
    by (elim openReversePosition_Inr) (blast dest: dec.change_bias rev.change_bias)+
next
  case (3 s mkt a p s' a' r) then show ?case
    by (elim openReversePosition_Inr) (blast dest: dec.change_margin rev.change_margin)+
next
  case (4 s mkt a p s' a' r) then show ?case
    by (elim openReversePosition_Inr) (blast dest: dec.change_signs rev.change_signs)+
next
  case (5 s mkt a p s' a' r t) then show ?case
    by (elim openReversePosition_Inr) (blast dest: dec.change_owner rev.change_owner)+
next
  case (6 s mkt a p s' a' r) then show ?case
    by (elim openReversePosition_Inr) (blast intro: dec.change_frame rev.change_frame)+
next
  case (7 s mkt a p s' a' r) then show ?case
    by (elim openReversePosition_Inr) (blast dest: dec.change_amms rev.change_amms)+
next
  case (8 s mkt a p s' a' r) then show ?case
    by (elim openReversePosition_Inr) (blast dest: dec.change_positions rev.change_positions)+
qed

end
