(* ===== verification/Perp_Margin.thy ===== *)
theory Perp_Margin
  imports Perp_Accounting
begin

text \<open>
  Adding and removing margin (\<^verbatim>\<open>x/perp/keeper/v2/margin.go\<close>) with the balances, positions and events
  they change.
\<close>

section \<open>Operations\<close>

record margin_resp =
  mr_FundingPayment :: dec
  mr_Position :: position

text \<open>\<open>sdk.NewCoins\<close> drops a zero coin and panics on a negative amount or an invalid denomination.\<close>

definition sendCoinA2M :: "'b sdk \<Rightarrow> addr \<Rightarrow> string \<Rightarrow> coin \<Rightarrow> 'b perp_state \<Rightarrow> perp_error + 'b perp_state" where
  "sendCoinA2M E from to c s = (if Amount c = 0 then Inr s else sendA2M E from to (Denom c) (Amount c) s)"

definition marginChangedEvent :: "'b sdk \<Rightarrow> block_ctx \<Rightarrow> pair \<Rightarrow> addr \<Rightarrow> amm \<Rightarrow> position \<Rightarrow> dec \<Rightarrow> dec \<Rightarrow>
    perp_error + perp_event" where
  "marginChangedEvent E ctx p traderAddr a pos positionNotional fundingPayment =
     bindE (quoteDenomE p) (\<lambda>d.
     bindE (newCoinE E d (dec_RoundInt E (Margin pos))) (\<lambda>margin.
     bindE (newCoinE E d 0) (\<lambda>zero.
     Inr (PositionChangedEventV1
       \<lparr>pce_TraderAddress = AccAddressString E traderAddr, pce_Pair = p, pce_Margin = margin,
        pce_PositionNotional = positionNotional, pce_ExchangedNotional = 0, pce_ExchangedSize = 0,
        pce_TransactionFee = zero, pce_PositionSize = Size pos, pce_RealizedPnl = 0,
        pce_UnrealizedPnlAfter = UnrealizedPnl pos positionNotional, pce_BadDebt = zero,
        pce_FundingPayment = fundingPayment, pce_BlockHeight = BlockHeight ctx,
        pce_BlockTimeMs = UnixMilli (BlockTime ctx)\<rparr>
       (MarkPrice E a)))))"

definition AddMargin :: "'b sdk \<Rightarrow> block_ctx \<Rightarrow> 'b perp_state \<Rightarrow> pair \<Rightarrow> addr \<Rightarrow> coin \<Rightarrow>
    perp_error + 'b perp_state \<times> margin_resp" where
  "AddMargin E ctx s p traderAddr marginToAdd =
     bindE (getE ErrPairNotFound (kv_get (Markets s) p)) (\<lambda>mkt.
     bindE (getE ErrPairNotFound (kv_get (AMMs s) p)) (\<lambda>a.
     bindE (getE ErrNotFound (kv_get (Positions s) (p, traderAddr))) (\<lambda>pos.
     let fundingPayment = FundingPayment E pos (mkt_LatestCumulativePremiumFraction mkt);
         remainingMargin = Margin pos - fundingPayment + NewDec (Amount marginToAdd)
     in
     if remainingMargin < 0 then
       Inl (ErrText ''failed to add margin; resultant position would still have bad debt'')
     else
     bindE (sendCoinA2M E traderAddr VaultModuleAccount marginToAdd s) (\<lambda>s1.
     let pos' = pos\<lparr>Margin := remainingMargin,
                    pos_LatestCumulativePremiumFraction := mkt_LatestCumulativePremiumFraction mkt,
                    LastUpdatedBlockNumber := BlockHeight ctx\<rparr>;
         s2 = s1\<lparr>Positions := kv_insert (pos_Pair pos', traderAddr) pos' (Positions s1)\<rparr>
     in
     bindE (PositionNotionalSpot E a pos') (\<lambda>positionNotional.
     bindE (marginChangedEvent E ctx p traderAddr a pos' positionNotional fundingPayment) (\<lambda>ev.
     Inr (emit ev s2, \<lparr>mr_FundingPayment = fundingPayment, mr_Position = pos'\<rparr>)))))))"

definition RemoveMargin :: "'b sdk \<Rightarrow> block_ctx \<Rightarrow> 'b perp_state \<Rightarrow> pair \<Rightarrow> addr \<Rightarrow> coin \<Rightarrow>
    perp_error + 'b perp_state \<times> margin_resp" where
  "RemoveMargin E ctx s p traderAddr marginToRemove =
     bindE (getE ErrPairNotFound (kv_get (Markets s) p)) (\<lambda>mkt.
     bindE (getE ErrPairNotFound (kv_get (AMMs s) p)) (\<lambda>a.
     bindE (getE ErrNotFound (kv_get (Positions s) (p, traderAddr))) (\<lambda>pos.
     bindE (PositionNotionalSpot E a pos) (\<lambda>spotNotional.
     bindE (PositionNotionalTWAP E ctx s pos (TwapLookbackWindow mkt)) (\<lambda>twapNotional.
     let minPositionNotional = min spotNotional twapNotional;
         fundingPayment = FundingPayment E pos (mkt_LatestCumulativePremiumFraction mkt);
         unrealizedPnl = UnrealizedPnl pos minPositionNotional;
         remainingMargin = Margin pos - fundingPayment + (if unrealizedPnl < 0 then unrealizedPnl else 0)
     in
     if remainingMargin < NewDec (Amount marginToRemove) then Inl (ErrText ''not enough free collateral'')
     else
     bindE (Withdraw E s mkt traderAddr (Amount marginToRemove)) (\<lambda>s1.
     let pos' = pos\<lparr>Margin := Margin pos - fundingPayment - NewDec (Amount marginToRemove),
                    pos_LatestCumulativePremiumFraction := mkt_LatestCumulativePremiumFraction mkt,
                    LastUpdatedBlockNumber := BlockHeight ctx\<rparr>;
         s2 = s1\<lparr>Positions := kv_insert (pos_Pair pos', traderAddr) pos' (Positions s1)\<rparr>
     in
     bindE (marginChangedEvent E ctx p traderAddr a pos' spotNotional fundingPayment) (\<lambda>ev.
     Inr (emit ev s2, \<lparr>mr_FundingPayment = fundingPayment, mr_Position = pos'\<rparr>))))))))"


end
