(* ===== verification/Perp_Liquidate.thy ===== *)
theory Perp_Liquidate
  imports Perp_Margin
begin

text \<open>
  Liquidations (\<^verbatim>\<open>x/perp/keeper/v2/liquidate.go\<close>): the health check, full and partial liquidation, the
  distribution of the fees, and the batch that runs each liquidation on a cached context.
\<close>

section \<open>Operations\<close>

definition distributeLiquidateRewards ::
    "'b sdk \<Rightarrow> 'b perp_state \<Rightarrow> market \<Rightarrow> liquidate_resp \<Rightarrow> perp_error + 'b perp_state" where
  "distributeLiquidateRewards E s mkt resp =
     bindE (LiquidateResp_Validate E resp) (\<lambda>_.
     bindE (getE ErrBech32 (AccAddressFromBech32 E (lr_Liquidator resp))) (\<lambda>liquidator.
     bindE (if 0 < FeeToPerpEcosystemFund resp
            then bindE (quoteDenomE (mkt_Pair mkt)) (\<lambda>d.
                   sendM2M E VaultModuleAccount PerpEFModuleAccount d (FeeToPerpEcosystemFund resp) s)
            else Inr s) (\<lambda>s1.
     if 0 < FeeToLiquidator resp then Withdraw E s1 mkt liquidator (FeeToLiquidator resp) else Inr s1)))"

definition positionLiquidatedEvent :: "'b sdk \<Rightarrow> block_ctx \<Rightarrow> amm \<Rightarrow> position \<Rightarrow> addr \<Rightarrow> addr \<Rightarrow>
    liquidate_resp \<Rightarrow> perp_error + perp_event" where
  "positionLiquidatedEvent E ctx a pos traderAddr liquidator resp =
     (let r = lr_PositionResp resp in
      bindE (quoteDenomE (pos_Pair pos)) (\<lambda>d.
      bindE (newCoinE E d (FeeToLiquidator resp)) (\<lambda>toLiquidator.
      bindE (newCoinE E d (FeeToPerpEcosystemFund resp)) (\<lambda>toEF.
      bindE (newCoinE E d (lr_BadDebt resp)) (\<lambda>badDebt.
      bindE (newCoinE E d (dec_RoundInt E (Margin (resp_Position r)))) (\<lambda>margin.
      Inr (PositionLiquidatedEvent
        \<lparr>ple_Pair = pos_Pair pos, ple_TraderAddress = AccAddressString E traderAddr,
         ple_ExchangedQuoteAmount = ExchangedNotionalValue r,
         ple_ExchangedPositionSize = ExchangedPositionSize r,
         ple_LiquidatorAddress = AccAddressString E liquidator,
         ple_FeeToLiquidator = toLiquidator, ple_FeeToEcosystemFund = toEF, ple_BadDebt = badDebt,
         ple_Margin = margin, ple_PositionNotional = PositionNotional r,
         ple_PositionSize = Size (resp_Position r), ple_UnrealizedPnl = UnrealizedPnlAfter r,
         ple_MarkPrice = MarkPrice E a, ple_BlockHeight = BlockHeight ctx,
         ple_BlockTimeMs = UnixMilli (BlockTime ctx)\<rparr>)))))))"

definition executeFullLiquidation :: "'b sdk \<Rightarrow> block_ctx \<Rightarrow> 'b perp_state \<Rightarrow> market \<Rightarrow> amm \<Rightarrow> addr \<Rightarrow>
    position \<Rightarrow> perp_error + 'b perp_state \<times> liquidate_resp" where
  "executeFullLiquidation E ctx s mkt a liquidator pos =
     bindE (getE ErrBech32 (AccAddressFromBech32 E (TraderAddress pos))) (\<lambda>traderAddr.
     bindE (closePositionEntirely E ctx s mkt a pos 0) (\<lambda>(s1, _, positionResp).
     let feeToLiquidator = dec_QuoInt64 E
           (dec_Mul E (LiquidationFeeRatio mkt) (ExchangedNotionalValue positionResp)) 2;
         closedMargin = \<bar>MarginToVault positionResp\<bar>;
         totalBadDebt =
           (if closedMargin < feeToLiquidator then BadDebt positionResp + (feeToLiquidator - closedMargin)
            else BadDebt positionResp);
         remainMargin = (if closedMargin < feeToLiquidator then 0 else closedMargin - feeToLiquidator)
     in
     bindE (if 0 < totalBadDebt then realizeBadDebt E s1 mkt (dec_RoundInt E totalBadDebt) else Inr s1) (\<lambda>s2.
     let feeToPerpEcosystemFund = (if 0 < remainMargin then remainMargin else 0);
         liquidationResp =
           \<lparr>lr_BadDebt = dec_RoundInt E totalBadDebt,
            FeeToLiquidator = dec_RoundInt E feeToLiquidator,
            FeeToPerpEcosystemFund = dec_RoundInt E feeToPerpEcosystemFund,
            lr_Liquidator = AccAddressString E liquidator,
            lr_PositionResp = positionResp\<rparr>
     in
     bindE (distributeLiquidateRewards E s2 mkt liquidationResp) (\<lambda>s3.
     bindE (positionLiquidatedEvent E ctx a pos traderAddr liquidator liquidationResp) (\<lambda>ev.
     Inr (emit ev s3, liquidationResp))))))"

definition executePartialLiquidation :: "'b sdk \<Rightarrow> block_ctx \<Rightarrow> 'b perp_state \<Rightarrow> market \<Rightarrow> amm \<Rightarrow> addr \<Rightarrow>
    position \<Rightarrow> perp_error + 'b perp_state \<times> liquidate_resp" where
  "executePartialLiquidation E ctx s mkt a liquidator currentPosition =
     bindE (getE ErrBech32 (AccAddressFromBech32 E (TraderAddress currentPosition))) (\<lambda>traderAddr.
     let dir = (if 0 < Size currentPosition then SHORT else LONG) in
     bindE (GetQuoteReserveAmt E a (dec_Mul E (Size currentPosition) (PartialLiquidationRatio mkt)) dir)
       (\<lambda>quoteReserveDelta.
     let quoteAssetDelta = FromQuoteReserveToAsset E a quoteReserveDelta in
     bindE (decreasePosition E ctx s mkt a currentPosition quoteAssetDelta 0 True) (\<lambda>(s1, _, decreaseResp).
     let liquidationFeeAmount = dec_Mul E quoteAssetDelta (LiquidationFeeRatio mkt);
         pos' = (resp_Position decreaseResp)
           \<lparr>Margin := Margin (resp_Position decreaseResp) - liquidationFeeAmount\<rparr>;
         positionResp = decreaseResp\<lparr>resp_Position := pos'\<rparr>;
         s2 = s1\<lparr>Positions := kv_insert (pos_Pair pos', traderAddr) pos' (Positions s1)\<rparr>;
         feeToLiquidator = dec_QuoInt64 E liquidationFeeAmount 2;
         feeToPerpEcosystemFund = liquidationFeeAmount - feeToLiquidator;
         liquidationResp =
           \<lparr>lr_BadDebt = 0,
            FeeToLiquidator = dec_RoundInt E feeToLiquidator,
            FeeToPerpEcosystemFund = dec_RoundInt E feeToPerpEcosystemFund,
            lr_Liquidator = AccAddressString E liquidator,
            lr_PositionResp = positionResp\<rparr>
     in
     bindE (distributeLiquidateRewards E s2 mkt liquidationResp) (\<lambda>s3.
     bindE (positionLiquidatedEvent E ctx a currentPosition traderAddr liquidator liquidationResp) (\<lambda>ev.
     Inr (emit ev s3, liquidationResp))))))"

text \<open>A failed liquidation also says which failure events it put on the context it ran on.\<close>

definition withEvents :: "perp_event list \<Rightarrow> perp_error + 'a \<Rightarrow> (perp_event list \<times> perp_error) + 'a" where
  "withEvents evs m = mapErr (\<lambda>e. (evs, e)) m"

definition liquidationFailed :: "'b sdk \<Rightarrow> addr \<Rightarrow> pair \<Rightarrow> addr \<Rightarrow> liquidation_failed_reason \<Rightarrow> perp_event list" where
  "liquidationFailed E liquidator p trader reason =
     [LiquidationFailedEvent p (AccAddressString E trader) (AccAddressString E liquidator) reason]"

definition liquidate :: "'b sdk \<Rightarrow> block_ctx \<Rightarrow> 'b perp_state \<Rightarrow> addr \<Rightarrow> pair \<Rightarrow> addr \<Rightarrow>
    (perp_event list \<times> perp_error) + 'b perp_state \<times> coin \<times> coin" where
  "liquidate E ctx s liquidator p trader =
     bindE (withEvents (liquidationFailed E liquidator p trader NONEXISTENT_PAIR)
       (getE ErrPairNotFound (kv_get (Markets s) p))) (\<lambda>mkt.
     bindE (withEvents (liquidationFailed E liquidator p trader NONEXISTENT_PAIR)
       (getE ErrPairNotFound (kv_get (AMMs s) p))) (\<lambda>a.
     bindE (withEvents (liquidationFailed E liquidator p trader NONEXISTENT_POSITION)
       (getE ErrNotFound (kv_get (Positions s) (p, trader)))) (\<lambda>pos.
     bindE (withEvents [] (PositionNotionalSpot E a pos)) (\<lambda>spotNotional.
     bindE (withEvents [] (PositionNotionalTWAP E ctx s pos (TwapLookbackWindow mkt))) (\<lambda>twapNotional.
     let maxPositionNotional = max spotNotional twapNotional;
         marginRatio = MarginRatio E pos maxPositionNotional (mkt_LatestCumulativePremiumFraction mkt);
         spotMarginRatio = MarginRatio E pos spotNotional (mkt_LatestCumulativePremiumFraction mkt)
     in
     bindE (withEvents (liquidationFailed E liquidator p trader POSITION_HEALTHY)
       (checkE (marginRatio < MaintenanceMarginRatio mkt) ErrPositionHealthy)) (\<lambda>_.
     bindE (withEvents []
       (if LiquidationFeeRatio mkt \<le> spotMarginRatio
        then executePartialLiquidation E ctx s mkt a liquidator pos
        else executeFullLiquidation E ctx s mkt a liquidator pos)) (\<lambda>(s1, resp).
     bindE (withEvents [] (quoteDenomE p)) (\<lambda>d.
     bindE (withEvents [] (newCoinE E d (FeeToLiquidator resp))) (\<lambda>liquidatorFee.
     bindE (withEvents [] (newCoinE E d (FeeToPerpEcosystemFund resp))) (\<lambda>ecosystemFundFee.
     Inr (s1, liquidatorFee, ecosystemFundFee)))))))))))"

text \<open>
  The batch runs each liquidation on a cached copy of the state with its own event manager, and
  commits the copy and its events only on success.  A panic is not an error: it aborts the batch.
\<close>

type_synonym liquidation_request = "pair \<times> string"

datatype liquidation_response = LiqFailed perp_error | LiqDone coin coin

fun isPanic :: "perp_error \<Rightarrow> bool" where
  "isPanic (Panic _) = True"
| "isPanic _ = False"

fun MultiLiquidate_loop :: "'b sdk \<Rightarrow> block_ctx \<Rightarrow> addr \<Rightarrow> liquidation_request list \<Rightarrow> 'b perp_state \<Rightarrow>
    perp_error + 'b perp_state \<times> liquidation_response list" where
  "MultiLiquidate_loop E ctx liquidator [] s = Inr (s, [])"
| "MultiLiquidate_loop E ctx liquidator ((p, traderStr) # reqs) s =
     bindE (getE (Panic ''invalid address'') (AccAddressFromBech32 E traderStr)) (\<lambda>traderAddr.
     case liquidate E ctx (s\<lparr>events := []\<rparr>) liquidator p traderAddr of
       Inl (_, e) \<Rightarrow>
         if isPanic e then Inl e
         else bindE (MultiLiquidate_loop E ctx liquidator reqs s) (\<lambda>(s', resps).
           Inr (s', LiqFailed e # resps))
     | Inr (cached, liquidatorFee, perpEfFee) \<Rightarrow>
         bindE (MultiLiquidate_loop E ctx liquidator reqs (cached\<lparr>events := events s @ events cached\<rparr>))
           (\<lambda>(s', resps). Inr (s', LiqDone liquidatorFee perpEfFee # resps)))"

fun isDone :: "liquidation_response \<Rightarrow> bool" where
  "isDone (LiqDone _ _) = True"
| "isDone (LiqFailed _) = False"

definition MultiLiquidate :: "'b sdk \<Rightarrow> block_ctx \<Rightarrow> 'b perp_state \<Rightarrow> addr \<Rightarrow> liquidation_request list \<Rightarrow>
    perp_error + 'b perp_state \<times> liquidation_response list" where
  "MultiLiquidate E ctx s liquidator reqs =
     bindE (MultiLiquidate_loop E ctx liquidator reqs s) (\<lambda>(s', resps).
       if list_ex isDone resps then Inr (s', resps) else Inl ErrAllLiquidationsFailed)"

end
