(* ===== verification/Perp_Invariant.thy ===== *)
theory Perp_Invariant
  imports Perp_Liquidate
begin

text \<open>
  The global invariant of the clearing house: the stores are keyed consistently, and the bias of
  every market maker is the sum of the sizes of the stored positions of its pair.  It is proved
  once for any position change (inside the locale \<open>position_change\<close>) and then for each entry
  point, through the fact that settlement (transfers, fees, bad debt, events) leaves market
  makers and positions alone.
\<close>

section \<open>The invariant\<close>

definition sizes :: "'b perp_state \<Rightarrow> pair \<Rightarrow> int" where
  "sizes s p = kv_sum (\<lambda>k v. if fst k = p then Size v else 0) (Positions s)"

definition markets_keyed :: "'b perp_state \<Rightarrow> bool" where
  "markets_keyed s \<longleftrightarrow> (\<forall>p m. kv_get (Markets s) p = Some m \<longrightarrow> mkt_Pair m = p)"

definition amms_keyed :: "'b perp_state \<Rightarrow> bool" where
  "amms_keyed s \<longleftrightarrow> (\<forall>p a. kv_get (AMMs s) p = Some a \<longrightarrow> amm_Pair a = p)"

definition owned :: "'b sdk \<Rightarrow> pair \<times> addr \<Rightarrow> position \<Rightarrow> bool" where
  "owned E k v \<longleftrightarrow> pos_Pair v = fst k \<and> AccAddressFromBech32 E (TraderAddress v) = Some (snd k)"

definition positions_keyed :: "'b sdk \<Rightarrow> 'b perp_state \<Rightarrow> bool" where
  "positions_keyed E s \<longleftrightarrow> kv_wf (Positions s) \<and> (\<forall>k v. kv_get (Positions s) k = Some v \<longrightarrow> owned E k v)"

definition perp_inv :: "'b sdk \<Rightarrow> 'b perp_state \<Rightarrow> bool" where
  "perp_inv E s \<longleftrightarrow> markets_keyed s \<and> amms_keyed s \<and> positions_keyed E s
     \<and> (\<forall>p a. kv_get (AMMs s) p = Some a \<longrightarrow> Bias a = sizes s p)"

lemma perp_invD:
  assumes "perp_inv E s"
  shows "markets_keyed s" and "amms_keyed s" and "positions_keyed E s"
    and "kv_get (AMMs s) p = Some a \<Longrightarrow> Bias a = sizes s p"
    and "kv_get (AMMs s) p = Some a \<Longrightarrow> amm_Pair a = p"
    and "kv_get (Markets s) p = Some m \<Longrightarrow> mkt_Pair m = p"
    and "kv_get (Positions s) k = Some v \<Longrightarrow> owned E k v"
  using assms
  by (simp_all add: perp_inv_def markets_keyed_def amms_keyed_def positions_keyed_def del: split_paired_All)

lemma sizes_upd:
  assumes "kv_wf (Positions s)"
  shows "sizes (s\<lparr>Positions := kv_insert k v (Positions s)\<rparr>) p
      = sizes s p - (if fst k = p then (case kv_get (Positions s) k of None \<Rightarrow> 0 | Some w \<Rightarrow> Size w) else 0)
        + (if fst k = p then Size v else 0)"
    and "sizes (s\<lparr>Positions := kv_delete k (Positions s)\<rparr>) p
      = sizes s p - (if fst k = p then (case kv_get (Positions s) k of None \<Rightarrow> 0 | Some w \<Rightarrow> Size w) else 0)"
  using assms by (auto simp: sizes_def kv.total_ins kv.total_del split: option.splits)


section \<open>Settlement\<close>

text \<open>Settlement touches the bank, the events and the prepaid bad debt of markets, nothing else.\<close>

definition settles :: "'b perp_state \<Rightarrow> 'b perp_state \<Rightarrow> bool" where
  "settles s s' \<longleftrightarrow> AMMs s' = AMMs s \<and> Positions s' = Positions s
     \<and> ReserveSnapshots s' = ReserveSnapshots s \<and> (markets_keyed s \<longrightarrow> markets_keyed s')"

named_theorems settling \<open>operations that only settle\<close>

lemma settles_refl [simp, intro]: "settles s s"
  by (simp add: settles_def)

lemma settles_trans: "settles s s1 \<Longrightarrow> settles s1 s2 \<Longrightarrow> settles s s2"
  by (auto simp: settles_def)

lemma settles_bank [simp]: "settles s (s\<lparr>bank := b\<rparr>)"
  by (simp add: settles_def markets_keyed_def)

lemma settles_emit [simp]: "settles s (emit e s)"
  by (simp add: settles_def markets_keyed_def)

lemma settles_market: "mkt_Pair m = p \<Longrightarrow> settles s (s\<lparr>Markets := kv_insert p m (Markets s)\<rparr>)"
  by (auto simp: settles_def markets_keyed_def)

lemma settles_inv: "settles s s' \<Longrightarrow> perp_inv E s \<Longrightarrow> perp_inv E s'"
  by (auto simp: settles_def perp_inv_def amms_keyed_def positions_keyed_def sizes_def)

lemma send_settles [settling]:
  "sendM2M E f t d n s = Inr s' \<Longrightarrow> settles s s'"
  "sendM2A E f a d n s = Inr s' \<Longrightarrow> settles s s'"
  "sendA2M E a t d n s = Inr s' \<Longrightarrow> settles s s'"
  "sendCoinA2M E a t c s = Inr s' \<Longrightarrow> settles s s'"
  by (auto simp: sendM2M_def sendM2A_def sendA2M_def sendCoinA2M_def bindE_eq_Inr split: if_splits)

lemma prepaid_settles:
  "settles s (IncrementPrepaidBadDebt m n s)" "settles s (DecrementPrepaidBadDebt m n s)"
  "settles s (ZeroPrepaidBadDebt m s)"
  by (simp_all add: IncrementPrepaidBadDebt_def DecrementPrepaidBadDebt_def ZeroPrepaidBadDebt_def
      settles_market Let_def)

lemma Withdraw_settles [settling]: "Withdraw E s m a n = Inr s' \<Longrightarrow> settles s s'"
  by (auto simp: Withdraw_def bindE_eq_Inr Let_def split: if_splits
      intro: settles_trans prepaid_settles dest!: send_settles)

lemma realizeBadDebt_settles [settling]: "realizeBadDebt E s m n = Inr s' \<Longrightarrow> settles s s'"
  by (auto simp: realizeBadDebt_def bindE_eq_Inr split: if_splits
      intro: settles_trans prepaid_settles dest!: send_settles)

lemma settleMargin_settles [settling]: "settleMargin E s m a n = Inr s' \<Longrightarrow> settles s s'"
  by (auto simp: settleMargin_def bindE_eq_Inr split: if_splits dest!: settling)

lemma transferFee_settles [settling]: "transferFee E s p a n = Inr (s', f) \<Longrightarrow> settles s s'"
  by (auto simp: transferFee_def Let_def bindE_eq_Inr split: if_splits
      dest!: send_settles intro: settles_trans)

lemma distributeLiquidateRewards_settles [settling]:
  "distributeLiquidateRewards E s m r = Inr s' \<Longrightarrow> settles s s'"
  by (auto simp: distributeLiquidateRewards_def bindE_eq_Inr split: if_splits
      dest!: send_settles Withdraw_settles intro: settles_trans)


section \<open>Position changes keep the invariant\<close>

text \<open>The position an operation works on: the stored one, or a fresh one with nothing stored.\<close>

definition current :: "'b perp_state \<Rightarrow> pair \<Rightarrow> addr \<Rightarrow> position \<Rightarrow> bool" where
  "current s p t pos \<longleftrightarrow>
     (case kv_get (Positions s) (p, t) of None \<Rightarrow> Size pos = 0 | Some q \<Rightarrow> pos = q)"

text \<open>After a change the position is written back, or nothing is stored and its size is zero.\<close>

definition written :: "'b perp_state \<Rightarrow> pair \<Rightarrow> addr \<Rightarrow> position \<Rightarrow> 'b perp_state \<Rightarrow> bool" where
  "written s p t pos s' \<longleftrightarrow>
     s' = s\<lparr>Positions := kv_insert (p, t) pos (Positions s)\<rparr>
     \<or> (s' = s \<and> Size pos = 0 \<and> kv_get (Positions s) (p, t) = None)"

context position_change
begin

lemma change_positions_at:
  assumes "change s mkt a pos = Inr (s1, a', r)" and "positions_keyed E s"
    and "owned E (p, t) pos"
  shows "Positions s1 \<in> {Positions s, kv_delete (p, t) (Positions s)}"
  using change_positions [OF assms(1)] assms(3) by (auto simp: owned_def)

lemma change_inv:
  assumes c: "change s mkt a pos = Inr (s1, a', r)" and inv: "perp_inv E s" and E: "addr_laws E"
    and a: "kv_get (AMMs s) p = Some a" and o: "owned E (p, t) pos" and cur: "current s p t pos"
    and w: "written s1 p t (resp_Position r) s2"
  shows "perp_inv E s2"
proof -
  have ap: "amm_Pair a = p" using perp_invD(5) [OF inv a] .
  have wf: "kv_wf (Positions s)" and pk: "positions_keyed E s"
    using perp_invD(3) [OF inv] by (simp_all add: positions_keyed_def)
  note P = change_positions_at [OF c pk o]
  have amms: "kv_get (AMMs s1) = (kv_get (AMMs s))(p \<mapsto> a')"
    using change_amms [OF c] a ap by simp
  have ab: "amm_Pair a' = p" "Bias a' = sizes s p + ExchangedPositionSize r"
    using change_bias [OF c] ap perp_invD(4) [OF inv a] by auto
  have sz: "Size (resp_Position r) = Size pos + ExchangedPositionSize r" by (rule change_size [OF c])
  have own: "owned E (p, t) (resp_Position r)"
    using change_owner [OF c, of t] o E by (auto simp: owned_def addr_laws_def)
  have mk: "Markets s1 = Markets s" by (rule change_pure_frame(1) [OF c])
  have wf1: "kv_wf (Positions s1)" using P wf by auto
  have own1: "kv_get (Positions s1) k = Some v \<Longrightarrow> owned E k v" for k v
    using P perp_invD(7) [OF inv, of k v] wf by (auto simp: kv_get_delete split: if_splits)
  have am2: "AMMs s2 = AMMs s1" and mk2: "Markets s2 = Markets s1" using w by (auto simp: written_def)
  have pk2: "positions_keyed E s2"
    using w wf1 own1 own by (auto simp: written_def positions_keyed_def split: if_splits)
  have at: "(case kv_get (Positions s) (p, t) of None \<Rightarrow> 0 | Some w \<Rightarrow> Size w) = Size pos"
    using cur by (auto simp: current_def split: option.splits)
  have s1q: "sizes s1 q = sizes s q - (if Positions s1 = Positions s then 0 else if q = p then Size pos else 0)" for q
    using P sizes_upd(2) [OF wf, of "(p, t)" q] at by (auto simp: sizes_def split: option.splits)
  have q2: "sizes s2 q = (if q = p then sizes s p + ExchangedPositionSize r else sizes s q)" for q
  proof -
    consider "s2 = s1\<lparr>Positions := kv_insert (p, t) (resp_Position r) (Positions s1)\<rparr>"
      | "s2 = s1" "Size (resp_Position r) = 0" "kv_get (Positions s1) (p, t) = None"
      using w by (auto simp: written_def)
    then show ?thesis
    proof cases
      case 1
      have "Positions s2 = kv_insert (p, t) (resp_Position r) (Positions s1)" using 1 by simp
      then have "sizes s2 q = sizes (s\<lparr>Positions := kv_insert (p, t) (resp_Position r) (Positions s)\<rparr>) q"
        using P kv.total_ins_del [OF wf] by (auto simp: sizes_def)
      then show ?thesis using sizes_upd(1) [OF wf, of "(p, t)" "resp_Position r" q] at sz by auto
    next
      case 2
      then show ?thesis
        using s1q [of q] at sz wf by (cases "Positions s1 = Positions s") (auto split: option.splits)
    qed
  qed
  show ?thesis
    unfolding perp_inv_def
    using pk2 q2 ab amms am2 mk2 mk perp_invD(1,2,4) [OF inv]
    by (auto simp: markets_keyed_def amms_keyed_def)
qed

end


section \<open>Entry points\<close>

lemma afterPositionUpdate_Inr:
  assumes "afterPositionUpdate E ctx s mkt a t r = Inr s'"
  obtains s1 s2 fee ev where "BadDebt r = 0"
    and "checkPriceFluctuationLimitRatio E s mkt a = Inr ()"
    and "checkMarginRatio E ctx s mkt a (resp_Position r) = Inr ()"
    and "settleMargin E s mkt t (dec_RoundInt E (MarginToVault r)) = Inr s1"
    and "transferFee E s1 (mkt_Pair mkt) t (ExchangedNotionalValue r) = Inr (s2, fee)"
    and "s' = emit ev (if Size (resp_Position r) \<noteq> 0
           then s2\<lparr>Positions := kv_insert (mkt_Pair mkt, t) (resp_Position r) (Positions s2)\<rparr> else s2)"
  using assms unfolding afterPositionUpdate_def Let_def
  by (cases "BadDebt r = 0") (auto simp: bindE_eq_Inr)

lemma markets_keyed_positions: "markets_keyed (s\<lparr>Positions := x\<rparr>) = markets_keyed s"
  by (simp add: markets_keyed_def)

lemma settles_update:
  "settles s s' \<Longrightarrow> settles (s\<lparr>Positions := f (Positions s)\<rparr>) (s'\<lparr>Positions := f (Positions s')\<rparr>)"
  by (simp add: settles_def markets_keyed_positions)

lemma afterPositionUpdate_writes:
  assumes "afterPositionUpdate E ctx s mkt a t r = Inr s'"
    and "Size (resp_Position r) \<noteq> 0 \<or> kv_get (Positions s') (mkt_Pair mkt, t) = None"
  obtains w where "written s (mkt_Pair mkt) t (resp_Position r) w" and "settles w s'"
proof -
  from assms(1) obtain s1 s2 fee ev where
    m: "settleMargin E s mkt t (dec_RoundInt E (MarginToVault r)) = Inr s1"
    and f: "transferFee E s1 (mkt_Pair mkt) t (ExchangedNotionalValue r) = Inr (s2, fee)"
    and s': "s' = emit ev (if Size (resp_Position r) \<noteq> 0
           then s2\<lparr>Positions := kv_insert (mkt_Pair mkt, t) (resp_Position r) (Positions s2)\<rparr> else s2)"
    by (rule afterPositionUpdate_Inr)
  have st: "settles s s2"
    using settles_trans [OF settleMargin_settles [OF m] transferFee_settles [OF f]] .
  show thesis
  proof (cases "Size (resp_Position r) = 0")
    case True
    then show thesis
      using that [of s] st s' assms(2) settles_trans [OF st settles_emit]
      by (auto simp: written_def settles_def)
  next
    case False
    let ?w = "s\<lparr>Positions := kv_insert (mkt_Pair mkt, t) (resp_Position r) (Positions s)\<rparr>"
    have "settles ?w s'"
      using settles_trans [OF settles_update [OF st] settles_emit] False s' by simp
    then show thesis using that [of ?w] by (simp add: written_def)
  qed
qed

lemma current_stored: "kv_get (Positions s) (p, t) = Some pos \<Longrightarrow> current s p t pos"
  by (simp add: current_def)

lemma current_zero: "kv_get (Positions s) (p, t) = None \<Longrightarrow> current s p t (ZeroPosition E ctx p t)"
  by (simp add: current_def ZeroPosition_def)

lemma owned_zero: "addr_laws E \<Longrightarrow> owned E (p, t) (ZeroPosition E ctx p t)"
  by (simp add: owned_def ZeroPosition_def addr_laws_def)

lemma OpenPosition_Inr:
  assumes "OpenPosition E ctx s p dir t q lev lim = Inr (s', r)"
  obtains mkt a pos s1 a1 where "kv_get (Markets s) p = Some mkt" and "Enabled mkt"
    and "kv_get (AMMs s) p = Some a"
    and "checkOpenPositionRequirements mkt q lev = Inr ()"
    and "pos = (case kv_get (Positions s) (p, t) of None \<Rightarrow> ZeroPosition E ctx p t | Some x \<Rightarrow> x)"
    and "increasePosition E ctx s mkt a pos dir (lev * q) lim lev = Inr (s1, a1, r)
       \<or> kv_get (Positions s) (p, t) = Some pos
          \<and> openReversePosition E ctx s mkt a pos (NewDec q) lev lim = Inr (s1, a1, r)"
    and "afterPositionUpdate E ctx s1 mkt a1 t r = Inr s'"
proof -
  from assms obtain mkt a where m: "kv_get (Markets s) p = Some mkt" "Enabled mkt"
    "kv_get (AMMs s) p = Some a" "checkOpenPositionRequirements mkt q lev = Inr ()"
    by (auto simp: OpenPosition_def bindE_eq_Inr getE_eq_Inr Let_def split: if_splits)
  from assms m show thesis
    by (cases "kv_get (Positions s) (p, t)")
      (auto simp: OpenPosition_def bindE_eq_Inr Let_def split: if_splits intro!: that)
qed

lemma OpenPosition_inv:
  assumes "OpenPosition E ctx s p dir t q lev lim = Inr (s', r)" and inv: "perp_inv E s"
    and E: "addr_laws E"
    and gone: "Size (resp_Position r) \<noteq> 0 \<or> kv_get (Positions s') (p, t) = None"
  shows "perp_inv E s'"
proof -
  from assms(1) obtain mkt a pos s1 a1 where m: "kv_get (Markets s) p = Some mkt"
    and a: "kv_get (AMMs s) p = Some a"
    and pos: "pos = (case kv_get (Positions s) (p, t) of None \<Rightarrow> ZeroPosition E ctx p t | Some x \<Rightarrow> x)"
    and c: "increasePosition E ctx s mkt a pos dir (lev * q) lim lev = Inr (s1, a1, r)
       \<or> kv_get (Positions s) (p, t) = Some pos
          \<and> openReversePosition E ctx s mkt a pos (NewDec q) lev lim = Inr (s1, a1, r)"
    and u: "afterPositionUpdate E ctx s1 mkt a1 t r = Inr s'"
    by (rule OpenPosition_Inr)
  have mp: "mkt_Pair mkt = p" by (rule perp_invD(6) [OF inv m])
  from afterPositionUpdate_writes [OF u] gone mp obtain w where
    w: "written s1 p t (resp_Position r) w" "settles w s'" by metis
  have o: "owned E (p, t) pos" and cur: "current s p t pos"
    using pos perp_invD(7) [OF inv] owned_zero [OF E] current_zero current_stored
    by (auto split: option.splits)
  have "perp_inv E w"
    using c inc.change_inv [OF _ inv E a o cur w(1)] opr.change_inv [OF _ inv E a o cur w(1)] by blast
  then show ?thesis using settles_inv [OF w(2)] by blast
qed

lemma closePosition_gone:
  assumes "closePositionEntirely E ctx s mkt a pos lim = Inr (s1, a1, r)" and "positions_keyed E s"
    and "owned E (p, t) pos"
  shows "kv_get (Positions s1) (p, t) = None"
proof -
  from assms(1) obtain u s0 where "AccAddressFromBech32 E (TraderAddress pos) = Some u"
    and k: "k_SwapBaseAsset E s mkt a (if 0 < Size pos then SHORT else LONG) \<bar>Size pos\<bar> lim
           = Inr (s0, a1, ExchangedNotionalValue r)"
    and "s1 = s0\<lparr>Positions := kv_delete (pos_Pair pos, u) (Positions s0)\<rparr>"
    by (elim closePositionEntirely_Inr)
  moreover have "Positions s0 = Positions s"
    using arg_cong [OF k_SwapBaseAsset_Inr(2) [OF k], of Positions] by simp
  ultimately show ?thesis using assms(2,3) by (auto simp: positions_keyed_def owned_def kv_get_delete)
qed

text \<open>Closing a position entirely and settling it keeps the invariant and leaves no position.\<close>

lemma closePositionEntirely_inv:
  assumes "closePositionEntirely E ctx s mkt a pos lim = Inr (s1, a1, r)" and "perp_inv E s"
    and "addr_laws E" and "kv_get (AMMs s) p = Some a" and "kv_get (Positions s) (p, t) = Some pos"
  shows "perp_inv E s1" and "kv_get (Positions s1) (p, t) = None" and "Size (resp_Position r) = 0"
proof -
  have o: "owned E (p, t) pos" using perp_invD(7) [OF assms(2,5)] .
  show none: "kv_get (Positions s1) (p, t) = None"
    by (rule closePosition_gone [OF assms(1) perp_invD(3) [OF assms(2)] o])
  show z: "Size (resp_Position r) = 0" by (rule closePosition_margin(3) [OF assms(1)])
  show "perp_inv E s1"
    by (rule cls.change_inv [OF assms(1-4) o current_stored [OF assms(5)]])
      (simp add: written_def none z)
qed

lemma ClosePosition_Inr:
  assumes "ClosePosition E ctx s p t = Inr (s', r)"
  obtains pos mkt a s1 a1 where "kv_get (Positions s) (p, t) = Some pos"
    and "kv_get (Markets s) p = Some mkt" and "kv_get (AMMs s) p = Some a"
    and "closePositionEntirely E ctx s mkt a pos 0 = Inr (s1, a1, r)"
    and "afterPositionUpdate E ctx s1 mkt a1 t r = Inr s'"
  using assms by (auto simp: ClosePosition_def bindE_eq_Inr getE_eq_Inr split: if_splits)

lemma ClosePosition_inv:
  assumes "ClosePosition E ctx s p t = Inr (s', r)" and inv: "perp_inv E s" and E: "addr_laws E"
  shows "perp_inv E s'" and "kv_get (Positions s') (p, t) = None"
proof -
  from assms(1) obtain pos mkt a s1 a1 where pos: "kv_get (Positions s) (p, t) = Some pos"
    and m: "kv_get (Markets s) p = Some mkt" and a: "kv_get (AMMs s) p = Some a"
    and c: "closePositionEntirely E ctx s mkt a pos 0 = Inr (s1, a1, r)"
    and u: "afterPositionUpdate E ctx s1 mkt a1 t r = Inr s'"
    by (rule ClosePosition_Inr)
  note cl = closePositionEntirely_inv [OF c inv E a pos]
  from u obtain s2 s3 fee ev where
    sm: "settleMargin E s1 mkt t (dec_RoundInt E (MarginToVault r)) = Inr s2"
    and tf: "transferFee E s2 (mkt_Pair mkt) t (ExchangedNotionalValue r) = Inr (s3, fee)"
    and s': "s' = emit ev s3" using cl(3) by (auto elim: afterPositionUpdate_Inr)
  have st: "settles s1 s'"
    using settles_trans [OF settles_trans [OF settleMargin_settles [OF sm] transferFee_settles [OF tf]] settles_emit]
    by (simp add: s')
  show "perp_inv E s'" using settles_inv [OF st cl(1)] .
  show "kv_get (Positions s') (p, t) = None" using st cl(2) by (simp add: settles_def)
qed


section \<open>Margin operations and liquidations\<close>

lemma same_size_inv:
  assumes inv: "perp_inv E s" and pos: "kv_get (Positions s) (p, t) = Some pos"
    and "owned E (p, t) pos'" and "Size pos' = Size pos"
  shows "perp_inv E (s\<lparr>Positions := kv_insert (p, t) pos' (Positions s)\<rparr>)"
proof -
  let ?s = "s\<lparr>Positions := kv_insert (p, t) pos' (Positions s)\<rparr>"
  have wf: "kv_wf (Positions s)" using perp_invD(3) [OF inv] by (simp add: positions_keyed_def)
  have "sizes ?s q = sizes s q" for q using sizes_upd(1) [OF wf, of "(p, t)" pos' q] assms by auto
  moreover have "positions_keyed E ?s"
    using wf assms(3) perp_invD(7) [OF inv] by (auto simp: positions_keyed_def split: if_splits)
  ultimately show ?thesis using perp_invD(1,2,4) [OF inv]
    by (auto simp: perp_inv_def amms_keyed_def markets_keyed_positions)
qed

lemma kv_insert_twice: "kv_insert k v' (kv_insert k v xs) = kv_insert k v' xs"
  by (induction k v xs rule: kv_insert.induct) auto

lemma AddMargin_Inr:
  assumes "AddMargin E ctx s p t c = Inr (s', r)"
  obtains mkt a pos s1 ev where "kv_get (Markets s) p = Some mkt" and "kv_get (AMMs s) p = Some a"
    and "kv_get (Positions s) (p, t) = Some pos"
    and "mr_FundingPayment r = FundingPayment E pos (mkt_LatestCumulativePremiumFraction mkt)"
    and "0 \<le> Margin pos - mr_FundingPayment r + NewDec (Amount c)"
    and "sendCoinA2M E t VaultModuleAccount c s = Inr s1"
    and "mr_Position r = pos\<lparr>Margin := Margin pos - mr_FundingPayment r + NewDec (Amount c),
           pos_LatestCumulativePremiumFraction := mkt_LatestCumulativePremiumFraction mkt,
           LastUpdatedBlockNumber := BlockHeight ctx\<rparr>"
    and "s' = emit ev (s1\<lparr>Positions := kv_insert (pos_Pair pos, t) (mr_Position r) (Positions s1)\<rparr>)"
  using assms unfolding AddMargin_def Let_def
  by (auto simp: bindE_eq_Inr getE_eq_Inr not_less split: if_splits)

lemma RemoveMargin_Inr:
  assumes "RemoveMargin E ctx s p t c = Inr (s', r)"
  obtains mkt a pos sn tn s1 ev where "kv_get (Markets s) p = Some mkt" and "kv_get (AMMs s) p = Some a"
    and "kv_get (Positions s) (p, t) = Some pos"
    and "PositionNotionalSpot E a pos = Inr sn"
    and "PositionNotionalTWAP E ctx s pos (TwapLookbackWindow mkt) = Inr tn"
    and "mr_FundingPayment r = FundingPayment E pos (mkt_LatestCumulativePremiumFraction mkt)"
    and "NewDec (Amount c) \<le> Margin pos - mr_FundingPayment r + min 0 (UnrealizedPnl pos (min sn tn))"
    and "Withdraw E s mkt t (Amount c) = Inr s1"
    and "mr_Position r = pos\<lparr>Margin := Margin pos - mr_FundingPayment r - NewDec (Amount c),
           pos_LatestCumulativePremiumFraction := mkt_LatestCumulativePremiumFraction mkt,
           LastUpdatedBlockNumber := BlockHeight ctx\<rparr>"
    and "s' = emit ev (s1\<lparr>Positions := kv_insert (pos_Pair pos, t) (mr_Position r) (Positions s1)\<rparr>)"
  using assms unfolding RemoveMargin_def Let_def
  by (auto simp: bindE_eq_Inr getE_eq_Inr not_less min_def split: if_splits)

lemma settled_same_size_inv:
  assumes "settles s s1" and "perp_inv E s" and "kv_get (Positions s) (p, t) = Some pos"
    and "pos' = pos\<lparr>Margin := m, pos_LatestCumulativePremiumFraction := f, LastUpdatedBlockNumber := b\<rparr>"
  shows "perp_inv E (emit ev (s1\<lparr>Positions := kv_insert (pos_Pair pos, t) pos' (Positions s1)\<rparr>))"
proof -
  have o: "owned E (p, t) pos" by (rule perp_invD(7) [OF assms(2,3)])
  have "perp_inv E s1" by (rule settles_inv [OF assms(1,2)])
  moreover have "kv_get (Positions s1) (p, t) = Some pos" using assms(1,3) by (simp add: settles_def)
  moreover have "owned E (p, t) pos'" using o assms(4) by (simp add: owned_def)
  ultimately have "perp_inv E (s1\<lparr>Positions := kv_insert (p, t) pos' (Positions s1)\<rparr>)"
    by (rule same_size_inv) (simp add: assms(4))
  then show ?thesis using settles_inv [OF settles_emit] o by (simp add: owned_def)
qed

lemma margin_ops_inv:
  assumes "perp_inv E s"
  shows "AddMargin E ctx s p t c = Inr (s', r) \<Longrightarrow> perp_inv E s'"
    and "RemoveMargin E ctx s p t c = Inr (s', r) \<Longrightarrow> perp_inv E s'"
  using settled_same_size_inv [OF send_settles(4) assms] settled_same_size_inv [OF Withdraw_settles assms]
  by (fastforce elim!: AddMargin_Inr, fastforce elim!: RemoveMargin_Inr)

lemma executeFullLiquidation_Inr:
  assumes "executeFullLiquidation E ctx s mkt a l pos = Inr (s', r)"
  obtains s1 a1 pr fee bd s2 s3 ev where
    "closePositionEntirely E ctx s mkt a pos 0 = Inr (s1, a1, pr)"
    and "fee = dec_QuoInt64 E (dec_Mul E (LiquidationFeeRatio mkt) (ExchangedNotionalValue pr)) 2"
    and "bd = BadDebt pr + max 0 (fee - \<bar>MarginToVault pr\<bar>)"
    and "(if 0 < bd then realizeBadDebt E s1 mkt (dec_RoundInt E bd) else Inr s1) = Inr s2"
    and "distributeLiquidateRewards E s2 mkt r = Inr s3" and "s' = emit ev s3"
    and "r = \<lparr>lr_BadDebt = dec_RoundInt E bd, FeeToLiquidator = dec_RoundInt E fee,
           FeeToPerpEcosystemFund = dec_RoundInt E (max 0 (\<bar>MarginToVault pr\<bar> - fee)),
           lr_Liquidator = AccAddressString E l, lr_PositionResp = pr\<rparr>"
proof -
  have bd: "(if c < f then b + (f - c) else b) = b + max 0 (f - c)"
    "(if 0 < (if c < f then 0 else c - f) then (if c < f then 0 else c - f) else 0) = max 0 (c - f)"
    for b c f :: int by auto
  show thesis
    using assms unfolding executeFullLiquidation_def Let_def bd
    by (auto simp: bindE_eq_Inr getE_eq_Inr intro!: that)
qed

lemma executeFullLiquidation_inv:
  assumes "executeFullLiquidation E ctx s mkt a l pos = Inr (s', r)" and inv: "perp_inv E s"
    and E: "addr_laws E" and a: "kv_get (AMMs s) p = Some a" and pos: "kv_get (Positions s) (p, t) = Some pos"
  shows "perp_inv E s'" and "kv_get (Positions s') (p, t) = None"
proof -
  from assms(1) obtain s1 a1 pr bd s2 s3 ev where
    c: "closePositionEntirely E ctx s mkt a pos 0 = Inr (s1, a1, pr)"
    and b: "(if 0 < bd then realizeBadDebt E s1 mkt (dec_RoundInt E bd) else Inr s1) = Inr s2"
    and d: "distributeLiquidateRewards E s2 mkt r = Inr s3" and s': "s' = emit ev s3"
    by (rule executeFullLiquidation_Inr)
  from b have b: "settles s1 s2" by (auto split: if_splits dest: realizeBadDebt_settles)
  note cl = closePositionEntirely_inv [OF c inv E a pos]
  have st: "settles s1 s'"
    using settles_trans [OF settles_trans [OF b distributeLiquidateRewards_settles [OF d]] settles_emit]
    by (simp add: s')
  show "perp_inv E s'" using settles_inv [OF st cl(1)] .
  show "kv_get (Positions s') (p, t) = None" using st cl(2) by (simp add: settles_def)
qed

lemma executePartialLiquidation_inv:
  assumes "executePartialLiquidation E ctx s mkt a l pos = Inr (s', r)" and inv: "perp_inv E s"
    and E: "addr_laws E" and a: "kv_get (AMMs s) p = Some a" and pos: "kv_get (Positions s) (p, t) = Some pos"
  shows "perp_inv E s'"
proof -
  have o: "owned E (p, t) pos" by (rule perp_invD(7) [OF inv pos])
  from assms(1) o obtain q s1 a1 pr m s3 ev where
    c: "decreasePosition E ctx s mkt a pos q 0 True = Inr (s1, a1, pr)"
    and d: "distributeLiquidateRewards E (s1\<lparr>Positions := kv_insert (pos_Pair (resp_Position pr), t)
        ((resp_Position pr)\<lparr>Margin := m\<rparr>) (Positions s1)\<rparr>) mkt r = Inr s3" and s': "s' = emit ev s3"
    unfolding executePartialLiquidation_def Let_def
    by (auto simp: bindE_eq_Inr getE_eq_Inr owned_def)
  let ?w = "s1\<lparr>Positions := kv_insert (p, t) (resp_Position pr) (Positions s1)\<rparr>"
  have pp: "pos_Pair (resp_Position pr) = p" using dec.change_owner [OF c] o by (simp add: owned_def)
  have w: "perp_inv E ?w"
    by (rule dec.change_inv [OF c inv E a o current_stored [OF pos]]) (simp add: written_def)
  have g: "kv_get (Positions ?w) (p, t) = Some (resp_Position pr)" by simp
  have "owned E (p, t) ((resp_Position pr)\<lparr>Margin := m\<rparr>)"
    using perp_invD(7) [OF w g] by (simp add: owned_def)
  from same_size_inv [OF w g this]
  have "perp_inv E (s1\<lparr>Positions := kv_insert (p, t) ((resp_Position pr)\<lparr>Margin := m\<rparr>) (Positions s1)\<rparr>)"
    by (simp add: kv_insert_twice)
  with d pp show ?thesis
    using settles_inv [OF settles_trans [OF distributeLiquidateRewards_settles [OF d] settles_emit]]
    by (simp add: s')
qed

lemma liquidate_Inr:
  assumes "liquidate E ctx s l p t = Inr (s', fl, fe)"
  obtains mkt a pos sn tn r d where "kv_get (Markets s) p = Some mkt" and "kv_get (AMMs s) p = Some a"
    and "kv_get (Positions s) (p, t) = Some pos" and "PositionNotionalSpot E a pos = Inr sn"
    and "PositionNotionalTWAP E ctx s pos (TwapLookbackWindow mkt) = Inr tn"
    and "MarginRatio E pos (max sn tn) (mkt_LatestCumulativePremiumFraction mkt) < MaintenanceMarginRatio mkt"
    and "(if LiquidationFeeRatio mkt \<le> MarginRatio E pos sn (mkt_LatestCumulativePremiumFraction mkt)
        then executePartialLiquidation E ctx s mkt a l pos else executeFullLiquidation E ctx s mkt a l pos)
       = Inr (s', r)"
    and "quoteDenomE p = Inr d" and "newCoinE E d (FeeToLiquidator r) = Inr fl"
    and "newCoinE E d (FeeToPerpEcosystemFund r) = Inr fe"
  using assms unfolding liquidate_def Let_def withEvents_def
  by (auto simp: bindE_eq_Inr getE_eq_Inr mapErr_eq_Inr)

lemma liquidate_inv:
  assumes "liquidate E ctx s l p t = Inr (s', fl, fe)" and "perp_inv E s" and "addr_laws E"
  shows "perp_inv E s'"
  using assms(1)
  by (elim liquidate_Inr)
    (auto split: if_splits dest: executePartialLiquidation_inv [OF _ assms(2,3)]
      executeFullLiquidation_inv [OF _ assms(2,3)])

lemma perp_inv_events [simp]: "perp_inv E (s\<lparr>events := x\<rparr>) = perp_inv E s"
  by (simp add: perp_inv_def markets_keyed_def amms_keyed_def positions_keyed_def sizes_def)

lemma MultiLiquidate_loop_Cons:
  assumes "MultiLiquidate_loop E ctx l ((p, tr) # reqs) s = Inr (s', rs)"
  obtains (failed) t evs e rs' where "AccAddressFromBech32 E tr = Some t"
      and "liquidate E ctx (s\<lparr>events := []\<rparr>) l p t = Inl (evs, e)" and "\<not> isPanic e"
      and "MultiLiquidate_loop E ctx l reqs s = Inr (s', rs')" and "rs = LiqFailed e # rs'"
  | (succeeded) t c fl fe rs' where "AccAddressFromBech32 E tr = Some t"
      and "liquidate E ctx (s\<lparr>events := []\<rparr>) l p t = Inr (c, fl, fe)"
      and "MultiLiquidate_loop E ctx l reqs (c\<lparr>events := events s @ events c\<rparr>) = Inr (s', rs')"
      and "rs = LiqDone fl fe # rs'"
proof -
  from assms obtain t where t: "AccAddressFromBech32 E tr = Some t"
    by (auto simp: bindE_eq_Inr getE_eq_Inr)
  show thesis
  proof (cases "liquidate E ctx (s\<lparr>events := []\<rparr>) l p t")
    case (Inl x)
    then show thesis using assms t failed
      by (cases x) (auto simp: bindE_eq_Inr split: if_splits)
  next
    case (Inr x)
    then show thesis using assms t succeeded
      by (cases x) (auto simp: bindE_eq_Inr)
  qed
qed

lemma MultiLiquidate_loop_inv:
  "MultiLiquidate_loop E ctx l reqs s = Inr (s', rs) \<Longrightarrow> perp_inv E s \<Longrightarrow> addr_laws E \<Longrightarrow> perp_inv E s'"
proof (induction E ctx l reqs s arbitrary: rs rule: MultiLiquidate_loop.induct)
  case (1 E ctx l s)
  then show ?case by simp
next
  case (2 E ctx l p tr reqs s)
  from "2.prems"(1) show ?case
  proof (cases rule: MultiLiquidate_loop_Cons)
    case (failed t evs e rs')
    then show ?thesis using "2.IH"(1) "2.prems" by blast
  next
    case (succeeded t c fl fe rs')
    have "perp_inv E c" using liquidate_inv [OF succeeded(2)] "2.prems" by simp
    then show ?thesis using "2.IH"(2) succeeded "2.prems" by simp
  qed
qed

lemma MultiLiquidate_inv:
  "MultiLiquidate E ctx s l reqs = Inr (s', rs) \<Longrightarrow> perp_inv E s \<Longrightarrow> addr_laws E \<Longrightarrow> perp_inv E s'"
  by (auto simp: MultiLiquidate_def bindE_eq_Inr split: if_splits dest: MultiLiquidate_loop_inv)

end
