(* ===== verification/Perp_Admin.thy ===== *)
theory Perp_Admin
  imports Perp_Invariant
begin

text \<open>
  Operations on whole markets: repegging and deepening a market maker
  (\<^verbatim>\<open>x/perp/keeper/v2/amm.go\<close>), enabling a market (\<^verbatim>\<open>keeper.go\<close>), the funding hook at the end of an
  epoch (\<^verbatim>\<open>hooks.go\<close>), and genesis import and export (\<^verbatim>\<open>x/perp/module/v2/genesis.go\<close>).  The index
  price (oracle) and the length of the epoch (epochs module) are arguments of the hook.
\<close>

section \<open>Market makers\<close>

definition handleMarketUpdateCost :: "'b sdk \<Rightarrow> 'b perp_state \<Rightarrow> pair \<Rightarrow> int \<Rightarrow> perp_error + 'b perp_state" where
  "handleMarketUpdateCost E s p cost =
     (if 0 < cost then
        bindE (quoteDenomE p) (\<lambda>d.
        bindE (newCoinE E d cost) (\<lambda>c.
        case SendCoinsFromModuleToModule E (bank s) PerpEFModuleAccount VaultModuleAccount c of
          Inl _ \<Rightarrow> Inl ErrNotEnoughFundToPayAction
        | Inr b \<Rightarrow> Inr (s\<lparr>bank := b\<rparr>)))
      else if cost < 0 then
        bindE (quoteDenomE p) (\<lambda>d.
        bindE (newCoinE E d (- cost)) (\<lambda>c.
        case SendCoinsFromModuleToModule E (bank s) VaultModuleAccount PerpEFModuleAccount c of
          Inl _ \<Rightarrow> Inr s
        | Inr b \<Rightarrow> Inr (s\<lparr>bank := b\<rparr>)))
      else Inr s)"

definition EditPriceMultiplier :: "'b sdk \<Rightarrow> 'b perp_state \<Rightarrow> pair \<Rightarrow> dec \<Rightarrow> perp_error + 'b perp_state" where
  "EditPriceMultiplier E s p newPriceMultiplier =
     bindE (getE ErrNotFound (kv_get (AMMs s) p)) (\<lambda>a.
     if newPriceMultiplier = PriceMultiplier a then Inr s
     else
     bindE (CalcRepegCost E a newPriceMultiplier) (\<lambda>cost.
     bindE (handleMarketUpdateCost E s p cost) (\<lambda>s1.
     Inr (s1\<lparr>AMMs := kv_insert p (a\<lparr>PriceMultiplier := newPriceMultiplier\<rparr>) (AMMs s1)\<rparr>))))"

definition EditSwapInvariant :: "'b sdk \<Rightarrow> 'b perp_state \<Rightarrow> pair \<Rightarrow> dec option \<Rightarrow> perp_error + 'b perp_state" where
  "EditSwapInvariant E s p multiplier =
     bindE (getE ErrNotFound (kv_get (AMMs s) p)) (\<lambda>a.
     bindE (CalcUpdateSwapInvariantCost E a multiplier) (\<lambda>cost.
     bindE (handleMarketUpdateCost E s p cost) (\<lambda>s1.
     bindE (getE (Panic ''nil decimal'') multiplier) (\<lambda>m.
     bindE (UpdateSwapInvariant E a m) (\<lambda>a'.
     Inr (s1\<lparr>AMMs := kv_insert p a' (AMMs s1)\<rparr>))))))"

definition ChangeMarketEnabledParameter :: "'b perp_state \<Rightarrow> pair \<Rightarrow> bool \<Rightarrow> perp_error + 'b perp_state" where
  "ChangeMarketEnabledParameter s p enabled =
     bindE (getE ErrNotFound (kv_get (Markets s) p)) (\<lambda>m.
     Inr (s\<lparr>Markets := kv_insert p (m\<lparr>Enabled := enabled\<rparr>) (Markets s)\<rparr>))"


section \<open>Funding\<close>

definition DayNanos :: int where
  "DayNanos = 86400000000000"

definition fundMarket :: "'b sdk \<Rightarrow> block_ctx \<Rightarrow> dec \<Rightarrow> dec \<Rightarrow> int \<Rightarrow> market \<Rightarrow> 'b perp_state \<Rightarrow> perp_error + 'b perp_state" where
  "fundMarket E ctx markTwap indexTWAP duration m s =
     (if duration = 0 then Inl (Panic ''division by zero'')
      else
      let intervalsPerDay = go_quo DayNanos duration in
      if intervalsPerDay = 0 then Inl (Panic ''division by zero'')
      else
      let premiumFraction = dec_QuoInt64 E (markTwap - indexTWAP) intervalsPerDay;
          m' = m\<lparr>mkt_LatestCumulativePremiumFraction :=
                  mkt_LatestCumulativePremiumFraction m + premiumFraction\<rparr>
      in
      bindE (quoE E premiumFraction indexTWAP) (\<lambda>fundingRate.
      Inr (emit (FundingRateChangedEvent
        \<lparr>fre_Pair = mkt_Pair m, fre_MarkPrice = markTwap, fre_IndexPrice = indexTWAP,
         fre_LatestFundingRate = fundingRate, fre_LatestPremiumFraction = premiumFraction,
         fre_CumulativePremiumFraction = mkt_LatestCumulativePremiumFraction m',
         fre_BlockHeight = BlockHeight ctx, fre_BlockTimeMs = UnixMilli (BlockTime ctx)\<rparr>)
        (s\<lparr>Markets := kv_insert (mkt_Pair m) m' (Markets s)\<rparr>))))"

text \<open>The loop over the markets, in the order of the collection; \<open>return\<close> ends it, \<open>continue\<close> goes on.\<close>

fun AfterEpochEnd_loop :: "'b sdk \<Rightarrow> block_ctx \<Rightarrow> (pair \<Rightarrow> dec option) \<Rightarrow> (string \<Rightarrow> int) \<Rightarrow> string \<Rightarrow>
    market list \<Rightarrow> 'b perp_state \<Rightarrow> perp_error + 'b perp_state" where
  "AfterEpochEnd_loop E ctx index duration epochId [] s = Inr s"
| "AfterEpochEnd_loop E ctx index duration epochId (m # ms) s =
     (if \<not> Enabled m \<or> epochId \<noteq> FundingRateEpochId m then Inr s
      else case index (mkt_Pair m) of
        None \<Rightarrow> AfterEpochEnd_loop E ctx index duration epochId ms s
      | Some indexTWAP \<Rightarrow>
          if indexTWAP = 0 then AfterEpochEnd_loop E ctx index duration epochId ms s
          else case CalcTwap E ctx s (mkt_Pair m) SPOT DIRECTION_UNSPECIFIED 0 (TwapLookbackWindow m) of
            Inl e \<Rightarrow> if isPanic e then Inl e else AfterEpochEnd_loop E ctx index duration epochId ms s
          | Inr markTwap \<Rightarrow>
              if markTwap = 0 then AfterEpochEnd_loop E ctx index duration epochId ms s
              else bindE (fundMarket E ctx markTwap indexTWAP (duration epochId) m s) (\<lambda>s1.
                AfterEpochEnd_loop E ctx index duration epochId ms s1))"

definition AfterEpochEnd :: "'b sdk \<Rightarrow> block_ctx \<Rightarrow> (pair \<Rightarrow> dec option) \<Rightarrow> (string \<Rightarrow> int) \<Rightarrow> string \<Rightarrow>
    'b perp_state \<Rightarrow> perp_error + 'b perp_state" where
  "AfterEpochEnd E ctx index duration epochId s =
     AfterEpochEnd_loop E ctx index duration epochId (kv_values (Markets s)) s"


section \<open>Genesis\<close>

record genesis_state =
  gs_Markets :: "market list"
  gs_Amms :: "amm list"
  gs_Positions :: "position list"
  gs_ReserveSnapshots :: "reserve_snapshot list"

definition DefaultGenesis :: genesis_state where
  "DefaultGenesis = \<lparr>gs_Markets = [], gs_Amms = [], gs_Positions = [], gs_ReserveSnapshots = []\<rparr>"

fun validate_all :: "('a \<Rightarrow> perp_error + unit) \<Rightarrow> 'a list \<Rightarrow> perp_error + unit" where
  "validate_all f [] = Inr ()"
| "validate_all f (x # xs) = bindE (f x) (\<lambda>_. validate_all f xs)"

definition GenesisState_Validate :: "'b sdk \<Rightarrow> genesis_state \<Rightarrow> perp_error + unit" where
  "GenesisState_Validate E gs =
     bindE (validate_all (Position_Validate E) (gs_Positions gs)) (\<lambda>_.
     bindE (validate_all (Market_Validate E) (gs_Markets gs)) (\<lambda>_.
     validate_all AMM_Validate (gs_Amms gs)))"

definition snapshotKey :: "reserve_snapshot \<Rightarrow> pair \<times> int" where
  "snapshotKey v = (amm_Pair (snap_Amm v), TimestampMs v * 1000000)"

fun insertPositions :: "'b sdk \<Rightarrow> position list \<Rightarrow> (pair \<times> addr, position) kv \<Rightarrow>
    perp_error + (pair \<times> addr, position) kv" where
  "insertPositions E [] ps = Inr ps"
| "insertPositions E (x # xs) ps =
     bindE (getE (Panic ''invalid address'') (AccAddressFromBech32 E (TraderAddress x))) (\<lambda>t.
     insertPositions E xs (kv_insert (pos_Pair x, t) x ps))"

definition InitGenesis :: "'b sdk \<Rightarrow> genesis_state \<Rightarrow> 'b perp_state \<Rightarrow> perp_error + 'b perp_state" where
  "InitGenesis E gs s =
     bindE (insertPositions E (gs_Positions gs) (Positions s)) (\<lambda>ps.
     Inr (s\<lparr>Markets := fold (\<lambda>m. kv_insert (mkt_Pair m) m) (gs_Markets gs) (Markets s),
            AMMs := fold (\<lambda>a. kv_insert (amm_Pair a) a) (gs_Amms gs) (AMMs s),
            Positions := ps,
            ReserveSnapshots := fold (\<lambda>v. kv_insert (snapshotKey v) v) (gs_ReserveSnapshots gs)
              (ReserveSnapshots s)\<rparr>))"

definition ExportGenesis :: "'b perp_state \<Rightarrow> genesis_state" where
  "ExportGenesis s =
     \<lparr>gs_Markets = kv_values (Markets s), gs_Amms = kv_values (AMMs s),
      gs_Positions = kv_values (Positions s), gs_ReserveSnapshots = kv_values (ReserveSnapshots s)\<rparr>"


section \<open>The invariant under these operations\<close>

lemma handleMarketUpdateCost_Inr:
  assumes "handleMarketUpdateCost E s p cost = Inr s'"
  obtains (pay) d c b where "0 < cost" and "quoteDenomE p = Inr d" and "newCoinE E d cost = Inr c"
      and "SendCoinsFromModuleToModule E (bank s) PerpEFModuleAccount VaultModuleAccount c = Inr b"
      and "s' = s\<lparr>bank := b\<rparr>"
  | (collect) d c b where "cost < 0" and "quoteDenomE p = Inr d" and "newCoinE E d (- cost) = Inr c"
      and "SendCoinsFromModuleToModule E (bank s) VaultModuleAccount PerpEFModuleAccount c = Inr b"
      and "s' = s\<lparr>bank := b\<rparr>"
  | (forgive) d c e where "cost < 0" and "quoteDenomE p = Inr d" and "newCoinE E d (- cost) = Inr c"
      and "SendCoinsFromModuleToModule E (bank s) VaultModuleAccount PerpEFModuleAccount c = Inl e"
      and "s' = s"
  | (free) "cost = 0" and "s' = s"
proof -
  consider "0 < cost" | "cost < 0" | "cost = 0" by linarith
  then show thesis
  proof cases
    case 1
    with assms obtain d c where dc: "quoteDenomE p = Inr d" "newCoinE E d cost = Inr c"
      by (auto simp: handleMarketUpdateCost_def bindE_eq_Inr)
    with 1 assms pay show thesis
      by (cases "SendCoinsFromModuleToModule E (bank s) PerpEFModuleAccount VaultModuleAccount c")
        (auto simp: handleMarketUpdateCost_def)
  next
    case 2
    with assms obtain d c where dc: "quoteDenomE p = Inr d" "newCoinE E d (- cost) = Inr c"
      by (auto simp: handleMarketUpdateCost_def bindE_eq_Inr)
    show thesis
    proof (cases "SendCoinsFromModuleToModule E (bank s) VaultModuleAccount PerpEFModuleAccount c")
      case (Inl e)
      have "s' = s" using 2 assms dc Inl by (simp add: handleMarketUpdateCost_def)
      then show thesis by (rule forgive [OF 2 dc Inl])
    next
      case (Inr b)
      have "s' = s\<lparr>bank := b\<rparr>" using 2 assms dc Inr by (simp add: handleMarketUpdateCost_def)
      then show thesis by (rule collect [OF 2 dc Inr])
    qed
  next
    case 3
    with assms free show thesis by (simp add: handleMarketUpdateCost_def)
  qed
qed

lemma handleMarketUpdateCost_settles [settling]: "handleMarketUpdateCost E s p c = Inr s' \<Longrightarrow> settles s s'"
  by (elim handleMarketUpdateCost_Inr) auto

lemma amm_update_inv:
  assumes "perp_inv E s" and "kv_get (AMMs s) p = Some a" and "amm_Pair a' = amm_Pair a" and "Bias a' = Bias a"
  shows "perp_inv E (s\<lparr>AMMs := kv_insert p a' (AMMs s)\<rparr>)"
  using perp_invD(4,5) [OF assms(1,2)] assms
  by (auto simp: perp_inv_def amms_keyed_def markets_keyed_def positions_keyed_def sizes_def)

lemma EditPriceMultiplier_Inr:
  assumes "EditPriceMultiplier E s p x = Inr s'"
  obtains (same) a where "kv_get (AMMs s) p = Some a" and "x = PriceMultiplier a" and "s' = s"
  | (repegged) a cost s1 where "kv_get (AMMs s) p = Some a" and "x \<noteq> PriceMultiplier a"
      and "CalcRepegCost E a x = Inr cost" and "handleMarketUpdateCost E s p cost = Inr s1"
      and "s' = s1\<lparr>AMMs := kv_insert p (a\<lparr>PriceMultiplier := x\<rparr>) (AMMs s1)\<rparr>"
  using assms by (auto simp: EditPriceMultiplier_def bindE_eq_Inr getE_eq_Inr split: if_splits)

lemma EditPriceMultiplier_inv:
  assumes "EditPriceMultiplier E s p x = Inr s'" and inv: "perp_inv E s"
  shows "perp_inv E s'"
  using assms(1)
proof (cases rule: EditPriceMultiplier_Inr)
  case same
  then show ?thesis using inv by simp
next
  case (repegged a cost s1)
  have st: "settles s s1" by (rule handleMarketUpdateCost_settles [OF repegged(4)])
  show ?thesis unfolding repegged(5)
    by (rule amm_update_inv [OF settles_inv [OF st inv]])
      (use st repegged(1) in \<open>simp_all add: settles_def Bias_def\<close>)
qed

lemma EditSwapInvariant_inv:
  assumes "EditSwapInvariant E s p x = Inr s'" and inv: "perp_inv E s"
  shows "perp_inv E s'"
proof -
  from assms(1) obtain a cost s1 m a' where a: "kv_get (AMMs s) p = Some a"
    and c: "handleMarketUpdateCost E s p cost = Inr s1" and u: "UpdateSwapInvariant E a m = Inr a'"
    and s': "s' = s1\<lparr>AMMs := kv_insert p a' (AMMs s1)\<rparr>"
    by (auto simp: EditSwapInvariant_def bindE_eq_Inr getE_eq_Inr)
  have st: "settles s s1" by (rule handleMarketUpdateCost_settles [OF c])
  have "amm_Pair a' = amm_Pair a" "Bias a' = Bias a"
    using u by (auto simp: UpdateSwapInvariant_def bindE_eq_Inr Let_def Bias_def)
  then show ?thesis unfolding s'
    using amm_update_inv [OF settles_inv [OF st inv], of p a a'] st a by (simp add: settles_def)
qed

lemma ChangeMarketEnabledParameter_inv:
  assumes "ChangeMarketEnabledParameter s p b = Inr s'" and inv: "perp_inv E s"
  shows "perp_inv E s'"
proof -
  from assms(1) obtain m where m: "kv_get (Markets s) p = Some m"
    and s': "s' = s\<lparr>Markets := kv_insert p (m\<lparr>Enabled := b\<rparr>) (Markets s)\<rparr>"
    by (auto simp: ChangeMarketEnabledParameter_def bindE_eq_Inr getE_eq_Inr)
  have "mkt_Pair (m\<lparr>Enabled := b\<rparr>) = p" using perp_invD(6) [OF inv m] by simp
  from settles_inv [OF settles_market [OF this] inv] show ?thesis by (simp add: s')
qed

lemma fundMarket_Inr:
  assumes "fundMarket E ctx mt it d m s = Inr s'"
  obtains ev where "d \<noteq> 0" and "go_quo DayNanos d \<noteq> 0" and "it \<noteq> 0"
    and "s' = emit ev (s\<lparr>Markets := kv_insert (mkt_Pair m) (m\<lparr>mkt_LatestCumulativePremiumFraction :=
           mkt_LatestCumulativePremiumFraction m + dec_QuoInt64 E (mt - it) (go_quo DayNanos d)\<rparr>) (Markets s)\<rparr>)"
  using assms unfolding fundMarket_def Let_def by (auto simp: bindE_eq_Inr quoE_eq_Inr split: if_splits)

lemma fundMarket_settles: "fundMarket E ctx mt it d m s = Inr s' \<Longrightarrow> settles s s'"
  by (elim fundMarket_Inr) (simp add: settles_trans [OF settles_market settles_emit])

lemma AfterEpochEnd_loop_Cons:
  assumes "AfterEpochEnd_loop E ctx ix du ep (m # ms) s = Inr s'"
  obtains (stop) "\<not> Enabled m \<or> ep \<noteq> FundingRateEpochId m" and "s' = s"
  | (skip) "AfterEpochEnd_loop E ctx ix du ep ms s = Inr s'"
  | (funded) it mt s1 where "ix (mkt_Pair m) = Some it"
      and "CalcTwap E ctx s (mkt_Pair m) SPOT DIRECTION_UNSPECIFIED 0 (TwapLookbackWindow m) = Inr mt"
      and "fundMarket E ctx mt it (du ep) m s = Inr s1"
      and "AfterEpochEnd_loop E ctx ix du ep ms s1 = Inr s'"
proof -
  let ?ct = "CalcTwap E ctx s (mkt_Pair m) SPOT DIRECTION_UNSPECIFIED 0 (TwapLookbackWindow m)"
  have "(\<not> Enabled m \<or> ep \<noteq> FundingRateEpochId m) \<and> s' = s
    \<or> AfterEpochEnd_loop E ctx ix du ep ms s = Inr s'
    \<or> (\<exists>it mt s1. ix (mkt_Pair m) = Some it \<and> ?ct = Inr mt \<and> fundMarket E ctx mt it (du ep) m s = Inr s1
         \<and> AfterEpochEnd_loop E ctx ix du ep ms s1 = Inr s')"
    using assms
    by (cases "ix (mkt_Pair m)"; cases ?ct) (simp_all add: bindE_eq_Inr split: if_splits)
  then show thesis using stop skip funded by blast
qed

lemma AfterEpochEnd_loop_settles:
  "AfterEpochEnd_loop E ctx ix du ep ms s = Inr s' \<Longrightarrow> settles s s'"
proof (induction ms arbitrary: s)
  case Nil
  then show ?case by simp
next
  case (Cons m ms)
  from Cons.prems show ?case
    by (cases rule: AfterEpochEnd_loop_Cons)
      (auto dest: Cons.IH fundMarket_settles intro: settles_trans)
qed

lemma AfterEpochEnd_inv: "AfterEpochEnd E ctx ix du ep s = Inr s' \<Longrightarrow> perp_inv E s \<Longrightarrow> perp_inv E s'"
  by (auto simp: AfterEpochEnd_def dest: AfterEpochEnd_loop_settles settles_inv)


section \<open>Genesis round trip\<close>

lemma kv_insert_last: "\<forall>x \<in> set xs. fst x < k \<Longrightarrow> kv_insert k v xs = xs @ [(k, v)]"
  by (induction k v xs rule: kv_insert.induct) auto

text \<open>Inserting the values of a collection in order, each under its key, rebuilds the collection.\<close>

lemma fold_kv_insert_rebuild:
  assumes "kv_wf (acc @ xs)" and "\<forall>(k, v) \<in> set xs. key v = k"
  shows "fold (\<lambda>v. kv_insert (key v) v) (kv_values xs) acc = acc @ xs"
  using assms
proof (induction xs arbitrary: acc)
  case Nil
  then show ?case by simp
next
  case (Cons x xs)
  have "kv_insert (key (snd x)) (snd x) acc = acc @ [x]"
    using Cons.prems kv_insert_last [of acc "key (snd x)" "snd x"]
    by (auto simp: kv_wf_def sorted_wrt_append)
  then show ?case using Cons.IH [of "acc @ [x]"] Cons.prems by simp
qed

lemma insertPositions_rebuild:
  assumes "kv_wf (acc @ xs)" and "\<forall>(k, v) \<in> set xs. owned E k v"
  shows "insertPositions E (kv_values xs) acc = Inr (acc @ xs)"
  using assms
proof (induction xs arbitrary: acc)
  case Nil
  then show ?case by simp
next
  case (Cons x xs)
  obtain p t v where x: "x = ((p, t), v)" by (cases x) auto
  have "kv_insert (p, t) v acc = acc @ [x]"
    using Cons.prems kv_insert_last [of acc "(p, t)" v] x by (auto simp: kv_wf_def sorted_wrt_append)
  then show ?case using Cons.IH [of "acc @ [x]"] Cons.prems x by (simp add: owned_def)
qed

text \<open>A state whose stores are well keyed, and the state of a chain before its genesis is read.\<close>

definition store_ok :: "'b sdk \<Rightarrow> 'b perp_state \<Rightarrow> bool" where
  "store_ok E s \<longleftrightarrow>
     kv_wf (Markets s) \<and> list_all (\<lambda>(k, v). mkt_Pair v = k) (Markets s)
     \<and> kv_wf (AMMs s) \<and> list_all (\<lambda>(k, v). amm_Pair v = k) (AMMs s)
     \<and> kv_wf (Positions s) \<and> list_all (\<lambda>(k, v). owned E k v) (Positions s)
     \<and> kv_wf (ReserveSnapshots s) \<and> list_all (\<lambda>(k, v). snapshotKey v = k) (ReserveSnapshots s)"

definition empty_state :: "'b \<Rightarrow> perp_event list \<Rightarrow> 'b perp_state" where
  "empty_state b evs = \<lparr>Markets = [], AMMs = [], Positions = [], ReserveSnapshots = [], bank = b, events = evs\<rparr>"

text \<open>Exporting a state with well-keyed stores and importing the genesis into an empty chain
  restores every store.\<close>

theorem genesis_round_trip:
  assumes "store_ok E s"
  shows "InitGenesis E (ExportGenesis s) (empty_state (bank s) (events s)) = Inr s"
proof -
  have m: "fold (\<lambda>m. kv_insert (mkt_Pair m) m) (kv_values (Markets s)) [] = Markets s"
    and a: "fold (\<lambda>m. kv_insert (amm_Pair m) m) (kv_values (AMMs s)) [] = AMMs s"
    and r: "fold (\<lambda>m. kv_insert (snapshotKey m) m) (kv_values (ReserveSnapshots s)) [] = ReserveSnapshots s"
    using assms fold_kv_insert_rebuild [of "[]" "Markets s" mkt_Pair]
      fold_kv_insert_rebuild [of "[]" "AMMs s" amm_Pair]
      fold_kv_insert_rebuild [of "[]" "ReserveSnapshots s" snapshotKey]
    by (auto simp: store_ok_def list_all_iff)
  have p: "insertPositions E (kv_values (Positions s)) [] = Inr (Positions s)"
    using assms insertPositions_rebuild [of "[]" "Positions s" E] by (auto simp: store_ok_def list_all_iff)
  show ?thesis by (simp add: InitGenesis_def ExportGenesis_def empty_state_def m a r p)
qed

end
