(* ===== verification/Perp_Msgs.thy ===== *)
theory Perp_Msgs
  imports Perp_Admin
begin

text \<open>
  The message and query servers of the module (\<^verbatim>\<open>x/perp/types/v2/msgs.go\<close>,
  \<^verbatim>\<open>x/perp/keeper/v2/msg_server.go\<close>, \<^verbatim>\<open>grpc_query.go\<close>), and whole runs: sequences of messages, market
  operations and epoch hooks, where a failed call leaves the state as it was.
\<close>

section \<open>Messages\<close>

datatype perp_msg =
    MsgRemoveMargin (Sender: string) pair coin
  | MsgAddMargin (Sender: string) pair coin
  | MsgOpenPosition (Sender: string) pair Direction int dec int
  | MsgMultiLiquidate (Sender: string) "liquidation_request list"
  | MsgClosePosition (Sender: string) pair
  | MsgDonateToEcosystemFund (Sender: string) coin

definition senderE :: "'b sdk \<Rightarrow> string \<Rightarrow> perp_error + addr" where
  "senderE E sender = getE ErrBech32 (AccAddressFromBech32 E sender)"

definition pairE :: "'b sdk \<Rightarrow> pair \<Rightarrow> perp_error + unit" where
  "pairE E p = mapErr ErrAsset (Pair_Validate (ValidateDenom E) p)"

definition MarginMsg_ValidateBasic :: "'b sdk \<Rightarrow> string \<Rightarrow> pair \<Rightarrow> coin \<Rightarrow> perp_error + unit" where
  "MarginMsg_ValidateBasic E sender p margin =
     bindE (senderE E sender) (\<lambda>_.
     bindE (pairE E p) (\<lambda>_.
     bindE (checkE (0 < Amount margin) (ErrText ''margin must be positive'')) (\<lambda>_.
     bindE (quoteDenomE p) (\<lambda>d.
     checkE (Denom margin = d) (ErrText ''invalid margin denom'')))))"

fun liquidations_valid :: "'b sdk \<Rightarrow> liquidation_request list \<Rightarrow> perp_error + unit" where
  "liquidations_valid E [] = Inr ()"
| "liquidations_valid E ((p, trader) # reqs) =
     bindE (senderE E trader) (\<lambda>_.
     bindE (pairE E p) (\<lambda>_.
     liquidations_valid E reqs))"

fun ValidateBasic :: "'b sdk \<Rightarrow> perp_msg \<Rightarrow> perp_error + unit" where
  "ValidateBasic E (MsgRemoveMargin sender p margin) = MarginMsg_ValidateBasic E sender p margin"
| "ValidateBasic E (MsgAddMargin sender p margin) = MarginMsg_ValidateBasic E sender p margin"
| "ValidateBasic E (MsgOpenPosition sender p side quoteAssetAmount leverage baseAssetAmountLimit) =
     (if side \<noteq> SHORT \<and> side \<noteq> LONG then Inl (ErrText ''invalid side'')
      else
      bindE (pairE E p) (\<lambda>_.
      bindE (senderE E sender) (\<lambda>_.
      if \<not> 0 < leverage then Inl (ErrText ''leverage must always be greater than zero'')
      else if baseAssetAmountLimit < 0 then Inl (ErrText ''base asset amount limit must not be negative'')
      else if \<not> 0 < quoteAssetAmount then Inl (ErrText ''quote asset amount must be always greater than zero'')
      else Inr ())))"
| "ValidateBasic E (MsgMultiLiquidate sender reqs) =
     bindE (senderE E sender) (\<lambda>_. liquidations_valid E reqs)"
| "ValidateBasic E (MsgClosePosition sender p) =
     bindE (senderE E sender) (\<lambda>_. pairE E p)"
| "ValidateBasic E (MsgDonateToEcosystemFund sender donation) =
     bindE (senderE E sender) (\<lambda>_.
     checkE (0 \<le> Amount donation) (ErrText ''invalid donation amount''))"


section \<open>The message server\<close>

datatype perp_response =
    MarginResponse margin_resp
  | OpenPositionResponse position_resp
  | ClosePositionResponse (cr_ExchangedNotionalValue: dec) (cr_ExchangedPositionSize: dec)
      (cr_FundingPayment: dec) (cr_RealizedPnl: dec) (cr_MarginToTrader: dec)
  | MultiLiquidateResponse "liquidation_response list"
  | DonateToEcosystemFundResponse

definition mustSenderE :: "'b sdk \<Rightarrow> string \<Rightarrow> perp_error + addr" where
  "mustSenderE E sender = getE (Panic ''invalid address'') (AccAddressFromBech32 E sender)"

fun msgServer :: "'b sdk \<Rightarrow> block_ctx \<Rightarrow> perp_msg \<Rightarrow> 'b perp_state \<Rightarrow> perp_error + 'b perp_state \<times> perp_response" where
  "msgServer E ctx (MsgRemoveMargin sender p margin) s =
     bindE (mustSenderE E sender) (\<lambda>t.
     bindE (RemoveMargin E ctx s p t margin) (\<lambda>(s', r). Inr (s', MarginResponse r)))"
| "msgServer E ctx (MsgAddMargin sender p margin) s =
     bindE (mustSenderE E sender) (\<lambda>t.
     bindE (AddMargin E ctx s p t margin) (\<lambda>(s', r). Inr (s', MarginResponse r)))"
| "msgServer E ctx (MsgOpenPosition sender p side quoteAssetAmount leverage baseAssetAmountLimit) s =
     bindE (mustSenderE E sender) (\<lambda>t.
     bindE (OpenPosition E ctx s p side t quoteAssetAmount leverage (NewDec baseAssetAmountLimit))
       (\<lambda>(s', r). Inr (s', OpenPositionResponse r)))"
| "msgServer E ctx (MsgMultiLiquidate sender reqs) s =
     bindE (mustSenderE E sender) (\<lambda>l.
     bindE (MultiLiquidate E ctx s l reqs) (\<lambda>(s', rs). Inr (s', MultiLiquidateResponse rs)))"
| "msgServer E ctx (MsgClosePosition sender p) s =
     bindE (mustSenderE E sender) (\<lambda>t.
     bindE (ClosePosition E ctx s p t) (\<lambda>(s', r).
       Inr (s', ClosePositionResponse (ExchangedNotionalValue r) (ExchangedPositionSize r)
         (FundingPaymentApplied r) (RealizedPnl r) (- MarginToVault r))))"
| "msgServer E ctx (MsgDonateToEcosystemFund sender donation) s =
     bindE (mustSenderE E sender) (\<lambda>t.
     bindE (sendCoinA2M E t PerpEFModuleAccount donation s) (\<lambda>s'. Inr (s', DonateToEcosystemFundResponse)))"


section \<open>The query server\<close>

record query_position_response =
  qp_Position :: position
  qp_PositionNotional :: dec
  qp_UnrealizedPnl :: dec
  qp_MarginRatio :: dec

definition query_position :: "'b sdk \<Rightarrow> 'b perp_state \<Rightarrow> pair \<Rightarrow> addr \<Rightarrow> market \<Rightarrow> amm \<Rightarrow>
    perp_error + query_position_response" where
  "query_position E s p trader m a =
     bindE (getE ErrNotFound (kv_get (Positions s) (p, trader))) (\<lambda>pos.
     bindE (PositionNotionalSpot E a pos) (\<lambda>positionNotional.
     Inr \<lparr>qp_Position = pos, qp_PositionNotional = positionNotional,
          qp_UnrealizedPnl = UnrealizedPnl pos positionNotional,
          qp_MarginRatio = MarginRatio E pos positionNotional (mkt_LatestCumulativePremiumFraction m)\<rparr>))"

definition QueryPosition :: "'b sdk \<Rightarrow> 'b perp_state \<Rightarrow> string \<Rightarrow> pair \<Rightarrow> perp_error + query_position_response" where
  "QueryPosition E s trader p =
     bindE (senderE E trader) (\<lambda>t.
     bindE (getE ErrNotFound (kv_get (Markets s) p)) (\<lambda>m.
     bindE (getE ErrNotFound (kv_get (AMMs s) p)) (\<lambda>a.
     query_position E s p t m a)))"

fun QueryPositions_loop :: "'b sdk \<Rightarrow> 'b perp_state \<Rightarrow> addr \<Rightarrow> market list \<Rightarrow>
    perp_error + query_position_response list" where
  "QueryPositions_loop E s t [] = Inr []"
| "QueryPositions_loop E s t (m # ms) =
     bindE (getE ErrNotFound (kv_get (AMMs s) (mkt_Pair m))) (\<lambda>a.
     case query_position E s (mkt_Pair m) t m a of
       Inl e \<Rightarrow> if isPanic e then Inl e else QueryPositions_loop E s t ms
     | Inr r \<Rightarrow> bindE (QueryPositions_loop E s t ms) (\<lambda>rs. Inr (r # rs)))"

definition QueryPositions :: "'b sdk \<Rightarrow> 'b perp_state \<Rightarrow> string \<Rightarrow> perp_error + query_position_response list" where
  "QueryPositions E s trader =
     bindE (senderE E trader) (\<lambda>t. QueryPositions_loop E s t (kv_values (Markets s)))"


section \<open>Runs\<close>

text \<open>
  A call is a message in a transaction, an operation of a market's administrator or the hook of an
  epoch, each with the block it happens in.  A failed call is rolled back.
\<close>

datatype perp_call =
    Tx perp_msg
  | RepegCall pair dec
  | DepthCall pair "dec option"
  | EnableCall pair bool
  | EpochCall "pair \<Rightarrow> dec option" "string \<Rightarrow> int" string

fun perp_exec :: "'b sdk \<Rightarrow> block_ctx \<Rightarrow> perp_call \<Rightarrow> 'b perp_state \<Rightarrow> perp_error + 'b perp_state" where
  "perp_exec E ctx (Tx m) s =
     bindE (ValidateBasic E m) (\<lambda>_. bindE (msgServer E ctx m s) (\<lambda>(s', _). Inr s'))"
| "perp_exec E ctx (RepegCall p x) s = EditPriceMultiplier E s p x"
| "perp_exec E ctx (DepthCall p x) s = EditSwapInvariant E s p x"
| "perp_exec E ctx (EnableCall p b) s = ChangeMarketEnabledParameter s p b"
| "perp_exec E ctx (EpochCall index duration epochId) s = AfterEpochEnd E ctx index duration epochId s"

definition deliver :: "'b sdk \<Rightarrow> block_ctx \<times> perp_call \<Rightarrow> 'b perp_state \<Rightarrow> 'b perp_state" where
  "deliver E c s = (case perp_exec E (fst c) (snd c) s of Inl _ \<Rightarrow> s | Inr s' \<Rightarrow> s')"

fun run :: "'b sdk \<Rightarrow> (block_ctx \<times> perp_call) list \<Rightarrow> 'b perp_state \<Rightarrow> 'b perp_state" where
  "run E [] s = s"
| "run E (c # cs) s = run E cs (deliver E c s)"


text \<open>
  A call is regular unless it opens a position that ends with size zero while the old position
  stays stored (\<open>afterPositionUpdate\<close> writes only non-zero positions back).
\<close>

fun regular :: "'b sdk \<Rightarrow> block_ctx \<Rightarrow> perp_call \<Rightarrow> 'b perp_state \<Rightarrow> bool" where
  "regular E ctx (Tx (MsgOpenPosition sender p side q lev lim)) s =
     (case bindE (mustSenderE E sender) (\<lambda>t.
            bindE (OpenPosition E ctx s p side t q lev (NewDec lim)) (\<lambda>(s', r).
              Inr (Size (resp_Position r) \<noteq> 0 \<or> kv_get (Positions s') (p, t) = None))) of
        Inl _ \<Rightarrow> True | Inr b \<Rightarrow> b)"
| "regular E ctx c s = True"

fun regular_run :: "'b sdk \<Rightarrow> (block_ctx \<times> perp_call) list \<Rightarrow> 'b perp_state \<Rightarrow> bool" where
  "regular_run E [] s = True"
| "regular_run E (c # cs) s = (regular E (fst c) (snd c) s \<and> regular_run E cs (deliver E c s))"

lemma msgServer_inv:
  assumes "msgServer E ctx m s = Inr (s', r)" and "regular E ctx (Tx m) s" and "perp_inv E s" and "addr_laws E"
  shows "perp_inv E s'"
proof (cases m)
  case (MsgOpenPosition sender p side q lev lim)
  then show ?thesis using assms by (auto simp: bindE_eq_Inr intro: OpenPosition_inv)
qed (use assms in \<open>auto simp: bindE_eq_Inr dest: margin_ops_inv MultiLiquidate_inv ClosePosition_inv
      send_settles(4) settles_inv\<close>)

lemma perp_exec_inv:
  assumes "perp_exec E ctx c s = Inr s'" and "regular E ctx c s" and "perp_inv E s" and "addr_laws E"
  shows "perp_inv E s'"
  using assms
  by (cases c) (auto simp: bindE_eq_Inr dest: msgServer_inv EditPriceMultiplier_inv EditSwapInvariant_inv
      ChangeMarketEnabledParameter_inv AfterEpochEnd_inv)

lemma deliver_inv:
  assumes "regular E (fst c) (snd c) s" and "perp_inv E s" and "addr_laws E"
  shows "perp_inv E (deliver E c s)"
  using assms perp_exec_inv by (auto simp: deliver_def split: sum.split)



section \<open>An example run\<close>

definition ex_ctx :: block_ctx where
  "ex_ctx = \<lparr>BlockHeight = 7, BlockTime = 60000000\<rparr>"

definition ex_open :: perp_call where
  "ex_open = Tx (MsgOpenPosition ''nalice'' ''ubtc:unusd'' LONG 100 (NewDec 5) 0)"

definition ex_calls :: "(block_ctx \<times> perp_call) list" where
  "ex_calls = [(ex_ctx, ex_open), (ex_ctx, Tx (MsgAddMargin ''nalice'' ''ubtc:unusd'' \<lparr>Denom = ''unusd'', Amount = 20\<rparr>))]"

lemma ex_state_inv: "perp_inv ref_sdk ex_state"
  by (simp add: perp_inv_def markets_keyed_def amms_keyed_def positions_keyed_def ex_state_def ex_amm_def
      ex_market_def Bias_def sizes_def)

lemma ex_run_regular: "regular_run ref_sdk ex_calls ex_state"
  by code_simp

lemma ex_run_events: "length (events (run ref_sdk ex_calls ex_state)) = 2"
  by code_simp


end
