(* ===== verification/Perp_Flows.thy ===== *)
theory Perp_Flows
  imports Perp_Msgs
begin

text \<open>
  Where the coins go: the transfers of a settled position change and of the margin operations, as
  equations between balances before and after.  The properties of the entry points about payments
  follow from them.
\<close>

section \<open>The environment\<close>

definition sdk_laws :: "'b sdk \<Rightarrow> bool" where
  "sdk_laws E \<longleftrightarrow> dec_laws E \<and> bank_laws E \<and> coin_laws E \<and> addr_laws E \<and> accounts_distinct E"

lemma sdk_lawsD:
  assumes "sdk_laws E"
  shows "dec_laws E" and "bank_laws E" and "coin_laws E" and "addr_laws E" and "accounts_distinct E"
  using assms by (simp_all add: sdk_laws_def)

lemma ref_sdk_laws: "sdk_laws ref_sdk"
  by (simp add: sdk_laws_def ref_sdk_dec_laws ref_sdk_bank_laws ref_sdk_coin_laws ref_sdk_addr_laws
      ref_accounts_distinct)

abbreviation treasury :: "'b sdk \<Rightarrow> 'b perp_state \<Rightarrow> denom \<Rightarrow> int" where
  "treasury E s d \<equiv> vaultBal E s d + efBal E s d"


section \<open>Settlement of a change\<close>

lemma sendA2M_flows:
  assumes E: "sdk_laws E" and t: "outsider E t" and "sendA2M E t m d n s = Inr s'"
    and m: "GetModuleAddress E m \<noteq> t"
  shows "accBal E s' t d = accBal E s t d - n"
    and "accBal E s' (GetModuleAddress E m) d = accBal E s (GetModuleAddress E m) d + n"
    and "a \<noteq> t \<Longrightarrow> a \<noteq> GetModuleAddress E m \<Longrightarrow> accBal E s' a e = accBal E s a e"
    and "0 \<le> n" and "Markets s' = Markets s"
  using sendA2M_Inr [OF sdk_lawsD(2,3) [OF E] assms(3)] m by (auto simp: transfer_def)

lemma outsiderD:
  assumes "outsider E t"
  shows "GetModuleAddress E VaultModuleAccount \<noteq> t" and "GetModuleAddress E PerpEFModuleAccount \<noteq> t"
    and "GetModuleAddress E FeePoolModuleAccount \<noteq> t"
  using assms by (auto simp: outsider_def)

lemma settleMargin_flows:
  assumes E: "sdk_laws E" and t: "outsider E t" and s': "settleMargin E s m t n = Inr s'"
    and d: "QuoteDenom (mkt_Pair m) = Inr d"
  shows "accBal E s' t d = accBal E s t d - n" and "treasury E s' d = treasury E s d + n"
    and "feeBal E s' d = feeBal E s d"
proof -
  consider "0 < n" | "n < 0" | "n = 0" by linarith
  then have "accBal E s' t d = accBal E s t d - n \<and> treasury E s' d = treasury E s d + n
    \<and> feeBal E s' d = feeBal E s d"
  proof cases
    case 1
    then have "sendA2M E t VaultModuleAccount d n s = Inr s'"
      using s' d by (simp add: settleMargin_def quoteDenomE_def)
    from sendA2M_flows [OF E t this outsiderD(1) [OF t]] show ?thesis
      using sdk_lawsD(5) [OF E] t by (auto simp: accounts_distinct_def outsider_def)
  next
    case 2
    then have w: "Withdraw E s m t \<bar>n\<bar> = Inr s'" and n: "0 < \<bar>n\<bar>" using s' by (simp_all add: settleMargin_def)
    obtain d' where d': "QuoteDenom (mkt_Pair m) = Inr d'"
      and f: "accBal E s' t d' = accBal E s t d' + \<bar>n\<bar>"
        "efBal E s' d' = efBal E s d' - max 0 (\<bar>n\<bar> - vaultBal E s d')"
        "vaultBal E s' d' = max 0 (vaultBal E s d' - \<bar>n\<bar>)"
      and fee: "feeBal E s' d' = feeBal E s d'"
      using Withdraw_Inr [OF sdk_lawsD(2,3,5) [OF E] t w n] outsiderD(3) [OF t] sdk_lawsD(5) [OF E]
      unfolding accounts_distinct_def by metis
    have "d' = d" using d d' by simp
    then show ?thesis using f fee 2 by auto
  next
    case 3
    then show ?thesis using s' by (simp add: settleMargin_def)
  qed
  then show "accBal E s' t d = accBal E s t d - n" and "treasury E s' d = treasury E s d + n"
    and "feeBal E s' d = feeBal E s d" by simp_all
qed

lemma transferFee_Inr:
  assumes "transferFee E s p t n = Inr (s', f)"
  obtains m f1 f2 s1 where "kv_get (Markets s) p = Some m"
    and "f1 = dec_RoundInt E (dec_Mul E (ExchangeFeeRatio m) n)"
    and "f2 = dec_RoundInt E (dec_Mul E (EcosystemFundFeeRatio m) n)" and "f = f1 + f2"
    and "(if 0 < f1 then bindE (quoteDenomE p) (\<lambda>d. sendA2M E t FeePoolModuleAccount d f1 s) else Inr s) = Inr s1"
    and "(if 0 < f2 then bindE (quoteDenomE p) (\<lambda>d. sendA2M E t PerpEFModuleAccount d f2 s1) else Inr s1) = Inr s'"
proof -
  from assms obtain m where m: "kv_get (Markets s) p = Some m"
    by (auto simp: transferFee_def bindE_eq_Inr getE_eq_Inr)
  note u = assms [unfolded transferFee_def m getE_Some bindE_Inr Let_def]
  from u obtain s1 where
    1: "(if 0 < dec_RoundInt E (dec_Mul E (ExchangeFeeRatio m) n)
         then bindE (quoteDenomE p) (\<lambda>d. sendA2M E t FeePoolModuleAccount d
           (dec_RoundInt E (dec_Mul E (ExchangeFeeRatio m) n)) s) else Inr s) = Inr s1"
    and v: "bindE (if 0 < dec_RoundInt E (dec_Mul E (EcosystemFundFeeRatio m) n)
         then bindE (quoteDenomE p) (\<lambda>d. sendA2M E t PerpEFModuleAccount d
           (dec_RoundInt E (dec_Mul E (EcosystemFundFeeRatio m) n)) s1) else Inr s1)
       (\<lambda>s2. Inr (s2, dec_RoundInt E (dec_Mul E (ExchangeFeeRatio m) n)
          + dec_RoundInt E (dec_Mul E (EcosystemFundFeeRatio m) n))) = Inr (s', f)"
    by (rule bindE_InrE)
  from v obtain s2 where
    2: "(if 0 < dec_RoundInt E (dec_Mul E (EcosystemFundFeeRatio m) n)
         then bindE (quoteDenomE p) (\<lambda>d. sendA2M E t PerpEFModuleAccount d
           (dec_RoundInt E (dec_Mul E (EcosystemFundFeeRatio m) n)) s1) else Inr s1) = Inr s2"
    and 3: "(Inr (s2, dec_RoundInt E (dec_Mul E (ExchangeFeeRatio m) n)
          + dec_RoundInt E (dec_Mul E (EcosystemFundFeeRatio m) n)) :: perp_error + _) = Inr (s', f)"
    by (rule bindE_InrE)
  show thesis by (rule that [OF m HOL.refl HOL.refl _ 1]) (use 2 3 in simp_all)
qed

text \<open>The fees a trade of a notional pays: each part is taken only when it is positive.\<close>

definition exchangeFee :: "'b sdk \<Rightarrow> market \<Rightarrow> dec \<Rightarrow> int" where
  "exchangeFee E m n = max 0 (dec_RoundInt E (dec_Mul E (ExchangeFeeRatio m) n))"

definition ecosystemFee :: "'b sdk \<Rightarrow> market \<Rightarrow> dec \<Rightarrow> int" where
  "ecosystemFee E m n = max 0 (dec_RoundInt E (dec_Mul E (EcosystemFundFeeRatio m) n))"

lemma optional_send_flows:
  assumes E: "sdk_laws E" and t: "outsider E t" and m: "GetModuleAddress E m \<noteq> t"
    and d: "QuoteDenom p = Inr d"
    and s': "(if 0 < n then bindE (quoteDenomE p) (\<lambda>d. sendA2M E t m d n s) else Inr s) = Inr s'"
  shows "accBal E s' t d = accBal E s t d - max 0 n"
    and "accBal E s' (GetModuleAddress E m) d = accBal E s (GetModuleAddress E m) d + max 0 n"
    and "a \<noteq> t \<Longrightarrow> a \<noteq> GetModuleAddress E m \<Longrightarrow> accBal E s' a e = accBal E s a e"
    and "Markets s' = Markets s"
  using s' d sendA2M_flows [OF E t _ m, of d n s s'] by (auto simp: quoteDenomE_def split: if_splits)

lemma transferFee_flows:
  assumes E: "sdk_laws E" and t: "outsider E t" and s': "transferFee E s p t n = Inr (s', f)"
    and d: "QuoteDenom p = Inr d" and m: "kv_get (Markets s) p = Some m"
  shows "accBal E s' t d = accBal E s t d - exchangeFee E m n - ecosystemFee E m n"
    and "feeBal E s' d = feeBal E s d + exchangeFee E m n"
    and "treasury E s' d = treasury E s d + ecosystemFee E m n"
proof -
  from s' obtain m' f1 f2 s1 where m': "kv_get (Markets s) p = Some m'"
    and f1: "f1 = dec_RoundInt E (dec_Mul E (ExchangeFeeRatio m') n)"
    and f2: "f2 = dec_RoundInt E (dec_Mul E (EcosystemFundFeeRatio m') n)"
    and s1: "(if 0 < f1 then bindE (quoteDenomE p) (\<lambda>d. sendA2M E t FeePoolModuleAccount d f1 s) else Inr s) = Inr s1"
    and s2: "(if 0 < f2 then bindE (quoteDenomE p) (\<lambda>d. sendA2M E t PerpEFModuleAccount d f2 s1) else Inr s1) = Inr s'"
    by (rule transferFee_Inr)
  note a = optional_send_flows [OF E t outsiderD(3) [OF t] d s1]
  note b = optional_send_flows [OF E t outsiderD(2) [OF t] d s2]
  have mm: "m' = m" using m m' by simp
  have x: "f1 = dec_RoundInt E (dec_Mul E (ExchangeFeeRatio m) n)"
    "f2 = dec_RoundInt E (dec_Mul E (EcosystemFundFeeRatio m) n)" using f1 f2 mm by simp_all
  show "accBal E s' t d = accBal E s t d - exchangeFee E m n - ecosystemFee E m n"
    using a(1) b(1) x by (simp add: exchangeFee_def ecosystemFee_def)
  show "feeBal E s' d = feeBal E s d + exchangeFee E m n"
    using a(2) b(3) [of "GetModuleAddress E FeePoolModuleAccount" d] x sdk_lawsD(5) [OF E] outsiderD [OF t]
    by (auto simp: exchangeFee_def accounts_distinct_def)
  show "treasury E s' d = treasury E s d + ecosystemFee E m n"
    using a(3) [of "GetModuleAddress E VaultModuleAccount" d] a(3) [of "GetModuleAddress E PerpEFModuleAccount" d]
      b(2) b(3) [of "GetModuleAddress E VaultModuleAccount" d] x sdk_lawsD(5) [OF E] outsiderD [OF t]
    by (auto simp: ecosystemFee_def accounts_distinct_def)
qed

lemma settleMargin_market:
  assumes "settleMargin E s m t n = Inr s'" and "kv_get (Markets s) (mkt_Pair m) = Some m"
  obtains c where "kv_get (Markets s') (mkt_Pair m) = Some (m\<lparr>PrepaidBadDebt := c\<rparr>)"
proof -
  have "\<exists>c. kv_get (Markets s') (mkt_Pair m) = Some (m\<lparr>PrepaidBadDebt := c\<rparr>)"
  proof (cases "Markets s' = Markets s")
    case True
    have "kv_get (Markets s') (mkt_Pair m) = Some (m\<lparr>PrepaidBadDebt := PrepaidBadDebt m\<rparr>)"
      using True assms(2) by simp
    then show ?thesis by blast
  next
    case False
    then show ?thesis using assms
      by (auto simp: settleMargin_def Withdraw_def Let_def bindE_eq_Inr IncrementPrepaidBadDebt_def
          split: if_splits dest!: send_frame)
  qed
  then show thesis using that by blast
qed

text \<open>What the parties of a settled position change pay and receive.\<close>

lemma afterPositionUpdate_flows:
  assumes E: "sdk_laws E" and t: "outsider E t" and u: "afterPositionUpdate E ctx s mkt a t r = Inr s'"
    and d: "QuoteDenom (mkt_Pair mkt) = Inr d" and m: "kv_get (Markets s) (mkt_Pair mkt) = Some mkt"
  shows "accBal E s' t d = accBal E s t d - dec_RoundInt E (MarginToVault r)
      - exchangeFee E mkt (ExchangedNotionalValue r) - ecosystemFee E mkt (ExchangedNotionalValue r)"
    and "treasury E s' d = treasury E s d + dec_RoundInt E (MarginToVault r)
      + ecosystemFee E mkt (ExchangedNotionalValue r)"
    and "feeBal E s' d = feeBal E s d + exchangeFee E mkt (ExchangedNotionalValue r)"
proof -
  from u obtain s1 s2 fee ev where
    sm: "settleMargin E s mkt t (dec_RoundInt E (MarginToVault r)) = Inr s1"
    and tf: "transferFee E s1 (mkt_Pair mkt) t (ExchangedNotionalValue r) = Inr (s2, fee)"
    and s': "s' = emit ev (if Size (resp_Position r) \<noteq> 0
           then s2\<lparr>Positions := kv_insert (mkt_Pair mkt, t) (resp_Position r) (Positions s2)\<rparr> else s2)"
    by (rule afterPositionUpdate_Inr)
  from settleMargin_market [OF sm m] obtain c
    where m': "kv_get (Markets s1) (mkt_Pair mkt) = Some (mkt\<lparr>PrepaidBadDebt := c\<rparr>)" by blast
  have b: "bank s' = bank s2" by (simp add: s')
  have fees: "exchangeFee E (mkt\<lparr>PrepaidBadDebt := c\<rparr>) n = exchangeFee E mkt n"
    "ecosystemFee E (mkt\<lparr>PrepaidBadDebt := c\<rparr>) n = ecosystemFee E mkt n" for n
    by (simp_all add: exchangeFee_def ecosystemFee_def)
  note f = settleMargin_flows [OF E t sm d] transferFee_flows [OF E t tf d m', unfolded fees]
  show "accBal E s' t d = accBal E s t d - dec_RoundInt E (MarginToVault r)
      - exchangeFee E mkt (ExchangedNotionalValue r) - ecosystemFee E mkt (ExchangedNotionalValue r)"
    using f(1,4) b by simp
  show "treasury E s' d = treasury E s d + dec_RoundInt E (MarginToVault r)
      + ecosystemFee E mkt (ExchangedNotionalValue r)" using f(2,6) b by simp
  show "feeBal E s' d = feeBal E s d + exchangeFee E mkt (ExchangedNotionalValue r)" using f(3,5) b by simp
qed

lemma transferFee_markets: "transferFee E s p t n = Inr (s', f) \<Longrightarrow> Markets s' = Markets s"
  by (elim transferFee_Inr) (auto simp: bindE_eq_Inr split: if_splits dest!: send_frame)

text \<open>What a settled position change leaves in the stores.\<close>

lemma afterPositionUpdate_stores:
  assumes u: "afterPositionUpdate E ctx s mkt a t r = Inr s'" and m: "kv_get (Markets s) (mkt_Pair mkt) = Some mkt"
  obtains c where "kv_get (Markets s') (mkt_Pair mkt) = Some (mkt\<lparr>PrepaidBadDebt := c\<rparr>)"
    and "AMMs s' = AMMs s" and "ReserveSnapshots s' = ReserveSnapshots s"
    and "Positions s' = (if Size (resp_Position r) \<noteq> 0
           then kv_insert (mkt_Pair mkt, t) (resp_Position r) (Positions s) else Positions s)"
proof -
  from u obtain s1 s2 fee ev where
    sm: "settleMargin E s mkt t (dec_RoundInt E (MarginToVault r)) = Inr s1"
    and tf: "transferFee E s1 (mkt_Pair mkt) t (ExchangedNotionalValue r) = Inr (s2, fee)"
    and s': "s' = emit ev (if Size (resp_Position r) \<noteq> 0
           then s2\<lparr>Positions := kv_insert (mkt_Pair mkt, t) (resp_Position r) (Positions s2)\<rparr> else s2)"
    by (rule afterPositionUpdate_Inr)
  have st: "settles s s2"
    using settles_trans [OF settleMargin_settles [OF sm] transferFee_settles [OF tf]] .
  from settleMargin_market [OF sm m] obtain c
    where "kv_get (Markets s1) (mkt_Pair mkt) = Some (mkt\<lparr>PrepaidBadDebt := c\<rparr>)" by blast
  then show thesis
    using that [of c] st by (simp add: s' transferFee_markets [OF tf] settles_def)
qed

end
