(* ===== verification/Perp_Trading.thy ===== *)
theory Perp_Trading
  imports Perp_Flows
begin

text \<open>
  The properties of opening and closing positions, each with a witness on the example market:
  what a successful call guarantees about the position, the stores, the payments and the profit.
\<close>

section \<open>Opening positions\<close>

definition positionOf :: "'b sdk \<Rightarrow> block_ctx \<Rightarrow> 'b perp_state \<Rightarrow> pair \<Rightarrow> addr \<Rightarrow> position" where
  "positionOf E ctx s p t =
     (case kv_get (Positions s) (p, t) of None \<Rightarrow> ZeroPosition E ctx p t | Some q \<Rightarrow> q)"

text \<open>The facts every property of an opened position starts from.\<close>

lemma OpenPosition_change:
  assumes "OpenPosition E ctx s p dir t q lev lim = Inr (s', r)" and "perp_inv E s"
  obtains mkt a s1 a1 c where "kv_get (Markets s) p = Some mkt" and "mkt_Pair mkt = p" and "Enabled mkt"
    and "kv_get (AMMs s) p = Some a" and "checkOpenPositionRequirements mkt q lev = Inr ()"
    and "afterPositionUpdate E ctx s1 mkt a1 t r = Inr s'"
    and "Size (resp_Position r) = Size (positionOf E ctx s p t) + ExchangedPositionSize r"
    and "Bias a1 = Bias a + ExchangedPositionSize r" and "kv_get (AMMs s') = (kv_get (AMMs s))(p \<mapsto> a1)"
    and "Margin (resp_Position r) - BadDebt r - MarginToVault r
        = Margin (positionOf E ctx s p t) + RealizedPnl r - FundingPaymentApplied r"
    and "0 \<le> Margin (resp_Position r)" and "BadDebt r = 0"
    and "bank s1 = bank s" and "Markets s1 = Markets s" and "ReserveSnapshots s1 = ReserveSnapshots s"
    and "kv_get (Markets s') p = Some (mkt\<lparr>PrepaidBadDebt := c\<rparr>)"
    and "ReserveSnapshots s' = ReserveSnapshots s"
    and "Size (resp_Position r) \<noteq> 0 \<longrightarrow> kv_get (Positions s') (p, t) = Some (resp_Position r)"
    and "amm_Pair a1 = p"
proof -
  from assms(1) obtain mkt a pos s1 a1 where m: "kv_get (Markets s) p = Some mkt" "Enabled mkt"
    and a: "kv_get (AMMs s) p = Some a" and req: "checkOpenPositionRequirements mkt q lev = Inr ()"
    and pos: "pos = (case kv_get (Positions s) (p, t) of None \<Rightarrow> ZeroPosition E ctx p t | Some x \<Rightarrow> x)"
    and c: "increasePosition E ctx s mkt a pos dir (lev * q) lim lev = Inr (s1, a1, r)
       \<or> kv_get (Positions s) (p, t) = Some pos
          \<and> openReversePosition E ctx s mkt a pos (NewDec q) lev lim = Inr (s1, a1, r)"
    and u: "afterPositionUpdate E ctx s1 mkt a1 t r = Inr s'"
    by (rule OpenPosition_Inr)
  have mp: "mkt_Pair mkt = p" and ap: "amm_Pair a = p"
    using perp_invD(5,6) [OF assms(2)] m a by auto
  have a': "kv_get (AMMs s) (amm_Pair a) = Some a" using a ap by simp
  have pos': "pos = positionOf E ctx s p t" by (simp add: pos positionOf_def)
  have sz: "Size (resp_Position r) = Size pos + ExchangedPositionSize r"
    and bi: "Bias a1 = Bias a + ExchangedPositionSize r" "amm_Pair a1 = p"
    and am: "kv_get (AMMs s1) = (kv_get (AMMs s))(p \<mapsto> a1)"
    and mg: "Margin (resp_Position r) - BadDebt r - MarginToVault r
        = Margin pos + RealizedPnl r - FundingPaymentApplied r"
    and sg: "0 \<le> Margin (resp_Position r)"
    and fr: "Markets s1 = Markets s" "ReserveSnapshots s1 = ReserveSnapshots s" "bank s1 = bank s"
    using c ap inc.change_size opr.change_size inc.change_bias opr.change_bias
      inc.change_amms [OF _ a'] opr.change_amms [OF _ a'] inc.change_margin opr.change_margin
      inc.change_signs opr.change_signs inc.change_pure_frame opr.change_pure_frame
    by metis+
  have bd: "BadDebt r = 0" using u by (rule afterPositionUpdate_Inr)
  have m1: "kv_get (Markets s1) (mkt_Pair mkt) = Some mkt" using m fr mp by simp
  from afterPositionUpdate_stores [OF u m1] obtain c where
    st: "kv_get (Markets s') p = Some (mkt\<lparr>PrepaidBadDebt := c\<rparr>)" "AMMs s' = AMMs s1"
      "ReserveSnapshots s' = ReserveSnapshots s1"
      "Positions s' = (if Size (resp_Position r) \<noteq> 0
           then kv_insert (p, t) (resp_Position r) (Positions s1) else Positions s1)" using mp by metis
  show thesis
    by (rule that [OF m(1) mp m(2) a req u])
      (use sz bi am mg sg bd fr st pos' in \<open>simp_all\<close>)
qed

text \<open>A successful opening leaves no bad debt, and the trader's position, the bias of the
  market maker and the margin all move by what the response reports: size and bias by the exchanged
  size, margin by the payment into the vault plus realised profit minus funding.\<close>

theorem OpenPosition_accounting:
  assumes "OpenPosition E ctx s p dir t q lev lim = Inr (s', r)" and "perp_inv E s"
  shows "BadDebt r = 0
    \<and> Size (resp_Position r) = Size (positionOf E ctx s p t) + ExchangedPositionSize r
    \<and> Margin (resp_Position r)
        = Margin (positionOf E ctx s p t) + MarginToVault r + RealizedPnl r - FundingPaymentApplied r
    \<and> 0 \<le> Margin (resp_Position r)
    \<and> (Size (resp_Position r) \<noteq> 0 \<longrightarrow> kv_get (Positions s') (p, t) = Some (resp_Position r))
    \<and> (\<exists>a a'. kv_get (AMMs s) p = Some a \<and> kv_get (AMMs s') = (kv_get (AMMs s))(p \<mapsto> a')
         \<and> Bias a' = Bias a + ExchangedPositionSize r)"
  by (rule OpenPosition_change [OF assms]) auto

text \<open>C9: a successful opening happens only on an enabled market, with a non-zero amount and a
  non-zero leverage up to the market's maximum, and when the market has a fluctuation limit the mark
  price it leaves is within the limit of the latest reserve snapshot's price.\<close>

theorem OpenPosition_safe:
  assumes "OpenPosition E ctx s p dir t q lev lim = Inr (s', r)" and "perp_inv E s"
  shows "\<exists>m a'. kv_get (Markets s) p = Some m \<and> Enabled m \<and> q \<noteq> 0 \<and> lev \<noteq> 0 \<and> lev \<le> MaxLeverage m
    \<and> kv_get (AMMs s') p = Some a'
    \<and> (PriceFluctuationLimitRatio m \<noteq> 0 \<longrightarrow>
        (\<exists>snap. latestSnapshot (ReserveSnapshots s) p = Some snap
          \<and> dec_Mul E (MarkPrice E (snap_Amm snap)) (OneDec - PriceFluctuationLimitRatio m) \<le> MarkPrice E a'
          \<and> MarkPrice E a' \<le> dec_Mul E (MarkPrice E (snap_Amm snap)) (OneDec + PriceFluctuationLimitRatio m)))"
proof (rule OpenPosition_change [OF assms], goal_cases)
  case (1 mkt a s1 a1 c)
  from 1(6) have "checkPriceFluctuationLimitRatio E s1 mkt a1 = Inr ()" by (rule afterPositionUpdate_Inr)
  then have "PriceFluctuationLimitRatio mkt \<noteq> 0 \<longrightarrow> (\<exists>snap. latestSnapshot (ReserveSnapshots s) p = Some snap
      \<and> dec_Mul E (MarkPrice E (snap_Amm snap)) (OneDec - PriceFluctuationLimitRatio mkt) \<le> MarkPrice E a1
      \<and> MarkPrice E a1 \<le> dec_Mul E (MarkPrice E (snap_Amm snap)) (OneDec + PriceFluctuationLimitRatio mkt))"
    using 1(15,19)
    by (auto simp: checkPriceFluctuationLimitRatio_def Let_def split: if_splits option.splits)
  then show ?case using 1(1,3,5,9) by (auto simp: checkOpenPositionRequirements_def split: if_splits)
qed


text \<open>The coins of an opening: the trader pays the rounded margin into the vault and the two
  fees on the exchanged notional (a negative margin is paid out), the vault and the ecosystem fund
  together gain the margin and the ecosystem fee, and the fee pool gains the exchange fee.\<close>

theorem OpenPosition_payments:
  assumes "sdk_laws E" and "outsider E t"
    and "OpenPosition E ctx s p dir t q lev lim = Inr (s', r)" and "perp_inv E s"
    and "kv_get (Markets s) p = Some m" and "QuoteDenom p = Inr d"
  shows "accBal E s' t d = accBal E s t d - dec_RoundInt E (MarginToVault r)
        - exchangeFee E m (ExchangedNotionalValue r) - ecosystemFee E m (ExchangedNotionalValue r)
    \<and> treasury E s' d = treasury E s d + dec_RoundInt E (MarginToVault r)
        + ecosystemFee E m (ExchangedNotionalValue r)
    \<and> feeBal E s' d = feeBal E s d + exchangeFee E m (ExchangedNotionalValue r)"
proof (rule OpenPosition_change [OF assms(3,4)], goal_cases)
  case (1 mkt a s1 a1 c)
  have d: "QuoteDenom (mkt_Pair mkt) = Inr d" and m: "kv_get (Markets s1) (mkt_Pair mkt) = Some mkt"
    and mm: "mkt = m" using 1(1,2,14) assms(5,6) by simp_all
  show ?case using afterPositionUpdate_flows [OF assms(1,2) 1(6) d m] 1(13) mm by simp
qed


section \<open>Closing positions\<close>

definition equity :: "'b sdk \<Rightarrow> market \<Rightarrow> position \<Rightarrow> dec \<Rightarrow> dec" where
  "equity E m pos notional = Margin pos + UnrealizedPnl pos notional
     - FundingPayment E pos (mkt_LatestCumulativePremiumFraction m)"

lemma closePositionEntirely_equity:
  assumes "closePositionEntirely E ctx s mkt a pos lim = Inr (s1, a1, r)" and "BadDebt r = 0"
  obtains sn where "PositionNotionalSpot E a pos = Inr sn" and "0 \<le> equity E mkt pos sn"
    and "MarginToVault r = - equity E mkt pos sn" and "RealizedPnl r = UnrealizedPnl pos sn"
    and "ExchangedPositionSize r = - Size pos"
  using assms(1)
proof (elim closePositionEntirely_Inr, goal_cases)
  case (1 t sn s1)
  have "equity E mkt pos sn = Margin pos + RealizedPnl r - FundingPaymentApplied r"
    using 1 by (simp add: equity_def)
  moreover have "0 \<le> Margin pos + RealizedPnl r - FundingPaymentApplied r"
    using 1 assms(2) by (simp add: max_def split: if_splits)
  ultimately show ?case using that [OF 1(4)] 1 by simp
qed

text \<open>C3: closing a position pays the trader its equity (margin plus unrealised profit minus
  funding, never negative) rounded to whole coins, less the two fees; the position disappears, the
  bias of the market maker gives up its size, and the vault and ecosystem fund pay the equity.\<close>

theorem ClosePosition_pays_equity:
  assumes E: "sdk_laws E" and t: "outsider E t" and c: "ClosePosition E ctx s p t = Inr (s', r)"
    and inv: "perp_inv E s" and m: "kv_get (Markets s) p = Some m" and d: "QuoteDenom p = Inr d"
    and pos: "kv_get (Positions s) (p, t) = Some pos" and a: "kv_get (AMMs s) p = Some a"
    and sn: "PositionNotionalSpot E a pos = Inr sn"
  shows "0 \<le> equity E m pos sn \<and> RealizedPnl r = UnrealizedPnl pos sn
    \<and> kv_get (Positions s') (p, t) = None
    \<and> (\<exists>a'. kv_get (AMMs s') = (kv_get (AMMs s))(p \<mapsto> a') \<and> Bias a' = Bias a - Size pos)
    \<and> accBal E s' t d = accBal E s t d + dec_RoundInt E (equity E m pos sn)
        - exchangeFee E m (ExchangedNotionalValue r) - ecosystemFee E m (ExchangedNotionalValue r)
    \<and> treasury E s' d = treasury E s d - dec_RoundInt E (equity E m pos sn)
        + ecosystemFee E m (ExchangedNotionalValue r)"
proof -
  from c obtain s1 a1 where cl: "closePositionEntirely E ctx s m a pos 0 = Inr (s1, a1, r)"
    and u: "afterPositionUpdate E ctx s1 m a1 t r = Inr s'"
    using m pos a by (auto elim: ClosePosition_Inr)
  have mp: "mkt_Pair m = p" and ap: "amm_Pair a = p" using perp_invD(5,6) [OF inv] m a by auto
  have fr: "Markets s1 = Markets s" "bank s1 = bank s" using cls.change_pure_frame [OF cl] by auto
  have m1: "kv_get (Markets s1) (mkt_Pair m) = Some m" and d1: "QuoteDenom (mkt_Pair m) = Inr d"
    using fr m mp d by simp_all
  have bd: "BadDebt r = 0" using u by (rule afterPositionUpdate_Inr)
  from closePositionEntirely_equity [OF cl bd] sn have eq: "0 \<le> equity E m pos sn"
    "MarginToVault r = - equity E m pos sn" "RealizedPnl r = UnrealizedPnl pos sn"
    "ExchangedPositionSize r = - Size pos" by (metis sum.inject(2))+
  have "kv_get (AMMs s1) = (kv_get (AMMs s))(p \<mapsto> a1)" using cls.change_amms [OF cl] a ap by simp
  moreover have "AMMs s' = AMMs s1" using afterPositionUpdate_stores [OF u m1] by metis
  ultimately have am: "kv_get (AMMs s') = (kv_get (AMMs s))(p \<mapsto> a1)" "Bias a1 = Bias a - Size pos"
    using cls.change_bias [OF cl] eq(4) by simp_all
  have ri: "dec_RoundInt E (MarginToVault r) = - dec_RoundInt E (equity E m pos sn)"
    using sdk_decimal.roundInt_minus [OF dec_lawsD [OF sdk_lawsD(1) [OF E]]] eq(2) by simp
  show ?thesis
    using eq(1,3) am ClosePosition_inv(2) [OF c inv sdk_lawsD(4) [OF E]]
      afterPositionUpdate_flows(1,2) [OF E t u d1 m1] ri fr by auto
qed


section \<open>Profit is conserved\<close>

text \<open>C4: increasing or decreasing a position without crossing zero creates and destroys no value:
  the equity of the new position, at the notional the response reports, is the old equity at the
  spot notional plus the margin paid in and the bad debt written off.\<close>

theorem trades_conserve_equity:
  assumes "dec_laws E" and "PositionNotionalSpot E a p = Inr sn"
    and "increasePosition E ctx s mkt a p dir n lim lev = Inr (s', a', r)
      \<or> decreasePosition E ctx s mkt a p n lim skip = Inr (s', a', r)"
    and "(0 < Size p) = (0 < Size (resp_Position r)) \<or> sn = OpenNotional p"
  shows "equity E mkt (resp_Position r) (PositionNotional r) = equity E mkt p sn + MarginToVault r + BadDebt r"
proof -
  have z: "dec_Mul E 0 x = 0" for x using sdk_decimal.mul_0(1) [OF dec_lawsD [OF assms(1)]] by simp
  from assms(3) show ?thesis
  proof
    assume i: "increasePosition E ctx s mkt a p dir n lim lev = Inr (s', a', r)"
    from i assms(2) have "UnrealizedPnl (resp_Position r) (PositionNotional r) = UnrealizedPnl p sn"
      using assms(4) by (elim increasePosition_Inr) (auto simp: UnrealizedPnl_def)
    moreover from i have "FundingPayment E (resp_Position r) (mkt_LatestCumulativePremiumFraction mkt) = 0"
      "FundingPaymentApplied r = FundingPayment E p (mkt_LatestCumulativePremiumFraction mkt)" "RealizedPnl r = 0"
      by (elim increasePosition_Inr; simp add: FundingPayment_def z)+
    ultimately show ?thesis using inc.change_margin [OF i] by (simp add: equity_def)
  next
    assume i: "decreasePosition E ctx s mkt a p n lim skip = Inr (s', a', r)"
    from i assms(2) have "UnrealizedPnl (resp_Position r) (PositionNotional r) = UnrealizedPnl p sn - RealizedPnl r"
      using assms(4) by (elim decreasePosition_Inr) (auto simp: UnrealizedPnl_def z)
    moreover from i have "FundingPayment E (resp_Position r) (mkt_LatestCumulativePremiumFraction mkt) = 0"
      "FundingPaymentApplied r = FundingPayment E p (mkt_LatestCumulativePremiumFraction mkt)"
      by (elim decreasePosition_Inr; simp add: FundingPayment_def z)+
    ultimately show ?thesis using dec.change_margin [OF i] by (simp add: equity_def)
  qed
qed


section \<open>Witnesses\<close>

definition ex_pos :: position where
  "ex_pos = \<lparr>TraderAddress = ''nalice'', pos_Pair = ''ubtc:unusd'', Size = 83326389467544371302,
     Margin = NewDec 100, OpenNotional = NewDec 500, pos_LatestCumulativePremiumFraction = 0,
     LastUpdatedBlockNumber = 7\<rparr>"

definition ex_amm_traded :: amm where
  "ex_amm_traded = ex_amm\<lparr>BaseReserve := 999916673610532455628698, QuoteReserve := 1000083333333333333333333,
     TotalLong := 83326389467544371302\<rparr>"

definition ex_long_state :: "ledger perp_state" where
  "ex_long_state = ex_state\<lparr>AMMs := [(''ubtc:unusd'', ex_amm_traded)],
     Positions := [((''ubtc:unusd'', ''alice''), ex_pos)]\<rparr>"

lemma ex_long_state_inv: "perp_inv ref_sdk ex_long_state"
  by (simp add: perp_inv_def markets_keyed_def amms_keyed_def positions_keyed_def ex_long_state_def ex_state_def
      ex_amm_def ex_amm_traded_def ex_market_def Bias_def sizes_def owned_def ex_pos_def ref_sdk_sel)

lemma ex_opened_values:
  "case OpenPosition ref_sdk ex_ctx ex_state ''ubtc:unusd'' LONG ''alice'' 100 (NewDec 5) 0 of
     Inl _ \<Rightarrow> False
   | Inr (s', r) \<Rightarrow> resp_Position r = ex_pos \<and> MarginToVault r = NewDec 100 \<and> ExchangedNotionalValue r = NewDec 500"
  by code_simp

lemma ex_opened:
  obtains s' r where "OpenPosition ref_sdk ex_ctx ex_state ''ubtc:unusd'' LONG ''alice'' 100 (NewDec 5) 0 = Inr (s', r)"
    and "resp_Position r = ex_pos" and "MarginToVault r = NewDec 100" and "ExchangedNotionalValue r = NewDec 500"
  using ex_opened_values that by (auto split: sum.splits prod.splits)

lemma ex_fees: "exchangeFee ref_sdk ex_market (NewDec 500) = 0" "ecosystemFee ref_sdk ex_market (NewDec 500) = 0"
  by code_simp+

lemma ex_denom: "QuoteDenom ''ubtc:unusd'' = Inr ''unusd''"
  by code_simp

theorem OpenPosition_accounting_witness:
  "\<exists>s' r. OpenPosition ref_sdk ex_ctx ex_state ''ubtc:unusd'' LONG ''alice'' 100 (NewDec 5) 0 = Inr (s', r)
     \<and> BadDebt r = 0 \<and> kv_get (Positions s') (''ubtc:unusd'', ''alice'') = Some ex_pos"
proof -
  obtain s' r where o: "OpenPosition ref_sdk ex_ctx ex_state ''ubtc:unusd'' LONG ''alice'' 100 (NewDec 5) 0 = Inr (s', r)"
    and r: "resp_Position r = ex_pos" by (rule ex_opened)
  have "Size ex_pos \<noteq> 0" by (simp add: ex_pos_def)
  then show ?thesis using OpenPosition_accounting [OF o ex_state_inv] o r by auto
qed

theorem OpenPosition_safe_witness:
  "\<exists>s' r. OpenPosition ref_sdk ex_ctx ex_state ''ubtc:unusd'' LONG ''alice'' 100 (NewDec 5) 0 = Inr (s', r)
     \<and> (\<exists>m. kv_get (Markets ex_state) ''ubtc:unusd'' = Some m \<and> Enabled m \<and> NewDec 5 \<le> MaxLeverage m)"
proof -
  obtain s' r where o: "OpenPosition ref_sdk ex_ctx ex_state ''ubtc:unusd'' LONG ''alice'' 100 (NewDec 5) 0 = Inr (s', r)"
    by (rule ex_opened)
  show ?thesis using OpenPosition_safe [OF o ex_state_inv] o by blast
qed


theorem OpenPosition_payments_witness:
  "\<exists>s' r. OpenPosition ref_sdk ex_ctx ex_state ''ubtc:unusd'' LONG ''alice'' 100 (NewDec 5) 0 = Inr (s', r)
     \<and> accBal ref_sdk s' ''alice'' ''unusd'' = 400 \<and> treasury ref_sdk s' ''unusd'' = 1110"
proof -
  obtain s' r where o: "OpenPosition ref_sdk ex_ctx ex_state ''ubtc:unusd'' LONG ''alice'' 100 (NewDec 5) 0 = Inr (s', r)"
    and r: "MarginToVault r = NewDec 100" "ExchangedNotionalValue r = NewDec 500" by (rule ex_opened)
  have m: "kv_get (Markets ex_state) ''ubtc:unusd'' = Some ex_market" by (simp add: ex_state_def)
  have "dec_RoundInt ref_sdk (NewDec 100) = 100" by code_simp
  moreover have "accBal ref_sdk ex_state ''alice'' ''unusd'' = 500" "treasury ref_sdk ex_state ''unusd'' = 1010"
    by code_simp+
  ultimately show ?thesis
    using OpenPosition_payments [OF ref_sdk_laws ref_outsider(1) o ex_state_inv m ex_denom] o r ex_fees by auto
qed

lemma ex_closed_values:
  "case ClosePosition ref_sdk ex_ctx ex_long_state ''ubtc:unusd'' ''alice'' of
     Inl _ \<Rightarrow> False | Inr (s', r) \<Rightarrow> ExchangedNotionalValue r = 499999999999999999998"
  by code_simp

theorem ClosePosition_pays_equity_witness:
  "\<exists>s' r. ClosePosition ref_sdk ex_ctx ex_long_state ''ubtc:unusd'' ''alice'' = Inr (s', r)
     \<and> kv_get (Positions s') (''ubtc:unusd'', ''alice'') = None
     \<and> accBal ref_sdk s' ''alice'' ''unusd'' = 600"
proof -
  obtain s' r where c: "ClosePosition ref_sdk ex_ctx ex_long_state ''ubtc:unusd'' ''alice'' = Inr (s', r)"
    and n: "ExchangedNotionalValue r = 499999999999999999998"
    using ex_closed_values by (auto split: sum.splits prod.splits)
  have m: "kv_get (Markets ex_long_state) ''ubtc:unusd'' = Some ex_market"
    and p: "kv_get (Positions ex_long_state) (''ubtc:unusd'', ''alice'') = Some ex_pos"
    and a: "kv_get (AMMs ex_long_state) ''ubtc:unusd'' = Some ex_amm_traded"
    by (simp_all add: ex_long_state_def ex_state_def)
  have sn: "PositionNotionalSpot ref_sdk ex_amm_traded ex_pos = Inr 499999999999999999998" by code_simp
  have v: "exchangeFee ref_sdk ex_market 499999999999999999998 = 0"
    "ecosystemFee ref_sdk ex_market 499999999999999999998 = 0"
    "dec_RoundInt ref_sdk (equity ref_sdk ex_market ex_pos 499999999999999999998) = 100"
    "accBal ref_sdk ex_long_state ''alice'' ''unusd'' = 500" by code_simp+
  show ?thesis
    using ClosePosition_pays_equity [OF ref_sdk_laws ref_outsider(1) c ex_long_state_inv m ex_denom p a sn]
      c n v by auto
qed

lemma ex_decreased_values:
  "case decreasePosition ref_sdk ex_ctx ex_long_state ex_market ex_amm_traded ex_pos (NewDec 100) 0 False of
     Inl _ \<Rightarrow> False | Inr (s', a', r) \<Rightarrow> 0 < Size (resp_Position r) \<and> MarginToVault r = 0 \<and> BadDebt r = 0"
  by code_simp

theorem trades_conserve_equity_witness:
  "\<exists>s' a' r. decreasePosition ref_sdk ex_ctx ex_long_state ex_market ex_amm_traded ex_pos (NewDec 100) 0 False
       = Inr (s', a', r)
     \<and> equity ref_sdk ex_market (resp_Position r) (PositionNotional r)
       = equity ref_sdk ex_market ex_pos 499999999999999999998"
proof -
  obtain s' a' r where
    d: "decreasePosition ref_sdk ex_ctx ex_long_state ex_market ex_amm_traded ex_pos (NewDec 100) 0 False = Inr (s', a', r)"
    and v: "0 < Size (resp_Position r)" "MarginToVault r = 0" "BadDebt r = 0"
    using ex_decreased_values by (auto split: sum.splits prod.splits)
  have sn: "PositionNotionalSpot ref_sdk ex_amm_traded ex_pos = Inr 499999999999999999998" by code_simp
  have "0 < Size ex_pos" by (simp add: ex_pos_def)
  then have "(0 < Size ex_pos) = (0 < Size (resp_Position r)) \<or> 499999999999999999998 = OpenNotional ex_pos"
    using v by simp
  from trades_conserve_equity [OF ref_sdk_dec_laws sn disjI2 [OF d] this] show ?thesis using d v by auto
qed

end
