(* ===== verification/Perp_Risk.thy ===== *)
theory Perp_Risk
  imports Perp_Trading
begin

text \<open>
  The properties of the margin operations, of liquidations and of the operations on whole markets,
  with their witnesses.
\<close>

section \<open>Margin\<close>

lemma sendCoinA2M_flows:
  assumes E: "sdk_laws E" and t: "outsider E t" and "sendCoinA2M E t VaultModuleAccount c s = Inr s'"
  shows "accBal E s' t (Denom c) = accBal E s t (Denom c) - Amount c"
    and "vaultBal E s' (Denom c) = vaultBal E s (Denom c) + Amount c"
  using sendA2M_flows(1,2) [OF E t _ outsiderD(1) [OF t]] assms(3)
  by (auto simp: sendCoinA2M_def split: if_splits)

text \<open>Adding margin moves exactly the coin from the trader into the vault and sets the margin of
  the stored position to the old margin minus the funding due plus the coin, never below zero; size
  and open notional stay.\<close>

theorem AddMargin_exact:
  assumes E: "sdk_laws E" and t: "outsider E t" and c: "AddMargin E ctx s p t c = Inr (s', r)"
    and inv: "perp_inv E s" and m: "kv_get (Markets s) p = Some m" and pos: "kv_get (Positions s) (p, t) = Some pos"
  shows "accBal E s' t (Denom c) = accBal E s t (Denom c) - Amount c
    \<and> vaultBal E s' (Denom c) = vaultBal E s (Denom c) + Amount c
    \<and> (\<exists>pos'. kv_get (Positions s') (p, t) = Some pos' \<and> Size pos' = Size pos
        \<and> OpenNotional pos' = OpenNotional pos
        \<and> Margin pos' = Margin pos - FundingPayment E pos (mkt_LatestCumulativePremiumFraction m)
            + NewDec (Amount c)
        \<and> 0 \<le> Margin pos')"
  using c
proof (elim AddMargin_Inr, goal_cases)
  case (1 mkt a pos0 s1 ev)
  have pp: "pos_Pair pos = p" using perp_invD(7) [OF inv pos] by (simp add: owned_def)
  have eq: "mkt = m" "pos0 = pos" using 1(1,3) m pos by simp_all
  show ?case using 1 sendCoinA2M_flows [OF E t 1(6)] pp unfolding eq by simp
qed

text \<open>Removing margin pays the trader exactly the amount out of the vault (topped up by the
  ecosystem fund), takes it and the funding due from the margin of the stored position, and only
  happens when what stays covers the loss of the position at the smaller of the spot and the
  time-weighted notional.\<close>

theorem RemoveMargin_exact:
  assumes E: "sdk_laws E" and t: "outsider E t" and c: "RemoveMargin E ctx s p t c = Inr (s', r)"
    and inv: "perp_inv E s" and n: "0 < Amount c"
    and m: "kv_get (Markets s) p = Some m" and pos: "kv_get (Positions s) (p, t) = Some pos"
    and d: "QuoteDenom p = Inr d"
  shows "accBal E s' t d = accBal E s t d + Amount c
    \<and> treasury E s' d = treasury E s d - Amount c
    \<and> (\<exists>pos' a sn tn. kv_get (Positions s') (p, t) = Some pos' \<and> Size pos' = Size pos
        \<and> OpenNotional pos' = OpenNotional pos
        \<and> Margin pos' = Margin pos - FundingPayment E pos (mkt_LatestCumulativePremiumFraction m)
            - NewDec (Amount c)
        \<and> kv_get (AMMs s) p = Some a \<and> PositionNotionalSpot E a pos = Inr sn
        \<and> PositionNotionalTWAP E ctx s pos (TwapLookbackWindow m) = Inr tn
        \<and> 0 \<le> Margin pos' + min 0 (UnrealizedPnl pos (min sn tn)))"
  using c
proof (elim RemoveMargin_Inr, goal_cases)
  case (1 mkt a pos0 sn tn s1 ev)
  have pp: "pos_Pair pos = p" using perp_invD(7) [OF inv pos] by (simp add: owned_def)
  have eq: "mkt = m" "pos0 = pos" using 1(1,3) m pos by simp_all
  have mp: "mkt_Pair m = p" using perp_invD(6) [OF inv m] .
  have "settleMargin E s m t (- Amount c) = Inr s1" using 1(8) n eq by (simp add: settleMargin_def)
  from settleMargin_flows [OF E t this] d mp
  have f: "accBal E s1 t d = accBal E s t d + Amount c" "treasury E s1 d = treasury E s d - Amount c" by simp_all
  show ?case using 1(2,4,5,6,7,9,10) f pp unfolding eq by simp
qed


section \<open>Liquidations\<close>

text \<open>A position is liquidated only when its margin ratio, at the larger of its spot and
  time-weighted notional, is below the maintenance ratio of its market; a position at or above that
  ratio is refused as healthy, whoever asks.\<close>

theorem liquidate_only_unhealthy:
  assumes "kv_get (Markets s) p = Some m" and "kv_get (AMMs s) p = Some a"
    and "kv_get (Positions s) (p, t) = Some pos" and "PositionNotionalSpot E a pos = Inr sn"
    and "PositionNotionalTWAP E ctx s pos (TwapLookbackWindow m) = Inr tn"
  shows "(liquidate E ctx s l p t = Inr res \<longrightarrow>
       MarginRatio E pos (max sn tn) (mkt_LatestCumulativePremiumFraction m) < MaintenanceMarginRatio m)
    \<and> (MaintenanceMarginRatio m \<le> MarginRatio E pos (max sn tn) (mkt_LatestCumulativePremiumFraction m) \<longrightarrow>
       liquidate E ctx s l p t = Inl (liquidationFailed E l p t POSITION_HEALTHY, ErrPositionHealthy))"
proof -
  have "liquidate E ctx s l p t = Inl (liquidationFailed E l p t POSITION_HEALTHY, ErrPositionHealthy)"
    if "\<not> MarginRatio E pos (max sn tn) (mkt_LatestCumulativePremiumFraction m) < MaintenanceMarginRatio m"
    using assms that by (simp add: liquidate_def withEvents_def Let_def)
  then show ?thesis by (cases "MarginRatio E pos (max sn tn) (mkt_LatestCumulativePremiumFraction m)
      < MaintenanceMarginRatio m") auto
qed


text \<open>The requests of a batch that succeeded.\<close>

fun succeeded :: "liquidation_request list \<Rightarrow> liquidation_response list \<Rightarrow> liquidation_request list" where
  "succeeded (q # qs) (r # rs) = (if isDone r then q # succeeded qs rs else succeeded qs rs)"
| "succeeded _ _ = []"

lemma MultiLiquidate_loop_succeeded:
  "MultiLiquidate_loop E ctx l reqs s = Inr (s', rs) \<Longrightarrow>
    length rs = length reqs \<and> MultiLiquidate_loop E ctx l (succeeded reqs rs) s = Inr (s', filter isDone rs)"
proof (induction E ctx l reqs s arbitrary: rs rule: MultiLiquidate_loop.induct)
  case (1 E ctx l s)
  then show ?case by simp
next
  case (2 E ctx l p tr reqs s)
  from "2.prems" show ?case
  proof (cases rule: MultiLiquidate_loop_Cons)
    case (failed t evs e rs')
    then show ?thesis using "2.IH"(1) by simp
  next
    case (succeeded t c fl fe rs')
    then show ?thesis using "2.IH"(2) by simp
  qed
qed

text \<open>C6: a failed liquidation of a batch has no effect at all: the batch answers every request, and
  ends in exactly the state, with exactly the fees, of running only the requests that succeeded; it
  fails as a whole when none did.\<close>

theorem MultiLiquidate_isolated:
  assumes "MultiLiquidate E ctx s l reqs = Inr (s', rs)"
  shows "length rs = length reqs \<and> list_ex isDone rs
    \<and> MultiLiquidate E ctx s l (succeeded reqs rs) = Inr (s', filter isDone rs)"
proof -
  from assms have lp: "MultiLiquidate_loop E ctx l reqs s = Inr (s', rs)" and ex: "list_ex isDone rs"
    by (auto simp: MultiLiquidate_def bindE_eq_Inr split: if_splits)
  have "list_ex isDone (filter isDone rs)" using ex by (auto simp: list_ex_iff)
  then show ?thesis using MultiLiquidate_loop_succeeded [OF lp] ex by (simp add: MultiLiquidate_def)
qed


section \<open>Operations on markets\<close>

text \<open>A repeg that changes the multiplier either fails for lack of funds without effect, or
  moves its cost between the ecosystem fund and the vault: a positive cost is always paid by the fund,
  a negative one goes to the fund when the vault has it; fund and vault together never change.\<close>

theorem EditPriceMultiplier_pays:
  assumes E: "sdk_laws E" and e: "EditPriceMultiplier E s p x = Inr s'" and a: "kv_get (AMMs s) p = Some a"
    and x: "x \<noteq> PriceMultiplier a" and d: "QuoteDenom p = Inr d"
  shows "\<exists>cost. CalcRepegCost E a x = Inr cost
    \<and> efBal E s' d = efBal E s d - (if 0 \<le> cost \<or> - cost \<le> vaultBal E s d then cost else 0)
    \<and> treasury E s' d = treasury E s d \<and> (0 < cost \<longrightarrow> cost \<le> efBal E s d)
    \<and> kv_get (AMMs s') p = Some (a\<lparr>PriceMultiplier := x\<rparr>)"
  using e
proof (cases rule: EditPriceMultiplier_Inr)
  case same
  then show ?thesis using a x by simp
next
  case (repegged a0 cost s1)
  note bk = bank_lawsD [OF sdk_lawsD(2) [OF E]]
  have dist: "GetModuleAddress E PerpEFModuleAccount \<noteq> GetModuleAddress E VaultModuleAccount"
    using sdk_lawsD(5) [OF E] by (auto simp: accounts_distinct_def)
  have "efBal E s1 d = efBal E s d - (if 0 \<le> cost \<or> - cost \<le> vaultBal E s d then cost else 0)
    \<and> treasury E s1 d = treasury E s d \<and> (0 < cost \<longrightarrow> cost \<le> efBal E s d)"
    using repegged(4)
  proof (cases rule: handleMarketUpdateCost_Inr)
    case (pay d' c b)
    have c: "Denom c = d" "Amount c = cost"
      using newCoinE_Inr [OF sdk_lawsD(3) [OF E] pay(3)] pay(2) d by (auto simp: quoteDenomE_Inr)
    show ?thesis
      using bank_keeper.m2m_moves(1,2) [OF bk pay(4) dist] bank_keeper.m2m_ok [OF bk pay(4)] pay(1,5) c by simp
  next
    case (collect d' c b)
    have c: "Denom c = d" "Amount c = - cost"
      using newCoinE_Inr [OF sdk_lawsD(3) [OF E] collect(3)] collect(2) d by (auto simp: quoteDenomE_Inr)
    show ?thesis
      using bank_keeper.m2m_moves(1,2) [OF bk collect(4) dist [symmetric]]
        bank_keeper.m2m_ok [OF bk collect(4)] collect(1,5) c by simp
  next
    case (forgive d' c er)
    have c: "Denom c = d" "Amount c = - cost"
      using newCoinE_Inr [OF sdk_lawsD(3) [OF E] forgive(3)] forgive(2) d by (auto simp: quoteDenomE_Inr)
    have "\<not> - cost \<le> vaultBal E s d"
      using bank_keeper.m2m_enough [OF bk, of c "bank s" VaultModuleAccount PerpEFModuleAccount] forgive c by auto
    then show ?thesis using forgive by simp
  next
    case free
    then show ?thesis by simp
  qed
  then show ?thesis using repegged a by simp
qed


section \<open>Funding\<close>

lemma AfterEpochEnd_loop_other:
  "AfterEpochEnd_loop E ctx ix du ep ms s = Inr s' \<Longrightarrow> p \<notin> mkt_Pair ` set ms \<Longrightarrow>
    kv_get (Markets s') p = kv_get (Markets s) p"
proof (induction ms arbitrary: s)
  case Nil
  then show ?case by simp
next
  case (Cons m ms)
  from Cons.prems(1) show ?case
  proof (cases rule: AfterEpochEnd_loop_Cons)
    case (funded it mt s1)
    have "kv_get (Markets s1) p = kv_get (Markets s) p"
      using funded(3) Cons.prems(2) by (elim fundMarket_Inr) simp
    then show ?thesis using Cons.IH [OF funded(4)] Cons.prems(2) by simp
  qed (use Cons in auto)
qed

lemma AfterEpochEnd_loop_reaches:
  assumes "AfterEpochEnd_loop E ctx ix du ep (ms @ m # rest) s = Inr s'"
    and "\<forall>x \<in> set (ms @ [m]). Enabled x \<and> FundingRateEpochId x = ep"
    and "distinct (map mkt_Pair (ms @ m # rest))"
  obtains s1 where "AfterEpochEnd_loop E ctx ix du ep (m # rest) s1 = Inr s'" and "settles s s1"
    and "kv_get (Markets s1) (mkt_Pair m) = kv_get (Markets s) (mkt_Pair m)"
  using assms
proof (induction ms arbitrary: s thesis)
  case Nil
  then show ?case by simp
next
  case (Cons x ms)
  from Cons.prems(2) [simplified append_Cons] show ?case
  proof (cases rule: AfterEpochEnd_loop_Cons)
    case stop
    then show ?thesis using Cons.prems(3) by simp
  next
    case skip
    show ?thesis
    proof (rule Cons.IH [OF _ skip])
      fix s2
      assume "AfterEpochEnd_loop E ctx ix du ep (m # rest) s2 = Inr s'" and "settles s s2"
        and "kv_get (Markets s2) (mkt_Pair m) = kv_get (Markets s) (mkt_Pair m)"
      then show ?thesis by (rule Cons.prems(1))
    qed (use Cons.prems(3,4) in auto)
  next
    case (funded it mt s1)
    have k: "kv_get (Markets s1) (mkt_Pair m) = kv_get (Markets s) (mkt_Pair m)"
      using funded(3) Cons.prems(4) by (auto elim!: fundMarket_Inr)
    note st = fundMarket_settles [OF funded(3)]
    show ?thesis
    proof (rule Cons.IH [OF _ funded(4)])
      fix s2
      assume "AfterEpochEnd_loop E ctx ix du ep (m # rest) s2 = Inr s'" and "settles s1 s2"
        and "kv_get (Markets s2) (mkt_Pair m) = kv_get (Markets s1) (mkt_Pair m)"
      then show ?thesis using Cons.prems(1) settles_trans [OF st] k by metis
    qed (use Cons.prems(3,4) in auto)
  qed
qed


end
