(* ===== verification/Perp_Findings.thy ===== *)
theory Perp_Findings
  imports Perp_Risk
begin

text \<open>
  Witnesses of the risk properties on an under-collateralised position, the witness of the genesis
  round trip, and the behaviours of the code that differ from what its comments say, each as a lemma.
\<close>

section \<open>An under-collateralised position\<close>

definition ex_bad_pos :: position where
  "ex_bad_pos = ex_pos\<lparr>Margin := NewDec 10\<rparr>"

definition ex_bad_state :: "ledger perp_state" where
  "ex_bad_state = ex_long_state\<lparr>Positions := [((''ubtc:unusd'', ''alice''), ex_bad_pos)]\<rparr>"

lemma ex_bad_state_inv: "perp_inv ref_sdk ex_bad_state"
  by (simp add: perp_inv_def markets_keyed_def amms_keyed_def positions_keyed_def ex_bad_state_def ex_long_state_def
      ex_state_def ex_amm_def ex_amm_traded_def ex_market_def Bias_def sizes_def owned_def ex_bad_pos_def ex_pos_def
      ref_sdk_sel)

lemma ex_bad_sel:
  "kv_get (Markets ex_bad_state) ''ubtc:unusd'' = Some ex_market"
  "kv_get (AMMs ex_bad_state) ''ubtc:unusd'' = Some ex_amm_traded"
  "kv_get (Positions ex_bad_state) (''ubtc:unusd'', ''alice'') = Some ex_bad_pos"
  by (simp_all add: ex_bad_state_def ex_long_state_def ex_state_def)

lemma ex_bad_spot: "PositionNotionalSpot ref_sdk ex_amm_traded ex_bad_pos = Inr 499999999999999999998"
  by code_simp

theorem AddMargin_exact_witness:
  "\<exists>s' r. AddMargin ref_sdk ex_ctx ex_bad_state ''ubtc:unusd'' ''alice'' \<lparr>Denom = ''unusd'', Amount = 20\<rparr> = Inr (s', r)
     \<and> accBal ref_sdk s' ''alice'' ''unusd'' = 480
     \<and> (\<exists>pos'. kv_get (Positions s') (''ubtc:unusd'', ''alice'') = Some pos' \<and> Margin pos' = NewDec 30)"
proof -
  have "\<not> isl (AddMargin ref_sdk ex_ctx ex_bad_state ''ubtc:unusd'' ''alice'' \<lparr>Denom = ''unusd'', Amount = 20\<rparr>)"
    by code_simp
  then obtain s' r where a: "AddMargin ref_sdk ex_ctx ex_bad_state ''ubtc:unusd'' ''alice'' \<lparr>Denom = ''unusd'', Amount = 20\<rparr>
      = Inr (s', r)" using not_isl_Inr by fastforce
  have v: "accBal ref_sdk ex_bad_state ''alice'' ''unusd'' = 500"
    "Margin ex_bad_pos - FundingPayment ref_sdk ex_bad_pos (mkt_LatestCumulativePremiumFraction ex_market) + NewDec 20
      = NewDec 30" by code_simp+
  show ?thesis
    using AddMargin_exact [OF ref_sdk_laws ref_outsider(1) a ex_bad_state_inv ex_bad_sel(1,3)] a v by auto
qed

theorem RemoveMargin_exact_witness:
  "\<exists>s' r. RemoveMargin ref_sdk ex_ctx ex_bad_state ''ubtc:unusd'' ''alice'' \<lparr>Denom = ''unusd'', Amount = 5\<rparr> = Inr (s', r)
     \<and> accBal ref_sdk s' ''alice'' ''unusd'' = 505 \<and> treasury ref_sdk s' ''unusd'' = 1005"
proof -
  have "\<not> isl (RemoveMargin ref_sdk ex_ctx ex_bad_state ''ubtc:unusd'' ''alice'' \<lparr>Denom = ''unusd'', Amount = 5\<rparr>)"
    by code_simp
  then obtain s' r where a: "RemoveMargin ref_sdk ex_ctx ex_bad_state ''ubtc:unusd'' ''alice'' \<lparr>Denom = ''unusd'', Amount = 5\<rparr>
      = Inr (s', r)" using not_isl_Inr by fastforce
  have v: "accBal ref_sdk ex_bad_state ''alice'' ''unusd'' = 500" "treasury ref_sdk ex_bad_state ''unusd'' = 1010"
    by code_simp+
  show ?thesis
    using RemoveMargin_exact [OF ref_sdk_laws ref_outsider(1) a ex_bad_state_inv _ ex_bad_sel(1,3) ex_denom] a v
    by auto
qed

theorem liquidate_only_unhealthy_witness:
  "\<exists>tn. PositionNotionalTWAP ref_sdk ex_ctx ex_long_state ex_pos (TwapLookbackWindow ex_market) = Inr tn
     \<and> liquidate ref_sdk ex_ctx ex_long_state ''bob'' ''ubtc:unusd'' ''alice''
       = Inl (liquidationFailed ref_sdk ''bob'' ''ubtc:unusd'' ''alice'' POSITION_HEALTHY, ErrPositionHealthy)"
proof -
  have sel: "kv_get (Markets ex_long_state) ''ubtc:unusd'' = Some ex_market"
    "kv_get (AMMs ex_long_state) ''ubtc:unusd'' = Some ex_amm_traded"
    "kv_get (Positions ex_long_state) (''ubtc:unusd'', ''alice'') = Some ex_pos"
    by (simp_all add: ex_long_state_def ex_state_def)
  have sn: "PositionNotionalSpot ref_sdk ex_amm_traded ex_pos = Inr 499999999999999999998" by code_simp
  have tn: "PositionNotionalTWAP ref_sdk ex_ctx ex_long_state ex_pos (TwapLookbackWindow ex_market)
      = Inr 499916680553241126474" by code_simp
  have "MaintenanceMarginRatio ex_market \<le> MarginRatio ref_sdk ex_pos (max 499999999999999999998 499916680553241126474)
      (mkt_LatestCumulativePremiumFraction ex_market)" by code_simp
  then show ?thesis using liquidate_only_unhealthy [OF sel sn tn] tn by blast
qed

lemma ex_full_values:
  "case executeFullLiquidation ref_sdk ex_ctx ex_bad_state ex_market ex_amm_traded ''bob'' ex_bad_pos of
     Inl _ \<Rightarrow> False | Inr (s', r) \<Rightarrow> FeeToLiquidator r = 12 \<and> lr_BadDebt r = 3"
  by code_simp


definition ex_requests :: "liquidation_request list" where
  "ex_requests = [(''ueth:unusd'', ''nalice''), (''ubtc:unusd'', ''nalice'')]"

lemma ex_batch_values:
  "case MultiLiquidate ref_sdk ex_ctx ex_bad_state ''bob'' ex_requests of
     Inl _ \<Rightarrow> False | Inr (s', rs) \<Rightarrow> map isDone rs = [False, True]"
  by code_simp

theorem MultiLiquidate_isolated_witness:
  "\<exists>s' rs. MultiLiquidate ref_sdk ex_ctx ex_bad_state ''bob'' ex_requests = Inr (s', rs)
     \<and> MultiLiquidate ref_sdk ex_ctx ex_bad_state ''bob'' [(''ubtc:unusd'', ''nalice'')] = Inr (s', filter isDone rs)"
proof -
  obtain s' rs where f: "MultiLiquidate ref_sdk ex_ctx ex_bad_state ''bob'' ex_requests = Inr (s', rs)"
    and v: "map isDone rs = [False, True]"
    using ex_batch_values by (auto split: sum.splits prod.splits)
  from v obtain r1 r2 where "rs = [r1, r2]" "\<not> isDone r1" "isDone r2" by (auto simp: map_eq_Cons_conv)
  then have "succeeded ex_requests rs = [(''ubtc:unusd'', ''nalice'')]" by (simp add: ex_requests_def)
  then show ?thesis using MultiLiquidate_isolated [OF f] f by auto
qed

theorem EditPriceMultiplier_pays_witness:
  "\<exists>s'. EditPriceMultiplier ref_sdk ex_long_state ''ubtc:unusd'' (NewDec 7) = Inr s'
     \<and> efBal ref_sdk s' ''unusd'' = 916 \<and> treasury ref_sdk s' ''unusd'' = 1010"
proof -
  have a: "kv_get (AMMs ex_long_state) ''ubtc:unusd'' = Some ex_amm_traded" by (simp add: ex_long_state_def)
  have "\<not> isl (EditPriceMultiplier ref_sdk ex_long_state ''ubtc:unusd'' (NewDec 7))" by code_simp
  then obtain s' where e: "EditPriceMultiplier ref_sdk ex_long_state ''ubtc:unusd'' (NewDec 7) = Inr s'"
    using not_isl_Inr by blast
  have x: "NewDec 7 \<noteq> PriceMultiplier ex_amm_traded" by code_simp
  have v: "CalcRepegCost ref_sdk ex_amm_traded (NewDec 7) = Inr 84" "efBal ref_sdk ex_long_state ''unusd'' = 1000"
    "treasury ref_sdk ex_long_state ''unusd'' = 1010" by code_simp+
  show ?thesis using EditPriceMultiplier_pays [OF ref_sdk_laws e a x ex_denom] e v by auto
qed


theorem genesis_round_trip_witness:
  "InitGenesis ref_sdk (ExportGenesis ex_long_state) (empty_state (bank ex_long_state) (events ex_long_state))
     = Inr ex_long_state"
proof -
  have "store_ok ref_sdk ex_long_state"
    by (simp add: store_ok_def ex_long_state_def ex_state_def ex_amm_def ex_amm_traded_def ex_market_def owned_def
        ex_pos_def ref_sdk_sel snapshotKey_def)
  then show ?thesis by (rule genesis_round_trip)
qed


section \<open>Behaviours that differ from the documentation\<close>

text \<open>The size to liquidate of a short is taken without its absolute value, so the partial liquidation
  of a short exchanges nothing and pays no fee.\<close>

lemma partial_liquidation_short_idle:
  assumes E: "dec_laws E" and "Size pos < 0" and "0 \<le> PartialLiquidationRatio mkt"
    and c: "executePartialLiquidation E ctx s mkt a l pos = Inr (s', r)"
  shows "ExchangedPositionSize (lr_PositionResp r) = 0 \<and> FeeToLiquidator r = 0 \<and> FeeToPerpEcosystemFund r = 0"
proof -
  note D = dec_lawsD [OF E]
  have le: "dec_Mul E (Size pos) (PartialLiquidationRatio mkt) \<le> 0"
    using sdk_decimal.mul_nonpos [OF D] assms(2,3) by simp
  have q: "FromQuoteReserveToAsset E a 0 = 0" "dec_Mul E 0 (LiquidationFeeRatio mkt) = 0" "dec_RoundInt E 0 = 0"
    by (simp_all add: FromQuoteReserveToAsset_def sdk_decimal.mul_0 [OF D] sdk_decimal.roundInt_0 [OF D])
  have q2: "dec_QuoInt64 E 0 2 = 0" using sdk_decimal.quoInt_trunc [OF D, of 2 0] by simp
  from c obtain qd s1 a1 pr m where g: "GetQuoteReserveAmt E a (dec_Mul E (Size pos) (PartialLiquidationRatio mkt))
        (if 0 < Size pos then SHORT else LONG) = Inr qd"
    and d: "decreasePosition E ctx s mkt a pos (FromQuoteReserveToAsset E a qd) 0 True = Inr (s1, a1, pr)"
    and r: "lr_PositionResp r = pr\<lparr>resp_Position := m\<rparr>"
      "FeeToLiquidator r = dec_RoundInt E (dec_QuoInt64 E
         (dec_Mul E (FromQuoteReserveToAsset E a qd) (LiquidationFeeRatio mkt)) 2)"
      "FeeToPerpEcosystemFund r = dec_RoundInt E (dec_Mul E (FromQuoteReserveToAsset E a qd) (LiquidationFeeRatio mkt)
         - dec_QuoInt64 E (dec_Mul E (FromQuoteReserveToAsset E a qd) (LiquidationFeeRatio mkt)) 2)"
    unfolding executePartialLiquidation_def Let_def by (auto simp: bindE_eq_Inr getE_eq_Inr)
  have qd: "qd = 0" using g le by (simp add: GetQuoteReserveAmt_def)
  have "ExchangedPositionSize pr = 0"
    using d by (elim decreasePosition_Inr) (auto simp: k_SwapQuoteAsset_def qd q)
  then show ?thesis using r by (simp add: qd q q2)
qed

text \<open>The hook returns, instead of going on, at the first market that is disabled or uses another
  epoch: no later market is funded.\<close>

lemma AfterEpochEnd_stops_at_first:
  assumes "Markets s = (p, m) # ys" and "\<not> Enabled m \<or> ep \<noteq> FundingRateEpochId m"
  shows "AfterEpochEnd E ctx ix du ep s = Inr s"
  using assms by (auto simp: AfterEpochEnd_def)

text \<open>A withdrawal after a realisation of bad debt, with the same copy of the market, books the prepaid
  bad debt on top of the amount that was just realised: the realisation is lost.\<close>

lemma realized_prepaid_is_restored:
  assumes "sdk_laws E" and "outsider E l" and "realizeBadDebt E s m n = Inr s1" and "Withdraw E s1 m l k = Inr s2"
    and "0 < k" and "QuoteDenom (mkt_Pair m) = Inr d" and "vaultBal E s1 d < k"
  shows "prepaid s2 (mkt_Pair m) = Amount (PrepaidBadDebt m) + (k - vaultBal E s1 d)"
proof (rule Withdraw_Inr [OF sdk_lawsD(2,3,5) [OF assms(1)] assms(2,4,5)], goal_cases)
  case (1 d' b)
  have "d' = d" using 1(1) assms(6) by simp
  then show ?case using 1(2) assms(7) by (simp add: prepaid_Increment)
qed

text \<open>A decrease that ends with size zero is not written back and the old position is not deleted:
  its owner keeps a position that the market maker no longer counts.\<close>

definition ex_dust_state :: "ledger perp_state" where
  "ex_dust_state = ex_state\<lparr>AMMs := [(''ubtc:unusd'', ex_amm\<lparr>TotalLong := 1\<rparr>)],
     Positions := [((''ubtc:unusd'', ''alice''), ex_pos\<lparr>Size := 1, OpenNotional := 6\<rparr>)]\<rparr>"

lemma ex_dust_values:
  "case OpenPosition ref_sdk ex_ctx ex_dust_state ''ubtc:unusd'' SHORT ''alice'' 1 5 0 of
     Inl _ \<Rightarrow> False
   | Inr (s', r) \<Rightarrow> Size (resp_Position r) = 0 \<and> map (Bias \<circ> snd) (AMMs s') = [0]
       \<and> map (Size \<circ> snd) (Positions s') = [1]"
  by code_simp

end
