(* ===== verification/V1_Market.thy ===== *)
theory V1_Market
  imports Perp_AMM
begin

text \<open>
  The market of the first version of the perpetual-futures module
  (\<^verbatim>\<open>x/perp/amm/types/pool.go\<close> and \<^verbatim>\<open>snapshot.go\<close>), the version whose messages the application serves: the
  constant-product reserves with their peg multiplier, the totals of longs and shorts, the limits
  of the configuration, the validation of a market, and the reserve snapshots.  Names that would
  clash with the second version carry the prefix \<open>v1_\<close>.  The position and its responses have the
  same fields in both versions and are shared.
\<close>

datatype v1_error =
    V1_OverTradingLimit
  | V1_QuoteReserveAtZero
  | V1_BaseReserveAtZero
  | V1_OverFluctuationLimit
  | V1_AssetFailsUserLimit
  | V1_NoValidPrice
  | V1_NoValidTWAP
  | V1_PairNotSupported
  | V1_NonPositiveReserves
  | V1_LiquidityDepth
  | V1_NonPositivePegMultiplier
  | V1_NonPositiveSwapInvariantMutliplier
  | V1_NilSwapInvariantMutliplier
  | V1_LiquidityDepthOverflow
  | V1_MarginRatioTooHigh
  | V1_PairNotFound
  | V1_PositionZero
  | V1_FailedRemoveMarginCanCauseBadDebt
  | V1_QuoteAmountIsZero
  | V1_LeverageIsZero
  | V1_MarginRatioTooLow
  | V1_LeverageIsTooHigh
  | V1_Unauthorized
  | V1_AllLiquidationsFailed
  | V1_NotEnoughFundToPayAction
  | V1_QuoteAmountIsTooSmall
  | V1_NotFound
  | V1_Bech32
  | V1_Asset asset_error
  | V1_Common common_error
  | V1_Bank string
  | V1_Text string
  | V1_Panic string

record v1_config =
  v1_TradeLimitRatio :: dec
  v1_FluctuationLimitRatio :: dec
  v1_MaxOracleSpreadRatio :: dec
  v1_MaintenanceMarginRatio :: dec
  v1_MaxLeverage :: dec

record v1_market =
  v1_Pair :: pair
  v1_BaseReserve :: dec
  v1_QuoteReserve :: dec
  v1_SqrtDepth :: dec
  v1_PegMultiplier :: dec
  v1_Config :: v1_config
  v1_TotalLong :: dec
  v1_TotalShort :: dec

record v1_snapshot =
  v1s_Pair :: pair
  v1s_BaseReserve :: dec
  v1s_QuoteReserve :: dec
  v1s_PegMultiplier :: dec
  v1s_TimestampMs :: int

text \<open>The zero value \<open>Market{}\<close>, which some operations return beside an error or for an empty trade;
  its decimals are nil, written 0 here, and none of them is read.\<close>

definition v1_Market_zero :: v1_market where
  "v1_Market_zero = \<lparr>v1_Pair = [], v1_BaseReserve = 0, v1_QuoteReserve = 0, v1_SqrtDepth = 0,
     v1_PegMultiplier = 0,
     v1_Config = \<lparr>v1_TradeLimitRatio = 0, v1_FluctuationLimitRatio = 0, v1_MaxOracleSpreadRatio = 0,
       v1_MaintenanceMarginRatio = 0, v1_MaxLeverage = 0\<rparr>,
     v1_TotalLong = 0, v1_TotalShort = 0\<rparr>"

definition ToMultiplier :: "Direction \<Rightarrow> int" where
  "ToMultiplier dir = (case dir of LONG \<Rightarrow> 1 | DIRECTION_UNSPECIFIED \<Rightarrow> 1 | SHORT \<Rightarrow> - 1)"

definition v1_quoE :: "'z sdk_dec_scheme \<Rightarrow> dec \<Rightarrow> dec \<Rightarrow> v1_error + dec" where
  "v1_quoE E a b = (if b = 0 then Inl (V1_Panic ''division by zero'') else Inr (dec_Quo E a b))"

lemma v1_quoE_eq_Inr [res_simps]: "v1_quoE E a b = Inr c \<longleftrightarrow> b \<noteq> 0 \<and> c = dec_Quo E a b"
  by (auto simp: v1_quoE_def)


section \<open>Prices and amounts\<close>

definition v1_FromQuoteAssetToReserve :: "'z sdk_dec_scheme \<Rightarrow> v1_market \<Rightarrow> dec \<Rightarrow> v1_error + dec" where
  "v1_FromQuoteAssetToReserve E m quoteAsset = v1_quoE E quoteAsset (v1_PegMultiplier m)"

definition v1_FromQuoteReserveToAsset :: "'z sdk_dec_scheme \<Rightarrow> v1_market \<Rightarrow> dec \<Rightarrow> dec" where
  "v1_FromQuoteReserveToAsset E m quoteReserve = dec_Mul E quoteReserve (v1_PegMultiplier m)"

definition v1_GetBias :: "v1_market \<Rightarrow> dec" where
  "v1_GetBias m = v1_TotalLong m - v1_TotalShort m"

definition v1_GetBaseAmountByQuoteAmount :: "'z sdk_dec_scheme \<Rightarrow> v1_market \<Rightarrow> dec \<Rightarrow> v1_error + dec" where
  "v1_GetBaseAmountByQuoteAmount E m quoteDelta =
     (if quoteDelta = 0 then Inr 0
      else
        let inv = dec_Mul E (v1_QuoteReserve m) (v1_BaseReserve m);
            quoteReservesAfter = v1_QuoteReserve m + quoteDelta
        in if quoteReservesAfter \<le> 0 then Inl V1_QuoteReserveAtZero
           else bindE (v1_quoE E inv quoteReservesAfter) (\<lambda>baseReservesAfter.
                  Inr \<bar>baseReservesAfter - v1_BaseReserve m\<bar>))"

definition v1_GetQuoteReserveByBase :: "'z sdk_dec_scheme \<Rightarrow> v1_market \<Rightarrow> dec \<Rightarrow> v1_error + dec" where
  "v1_GetQuoteReserveByBase E m baseDelta =
     (if baseDelta = 0 then Inr 0
      else
        let inv = dec_Mul E (v1_QuoteReserve m) (v1_BaseReserve m);
            baseReservesAfter = v1_BaseReserve m + baseDelta
        in if baseReservesAfter \<le> 0 then Inl V1_BaseReserveAtZero
           else bindE (v1_quoE E inv baseReservesAfter) (\<lambda>quoteReservesAfter.
                  Inr \<bar>- (quoteReservesAfter - v1_QuoteReserve m)\<bar>))"

definition v1_GetRepegCost :: "'z sdk_dec_scheme \<Rightarrow> v1_market \<Rightarrow> dec \<Rightarrow> v1_error + dec" where
  "v1_GetRepegCost E m pegCandidate =
     (if \<not> 0 < pegCandidate then Inl V1_NonPositivePegMultiplier
      else let bias = v1_GetBias m in
      if bias = 0 then Inr 0
      else bindE (v1_GetQuoteReserveByBase E m bias) (\<lambda>biasInQuoteReserve.
        let cost = dec_Mul E biasInQuoteReserve (pegCandidate - v1_PegMultiplier m)
        in Inr (if bias < 0 then - cost else cost)))"

definition v1_getMarketQuoteReserveValue :: "'z sdk_dec_scheme \<Rightarrow> v1_market \<Rightarrow> v1_error + dec" where
  "v1_getMarketQuoteReserveValue E m =
     bindE (v1_GetQuoteReserveByBase E m (v1_TotalLong m)) (\<lambda>longQuoteReserve.
     bindE (v1_GetQuoteReserveByBase E m (v1_TotalShort m)) (\<lambda>shortQuoteReserve.
     Inr (longQuoteReserve + shortQuoteReserve)))"

definition v1_GetMarkPrice :: "'z sdk_dec_scheme \<Rightarrow> v1_market \<Rightarrow> dec" where
  "v1_GetMarkPrice E m =
     (if v1_BaseReserve m = 0 \<or> v1_QuoteReserve m = 0 then 0
      else dec_Mul E (dec_Quo E (v1_QuoteReserve m) (v1_BaseReserve m)) (v1_PegMultiplier m))"

definition v1_AddToQuoteReserve :: "v1_market \<Rightarrow> dec \<Rightarrow> v1_market" where
  "v1_AddToQuoteReserve m amount = m\<lparr>v1_QuoteReserve := v1_QuoteReserve m + amount\<rparr>"

definition v1_AddToBaseReserveAndTotalLongShort :: "v1_market \<Rightarrow> dec \<Rightarrow> v1_market" where
  "v1_AddToBaseReserveAndTotalLongShort m amount =
     (let m1 = (if 0 < amount then m\<lparr>v1_TotalShort := v1_TotalShort m + amount\<rparr>
                else if amount < 0 then m\<lparr>v1_TotalLong := v1_TotalLong m + - amount\<rparr>
                else m)
      in m1\<lparr>v1_BaseReserve := v1_BaseReserve m1 + amount\<rparr>)"


section \<open>Configuration\<close>

definition v1_Config_Validate :: "'z sdk_dec_scheme \<Rightarrow> v1_config \<Rightarrow> v1_error + unit" where
  "v1_Config_Validate E cfg =
     (if v1_TradeLimitRatio cfg < 0 \<or> OneDec < v1_TradeLimitRatio cfg
        then Inl (V1_Text ''trade limit ratio of must be 0 <= ratio <= 1'')
      else if v1_FluctuationLimitRatio cfg < 0 \<or> OneDec < v1_FluctuationLimitRatio cfg
        then Inl (V1_Text ''fluctuation limit ratio must be 0 <= ratio <= 1'')
      else if v1_MaxOracleSpreadRatio cfg < 0 \<or> OneDec < v1_MaxOracleSpreadRatio cfg
        then Inl (V1_Text ''max oracle spread ratio must be 0 <= ratio <= 1'')
      else if v1_MaintenanceMarginRatio cfg < 0 \<or> OneDec < v1_MaintenanceMarginRatio cfg
        then Inl (V1_Text ''maintenance margin ratio ratio must be 0 <= ratio <= 1'')
      else if v1_MaxLeverage cfg \<le> 0 then Inl (V1_Text ''max leverage must be > 0'')
      else bindE (v1_quoE E OneDec (v1_MaxLeverage cfg)) (\<lambda>r.
        if r < v1_MaintenanceMarginRatio cfg
        then Inl (V1_Text ''margin ratio opened with max leverage position will be lower than Maintenance margin ratio'')
        else Inr ()))"

definition v1_DefaultMarketConfig :: v1_config where
  "v1_DefaultMarketConfig =
     \<lparr>v1_TradeLimitRatio = PREC div 10, v1_FluctuationLimitRatio = PREC div 10,
      v1_MaxOracleSpreadRatio = PREC div 10, v1_MaintenanceMarginRatio = 625 * PREC div 10000,
      v1_MaxLeverage = NewDec 10\<rparr>"

definition v1_SetConfig :: "v1_config \<Rightarrow> v1_config \<Rightarrow> v1_config" where
  "v1_SetConfig poolCfg cfg =
     poolCfg\<lparr>v1_TradeLimitRatio := v1_TradeLimitRatio cfg,
       v1_FluctuationLimitRatio := v1_FluctuationLimitRatio cfg,
       v1_MaxOracleSpreadRatio := v1_MaxOracleSpreadRatio cfg,
       v1_MaintenanceMarginRatio := v1_MaintenanceMarginRatio cfg,
       v1_MaxLeverage := v1_MaxLeverage cfg\<rparr>"


section \<open>Depth and validation\<close>

text \<open>The product that is checked for overflow is the square of the base reserve.\<close>

definition v1_ComputeSqrtDepth :: "'z sdk_dec_scheme \<Rightarrow> v1_market \<Rightarrow> v1_error + dec" where
  "v1_ComputeSqrtDepth E m =
     (let mul = v1_BaseReserve m * v1_BaseReserve m; chopped = ChopPrecisionAndRound mul in
      if MaxDecBitLen < BitLen chopped then Inl V1_LiquidityDepthOverflow
      else let liqDepth = dec_Mul E (v1_QuoteReserve m) (v1_BaseReserve m)
           in mapErr V1_Common (SqrtDec E liqDepth))"

definition v1_InitLiqDepth :: "'z sdk_dec_scheme \<Rightarrow> v1_market \<Rightarrow> v1_error + v1_market" where
  "v1_InitLiqDepth E m =
     bindE (v1_ComputeSqrtDepth E m) (\<lambda>sqrtDepth. Inr (m\<lparr>v1_SqrtDepth := sqrtDepth\<rparr>))"

definition v1_ValidateReserves :: "v1_market \<Rightarrow> v1_error + unit" where
  "v1_ValidateReserves m =
     (if \<not> 0 < v1_QuoteReserve m \<or> \<not> 0 < v1_BaseReserve m then Inl V1_NonPositiveReserves else Inr ())"

definition v1_ValidateLiquidityDepth :: "'z sdk_dec_scheme \<Rightarrow> v1_market \<Rightarrow> v1_error + unit" where
  "v1_ValidateLiquidityDepth E m =
     bindE (v1_ComputeSqrtDepth E m) (\<lambda>computedSqrtDepth.
       if \<not> 0 < v1_SqrtDepth m then Inl V1_LiquidityDepth
       else if \<not> \<bar>v1_SqrtDepth m - computedSqrtDepth\<bar> \<le> NewDec 1
         then Inl (V1_Text ''computed sqrt differs from current sqrt'')
       else Inr ())"

definition v1_Market_Validate :: "'b sdk \<Rightarrow> v1_market \<Rightarrow> v1_error + unit" where
  "v1_Market_Validate E m =
     bindE (mapErr V1_Asset (Pair_Validate (ValidateDenom E) (v1_Pair m))) (\<lambda>_.
     bindE (v1_ValidateReserves m) (\<lambda>_.
     bindE (v1_ValidateLiquidityDepth E m) (\<lambda>_.
     if v1_PegMultiplier m \<le> 0 then Inl V1_NonPositivePegMultiplier
     else v1_Config_Validate E (v1_Config m))))"

definition v1_NewMarket ::
    "'z sdk_dec_scheme \<Rightarrow> pair \<Rightarrow> dec \<Rightarrow> dec \<Rightarrow> v1_config option \<Rightarrow> dec \<Rightarrow> dec \<Rightarrow> dec \<Rightarrow> v1_error + v1_market" where
  "v1_NewMarket E p baseReserves quoteReserves config totalLong totalShort pegMultiplier =
     bindE (mapErr (\<lambda>_. V1_Panic ''square root of negative number'')
        (MustSqrtDec E (dec_Mul E quoteReserves baseReserves))) (\<lambda>sqrtDepth.
     Inr \<lparr>v1_Pair = p, v1_BaseReserve = baseReserves, v1_QuoteReserve = quoteReserves,
          v1_SqrtDepth = sqrtDepth, v1_PegMultiplier = pegMultiplier,
          v1_Config = (case config of None \<Rightarrow> v1_DefaultMarketConfig | Some c \<Rightarrow> c),
          v1_TotalLong = totalLong, v1_TotalShort = totalShort\<rparr>)"

definition v1_UpdateSwapInvariant :: "'b sdk \<Rightarrow> v1_market \<Rightarrow> dec option \<Rightarrow> v1_error + v1_market" where
  "v1_UpdateSwapInvariant E m swapInvariantMultiplier =
     (case swapInvariantMultiplier of
        None \<Rightarrow> Inl V1_NilSwapInvariantMutliplier
      | Some mult \<Rightarrow>
         if \<not> 0 < mult then Inl V1_NonPositiveSwapInvariantMutliplier
         else
         let swapInvariant = dec_Mul E (v1_BaseReserve m) (v1_QuoteReserve m);
             newSwapInvariant = dec_Mul E swapInvariant mult
         in
         bindE (v1_quoE E newSwapInvariant swapInvariant) (\<lambda>cSquared.
         bindE (mapErr V1_Common (SqrtDec E cSquared)) (\<lambda>c.
         let newBaseAmount = dec_Mul E c (v1_BaseReserve m);
             newQuoteAmount = dec_Mul E c (v1_QuoteReserve m)
         in
         bindE (mapErr (\<lambda>_. V1_Panic ''square root of negative number'')
           (MustSqrtDec E (dec_Mul E newBaseAmount newQuoteAmount))) (\<lambda>newSqrtDepth.
         let newMarket =
               \<lparr>v1_Pair = v1_Pair m, v1_BaseReserve = newBaseAmount, v1_QuoteReserve = newQuoteAmount,
                v1_SqrtDepth = newSqrtDepth, v1_PegMultiplier = v1_PegMultiplier m,
                v1_Config = v1_Config m, v1_TotalLong = v1_TotalLong m, v1_TotalShort = v1_TotalShort m\<rparr>
         in bindE (v1_Market_Validate E newMarket) (\<lambda>_. Inr newMarket)))))"

definition v1_GetSwapInvariantUpdateCost :: "'b sdk \<Rightarrow> v1_market \<Rightarrow> dec option \<Rightarrow> v1_error + dec" where
  "v1_GetSwapInvariantUpdateCost E m swapInvariantMultiplier =
     bindE (v1_getMarketQuoteReserveValue E m) (\<lambda>quoteReserveBefore.
     bindE (v1_UpdateSwapInvariant E m swapInvariantMultiplier) (\<lambda>newMarket.
     bindE (v1_getMarketQuoteReserveValue E newMarket) (\<lambda>quoteReserveAfter.
     Inr (v1_FromQuoteReserveToAsset E m (quoteReserveAfter - quoteReserveBefore)))))"


section \<open>Limits\<close>

definition v1_HasEnoughQuoteReserve :: "'z sdk_dec_scheme \<Rightarrow> v1_market \<Rightarrow> dec \<Rightarrow> bool" where
  "v1_HasEnoughQuoteReserve E m quoteAmount \<longleftrightarrow>
     \<bar>quoteAmount\<bar> \<le> dec_Mul E (v1_QuoteReserve m) (v1_TradeLimitRatio (v1_Config m))"

definition v1_HasEnoughBaseReserve :: "'z sdk_dec_scheme \<Rightarrow> v1_market \<Rightarrow> dec \<Rightarrow> bool" where
  "v1_HasEnoughBaseReserve E m baseAmount \<longleftrightarrow>
     \<bar>baseAmount\<bar> \<le> dec_Mul E (v1_BaseReserve m) (v1_TradeLimitRatio (v1_Config m))"

definition v1_HasEnoughReservesForTrade :: "'z sdk_dec_scheme \<Rightarrow> v1_market \<Rightarrow> dec \<Rightarrow> dec \<Rightarrow> v1_error + unit" where
  "v1_HasEnoughReservesForTrade E m quoteAmtAbs baseAmtAbs =
     (if \<not> v1_HasEnoughQuoteReserve E m quoteAmtAbs then Inl V1_OverTradingLimit
      else if \<not> v1_HasEnoughBaseReserve E m baseAmtAbs then Inl V1_OverTradingLimit
      else Inr ())"

definition v1s_getMarkPrice :: "'z sdk_dec_scheme \<Rightarrow> v1_snapshot \<Rightarrow> dec" where
  "v1s_getMarkPrice E s =
     (if v1s_BaseReserve s = 0 \<or> v1s_QuoteReserve s = 0 then 0
      else dec_Mul E (dec_Quo E (v1s_QuoteReserve s) (v1s_BaseReserve s)) (v1s_PegMultiplier s))"

definition v1s_GetUpperMarkPriceFluctuationLimit :: "'z sdk_dec_scheme \<Rightarrow> v1_snapshot \<Rightarrow> dec \<Rightarrow> dec" where
  "v1s_GetUpperMarkPriceFluctuationLimit E s ratio = dec_Mul E (v1s_getMarkPrice E s) (OneDec + ratio)"

definition v1s_GetLowerMarkPriceFluctuationLimit :: "'z sdk_dec_scheme \<Rightarrow> v1_snapshot \<Rightarrow> dec \<Rightarrow> dec" where
  "v1s_GetLowerMarkPriceFluctuationLimit E s ratio = dec_Mul E (v1s_getMarkPrice E s) (OneDec - ratio)"

definition v1_IsOverFluctuationLimit :: "'z sdk_dec_scheme \<Rightarrow> v1_market \<Rightarrow> v1_snapshot \<Rightarrow> bool" where
  "v1_IsOverFluctuationLimit E m snapshot =
     (if v1_FluctuationLimitRatio (v1_Config m) = 0 then False
      else
        let markPrice = v1_GetMarkPrice E m;
            upper = v1s_GetUpperMarkPriceFluctuationLimit E snapshot (v1_FluctuationLimitRatio (v1_Config m));
            lower = v1s_GetLowerMarkPriceFluctuationLimit E snapshot (v1_FluctuationLimitRatio (v1_Config m))
        in upper < markPrice \<or> markPrice < lower)"

definition v1m_IsOverSpreadLimit :: "'z sdk_dec_scheme \<Rightarrow> v1_market \<Rightarrow> dec \<Rightarrow> v1_error + bool" where
  "v1m_IsOverSpreadLimit E m indexPrice =
     bindE (v1_quoE E (v1_GetMarkPrice E m - indexPrice) indexPrice) (\<lambda>r.
       Inr (v1_MaxOracleSpreadRatio (v1_Config m) \<le> \<bar>r\<bar>))"


section \<open>Snapshots\<close>

definition v1_NewReserveSnapshot :: "pair \<Rightarrow> dec \<Rightarrow> dec \<Rightarrow> dec \<Rightarrow> int \<Rightarrow> v1_snapshot" where
  "v1_NewReserveSnapshot p baseReserve quoteReserve pegMultiplier blockTime =
     \<lparr>v1s_Pair = p, v1s_BaseReserve = baseReserve, v1s_QuoteReserve = quoteReserve,
      v1s_PegMultiplier = pegMultiplier, v1s_TimestampMs = UnixMilli blockTime\<rparr>"

definition v1s_Validate :: "'b sdk \<Rightarrow> v1_snapshot \<Rightarrow> v1_error + unit" where
  "v1s_Validate E s =
     bindE (mapErr V1_Asset (Pair_Validate (ValidateDenom E) (v1s_Pair s))) (\<lambda>_.
     if v1s_BaseReserve s < 0 then Inl (V1_Text ''base asset reserve from snapshot cannot be negative'')
     else if v1s_QuoteReserve s < 0 then Inl (V1_Text ''quote asset reserve from snapshot cannot be negative'')
     else if v1s_PegMultiplier s < 0 then Inl (V1_Text ''peg multiplier from snapshot cannot be negative'')
     else if v1s_TimestampMs s < - 62135596800000 then Inl (V1_Text ''snapshot time should not be before earliest possible UTC time'')
     else Inr ())"

definition v1_ToSnapshot :: "'b sdk \<Rightarrow> block_ctx \<Rightarrow> v1_market \<Rightarrow> v1_error + v1_snapshot" where
  "v1_ToSnapshot E ctx m =
     (let snapshot = v1_NewReserveSnapshot (v1_Pair m) (v1_BaseReserve m) (v1_QuoteReserve m)
            (v1_PegMultiplier m) (BlockTime ctx)
      in bindE (mapErr (\<lambda>_. V1_Panic ''invalid snapshot'') (v1s_Validate E snapshot)) (\<lambda>_. Inr snapshot))"


section \<open>Facts about markets\<close>

text \<open>What a market keeps whatever is traded: the base reserve plus the bias.\<close>

definition v1_depthBase :: "v1_market \<Rightarrow> dec" where
  "v1_depthBase m = v1_BaseReserve m + v1_GetBias m"

lemma v1_AddToBase_facts:
  "v1_GetBias (v1_AddToBaseReserveAndTotalLongShort m d) = v1_GetBias m - d"
  "v1_BaseReserve (v1_AddToBaseReserveAndTotalLongShort m d) = v1_BaseReserve m + d"
  "v1_QuoteReserve (v1_AddToBaseReserveAndTotalLongShort m d) = v1_QuoteReserve m"
  "v1_Pair (v1_AddToBaseReserveAndTotalLongShort m d) = v1_Pair m"
  "v1_Config (v1_AddToBaseReserveAndTotalLongShort m d) = v1_Config m"
  "v1_PegMultiplier (v1_AddToBaseReserveAndTotalLongShort m d) = v1_PegMultiplier m"
  "v1_SqrtDepth (v1_AddToBaseReserveAndTotalLongShort m d) = v1_SqrtDepth m"
  by (simp_all add: v1_AddToBaseReserveAndTotalLongShort_def v1_GetBias_def)

lemma v1_AddToQuote_facts [simp]:
  "v1_GetBias (v1_AddToQuoteReserve m d) = v1_GetBias m"
  "v1_BaseReserve (v1_AddToQuoteReserve m d) = v1_BaseReserve m"
  "v1_QuoteReserve (v1_AddToQuoteReserve m d) = v1_QuoteReserve m + d"
  "v1_Pair (v1_AddToQuoteReserve m d) = v1_Pair m"
  "v1_Config (v1_AddToQuoteReserve m d) = v1_Config m"
  "v1_PegMultiplier (v1_AddToQuoteReserve m d) = v1_PegMultiplier m"
  "v1_SqrtDepth (v1_AddToQuoteReserve m d) = v1_SqrtDepth m"
  by (simp_all add: v1_AddToQuoteReserve_def v1_GetBias_def)

lemma v1_GetBaseAmount_nonneg: "v1_GetBaseAmountByQuoteAmount E m q = Inr d \<Longrightarrow> 0 \<le> d"
  by (auto simp: v1_GetBaseAmountByQuoteAmount_def Let_def res_simps split: if_splits)

lemma v1_GetQuoteReserve_nonneg: "v1_GetQuoteReserveByBase E m b = Inr d \<Longrightarrow> 0 \<le> d"
  by (auto simp: v1_GetQuoteReserveByBase_def Let_def res_simps split: if_splits)

text \<open>A validated market has positive reserves, a positive peg and a valid configuration.\<close>

lemma v1_Market_ValidateD:
  assumes "v1_Market_Validate E m = Inr ()"
  shows "0 < v1_BaseReserve m" "0 < v1_QuoteReserve m" "0 < v1_PegMultiplier m" "0 < v1_SqrtDepth m"
    "v1_Config_Validate E (v1_Config m) = Inr ()"
    "Pair_Validate (ValidateDenom E) (v1_Pair m) = Inr ()"
  using assms by (auto simp: v1_Market_Validate_def v1_ValidateReserves_def v1_ValidateLiquidityDepth_def
      res_simps split: if_splits)

end
