(* ===== verification/Epochs.thy ===== *)
theory Epochs
  imports Perp_Types "HOL-Library.Word"
begin

text \<open>
  The epochs module (\<^verbatim>\<open>x/epochs\<close>): periodic timers of the chain.  Each block, \<open>BeginBlocker\<close> goes
  over the epochs, ends and starts those that are due, and calls the hooks of other modules.  The
  hooks act on the state of those modules, which is a parameter; a hook may panic, and so abort
  the block.  Times are nanoseconds, the epoch number is the 64-bit word of the code.
\<close>

section \<open>Epochs\<close>

record epoch_info =
  Identifier :: string
  StartTime :: int
  Duration :: int
  CurrentEpoch :: "64 word"
  CurrentEpochStartTime :: int
  EpochCountingStarted :: bool
  CurrentEpochStartHeight :: int

text \<open>The zero value of \<open>time.Time\<close>: the first of January of the year 1.\<close>

definition ZeroTime :: int where
  "ZeroTime = - 62135596800000000000"

definition NewEpochInfo :: "string \<Rightarrow> epoch_info" where
  "NewEpochInfo identifier =
     \<lparr>Identifier = identifier, StartTime = ZeroTime, Duration = 0, CurrentEpoch = 0,
      CurrentEpochStartTime = ZeroTime, EpochCountingStarted = False, CurrentEpochStartHeight = 0\<rparr>"

datatype epoch_error = EmptyIdentifier | ZeroDuration | NegativeStartHeight | EpochAlreadyExists
  | DuplicateIdentifier | BlankIdentifier | EpochNotFound | HookPanic string

definition EpochInfo_Validate :: "epoch_info \<Rightarrow> epoch_error + unit" where
  "EpochInfo_Validate e =
     (if Identifier e = [] then Inl EmptyIdentifier
      else if Duration e = 0 then Inl ZeroDuration
      else if CurrentEpochStartHeight e < 0 then Inl NegativeStartHeight
      else Inr ())"

text \<open>The white space that \<open>strings.TrimSpace\<close> strips from ASCII text.\<close>

definition is_space :: "char \<Rightarrow> bool" where
  "is_space c \<longleftrightarrow> c \<in> {CHR '' '', CHR 0x09, CHR 0x0A, CHR 0x0B, CHR 0x0C, CHR 0x0D}"

definition ValidateEpochIdentifierString :: "string \<Rightarrow> epoch_error + unit" where
  "ValidateEpochIdentifierString s =
     (if rev (dropWhile is_space (rev (dropWhile is_space s))) = [] then Inl BlankIdentifier else Inr ())"


section \<open>The keeper\<close>

type_synonym epochs_store = "(string, epoch_info) kv"

definition GetEpochInfo :: "epochs_store \<Rightarrow> string \<Rightarrow> epoch_error + epoch_info" where
  "GetEpochInfo es identifier = getE EpochNotFound (kv_get es identifier)"

definition EpochExists :: "epochs_store \<Rightarrow> string \<Rightarrow> bool" where
  "EpochExists es identifier \<longleftrightarrow> kv_get es identifier \<noteq> None"

definition AddEpochInfo :: "block_ctx \<Rightarrow> epoch_info \<Rightarrow> epochs_store \<Rightarrow> epoch_error + epochs_store" where
  "AddEpochInfo ctx epoch es =
     bindE (EpochInfo_Validate epoch) (\<lambda>_.
     if EpochExists es (Identifier epoch) then Inl EpochAlreadyExists
     else
       let e1 = (if StartTime epoch = ZeroTime then epoch\<lparr>StartTime := BlockTime ctx\<rparr> else epoch);
           e2 = e1\<lparr>CurrentEpochStartHeight := BlockHeight ctx\<rparr>
       in Inr (kv_insert (Identifier e2) e2 es))"

definition DeleteEpochInfo :: "string \<Rightarrow> epochs_store \<Rightarrow> epoch_error + epochs_store" where
  "DeleteEpochInfo identifier es =
     (if kv_get es identifier = None then Inl EpochNotFound else Inr (kv_delete identifier es))"

text \<open>The callback of an iteration says whether to stop.\<close>

fun IterateEpochInfo :: "(int \<Rightarrow> epoch_info \<Rightarrow> 's \<Rightarrow> 's \<times> bool) \<Rightarrow> int \<Rightarrow> epoch_info list \<Rightarrow> 's \<Rightarrow> 's" where
  "IterateEpochInfo fn i [] s = s"
| "IterateEpochInfo fn i (e # es) s =
     (let (s', stop) = fn i e s in if stop then s' else IterateEpochInfo fn (i + 1) es s')"

definition AllEpochInfos :: "epochs_store \<Rightarrow> epoch_info list" where
  "AllEpochInfos es = IterateEpochInfo (\<lambda>_ e acc. (acc @ [e], False)) 0 (kv_values es) []"

definition CurrentEpoch_query :: "epochs_store \<Rightarrow> string \<Rightarrow> epoch_error + 64 word" where
  "CurrentEpoch_query es identifier =
     bindE (GetEpochInfo es identifier) (\<lambda>info.
     if Identifier info \<noteq> identifier then Inl EpochNotFound else Inr (CurrentEpoch info))"


section \<open>Hooks\<close>

record 'h epoch_hooks =
  AfterEpochEnd_hook :: "block_ctx \<Rightarrow> string \<Rightarrow> 64 word \<Rightarrow> 'h \<Rightarrow> string + 'h"
  BeforeEpochStart_hook :: "block_ctx \<Rightarrow> string \<Rightarrow> 64 word \<Rightarrow> 'h \<Rightarrow> string + 'h"

fun Multi_AfterEpochEnd :: "'h epoch_hooks list \<Rightarrow> block_ctx \<Rightarrow> string \<Rightarrow> 64 word \<Rightarrow> 'h \<Rightarrow> string + 'h" where
  "Multi_AfterEpochEnd [] ctx i n h = Inr h"
| "Multi_AfterEpochEnd (k # ks) ctx i n h =
     bindE (AfterEpochEnd_hook k ctx i n h) (\<lambda>h'. Multi_AfterEpochEnd ks ctx i n h')"

fun Multi_BeforeEpochStart :: "'h epoch_hooks list \<Rightarrow> block_ctx \<Rightarrow> string \<Rightarrow> 64 word \<Rightarrow> 'h \<Rightarrow> string + 'h" where
  "Multi_BeforeEpochStart [] ctx i n h = Inr h"
| "Multi_BeforeEpochStart (k # ks) ctx i n h =
     bindE (BeforeEpochStart_hook k ctx i n h) (\<lambda>h'. Multi_BeforeEpochStart ks ctx i n h')"


section \<open>The begin blocker\<close>

datatype epoch_event = EventEpochEnd "64 word" | EventEpochStart "64 word" int

record 'h epochs_state =
  Epochs :: epochs_store
  epoch_events :: "epoch_event list"
  hook_state :: 'h

definition shouldEpochStart :: "epoch_info \<Rightarrow> block_ctx \<Rightarrow> bool" where
  "shouldEpochStart e ctx =
     (if \<not> EpochCountingStarted e then True
      else let epochEndTime = CurrentEpochStartTime e + Duration e
           in epochEndTime < BlockTime ctx \<or> BlockTime ctx = epochEndTime)"

definition beginEpoch :: "'h epoch_hooks list \<Rightarrow> block_ctx \<Rightarrow> epoch_info \<Rightarrow> 'h epochs_state \<Rightarrow>
    epoch_error + 'h epochs_state" where
  "beginEpoch hooks ctx epoch s =
     (if BlockTime ctx < StartTime epoch then Inr s
      else if \<not> shouldEpochStart epoch ctx then Inr s
      else
      let e1 = epoch\<lparr>CurrentEpochStartHeight := BlockHeight ctx, CurrentEpochStartTime := BlockTime ctx\<rparr> in
      bindE
        (if \<not> EpochCountingStarted e1 then Inr (e1\<lparr>EpochCountingStarted := True, CurrentEpoch := 1\<rparr>, s)
         else
           bindE (mapErr HookPanic (Multi_AfterEpochEnd hooks ctx (Identifier e1) (CurrentEpoch e1) (hook_state s)))
             (\<lambda>h. Inr (e1\<lparr>CurrentEpoch := CurrentEpoch e1 + 1\<rparr>,
                s\<lparr>epoch_events := epoch_events s @ [EventEpochEnd (CurrentEpoch e1)], hook_state := h\<rparr>)))
        (\<lambda>(e2, s1).
      let s2 = s1\<lparr>epoch_events := epoch_events s1 @ [EventEpochStart (CurrentEpoch e2) (CurrentEpochStartTime e2)],
                  Epochs := kv_insert (Identifier e2) e2 (Epochs s1)\<rparr>
      in
      bindE (mapErr HookPanic (Multi_BeforeEpochStart hooks ctx (Identifier e2) (CurrentEpoch e2) (hook_state s2)))
        (\<lambda>h. Inr (s2\<lparr>hook_state := h\<rparr>))))"

text \<open>The iteration visits the epochs stored at the start of the block, in the order of their keys.\<close>

fun beginEpochs :: "'h epoch_hooks list \<Rightarrow> block_ctx \<Rightarrow> epoch_info list \<Rightarrow> 'h epochs_state \<Rightarrow>
    epoch_error + 'h epochs_state" where
  "beginEpochs hooks ctx [] s = Inr s"
| "beginEpochs hooks ctx (e # es) s = bindE (beginEpoch hooks ctx e s) (\<lambda>s'. beginEpochs hooks ctx es s')"

definition BeginBlocker :: "'h epoch_hooks list \<Rightarrow> block_ctx \<Rightarrow> 'h epochs_state \<Rightarrow> epoch_error + 'h epochs_state" where
  "BeginBlocker hooks ctx s = beginEpochs hooks ctx (kv_values (Epochs s)) s"


section \<open>Genesis\<close>

fun epochs_InitGenesis :: "block_ctx \<Rightarrow> epoch_info list \<Rightarrow> epochs_store \<Rightarrow> epoch_error + epochs_store" where
  "epochs_InitGenesis ctx [] es = Inr es"
| "epochs_InitGenesis ctx (e # gs) es = bindE (AddEpochInfo ctx e es) (\<lambda>es'. epochs_InitGenesis ctx gs es')"

definition epochs_ExportGenesis :: "epochs_store \<Rightarrow> epoch_info list" where
  "epochs_ExportGenesis es = AllEpochInfos es"

definition epochs_DefaultGenesis :: "epoch_info list" where
  "epochs_DefaultGenesis =
     [(NewEpochInfo ''15 min'')\<lparr>Duration := 900000000000\<rparr>,
      (NewEpochInfo ''30 min'')\<lparr>Duration := 1800000000000\<rparr>,
      (NewEpochInfo ''week'')\<lparr>Duration := 604800000000000\<rparr>]"

fun epochs_Validate_from :: "string list \<Rightarrow> epoch_info list \<Rightarrow> epoch_error + unit" where
  "epochs_Validate_from seen [] = Inr ()"
| "epochs_Validate_from seen (e # es) =
     (if Identifier e \<in> set seen then Inl DuplicateIdentifier
      else bindE (EpochInfo_Validate e) (\<lambda>_. epochs_Validate_from (Identifier e # seen) es))"

definition epochs_Validate :: "epoch_info list \<Rightarrow> epoch_error + unit" where
  "epochs_Validate es = epochs_Validate_from [] es"


section \<open>One block\<close>

text \<open>The specification of a block on one epoch.\<close>

definition due :: "block_ctx \<Rightarrow> epoch_info \<Rightarrow> bool" where
  "due ctx e \<longleftrightarrow> StartTime e \<le> BlockTime ctx
     \<and> (EpochCountingStarted e \<longrightarrow> CurrentEpochStartTime e + Duration e \<le> BlockTime ctx)"

definition advance :: "block_ctx \<Rightarrow> epoch_info \<Rightarrow> epoch_info" where
  "advance ctx e =
     (if due ctx e
      then e\<lparr>CurrentEpochStartHeight := BlockHeight ctx, CurrentEpochStartTime := BlockTime ctx,
             EpochCountingStarted := True,
             CurrentEpoch := (if EpochCountingStarted e then CurrentEpoch e + 1 else 1)\<rparr>
      else e)"

lemma advance_frame [simp]:
  "Identifier (advance ctx e) = Identifier e" "StartTime (advance ctx e) = StartTime e"
  "Duration (advance ctx e) = Duration e"
  by (simp_all add: advance_def)

lemma shouldEpochStart_due: "\<not> BlockTime ctx < StartTime e \<Longrightarrow> shouldEpochStart e ctx = due ctx e"
  by (auto simp: shouldEpochStart_def due_def Let_def)

lemma beginEpoch_Inr:
  assumes "beginEpoch hooks ctx e s = Inr s'"
  shows "Epochs s' = (if due ctx e then kv_insert (Identifier e) (advance ctx e) (Epochs s) else Epochs s)"
proof (cases "due ctx e")
  case False
  then have "s' = s" using assms shouldEpochStart_due [of ctx e] by (auto simp: beginEpoch_def split: if_splits)
  then show ?thesis using False by simp
next
  case True
  then have "\<not> BlockTime ctx < StartTime e" "shouldEpochStart e ctx"
    using shouldEpochStart_due [of ctx e] by (auto simp: due_def)
  then show ?thesis using assms True
    by (cases "EpochCountingStarted e"; cases e) (auto simp: beginEpoch_def bindE_eq_Inr Let_def advance_def)
qed

text \<open>The identifiers are the keys.\<close>

definition epochs_keyed :: "epochs_store \<Rightarrow> bool" where
  "epochs_keyed es \<longleftrightarrow> kv_wf es \<and> list_all (\<lambda>(k, e). Identifier e = k) es"

lemma beginEpochs_Inr:
  assumes "beginEpochs hooks ctx es s = Inr s'" and "distinct (map Identifier es)"
    and "\<forall>e \<in> set es. kv_get (Epochs s) (Identifier e) = Some e" and "kv_wf (Epochs s)"
    and "\<forall>i e. kv_get (Epochs s) i = Some e \<longrightarrow> Identifier e = i"
  shows "kv_get (Epochs s') = (\<lambda>i. if i \<in> Identifier ` set es then map_option (advance ctx) (kv_get (Epochs s) i)
      else kv_get (Epochs s) i) \<and> kv_wf (Epochs s')"
  using assms
proof (induction es arbitrary: s)
  case Nil
  then show ?case by simp
next
  case (Cons e es)
  from Cons.prems(1) obtain s1 where b: "beginEpoch hooks ctx e s = Inr s1"
    and r: "beginEpochs hooks ctx es s1 = Inr s'" by (auto simp: bindE_eq_Inr)
  note ep = beginEpoch_Inr [OF b]
  have ge: "kv_get (Epochs s) (Identifier e) = Some e" using Cons.prems(3) by simp
  have g: "kv_get (Epochs s1) = (kv_get (Epochs s))(Identifier e \<mapsto> advance ctx e)"
    using ep ge by (auto simp: advance_def)
  have "kv_get (Epochs s') = (\<lambda>i. if i \<in> Identifier ` set es then map_option (advance ctx) (kv_get (Epochs s1) i)
      else kv_get (Epochs s1) i) \<and> kv_wf (Epochs s')"
  proof (rule Cons.IH [OF r])
    show "distinct (map Identifier es)" using Cons.prems(2) by simp
    show "\<forall>x \<in> set es. kv_get (Epochs s1) (Identifier x) = Some x"
    proof
      fix x assume x: "x \<in> set es"
      have "Identifier x \<noteq> Identifier e" using imageI [OF x, of Identifier] Cons.prems(2) by auto
      then show "kv_get (Epochs s1) (Identifier x) = Some x" using Cons.prems(3) x by (simp add: g)
    qed
    show "kv_wf (Epochs s1)" using ep Cons.prems(4) by simp
    show "\<forall>i x. kv_get (Epochs s1) i = Some x \<longrightarrow> Identifier x = i"
    proof (intro allI impI)
      fix i x assume x: "kv_get (Epochs s1) i = Some x"
      show "Identifier x = i"
      proof (cases "i = Identifier e")
        case True
        with x g have "x = advance ctx e" by simp
        then show ?thesis using True by simp
      next
        case False
        with x g have "kv_get (Epochs s) i = Some x" by simp
        then show ?thesis by (rule Cons.prems(5) [rule_format])
      qed
    qed
  qed
  then show ?case using g ge Cons.prems(2) by (auto simp: fun_eq_iff)
qed

lemma epochs_keyedD:
  assumes "epochs_keyed es"
  shows "kv_wf es" and "kv_get es i = Some e \<Longrightarrow> Identifier e = i"
    and "map Identifier (kv_values es) = map fst es" and "(i, e) \<in> set es \<Longrightarrow> kv_get es i = Some e"
  using assms kv_wf_distinct [of es]
  by (auto simp: epochs_keyed_def list_all_iff dest: map_of_SomeD)

lemma epochs_keyedI:
  assumes "kv_wf es" and "\<And>i e. kv_get es i = Some e \<Longrightarrow> Identifier e = i"
  shows "epochs_keyed es"
  using assms kv_wf_distinct [of es] by (auto simp: epochs_keyed_def list_all_iff)

lemma BeginBlocker_advances:
  assumes "BeginBlocker hooks ctx s = Inr s'" and k: "epochs_keyed (Epochs s)"
  shows "kv_get (Epochs s') = map_option (advance ctx) \<circ> kv_get (Epochs s) \<and> epochs_keyed (Epochs s')"
proof -
  have "kv_get (Epochs s') = (\<lambda>i. if i \<in> Identifier ` set (kv_values (Epochs s))
      then map_option (advance ctx) (kv_get (Epochs s) i) else kv_get (Epochs s) i) \<and> kv_wf (Epochs s')"
  proof (rule beginEpochs_Inr [OF assms(1) [unfolded BeginBlocker_def]])
    show "distinct (map Identifier (kv_values (Epochs s)))"
      using epochs_keyedD(3) [OF k] kv_wf_distinct [OF epochs_keyedD(1) [OF k]] by (simp only:)
    show "\<forall>e \<in> set (kv_values (Epochs s)). kv_get (Epochs s) (Identifier e) = Some e"
    proof
      fix e assume "e \<in> set (kv_values (Epochs s))"
      then obtain i where i: "(i, e) \<in> set (Epochs s)" by auto
      show "kv_get (Epochs s) (Identifier e) = Some e"
        using epochs_keyedD(2) [OF k epochs_keyedD(4) [OF k i]] epochs_keyedD(4) [OF k i] by simp
    qed
  qed (use epochs_keyedD [OF k] in auto)
  moreover have "i \<in> Identifier ` set (kv_values (Epochs s))" if "kv_get (Epochs s) i = Some e" for i e
    using epochs_keyedD(2) [OF k that] map_of_SomeD [OF that] by force
  ultimately have g: "kv_get (Epochs s') = map_option (advance ctx) \<circ> kv_get (Epochs s)"
    and wf: "kv_wf (Epochs s')"
    by (auto simp: fun_eq_iff) (metis option.map_disc_iff option.exhaust)
  have "epochs_keyed (Epochs s')"
    by (rule epochs_keyedI [OF wf]) (use g epochs_keyedD(2) [OF k] in auto)
  with g show ?thesis by blast
qed

text \<open>C18: a block acts on the stored epochs exactly as its specification says: as a map from
  identifiers, every epoch is advanced when it is due and kept otherwise, whatever the hooks of the
  other modules do, and the store stays well keyed.\<close>

theorem BeginBlocker_refines_advance:
  assumes "BeginBlocker hooks ctx s = Inr s'" and "epochs_keyed (Epochs s)"
  shows "kv_get (Epochs s') = map_option (advance ctx) \<circ> kv_get (Epochs s) \<and> epochs_keyed (Epochs s')"
  by (rule BeginBlocker_advances [OF assms])

text \<open>C19: a block never leaves an epoch behind: after it, every epoch whose start time has come is
  counting, and the end of its current epoch lies after the block.\<close>

theorem no_epoch_overdue:
  assumes "BeginBlocker hooks ctx s = Inr s'" and "epochs_keyed (Epochs s)"
    and "kv_get (Epochs s') i = Some e" and "StartTime e \<le> BlockTime ctx" and "0 < Duration e"
  shows "EpochCountingStarted e \<and> BlockTime ctx < CurrentEpochStartTime e + Duration e"
proof -
  from BeginBlocker_advances [OF assms(1,2)] assms(3) obtain e0 where "e = advance ctx e0" by auto
  then show ?thesis using assms(4,5) by (auto simp: advance_def due_def split: if_splits)
qed


section \<open>Runs of blocks\<close>

fun runBlocks :: "'h epoch_hooks list \<Rightarrow> block_ctx list \<Rightarrow> 'h epochs_state \<Rightarrow> epoch_error + 'h epochs_state" where
  "runBlocks hooks [] s = Inr s"
| "runBlocks hooks (b # bs) s = bindE (BeginBlocker hooks b s) (\<lambda>s'. runBlocks hooks bs s')"

lemma runBlocks_advance:
  "runBlocks hooks bs s = Inr s' \<Longrightarrow> epochs_keyed (Epochs s) \<Longrightarrow> kv_get (Epochs s) i = Some e \<Longrightarrow>
    kv_get (Epochs s') i = Some (fold advance bs e)"
proof (induction bs arbitrary: s e)
  case Nil
  then show ?case by simp
next
  case (Cons b bs)
  from Cons.prems(1) obtain s1 where b: "BeginBlocker hooks b s = Inr s1" and r: "runBlocks hooks bs s1 = Inr s'"
    by (auto simp: bindE_eq_Inr)
  note st = BeginBlocker_advances [OF b Cons.prems(2)]
  show ?case using Cons.IH [OF r, of "advance b e"] st Cons.prems(3) by simp
qed

lemma advance_paced:
  assumes "EpochCountingStarted e" and "0 < Duration e" and "unat (CurrentEpoch e) + length bs < 2 ^ 64"
  shows "EpochCountingStarted (fold advance bs e)
    \<and> unat (CurrentEpoch e) \<le> unat (CurrentEpoch (fold advance bs e))
    \<and> unat (CurrentEpoch (fold advance bs e)) \<le> unat (CurrentEpoch e) + length bs
    \<and> (uint (CurrentEpoch (fold advance bs e)) - uint (CurrentEpoch e)) * Duration e
        \<le> CurrentEpochStartTime (fold advance bs e) - CurrentEpochStartTime e"
  using assms
proof (induction bs arbitrary: e)
  case Nil
  then show ?case by simp
next
  case (Cons b bs)
  show ?case
  proof (cases "due b e")
    case False
    then have "advance b e = e" by (simp add: advance_def)
    then show ?thesis using Cons.IH [OF Cons.prems(1,2)] Cons.prems(3) by simp
  next
    case True
    let ?e = "advance b e"
    have e: "EpochCountingStarted ?e" "CurrentEpoch ?e = CurrentEpoch e + 1" "CurrentEpochStartTime ?e = BlockTime b"
      "CurrentEpochStartTime e + Duration e \<le> BlockTime b"
      using True Cons.prems(1) by (simp_all add: advance_def due_def)
    have "unat (CurrentEpoch e) + 1 < 2 ^ 64" using Cons.prems(3) by simp
    then have u: "unat (CurrentEpoch ?e) = unat (CurrentEpoch e) + 1"
      unfolding e(2) by (simp add: unat_word_ariths)
    have ui: "uint (CurrentEpoch ?e) = uint (CurrentEpoch e) + 1" using arg_cong [OF u, of int] by simp
    define n where "n = uint (CurrentEpoch (fold advance bs ?e)) - uint (CurrentEpoch ?e)"
    have ih: "EpochCountingStarted (fold advance bs ?e)"
      "unat (CurrentEpoch ?e) \<le> unat (CurrentEpoch (fold advance bs ?e))"
      "unat (CurrentEpoch (fold advance bs ?e)) \<le> unat (CurrentEpoch ?e) + length bs"
      "n * Duration e \<le> CurrentEpochStartTime (fold advance bs ?e) - BlockTime b"
      using Cons.IH [of ?e] e u Cons.prems by (simp_all add: n_def)
    have "uint (CurrentEpoch (fold advance bs ?e)) - uint (CurrentEpoch e) = n + 1"
      using ui unfolding n_def by simp
    moreover have "(n + 1) * Duration e \<le> CurrentEpochStartTime (fold advance bs ?e) - CurrentEpochStartTime e"
      using ih(4) e(4) by (simp add: algebra_simps)
    ultimately show ?thesis using ih u by simp
  qed
qed

text \<open>Over any run of blocks, an epoch that is counting never runs faster than its duration: its
  number grows by at most one a block, and the time its epochs started moves by at least the
  duration for every number counted.\<close>

theorem epochs_paced:
  assumes "runBlocks hooks bs s = Inr s'" and "epochs_keyed (Epochs s)" and "kv_get (Epochs s) i = Some e"
    and "EpochCountingStarted e" and "0 < Duration e" and "unat (CurrentEpoch e) + length bs < 2 ^ 64"
  shows "\<exists>e' n. kv_get (Epochs s') i = Some e' \<and> unat (CurrentEpoch e') = unat (CurrentEpoch e) + n
    \<and> n \<le> length bs \<and> int n * Duration e \<le> CurrentEpochStartTime e' - CurrentEpochStartTime e"
proof -
  let ?e = "fold advance bs e"
  have g: "kv_get (Epochs s') i = Some ?e" by (rule runBlocks_advance [OF assms(1-3)])
  note p = advance_paced [OF assms(4-6)]
  then obtain n where n: "unat (CurrentEpoch ?e) = unat (CurrentEpoch e) + n" using le_Suc_ex by blast
  then have "uint (CurrentEpoch ?e) - uint (CurrentEpoch e) = int n" by (simp add: uint_nat del: of_nat_unat)
  with n p g show ?thesis by auto
qed


section \<open>Hook calls\<close>

text \<open>A hook that records its calls shows what every hook of the list is called with.\<close>

datatype hook_call = After string "64 word" | Before string "64 word"

definition recorder :: "hook_call list epoch_hooks" where
  "recorder = \<lparr>AfterEpochEnd_hook = (\<lambda>_ i n h. Inr (h @ [After i n])),
     BeforeEpochStart_hook = (\<lambda>_ i n h. Inr (h @ [Before i n]))\<rparr>"

definition calls :: "block_ctx \<Rightarrow> epoch_info \<Rightarrow> hook_call list" where
  "calls ctx e =
     (if \<not> due ctx e then []
      else if EpochCountingStarted e
      then [After (Identifier e) (CurrentEpoch e), Before (Identifier e) (CurrentEpoch e + 1)]
      else [Before (Identifier e) 1])"

lemma beginEpoch_recorder:
  "\<exists>s'. beginEpoch [recorder] ctx e s = Inr s' \<and> hook_state s' = hook_state s @ calls ctx e"
proof (cases "BlockTime ctx < StartTime e")
  case True
  then show ?thesis by (simp add: beginEpoch_def calls_def due_def)
next
  case False
  show ?thesis using shouldEpochStart_due [OF False] False
    by (simp add: beginEpoch_def calls_def recorder_def Let_def)
qed

lemma beginEpochs_recorder:
  "\<exists>s'. beginEpochs [recorder] ctx es s = Inr s' \<and> hook_state s' = hook_state s @ concat (map (calls ctx) es)"
proof (induction es arbitrary: s)
  case Nil
  then show ?case by simp
next
  case (Cons e es)
  from beginEpoch_recorder [of ctx e s] obtain s1 where
    1: "beginEpoch [recorder] ctx e s = Inr s1" "hook_state s1 = hook_state s @ calls ctx e" by blast
  from Cons.IH [of s1] show ?case using 1 by auto
qed

text \<open>A hook is called for every due epoch in the order of the identifiers: the end of the
  epoch that is running first, with its number, then the start of the next number; a first epoch only
  starts, with number one; and a hook that does not panic lets the block end.\<close>

theorem hook_calls_in_order:
  "\<exists>s'. BeginBlocker [recorder] ctx s = Inr s'
     \<and> hook_state s' = hook_state s @ concat (map (calls ctx) (kv_values (Epochs s)))"
  unfolding BeginBlocker_def by (rule beginEpochs_recorder)


section \<open>Genesis\<close>

lemma AllEpochInfos_eq: "AllEpochInfos es = kv_values es"
proof -
  have "IterateEpochInfo (\<lambda>_ e acc. (acc @ [e], False)) i xs acc = acc @ xs" for i acc and xs :: "epoch_info list"
    by (induction xs arbitrary: i acc) simp_all
  then show ?thesis by (simp add: AllEpochInfos_def)
qed

lemma AddEpochInfo_Inr:
  "AddEpochInfo ctx e es = Inr es' \<longleftrightarrow> EpochInfo_Validate e = Inr () \<and> kv_get es (Identifier e) = None
     \<and> es' = kv_insert (Identifier e) (e\<lparr>StartTime := (if StartTime e = ZeroTime then BlockTime ctx else StartTime e),
         CurrentEpochStartHeight := BlockHeight ctx\<rparr>) es"
  by (cases e) (auto simp: AddEpochInfo_def EpochExists_def bindE_eq_Inr Let_def)

lemma epochs_InitGenesis_iff:
  "set seen = fst ` set es \<Longrightarrow>
    (\<exists>es'. epochs_InitGenesis ctx gs es = Inr es') = (epochs_Validate_from seen gs = Inr ())"
proof (induction gs arbitrary: es seen)
  case Nil
  then show ?case by simp
next
  case (Cons e gs)
  show ?case
  proof (cases "EpochInfo_Validate e = Inr () \<and> kv_get es (Identifier e) = None")
    case True
    then obtain es1 where a: "AddEpochInfo ctx e es = Inr es1" using AddEpochInfo_Inr by blast
    then have "set (Identifier e # seen) = fst ` set es1"
      using Cons.prems by (simp add: AddEpochInfo_Inr)
    moreover have "Identifier e \<notin> set seen" using True Cons.prems by (simp add: map_of_eq_None_iff)
    ultimately show ?thesis using Cons.IH [of "Identifier e # seen" es1] a True by (simp add: bindE_eq_Inr)
  next
    case False
    then have "\<nexists>x. AddEpochInfo ctx e es = Inr x" using AddEpochInfo_Inr by blast
    moreover have "\<not> (epochs_Validate_from seen (e # gs) = Inr ())"
      using False Cons.prems by (auto simp: bindE_eq_Inr map_of_eq_None_iff)
    ultimately show ?thesis by (auto simp: bindE_eq_Inr)
  qed
qed

text \<open>Importing a genesis into a chain without epochs succeeds exactly when the genesis passes
  its validation (unique identifiers, each epoch valid): the validation is complete for the panics
  of the import.\<close>

theorem epochs_genesis_valid_iff_imports:
  "(\<exists>es. epochs_InitGenesis ctx gs [] = Inr es) = (epochs_Validate gs = Inr ())"
  unfolding epochs_Validate_def by (rule epochs_InitGenesis_iff) simp


section \<open>Witnesses\<close>

definition ex_epoch :: epoch_info where
  "ex_epoch = \<lparr>Identifier = ''day'', StartTime = 0, Duration = 10, CurrentEpoch = 3, CurrentEpochStartTime = 100,
     EpochCountingStarted = True, CurrentEpochStartHeight = 5\<rparr>"

definition ex_epochs :: "hook_call list epochs_state" where
  "ex_epochs = \<lparr>Epochs = [(''day'', ex_epoch)], epoch_events = [], hook_state = []\<rparr>"

definition ex_block :: "int \<Rightarrow> block_ctx" where
  "ex_block t = \<lparr>BlockHeight = t, BlockTime = t\<rparr>"

lemma ex_epochs_keyed: "epochs_keyed (Epochs ex_epochs)"
  by (simp add: epochs_keyed_def ex_epochs_def ex_epoch_def)

lemma runs_recorder: "\<exists>s'. BeginBlocker [recorder] ctx s = Inr s'" "\<exists>s'. runBlocks [recorder] bs s = Inr s'"
proof -
  show b: "\<exists>s'. BeginBlocker [recorder] ctx s = Inr s'" for ctx s
    using beginEpochs_recorder [of ctx "kv_values (Epochs s)" s] by (auto simp: BeginBlocker_def)
  show "\<exists>s'. runBlocks [recorder] bs s = Inr s'"
  proof (induction bs arbitrary: s)
    case (Cons c cs)
    then show ?case using b [of c s] by (auto simp: bindE_eq_Inr)
  qed simp
qed

theorem BeginBlocker_refines_advance_witness:
  "\<exists>s'. BeginBlocker [recorder] (ex_block 117) ex_epochs = Inr s'
     \<and> map_option CurrentEpoch (kv_get (Epochs s') ''day'') = Some 4"
proof -
  obtain s' where b: "BeginBlocker [recorder] (ex_block 117) ex_epochs = Inr s'" using runs_recorder(1) by blast
  show ?thesis using b BeginBlocker_refines_advance [OF b ex_epochs_keyed]
    by (simp add: ex_epochs_def ex_epoch_def advance_def due_def ex_block_def)
qed

theorem no_epoch_overdue_witness:
  "\<exists>s' e. BeginBlocker [recorder] (ex_block 117) ex_epochs = Inr s' \<and> kv_get (Epochs s') ''day'' = Some e
     \<and> 117 < CurrentEpochStartTime e + Duration e"
proof -
  obtain s' where b: "BeginBlocker [recorder] (ex_block 117) ex_epochs = Inr s'" using runs_recorder(1) by blast
  have "runBlocks [recorder] [ex_block 117] ex_epochs = Inr s'" using b by simp
  from runBlocks_advance [OF this ex_epochs_keyed, of "''day''" ex_epoch]
  obtain e where e: "kv_get (Epochs s') ''day'' = Some e" "StartTime e = 0" "Duration e = 10"
    by (simp add: ex_epochs_def ex_epoch_def)
  show ?thesis using b e no_epoch_overdue [OF b ex_epochs_keyed e(1)] by (simp add: ex_block_def)
qed

theorem epochs_paced_witness:
  "\<exists>s' e'. runBlocks [recorder] [ex_block 104, ex_block 117] ex_epochs = Inr s'
     \<and> kv_get (Epochs s') ''day'' = Some e' \<and> unat (CurrentEpoch e') \<le> 5"
proof -
  obtain s' where r: "runBlocks [recorder] [ex_block 104, ex_block 117] ex_epochs = Inr s'"
    using runs_recorder(2) by blast
  have e: "kv_get (Epochs ex_epochs) ''day'' = Some ex_epoch" by (simp add: ex_epochs_def)
  have "unat (CurrentEpoch ex_epoch) = 3" by (simp add: ex_epoch_def)
  then show ?thesis
    using r epochs_paced [OF r ex_epochs_keyed e] by (auto simp: ex_epoch_def)
qed

end
