(* ===== verification/Sudo.thy ===== *)
theory Sudo
  imports Sdk_Reference "HOL-Library.Multiset"
begin

text \<open>
  The sudo module (\<^verbatim>\<open>x/sudo\<close>): a root account edits the set of contracts with elevated rights.
  The set type it uses (\<^verbatim>\<open>x/common/set\<close>) is a Go map, whose iteration order is not specified: the order
  in which \<open>ToSlice\<close> lists a set is a parameter, a permutation of its elements.
\<close>

section \<open>Sets as Go maps\<close>

type_synonym 'a go_set = "'a list"

definition set_Add :: "'a \<Rightarrow> 'a go_set \<Rightarrow> 'a go_set" where
  "set_Add x s = (if x \<in> set s then s else s @ [x])"

definition set_Remove :: "'a \<Rightarrow> 'a go_set \<Rightarrow> 'a go_set" where
  "set_Remove x s = filter (\<lambda>y. y \<noteq> x) s"

definition set_Has :: "'a go_set \<Rightarrow> 'a \<Rightarrow> bool" where
  "set_Has s x \<longleftrightarrow> x \<in> set s"

definition set_ToSlice :: "('a list \<Rightarrow> 'a list) \<Rightarrow> 'a go_set \<Rightarrow> 'a list" where
  "set_ToSlice order s = order s"

definition set_Len :: "('a list \<Rightarrow> 'a list) \<Rightarrow> 'a go_set \<Rightarrow> nat" where
  "set_Len order s = length (set_ToSlice order s)"

definition set_New :: "'a list \<Rightarrow> 'a go_set" where
  "set_New strs = fold set_Add strs []"

text \<open>An iteration order lists every element of a map exactly once.\<close>

definition order_ok :: "('a list \<Rightarrow> 'a list) \<Rightarrow> bool" where
  "order_ok order \<longleftrightarrow> (\<forall>s. mset (order s) = mset s)"

locale set_interface =
  fixes new :: "'a list \<Rightarrow> 's" and add :: "'a \<Rightarrow> 's \<Rightarrow> 's" and remove :: "'a \<Rightarrow> 's \<Rightarrow> 's"
    and has :: "'s \<Rightarrow> 'a \<Rightarrow> bool" and elems :: "'s \<Rightarrow> 'a set" and inv :: "'s \<Rightarrow> bool"
  assumes new_spec: "elems (new xs) = List.set xs \<and> inv (new xs)"
    and add_spec: "inv s \<Longrightarrow> elems (add x s) = insert x (elems s) \<and> inv (add x s)"
    and remove_spec: "inv s \<Longrightarrow> elems (remove x s) = elems s - {x} \<and> inv (remove x s)"
    and has_spec: "inv s \<Longrightarrow> has s x \<longleftrightarrow> x \<in> elems s"
begin

lemma fold_add: "inv s \<Longrightarrow> elems (fold add xs s) = elems s \<union> List.set xs \<and> inv (fold add xs s)"
  by (induction xs arbitrary: s) (auto simp: add_spec)

lemma fold_remove: "inv s \<Longrightarrow> elems (fold remove xs s) = elems s - List.set xs \<and> inv (fold remove xs s)"
  by (induction xs arbitrary: s) (auto simp: remove_spec)

lemma add_remove: "inv s \<Longrightarrow> has (remove x (add x s)) x = False"
  by (simp add: add_spec remove_spec has_spec)

end

lemma set_New_spec: "set (fold set_Add xs s) = set s \<union> set xs \<and> (distinct s \<longrightarrow> distinct (fold set_Add xs s))"
  by (induction xs arbitrary: s) (auto simp: set_Add_def)

interpretation go: set_interface set_New set_Add set_Remove set_Has set distinct
proof
  show "set (set_New xs) = set xs \<and> distinct (set_New xs)" for xs :: "'a list"
    using set_New_spec [of xs "[]"] by (simp add: set_New_def)
qed (auto simp: set_Add_def set_Remove_def set_Has_def)

lemma order_ok_set: "order_ok order \<Longrightarrow> set (order s) = set s"
  by (metis order_ok_def set_mset_mset)

lemma order_ok_distinct: "order_ok order \<Longrightarrow> distinct (order s) = distinct s"
  by (metis order_ok_def mset_eq_imp_distinct_iff)


section \<open>The module's state and messages\<close>

record pb_sudoers =
  Root :: string
  Contracts :: "string list"

definition AddContracts_action :: string where "AddContracts_action = ''add_contracts''"
definition RemoveContracts_action :: string where "RemoveContracts_action = ''remove_contracts''"

definition ROOT_ACTIONS :: "string go_set" where
  "ROOT_ACTIONS = set_New [AddContracts_action, RemoveContracts_action]"

record msg_edit_sudoers =
  me_Sender :: string
  me_Action :: string
  me_Contracts :: "string list"

datatype sudo_error = SudoBech32 | InvalidAction | NotRoot | SudoersNotSet | NilContracts | SudoPanic sudo_error

record sudo_state =
  Sudoers_item :: "pb_sudoers option"
  sudo_events :: "(pb_sudoers \<times> string) list"

fun addresses_valid :: "'b sdk \<Rightarrow> string list \<Rightarrow> sudo_error + unit" where
  "addresses_valid E [] = Inr ()"
| "addresses_valid E (c # cs) =
     bindE (getE SudoBech32 (AccAddressFromBech32 E c)) (\<lambda>_. addresses_valid E cs)"

definition Sudoers_Validate :: "'b sdk \<Rightarrow> pb_sudoers \<Rightarrow> sudo_error + unit" where
  "Sudoers_Validate E sudo = addresses_valid E (Contracts sudo)"

definition MsgEditSudoers_ValidateBasic :: "'b sdk \<Rightarrow> msg_edit_sudoers \<Rightarrow> sudo_error + unit" where
  "MsgEditSudoers_ValidateBasic E m =
     bindE (getE SudoBech32 (AccAddressFromBech32 E (me_Sender m))) (\<lambda>_.
     bindE (addresses_valid E (me_Contracts m)) (\<lambda>_.
     checkE (set_Has ROOT_ACTIONS (me_Action m)) InvalidAction))"


section \<open>The keeper\<close>

record sudoers =
  sd_Root :: string
  sd_Contracts :: "string go_set"

definition FromPb :: "pb_sudoers \<Rightarrow> sudoers" where
  "FromPb p = \<lparr>sd_Root = Root p, sd_Contracts = set_New (Contracts p)\<rparr>"

definition ToPb :: "(string list \<Rightarrow> string list) \<Rightarrow> sudoers \<Rightarrow> pb_sudoers" where
  "ToPb order s = \<lparr>Root = sd_Root s, Contracts = set_ToSlice order (sd_Contracts s)\<rparr>"

definition SenderHasPermission :: "string \<Rightarrow> string \<Rightarrow> sudo_error + unit" where
  "SenderHasPermission sender root = checkE (sender = root) NotRoot"

fun Sudoers_AddContracts :: "'b sdk \<Rightarrow> string list \<Rightarrow> string go_set \<Rightarrow> sudo_error + string go_set" where
  "Sudoers_AddContracts E [] cs = Inr cs"
| "Sudoers_AddContracts E (c # rest) cs =
     bindE (getE SudoBech32 (AccAddressFromBech32 E c)) (\<lambda>contract.
     Sudoers_AddContracts E rest (set_Add (AccAddressString E contract) cs))"

definition Sudoers_RemoveContracts :: "string list \<Rightarrow> string go_set \<Rightarrow> string go_set" where
  "Sudoers_RemoveContracts contracts cs = fold set_Remove contracts cs"

definition k_AddContracts :: "'b sdk \<Rightarrow> (string list \<Rightarrow> string list) \<Rightarrow> msg_edit_sudoers \<Rightarrow> sudo_state \<Rightarrow>
    sudo_error + sudo_state" where
  "k_AddContracts E order m s =
     bindE (checkE (me_Action m = AddContracts_action) InvalidAction) (\<lambda>_.
     bindE (getE SudoersNotSet (Sudoers_item s)) (\<lambda>pbSudoersBefore.
     let sudoersBefore = FromPb pbSudoersBefore in
     bindE (SenderHasPermission (me_Sender m) (sd_Root sudoersBefore)) (\<lambda>_.
     bindE (Sudoers_AddContracts E (me_Contracts m) (sd_Contracts sudoersBefore)) (\<lambda>contracts.
     let pbSudoers = ToPb order \<lparr>sd_Root = sd_Root sudoersBefore, sd_Contracts = contracts\<rparr> in
     Inr (s\<lparr>Sudoers_item := Some pbSudoers, sudo_events := sudo_events s @ [(pbSudoers, me_Action m)]\<rparr>)))))"

definition k_RemoveContracts :: "(string list \<Rightarrow> string list) \<Rightarrow> msg_edit_sudoers \<Rightarrow> sudo_state \<Rightarrow>
    sudo_error + sudo_state" where
  "k_RemoveContracts order m s =
     bindE (checkE (me_Action m = RemoveContracts_action) InvalidAction) (\<lambda>_.
     bindE (getE SudoersNotSet (Sudoers_item s)) (\<lambda>pbSudoers.
     let sudoers = FromPb pbSudoers in
     bindE (SenderHasPermission (me_Sender m) (sd_Root sudoers)) (\<lambda>_.
     let sudoers' = sudoers\<lparr>sd_Contracts := Sudoers_RemoveContracts (me_Contracts m) (sd_Contracts sudoers)\<rparr>;
         pbSudoers' = ToPb order sudoers'
     in Inr (s\<lparr>Sudoers_item := Some pbSudoers', sudo_events := sudo_events s @ [(pbSudoers', me_Action m)]\<rparr>))))"

definition EditSudoers :: "'b sdk \<Rightarrow> (string list \<Rightarrow> string list) \<Rightarrow> msg_edit_sudoers \<Rightarrow> sudo_state \<Rightarrow>
    sudo_error + sudo_state" where
  "EditSudoers E order m s =
     bindE (MsgEditSudoers_ValidateBasic E m) (\<lambda>_.
     if me_Action m = AddContracts_action then k_AddContracts E order m s
     else if me_Action m = RemoveContracts_action then k_RemoveContracts order m s
     else Inl InvalidAction)"

definition GetSudoContracts :: "sudo_state \<Rightarrow> sudo_error + string list" where
  "GetSudoContracts s = bindE (getE SudoersNotSet (Sudoers_item s)) (\<lambda>p. Inr (Contracts p))"

definition QuerySudoers :: "sudo_state \<Rightarrow> sudo_error + pb_sudoers" where
  "QuerySudoers s = getE SudoersNotSet (Sudoers_item s)"

text \<open>A genesis has its contracts as a slice that may be nil.\<close>

definition sudo_GenesisState_Validate :: "'b sdk \<Rightarrow> string \<Rightarrow> string list option \<Rightarrow> sudo_error + unit" where
  "sudo_GenesisState_Validate E root contracts =
     (case contracts of
        None \<Rightarrow> Inl NilContracts
      | Some cs \<Rightarrow> Sudoers_Validate E \<lparr>Root = root, Contracts = cs\<rparr>)"

definition sudo_InitGenesis :: "'b sdk \<Rightarrow> string \<Rightarrow> string list option \<Rightarrow> sudo_state \<Rightarrow> sudo_error + sudo_state" where
  "sudo_InitGenesis E root contracts s =
     bindE (mapErr SudoPanic (sudo_GenesisState_Validate E root contracts)) (\<lambda>_.
     Inr (s\<lparr>Sudoers_item := Some \<lparr>Root = root, Contracts = (case contracts of None \<Rightarrow> [] | Some cs \<Rightarrow> cs)\<rparr>\<rparr>))"

definition sudo_ExportGenesis :: "sudo_state \<Rightarrow> sudo_error + pb_sudoers" where
  "sudo_ExportGenesis s = mapErr SudoPanic (getE SudoersNotSet (Sudoers_item s))"

definition sudo_DefaultGenesis :: pb_sudoers where
  "sudo_DefaultGenesis = \<lparr>Root = [], Contracts = []\<rparr>"


section \<open>What an edit does\<close>

definition canonical :: "'b sdk \<Rightarrow> string \<Rightarrow> string" where
  "canonical E c = (case AccAddressFromBech32 E c of None \<Rightarrow> c | Some a \<Rightarrow> AccAddressString E a)"

lemma Sudoers_AddContracts_Inr:
  "Sudoers_AddContracts E cs acc = Inr out \<Longrightarrow> distinct acc \<Longrightarrow>
    set out = set acc \<union> canonical E ` set cs \<and> distinct out"
proof (induction E cs acc rule: Sudoers_AddContracts.induct)
  case (2 E c rest cs)
  then obtain a where a: "AccAddressFromBech32 E c = Some a"
    and r: "Sudoers_AddContracts E rest (set_Add (AccAddressString E a) cs) = Inr out"
    by (auto simp: bindE_eq_Inr getE_eq_Inr)
  have "canonical E c = AccAddressString E a" by (simp add: canonical_def a)
  then show ?case using "2.IH" [of a] r a go.add_spec [OF "2.prems"(2), of "AccAddressString E a"] by auto
qed simp

lemma EditSudoers_Inr:
  assumes "EditSudoers E order m s = Inr s'"
  obtains (add) p out where "me_Action m = AddContracts_action" and "Sudoers_item s = Some p" and "me_Sender m = Root p"
      and "Sudoers_AddContracts E (me_Contracts m) (set_New (Contracts p)) = Inr out"
      and "Sudoers_item s' = Some \<lparr>Root = Root p, Contracts = order out\<rparr>"
  | (remove) p where "me_Action m = RemoveContracts_action" and "Sudoers_item s = Some p" and "me_Sender m = Root p"
      and "Sudoers_item s' = Some \<lparr>Root = Root p,
             Contracts = order (fold set_Remove (me_Contracts m) (set_New (Contracts p)))\<rparr>"
  using assms
  by (auto simp: EditSudoers_def k_AddContracts_def k_RemoveContracts_def bindE_eq_Inr getE_eq_Inr Let_def
      SenderHasPermission_def FromPb_def ToPb_def set_ToSlice_def Sudoers_RemoveContracts_def split: if_splits)


lemma addresses_valid_iff: "addresses_valid E cs = Inr () \<longleftrightarrow> (\<forall>c \<in> set cs. AccAddressFromBech32 E c \<noteq> None)"
  by (induction cs) (auto simp: bindE_eq_Inr getE_eq_Inr)

text \<open>The stored sudoers stay valid: if every stored contract is an address, so is every one after
  an edit.\<close>

theorem EditSudoers_keeps_valid:
  assumes "addr_laws E" and "order_ok order" and "EditSudoers E order m s = Inr s'"
    and "Sudoers_item s = Some p" and "Sudoers_Validate E p = Inr ()" and "Sudoers_item s' = Some p'"
  shows "Sudoers_Validate E p' = Inr ()"
  using assms(3)
proof (cases rule: EditSudoers_Inr)
  case (add p0 out)
  have "AccAddressFromBech32 E (canonical E c) \<noteq> None" if "AccAddressFromBech32 E c \<noteq> None" for c
    using that assms(1) by (auto simp: canonical_def addr_laws_def)
  moreover have "\<forall>c \<in> set (me_Contracts m). AccAddressFromBech32 E c \<noteq> None"
    using assms(3) by (auto simp: EditSudoers_def MsgEditSudoers_ValidateBasic_def bindE_eq_Inr addresses_valid_iff)
  ultimately show ?thesis
    using add Sudoers_AddContracts_Inr [OF add(4)] go.new_spec [of "Contracts p0"] assms
    by (auto simp: Sudoers_Validate_def addresses_valid_iff order_ok_set)
next
  case (remove p0)
  with go.fold_remove [of "set_New (Contracts p0)" "me_Contracts m"] go.new_spec [of "Contracts p0"] assms
  show ?thesis by (auto simp: Sudoers_Validate_def addresses_valid_iff order_ok_set)
qed

text \<open>The module stores the contracts in the order in which a Go map happens to be iterated: two
  nodes that iterate it differently store different states for the same message.\<close>

theorem EditSudoers_depends_on_map_order:
  "\<exists>order1 order2 m s s1 s2. order_ok order1 \<and> order_ok order2
     \<and> EditSudoers ref_sdk order1 m s = Inr s1 \<and> EditSudoers ref_sdk order2 m s = Inr s2
     \<and> Sudoers_item s1 \<noteq> Sudoers_item s2"
proof -
  let ?m = "\<lparr>me_Sender = ''nroot'', me_Action = AddContracts_action, me_Contracts = [''na'', ''nb'']\<rparr>"
  let ?s = "\<lparr>Sudoers_item = Some \<lparr>Root = ''nroot'', Contracts = []\<rparr>, sudo_events = []\<rparr>"
  have r: "EditSudoers ref_sdk order ?m ?s = Inr (?s\<lparr>Sudoers_item := Some \<lparr>Root = ''nroot'', Contracts = order [''na'', ''nb'']\<rparr>,
      sudo_events := [(\<lparr>Root = ''nroot'', Contracts = order [''na'', ''nb'']\<rparr>, AddContracts_action)]\<rparr>)" for order
    by (simp add: EditSudoers_def k_AddContracts_def MsgEditSudoers_ValidateBasic_def ROOT_ACTIONS_def
        AddContracts_action_def RemoveContracts_action_def set_New_def set_Add_def set_Has_def FromPb_def ToPb_def
        SenderHasPermission_def set_ToSlice_def ref_sdk_sel Let_def)
  have "order_ok (\<lambda>x. x)" "order_ok rev" by (simp_all add: order_ok_def)
  then show ?thesis using r [of "\<lambda>x. x"] r [of rev] by fastforce
qed


section \<open>Witnesses\<close>

definition ex_sudo :: sudo_state where
  "ex_sudo = \<lparr>Sudoers_item = Some \<lparr>Root = ''nroot'', Contracts = [''na'', ''nb'']\<rparr>, sudo_events = []\<rparr>"

definition ex_edit :: msg_edit_sudoers where
  "ex_edit = \<lparr>me_Sender = ''nroot'', me_Action = RemoveContracts_action, me_Contracts = [''na'']\<rparr>"

lemma ex_edit_result:
  "EditSudoers ref_sdk rev ex_edit ex_sudo = Inr (ex_sudo\<lparr>Sudoers_item := Some \<lparr>Root = ''nroot'', Contracts = [''nb'']\<rparr>,
     sudo_events := [(\<lparr>Root = ''nroot'', Contracts = [''nb'']\<rparr>, RemoveContracts_action)]\<rparr>)"
  by code_simp

lemma rev_order_ok: "order_ok rev"
  by (simp add: order_ok_def)


theorem EditSudoers_keeps_valid_witness:
  "Sudoers_Validate ref_sdk \<lparr>Root = ''nroot'', Contracts = [''nb'']\<rparr> = Inr ()"
proof (rule EditSudoers_keeps_valid [OF ref_sdk_addr_laws rev_order_ok ex_edit_result])
  show "Sudoers_item ex_sudo = Some \<lparr>Root = ''nroot'', Contracts = [''na'', ''nb'']\<rparr>" by (simp add: ex_sudo_def)
  show "Sudoers_Validate ref_sdk \<lparr>Root = ''nroot'', Contracts = [''na'', ''nb'']\<rparr> = Inr ()" by code_simp
qed simp

end
