(* ===== verification/Oracle_Sdk.thy ===== *)
theory Oracle_Sdk
  imports Epochs Sudo Sdk_Reference "HOL-Library.Multiset"
begin

text \<open>
  What the oracle module uses of the SDK and of Go's standard library.  The keepers of
  \<^verbatim>\<open>x/oracle/types/expected_keeper.go\<close> (staking, distribution, accounts, bank), the coin sets,
  the address and decimal formats and the hash are the fields of the record \<open>chain_sdk\<close>, which extends
  the record \<open>sdk\<close>; the state of all those modules is the one type \<open>'b\<close>.  Here transfers carry a set
  of coins; their contract is the locale \<open>coins_bank\<close>.  The parts of the standard
  library (\<open>encoding/hex\<close>, the floating-point square root of \<open>StandardDeviation\<close>) are definitions.
\<close>

section \<open>The SDK\<close>

record validator =
  v_IsBonded :: bool
  v_IsJailed :: bool
  v_Operator :: addr
  v_ConsAddr :: "string option"
  v_ConsensusPower :: "int \<Rightarrow> int"

record dec_coin =
  dc_Denom :: denom
  dc_Amount :: dec

record 'b chain_sdk = "'b sdk" +
  ValAddressFromBech32 :: "string \<Rightarrow> addr option"
  ValAddressString :: "addr \<Rightarrow> string"
  NewDecFromStr :: "string \<Rightarrow> dec option"
  DecString :: "dec \<Rightarrow> string"
  tmhash_Truncated :: "string \<Rightarrow> string"
  TokensToConsensusPower :: "int \<Rightarrow> int \<Rightarrow> int"
  Validator :: "'b \<Rightarrow> addr \<Rightarrow> validator option"
  TotalBondedTokens :: "'b \<Rightarrow> int"
  PowerReduction :: "'b \<Rightarrow> int"
  MaxValidators :: "'b \<Rightarrow> 32 word"
  ValidatorsPowerStoreIterator :: "'b \<Rightarrow> addr list"
  Slash :: "'b \<Rightarrow> string \<Rightarrow> int \<Rightarrow> int \<Rightarrow> dec \<Rightarrow> 'b"
  Jail :: "'b \<Rightarrow> string \<Rightarrow> 'b"
  AllocateTokensToValidator :: "'b \<Rightarrow> validator \<Rightarrow> dec_coin list \<Rightarrow> 'b"
  HasModuleAccount :: "'b \<Rightarrow> string \<Rightarrow> bool"
  GetAllBalances :: "'b \<Rightarrow> addr \<Rightarrow> coin list"
  SendCoins_ModuleToModule :: "'b \<Rightarrow> string \<Rightarrow> string \<Rightarrow> coin list \<Rightarrow> string + 'b"
  Coins_Add :: "coin list \<Rightarrow> coin list \<Rightarrow> coin list"
  NewDecCoinsFromCoins :: "coin list \<Rightarrow> dec_coin list"
  DecCoins_Add :: "dec_coin list \<Rightarrow> dec_coin list \<Rightarrow> dec_coin list"
  DecCoins_MulDec :: "dec_coin list \<Rightarrow> dec \<Rightarrow> dec_coin list"
  DecCoins_TruncateDecimal :: "dec_coin list \<Rightarrow> coin list \<times> dec_coin list"

definition AmountOf :: "coin list \<Rightarrow> denom \<Rightarrow> int" where
  "AmountOf cs d = sum_list (map (\<lambda>c. if Denom c = d then Amount c else 0) cs)"

definition DecAmountOf :: "dec_coin list \<Rightarrow> denom \<Rightarrow> dec" where
  "DecAmountOf cs d = sum_list (map (\<lambda>c. if dc_Denom c = d then dc_Amount c else 0) cs)"

lemma AmountOf_simps [simp]:
  "AmountOf [] d = 0"
  "AmountOf (c # cs) d = (if Denom c = d then Amount c else 0) + AmountOf cs d"
  "AmountOf (cs @ cs') d = AmountOf cs d + AmountOf cs' d"
  by (simp_all add: AmountOf_def)

lemma AmountOf_absent: "d \<notin> Denom ` set cs \<Longrightarrow> AmountOf cs d = 0"
  by (induction cs) auto

lemma AmountOf_member: "distinct (map Denom cs) \<Longrightarrow> c \<in> set cs \<Longrightarrow> AmountOf cs (Denom c) = Amount c"
  by (induction cs) (auto simp: AmountOf_absent)

text \<open>A set of coins is valid when its denominations increase and every amount is positive.\<close>

definition coins_valid :: "coin list \<Rightarrow> bool" where
  "coins_valid cs \<longleftrightarrow> sorted_wrt (<) (map Denom cs) \<and> (\<forall>c \<in> set cs. 0 < Amount c)"

lemma coins_valid_simps [simp]:
  "coins_valid []"
  "coins_valid (c # cs) \<longleftrightarrow> 0 < Amount c \<and> (\<forall>c' \<in> set cs. Denom c < Denom c') \<and> coins_valid cs"
  by (auto simp: coins_valid_def)

lemma coins_valid_distinct: "coins_valid cs \<Longrightarrow> distinct (map Denom cs)"
  by (induction cs) auto

definition move_coins :: "addr \<Rightarrow> addr \<Rightarrow> coin list \<Rightarrow> (addr \<Rightarrow> denom \<Rightarrow> int) \<Rightarrow> addr \<Rightarrow> denom \<Rightarrow> int" where
  "move_coins src dst cs bal a d =
     bal a d + (if a = dst then AmountOf cs d else 0) - (if a = src then AmountOf cs d else 0)"


section \<open>Contracts\<close>

locale coins_bank =
  fixes bal :: "'b \<Rightarrow> addr \<Rightarrow> denom \<Rightarrow> int"
    and all :: "'b \<Rightarrow> addr \<Rightarrow> coin list"
    and modAddr :: "string \<Rightarrow> addr"
    and send :: "'b \<Rightarrow> string \<Rightarrow> string \<Rightarrow> coin list \<Rightarrow> string + 'b"
  assumes send_ok: "send b m n cs = Inr b' \<Longrightarrow>
      coins_valid cs \<and> bal b' = move_coins (modAddr m) (modAddr n) cs (bal b)"
    and send_enough: "coins_valid cs \<Longrightarrow> (\<forall>d. AmountOf cs d \<le> bal b (modAddr m) d) \<Longrightarrow>
      \<exists>b'. send b m n cs = Inr b'"
    and all_balances: "coins_valid (all b a) \<and> AmountOf (all b a) d = bal b a d"
begin

lemma send_invalid: "\<not> coins_valid cs \<Longrightarrow> \<exists>e. send b m n cs = Inl e"
  by (cases "send b m n cs") (auto dest: send_ok)

lemma send_moves:
  assumes "send b m n cs = Inr b'" and "modAddr m \<noteq> modAddr n"
  shows "bal b' (modAddr m) d = bal b (modAddr m) d - AmountOf cs d"
    and "bal b' (modAddr n) d = bal b (modAddr n) d + AmountOf cs d"
    and "a \<noteq> modAddr m \<Longrightarrow> a \<noteq> modAddr n \<Longrightarrow> bal b' a d = bal b a d"
  using send_ok [OF assms(1)] assms(2) by (auto simp: move_coins_def)

end

definition coins_laws :: "'b chain_sdk \<Rightarrow> bool" where
  "coins_laws E \<longleftrightarrow> coins_bank (GetBalance E) (GetAllBalances E) (GetModuleAddress E) (SendCoins_ModuleToModule E)"

lemma coins_lawsD: "coins_laws E \<Longrightarrow>
    coins_bank (GetBalance E) (GetAllBalances E) (GetModuleAddress E) (SendCoins_ModuleToModule E)"
  by (simp add: coins_laws_def)

text \<open>Arithmetic on sorted coin sets works denomination by denomination and keeps them sorted.\<close>

abbreviation coins_sorted :: "coin list \<Rightarrow> bool" where
  "coins_sorted cs \<equiv> sorted_wrt (<) (map Denom cs)"

abbreviation deccoins_sorted :: "dec_coin list \<Rightarrow> bool" where
  "deccoins_sorted cs \<equiv> sorted_wrt (<) (map dc_Denom cs)"

locale coin_sets =
  fixes add :: "coin list \<Rightarrow> coin list \<Rightarrow> coin list"
    and todec :: "coin list \<Rightarrow> dec_coin list"
    and decadd :: "dec_coin list \<Rightarrow> dec_coin list \<Rightarrow> dec_coin list"
    and muldec :: "dec_coin list \<Rightarrow> dec \<Rightarrow> dec_coin list"
    and trunc :: "dec_coin list \<Rightarrow> coin list \<times> dec_coin list"
    and mul :: "dec \<Rightarrow> dec \<Rightarrow> dec"
    and truncInt :: "dec \<Rightarrow> int"
  assumes add_coins: "coins_sorted a \<Longrightarrow> coins_sorted b \<Longrightarrow>
      coins_sorted (add a b) \<and> AmountOf (add a b) d = AmountOf a d + AmountOf b d"
    and add_swap: "coins_sorted a \<Longrightarrow> coins_sorted b \<Longrightarrow> coins_sorted c \<Longrightarrow> add (add a b) c = add (add a c) b"
    and todec_coins: "coins_sorted a \<Longrightarrow>
      deccoins_sorted (todec a) \<and> DecAmountOf (todec a) d = NewDec (AmountOf a d)"
    and decadd_coins: "deccoins_sorted x \<Longrightarrow> deccoins_sorted y \<Longrightarrow>
      deccoins_sorted (decadd x y) \<and> DecAmountOf (decadd x y) d = DecAmountOf x d + DecAmountOf y d"
    and muldec_coins: "deccoins_sorted x \<Longrightarrow>
      deccoins_sorted (muldec x r) \<and> DecAmountOf (muldec x r) d = mul (DecAmountOf x d) r"
    and trunc_coins: "deccoins_sorted x \<Longrightarrow>
      coins_sorted (fst (trunc x)) \<and> AmountOf (fst (trunc x)) d = truncInt (DecAmountOf x d)"
begin

lemma fold_add:
  assumes "\<forall>c \<in> set css. coins_sorted c" and "coins_sorted a"
  shows "coins_sorted (fold (\<lambda>c acc. add acc c) css a)"
    and "AmountOf (fold (\<lambda>c acc. add acc c) css a) d = AmountOf a d + sum_list (map (\<lambda>c. AmountOf c d) css)"
  using assms by (induction css arbitrary: a) (simp_all add: add_coins)

lemma portion:
  assumes "coins_sorted a"
  shows "coins_sorted (fst (trunc (muldec (decadd [] (todec a)) r)))"
    and "AmountOf (fst (trunc (muldec (decadd [] (todec a)) r))) d = truncInt (mul (NewDec (AmountOf a d)) r)"
  using assms by (simp_all add: todec_coins decadd_coins muldec_coins trunc_coins DecAmountOf_def [of "[]"])

end

definition coinset_laws :: "'b chain_sdk \<Rightarrow> bool" where
  "coinset_laws E \<longleftrightarrow> coin_sets (Coins_Add E) (NewDecCoinsFromCoins E) (DecCoins_Add E) (DecCoins_MulDec E)
     (DecCoins_TruncateDecimal E) (dec_Mul E) (dec_TruncateInt E)"

lemma coinset_lawsD: "coinset_laws E \<Longrightarrow> coin_sets (Coins_Add E) (NewDecCoinsFromCoins E) (DecCoins_Add E)
    (DecCoins_MulDec E) (DecCoins_TruncateDecimal E) (dec_Mul E) (dec_TruncateInt E)"
  by (simp add: coinset_laws_def)

text \<open>Operator addresses and decimals are read back as they are written; a written decimal has only
  digits, a point and a sign.\<close>

definition format_laws :: "'b chain_sdk \<Rightarrow> bool" where
  "format_laws E \<longleftrightarrow>
     (\<forall>a. ValAddressFromBech32 E (ValAddressString E a) = Some a) \<and>
     (\<forall>x. NewDecFromStr E (DecString E x) = Some x \<and> set (DecString E x) \<subseteq> set ''-.0123456789'')"

text \<open>Denominations are non-empty and consist of letters, digits, slashes and dashes.\<close>

definition denom_laws :: "'b chain_sdk \<Rightarrow> bool" where
  "denom_laws E \<longleftrightarrow> (\<forall>d. ValidateDenom E d \<longrightarrow> d \<noteq> [] \<and> set d \<inter> set '':,|()'' = {})"

text \<open>Rewards are added to what a validator has been allocated, in any order, and leave the validators as
  they are.\<close>

definition alloc_laws :: "'b chain_sdk \<Rightarrow> bool" where
  "alloc_laws E \<longleftrightarrow>
     (\<forall>b v cs a. Validator E (AllocateTokensToValidator E b v cs) a = Validator E b a) \<and>
     (\<forall>b v cs a. GetBalance E (AllocateTokensToValidator E b v cs) a = GetBalance E b a) \<and>
     (\<forall>b v cs w ds. AllocateTokensToValidator E (AllocateTokensToValidator E b v cs) w ds =
        AllocateTokensToValidator E (AllocateTokensToValidator E b w ds) v cs)"

end
