(* ===== verification/Oracle_Reference.thy ===== *)
theory Oracle_Reference
  imports Oracle_Sdk
begin

text \<open>
  A concrete chain that satisfies the contracts of \<open>chain_sdk\<close>: balances in a finite table,
  validators in a table, and a record of slashes and allocations.  The witnesses of the oracle
  theories evaluate the model on it.
\<close>

section \<open>Coin sets\<close>

definition ref_coins :: "(denom \<Rightarrow> int) \<Rightarrow> denom list \<Rightarrow> coin list" where
  "ref_coins f ds = map (\<lambda>d. \<lparr>Denom = d, Amount = f d\<rparr>) (sorted_list_of_set (set (filter (\<lambda>d. f d \<noteq> 0) ds)))"

definition ref_deccoins :: "(denom \<Rightarrow> dec) \<Rightarrow> denom list \<Rightarrow> dec_coin list" where
  "ref_deccoins f ds =
     map (\<lambda>d. \<lparr>dc_Denom = d, dc_Amount = f d\<rparr>) (sorted_list_of_set (set (filter (\<lambda>d. f d \<noteq> 0) ds)))"

lemma sum_list_pick: "distinct ds \<Longrightarrow> (\<Sum>x\<leftarrow>ds. if x = d then f x else (0 :: int)) = (if d \<in> set ds then f d else 0)"
  by (induction ds) auto

lemma AmountOf_ref_coins: "(f d \<noteq> 0 \<Longrightarrow> d \<in> set ds) \<Longrightarrow> AmountOf (ref_coins f ds) d = f d"
  by (auto simp: AmountOf_def ref_coins_def o_def sum_list_pick)

lemma DecAmountOf_ref_deccoins: "(f d \<noteq> 0 \<Longrightarrow> d \<in> set ds) \<Longrightarrow> DecAmountOf (ref_deccoins f ds) d = f d"
  by (auto simp: DecAmountOf_def ref_deccoins_def o_def sum_list_pick)

lemma ref_coins_sorted: "coins_sorted (ref_coins f ds)" "deccoins_sorted (ref_deccoins g ds)"
  by (simp_all add: ref_coins_def ref_deccoins_def o_def)

lemma ref_coins_cong: "(\<And>d. f d = g d) \<Longrightarrow> {d \<in> set ds. f d \<noteq> 0} = {d \<in> set es. g d \<noteq> 0} \<Longrightarrow>
    ref_coins f ds = ref_coins g es"
  by (simp add: ref_coins_def)

lemma AmountOf_nonzero: "AmountOf cs d \<noteq> 0 \<Longrightarrow> d \<in> Denom ` set cs"
  using AmountOf_absent by blast

lemma DecAmountOf_nonzero: "DecAmountOf cs d \<noteq> 0 \<Longrightarrow> d \<in> dc_Denom ` set cs"
  by (induction cs) (auto simp: DecAmountOf_def split: if_splits)

definition ref_add :: "coin list \<Rightarrow> coin list \<Rightarrow> coin list" where
  "ref_add a b = ref_coins (\<lambda>d. AmountOf a d + AmountOf b d) (map Denom (a @ b))"

definition ref_todec :: "coin list \<Rightarrow> dec_coin list" where
  "ref_todec a = ref_deccoins (\<lambda>d. NewDec (AmountOf a d)) (map Denom a)"

definition ref_decadd :: "dec_coin list \<Rightarrow> dec_coin list \<Rightarrow> dec_coin list" where
  "ref_decadd a b = ref_deccoins (\<lambda>d. DecAmountOf a d + DecAmountOf b d) (map dc_Denom (a @ b))"

definition ref_muldec :: "dec_coin list \<Rightarrow> dec \<Rightarrow> dec_coin list" where
  "ref_muldec a r = ref_deccoins (\<lambda>d. dec_Mul ref_dec (DecAmountOf a d) r) (map dc_Denom a)"

definition ref_trunc :: "dec_coin list \<Rightarrow> coin list \<times> dec_coin list" where
  "ref_trunc a =
     (ref_coins (\<lambda>d. dec_TruncateInt ref_dec (DecAmountOf a d)) (map dc_Denom a),
      ref_deccoins (\<lambda>d. DecAmountOf a d - NewDec (dec_TruncateInt ref_dec (DecAmountOf a d))) (map dc_Denom a))"

lemma AmountOf_ref_add: "AmountOf (ref_add a b) d = AmountOf a d + AmountOf b d"
  unfolding ref_add_def by (rule AmountOf_ref_coins) (use AmountOf_nonzero [of a d] AmountOf_nonzero [of b d] in \<open>cases "AmountOf a d = 0"; auto\<close>)

lemma ref_add_swap: "ref_add (ref_add a b) c = ref_add (ref_add a c) b"
proof -
  have "ref_add (ref_add a b) c =
      ref_coins (\<lambda>d. AmountOf a d + AmountOf b d + AmountOf c d) (map Denom (a @ b @ c))" for a b c
    unfolding ref_add_def [of "ref_add a b"]
  proof (rule ref_coins_cong)
    show "AmountOf (ref_add a b) d + AmountOf c d = AmountOf a d + AmountOf b d + AmountOf c d" for d
      by (simp add: AmountOf_ref_add)
    have s: "Denom ` set (ref_add a b) \<subseteq> Denom ` set a \<union> Denom ` set b"
      by (auto simp: ref_add_def ref_coins_def)
    show "{d \<in> set (map Denom (ref_add a b @ c)). AmountOf (ref_add a b) d + AmountOf c d \<noteq> 0} =
        {d \<in> set (map Denom (a @ b @ c)). AmountOf a d + AmountOf b d + AmountOf c d \<noteq> 0}"
    proof (intro set_eqI iffI)
      fix d assume "d \<in> {d \<in> set (map Denom (ref_add a b @ c)). AmountOf (ref_add a b) d + AmountOf c d \<noteq> 0}"
      then show "d \<in> {d \<in> set (map Denom (a @ b @ c)). AmountOf a d + AmountOf b d + AmountOf c d \<noteq> 0}"
        using s by (auto simp: AmountOf_ref_add)
    next
      fix d assume d: "d \<in> {d \<in> set (map Denom (a @ b @ c)). AmountOf a d + AmountOf b d + AmountOf c d \<noteq> 0}"
      then have "AmountOf (ref_add a b) d \<noteq> 0 \<or> AmountOf c d \<noteq> 0" by (simp add: AmountOf_ref_add)
      then have "d \<in> Denom ` set (ref_add a b) \<or> d \<in> Denom ` set c" using AmountOf_nonzero by blast
      then show "d \<in> {d \<in> set (map Denom (ref_add a b @ c)). AmountOf (ref_add a b) d + AmountOf c d \<noteq> 0}"
        using d by (auto simp: AmountOf_ref_add)
    qed
  qed
  note e = this
  show ?thesis unfolding e by (rule ref_coins_cong) auto
qed

interpretation refset: coin_sets ref_add ref_todec ref_decadd ref_muldec ref_trunc
    "dec_Mul ref_dec" "dec_TruncateInt ref_dec"
proof (unfold_locales, goal_cases)
  case (1 a b d) show ?case using AmountOf_ref_add by (simp add: ref_add_def ref_coins_sorted)
next
  case (2 a b c) show ?case by (rule ref_add_swap)
next
  case (3 a d)
  have "DecAmountOf (ref_todec a) d = NewDec (AmountOf a d)" unfolding ref_todec_def
    by (rule DecAmountOf_ref_deccoins) (use AmountOf_nonzero in \<open>force simp: NewDec_def\<close>)
  then show ?case by (simp add: ref_todec_def ref_coins_sorted)
next
  case (4 x y d)
  have "DecAmountOf (ref_decadd x y) d = DecAmountOf x d + DecAmountOf y d" unfolding ref_decadd_def
    by (rule DecAmountOf_ref_deccoins) (use DecAmountOf_nonzero [of x d] DecAmountOf_nonzero [of y d] in \<open>cases "DecAmountOf x d = 0"; auto\<close>)
  then show ?case by (simp add: ref_decadd_def ref_coins_sorted)
next
  case (5 x r d)
  have "DecAmountOf (ref_muldec x r) d = dec_Mul ref_dec (DecAmountOf x d) r" unfolding ref_muldec_def
    by (rule DecAmountOf_ref_deccoins) (use DecAmountOf_nonzero [of x d] in force)
  then show ?case by (simp add: ref_muldec_def ref_coins_sorted)
next
  case (6 x d)
  have "AmountOf (fst (ref_trunc x)) d = dec_TruncateInt ref_dec (DecAmountOf x d)" unfolding ref_trunc_def fst_conv
    by (rule AmountOf_ref_coins)
      (use DecAmountOf_nonzero [of x d] in \<open>force simp: ref_dec_def go_quo_def\<close>)
  then show ?case by (simp add: ref_trunc_def ref_coins_sorted)
qed


section \<open>Balances\<close>

type_synonym table = "(addr \<times> denom, int) kv"

definition tbal :: "table \<Rightarrow> addr \<Rightarrow> denom \<Rightarrow> int" where
  "tbal t a d = (case kv_get t (a, d) of None \<Rightarrow> 0 | Some n \<Rightarrow> max 0 n)"

definition tadd :: "addr \<Rightarrow> coin \<Rightarrow> table \<Rightarrow> table" where
  "tadd a c t = kv_insert (a, Denom c) (tbal t a (Denom c) + Amount c) t"

definition tsub :: "addr \<Rightarrow> coin \<Rightarrow> table \<Rightarrow> table" where
  "tsub a c t = kv_insert (a, Denom c) (tbal t a (Denom c) - Amount c) t"

definition tall :: "table \<Rightarrow> addr \<Rightarrow> coin list" where
  "tall t a = ref_coins (tbal t a) (map (snd \<circ> fst) t)"

definition tsend :: "table \<Rightarrow> addr \<Rightarrow> addr \<Rightarrow> coin list \<Rightarrow> string + table" where
  "tsend t src dst cs =
     (if \<not> coins_valid cs then Inl ''invalid coins''
      else if \<exists>c \<in> set cs. tbal t src (Denom c) < Amount c then Inl ''insufficient funds''
      else Inr (fold (tadd dst) cs (fold (tsub src) cs t)))"

lemma tbal_nonneg: "0 \<le> tbal t a d"
  by (simp add: tbal_def split: option.splits)

lemma tbal_tadd: "tbal (tadd a c t) x d =
    (if x = a \<and> d = Denom c then max 0 (tbal t x d + Amount c) else tbal t x d)"
  by (auto simp: tbal_def tadd_def)

lemma tbal_tsub: "tbal (tsub a c t) x d =
    (if x = a \<and> d = Denom c then max 0 (tbal t x d - Amount c) else tbal t x d)"
  by (auto simp: tbal_def tsub_def)

lemma tbal_fold_tadd: "coins_valid cs \<Longrightarrow>
    tbal (fold (tadd a) cs t) x d = tbal t x d + (if x = a then AmountOf cs d else 0)"
proof (induction cs arbitrary: t)
  case (Cons c cs)
  then show ?case using tbal_nonneg [of t x d] by (auto simp: tbal_tadd)
qed simp

lemma tbal_fold_tsub: "coins_valid cs \<Longrightarrow> \<forall>c \<in> set cs. Amount c \<le> tbal t a (Denom c) \<Longrightarrow>
    tbal (fold (tsub a) cs t) x d = tbal t x d - (if x = a then AmountOf cs d else 0)"
proof (induction cs arbitrary: t)
  case (Cons c cs)
  have "\<forall>c' \<in> set cs. Amount c' \<le> tbal (tsub a c t) a (Denom c')" using Cons.prems by (auto simp: tbal_tsub)
  then show ?case using Cons by (auto simp: tbal_tsub)
qed simp

interpretation table: coins_bank tbal tall ledger_module
    "\<lambda>t m n. tsend t (ledger_module m) (ledger_module n)"
proof (unfold_locales, goal_cases)
  case (1 b m n cs b')
  then show ?case
    by (auto simp: tsend_def tbal_fold_tadd tbal_fold_tsub not_less move_coins_def fun_eq_iff split: if_splits)
next
  case (2 cs b m)
  have "\<not> (\<exists>c \<in> set cs. tbal b (ledger_module m) (Denom c) < Amount c)"
    using 2(2) AmountOf_member [OF coins_valid_distinct [OF 2(1)]] by (metis leD)
  with 2(1) show ?case by (simp add: tsend_def)
next
  case (3 b a d)
  have "AmountOf (tall b a) d = tbal b a d" unfolding tall_def
  proof (rule AmountOf_ref_coins)
    assume "tbal b a d \<noteq> 0"
    then obtain n where "kv_get b (a, d) = Some n" by (auto simp: tbal_def split: option.splits)
    then show "d \<in> set (map (snd \<circ> fst) b)" by (force dest: map_of_SomeD)
  qed
  moreover have "coins_valid (tall b a)"
    using tbal_nonneg by (auto simp: coins_valid_def tall_def ref_coins_def o_def less_le)
  ultimately show ?case by simp
qed


section \<open>Decimals as text\<close>

definition digit :: "nat \<Rightarrow> char" where
  "digit n = ''0123456789'' ! n"

fun digits :: "nat \<Rightarrow> string" where
  "digits n = (if n < 10 then [digit n] else digits (n div 10) @ [digit (n mod 10)])"

declare digits.simps [simp del]

definition undigit :: "char \<Rightarrow> nat option" where
  "undigit c = find (\<lambda>n. digit n = c) [0..<10]"

fun undigits :: "string \<Rightarrow> nat \<Rightarrow> nat option" where
  "undigits [] acc = Some acc"
| "undigits (c # cs) acc = (case undigit c of None \<Rightarrow> None | Some n \<Rightarrow> undigits cs (10 * acc + n))"

text \<open>Decimals are written as the signed number of units in the last place.\<close>

definition ref_DecString :: "dec \<Rightarrow> string" where
  "ref_DecString x = (if x < 0 then CHR ''-'' # digits (nat (- x)) else digits (nat x))"

fun ref_NewDecFromStr :: "string \<Rightarrow> dec option" where
  "ref_NewDecFromStr [] = None"
| "ref_NewDecFromStr (c # cs) =
     (if c = CHR ''-'' then (if cs = [] then None else map_option (\<lambda>n. - int n) (undigits cs 0))
      else map_option int (undigits (c # cs) 0))"

lemma undigit_digit: "n < 10 \<Longrightarrow> undigit (digit n) = Some n"
proof -
  have "\<forall>n \<in> {0..<10}. undigit (digit n) = Some n" by code_simp
  then show "n < 10 \<Longrightarrow> ?thesis" by simp
qed

lemma undigits_append: "undigits (s @ t) acc = (case undigits s acc of None \<Rightarrow> None | Some n \<Rightarrow> undigits t n)"
  by (induction s arbitrary: acc) (auto split: option.splits)

lemma undigits_digits: "undigits (digits n) 0 = Some n"
  by (induction n rule: digits.induct) (subst digits.simps, simp add: undigits_append undigit_digit)

lemma digits_set: "set (digits n) \<subseteq> set ''0123456789''"
proof (induction n rule: digits.induct)
  case (1 n)
  have d: "m < 10 \<Longrightarrow> digit m \<in> set ''0123456789''" for m unfolding digit_def by (rule nth_mem) simp
  show ?case
  proof (cases "n < 10")
    case True then show ?thesis using d [of n] by (simp add: digits.simps [of n])
  next
    case False then show ?thesis using d [of "n mod 10"] 1 by (subst digits.simps) simp
  qed
qed

lemma digits_nonempty: "digits n \<noteq> []"
  by (subst digits.simps) simp

lemma ref_decimal_text:
  "ref_NewDecFromStr (ref_DecString x) = Some x \<and> set (ref_DecString x) \<subseteq> set ''-.0123456789''"
proof
  have "\<exists>c cs. digits (nat x) = c # cs \<and> c \<noteq> CHR ''-''"
    using digits_nonempty [of "nat x"] digits_set [of "nat x"] by (cases "digits (nat x)") fastforce+
  then obtain c cs where c: "digits (nat x) = c # cs" "c \<noteq> CHR ''-''" by blast
  show "ref_NewDecFromStr (ref_DecString x) = Some x"
    using c undigits_digits [of "nat x"] undigits_digits [of "nat (- x)"]
    by (cases "x < 0") (simp_all add: ref_DecString_def digits_nonempty)
  have m: "set ''0123456789'' \<subseteq> set ''-.0123456789''" "CHR ''-'' \<in> set ''-.0123456789''" by simp_all
  show "set (ref_DecString x) \<subseteq> set ''-.0123456789''"
  proof (cases "x < 0")
    case True
    then have "set (ref_DecString x) = insert (CHR ''-'') (set (digits (nat (- x))))"
      by (simp only: ref_DecString_def if_True list.set)
    with subset_trans [OF digits_set m(1)] m(2) show ?thesis by (simp only: insert_subset)
  next
    case False
    then show ?thesis using subset_trans [OF digits_set m(1)] by (simp only: ref_DecString_def if_False)
  qed
qed


section \<open>The chain\<close>

record ref_chain =
  rc_balances :: table
  rc_validators :: "(addr, validator) kv"
  rc_slashed :: "(string \<times> int \<times> int \<times> dec) list"
  rc_jailed :: "string list"
  rc_allocated :: "addr \<Rightarrow> denom \<Rightarrow> dec"
  rc_supply :: "denom \<Rightarrow> int"

definition on_balances :: "string + table \<Rightarrow> ref_chain \<Rightarrow> string + ref_chain" where
  "on_balances r b = bindE r (\<lambda>t. Inr (b\<lparr>rc_balances := t\<rparr>))"

definition ref_ValidateDenom :: "string \<Rightarrow> bool" where
  "ref_ValidateDenom d \<longleftrightarrow> d \<noteq> [] \<and> list_all (\<lambda>c. c \<notin> set '':,|()'') d"

text \<open>Operator addresses carry the prefix \<open>v\<close>.  The stand-in for the hash lists the text it is given.\<close>

definition ref_chain_sdk :: "ref_chain chain_sdk" where
  "ref_chain_sdk = \<lparr>
     dec_Mul = dec_Mul ref_dec, dec_Quo = dec_Quo ref_dec, dec_QuoInt64 = dec_QuoInt64 ref_dec,
     dec_RoundInt = dec_RoundInt ref_dec, dec_Ceil = dec_Ceil ref_dec,
     dec_TruncateInt = dec_TruncateInt ref_dec,
     ValidateDenom = ref_ValidateDenom,
     NewCoin = (\<lambda>d n. if n < 0 then None else Some \<lparr>Denom = d, Amount = n\<rparr>),
     AccAddressFromBech32 = ref_decode,
     AccAddressString = (\<lambda>a. CHR ''n'' # a),
     GetModuleAddress = ledger_module,
     GetBalance = (\<lambda>b. tbal (rc_balances b)),
     SendCoinsFromAccountToModule = (\<lambda>b a m c. on_balances (tsend (rc_balances b) a (ledger_module m) [c]) b),
     SendCoinsFromModuleToAccount = (\<lambda>b m a c. on_balances (tsend (rc_balances b) (ledger_module m) a [c]) b),
     SendCoinsFromModuleToModule =
       (\<lambda>b m n c. on_balances (tsend (rc_balances b) (ledger_module m) (ledger_module n) [c]) b),
     ValAddressFromBech32 = (\<lambda>s. case s of [] \<Rightarrow> None | c # a \<Rightarrow> if c = CHR ''v'' then Some a else None),
     ValAddressString = (\<lambda>a. CHR ''v'' # a),
     NewDecFromStr = ref_NewDecFromStr,
     DecString = ref_DecString,
     tmhash_Truncated = (\<lambda>s. s),
     TokensToConsensusPower = go_quo,
     Validator = (\<lambda>b. kv_get (rc_validators b)),
     TotalBondedTokens = (\<lambda>b. sum_list (map (\<lambda>(a, v). if v_IsBonded v then v_ConsensusPower v 1000000 * 1000000 else 0)
       (rc_validators b))),
     PowerReduction = (\<lambda>b. 1000000),
     MaxValidators = (\<lambda>b. 100),
     ValidatorsPowerStoreIterator = (\<lambda>b. map fst (rc_validators b)),
     Slash = (\<lambda>b c h p f. b\<lparr>rc_slashed := (c, h, p, f) # rc_slashed b\<rparr>),
     Jail = (\<lambda>b c. b\<lparr>rc_jailed := c # rc_jailed b\<rparr>),
     AllocateTokensToValidator = (\<lambda>b v cs. b\<lparr>rc_allocated :=
       (\<lambda>a d. rc_allocated b a d + (if a = v_Operator v then DecAmountOf cs d else 0))\<rparr>),
     HasModuleAccount = (\<lambda>b m. True),
     GetAllBalances = (\<lambda>b. tall (rc_balances b)),
     SendCoins_ModuleToModule =
       (\<lambda>b m n cs. on_balances (tsend (rc_balances b) (ledger_module m) (ledger_module n) cs) b),
     Coins_Add = ref_add,
     NewDecCoinsFromCoins = ref_todec,
     DecCoins_Add = ref_decadd,
     DecCoins_MulDec = ref_muldec,
     DecCoins_TruncateDecimal = ref_trunc \<rparr>"

lemma ref_chain_sel [simp]:
  "dec_Mul ref_chain_sdk = dec_Mul ref_dec" "dec_Quo ref_chain_sdk = dec_Quo ref_dec"
  "dec_QuoInt64 ref_chain_sdk = dec_QuoInt64 ref_dec" "dec_RoundInt ref_chain_sdk = dec_RoundInt ref_dec"
  "dec_Ceil ref_chain_sdk = dec_Ceil ref_dec" "dec_TruncateInt ref_chain_sdk = dec_TruncateInt ref_dec"
  "ValidateDenom ref_chain_sdk = ref_ValidateDenom"
  "GetModuleAddress ref_chain_sdk = ledger_module"
  "GetBalance ref_chain_sdk = (\<lambda>b. tbal (rc_balances b))"
  "ValAddressFromBech32 ref_chain_sdk =
     (\<lambda>s. case s of [] \<Rightarrow> None | c # a \<Rightarrow> if c = CHR ''v'' then Some a else None)"
  "ValAddressString ref_chain_sdk = (\<lambda>a. CHR ''v'' # a)"
  "NewDecFromStr ref_chain_sdk = ref_NewDecFromStr" "DecString ref_chain_sdk = ref_DecString"
  "GetAllBalances ref_chain_sdk = (\<lambda>b. tall (rc_balances b))"
  "SendCoins_ModuleToModule ref_chain_sdk =
       (\<lambda>b m n cs. on_balances (tsend (rc_balances b) (ledger_module m) (ledger_module n) cs) b)"
  "Coins_Add ref_chain_sdk = ref_add" "NewDecCoinsFromCoins ref_chain_sdk = ref_todec"
  "DecCoins_Add ref_chain_sdk = ref_decadd" "DecCoins_MulDec ref_chain_sdk = ref_muldec"
  "DecCoins_TruncateDecimal ref_chain_sdk = ref_trunc"
  "AllocateTokensToValidator ref_chain_sdk = (\<lambda>b v cs. b\<lparr>rc_allocated :=
       (\<lambda>a d. rc_allocated b a d + (if a = v_Operator v then DecAmountOf cs d else 0))\<rparr>)"
  "Validator ref_chain_sdk = (\<lambda>b. kv_get (rc_validators b))"
  by (simp_all add: ref_chain_sdk_def)

lemma ref_chain_dec_laws: "dec_laws ref_chain_sdk"
  using ref_dec_laws by (simp add: dec_laws_def)

lemma ref_chain_coinset_laws: "coinset_laws ref_chain_sdk"
  by (simp add: coinset_laws_def refset.coin_sets_axioms)

lemma ref_chain_coins_laws: "coins_laws ref_chain_sdk"
  unfolding coins_laws_def
proof (unfold_locales, goal_cases)
  case (1 b m n cs b')
  then obtain t where "tsend (rc_balances b) (ledger_module m) (ledger_module n) cs = Inr t"
      "b' = b\<lparr>rc_balances := t\<rparr>"
    by (auto simp: on_balances_def bindE_eq_Inr)
  with table.send_ok [of "rc_balances b" m n cs t] show ?case by simp
next
  case (2 cs b m n)
  then show ?case using table.send_enough [of cs "rc_balances b" m n] by (auto simp: on_balances_def)
next
  case (3 b a d)
  then show ?case using table.all_balances by simp
qed

lemma ref_chain_format_laws: "format_laws ref_chain_sdk"
  using ref_decimal_text by (simp add: format_laws_def)

lemma ref_chain_denom_laws: "denom_laws ref_chain_sdk"
  by (auto simp: denom_laws_def ref_ValidateDenom_def list_all_iff)

lemma ref_chain_alloc_laws: "alloc_laws ref_chain_sdk"
  by (simp add: alloc_laws_def) (auto simp: fun_eq_iff)

end
