(* ===== verification/Oracle_Ballot.thy ===== *)
theory Oracle_Ballot
  imports Oracle_Reference
begin

text \<open>
  Ballots of the oracle (\<^verbatim>\<open>x/oracle/types/ballot.go\<close>) and their tally (\<open>Tally\<close> of
  \<^verbatim>\<open>x/oracle/keeper/ballot.go\<close>): the weighted median, the standard deviation (computed by the
  code in floating point), and the votes that are rewarded.  Voting power is an \<open>int64\<close>; its additions wrap
  as in the code.  \<open>sort.Sort\<close> is not stable: the tally is defined on the stably sorted
  ballots and shown to be the same for every sorted arrangement.
\<close>

section \<open>Signed 64-bit arithmetic\<close>

definition i64 :: "int \<Rightarrow> int" where
  "i64 x = (x + 2 ^ 63) mod 2 ^ 64 - 2 ^ 63"

lemma i64_id: "- (2 ^ 63) \<le> x \<Longrightarrow> x < 2 ^ 63 \<Longrightarrow> i64 x = x"
  by (simp add: i64_def)

lemma i64_add: "i64 (i64 x + y) = i64 (x + y)" "i64 (y + i64 x) = i64 (y + x)"
proof -
  have "(((x + 2 ^ 63) mod 2 ^ 64 - 2 ^ 63) + y + 2 ^ 63) mod 2 ^ 64 = (x + y + 2 ^ 63) mod (2 ^ 64 :: int)"
    using mod_add_left_eq [of "x + 2 ^ 63" "2 ^ 64" y] by (simp add: algebra_simps)
  then show "i64 (i64 x + y) = i64 (x + y)" by (simp add: i64_def)
  then show "i64 (y + i64 x) = i64 (y + x)" by (simp add: add.commute)
qed


section \<open>The square root in double precision\<close>

text \<open>
  \<open>strconv.ParseFloat\<close> and \<open>math.Sqrt\<close> round to the nearest double, ties to even, and
  \<^verbatim>\<open>%f\<close> prints six decimals rounded from the exact value, ties to even.  A positive double is
  a significand below \<open>2 ^ 54\<close> with a binary exponent; the variances that occur (from \<open>10 ^ -18\<close> to
  \<open>2 ^ 315\<close>) neither underflow nor overflow.
\<close>

definition round_half_even :: "int \<Rightarrow> int \<Rightarrow> int" where
  "round_half_even n d =
     (let q = n div d; r = n mod d in
      if 2 * r < d then q else if d < 2 * r then q + 1 else if even q then q else q + 1)"

function bit_len :: "int \<Rightarrow> int" where
  "bit_len n = (if n \<le> 0 then 0 else 1 + bit_len (n div 2))"
  by pat_completeness auto
termination by (relation "measure nat") auto

declare bit_len.simps [simp del]

definition scale_num :: "int \<Rightarrow> int \<Rightarrow> int" where
  "scale_num n e = (if 0 \<le> e then n else n * 2 ^ nat (- e))"

definition scale_den :: "int \<Rightarrow> int \<Rightarrow> int" where
  "scale_den d e = (if 0 \<le> e then d * 2 ^ nat e else d)"

definition to_float64 :: "int \<Rightarrow> int \<Rightarrow> int \<times> int" where
  "to_float64 n d =
     (let e0 = bit_len n - bit_len d - 53;
          e = (if 2 ^ 53 * scale_den d e0 \<le> scale_num n e0 then e0 + 1 else e0)
      in (round_half_even (scale_num n e) (scale_den d e), e))"

definition sqrt_float64 :: "int \<times> int \<Rightarrow> int \<times> int" where
  "sqrt_float64 x =
     (let m = fst x; e = snd x;
          k0 = 105 - bit_len m;
          k = (if even (e - k0) then k0 else k0 + 1);
          M = m * 2 ^ nat k;
          s = isqrt M
      in (if s < M - s * s then s + 1 else s, (e - k) div 2))"

definition print_float64 :: "int \<times> int \<Rightarrow> dec" where
  "print_float64 x = round_half_even (scale_num (fst x * 1000000) (- snd x)) (scale_den 1 (- snd x)) * 1000000000000"

definition float_sqrt :: "dec \<Rightarrow> dec" where
  "float_sqrt v = (if v \<le> 0 then 0 else print_float64 (sqrt_float64 (to_float64 v PREC)))"


section \<open>Ballots\<close>

datatype oracle_error = ErrInvalidExchangeRate | ErrInvalidHash | ErrInvalidHashLength | ErrVerificationFailed
  | ErrRevealPeriodMissMatch | ErrInvalidSaltLength | ErrNoAggregatePrevote | ErrUnknownPair | ErrNoValidTWAP
  | ErrNoVotingPermission | ErrNoValidatorFound | ErrInvalidAddress | ErrUnknownRequest | ErrInvalidRequest
  | ErrInvalidCoins | OracleNotFound | OracleBech32 | InvalidTuple | InvalidPair asset_error | InvalidDecimal
  | DuplicateTuple | EmptySnapshots | InvalidArgument | InvalidParams
  | NotSortedPanic | NilPointer | DivideByZero | NegativeCoin | PanicErr string | ModuleAccountPanic

record ballot =
  b_Pair :: pair
  b_ExchangeRate :: dec
  b_Voter :: addr
  b_Power :: int

definition NewExchangeRateBallot :: "dec \<Rightarrow> pair \<Rightarrow> addr \<Rightarrow> int \<Rightarrow> ballot" where
  "NewExchangeRateBallot rate pair voter pw =
     \<lparr>b_Pair = pair, b_ExchangeRate = rate, b_Voter = voter, b_Power = pw\<rparr>"

definition Ballots_ToMap :: "ballot list \<Rightarrow> (addr, dec) kv" where
  "Ballots_ToMap pb = fold (\<lambda>vote m. if 0 < b_ExchangeRate vote
     then kv_insert (b_Voter vote) (b_ExchangeRate vote) m else m) pb []"

definition ToCrossRate :: "'b chain_sdk \<Rightarrow> (addr, dec) kv \<Rightarrow> ballot list \<Rightarrow> ballot list" where
  "ToCrossRate E bases pb = map (\<lambda>vote.
     (case kv_get bases (b_Voter vote) of
        Some exchangeRateRT \<Rightarrow>
          if 0 < b_ExchangeRate vote
          then vote\<lparr>b_ExchangeRate := dec_Quo E exchangeRateRT (b_ExchangeRate vote)\<rparr>
          else vote\<lparr>b_ExchangeRate := 0, b_Power := 0\<rparr>
      | None \<Rightarrow> vote\<lparr>b_ExchangeRate := 0, b_Power := 0\<rparr>)) pb"

definition NumValidVoters :: "ballot list \<Rightarrow> 64 word" where
  "NumValidVoters b = of_nat (length (filter (\<lambda>ballot. 0 < b_ExchangeRate ballot) b))"

definition Ballots_Power :: "ballot list \<Rightarrow> int" where
  "Ballots_Power b = fold (\<lambda>vote totalPower. i64 (totalPower + b_Power vote)) b 0"

fun median_loop :: "int \<Rightarrow> int \<Rightarrow> ballot list \<Rightarrow> dec" where
  "median_loop totalPower pivot [] = 0"
| "median_loop totalPower pivot (v # vs) =
     (let pivot' = i64 (pivot + b_Power v) in
      if go_quo totalPower 2 \<le> pivot' then b_ExchangeRate v else median_loop totalPower pivot' vs)"

definition WeightedMedian :: "ballot list \<Rightarrow> dec" where
  "WeightedMedian pb = median_loop (Ballots_Power pb) 0 pb"

definition Ballots_IsSorted :: "ballot list \<Rightarrow> bool" where
  "Ballots_IsSorted pb \<longleftrightarrow> sorted (map b_ExchangeRate pb)"

definition WeightedMedianWithAssertion :: "ballot list \<Rightarrow> oracle_error + dec" where
  "WeightedMedianWithAssertion pb =
     (if \<not> Ballots_IsSorted pb then Inl NotSortedPanic else Inr (median_loop (Ballots_Power pb) 0 pb))"

text \<open>A decimal above 315 bits makes the SDK panic; \<open>StandardDeviation\<close> recovers from it.\<close>

definition dec_fits :: "dec \<Rightarrow> bool" where
  "dec_fits x \<longleftrightarrow> \<bar>x\<bar> < 2 ^ 315"

fun deviation_sum :: "'b chain_sdk \<Rightarrow> dec \<Rightarrow> ballot list \<Rightarrow> dec \<Rightarrow> dec option" where
  "deviation_sum E median [] acc = Some acc"
| "deviation_sum E median (v # vs) acc =
     (let deviation = b_ExchangeRate v - median;
          square = dec_Mul E deviation deviation;
          acc' = acc + square
      in if dec_fits deviation \<and> dec_fits square \<and> dec_fits acc' then deviation_sum E median vs acc' else None)"

definition StandardDeviation :: "'b chain_sdk \<Rightarrow> dec \<Rightarrow> ballot list \<Rightarrow> dec" where
  "StandardDeviation E median pb =
     (if pb = [] then 0
      else case deviation_sum E median pb 0 of
        None \<Rightarrow> 0
      | Some acc \<Rightarrow> float_sqrt (dec_QuoInt64 E acc (int (length pb))))"


section \<open>Performance of the validators\<close>

record performance =
  vp_Power :: int
  vp_RewardWeight :: int
  vp_WinCount :: int
  vp_ValAddress :: addr

definition NewValidatorPerformance :: "int \<Rightarrow> addr \<Rightarrow> performance" where
  "NewValidatorPerformance pw recipient =
     \<lparr>vp_Power = pw, vp_RewardWeight = 0, vp_WinCount = 0, vp_ValAddress = recipient\<rparr>"

type_synonym performances = "(string, performance) kv"

definition GetTotalRewardWeight :: "performance list \<Rightarrow> int" where
  "GetTotalRewardWeight vps = fold (\<lambda>v weight. i64 (weight + vp_RewardWeight v)) vps 0"

definition zero_performance :: performance where
  "zero_performance = \<lparr>vp_Power = 0, vp_RewardWeight = 0, vp_WinCount = 0, vp_ValAddress = []\<rparr>"

definition rewarded :: "dec \<Rightarrow> dec \<Rightarrow> ballot \<Rightarrow> bool" where
  "rewarded weightedMedian rewardSpread ballot \<longleftrightarrow>
     (weightedMedian - rewardSpread \<le> b_ExchangeRate ballot \<and> b_ExchangeRate ballot \<le> weightedMedian + rewardSpread)
     \<or> \<not> 0 < b_ExchangeRate ballot"

definition add_win :: "int \<Rightarrow> performance \<Rightarrow> performance" where
  "add_win pw p = p\<lparr>vp_RewardWeight := i64 (vp_RewardWeight p + pw), vp_WinCount := i64 (vp_WinCount p + 1)\<rparr>"

definition credit :: "'b chain_sdk \<Rightarrow> dec \<Rightarrow> dec \<Rightarrow> ballot \<Rightarrow> performances \<Rightarrow> performances" where
  "credit E weightedMedian rewardSpread ballot ps =
     (if rewarded weightedMedian rewardSpread ballot
      then let voterAddr = ValAddressString E (b_Voter ballot);
               p = (case kv_get ps voterAddr of None \<Rightarrow> zero_performance | Some p \<Rightarrow> p)
           in kv_insert voterAddr (add_win (b_Power ballot) p) ps
      else ps)"

definition rewardSpread :: "'b chain_sdk \<Rightarrow> dec \<Rightarrow> dec \<Rightarrow> dec \<Rightarrow> dec" where
  "rewardSpread E weightedMedian rewardBand standardDeviation =
     (let spread = dec_Mul E weightedMedian (dec_QuoInt64 E rewardBand 2) in
      if spread < standardDeviation then standardDeviation else spread)"

definition Tally_sorted :: "'b chain_sdk \<Rightarrow> ballot list \<Rightarrow> dec option \<Rightarrow> performances \<Rightarrow>
    oracle_error + dec \<times> performances" where
  "Tally_sorted E ballots rewardBand ps =
     bindE (WeightedMedianWithAssertion ballots) (\<lambda>weightedMedian.
     let standardDeviation = StandardDeviation E weightedMedian ballots in
     bindE (getE NilPointer rewardBand) (\<lambda>band.
     let spread = rewardSpread E weightedMedian band standardDeviation in
     Inr (weightedMedian, fold (credit E weightedMedian spread) ballots ps)))"

definition Tally :: "'b chain_sdk \<Rightarrow> ballot list \<Rightarrow> dec option \<Rightarrow> performances \<Rightarrow>
    oracle_error + dec \<times> performances" where
  "Tally E ballots = Tally_sorted E (sort_key b_ExchangeRate ballots)"

end
