(* ===== verification/Oracle_Vote.thy ===== *)
theory Oracle_Vote
  imports Oracle_Ballot
begin

text \<open>
  Votes as text (\<^verbatim>\<open>x/oracle/types/vote.go\<close>), the hash that commits to them
  (\<^verbatim>\<open>x/oracle/types/hash.go\<close>) and the checks of the messages that carry them
  (\<^verbatim>\<open>x/oracle/types/msgs.go\<close>).  The decimal format and the hash function are SDK parameters;
  hexadecimal text is Go's \<open>encoding/hex\<close>.
\<close>

section \<open>Exchange rate tuples\<close>

record rate_tuple =
  t_Pair :: pair
  t_ExchangeRate :: dec

definition NewExchangeRateTuple :: "pair \<Rightarrow> dec \<Rightarrow> rate_tuple" where
  "NewExchangeRateTuple pair exchangeRate = \<lparr>t_Pair = pair, t_ExchangeRate = exchangeRate\<rparr>"

definition Tuple_ToString :: "'b chain_sdk \<Rightarrow> rate_tuple \<Rightarrow> oracle_error + string" where
  "Tuple_ToString E m =
     bindE (mapErr InvalidPair (Pair_Validate (ValidateDenom E) (t_Pair m))) (\<lambda>_.
     Inr (''('' @ t_Pair m @ '','' @ DecString E (t_ExchangeRate m) @ '')''))"

definition NewExchangeRateTupleFromString :: "'b chain_sdk \<Rightarrow> string \<Rightarrow> oracle_error + rate_tuple" where
  "NewExchangeRateTupleFromString E s =
     bindE (checkE (2 < length s) InvalidTuple) (\<lambda>_.
     bindE (checkE (hd s = CHR ''('' \<and> last s = CHR '')'') InvalidTuple) (\<lambda>_.
     case split_at (CHR '','') (butlast (tl s)) of
       [p, d] \<Rightarrow>
         bindE (mapErr InvalidPair (TryNewPair (ValidateDenom E) p)) (\<lambda>pair.
         bindE (getE InvalidDecimal (NewDecFromStr E d)) (\<lambda>dec.
         Inr \<lparr>t_Pair = pair, t_ExchangeRate = dec\<rparr>))
     | _ \<Rightarrow> Inl InvalidTuple))"

definition Tuples_ToMap :: "rate_tuple list \<Rightarrow> (pair, dec) kv" where
  "Tuples_ToMap tuples = fold (\<lambda>t. kv_insert (t_Pair t) (t_ExchangeRate t)) tuples []"

fun parse_tuples :: "'b chain_sdk \<Rightarrow> string list \<Rightarrow> pair list \<Rightarrow> oracle_error + rate_tuple list" where
  "parse_tuples E [] duplicates = Inr []"
| "parse_tuples E (s # ss) duplicates =
     bindE (NewExchangeRateTupleFromString E s) (\<lambda>exchangeRate.
     bindE (checkE (\<not> set_Has duplicates (t_Pair exchangeRate)) DuplicateTuple) (\<lambda>_.
     bindE (parse_tuples E ss (set_Add (t_Pair exchangeRate) duplicates)) (\<lambda>rest.
     Inr (exchangeRate # rest))))"

definition NewExchangeRateTuplesFromString :: "'b chain_sdk \<Rightarrow> string \<Rightarrow> oracle_error + rate_tuple list" where
  "NewExchangeRateTuplesFromString E s = parse_tuples E (split_at (CHR ''|'') s) []"

fun print_tuples :: "'b chain_sdk \<Rightarrow> rate_tuple list \<Rightarrow> oracle_error + string list" where
  "print_tuples E [] = Inr []"
| "print_tuples E (r # rs) =
     bindE (Tuple_ToString E r) (\<lambda>rStr. bindE (print_tuples E rs) (\<lambda>rest. Inr (rStr # rest)))"

definition Tuples_ToString :: "'b chain_sdk \<Rightarrow> rate_tuple list \<Rightarrow> oracle_error + string" where
  "Tuples_ToString E tuples = bindE (print_tuples E tuples) (\<lambda>ss. Inr (join_with (CHR ''|'') ss))"

definition ParseExchangeRateTuples :: "'b chain_sdk \<Rightarrow> string \<Rightarrow> oracle_error + rate_tuple list" where
  "ParseExchangeRateTuples E tuplesStr = NewExchangeRateTuplesFromString E tuplesStr"


section \<open>Hashes\<close>

abbreviation hextable :: string where "hextable \<equiv> ''0123456789abcdef''"

definition hex_EncodeToString :: "string \<Rightarrow> string" where
  "hex_EncodeToString bs = concat (map (\<lambda>b. [hextable ! (of_char b div 16), hextable ! (of_char b mod 16)]) bs)"

definition fromHexChar :: "char \<Rightarrow> nat option" where
  "fromHexChar c =
     (let n = of_char c in
      if 48 \<le> n \<and> n \<le> 57 then Some (n - 48)
      else if 97 \<le> n \<and> n \<le> 102 then Some (n - 87)
      else if 65 \<le> n \<and> n \<le> 70 then Some (n - 55)
      else None)"

fun hex_DecodeString :: "string \<Rightarrow> string option" where
  "hex_DecodeString [] = Some []"
| "hex_DecodeString [c] = None"
| "hex_DecodeString (p # q # s) =
     (case (fromHexChar p, fromHexChar q) of
        (Some a, Some b) \<Rightarrow> map_option (Cons (char_of (16 * a + b))) (hex_DecodeString s)
      | _ \<Rightarrow> None)"

definition GetAggregateVoteHash :: "'b chain_sdk \<Rightarrow> string \<Rightarrow> string \<Rightarrow> addr \<Rightarrow> string" where
  "GetAggregateVoteHash E salt exchangeRatesStr voter =
     tmhash_Truncated E (salt @ '':'' @ exchangeRatesStr @ '':'' @ ValAddressString E voter)"

definition AggregateVoteHashFromHexString :: "string \<Rightarrow> string option" where
  "AggregateVoteHashFromHexString s = hex_DecodeString s"

definition Hash_String :: "string \<Rightarrow> string" where
  "Hash_String h = hex_EncodeToString h"


section \<open>Messages\<close>

record prevote =
  pv_Hash :: string
  pv_Voter :: string
  pv_SubmitBlock :: "64 word"

definition NewAggregateExchangeRatePrevote :: "'b chain_sdk \<Rightarrow> string \<Rightarrow> addr \<Rightarrow> 64 word \<Rightarrow> prevote" where
  "NewAggregateExchangeRatePrevote E hash voter submitBlock =
     \<lparr>pv_Hash = Hash_String hash, pv_Voter = ValAddressString E voter, pv_SubmitBlock = submitBlock\<rparr>"

record vote =
  vt_ExchangeRateTuples :: "rate_tuple list"
  vt_Voter :: string

definition NewAggregateExchangeRateVote :: "'b chain_sdk \<Rightarrow> rate_tuple list \<Rightarrow> addr \<Rightarrow> vote" where
  "NewAggregateExchangeRateVote E tuples voter =
     \<lparr>vt_ExchangeRateTuples = tuples, vt_Voter = ValAddressString E voter\<rparr>"

record msg_prevote =
  mp_Hash :: string
  mp_Feeder :: string
  mp_Validator :: string

record msg_vote =
  mv_Salt :: string
  mv_ExchangeRates :: string
  mv_Feeder :: string
  mv_Validator :: string

record msg_delegate =
  md_Operator :: string
  md_Delegate :: string

definition TruncatedSize :: nat where "TruncatedSize = 20"

definition MsgPrevote_ValidateBasic :: "'b chain_sdk \<Rightarrow> msg_prevote \<Rightarrow> oracle_error + unit" where
  "MsgPrevote_ValidateBasic E msg =
     bindE (getE ErrInvalidHash (AggregateVoteHashFromHexString (mp_Hash msg))) (\<lambda>_.
     bindE (checkE (length (mp_Hash msg) = TruncatedSize * 2) ErrInvalidHashLength) (\<lambda>_.
     bindE (getE ErrInvalidAddress (AccAddressFromBech32 E (mp_Feeder msg))) (\<lambda>_.
     bindE (getE ErrInvalidAddress (ValAddressFromBech32 E (mp_Validator msg))) (\<lambda>_.
     Inr ()))))"

definition MsgVote_ValidateBasic :: "'b chain_sdk \<Rightarrow> msg_vote \<Rightarrow> oracle_error + unit" where
  "MsgVote_ValidateBasic E msg =
     bindE (getE ErrInvalidAddress (AccAddressFromBech32 E (mv_Feeder msg))) (\<lambda>_.
     bindE (getE ErrInvalidAddress (ValAddressFromBech32 E (mv_Validator msg))) (\<lambda>_.
     bindE (checkE (length (mv_ExchangeRates msg) \<noteq> 0) ErrUnknownRequest) (\<lambda>_.
     bindE (checkE (\<not> 4096 < length (mv_ExchangeRates msg)) ErrInvalidRequest) (\<lambda>_.
     bindE (mapErr (\<lambda>_. ErrInvalidCoins) (ParseExchangeRateTuples E (mv_ExchangeRates msg))) (\<lambda>exchangeRates.
     bindE (checkE (\<forall>t \<in> set exchangeRates. dec_fits (t_ExchangeRate t)) ErrInvalidExchangeRate) (\<lambda>_.
     checkE (\<not> (4 < length (mv_Salt msg) \<or> length (mv_Salt msg) < 1)) ErrInvalidSaltLength))))))"

definition MsgDelegateFeedConsent_ValidateBasic :: "'b chain_sdk \<Rightarrow> msg_delegate \<Rightarrow> oracle_error + unit" where
  "MsgDelegateFeedConsent_ValidateBasic E msg =
     bindE (getE ErrInvalidAddress (ValAddressFromBech32 E (md_Operator msg))) (\<lambda>_.
     bindE (getE ErrInvalidAddress (AccAddressFromBech32 E (md_Delegate msg))) (\<lambda>_.
     Inr ()))"

text \<open>The account that must sign each message.\<close>

definition Prevote_GetSigners :: "'b chain_sdk \<Rightarrow> msg_prevote \<Rightarrow> oracle_error + addr list" where
  "Prevote_GetSigners E msg = bindE (getE OracleBech32 (AccAddressFromBech32 E (mp_Feeder msg))) (\<lambda>a. Inr [a])"

definition Vote_GetSigners :: "'b chain_sdk \<Rightarrow> msg_vote \<Rightarrow> oracle_error + addr list" where
  "Vote_GetSigners E msg = bindE (getE OracleBech32 (AccAddressFromBech32 E (mv_Feeder msg))) (\<lambda>a. Inr [a])"

definition DelegateFeedConsent_GetSigners :: "'b chain_sdk \<Rightarrow> msg_delegate \<Rightarrow> oracle_error + addr list" where
  "DelegateFeedConsent_GetSigners E msg = bindE (getE OracleBech32 (ValAddressFromBech32 E (md_Operator msg))) (\<lambda>a. Inr [a])"


section \<open>Hexadecimal text\<close>

lemma fromHexChar_hextable: "n < 16 \<Longrightarrow> fromHexChar (hextable ! n) = Some n"
proof -
  have "\<forall>n \<in> {0..<16}. fromHexChar (hextable ! n) = Some n" by code_simp
  then show "n < 16 \<Longrightarrow> ?thesis" by simp
qed

lemma hex_roundtrip: "hex_DecodeString (hex_EncodeToString bs) = Some bs"
proof (induction bs)
  case (Cons b bs)
  have "(of_char b :: nat) < 256" by simp
  then have "(of_char b :: nat) div 16 < 16" by (simp add: div_less_iff_less_mult)
  then show ?case using Cons by (simp add: hex_EncodeToString_def fromHexChar_hextable)
qed (simp add: hex_EncodeToString_def)

lemma hex_EncodeToString_inj: "hex_EncodeToString a = hex_EncodeToString b \<longleftrightarrow> a = b"
  by (metis hex_roundtrip option.inject)



section \<open>Reading back what is written\<close>

lemma split_join: "ss \<noteq> [] \<Longrightarrow> \<forall>s \<in> set ss. c \<notin> set s \<Longrightarrow> split_at c (join_with c ss) = ss"
proof (induction c ss rule: join_with.induct)
  case (3 c s s' ss)
  then show ?case using split_at_append [of c s "join_with c (s' # ss)"] by simp
qed (simp_all add: split_at_free)

lemma valid_pair_text:
  assumes "denom_laws E" and "Pair_Validate (ValidateDenom E) p = Inr ()"
  shows "TryNewPair (ValidateDenom E) p = Inr p" and "c \<in> set '',|()'' \<Longrightarrow> c \<notin> set p"
proof -
  obtain b q where p: "p = NewPair b q" "colon \<notin> set b" "colon \<notin> set q" "ValidateDenom E b" "ValidateDenom E q"
    using assms(2) Pair_Validate_iff by blast
  have d: "b \<noteq> []" "q \<noteq> []" "set b \<inter> set '':,|()'' = {}" "set q \<inter> set '':,|()'' = {}"
    using assms(1) p(4,5) unfolding denom_laws_def by blast+
  show "TryNewPair (ValidateDenom E) p = Inr p"
    using assms(2) d(1,2) by (simp add: TryNewPair_def p(1) split_at_NewPair [OF p(2,3)])
  show "c \<notin> set p" if "c \<in> set '',|()''" using d(3,4) that by (auto simp: p(1) NewPair_def)
qed

lemma dec_text:
  assumes "format_laws E"
  shows "NewDecFromStr E (DecString E x) = Some x" and "c \<in> set '',|()'' \<Longrightarrow> c \<notin> set (DecString E x)"
proof -
  show "NewDecFromStr E (DecString E x) = Some x" using assms by (simp add: format_laws_def)
  have "set (DecString E x) \<subseteq> set ''-.0123456789''" using assms by (simp add: format_laws_def)
  moreover have "c \<notin> set ''-.0123456789''" if "c \<in> set '',|()''" using that by auto
  ultimately show "c \<in> set '',|()'' \<Longrightarrow> c \<notin> set (DecString E x)" by blast
qed

lemma tuple_text:
  assumes "denom_laws E" and "format_laws E" and "Tuple_ToString E m = Inr s"
  shows "NewExchangeRateTupleFromString E s = Inr m" and "CHR ''|'' \<notin> set s"
proof -
  have v: "Pair_Validate (ValidateDenom E) (t_Pair m) = Inr ()"
    and s: "s = ''('' @ t_Pair m @ '','' @ DecString E (t_ExchangeRate m) @ '')''"
    using assms(3) by (auto simp: Tuple_ToString_def bindE_eq_Inr mapErr_eq_Inr)
  note t = valid_pair_text [OF assms(1) v] and d = dec_text [OF assms(2)]
  have "t_Pair m \<noteq> []" using v by (auto simp: Pair_Validate_iff NewPair_def)
  then have l: "2 < length s" by (cases "t_Pair m") (simp_all add: s)
  have "split_at (CHR '','') (butlast (tl s)) = [t_Pair m, DecString E (t_ExchangeRate m)]"
    using split_at_append [OF t(2), of "CHR '',''" "DecString E (t_ExchangeRate m)"]
      split_at_free [OF d(2), of "CHR '',''" "t_ExchangeRate m"]
    by (simp add: s butlast_append)
  then show "NewExchangeRateTupleFromString E s = Inr m"
    using l t(1) d(1) by (simp add: NewExchangeRateTupleFromString_def) (simp add: s)
  show "CHR ''|'' \<notin> set s" using t(2) [of "CHR ''|''"] d(2) [of "CHR ''|''"] by (simp add: s)
qed

lemma tuples_text:
  assumes "denom_laws E" and "format_laws E" and "print_tuples E ts = Inr ss"
    and "distinct (map t_Pair ts)" and "set (map t_Pair ts) \<inter> set seen = {}" and "distinct seen"
  shows "parse_tuples E ss seen = Inr ts \<and> (\<forall>s \<in> set ss. CHR ''|'' \<notin> set s) \<and> length ss = length ts"
  using assms(3-6)
proof (induction ts arbitrary: ss seen)
  case (Cons t ts)
  obtain s rest where s: "Tuple_ToString E t = Inr s" "print_tuples E ts = Inr rest" "ss = s # rest"
    using Cons.prems(1) by (auto simp: bindE_eq_Inr)
  note T = tuple_text [OF assms(1,2) s(1)]
  have a: "set (set_Add (t_Pair t) seen) = insert (t_Pair t) (set seen)" "distinct (set_Add (t_Pair t) seen)"
    "\<not> set_Has seen (t_Pair t)"
    using Cons.prems(3,4) go.add_spec [of seen] go.has_spec [of seen] by auto
  have c: "set (map t_Pair ts) \<inter> set (set_Add (t_Pair t) seen) = {}"
    using Cons.prems(2,3) a(1) by auto
  have d: "distinct (map t_Pair ts)" using Cons.prems(2) by simp
  from Cons.IH [OF s(2) d c a(2)]
  show ?case using T a(3) by (simp add: s(3))
qed simp

text \<open>C27: a list of exchange rates, written as a vote, is read back as the same list, whenever its
  pairs are distinct; the written text determines the rates.\<close>

theorem vote_text_roundtrip:
  assumes "denom_laws E" and "format_laws E" and "ts \<noteq> []" and "distinct (map t_Pair ts)"
    and "Tuples_ToString E ts = Inr s"
  shows "ParseExchangeRateTuples E s = Inr ts"
proof -
  obtain ss where ss: "print_tuples E ts = Inr ss" "s = join_with (CHR ''|'') ss"
    using assms(5) by (auto simp: Tuples_ToString_def bindE_eq_Inr)
  have T: "parse_tuples E ss [] = Inr ts \<and> (\<forall>s \<in> set ss. CHR ''|'' \<notin> set s) \<and> length ss = length ts"
    by (rule tuples_text [OF assms(1,2) ss(1) assms(4)]) simp_all
  then have "ss \<noteq> []" using assms(3) by auto
  then show ?thesis using T
    by (simp add: ParseExchangeRateTuples_def NewExchangeRateTuplesFromString_def ss(2) split_join)
qed

text \<open>What a vote is read as is well formed: the pairs are valid, and none occurs twice.\<close>

lemma parse_tuples_valid:
  assumes "parse_tuples E ss seen = Inr ts" and "distinct seen"
  shows "distinct (map t_Pair ts) \<and> set (map t_Pair ts) \<inter> set seen = {}
    \<and> (\<forall>t \<in> set ts. Pair_Validate (ValidateDenom E) (t_Pair t) = Inr ()) \<and> length ts = length ss"
  using assms
proof (induction ss arbitrary: seen ts)
  case (Cons s ss)
  obtain t rest where t: "NewExchangeRateTupleFromString E s = Inr t" "\<not> set_Has seen (t_Pair t)"
      "parse_tuples E ss (set_Add (t_Pair t) seen) = Inr rest" "ts = t # rest"
    using Cons.prems(1) by (auto simp: bindE_eq_Inr)
  have v: "Pair_Validate (ValidateDenom E) (t_Pair t) = Inr ()"
    using t(1) TryNewPair_Inr
    by (auto simp: NewExchangeRateTupleFromString_def bindE_eq_Inr mapErr_eq_Inr getE_eq_Inr split: list.splits)
  have a: "set (set_Add (t_Pair t) seen) = insert (t_Pair t) (set seen)" "distinct (set_Add (t_Pair t) seen)"
    "t_Pair t \<notin> set seen"
    using Cons.prems(2) go.add_spec [of seen] go.has_spec [of seen] t(2) by auto
  show ?case using Cons.IH [OF t(3) a(2)] v a(1,3) by (auto simp: t(4))
qed simp

end
