(* ===== verification/Asset_Registry.thy ===== *)
theory Asset_Registry
  imports Sudo
begin

text \<open>
  The denominations of the chain (\<^verbatim>\<open>x/common/denoms/denoms.go\<close>), the registry of supported
  asset pairs (\<^verbatim>\<open>x/common/asset/registry.go\<close>: a map from a base denomination to the set of its quote
  denominations) and the moving average of \<^verbatim>\<open>x/common/ewma/ewma.go\<close>.
\<close>

section \<open>Denominations\<close>

definition USDC :: denom where "USDC = ''uusdc''"
definition NUSD :: denom where "NUSD = ''unusd''"
definition USD :: denom where "USD = ''uusd''"
definition USDT :: denom where "USDT = ''uusdt''"
definition NIBI :: denom where "NIBI = ''unibi''"
definition BTC :: denom where "BTC = ''ubtc''"
definition ETH :: denom where "ETH = ''ueth''"
definition ATOM :: denom where "ATOM = ''uatom''"
definition OSMO :: denom where "OSMO = ''uosmo''"
definition AVAX :: denom where "AVAX = ''uavax''"
definition SOL :: denom where "SOL = ''usol''"
definition BNB :: denom where "BNB = ''ubnb''"
definition ADA :: denom where "ADA = ''uada''"

lemmas denom_defs = USDC_def NUSD_def USD_def USDT_def NIBI_def BTC_def ETH_def ATOM_def OSMO_def AVAX_def
  SOL_def BNB_def ADA_def


section \<open>The registry\<close>

type_synonym registry = "(denom \<times> denom go_set) list"

definition Registry :: registry where
  "Registry =
     [(BTC, set_New [USDC, NUSD, USD, USDT]),
      (ETH, set_New [USDC, NUSD, USD, USDT]),
      (NIBI, set_New [USDC, NUSD, USD, USDT]),
      (ATOM, set_New [USDC, NUSD, USD, USDT]),
      (OSMO, set_New [USDC, NUSD, USD, USDT]),
      (AVAX, set_New [USDC, NUSD, USD, USDT]),
      (SOL, set_New [USDC, NUSD, USD, USDT]),
      (BNB, set_New [USDC, NUSD, USD, USDT]),
      (ADA, set_New [USDC, NUSD, USD, USDT]),
      (NUSD, set_New [USD, USDC]),
      (USDC, set_New [USD, NUSD]),
      (USDT, set_New [USD, NUSD, USDC])]"

definition quotes_of :: "registry \<Rightarrow> denom \<Rightarrow> denom go_set" where
  "quotes_of r base = (case map_of r base of None \<Rightarrow> [] | Some qs \<Rightarrow> qs)"

definition registry_Pair :: "registry \<Rightarrow> denom \<Rightarrow> denom \<Rightarrow> pair" where
  "registry_Pair r base quote = (if list_ex (\<lambda>q. q = quote) (quotes_of r base) then NewPair base quote else [])"

definition BaseDenoms :: "registry \<Rightarrow> denom go_set" where
  "BaseDenoms r = fold set_Add (map fst r) []"

definition QuoteDenoms :: "registry \<Rightarrow> denom go_set" where
  "QuoteDenoms r = fold (\<lambda>base. fold set_Add (quotes_of r base)) (map fst r) []"

definition IsSupportedBaseDenom :: "registry \<Rightarrow> denom \<Rightarrow> bool" where
  "IsSupportedBaseDenom r denom \<longleftrightarrow> map_of r denom \<noteq> None"

definition IsSupportedQuoteDenom :: "registry \<Rightarrow> denom \<Rightarrow> bool" where
  "IsSupportedQuoteDenom r denom \<longleftrightarrow> set_Has (QuoteDenoms r) denom"

definition IsSupportedDenom :: "registry \<Rightarrow> denom \<Rightarrow> bool" where
  "IsSupportedDenom r denom \<longleftrightarrow> IsSupportedBaseDenom r denom \<or> IsSupportedQuoteDenom r denom"

definition IsSupportedPair :: "registry \<Rightarrow> denom \<Rightarrow> denom \<Rightarrow> bool" where
  "IsSupportedPair r base quote \<longleftrightarrow> IsSupportedBaseDenom r base \<and> IsSupportedQuoteDenom r quote"

lemma fold_quotes:
  "distinct acc \<Longrightarrow> set (fold (\<lambda>base. fold set_Add (quotes_of r base)) bs acc) =
     set acc \<union> (\<Union>b \<in> set bs. set (quotes_of r b)) \<and> distinct (fold (\<lambda>base. fold set_Add (quotes_of r base)) bs acc)"
proof (induction bs arbitrary: acc)
  case (Cons b bs)
  then show ?case using go.fold_add [of acc "quotes_of r b"] by auto
qed simp

lemma QuoteDenoms_spec: "set (QuoteDenoms r) = (\<Union>b \<in> set (map fst r). set (quotes_of r b))" "distinct (QuoteDenoms r)"
  using fold_quotes [of "[]" r "map fst r"] by (simp_all add: QuoteDenoms_def)

text \<open>The registry answers consistently: a pair it names is exactly a base with one of that base's quotes, its
  denominations are supported, and every pair of the registry is counted as supported.\<close>

theorem registry_Pair_supported:
  assumes "registry_Pair r base quote \<noteq> []"
  shows "registry_Pair r base quote = NewPair base quote \<and> quote \<in> set (quotes_of r base)
    \<and> IsSupportedPair r base quote \<and> IsSupportedDenom r base \<and> IsSupportedDenom r quote"
proof -
  have q: "quote \<in> set (quotes_of r base)" using assms by (auto simp: registry_Pair_def list_ex_iff split: if_splits)
  then have b: "map_of r base \<noteq> None" by (cases "map_of r base") (simp_all add: quotes_of_def)
  then have "base \<in> set (map fst r)" by (simp add: map_of_eq_None_iff)
  then have "set_Has (QuoteDenoms r) quote"
    using q QuoteDenoms_spec [of r] go.has_spec [of "QuoteDenoms r"] by blast
  then show ?thesis using q b
    by (auto simp: registry_Pair_def list_ex_iff IsSupportedPair_def IsSupportedDenom_def IsSupportedBaseDenom_def
        IsSupportedQuoteDenom_def)
qed

text \<open>The converse fails: the code counts a base with a quote of some other base as a supported pair, although
  the registry has no such pair.\<close>

theorem IsSupportedPair_without_pair: "IsSupportedPair Registry NUSD USDT \<and> registry_Pair Registry NUSD USDT = []"
  by code_simp

theorem registry_Pair_supported_witness: "IsSupportedPair Registry BTC NUSD \<and> registry_Pair Registry BTC NUSD = NewPair BTC NUSD"
proof -
  have "registry_Pair Registry BTC NUSD \<noteq> []" by code_simp
  from registry_Pair_supported [OF this] show ?thesis by simp
qed


section \<open>The exponentially weighted moving average\<close>

record ewma =
  ew_decay :: dec
  ew_value :: dec

definition NewMovingAverage :: "'z sdk_dec_scheme \<Rightarrow> dec \<Rightarrow> ewma" where
  "NewMovingAverage E span = \<lparr>ew_decay = dec_Quo E (NewDec 2) (span + OneDec), ew_value = 0\<rparr>"

definition ewma_Add :: "'z sdk_dec_scheme \<Rightarrow> dec \<Rightarrow> ewma \<Rightarrow> ewma" where
  "ewma_Add E d v =
     (if ew_value v = 0 then v\<lparr>ew_value := d\<rparr>
      else v\<lparr>ew_value := dec_Mul E (ew_value v) (OneDec - ew_decay v) + dec_Mul E d (ew_decay v)\<rparr>)"

definition ewma_Value :: "ewma \<Rightarrow> dec" where
  "ewma_Value v = ew_value v"

definition ewma_Set :: "dec \<Rightarrow> ewma \<Rightarrow> ewma" where
  "ewma_Set d v = v\<lparr>ew_value := d\<rparr>"

context sdk_decimal
begin

lemma convex_between:
  assumes "lo \<le> x" "x \<le> hi" "lo \<le> y" "y \<le> hi" "0 \<le> w" "w \<le> OneDec"
  shows "lo - 1 \<le> mul x (OneDec - w) + mul y w" and "mul x (OneDec - w) + mul y w \<le> hi + 1"
proof -
  let ?s = "mul x (OneDec - w) + mul y w"
  have "x * (PREC - w) + y * w \<le> hi * (PREC - w) + hi * w" "lo * (PREC - w) + lo * w \<le> x * (PREC - w) + y * w"
    using assms by (intro add_mono mult_right_mono; simp add: OneDec_def)+
  then have c: "x * (PREC - w) + y * w \<le> hi * PREC" "lo * PREC \<le> x * (PREC - w) + y * w"
    by (simp_all add: right_diff_distrib)
  have m: "2 * (?s * PREC) \<le> 2 * (x * (PREC - w) + y * w) + 2 * PREC"
      "2 * (x * (PREC - w) + y * w) - 2 * PREC \<le> 2 * (?s * PREC)"
    using mul_bounds [of x "OneDec - w"] mul_bounds [of y w] unfolding OneDec_def distrib_right distrib_left by linarith+
  have "?s * PREC \<le> (hi + 1) * PREC" "(lo - 1) * PREC \<le> ?s * PREC"
    using m c unfolding distrib_right left_diff_distrib by simp_all
  then show "lo - 1 \<le> ?s" "?s \<le> hi + 1" by (simp_all only: mult_le_cancel_right_pos [OF PREC_pos])
qed

end

text \<open>A moving average of values in a range stays in that range, up to one unit in the last place for each
  value added.\<close>

theorem ewma_between:
  assumes "dec_laws E" and "0 \<le> ew_decay v" and "ew_decay v \<le> OneDec"
    and "\<forall>d \<in> set (x # ds). lo \<le> d \<and> d \<le> hi" and "ew_value v = 0"
  shows "lo - int (length ds) \<le> ew_value (fold (ewma_Add E) (x # ds) v)
    \<and> ew_value (fold (ewma_Add E) (x # ds) v) \<le> hi + int (length ds)"
proof -
  have step: "ew_decay (ewma_Add E d u) = ew_decay u" for d u by (simp add: ewma_Add_def)
  have "a - int (length ds) \<le> ew_value (fold (ewma_Add E) ds u)
      \<and> ew_value (fold (ewma_Add E) ds u) \<le> b + int (length ds)"
    if "a \<le> ew_value u" "ew_value u \<le> b" "a \<le> lo" "hi \<le> b" "ew_decay u = ew_decay v" "\<forall>d \<in> set ds. lo \<le> d \<and> d \<le> hi"
    for a b u ds
    using that
  proof (induction ds arbitrary: a b u)
    case (Cons d ds)
    have d: "a \<le> d" "d \<le> b" using Cons.prems by force+
    have "a - 1 \<le> ew_value (ewma_Add E d u) \<and> ew_value (ewma_Add E d u) \<le> b + 1"
      using sdk_decimal.convex_between [OF dec_lawsD [OF assms(1)] Cons.prems(1,2) d, of "ew_decay u"]
        assms(2,3) Cons.prems d by (simp add: ewma_Add_def)
    then show ?case using Cons.IH [of "a - 1" "ewma_Add E d u" "b + 1"] Cons.prems by (simp add: step)
  qed simp
  from this [of lo "ewma_Add E x v" hi ds] show ?thesis using assms(4,5) by (simp add: step) (simp add: ewma_Add_def)
qed

theorem ewma_between_witness:
  "ew_value (fold (ewma_Add ref_dec) [100 * PREC, 200 * PREC] (NewMovingAverage ref_dec (3 * PREC))) \<le> 200 * PREC + 1"
proof -
  have "0 \<le> ew_decay (NewMovingAverage ref_dec (3 * PREC))" "ew_decay (NewMovingAverage ref_dec (3 * PREC)) \<le> OneDec"
    by code_simp+
  from ewma_between [OF ref_dec_laws this, of "100 * PREC" "[200 * PREC]" "100 * PREC" "200 * PREC"]
  show ?thesis by (simp add: NewMovingAverage_def)
qed

end
