(* ===== verification/Oracle_Params.thy ===== *)
theory Oracle_Params
  imports Oracle_Vote Asset_Registry
begin

text \<open>
  The parameters of the oracle (\<^verbatim>\<open>x/oracle/types/params.go\<close>): their defaults, the validation of
  a whole set (\<open>Params.Validate\<close>) and the validators registered for single parameters, which take
  a value of any type (\<open>param_value\<close>) and refuse the wrong one.
\<close>

record oracle_params =
  VotePeriod_p :: "64 word"
  VoteThreshold_p :: dec
  MinVoters_p :: "64 word"
  RewardBand_p :: dec
  Whitelist_p :: "pair list"
  SlashFraction_p :: dec
  SlashWindow_p :: "64 word"
  MinValidPerWindow_p :: dec
  TwapLookbackWindow_p :: int
  ValidatorFeeRatio_p :: dec

definition DefaultWhitelist :: "pair list" where
  "DefaultWhitelist =
     [registry_Pair Registry NIBI NUSD, registry_Pair Registry BTC NUSD, registry_Pair Registry ETH NUSD,
      registry_Pair Registry ATOM NUSD, registry_Pair Registry BNB NUSD, registry_Pair Registry USDC NUSD,
      registry_Pair Registry USDT NUSD,
      registry_Pair Registry NIBI USD, registry_Pair Registry BTC USD, registry_Pair Registry ETH USD,
      registry_Pair Registry ATOM USD, registry_Pair Registry BNB USD, registry_Pair Registry USDC USD,
      registry_Pair Registry USDT USD]"

definition oracle_DefaultParams :: "'b chain_sdk \<Rightarrow> oracle_params" where
  "oracle_DefaultParams E =
     \<lparr>VotePeriod_p = 10,
      VoteThreshold_p = dec_Quo E OneDec (NewDec 3),
      MinVoters_p = 4,
      RewardBand_p = 20000000000000000,
      Whitelist_p = DefaultWhitelist,
      SlashFraction_p = 100000000000000,
      SlashWindow_p = 604800,
      MinValidPerWindow_p = 50000000000000000,
      TwapLookbackWindow_p = 900000000000,
      ValidatorFeeRatio_p = 50000000000000000\<rparr>"

abbreviation percent33 :: dec where "percent33 \<equiv> 330000000000000000"

definition oracle_Params_Validate :: "'b chain_sdk \<Rightarrow> oracle_params \<Rightarrow> oracle_error + unit" where
  "oracle_Params_Validate E p =
     bindE (checkE (VotePeriod_p p \<noteq> 0) InvalidParams) (\<lambda>_.
     bindE (checkE (\<not> VoteThreshold_p p \<le> percent33) InvalidParams) (\<lambda>_.
     bindE (checkE (\<not> MinVoters_p p \<le> 0) InvalidParams) (\<lambda>_.
     bindE (checkE (\<not> (OneDec < RewardBand_p p \<or> RewardBand_p p < 0)) InvalidParams) (\<lambda>_.
     bindE (checkE (\<not> (OneDec < SlashFraction_p p \<or> SlashFraction_p p < 0)) InvalidParams) (\<lambda>_.
     bindE (checkE (\<not> SlashWindow_p p < VotePeriod_p p) InvalidParams) (\<lambda>_.
     bindE (checkE (\<not> (OneDec < MinValidPerWindow_p p \<or> MinValidPerWindow_p p < 0)) InvalidParams) (\<lambda>_.
     bindE (checkE (\<not> (OneDec < ValidatorFeeRatio_p p \<or> ValidatorFeeRatio_p p < 0)) InvalidParams) (\<lambda>_.
     checkE (\<forall>pair \<in> set (Whitelist_p p). Pair_Validate (ValidateDenom E) pair = Inr ()) InvalidParams))))))))"


section \<open>The validators of single parameters\<close>

datatype param_value = PUint64 "64 word" | PDec dec | PPairs "pair list" | PDuration int

definition validateVotePeriod :: "param_value \<Rightarrow> oracle_error + unit" where
  "validateVotePeriod i = (case i of PUint64 v \<Rightarrow> checkE (v \<noteq> 0) InvalidParams | _ \<Rightarrow> Inl InvalidParams)"

definition validateMinVoters :: "param_value \<Rightarrow> oracle_error + unit" where
  "validateMinVoters i = (case i of PUint64 v \<Rightarrow> checkE (v \<noteq> 0) InvalidParams | _ \<Rightarrow> Inl InvalidParams)"

definition validateVoteThreshold :: "param_value \<Rightarrow> oracle_error + unit" where
  "validateVoteThreshold i = (case i of
     PDec v \<Rightarrow> bindE (checkE (\<not> v < percent33) InvalidParams) (\<lambda>_. checkE (\<not> OneDec < v) InvalidParams)
   | _ \<Rightarrow> Inl InvalidParams)"

definition validateRewardBand :: "param_value \<Rightarrow> oracle_error + unit" where
  "validateRewardBand i = (case i of
     PDec v \<Rightarrow> bindE (checkE (\<not> v < 0) InvalidParams) (\<lambda>_. checkE (\<not> OneDec < v) InvalidParams)
   | _ \<Rightarrow> Inl InvalidParams)"

definition validateWhitelist :: "'b chain_sdk \<Rightarrow> param_value \<Rightarrow> oracle_error + unit" where
  "validateWhitelist E i = (case i of
     PPairs v \<Rightarrow> checkE (\<forall>d \<in> set v. Pair_Validate (ValidateDenom E) d = Inr ()) InvalidParams
   | _ \<Rightarrow> Inl InvalidParams)"

definition validateSlashFraction :: "param_value \<Rightarrow> oracle_error + unit" where
  "validateSlashFraction i = (case i of
     PDec v \<Rightarrow> bindE (checkE (\<not> v < 0) InvalidParams) (\<lambda>_. checkE (\<not> OneDec < v) InvalidParams)
   | _ \<Rightarrow> Inl InvalidParams)"

definition validateSlashWindow :: "param_value \<Rightarrow> oracle_error + unit" where
  "validateSlashWindow i = (case i of PUint64 v \<Rightarrow> checkE (v \<noteq> 0) InvalidParams | _ \<Rightarrow> Inl InvalidParams)"

definition validateMinValidPerWindow :: "param_value \<Rightarrow> oracle_error + unit" where
  "validateMinValidPerWindow i = (case i of
     PDec v \<Rightarrow> bindE (checkE (\<not> v < 0) InvalidParams) (\<lambda>_. checkE (\<not> OneDec < v) InvalidParams)
   | _ \<Rightarrow> Inl InvalidParams)"

definition validateTwapLookbackWindow :: "param_value \<Rightarrow> oracle_error + unit" where
  "validateTwapLookbackWindow i = (case i of PDuration v \<Rightarrow> checkE (\<not> v < 0) InvalidParams | _ \<Rightarrow> Inl InvalidParams)"

definition validateValidatorFeeRatio :: "param_value \<Rightarrow> oracle_error + unit" where
  "validateValidatorFeeRatio i = (case i of
     PDec v \<Rightarrow> bindE (checkE (\<not> v < 0) InvalidParams) (\<lambda>_. checkE (\<not> OneDec < v) InvalidParams)
   | _ \<Rightarrow> Inl InvalidParams)"

text \<open>Each parameter with its key and the validator it is registered with.\<close>

definition ParamSetPairs :: "'b chain_sdk \<Rightarrow> oracle_params \<Rightarrow>
    (string \<times> param_value \<times> (param_value \<Rightarrow> oracle_error + unit)) list" where
  "ParamSetPairs E p =
     [(''VotePeriod'', PUint64 (VotePeriod_p p), validateVotePeriod),
      (''VoteThreshold'', PDec (VoteThreshold_p p), validateVoteThreshold),
      (''MinVoters'', PUint64 (MinVoters_p p), validateMinVoters),
      (''RewardBand'', PDec (RewardBand_p p), validateRewardBand),
      (''Whitelist'', PPairs (Whitelist_p p), validateWhitelist E),
      (''SlashFraction'', PDec (SlashFraction_p p), validateSlashFraction),
      (''SlashWindow'', PUint64 (SlashWindow_p p), validateSlashWindow),
      (''MinValidPerWindow'', PDec (MinValidPerWindow_p p), validateMinValidPerWindow),
      (''TwapLookbackWindow'', PDuration (TwapLookbackWindow_p p), validateTwapLookbackWindow),
      (''ValidatorFeeRatio'', PDec (ValidatorFeeRatio_p p), validateValidatorFeeRatio)]"

definition each_valid :: "'b chain_sdk \<Rightarrow> oracle_params \<Rightarrow> bool" where
  "each_valid E p \<longleftrightarrow> (\<forall>(key, v, validate) \<in> set (ParamSetPairs E p). validate v = Inr ())"

lemmas param_validators = validateVotePeriod_def validateMinVoters_def validateVoteThreshold_def validateRewardBand_def
  validateWhitelist_def validateSlashFraction_def validateSlashWindow_def validateMinValidPerWindow_def
  validateTwapLookbackWindow_def validateValidatorFeeRatio_def

lemma oracle_Params_Validate_iff: "oracle_Params_Validate E p = Inr () \<longleftrightarrow>
    VotePeriod_p p \<noteq> 0 \<and> percent33 < VoteThreshold_p p \<and> MinVoters_p p \<noteq> 0
    \<and> 0 \<le> RewardBand_p p \<and> RewardBand_p p \<le> OneDec \<and> 0 \<le> SlashFraction_p p \<and> SlashFraction_p p \<le> OneDec
    \<and> VotePeriod_p p \<le> SlashWindow_p p \<and> 0 \<le> MinValidPerWindow_p p \<and> MinValidPerWindow_p p \<le> OneDec
    \<and> 0 \<le> ValidatorFeeRatio_p p \<and> ValidatorFeeRatio_p p \<le> OneDec
    \<and> (\<forall>pair \<in> set (Whitelist_p p). Pair_Validate (ValidateDenom E) pair = Inr ())"
  by (simp add: oracle_Params_Validate_def bindE_eq_Inr not_less not_le word_gt_0_no word_neq_0_conv) auto

text \<open>The two validations of the parameters differ in exactly four places: the whole set may have a threshold
  above one and a negative look-back window, which the single validators refuse; these accept a threshold
  of exactly 33 percent and a slash window shorter than the vote period, which the whole set refuses.\<close>

theorem Params_Validate_vs_each:
  "oracle_Params_Validate E p = Inr () \<and> VoteThreshold_p p \<le> OneDec \<and> 0 \<le> TwapLookbackWindow_p p \<longleftrightarrow>
   each_valid E p \<and> VoteThreshold_p p \<noteq> percent33 \<and> VotePeriod_p p \<le> SlashWindow_p p"
proof -
  have w: "VotePeriod_p p \<noteq> 0 \<Longrightarrow> VotePeriod_p p \<le> SlashWindow_p p \<Longrightarrow> SlashWindow_p p \<noteq> 0"
    by auto
  have e: "each_valid E p \<longleftrightarrow> VotePeriod_p p \<noteq> 0 \<and> percent33 \<le> VoteThreshold_p p \<and> VoteThreshold_p p \<le> OneDec
    \<and> MinVoters_p p \<noteq> 0 \<and> 0 \<le> RewardBand_p p \<and> RewardBand_p p \<le> OneDec
    \<and> 0 \<le> SlashFraction_p p \<and> SlashFraction_p p \<le> OneDec \<and> SlashWindow_p p \<noteq> 0
    \<and> 0 \<le> MinValidPerWindow_p p \<and> MinValidPerWindow_p p \<le> OneDec \<and> 0 \<le> TwapLookbackWindow_p p
    \<and> 0 \<le> ValidatorFeeRatio_p p \<and> ValidatorFeeRatio_p p \<le> OneDec
    \<and> (\<forall>pair \<in> set (Whitelist_p p). Pair_Validate (ValidateDenom E) pair = Inr ())"
    by (simp add: each_valid_def ParamSetPairs_def param_validators bindE_eq_Inr not_less) blast
  show ?thesis unfolding oracle_Params_Validate_iff e using w by (auto simp: order_less_le)
qed

end
