(* ===== verification/Oracle_Tally.thy ===== *)
theory Oracle_Tally
  imports Oracle_Ballot
begin

text \<open>
  What a tally computes: the weighted median splits the voting power in two halves, the
  outcome does not depend on how ties are sorted, and exactly the votes inside the spread (and the
  abstentions) are credited.
\<close>

section \<open>Voting power\<close>

definition powers_ok :: "ballot list \<Rightarrow> bool" where
  "powers_ok bs \<longleftrightarrow> (\<forall>b \<in> set bs. 0 \<le> b_Power b) \<and> sum_list (map b_Power bs) < 2 ^ 63"

definition upto :: "ballot list \<Rightarrow> dec \<Rightarrow> int" where
  "upto bs r = sum_list (map b_Power (filter (\<lambda>b. b_ExchangeRate b \<le> r) bs))"

definition below :: "ballot list \<Rightarrow> dec \<Rightarrow> int" where
  "below bs r = sum_list (map b_Power (filter (\<lambda>b. b_ExchangeRate b < r) bs))"

lemma fold_i64: "fold (\<lambda>x t. i64 (t + f x)) xs (i64 a) = i64 (a + sum_list (map f xs))"
  by (induction xs arbitrary: a) (simp_all add: i64_add algebra_simps)

lemma i64_0 [simp]: "i64 0 = 0"
  by (simp add: i64_def)

lemma powers_nonneg: "\<forall>b \<in> set bs. 0 \<le> b_Power b \<Longrightarrow> 0 \<le> sum_list (map b_Power bs)"
  by (induction bs) auto

lemma Ballots_Power_eq: "Ballots_Power bs = i64 (sum_list (map b_Power bs))"
  using fold_i64 [of b_Power bs 0] by (simp add: Ballots_Power_def)

lemma powers_ok_Ballots_Power: "powers_ok bs \<Longrightarrow> Ballots_Power bs = sum_list (map b_Power bs)"
proof -
  assume p: "powers_ok bs"
  then have "0 \<le> sum_list (map b_Power bs)" by (simp add: powers_ok_def powers_nonneg)
  then show ?thesis using p by (simp add: Ballots_Power_eq powers_ok_def i64_def)
qed

lemma upto_append: "upto (as @ bs) r = upto as r + upto bs r" "below (as @ bs) r = below as r + below bs r"
  by (simp_all add: upto_def below_def)

lemma sum_filter_le: "\<forall>b \<in> set bs. (0 :: int) \<le> f b \<Longrightarrow> 0 \<le> sum_list (map f (filter P bs)) \<and>
    sum_list (map f (filter P bs)) \<le> sum_list (map f bs)"
  by (induction bs) auto

lemma below_upto: "below bs r \<le> upto bs r" if "\<forall>b \<in> set bs. 0 \<le> b_Power b"
  using that by (induction bs) (auto simp: below_def upto_def)

lemma upto_zero: "\<forall>b \<in> set bs. b_ExchangeRate b \<le> r \<longrightarrow> b_Power b = 0 \<Longrightarrow> upto bs r = 0"
  by (induction bs) (auto simp: upto_def)

lemma powers_mset: "mset as = mset bs \<Longrightarrow> sum_list (map b_Power as) = sum_list (map b_Power bs)"
    "mset as = mset bs \<Longrightarrow> upto as r = upto bs r" "mset as = mset bs \<Longrightarrow> powers_ok as = powers_ok bs"
proof -
  assume m: "mset as = mset bs"
  have f: "sum_list (map b_Power (filter P as)) = sum_list (map b_Power (filter P bs))" for P
  proof -
    have "mset (map b_Power (filter P as)) = mset (map b_Power (filter P bs))" using m by simp
    then show ?thesis by (metis sum_mset_sum_list)
  qed
  show s: "sum_list (map b_Power as) = sum_list (map b_Power bs)" using f [of "\<lambda>_. True"] by simp
  show "powers_ok as = powers_ok bs" using s mset_eq_setD [OF m] by (simp add: powers_ok_def)
  show "upto as r = upto bs r" unfolding upto_def by (rule f)
qed


section \<open>The weighted median\<close>

text \<open>The loop stops at the first ballot where the power counted so far reaches half of the total.\<close>

lemma median_loop_split:
  assumes "vs \<noteq> []" and "\<forall>b \<in> set vs. 0 \<le> b_Power b" and "0 \<le> pivot"
    and "t = pivot + sum_list (map b_Power vs)" and "t < 2 ^ 63"
  shows "\<exists>as v bs. vs = as @ v # bs \<and> median_loop t pivot vs = b_ExchangeRate v
    \<and> t div 2 \<le> pivot + sum_list (map b_Power (as @ [v]))
    \<and> (as \<noteq> [] \<longrightarrow> pivot + sum_list (map b_Power as) < t div 2)"
  using assms
proof (induction vs arbitrary: pivot)
  case (Cons v vs)
  have n: "0 \<le> sum_list (map b_Power vs)" using Cons.prems(2) by (intro sum_list_nonneg) auto
  have p: "0 \<le> pivot + b_Power v" "pivot + b_Power v \<le> t" using Cons.prems n by auto
  have i: "i64 (pivot + b_Power v) = pivot + b_Power v" using p Cons.prems(5) by (simp add: i64_id)
  have t: "go_quo t 2 = t div 2" using p by (simp add: go_quo_nonneg)
  show ?case
  proof (cases "t div 2 \<le> pivot + b_Power v")
    case True
    then show ?thesis using i t by (intro exI [of _ "[]"] exI [of _ v] exI [of _ vs]) simp
  next
    case False
    have "vs \<noteq> []"
    proof
      assume "vs = []"
      then have "t = pivot + b_Power v" using Cons.prems(4) by simp
      with False p(1) show False by simp
    qed
    moreover have "\<forall>b \<in> set vs. 0 \<le> b_Power b" "t = pivot + b_Power v + sum_list (map b_Power vs)"
      using Cons.prems by simp_all
    ultimately obtain as w bs where s: "vs = as @ w # bs"
        "median_loop t (pivot + b_Power v) vs = b_ExchangeRate w"
        "t div 2 \<le> pivot + b_Power v + sum_list (map b_Power (as @ [w]))"
        "as \<noteq> [] \<longrightarrow> pivot + b_Power v + sum_list (map b_Power as) < t div 2"
      using Cons.IH [of "pivot + b_Power v"] p(1) Cons.prems(5) by blast
    have "pivot + sum_list (map b_Power (v # as)) < t div 2" using s(4) False by (cases as) auto
    then show ?thesis using s False i t
      by (intro exI [of _ "v # as"] exI [of _ w] exI [of _ bs]) (simp add: algebra_simps)
  qed
qed simp

lemma WeightedMedian_spec:
  assumes "bs \<noteq> []" and "powers_ok bs" and "sorted (map b_ExchangeRate bs)"
  shows "WeightedMedian bs \<in> b_ExchangeRate ` set bs"
    and "sum_list (map b_Power bs) div 2 \<le> upto bs (WeightedMedian bs)"
    and "b \<in> set bs \<Longrightarrow> b_ExchangeRate b < WeightedMedian bs \<Longrightarrow>
      upto bs (b_ExchangeRate b) < sum_list (map b_Power bs) div 2"
    and "below bs (WeightedMedian bs) = 0 \<or> below bs (WeightedMedian bs) < sum_list (map b_Power bs) div 2"
proof -
  let ?t = "sum_list (map b_Power bs)"
  have nn: "\<forall>b \<in> set bs. 0 \<le> b_Power b" using assms(2) by (simp add: powers_ok_def)
  obtain as v cs where s: "bs = as @ v # cs" "WeightedMedian bs = b_ExchangeRate v"
      "?t div 2 \<le> sum_list (map b_Power (as @ [v]))"
      "as \<noteq> [] \<longrightarrow> sum_list (map b_Power as) < ?t div 2"
  proof -
    have "?t = 0 + ?t" "?t < 2 ^ 63" using assms(2) by (simp_all add: powers_ok_def)
    from median_loop_split [OF assms(1) nn order_refl this] that show thesis
      unfolding WeightedMedian_def powers_ok_Ballots_Power [OF assms(2)] by (metis add_0)
  qed
  show "WeightedMedian bs \<in> b_ExchangeRate ` set bs" using s(1,2) by simp
  have le: "\<forall>b \<in> set as. b_ExchangeRate b \<le> b_ExchangeRate v" and ge: "\<forall>b \<in> set cs. b_ExchangeRate v \<le> b_ExchangeRate b"
    using assms(3) by (auto simp: s(1) sorted_append)
  have "filter (\<lambda>b. b_ExchangeRate b \<le> b_ExchangeRate v) (as @ [v]) = as @ [v]" using le by simp
  moreover have "0 \<le> upto cs (b_ExchangeRate v)"
    using nn sum_filter_le [of cs b_Power] by (simp add: s(1) upto_def)
  ultimately show "?t div 2 \<le> upto bs (WeightedMedian bs)"
    using s(3) by (simp add: s(2) upto_def) (simp add: s(1))
  have before: "sum_list (map b_Power (filter P bs)) \<le> sum_list (map b_Power as)"
    if "\<And>b. b \<in> set (v # cs) \<Longrightarrow> \<not> P b" for P
  proof -
    have "filter P (v # cs) = []" using that by (intro filter_False) auto
    then have "filter P bs = filter P as" by (simp add: s(1))
    then show ?thesis using nn sum_filter_le [of as b_Power P] by (simp add: s(1))
  qed
  show "upto bs (b_ExchangeRate b) < ?t div 2" if "b \<in> set bs" and lt: "b_ExchangeRate b < WeightedMedian bs"
  proof -
    have "b \<in> set as" using that ge by (auto simp: s(2)) (auto simp: s(1))
    then have "sum_list (map b_Power as) < ?t div 2" using s(4) by auto
    moreover have "upto bs (b_ExchangeRate b) \<le> sum_list (map b_Power as)"
      unfolding upto_def by (rule before) (use lt ge in \<open>auto simp: s(2)\<close>)
    ultimately show ?thesis by linarith
  qed
  have b: "below bs (WeightedMedian bs) \<le> sum_list (map b_Power as)"
    unfolding below_def by (rule before) (use ge in \<open>auto simp: s(2)\<close>)
  show "below bs (WeightedMedian bs) = 0 \<or> below bs (WeightedMedian bs) < ?t div 2"
  proof (cases "as = []")
    case True
    have "0 \<le> below bs (WeightedMedian bs)" using nn sum_filter_le [of bs b_Power] by (simp add: below_def)
    with b True show ?thesis by simp
  next
    case False
    with s(4) b show ?thesis by simp
  qed
qed

lemma WeightedMedian_mset:
  assumes "mset as = mset bs" and "powers_ok bs"
    and "sorted (map b_ExchangeRate as)" and "sorted (map b_ExchangeRate bs)"
  shows "WeightedMedian as = WeightedMedian bs"
proof (cases "bs = []")
  case False
  then have ne: "as \<noteq> []" "bs \<noteq> []" using assms(1) by auto
  have le: "WeightedMedian ys \<le> WeightedMedian xs"
    if m: "mset xs = mset ys" and "xs \<noteq> []" "ys \<noteq> []" "powers_ok ys" "sorted (map b_ExchangeRate xs)"
      "sorted (map b_ExchangeRate ys)" for xs ys
  proof (rule ccontr)
    assume c: "\<not> ?thesis"
    note X = WeightedMedian_spec [OF that(2) _ that(5)] and Y = WeightedMedian_spec [OF that(3,4,6)]
    have px: "powers_ok xs" using powers_mset(3) [OF m] that(4) by simp
    obtain b where "b \<in> set xs" and b: "b_ExchangeRate b = WeightedMedian xs" using X(1) [OF px] by auto
    then have "b \<in> set ys" using mset_eq_setD [OF m] by simp
    then have "upto ys (WeightedMedian xs) < sum_list (map b_Power ys) div 2" using Y(3) [of b] b c by simp
    with X(2) [OF px] show False by (simp add: powers_mset(1,2) [OF m])
  qed
  show ?thesis
    using le [OF assms(1) ne assms(2-4)] le [OF assms(1) [symmetric] ne(2,1) _ assms(4,3)] assms(2)
      powers_mset(3) [OF assms(1)] by simp
qed (use assms(1) in simp)


section \<open>The spread\<close>

context sdk_decimal
begin

lemma mul_square_nonneg: "0 \<le> mul d d"
proof -
  have "mul d d = mul (- d) (- d)"
    using mul_minus [of d d] mul_minus [of d "- d"] mul_comm [of d "- d"] by simp
  then show ?thesis using mul_nonneg [of d d] mul_nonneg [of "- d" "- d"] by (cases "0 \<le> d") auto
qed

end

definition square :: "'b chain_sdk \<Rightarrow> dec \<Rightarrow> ballot \<Rightarrow> dec" where
  "square E median b = dec_Mul E (b_ExchangeRate b - median) (b_ExchangeRate b - median)"

lemma square_nonneg: "dec_laws E \<Longrightarrow> 0 \<le> square E median b"
  using sdk_decimal.mul_square_nonneg [OF dec_lawsD] by (simp add: square_def)

lemma sum_squares_nonneg: "dec_laws E \<Longrightarrow> 0 \<le> sum_list (map (square E median) bs)"
  by (induction bs) (auto simp: square_nonneg)

text \<open>The sums grow, so the code overflows exactly when a square or the whole sum does.\<close>

lemma deviation_sum_eq:
  assumes "dec_laws E" and "0 \<le> acc"
  shows "deviation_sum E median bs acc =
    (if (\<forall>b \<in> set bs. dec_fits (b_ExchangeRate b - median) \<and> dec_fits (square E median b))
        \<and> (bs = [] \<or> dec_fits (acc + sum_list (map (square E median) bs)))
     then Some (acc + sum_list (map (square E median) bs)) else None)"
  using assms(2)
proof (induction bs arbitrary: acc)
  case (Cons v vs)
  have n: "0 \<le> square E median v" "0 \<le> sum_list (map (square E median) vs)"
    using assms(1) by (rule square_nonneg sum_squares_nonneg)+
  have f: "dec_fits (acc + square E median v + sum_list (map (square E median) vs)) \<Longrightarrow> dec_fits (acc + square E median v)"
    using n Cons.prems by (auto simp: dec_fits_def)
  show ?case using Cons.IH [of "acc + square E median v"] n Cons.prems f
    by (auto simp: Let_def square_def [symmetric] add.assoc)
qed simp

lemma StandardDeviation_mset:
  assumes "dec_laws E" and "mset as = mset bs"
  shows "StandardDeviation E median as = StandardDeviation E median bs"
proof -
  have "mset (map (square E median) as) = mset (map (square E median) bs)" using assms(2) by simp
  then have s: "sum_list (map (square E median) as) = sum_list (map (square E median) bs)"
    by (metis sum_mset_sum_list)
  have "as = [] \<longleftrightarrow> bs = []" "length as = length bs" "set as = set bs"
    using assms(2) by (auto dest: mset_eq_length mset_eq_setD)
  then show ?thesis by (simp add: StandardDeviation_def deviation_sum_eq [OF assms(1)] s)
qed


section \<open>Crediting the winners\<close>

definition credit_map :: "'b chain_sdk \<Rightarrow> dec \<Rightarrow> dec \<Rightarrow> ballot \<Rightarrow> (string \<rightharpoonup> performance) \<Rightarrow> string \<rightharpoonup> performance" where
  "credit_map E median spread b m =
     (if rewarded median spread b
      then m(ValAddressString E (b_Voter b) \<mapsto> add_win (b_Power b)
             (case m (ValAddressString E (b_Voter b)) of None \<Rightarrow> zero_performance | Some p \<Rightarrow> p))
      else m)"

lemma kv_get_credit: "kv_get (credit E median spread b ps) = credit_map E median spread b (kv_get ps)"
  by (simp add: credit_def credit_map_def Let_def)

lemma kv_get_credits: "kv_get (fold (credit E median spread) bs ps) = fold (credit_map E median spread) bs (kv_get ps)"
  by (induction bs arbitrary: ps) (simp_all add: kv_get_credit)

lemma credits_wf: "kv_wf ps \<Longrightarrow> kv_wf (fold (credit E median spread) bs ps)"
  by (induction bs arbitrary: ps) (simp_all add: credit_def Let_def)

lemma add_win_comm: "add_win p (add_win q x) = add_win q (add_win p x)"
  by (simp add: add_win_def i64_add algebra_simps)

lemma credit_map_comm: "credit_map E m s b \<circ> credit_map E m s c = credit_map E m s c \<circ> credit_map E m s b"
  by (rule ext) (auto simp: credit_map_def add_win_comm fun_upd_twist split: option.splits)

lemma credits_mset:
  assumes "mset as = mset bs" and "kv_wf ps"
  shows "fold (credit E median spread) as ps = fold (credit E median spread) bs ps"
proof (rule kv_ext)
  have "fold (credit_map E median spread) as = fold (credit_map E median spread) bs"
    by (rule fold_multiset_equiv) (use assms(1) credit_map_comm in auto)
  then show "kv_get (fold (credit E median spread) as ps) = kv_get (fold (credit E median spread) bs ps)"
    by (simp add: kv_get_credits)
qed (use assms(2) in \<open>auto intro: credits_wf\<close>)

text \<open>What one validator gains.\<close>

definition wins :: "'b chain_sdk \<Rightarrow> dec \<Rightarrow> dec \<Rightarrow> addr \<Rightarrow> ballot list \<Rightarrow> ballot list" where
  "wins E median spread v bs = filter (\<lambda>b. rewarded median spread b \<and> b_Voter b = v) bs"

lemma format_inj: "format_laws E \<Longrightarrow> ValAddressString E a = ValAddressString E b \<longleftrightarrow> a = b"
  unfolding format_laws_def by (metis option.inject)

lemma fold_credit_map_at:
  assumes "format_laws E" and "m (ValAddressString E v) = Some p"
  shows "fold (credit_map E median spread) bs m (ValAddressString E v) =
    Some (p\<lparr>vp_RewardWeight := fold (\<lambda>b w. i64 (w + b_Power b)) (wins E median spread v bs) (vp_RewardWeight p),
            vp_WinCount := fold (\<lambda>b w. i64 (w + 1)) (wins E median spread v bs) (vp_WinCount p)\<rparr>)"
  using assms(2)
proof (induction bs arbitrary: m p)
  case (Cons b bs)
  have e: "ValAddressString E (b_Voter b) = ValAddressString E v \<longleftrightarrow> b_Voter b = v"
    using assms(1) by (rule format_inj)
  show ?case
  proof (cases "rewarded median spread b \<and> b_Voter b = v")
    case True
    then have "credit_map E median spread b m (ValAddressString E v) = Some (add_win (b_Power b) p)"
      using Cons.prems by (simp add: credit_map_def)
    from Cons.IH [of "credit_map E median spread b m", OF this] True show ?thesis by (simp add: wins_def add_win_def)
  next
    case False
    then have "credit_map E median spread b m (ValAddressString E v) = Some p"
      using Cons.prems e by (auto simp: credit_map_def)
    from Cons.IH [of "credit_map E median spread b m", OF this] False show ?thesis by (auto simp: wins_def)
  qed
qed (simp add: wins_def)

lemma sort_ballots [simp]: "mset (sort_key f bs) = mset bs" "sort_key f bs = [] \<longleftrightarrow> bs = []"
  by (simp_all add: mset_eq_length flip: mset_zero_iff)

lemma Tally_eq:
  "Tally E bs (Some band) ps =
     (let m = WeightedMedian (sort_key b_ExchangeRate bs);
          spread = rewardSpread E m band (StandardDeviation E m (sort_key b_ExchangeRate bs))
      in Inr (m, fold (credit E m spread) (sort_key b_ExchangeRate bs) ps))"
  by (simp add: Tally_def Tally_sorted_def WeightedMedianWithAssertion_def Ballots_IsSorted_def WeightedMedian_def Let_def)



section \<open>Theorems\<close>

lemma tally_median:
  assumes "bs \<noteq> []" and "powers_ok bs" and "\<forall>b \<in> set bs. b_ExchangeRate b \<le> 0 \<longrightarrow> b_Power b = 0"
    and "2 \<le> sum_list (map b_Power bs)" and "Tally E bs (Some band) ps = Inr (price, ps')"
  shows "price \<in> b_ExchangeRate ` set bs" and "2 * below bs price < sum_list (map b_Power bs)"
    and "sum_list (map b_Power bs) \<le> 2 * upto bs price + 1" and "0 < price"
proof -
  let ?s = "sort_key b_ExchangeRate bs"
  have m: "mset ?s = mset bs" by simp
  have "price = WeightedMedian ?s" using assms(5) by (simp add: Tally_eq Let_def)
  moreover have "?s \<noteq> []" "powers_ok ?s" "sorted (map b_ExchangeRate ?s)" using assms(1,2) powers_mset(3) [OF m] by simp_all
  note sp = WeightedMedian_spec [OF this]
  ultimately have p: "price \<in> b_ExchangeRate ` set bs"
      "sum_list (map b_Power bs) div 2 \<le> upto bs price"
      "below ?s price = 0 \<or> below ?s price < sum_list (map b_Power bs) div 2"
    using powers_mset(1,2) [OF m] by simp_all
  have b: "below ?s price = below bs price"
  proof -
    have "mset (map b_Power (filter (\<lambda>b. b_ExchangeRate b < price) ?s)) =
        mset (map b_Power (filter (\<lambda>b. b_ExchangeRate b < price) bs))" by simp
    then show ?thesis unfolding below_def by (metis sum_mset_sum_list)
  qed
  show "price \<in> b_ExchangeRate ` set bs" by (rule p(1))
  show "2 * below bs price < sum_list (map b_Power bs)" using p(3) assms(4) unfolding b by linarith
  show "sum_list (map b_Power bs) \<le> 2 * upto bs price + 1" using p(2) by linarith
  have "0 < upto bs price" using p(2) assms(4) by linarith
  then obtain c where "c \<in> set bs" "b_ExchangeRate c \<le> price" "b_Power c \<noteq> 0"
    using upto_zero [of bs price] by force
  with assms(3) show "0 < price" by force
qed

text \<open>The price of a tally is a weighted median of the votes: it is the rate of some vote; the votes
  below it carry less than half of the voting power, and the votes up to it carry half of it (up to the rounding
  of the halving); and since abstentions carry no power, it is a positive price as soon as the power
  is at least two.\<close>

theorem Tally_weighted_median:
  assumes "bs \<noteq> []" and "powers_ok bs" and "\<forall>b \<in> set bs. b_ExchangeRate b \<le> 0 \<longrightarrow> b_Power b = 0"
    and "2 \<le> sum_list (map b_Power bs)" and "Tally E bs (Some band) ps = Inr (price, ps')"
  shows "price \<in> b_ExchangeRate ` set bs \<and> 2 * below bs price < sum_list (map b_Power bs)
    \<and> sum_list (map b_Power bs) \<le> 2 * upto bs price + 1 \<and> 0 < price"
  using tally_median [OF assms] by blast

text \<open>The outcome of a tally does not depend on the order of the ballots nor on how the unstable sort of
  the code arranges equal rates: any sorted arrangement of the ballots gives the same price and the same
  performances.\<close>

theorem Tally_any_sort:
  assumes "dec_laws E" and "powers_ok bs" and "kv_wf ps"
    and "mset as = mset bs" and "sorted (map b_ExchangeRate as)"
  shows "Tally_sorted E as (Some band) ps = Tally E bs (Some band) ps"
proof -
  let ?s = "sort_key b_ExchangeRate bs"
  have m: "mset as = mset ?s" using assms(4) by simp
  have "powers_ok ?s" using powers_mset(3) [of ?s bs] assms(2) by simp
  then have w: "WeightedMedian as = WeightedMedian ?s"
    using WeightedMedian_mset [OF m _ assms(5)] by simp
  have "Tally_sorted E as (Some band) ps =
      (let m = WeightedMedian as; spread = rewardSpread E m band (StandardDeviation E m as)
       in Inr (m, fold (credit E m spread) as ps))"
    using assms(5) by (simp add: Tally_sorted_def WeightedMedianWithAssertion_def Ballots_IsSorted_def WeightedMedian_def Let_def)
  then show ?thesis
    by (simp add: Tally_eq Let_def w StandardDeviation_mset [OF assms(1) m] credits_mset [OF m assms(3)])
qed



definition outlier_ballots :: "ballot list" where
  "outlier_ballots = [NewExchangeRateBallot (10 * PREC) ''a:b'' ''v1'' 10, NewExchangeRateBallot (10 * PREC) ''a:b'' ''v2'' 10,
     NewExchangeRateBallot (12 * PREC) ''a:b'' ''v3'' 5]"

definition abstention :: ballot where
  "abstention = NewExchangeRateBallot (- 1000 * PREC) ''a:b'' ''v4'' 0"

text \<open>An abstention widens the spread for everybody: the standard deviation also counts abstentions, with
  whatever non-positive rate they carry.  Here a vote twenty percent off the price earns nothing; when a
  validator abstains with a large negative rate, the same vote is rewarded at the same price.\<close>

theorem abstention_rewards_outlier:
  "\<exists>ps ps'. Tally ref_chain_sdk outlier_ballots (Some 20000000000000000) [(''vv3'', NewValidatorPerformance 5 ''v3'')]
      = Inr (10 * PREC, ps)
    \<and> Tally ref_chain_sdk (abstention # outlier_ballots) (Some 20000000000000000) [(''vv3'', NewValidatorPerformance 5 ''v3'')]
      = Inr (10 * PREC, ps')
    \<and> map_option vp_RewardWeight (kv_get ps ''vv3'') = Some 0 \<and> map_option vp_RewardWeight (kv_get ps' ''vv3'') = Some 5"
proof -
  have "(case Tally ref_chain_sdk outlier_ballots (Some 20000000000000000) [(''vv3'', NewValidatorPerformance 5 ''v3'')] of
      Inl _ \<Rightarrow> False
    | Inr (p, ps) \<Rightarrow> p = 10 * PREC \<and> map_option vp_RewardWeight (kv_get ps ''vv3'') = Some 0)" by code_simp
  moreover have "(case Tally ref_chain_sdk (abstention # outlier_ballots) (Some 20000000000000000)
        [(''vv3'', NewValidatorPerformance 5 ''v3'')] of
      Inl _ \<Rightarrow> False
    | Inr (p, ps) \<Rightarrow> p = 10 * PREC \<and> map_option vp_RewardWeight (kv_get ps ''vv3'') = Some 5)" by code_simp
  ultimately show ?thesis by (auto split: sum.splits)
qed


section \<open>Witnesses\<close>

definition ex_ballots :: "ballot list" where
  "ex_ballots = [NewExchangeRateBallot (12 * PREC) ''a:b'' ''v1'' 10, NewExchangeRateBallot (10 * PREC) ''a:b'' ''v2'' 25,
     NewExchangeRateBallot 0 ''a:b'' ''v3'' 0, NewExchangeRateBallot (10 * PREC) ''a:b'' ''v4'' 5]"

definition ex_performances :: performances where
  "ex_performances = [(''vv1'', NewValidatorPerformance 10 ''v1''), (''vv2'', NewValidatorPerformance 25 ''v2''),
     (''vv3'', NewValidatorPerformance 7 ''v3''), (''vv4'', NewValidatorPerformance 5 ''v4'')]"

definition ex_tallied :: performances where
  "ex_tallied = [(''vv1'', (NewValidatorPerformance 10 ''v1'')\<lparr>vp_RewardWeight := 10, vp_WinCount := 1\<rparr>),
      (''vv2'', (NewValidatorPerformance 25 ''v2'')\<lparr>vp_RewardWeight := 25, vp_WinCount := 1\<rparr>),
      (''vv3'', (NewValidatorPerformance 7 ''v3'')\<lparr>vp_RewardWeight := 0, vp_WinCount := 1\<rparr>),
      (''vv4'', (NewValidatorPerformance 5 ''v4'')\<lparr>vp_RewardWeight := 5, vp_WinCount := 1\<rparr>)]"

lemma ex_tally: "Tally ref_chain_sdk ex_ballots (Some 20000000000000000) ex_performances = Inr (10 * PREC, ex_tallied)"
  by code_simp

lemma ex_ballots_ok: "ex_ballots \<noteq> []" "powers_ok ex_ballots" "2 \<le> sum_list (map b_Power ex_ballots)"
    "\<forall>b \<in> set ex_ballots. b_ExchangeRate b \<le> 0 \<longrightarrow> b_Power b = 0" "kv_wf ex_performances"
  by code_simp+

theorem Tally_weighted_median_witness: "0 < 10 * PREC \<and> 2 * below ex_ballots (10 * PREC) < 40"
  using Tally_weighted_median [OF ex_ballots_ok(1,2,4,3) ex_tally] by (simp add: ex_ballots_def NewExchangeRateBallot_def)

theorem Tally_any_sort_witness:
  "Tally_sorted ref_chain_sdk [NewExchangeRateBallot 0 ''a:b'' ''v3'' 0, NewExchangeRateBallot (10 * PREC) ''a:b'' ''v4'' 5,
     NewExchangeRateBallot (10 * PREC) ''a:b'' ''v2'' 25, NewExchangeRateBallot (12 * PREC) ''a:b'' ''v1'' 10]
     (Some 20000000000000000) ex_performances = Tally ref_chain_sdk ex_ballots (Some 20000000000000000) ex_performances"
  by (rule Tally_any_sort [OF ref_chain_dec_laws ex_ballots_ok(2,5)])
    (simp_all add: ex_ballots_def NewExchangeRateBallot_def PREC_def)


end
