(* ===== verification/Oracle_Keeper.thy ===== *)
theory Oracle_Keeper
  imports Oracle_Params Oracle_Tally
begin

text \<open>
  The keeper of the oracle (\<^verbatim>\<open>x/oracle/keeper/keeper.go\<close>, \<^verbatim>\<open>params.go\<close>, \<^verbatim>\<open>whitelist.go\<close>), its message
  server (\<^verbatim>\<open>msg_server.go\<close>) and its queries (\<^verbatim>\<open>querier.go\<close>).  The state has one field for each collection of
  the keeper, the state of the SDK modules it calls, and the events emitted.  Reading unset parameters gives
  the zero value of the code: zero for numbers and a nil decimal, which panics when it is used.
\<close>

section \<open>State\<close>

record price_snapshot =
  ps_Pair :: pair
  ps_Price :: dec
  ps_TimestampMs :: int

record oracle_rewards =
  rw_Id :: "64 word"
  rw_VotePeriods :: "64 word"
  rw_Coins :: "coin list"

datatype oracle_event =
    OraclePriceUpdate pair dec int
  | EventExchangeRateUpdate pair dec
  | EventAggregatePrevote string string
  | EventAggregateVote string string string
  | EventFeedDelegate string string

record 'b oracle_state =
  o_Params :: "oracle_params option"
  ExchangeRates :: "(pair, dec) kv"
  FeederDelegations :: "(addr, addr) kv"
  MissCounters :: "(addr, 64 word) kv"
  Prevotes :: "(addr, prevote) kv"
  Votes :: "(addr, vote) kv"
  PriceSnapshots :: "(pair \<times> int, price_snapshot) kv"
  WhitelistedPairs :: "(pair, unit) kv"
  Rewards :: "(64 word, oracle_rewards) kv"
  RewardsID :: "64 word"
  o_sdk :: 'b
  o_events :: "oracle_event list"

definition VotePeriod :: "'b oracle_state \<Rightarrow> 64 word" where
  "VotePeriod s = (case o_Params s of None \<Rightarrow> 0 | Some p \<Rightarrow> VotePeriod_p p)"

definition VoteThreshold :: "'b oracle_state \<Rightarrow> dec option" where
  "VoteThreshold s = map_option VoteThreshold_p (o_Params s)"

definition MinVoters :: "'b oracle_state \<Rightarrow> 64 word" where
  "MinVoters s = (case o_Params s of None \<Rightarrow> 0 | Some p \<Rightarrow> MinVoters_p p)"

definition RewardBand :: "'b oracle_state \<Rightarrow> dec option" where
  "RewardBand s = map_option RewardBand_p (o_Params s)"

definition Whitelist :: "'b oracle_state \<Rightarrow> pair list" where
  "Whitelist s = (case o_Params s of None \<Rightarrow> [] | Some p \<Rightarrow> Whitelist_p p)"

definition SlashFraction :: "'b oracle_state \<Rightarrow> dec option" where
  "SlashFraction s = map_option SlashFraction_p (o_Params s)"

definition SlashWindow :: "'b oracle_state \<Rightarrow> 64 word" where
  "SlashWindow s = (case o_Params s of None \<Rightarrow> 0 | Some p \<Rightarrow> SlashWindow_p p)"

definition MinValidPerWindow :: "'b oracle_state \<Rightarrow> dec option" where
  "MinValidPerWindow s = map_option MinValidPerWindow_p (o_Params s)"

definition IsPeriodLastBlock :: "block_ctx \<Rightarrow> 64 word \<Rightarrow> oracle_error + bool" where
  "IsPeriodLastBlock ctx blocksPerPeriod =
     (if blocksPerPeriod = 0 then Inl DivideByZero
      else Inr ((word_of_int (BlockHeight ctx) + 1) mod blocksPerPeriod = 0))"


section \<open>Feeders, prices and the whitelist\<close>

definition ValidateFeeder :: "'b chain_sdk \<Rightarrow> 'b oracle_state \<Rightarrow> addr \<Rightarrow> addr \<Rightarrow> oracle_error + unit" where
  "ValidateFeeder E s feederAddr validatorAddr =
     bindE (if feederAddr = validatorAddr then Inr ()
            else let delegate = (case kv_get (FeederDelegations s) validatorAddr of None \<Rightarrow> validatorAddr | Some d \<Rightarrow> d)
                 in checkE (delegate = feederAddr) ErrNoVotingPermission) (\<lambda>_.
     case Validator E (o_sdk s) validatorAddr of
       None \<Rightarrow> Inl ErrNoValidatorFound
     | Some val \<Rightarrow> checkE (v_IsBonded val) ErrNoValidatorFound)"

text \<open>Every snapshot counts from its time (the first from the start of the window) to the time of the next one,
  the last to the time of the block.\<close>

fun twap_prices :: "int \<Rightarrow> int \<Rightarrow> price_snapshot list \<Rightarrow> dec" where
  "twap_prices now start [] = 0"
| "twap_prices now start [s] = ps_Price s * (now - start)"
| "twap_prices now start (s # s' # ss) =
     ps_Price s * (ps_TimestampMs s' - start) + twap_prices now (ps_TimestampMs s') (s' # ss)"

definition calcTwap :: "'b chain_sdk \<Rightarrow> block_ctx \<Rightarrow> 'b oracle_state \<Rightarrow> price_snapshot list \<Rightarrow> oracle_error + dec" where
  "calcTwap E ctx s snapshots =
     (case snapshots of
        [] \<Rightarrow> Inl EmptySnapshots
      | [sn] \<Rightarrow> Inr (ps_Price sn)
      | sn # _ \<Rightarrow>
          bindE (getE OracleNotFound (o_Params s)) (\<lambda>params.
          let twapLookBack = go_quo (TwapLookbackWindow_p params) 1000000;
              now = UnixMilli (BlockTime ctx);
              firstTimeStamp = max (ps_TimestampMs sn) (now - twapLookBack)
          in if now - firstTimeStamp = 0 then Inl DivideByZero
             else Inr (dec_QuoInt64 E (twap_prices now firstTimeStamp snapshots) (now - firstTimeStamp))))"

definition twap_snapshots :: "block_ctx \<Rightarrow> 'b oracle_state \<Rightarrow> int \<Rightarrow> pair \<Rightarrow> price_snapshot list" where
  "twap_snapshots ctx s window pair =
     map snd (filter (\<lambda>((p, t), sn). p = pair \<and> BlockTime ctx - window \<le> t \<and> t \<le> BlockTime ctx) (PriceSnapshots s))"

definition GetExchangeRateTwap :: "'b chain_sdk \<Rightarrow> block_ctx \<Rightarrow> 'b oracle_state \<Rightarrow> pair \<Rightarrow> oracle_error + dec" where
  "GetExchangeRateTwap E ctx s pair =
     bindE (getE OracleNotFound (o_Params s)) (\<lambda>params.
     let snapshots = twap_snapshots ctx s (TwapLookbackWindow_p params) pair in
     if snapshots = [] then Inl ErrNoValidTWAP else calcTwap E ctx s snapshots)"

definition GetExchangeRate :: "'b oracle_state \<Rightarrow> pair \<Rightarrow> oracle_error + dec" where
  "GetExchangeRate s pair = getE OracleNotFound (kv_get (ExchangeRates s) pair)"

definition SetPrice :: "block_ctx \<Rightarrow> pair \<Rightarrow> dec \<Rightarrow> 'b oracle_state \<Rightarrow> 'b oracle_state" where
  "SetPrice ctx pair price s =
     (let timestampMs = UnixMilli (BlockTime ctx) in
      s\<lparr>ExchangeRates := kv_insert pair price (ExchangeRates s),
        PriceSnapshots := kv_insert (pair, BlockTime ctx)
          \<lparr>ps_Pair = pair, ps_Price = price, ps_TimestampMs = timestampMs\<rparr> (PriceSnapshots s),
        o_events := o_events s @ [OraclePriceUpdate pair price timestampMs]\<rparr>)"

definition IsWhitelistedPair :: "'b oracle_state \<Rightarrow> pair \<Rightarrow> bool" where
  "IsWhitelistedPair s pair \<longleftrightarrow> kv_get (WhitelistedPairs s) pair \<noteq> None"

definition GetWhitelistedPairs :: "'b oracle_state \<Rightarrow> pair list" where
  "GetWhitelistedPairs s = map fst (WhitelistedPairs s)"

definition updateWhitelist :: "pair list \<Rightarrow> pair go_set \<Rightarrow> 'b oracle_state \<Rightarrow> 'b oracle_state" where
  "updateWhitelist nextWhitelist currentWhitelist s =
     (let updateRequired =
        (if length currentWhitelist \<noteq> length nextWhitelist then True
         else \<exists>pair \<in> set nextWhitelist. \<not> set_Has currentWhitelist pair)
      in if updateRequired
         then s\<lparr>WhitelistedPairs :=
           fold (\<lambda>pair. kv_insert pair ()) nextWhitelist (fold kv_delete (GetWhitelistedPairs s) (WhitelistedPairs s))\<rparr>
         else s)"


section \<open>Messages\<close>

definition AggregateExchangeRatePrevote :: "'b chain_sdk \<Rightarrow> block_ctx \<Rightarrow> msg_prevote \<Rightarrow> 'b oracle_state \<Rightarrow>
    oracle_error + 'b oracle_state" where
  "AggregateExchangeRatePrevote E ctx msg s =
     bindE (getE OracleBech32 (ValAddressFromBech32 E (mp_Validator msg))) (\<lambda>valAddr.
     bindE (getE OracleBech32 (AccAddressFromBech32 E (mp_Feeder msg))) (\<lambda>feederAddr.
     bindE (ValidateFeeder E s feederAddr valAddr) (\<lambda>_.
     bindE (getE ErrInvalidHash (AggregateVoteHashFromHexString (mp_Hash msg))) (\<lambda>voteHash.
     Inr (s\<lparr>Prevotes := kv_insert valAddr
              (NewAggregateExchangeRatePrevote E voteHash valAddr (word_of_int (BlockHeight ctx))) (Prevotes s),
            o_events := o_events s @ [EventAggregatePrevote (mp_Validator msg) (mp_Feeder msg)]\<rparr>)))))"

definition AggregateExchangeRateVote :: "'b chain_sdk \<Rightarrow> block_ctx \<Rightarrow> msg_vote \<Rightarrow> 'b oracle_state \<Rightarrow>
    oracle_error + 'b oracle_state" where
  "AggregateExchangeRateVote E ctx msg s =
     bindE (getE OracleBech32 (ValAddressFromBech32 E (mv_Validator msg))) (\<lambda>valAddr.
     bindE (getE OracleBech32 (AccAddressFromBech32 E (mv_Feeder msg))) (\<lambda>feederAddr.
     bindE (ValidateFeeder E s feederAddr valAddr) (\<lambda>_.
     bindE (getE OracleNotFound (o_Params s)) (\<lambda>params.
     bindE (getE ErrNoAggregatePrevote (kv_get (Prevotes s) valAddr)) (\<lambda>aggregatePrevote.
     bindE (checkE (VotePeriod_p params \<noteq> 0) DivideByZero) (\<lambda>_.
     bindE (checkE (word_of_int (BlockHeight ctx) div VotePeriod_p params
              - pv_SubmitBlock aggregatePrevote div VotePeriod_p params = 1) ErrRevealPeriodMissMatch) (\<lambda>_.
     bindE (mapErr (\<lambda>_. ErrInvalidCoins) (ParseExchangeRateTuples E (mv_ExchangeRates msg))) (\<lambda>exchangeRateTuples.
     bindE (checkE (\<forall>tuple \<in> set exchangeRateTuples. IsWhitelistedPair s (t_Pair tuple)) ErrUnknownPair) (\<lambda>_.
     let hash = GetAggregateVoteHash E (mv_Salt msg) (mv_ExchangeRates msg) valAddr in
     bindE (checkE (pv_Hash aggregatePrevote = Hash_String hash) ErrVerificationFailed) (\<lambda>_.
     Inr (s\<lparr>Votes := kv_insert valAddr (NewAggregateExchangeRateVote E exchangeRateTuples valAddr) (Votes s),
            Prevotes := kv_delete valAddr (Prevotes s),
            o_events := o_events s @
              [EventAggregateVote (mv_Validator msg) (mv_ExchangeRates msg) (mv_Feeder msg)]\<rparr>)))))))))))"

definition DelegateFeedConsent :: "'b chain_sdk \<Rightarrow> msg_delegate \<Rightarrow> 'b oracle_state \<Rightarrow> oracle_error + 'b oracle_state" where
  "DelegateFeedConsent E msg s =
     bindE (getE OracleBech32 (ValAddressFromBech32 E (md_Operator msg))) (\<lambda>operatorAddr.
     bindE (getE OracleBech32 (AccAddressFromBech32 E (md_Delegate msg))) (\<lambda>delegateAddr.
     bindE (getE ErrNoValidatorFound (Validator E (o_sdk s) operatorAddr)) (\<lambda>_.
     Inr (s\<lparr>FeederDelegations := kv_insert operatorAddr delegateAddr (FeederDelegations s),
            o_events := o_events s @ [EventFeedDelegate (md_Delegate msg) (md_Operator msg)]\<rparr>))))"


section \<open>Queries\<close>

definition query_Params :: "'b oracle_state \<Rightarrow> oracle_error + oracle_params" where
  "query_Params s = getE OracleNotFound (o_Params s)"

definition query_ExchangeRate :: "'b oracle_state \<Rightarrow> pair option \<Rightarrow> oracle_error + dec" where
  "query_ExchangeRate s req =
     bindE (getE InvalidArgument req) (\<lambda>pair.
     bindE (checkE (length pair \<noteq> 0) InvalidArgument) (\<lambda>_. GetExchangeRate s pair))"

definition query_ExchangeRateTwap :: "'b chain_sdk \<Rightarrow> block_ctx \<Rightarrow> 'b oracle_state \<Rightarrow> pair option \<Rightarrow> oracle_error + dec" where
  "query_ExchangeRateTwap E ctx s req =
     bindE (query_ExchangeRate s req) (\<lambda>_. bindE (getE InvalidArgument req) (GetExchangeRateTwap E ctx s))"

definition query_ExchangeRates :: "'b oracle_state \<Rightarrow> rate_tuple list" where
  "query_ExchangeRates s = map (\<lambda>(p, r). \<lparr>t_Pair = p, t_ExchangeRate = r\<rparr>) (ExchangeRates s)"

definition query_Actives :: "'b oracle_state \<Rightarrow> pair list" where
  "query_Actives s = map fst (ExchangeRates s)"

definition query_VoteTargets :: "'b oracle_state \<Rightarrow> pair list" where
  "query_VoteTargets s = GetWhitelistedPairs s"

definition query_validator :: "'b chain_sdk \<Rightarrow> string option \<Rightarrow> oracle_error + addr" where
  "query_validator E req =
     bindE (getE InvalidArgument req) (\<lambda>a. getE InvalidArgument (ValAddressFromBech32 E a))"

definition query_FeederDelegation :: "'b chain_sdk \<Rightarrow> 'b oracle_state \<Rightarrow> string option \<Rightarrow> oracle_error + string" where
  "query_FeederDelegation E s req =
     bindE (query_validator E req) (\<lambda>valAddr.
     Inr (AccAddressString E (case kv_get (FeederDelegations s) valAddr of None \<Rightarrow> valAddr | Some d \<Rightarrow> d)))"

definition query_MissCounter :: "'b chain_sdk \<Rightarrow> 'b oracle_state \<Rightarrow> string option \<Rightarrow> oracle_error + 64 word" where
  "query_MissCounter E s req =
     bindE (query_validator E req) (\<lambda>valAddr.
     Inr (case kv_get (MissCounters s) valAddr of None \<Rightarrow> 0 | Some n \<Rightarrow> n))"

definition query_AggregatePrevote :: "'b chain_sdk \<Rightarrow> 'b oracle_state \<Rightarrow> string option \<Rightarrow> oracle_error + prevote" where
  "query_AggregatePrevote E s req =
     bindE (query_validator E req) (\<lambda>valAddr. getE OracleNotFound (kv_get (Prevotes s) valAddr))"

definition query_AggregatePrevotes :: "'b oracle_state \<Rightarrow> prevote list" where
  "query_AggregatePrevotes s = kv_values (Prevotes s)"

definition query_AggregateVote :: "'b chain_sdk \<Rightarrow> 'b oracle_state \<Rightarrow> string option \<Rightarrow> oracle_error + vote" where
  "query_AggregateVote E s req =
     bindE (query_validator E req) (\<lambda>valAddr. getE OracleNotFound (kv_get (Votes s) valAddr))"

definition query_AggregateVotes :: "'b oracle_state \<Rightarrow> vote list" where
  "query_AggregateVotes s = kv_values (Votes s)"

end
