(* ===== verification/V1_AMM.thy ===== *)
theory V1_AMM
  imports V1_Market Oracle_Keeper Perp_ClearingHouse
begin

text \<open>
  The keeper of the first version's market maker (\<^verbatim>\<open>x/perp/amm/keeper\<close>): pools and their reserve
  snapshots, swaps in either asset with the trade limit, the user's limit and the fluctuation
  limit, average prices, the governance proposals, the end blocker and the genesis.  The state of
  the clearing house extends the record of this keeper, so its operations apply to both.
\<close>

section \<open>State and events\<close>

datatype v1_event =
    V1_MarkPriceChangedEvent pair dec int
  | V1_SwapEvent pair dec dec
  | V1_ReserveSnapshotSavedEvent pair dec dec dec int int
  | V1_PositionChangedEvent position_changed_event dec
  | V1_PositionLiquidatedEvent position_liquidated_event
  | V1_LiquidationFailedEvent pair string string liquidation_failed_reason
  | V1_FundingRateChangedEvent funding_rate_event
  | V1_PositionSettledEvent pair string "coin list"
  | V1_PegMultiplierUpdate pair dec int
  | V1_SwapInvariantUpdate pair dec "dec option" int

record v1_amm_state =
  v1_Pools :: "(pair, v1_market) kv"
  v1_Snapshots :: "(pair \<times> int, v1_snapshot) kv"
  v1_events :: "v1_event list"

definition v1_emit :: "v1_event \<Rightarrow> 'z v1_amm_state_scheme \<Rightarrow> 'z v1_amm_state_scheme" where
  "v1_emit e s = s\<lparr>v1_events := v1_events s @ [e]\<rparr>"

definition v1_GetPool :: "'z v1_amm_state_scheme \<Rightarrow> pair \<Rightarrow> v1_error + v1_market" where
  "v1_GetPool s p = getE V1_NotFound (kv_get (v1_Pools s) p)"

definition v1_ExistsPool :: "'z v1_amm_state_scheme \<Rightarrow> pair \<Rightarrow> bool" where
  "v1_ExistsPool s p \<longleftrightarrow> kv_get (v1_Pools s) p \<noteq> None"

definition v1_GetAllPools :: "'z v1_amm_state_scheme \<Rightarrow> v1_market list" where
  "v1_GetAllPools s = kv_values (v1_Pools s)"

definition v1_GetMaintenanceMarginRatio :: "'z v1_amm_state_scheme \<Rightarrow> pair \<Rightarrow> v1_error + dec" where
  "v1_GetMaintenanceMarginRatio s p =
     bindE (v1_GetPool s p) (\<lambda>pool. Inr (v1_MaintenanceMarginRatio (v1_Config pool)))"

definition v1k_GetMarkPrice :: "'x sdk_dec_scheme \<Rightarrow> 'z v1_amm_state_scheme \<Rightarrow> pair \<Rightarrow> v1_error + dec" where
  "v1k_GetMarkPrice E s p = bindE (v1_GetPool s p) (\<lambda>pool. Inr (v1_GetMarkPrice E pool))"

definition v1_IsOverSpreadLimit ::
    "'x sdk_dec_scheme \<Rightarrow> 'c oracle_state \<Rightarrow> 'z v1_amm_state_scheme \<Rightarrow> pair \<Rightarrow> v1_error + bool" where
  "v1_IsOverSpreadLimit E os s p =
     bindE (v1_GetPool s p) (\<lambda>pool.
     bindE (mapErr (\<lambda>_. V1_NotFound) (GetExchangeRate os p)) (\<lambda>indexPrice.
     v1m_IsOverSpreadLimit E pool indexPrice))"

definition v1_GetBaseAssetPrice :: "'x sdk_dec_scheme \<Rightarrow> v1_market \<Rightarrow> Direction \<Rightarrow> dec \<Rightarrow> v1_error + dec" where
  "v1_GetBaseAssetPrice E m dir baseAssetAmount =
     bindE (v1_GetQuoteReserveByBase E m (baseAssetAmount * ToMultiplier dir)) (\<lambda>quoteReserve.
     Inr (v1_FromQuoteReserveToAsset E m quoteReserve))"

definition v1_GetSettlementPrice :: "'z v1_amm_state_scheme \<Rightarrow> pair \<Rightarrow> v1_error + dec" where
  "v1_GetSettlementPrice s p = Inl (V1_Text ''GetSettlementPrice has not been implemented yet.'')"


section \<open>Swaps\<close>

definition v1_GetLastSnapshot :: "'z v1_amm_state_scheme \<Rightarrow> v1_market \<Rightarrow> v1_error + v1_snapshot" where
  "v1_GetLastSnapshot s pool =
     (case rev (filter (\<lambda>((q, _), _). q = v1_Pair pool) (v1_Snapshots s)) of
        [] \<Rightarrow> Inl (V1_Text ''error getting last snapshot number for pair'')
      | (_, v) # _ \<Rightarrow> Inr v)"

definition v1_checkFluctuationLimitRatio ::
    "'x sdk_dec_scheme \<Rightarrow> 'z v1_amm_state_scheme \<Rightarrow> v1_market \<Rightarrow> v1_error + unit" where
  "v1_checkFluctuationLimitRatio E s pool =
     (if v1_FluctuationLimitRatio (v1_Config pool) = 0 then Inr ()
      else bindE (v1_GetLastSnapshot s pool) (\<lambda>latestSnapshot.
        if v1_IsOverFluctuationLimit E pool latestSnapshot then Inl V1_OverFluctuationLimit else Inr ()))"

definition v1_updatePool ::
    "'x sdk_dec_scheme \<Rightarrow> v1_market \<Rightarrow> bool \<Rightarrow> 'z v1_amm_state_scheme \<Rightarrow> v1_error + 'z v1_amm_state_scheme" where
  "v1_updatePool E updatedPool skipFluctuationCheck s =
     bindE (if skipFluctuationCheck then Inr () else v1_checkFluctuationLimitRatio E s updatedPool) (\<lambda>_.
     Inr (s\<lparr>v1_Pools := kv_insert (v1_Pair updatedPool) updatedPool (v1_Pools s)\<rparr>))"

definition v1_executeSwap :: "'x sdk_dec_scheme \<Rightarrow> block_ctx \<Rightarrow> v1_market \<Rightarrow> dec \<Rightarrow> dec \<Rightarrow> bool \<Rightarrow>
    'z v1_amm_state_scheme \<Rightarrow> v1_error + 'z v1_amm_state_scheme \<times> v1_market" where
  "v1_executeSwap E ctx m quoteDelta baseDelta skipFluctuationLimitCheck s =
     (let m' = v1_AddToQuoteReserve (v1_AddToBaseReserveAndTotalLongShort m baseDelta) quoteDelta in
      bindE (v1_updatePool E m' skipFluctuationLimitCheck s) (\<lambda>s1.
      let s2 = v1_emit (V1_MarkPriceChangedEvent (v1_Pair m') (v1_GetMarkPrice E m') (BlockTime ctx)) s1;
          s3 = v1_emit (V1_SwapEvent (v1_Pair m') quoteDelta baseDelta) s2
      in Inr (s3, m')))"

definition v1_checkIfLimitIsViolated :: "dec \<Rightarrow> dec \<Rightarrow> Direction \<Rightarrow> v1_error + unit" where
  "v1_checkIfLimitIsViolated limit amount dir =
     (if limit \<noteq> 0 then
        if dir = LONG \<and> amount < limit then Inl V1_AssetFailsUserLimit
        else if dir = SHORT \<and> limit < amount then Inl V1_AssetFailsUserLimit
        else Inr ()
      else Inr ())"

definition v1_SwapBaseForQuote :: "'x sdk_dec_scheme \<Rightarrow> 'c oracle_state \<Rightarrow> block_ctx \<Rightarrow> v1_market \<Rightarrow>
    Direction \<Rightarrow> dec \<Rightarrow> dec \<Rightarrow> bool \<Rightarrow> 'z v1_amm_state_scheme \<Rightarrow>
    v1_error + 'z v1_amm_state_scheme \<times> v1_market \<times> dec" where
  "v1_SwapBaseForQuote E os ctx m dir baseAmt quoteLimit skipFluctuationLimitCheck s =
     (if baseAmt = 0 then Inr (s, m, 0)
      else
      bindE (mapErr (\<lambda>_. V1_NoValidPrice) (GetExchangeRate os (v1_Pair m))) (\<lambda>_.
      let baseAmtAbs = \<bar>baseAmt\<bar> in
      bindE (v1_GetQuoteReserveByBase E m (baseAmtAbs * ToMultiplier dir)) (\<lambda>quoteReserveAbs.
      let quoteDelta = - quoteReserveAbs * ToMultiplier dir in
      bindE (v1_HasEnoughReservesForTrade E m quoteReserveAbs baseAmtAbs) (\<lambda>_.
      let quoteAssetAmtAbs = v1_FromQuoteReserveToAsset E m quoteReserveAbs in
      bindE (v1_checkIfLimitIsViolated quoteLimit quoteAssetAmtAbs dir) (\<lambda>_.
      bindE (v1_executeSwap E ctx m quoteDelta (baseAmtAbs * ToMultiplier dir) skipFluctuationLimitCheck s)
        (\<lambda>(s', updatedMarket). Inr (s', updatedMarket, quoteAssetAmtAbs)))))))"

definition v1_SwapQuoteForBase :: "'x sdk_dec_scheme \<Rightarrow> 'c oracle_state \<Rightarrow> block_ctx \<Rightarrow> v1_market \<Rightarrow>
    Direction \<Rightarrow> dec \<Rightarrow> dec \<Rightarrow> bool \<Rightarrow> 'z v1_amm_state_scheme \<Rightarrow>
    v1_error + 'z v1_amm_state_scheme \<times> v1_market \<times> dec" where
  "v1_SwapQuoteForBase E os ctx m dir quoteAmt baseLimit skipFluctuationLimitCheck s =
     (if quoteAmt = 0 then Inr (s, v1_Market_zero, 0)
      else
      bindE (mapErr (\<lambda>_. V1_NoValidPrice) (GetExchangeRate os (v1_Pair m))) (\<lambda>_.
      bindE (v1_FromQuoteAssetToReserve E m quoteAmt) (\<lambda>quoteReserve.
      let quoteReserveAbs = \<bar>quoteReserve\<bar> in
      bindE (v1_GetBaseAmountByQuoteAmount E m (quoteReserveAbs * ToMultiplier dir)) (\<lambda>baseAmtAbs.
      bindE (v1_HasEnoughReservesForTrade E m quoteReserveAbs baseAmtAbs) (\<lambda>_.
      bindE (v1_checkIfLimitIsViolated baseLimit baseAmtAbs dir) (\<lambda>_.
      bindE (v1_executeSwap E ctx m (quoteReserveAbs * ToMultiplier dir) (- baseAmtAbs * ToMultiplier dir)
          skipFluctuationLimitCheck s)
        (\<lambda>(s', updatedMarket). Inr (s', updatedMarket, baseAmtAbs))))))))"


section \<open>Average prices\<close>

definition v1_snapshot_pool :: "'x sdk_dec_scheme \<Rightarrow> v1_snapshot \<Rightarrow> v1_error + v1_market" where
  "v1_snapshot_pool E snapshot =
     bindE (mapErr (\<lambda>_. V1_Panic ''square root of negative number'')
        (MustSqrtDec E (dec_Mul E (v1s_QuoteReserve snapshot) (v1s_BaseReserve snapshot)))) (\<lambda>sqrtDepth.
     Inr (v1_Market_zero\<lparr>v1_Pair := v1s_Pair snapshot, v1_QuoteReserve := v1s_QuoteReserve snapshot,
       v1_BaseReserve := v1s_BaseReserve snapshot, v1_SqrtDepth := sqrtDepth,
       v1_PegMultiplier := v1s_PegMultiplier snapshot\<rparr>))"

definition v1_getPriceWithSnapshot ::
    "'x sdk_dec_scheme \<Rightarrow> v1_snapshot \<Rightarrow> snapshot_price_ops \<Rightarrow> v1_error + dec" where
  "v1_getPriceWithSnapshot E snapshot opts =
     (case twapCalcOption opts of
        SPOT \<Rightarrow>
          bindE (v1_quoE E (v1s_QuoteReserve snapshot) (v1s_BaseReserve snapshot)) (\<lambda>q.
          Inr (dec_Mul E q (v1s_PegMultiplier snapshot)))
      | QUOTE_ASSET_SWAP \<Rightarrow>
          bindE (v1_snapshot_pool E snapshot) (\<lambda>pool.
          bindE (v1_FromQuoteAssetToReserve E pool (assetAmt opts)) (\<lambda>quoteReserve.
          v1_GetBaseAmountByQuoteAmount E pool (quoteReserve * ToMultiplier (direction opts))))
      | BASE_ASSET_SWAP \<Rightarrow>
          bindE (v1_snapshot_pool E snapshot) (\<lambda>pool.
          bindE (v1_GetQuoteReserveByBase E pool (assetAmt opts * ToMultiplier (direction opts)))
            (\<lambda>quoteReserveOut. Inr (v1_FromQuoteReserveToAsset E pool quoteReserveOut)))
      | TWAP_CALC_OPTION_UNSPECIFIED \<Rightarrow> Inr 0)"

fun v1_twap_collect :: "int \<Rightarrow> v1_snapshot list \<Rightarrow> v1_snapshot list" where
  "v1_twap_collect lower [] = []"
| "v1_twap_collect lower (s # ss) =
     (if v1s_TimestampMs s \<le> lower then [s] else s # v1_twap_collect lower ss)"

fun v1_twap_loop :: "'x sdk_dec_scheme \<Rightarrow> snapshot_price_ops \<Rightarrow> int \<Rightarrow> int \<Rightarrow> dec \<Rightarrow> int \<Rightarrow>
    v1_snapshot list \<Rightarrow> v1_error + dec \<times> int" where
  "v1_twap_loop E opts lower prev cumPrice cumPeriod [] = Inr (cumPrice, cumPeriod)"
| "v1_twap_loop E opts lower prev cumPrice cumPeriod (s # ss) =
     bindE (v1_getPriceWithSnapshot E s opts) (\<lambda>sPrice.
       let timeElapsedMs = (if v1s_TimestampMs s \<le> lower then prev - lower else prev - v1s_TimestampMs s);
           cumPrice' = cumPrice + sPrice * timeElapsedMs;
           cumPeriod' = cumPeriod + timeElapsedMs
       in if v1s_TimestampMs s \<le> lower then Inr (cumPrice', cumPeriod')
          else v1_twap_loop E opts lower (v1s_TimestampMs s) cumPrice' cumPeriod' ss)"

definition v1_calcTwap :: "'x sdk_dec_scheme \<Rightarrow> block_ctx \<Rightarrow> v1_snapshot list \<Rightarrow> int \<Rightarrow>
    snapshot_price_ops \<Rightarrow> v1_error + dec" where
  "v1_calcTwap E ctx snapshots lowerLimitTimestampMs opts =
     (case snapshots of
        [x] \<Rightarrow> v1_getPriceWithSnapshot E x opts
      | _ \<Rightarrow>
          bindE (v1_twap_loop E opts lowerLimitTimestampMs (UnixMilli (BlockTime ctx)) 0 0 snapshots)
            (\<lambda>(cumulativePrice, cumulativePeriodMs).
              if cumulativePeriodMs = 0 then Inl (V1_Panic ''division by zero'')
              else Inr (dec_QuoInt64 E cumulativePrice cumulativePeriodMs)))"

definition v1k_calcTwap :: "'x sdk_dec_scheme \<Rightarrow> block_ctx \<Rightarrow> 'z v1_amm_state_scheme \<Rightarrow> pair \<Rightarrow>
    TwapCalcOption \<Rightarrow> Direction \<Rightarrow> dec \<Rightarrow> int \<Rightarrow> v1_error + dec" where
  "v1k_calcTwap E ctx s p opt dir amt lookbackInterval =
     (let lowerLimitTimestampMs = UnixMilli (BlockTime ctx - lookbackInterval);
          snapshots = v1_twap_collect lowerLimitTimestampMs
            (rev (kv_values (filter (\<lambda>((q, t), _). q = p \<and> t \<le> BlockTime ctx) (v1_Snapshots s))))
      in if snapshots = [] then Inl V1_NoValidTWAP
         else v1_calcTwap E ctx snapshots lowerLimitTimestampMs
                \<lparr>twapCalcOption = opt, direction = dir, assetAmt = amt\<rparr>)"

definition v1_GetMarkPriceTWAP ::
    "'x sdk_dec_scheme \<Rightarrow> block_ctx \<Rightarrow> 'z v1_amm_state_scheme \<Rightarrow> pair \<Rightarrow> int \<Rightarrow> v1_error + dec" where
  "v1_GetMarkPriceTWAP E ctx s p lookbackInterval =
     v1k_calcTwap E ctx s p SPOT DIRECTION_UNSPECIFIED 0 lookbackInterval"

definition v1_GetBaseAssetTWAP :: "'x sdk_dec_scheme \<Rightarrow> block_ctx \<Rightarrow> 'z v1_amm_state_scheme \<Rightarrow> pair \<Rightarrow>
    Direction \<Rightarrow> dec \<Rightarrow> int \<Rightarrow> v1_error + dec" where
  "v1_GetBaseAssetTWAP E ctx s p dir baseAssetAmount lookbackInterval =
     v1k_calcTwap E ctx s p BASE_ASSET_SWAP dir baseAssetAmount lookbackInterval"


section \<open>Pools\<close>

text \<open>A pool is created balanced; a panic while its snapshot is taken is caught and returned.\<close>

definition v1_CreatePool :: "'b sdk \<Rightarrow> block_ctx \<Rightarrow> pair \<Rightarrow> dec \<Rightarrow> dec \<Rightarrow> v1_config \<Rightarrow> dec \<Rightarrow>
    'z v1_amm_state_scheme \<Rightarrow> v1_error + 'z v1_amm_state_scheme" where
  "v1_CreatePool E ctx p quoteReserve baseReserve config pegMultiplier s =
     bindE (checkE (quoteReserve = baseReserve)
       (V1_Text ''quote asset reserve must be equal to base asset reserve'')) (\<lambda>_.
     bindE (v1_NewMarket E p baseReserve quoteReserve (Some config) 0 0 pegMultiplier) (\<lambda>m.
     bindE (checkE (baseReserve = v1_SqrtDepth m)
       (V1_Text ''base asset reserve must be equal to sqrt depth on pool creation'')) (\<lambda>_.
     bindE (v1_Market_Validate E m) (\<lambda>_.
     bindE (mapErr (\<lambda>_. V1_Text ''panicked'') (v1_ToSnapshot E ctx m)) (\<lambda>snapshot.
     Inr (s\<lparr>v1_Pools := kv_insert p m (v1_Pools s),
            v1_Snapshots := kv_insert (p, BlockTime ctx) snapshot (v1_Snapshots s)\<rparr>))))))"

definition v1k_EditPoolPegMultiplier ::
    "'b sdk \<Rightarrow> pair \<Rightarrow> dec \<Rightarrow> 'z v1_amm_state_scheme \<Rightarrow> v1_error + 'z v1_amm_state_scheme" where
  "v1k_EditPoolPegMultiplier E p newPeg s =
     bindE (v1_GetPool s p) (\<lambda>m.
     let m' = m\<lparr>v1_PegMultiplier := newPeg\<rparr> in
     bindE (v1_Market_Validate E m') (\<lambda>_.
     v1_updatePool E m' True s))"

text \<open>The market is rebuilt from its reserves, its peg and the new configuration; the totals are left
  out of the literal, and the codec stores the missing decimals as zero.\<close>

definition v1_EditPoolConfig ::
    "'b sdk \<Rightarrow> pair \<Rightarrow> v1_config \<Rightarrow> 'z v1_amm_state_scheme \<Rightarrow> v1_error + 'z v1_amm_state_scheme" where
  "v1_EditPoolConfig E p config s =
     bindE (v1_GetPool s p) (\<lambda>m.
     let newMarket = \<lparr>v1_Pair = v1_Pair m, v1_BaseReserve = v1_BaseReserve m,
            v1_QuoteReserve = v1_QuoteReserve m, v1_SqrtDepth = v1_SqrtDepth m,
            v1_PegMultiplier = v1_PegMultiplier m, v1_Config = config,
            v1_TotalLong = 0, v1_TotalShort = 0\<rparr>
     in
     bindE (v1_Market_Validate E newMarket) (\<lambda>_.
     v1_updatePool E newMarket True s))"

definition v1_EditSwapInvariant :: "'b sdk \<Rightarrow> pair \<Rightarrow> dec option \<Rightarrow> 'z v1_amm_state_scheme \<Rightarrow>
    v1_error + 'z v1_amm_state_scheme \<times> v1_market" where
  "v1_EditSwapInvariant E p swapInvariantMultiplier s =
     bindE (v1_GetPool s p) (\<lambda>m.
     bindE (v1_UpdateSwapInvariant E m swapInvariantMultiplier) (\<lambda>newMarket.
     bindE (v1_updatePool E newMarket True s) (\<lambda>s'. Inr (s', newMarket))))"

fun v1_isPanic :: "v1_error \<Rightarrow> bool" where
  "v1_isPanic (V1_Panic _) = True"
| "v1_isPanic _ = False"

record v1_pool_prices =
  v1pp_Pair :: pair
  v1pp_MarkPrice :: dec
  v1pp_TwapMark :: "dec option"
  v1pp_IndexPrice :: "dec option"
  v1pp_SwapInvariant :: int
  v1pp_BlockNumber :: int

text \<open>Missing prices do not fail the query: the average is then \<open>-1\<close> or nil, the index price nil.\<close>

definition v1_GetPoolPrices :: "'b sdk \<Rightarrow> 'c oracle_state \<Rightarrow> block_ctx \<Rightarrow> 'z v1_amm_state_scheme \<Rightarrow>
    v1_market \<Rightarrow> v1_error + v1_pool_prices" where
  "v1_GetPoolPrices E os ctx s pool =
     bindE (mapErr V1_Asset (Pair_Validate (ValidateDenom E) (v1_Pair pool))) (\<lambda>_.
     bindE (checkE (v1_ExistsPool s (v1_Pair pool)) V1_PairNotSupported) (\<lambda>_.
     bindE (v1_ValidateReserves pool) (\<lambda>_.
     let indexPrice = (case GetExchangeRate os (v1_Pair pool) of Inl _ \<Rightarrow> None | Inr r \<Rightarrow> Some r) in
     bindE (case v1k_calcTwap E ctx s (v1_Pair pool) SPOT DIRECTION_UNSPECIFIED 0 (15 * 60 * 1000000000) of
              Inr t \<Rightarrow> Inr (Some t)
            | Inl e \<Rightarrow> if v1_isPanic e then Inl e
                       else if e = V1_NoValidTWAP then Inr (Some (- OneDec)) else Inr None) (\<lambda>twapMark.
     bindE (v1_quoE E (v1_QuoteReserve pool) (v1_BaseReserve pool)) (\<lambda>q.
     Inr \<lparr>v1pp_Pair = v1_Pair pool, v1pp_MarkPrice = dec_Mul E q (v1_PegMultiplier pool),
          v1pp_TwapMark = twapMark, v1pp_IndexPrice = indexPrice,
          v1pp_SwapInvariant = dec_RoundInt E (dec_Mul E (v1_BaseReserve pool) (v1_QuoteReserve pool)),
          v1pp_BlockNumber = BlockHeight ctx\<rparr>)))))"


section \<open>End of block, genesis, proposals and queries\<close>

fun v1_EndBlocker_loop :: "'x sdk_dec_scheme \<Rightarrow> block_ctx \<Rightarrow> v1_market list \<Rightarrow> 'z v1_amm_state_scheme \<Rightarrow>
    v1_error + 'z v1_amm_state_scheme" where
  "v1_EndBlocker_loop E ctx [] s = Inr s"
| "v1_EndBlocker_loop E ctx (pool # pools) s =
     (let snapshot = v1_NewReserveSnapshot (v1_Pair pool) (v1_BaseReserve pool) (v1_QuoteReserve pool)
            (v1_PegMultiplier pool) (BlockTime ctx);
          s1 = s\<lparr>v1_Snapshots := kv_insert (v1_Pair pool, BlockTime ctx) snapshot (v1_Snapshots s)\<rparr>
      in
      bindE (v1_quoE E (v1s_QuoteReserve snapshot) (v1s_BaseReserve snapshot)) (\<lambda>markPrice.
      v1_EndBlocker_loop E ctx pools
        (v1_emit (V1_ReserveSnapshotSavedEvent (v1s_Pair snapshot) (v1s_QuoteReserve snapshot)
          (v1s_BaseReserve snapshot) markPrice (BlockHeight ctx) (BlockTime ctx)) s1)))"

definition v1_EndBlocker ::
    "'x sdk_dec_scheme \<Rightarrow> block_ctx \<Rightarrow> 'z v1_amm_state_scheme \<Rightarrow> v1_error + 'z v1_amm_state_scheme" where
  "v1_EndBlocker E ctx s = v1_EndBlocker_loop E ctx (kv_values (v1_Pools s)) s"

fun v1_amm_InitGenesis :: "'b sdk \<Rightarrow> block_ctx \<Rightarrow> v1_market list \<Rightarrow> 'z v1_amm_state_scheme \<Rightarrow>
    v1_error + 'z v1_amm_state_scheme" where
  "v1_amm_InitGenesis E ctx [] s = Inr s"
| "v1_amm_InitGenesis E ctx (vp # vps) s =
     bindE (mapErr (\<lambda>_. V1_Panic ''genesis'')
       (v1_CreatePool E ctx (v1_Pair vp) (v1_QuoteReserve vp) (v1_BaseReserve vp) (v1_Config vp)
         (v1_PegMultiplier vp) s)) (\<lambda>s1.
     v1_amm_InitGenesis E ctx vps s1)"

definition v1_amm_ExportGenesis :: "'z v1_amm_state_scheme \<Rightarrow> v1_market list" where
  "v1_amm_ExportGenesis s = kv_values (v1_Pools s)"

fun v1_amm_Genesis_Validate :: "'b sdk \<Rightarrow> pair list \<Rightarrow> v1_market list \<Rightarrow> v1_error + unit" where
  "v1_amm_Genesis_Validate E seen [] = Inr ()"
| "v1_amm_Genesis_Validate E seen (m # ms) =
     bindE (v1_Market_Validate E m) (\<lambda>_.
     bindE (checkE (v1_Pair m \<notin> set seen) (V1_Text ''duplicate market'')) (\<lambda>_.
     v1_amm_Genesis_Validate E (v1_Pair m # seen) ms))"

text \<open>
  The governance proposals.  \<open>govtypes.ValidateAbstract\<close>, which checks the title and the description,
  is the parameter \<open>validAbstract\<close>; a multiplier is nil when the message leaves it out.
\<close>

record v1_CreatePoolProposal =
  v1cp_Title :: string
  v1cp_Description :: string
  v1cp_Pair :: pair
  v1cp_QuoteReserve :: dec
  v1cp_BaseReserve :: dec
  v1cp_Config :: v1_config
  v1cp_PegMultiplier :: dec

record v1_EditPoolConfigProposal =
  v1ep_Title :: string
  v1ep_Description :: string
  v1ep_Pair :: pair
  v1ep_Config :: v1_config

record v1_EditSwapInvariantsProposal =
  v1es_Title :: string
  v1es_Description :: string
  v1es_SwapInvariantMaps :: "(pair \<times> dec option) list"

datatype v1_proposal =
    V1_CreatePool v1_CreatePoolProposal
  | V1_EditPoolConfig v1_EditPoolConfigProposal
  | V1_EditSwapInvariants v1_EditSwapInvariantsProposal
  | V1_OtherProposal

definition v1cp_ValidateBasic ::
    "'b sdk \<Rightarrow> (string \<Rightarrow> string \<Rightarrow> bool) \<Rightarrow> v1_CreatePoolProposal \<Rightarrow> v1_error + unit" where
  "v1cp_ValidateBasic E validAbstract pr =
     bindE (checkE (validAbstract (v1cp_Title pr) (v1cp_Description pr)) (V1_Text ''invalid content'')) (\<lambda>_.
     bindE (mapErr V1_Asset (Pair_Validate (ValidateDenom E) (v1cp_Pair pr))) (\<lambda>_.
     let pool = \<lparr>v1_Pair = v1cp_Pair pr, v1_BaseReserve = v1cp_BaseReserve pr,
           v1_QuoteReserve = v1cp_QuoteReserve pr, v1_SqrtDepth = 0, v1_PegMultiplier = v1cp_PegMultiplier pr,
           v1_Config = v1cp_Config pr, v1_TotalLong = 0, v1_TotalShort = 0\<rparr>
     in
     bindE (v1_ComputeSqrtDepth E pool) (\<lambda>sqrtDepth.
     v1_Market_Validate E (pool\<lparr>v1_SqrtDepth := sqrtDepth\<rparr>))))"

definition v1ep_ValidateBasic ::
    "'b sdk \<Rightarrow> (string \<Rightarrow> string \<Rightarrow> bool) \<Rightarrow> v1_EditPoolConfigProposal \<Rightarrow> v1_error + unit" where
  "v1ep_ValidateBasic E validAbstract pr =
     bindE (checkE (validAbstract (v1ep_Title pr) (v1ep_Description pr)) (V1_Text ''invalid content'')) (\<lambda>_.
     bindE (mapErr V1_Asset (Pair_Validate (ValidateDenom E) (v1ep_Pair pr))) (\<lambda>_.
     v1_Config_Validate E (v1ep_Config pr)))"

definition v1_SwapInvariantMultiple_Validate :: "'b sdk \<Rightarrow> pair \<times> dec option \<Rightarrow> v1_error + unit" where
  "v1_SwapInvariantMultiple_Validate E kv =
     (if \<not> isl (Pair_Validate (ValidateDenom E) (fst kv)) \<and> snd kv \<noteq> None then Inr ()
      else Inl (V1_Text ''swap_invariant_multiple err''))"

fun v1_each :: "('a \<Rightarrow> v1_error + unit) \<Rightarrow> 'a list \<Rightarrow> v1_error + unit" where
  "v1_each f [] = Inr ()"
| "v1_each f (x # xs) = bindE (f x) (\<lambda>_. v1_each f xs)"

definition v1es_ValidateBasic ::
    "'b sdk \<Rightarrow> (string \<Rightarrow> string \<Rightarrow> bool) \<Rightarrow> v1_EditSwapInvariantsProposal \<Rightarrow> v1_error + unit" where
  "v1es_ValidateBasic E validAbstract pr =
     bindE (checkE (validAbstract (v1es_Title pr) (v1es_Description pr)) (V1_Text ''invalid content'')) (\<lambda>_.
     v1_each (v1_SwapInvariantMultiple_Validate E) (v1es_SwapInvariantMaps pr))"

definition v1_handleProposalCreatePool :: "'b sdk \<Rightarrow> (string \<Rightarrow> string \<Rightarrow> bool) \<Rightarrow> block_ctx \<Rightarrow>
    v1_CreatePoolProposal \<Rightarrow> 'z v1_amm_state_scheme \<Rightarrow> v1_error + 'z v1_amm_state_scheme" where
  "v1_handleProposalCreatePool E validAbstract ctx pr s =
     bindE (v1cp_ValidateBasic E validAbstract pr) (\<lambda>_.
     bindE (mapErr V1_Asset (Pair_Validate (ValidateDenom E) (v1cp_Pair pr))) (\<lambda>_.
     v1_CreatePool E ctx (v1cp_Pair pr) (v1cp_QuoteReserve pr) (v1cp_BaseReserve pr) (v1cp_Config pr) OneDec s))"

definition v1_handleProposalEditPoolConfig :: "'b sdk \<Rightarrow> (string \<Rightarrow> string \<Rightarrow> bool) \<Rightarrow>
    v1_EditPoolConfigProposal \<Rightarrow> 'z v1_amm_state_scheme \<Rightarrow> v1_error + 'z v1_amm_state_scheme" where
  "v1_handleProposalEditPoolConfig E validAbstract pr s =
     bindE (v1ep_ValidateBasic E validAbstract pr) (\<lambda>_.
     bindE (mapErr V1_Asset (Pair_Validate (ValidateDenom E) (v1ep_Pair pr))) (\<lambda>_.
     v1_EditPoolConfig E (v1ep_Pair pr) (v1ep_Config pr) s))"

fun v1_editSwapInvariants_loop :: "'b sdk \<Rightarrow> (pair \<times> dec option) list \<Rightarrow> 'z v1_amm_state_scheme \<Rightarrow>
    v1_error + 'z v1_amm_state_scheme" where
  "v1_editSwapInvariants_loop E [] s = Inr s"
| "v1_editSwapInvariants_loop E (kv # kvs) s =
     bindE (v1_SwapInvariantMultiple_Validate E kv) (\<lambda>_.
     bindE (v1_EditSwapInvariant E (fst kv) (snd kv) s) (\<lambda>(s1, _).
     v1_editSwapInvariants_loop E kvs s1))"

definition v1_handleProposalEditSwapInvariants :: "'b sdk \<Rightarrow> (string \<Rightarrow> string \<Rightarrow> bool) \<Rightarrow>
    v1_EditSwapInvariantsProposal \<Rightarrow> 'z v1_amm_state_scheme \<Rightarrow> v1_error + 'z v1_amm_state_scheme" where
  "v1_handleProposalEditSwapInvariants E validAbstract pr s =
     bindE (v1es_ValidateBasic E validAbstract pr) (\<lambda>_.
     v1_editSwapInvariants_loop E (v1es_SwapInvariantMaps pr) s)"

definition v1_MarketProposalHandler :: "'b sdk \<Rightarrow> (string \<Rightarrow> string \<Rightarrow> bool) \<Rightarrow> block_ctx \<Rightarrow> v1_proposal \<Rightarrow>
    'z v1_amm_state_scheme \<Rightarrow> v1_error + 'z v1_amm_state_scheme" where
  "v1_MarketProposalHandler E validAbstract ctx content s =
     (case content of
        V1_CreatePool pr \<Rightarrow> v1_handleProposalCreatePool E validAbstract ctx pr s
      | V1_EditPoolConfig pr \<Rightarrow> v1_handleProposalEditPoolConfig E validAbstract pr s
      | V1_EditSwapInvariants pr \<Rightarrow> v1_handleProposalEditSwapInvariants E validAbstract pr s
      | V1_OtherProposal \<Rightarrow> Inl (V1_Text ''unrecognized proposal content type''))"

definition v1_query_ReserveAssets :: "'z v1_amm_state_scheme \<Rightarrow> pair option \<Rightarrow> v1_error + dec \<times> dec" where
  "v1_query_ReserveAssets s req =
     bindE (getE (V1_Text ''invalid request'') req) (\<lambda>p.
     bindE (v1_GetPool s p) (\<lambda>pool. Inr (v1_BaseReserve pool, v1_QuoteReserve pool)))"

fun v1_allPools_loop :: "'b sdk \<Rightarrow> 'c oracle_state \<Rightarrow> block_ctx \<Rightarrow> 'z v1_amm_state_scheme \<Rightarrow> v1_market list \<Rightarrow>
    v1_error + v1_pool_prices list" where
  "v1_allPools_loop E os ctx s [] = Inr []"
| "v1_allPools_loop E os ctx s (pool # pools) =
     bindE (v1_GetPoolPrices E os ctx s pool) (\<lambda>poolPrices.
     bindE (v1_allPools_loop E os ctx s pools) (\<lambda>rest. Inr (poolPrices # rest)))"

definition v1_query_AllPools :: "'b sdk \<Rightarrow> 'c oracle_state \<Rightarrow> block_ctx \<Rightarrow> 'z v1_amm_state_scheme \<Rightarrow> unit option \<Rightarrow>
    v1_error + v1_market list \<times> v1_pool_prices list" where
  "v1_query_AllPools E os ctx s req =
     bindE (getE (V1_Text ''invalid request'') req) (\<lambda>_.
     bindE (v1_allPools_loop E os ctx s (kv_values (v1_Pools s))) (\<lambda>prices.
     Inr (kv_values (v1_Pools s), prices)))"

definition v1_query_BaseAssetPrice :: "'x sdk_dec_scheme \<Rightarrow> 'z v1_amm_state_scheme \<Rightarrow>
    (pair \<times> Direction \<times> dec) option \<Rightarrow> v1_error + dec" where
  "v1_query_BaseAssetPrice E s req =
     bindE (getE (V1_Text ''invalid request'') req) (\<lambda>(p, dir, amt).
     bindE (mapErr (\<lambda>_. V1_PairNotSupported) (v1_GetPool s p)) (\<lambda>m.
     v1_GetBaseAssetPrice E m dir amt))"

end
