(* ===== verification/V1_Swap.thy ===== *)
theory V1_Swap
  imports V1_AMM
begin

text \<open>
  What a swap of the first version does.  The market maker of the second version is its
  specification: forgetting the configuration, a successful swap of the first version is the swap
  of the second, so the two price every trade alike and the laws proved there carry over.  Beyond
  that the first version promises limits: a share of each reserve per trade, the user's limit, and
  a band around the price of the last snapshot.
\<close>

definition v1_abs :: "v1_market \<Rightarrow> amm" where
  "v1_abs m = \<lparr>amm_Pair = v1_Pair m, BaseReserve = v1_BaseReserve m, QuoteReserve = v1_QuoteReserve m,
     SqrtDepth = v1_SqrtDepth m, PriceMultiplier = v1_PegMultiplier m, TotalLong = v1_TotalLong m,
     TotalShort = v1_TotalShort m\<rparr>"

lemma v1_abs_sel [simp]:
  "amm_Pair (v1_abs m) = v1_Pair m" "BaseReserve (v1_abs m) = v1_BaseReserve m"
  "QuoteReserve (v1_abs m) = v1_QuoteReserve m" "SqrtDepth (v1_abs m) = v1_SqrtDepth m"
  "PriceMultiplier (v1_abs m) = v1_PegMultiplier m" "TotalLong (v1_abs m) = v1_TotalLong m"
  "TotalShort (v1_abs m) = v1_TotalShort m"
  by (simp_all add: v1_abs_def)

definition v1_flip :: "Direction \<Rightarrow> Direction" where
  "v1_flip dir = (if dir = LONG then SHORT else LONG)"

text \<open>The market after a swap, and what it leaves alone.\<close>

definition v1_moved :: "v1_market \<Rightarrow> dec \<Rightarrow> dec \<Rightarrow> v1_market" where
  "v1_moved m quoteDelta baseDelta =
     v1_AddToQuoteReserve (v1_AddToBaseReserveAndTotalLongShort m baseDelta) quoteDelta"

lemma v1_moved_facts [simp]:
  "v1_GetBias (v1_moved m q b) = v1_GetBias m - b"
  "v1_BaseReserve (v1_moved m q b) = v1_BaseReserve m + b"
  "v1_QuoteReserve (v1_moved m q b) = v1_QuoteReserve m + q"
  "v1_Pair (v1_moved m q b) = v1_Pair m"
  "v1_Config (v1_moved m q b) = v1_Config m"
  "v1_PegMultiplier (v1_moved m q b) = v1_PegMultiplier m"
  "v1_SqrtDepth (v1_moved m q b) = v1_SqrtDepth m"
  "v1_depthBase (v1_moved m q b) = v1_depthBase m"
  by (simp_all add: v1_moved_def v1_AddToBase_facts v1_depthBase_def)

text \<open>The state after a swap: the pool is replaced and two events are emitted.\<close>

lemma v1_executeSwap_Inr:
  assumes "v1_executeSwap E ctx m q b skip s = Inr (s', m')"
  shows "m' = v1_moved m q b"
    and "v1_Pools s' = kv_insert (v1_Pair m) m' (v1_Pools s)"
    and "\<exists>evs. s' = s\<lparr>v1_Pools := kv_insert (v1_Pair m) m' (v1_Pools s), v1_events := evs\<rparr>"
    and "\<not> skip \<Longrightarrow> v1_checkFluctuationLimitRatio E s m' = Inr ()"
  using assms
  by (auto simp: v1_executeSwap_def v1_updatePool_def Let_def res_simps v1_emit_def v1_moved_def [symmetric]
      split: if_splits)

lemma v1_HasEnough_Inr:
  "v1_HasEnoughReservesForTrade E m q b = Inr u \<longleftrightarrow> v1_HasEnoughQuoteReserve E m q \<and> v1_HasEnoughBaseReserve E m b"
  by (auto simp: v1_HasEnoughReservesForTrade_def)

lemma v1_SwapQuoteForBase_Inr:
  assumes "v1_SwapQuoteForBase E os ctx m dir q lim skip s = Inr (s', m', d)" and "q \<noteq> 0"
  obtains r where "v1_FromQuoteAssetToReserve E m q = Inr r"
    and "v1_GetBaseAmountByQuoteAmount E m (\<bar>r\<bar> * ToMultiplier dir) = Inr d"
    and "m' = v1_moved m (\<bar>r\<bar> * ToMultiplier dir) (- d * ToMultiplier dir)"
    and "v1_executeSwap E ctx m (\<bar>r\<bar> * ToMultiplier dir) (- d * ToMultiplier dir) skip s = Inr (s', m')"
    and "v1_HasEnoughReservesForTrade E m \<bar>r\<bar> d = Inr ()"
    and "v1_checkIfLimitIsViolated lim d dir = Inr ()"
  using assms by (auto simp: v1_SwapQuoteForBase_def Let_def res_simps dest: v1_executeSwap_Inr(1))

lemma v1_SwapBaseForQuote_Inr:
  assumes "v1_SwapBaseForQuote E os ctx m dir b lim skip s = Inr (s', m', q)" and "b \<noteq> 0"
  obtains r where "v1_GetQuoteReserveByBase E m (\<bar>b\<bar> * ToMultiplier dir) = Inr r"
    and "q = v1_FromQuoteReserveToAsset E m r"
    and "m' = v1_moved m (- r * ToMultiplier dir) (\<bar>b\<bar> * ToMultiplier dir)"
    and "v1_executeSwap E ctx m (- r * ToMultiplier dir) (\<bar>b\<bar> * ToMultiplier dir) skip s = Inr (s', m')"
    and "v1_HasEnoughReservesForTrade E m r \<bar>b\<bar> = Inr ()"
    and "v1_checkIfLimitIsViolated lim q dir = Inr ()"
  using assms by (auto simp: v1_SwapBaseForQuote_def Let_def res_simps dest: v1_executeSwap_Inr(1))


section \<open>Refinement of the second version\<close>

lemma v1_GetBaseAmount_abs:
  assumes "v1_GetBaseAmountByQuoteAmount E m (r * ToMultiplier dir) = Inr d" and "0 \<le> r"
    and "dir = LONG \<or> dir = SHORT"
  shows "GetBaseReserveAmt E (v1_abs m) r dir = Inr d"
  using assms
  by (auto simp: v1_GetBaseAmountByQuoteAmount_def GetBaseReserveAmt_def ToMultiplier_def Let_def v1_quoE_def
      quoE_def split: if_splits)

lemma v1_GetQuoteReserve_abs:
  assumes "v1_GetQuoteReserveByBase E m (b * ToMultiplier dir) = Inr r" and "0 \<le> b"
    and "dir = LONG \<or> dir = SHORT"
  shows "GetQuoteReserveAmt E (v1_abs m) b (v1_flip dir) = Inr r"
  using assms
  by (auto simp: v1_GetQuoteReserveByBase_def GetQuoteReserveAmt_def ToMultiplier_def v1_flip_def Let_def
      v1_quoE_def quoE_def split: if_splits)

lemma v1_abs_moved:
  "v1_abs (v1_moved m q b) = (v1_abs m)\<lparr>QuoteReserve := v1_QuoteReserve m + q,
     BaseReserve := v1_BaseReserve m + b,
     TotalLong := v1_TotalLong m + (if b < 0 then - b else 0),
     TotalShort := v1_TotalShort m + (if 0 < b then b else 0)\<rparr>"
  by (simp add: v1_abs_def v1_moved_def v1_AddToQuoteReserve_def v1_AddToBaseReserveAndTotalLongShort_def)

text \<open>
  C15: a quote swap of the first version of the market maker is the quote swap of the second: on the
  same reserves, peg and totals it exchanges the same amount of base and leaves the same market.
\<close>

theorem v1_quote_swap_refines:
  assumes "dec_laws E" and "v1_SwapQuoteForBase E os ctx m dir q lim skip s = Inr (s', m', d)"
    and "dir = LONG \<or> dir = SHORT" and "0 < q" and "0 < v1_PegMultiplier m"
  shows "amm_SwapQuoteAsset E (v1_abs m) q dir = Inr (v1_abs m', d)"
proof -
  obtain r where r: "v1_FromQuoteAssetToReserve E m q = Inr r"
    "v1_GetBaseAmountByQuoteAmount E m (\<bar>r\<bar> * ToMultiplier dir) = Inr d"
    "m' = v1_moved m (\<bar>r\<bar> * ToMultiplier dir) (- d * ToMultiplier dir)"
    using v1_SwapQuoteForBase_Inr [OF assms(2)] assms(4) by blast
  have pos: "0 \<le> r"
    using r(1) assms(4,5) sdk_decimal.quo_nonneg [OF dec_lawsD [OF assms(1)]]
    by (auto simp: v1_FromQuoteAssetToReserve_def res_simps)
  have d: "0 \<le> d" using r(2) by (rule v1_GetBaseAmount_nonneg)
  have f: "FromQuoteAssetToReserve E (v1_abs m) q = Inr r"
    using r(1) by (auto simp: v1_FromQuoteAssetToReserve_def FromQuoteAssetToReserve_def res_simps)
  have g: "GetBaseReserveAmt E (v1_abs m) r dir = Inr d"
    using r(2) pos assms(3) by (intro v1_GetBaseAmount_abs) auto
  show ?thesis
    using assms(3) d pos by (auto simp: amm_SwapQuoteAsset_def f g r(3) v1_abs_moved ToMultiplier_def Let_def)
qed

text \<open>
  A base swap of the first version is the base swap of the second in the opposite direction: the
  first version names the direction of the base, the second the direction of the trade.
\<close>

theorem v1_base_swap_refines:
  assumes "v1_SwapBaseForQuote E os ctx m dir b lim skip s = Inr (s', m', q)"
    and "dir = LONG \<or> dir = SHORT" and "0 < b"
  shows "amm_SwapBaseAsset E (v1_abs m) b (v1_flip dir) = Inr (v1_abs m', q)"
proof -
  obtain r where r: "v1_GetQuoteReserveByBase E m (\<bar>b\<bar> * ToMultiplier dir) = Inr r"
    "q = v1_FromQuoteReserveToAsset E m r"
    "m' = v1_moved m (- r * ToMultiplier dir) (\<bar>b\<bar> * ToMultiplier dir)"
    using v1_SwapBaseForQuote_Inr [OF assms(1)] assms(3) by blast
  have g: "GetQuoteReserveAmt E (v1_abs m) b (v1_flip dir) = Inr r"
    using r(1) assms(2,3) by (intro v1_GetQuoteReserve_abs) auto
  show ?thesis
    using assms(2,3) g
    by (auto simp: amm_SwapBaseAsset_def g r(2,3) v1_abs_moved ToMultiplier_def v1_flip_def Let_def
        v1_FromQuoteReserveToAsset_def FromQuoteReserveToAsset_def)
qed


section \<open>Limits\<close>

definition v1_within_limits :: "'x sdk_dec_scheme \<Rightarrow> v1_market \<Rightarrow> v1_market \<Rightarrow> bool" where
  "v1_within_limits E m m' \<longleftrightarrow>
     \<bar>v1_BaseReserve m' - v1_BaseReserve m\<bar> \<le> dec_Mul E (v1_BaseReserve m) (v1_TradeLimitRatio (v1_Config m))
     \<and> \<bar>v1_QuoteReserve m' - v1_QuoteReserve m\<bar> \<le> dec_Mul E (v1_QuoteReserve m) (v1_TradeLimitRatio (v1_Config m))"

definition v1_in_band :: "'x sdk_dec_scheme \<Rightarrow> v1_snapshot \<Rightarrow> v1_market \<Rightarrow> bool" where
  "v1_in_band E snap m \<longleftrightarrow>
     v1s_GetLowerMarkPriceFluctuationLimit E snap (v1_FluctuationLimitRatio (v1_Config m)) \<le> v1_GetMarkPrice E m
     \<and> v1_GetMarkPrice E m \<le> v1s_GetUpperMarkPriceFluctuationLimit E snap (v1_FluctuationLimitRatio (v1_Config m))"

lemma v1_abs_ToMultiplier [simp]: "\<bar>x * ToMultiplier dir\<bar> = \<bar>x\<bar>"
  by (cases dir) (auto simp: ToMultiplier_def)

lemma v1_checkFluctuation_band:
  assumes "v1_checkFluctuationLimitRatio E s m = Inr ()" and "v1_FluctuationLimitRatio (v1_Config m) \<noteq> 0"
  shows "\<exists>snap. v1_GetLastSnapshot s m = Inr snap \<and> v1_in_band E snap m"
  using assms by (auto simp: v1_checkFluctuationLimitRatio_def v1_IsOverFluctuationLimit_def v1_in_band_def
      Let_def res_simps split: if_splits)

lemma v1_quote_swap_limits:
  assumes "v1_SwapQuoteForBase E os ctx m dir q lim skip s = Inr (s', m', d)" and "q \<noteq> 0"
  shows "v1_within_limits E m m'" and "v1_depthBase m' = v1_depthBase m" and "v1_Config m' = v1_Config m"
    and "v1_Pair m' = v1_Pair m" and "\<not> skip \<Longrightarrow> v1_checkFluctuationLimitRatio E s m' = Inr ()"
proof -
  obtain r where r: "m' = v1_moved m (\<bar>r\<bar> * ToMultiplier dir) (- d * ToMultiplier dir)"
    "v1_HasEnoughReservesForTrade E m \<bar>r\<bar> d = Inr ()"
    "v1_executeSwap E ctx m (\<bar>r\<bar> * ToMultiplier dir) (- d * ToMultiplier dir) skip s = Inr (s', m')"
    using v1_SwapQuoteForBase_Inr [OF assms] by blast
  have "\<bar>- d * ToMultiplier dir\<bar> = \<bar>d\<bar>" by (metis abs_minus_cancel v1_abs_ToMultiplier)
  then show "v1_within_limits E m m'"
    using r(2) by (simp add: v1_within_limits_def r(1) v1_HasEnough_Inr v1_HasEnoughQuoteReserve_def
        v1_HasEnoughBaseReserve_def)
  show "v1_depthBase m' = v1_depthBase m" "v1_Config m' = v1_Config m" "v1_Pair m' = v1_Pair m"
    by (simp_all only: r(1) v1_moved_facts)
  show "v1_checkFluctuationLimitRatio E s m' = Inr ()" if "\<not> skip" using r(3) that by (rule v1_executeSwap_Inr)
qed

lemma v1_base_swap_limits:
  assumes "v1_SwapBaseForQuote E os ctx m dir b lim skip s = Inr (s', m', q)" and "b \<noteq> 0"
  shows "v1_within_limits E m m'" and "v1_depthBase m' = v1_depthBase m" and "v1_Config m' = v1_Config m"
    and "v1_Pair m' = v1_Pair m" and "\<not> skip \<Longrightarrow> v1_checkFluctuationLimitRatio E s m' = Inr ()"
proof -
  obtain r where r: "m' = v1_moved m (- r * ToMultiplier dir) (\<bar>b\<bar> * ToMultiplier dir)"
    "v1_HasEnoughReservesForTrade E m r \<bar>b\<bar> = Inr ()"
    "v1_executeSwap E ctx m (- r * ToMultiplier dir) (\<bar>b\<bar> * ToMultiplier dir) skip s = Inr (s', m')"
    using v1_SwapBaseForQuote_Inr [OF assms] by blast
  have "\<bar>- r * ToMultiplier dir\<bar> = \<bar>r\<bar>" by (metis abs_minus_cancel v1_abs_ToMultiplier)
  then show "v1_within_limits E m m'"
    using r(2) by (simp add: v1_within_limits_def r(1) v1_HasEnough_Inr v1_HasEnoughQuoteReserve_def
        v1_HasEnoughBaseReserve_def)
  show "v1_depthBase m' = v1_depthBase m" "v1_Config m' = v1_Config m" "v1_Pair m' = v1_Pair m"
    by (simp_all only: r(1) v1_moved_facts)
  show "v1_checkFluctuationLimitRatio E s m' = Inr ()" if "\<not> skip" using r(3) that by (rule v1_executeSwap_Inr)
qed

end
