(* ===== verification/V1_Keeper.thy ===== *)
theory V1_Keeper
  imports V1_AMM
begin

text \<open>
  The keeper of the first version of the perpetual-futures module (\<^verbatim>\<open>x/perp/keeper/v1\<close>): the
  calculations of margins and profits (\<^verbatim>\<open>calc.go\<close>, \<^verbatim>\<open>margin.go\<close>), the vault (\<^verbatim>\<open>withdraw.go\<close>) and the
  clearing house (\<^verbatim>\<open>clearing_house.go\<close>).  The keeper's state extends the state of the market maker it
  calls; the oracle keeper's state is an argument of the operations that ask it for a price.
\<close>

section \<open>State\<close>

record v1_pair_metadata =
  v1pm_Pair :: pair
  v1pm_LatestCumulativePremiumFraction :: dec

record v1_metrics =
  v1x_Pair :: pair
  v1x_NetSize :: dec
  v1x_VolumeQuote :: dec
  v1x_VolumeBase :: dec

record v1_params =
  v1_Stopped :: bool
  v1_FeePoolFeeRatio :: dec
  v1_EcosystemFundFeeRatio :: dec
  v1_LiquidationFeeRatio :: dec
  v1_PartialLiquidationRatio :: dec
  v1_FundingRateInterval :: string
  v1_TwapLookbackWindow :: int
  v1_WhitelistedLiquidators :: "string list"

record 'b v1_state = v1_amm_state +
  v1_Positions :: "(pair \<times> addr, position) kv"
  v1_PairsMetadata :: "(pair, v1_pair_metadata) kv"
  v1_PrepaidBadDebt :: "(denom, coin) kv"
  v1_Metrics :: "(pair, v1_metrics) kv"
  v1_Params :: v1_params
  v1_bank :: 'b

datatype PnLCalcOption = PNL_CALC_OPTION_UNSPECIFIED | PNL_SPOT_PRICE | PNL_TWAP | PNL_ORACLE
datatype PnLPreferenceOption = PNL_PREFERENCE_OPTION_UNSPECIFIED | PNL_MAX | PNL_MIN
datatype MarginCalculationPriceOption = MARGIN_OPTION_UNSPECIFIED | MARGIN_SPOT | MARGIN_INDEX | MARGIN_MAX_PNL

definition v1_quoteDenomE :: "pair \<Rightarrow> v1_error + denom" where
  "v1_quoteDenomE p = mapErr (\<lambda>_. V1_Panic ''index out of range'') (QuoteDenom p)"

definition v1_newCoinE :: "'b sdk \<Rightarrow> denom \<Rightarrow> int \<Rightarrow> v1_error + coin" where
  "v1_newCoinE E d n = getE (V1_Panic ''invalid coin'') (NewCoin E d n)"

text \<open>Transfers of one coin; \<open>sdk.NewCoins\<close> drops a zero coin.\<close>

definition v1_sendM2M :: "'b sdk \<Rightarrow> string \<Rightarrow> string \<Rightarrow> denom \<Rightarrow> int \<Rightarrow> 'b v1_state \<Rightarrow> v1_error + 'b v1_state" where
  "v1_sendM2M E from to d n s =
     bindE (v1_newCoinE E d n) (\<lambda>c.
     if Amount c = 0 then Inr s
     else bindE (mapErr V1_Bank (SendCoinsFromModuleToModule E (v1_bank s) from to c)) (\<lambda>b.
       Inr (s\<lparr>v1_bank := b\<rparr>)))"

definition v1_sendM2A :: "'b sdk \<Rightarrow> string \<Rightarrow> addr \<Rightarrow> denom \<Rightarrow> int \<Rightarrow> 'b v1_state \<Rightarrow> v1_error + 'b v1_state" where
  "v1_sendM2A E from to d n s =
     bindE (v1_newCoinE E d n) (\<lambda>c.
     if Amount c = 0 then Inr s
     else bindE (mapErr V1_Bank (SendCoinsFromModuleToAccount E (v1_bank s) from to c)) (\<lambda>b.
       Inr (s\<lparr>v1_bank := b\<rparr>)))"

definition v1_sendA2M :: "'b sdk \<Rightarrow> addr \<Rightarrow> string \<Rightarrow> denom \<Rightarrow> int \<Rightarrow> 'b v1_state \<Rightarrow> v1_error + 'b v1_state" where
  "v1_sendA2M E from to d n s =
     bindE (v1_newCoinE E d n) (\<lambda>c.
     if Amount c = 0 then Inr s
     else bindE (mapErr V1_Bank (SendCoinsFromAccountToModule E (v1_bank s) from to c)) (\<lambda>b.
       Inr (s\<lparr>v1_bank := b\<rparr>)))"


section \<open>Calculations\<close>

record v1_remaining =
  v1r_Margin :: dec
  v1r_BadDebt :: dec
  v1r_FundingPayment :: dec
  v1r_LatestCumulativePremiumFraction :: dec

definition v1_getLatestCumulativePremiumFraction :: "'b v1_state \<Rightarrow> pair \<Rightarrow> v1_error + dec" where
  "v1_getLatestCumulativePremiumFraction s p =
     bindE (getE V1_NotFound (kv_get (v1_PairsMetadata s) p)) (\<lambda>md.
     Inr (v1pm_LatestCumulativePremiumFraction md))"

definition v1_CalcRemainMarginWithFundingPayment ::
    "'x sdk_dec_scheme \<Rightarrow> 'b v1_state \<Rightarrow> position \<Rightarrow> dec \<Rightarrow> v1_error + v1_remaining" where
  "v1_CalcRemainMarginWithFundingPayment E s currentPosition marginDelta =
     bindE (v1_getLatestCumulativePremiumFraction s (pos_Pair currentPosition)) (\<lambda>latest.
     let fundingPayment =
           (if Size currentPosition = 0 then 0
            else dec_Mul E (latest - pos_LatestCumulativePremiumFraction currentPosition) (Size currentPosition));
         remainingMargin = Margin currentPosition + marginDelta - fundingPayment
     in if remainingMargin < 0
        then Inr \<lparr>v1r_Margin = 0, v1r_BadDebt = \<bar>remainingMargin\<bar>, v1r_FundingPayment = fundingPayment,
                  v1r_LatestCumulativePremiumFraction = latest\<rparr>
        else Inr \<lparr>v1r_Margin = \<bar>remainingMargin\<bar>, v1r_BadDebt = 0, v1r_FundingPayment = fundingPayment,
                  v1r_LatestCumulativePremiumFraction = latest\<rparr>)"

definition v1_getPositionNotionalAndUnrealizedPnL :: "'x sdk_dec_scheme \<Rightarrow> 'c oracle_state \<Rightarrow> block_ctx \<Rightarrow>
    'b v1_state \<Rightarrow> v1_market \<Rightarrow> position \<Rightarrow> PnLCalcOption \<Rightarrow> v1_error + dec \<times> dec" where
  "v1_getPositionNotionalAndUnrealizedPnL E os ctx s m currentPosition pnlCalcOption =
     (let positionSizeAbs = \<bar>Size currentPosition\<bar> in
      if positionSizeAbs = 0 then Inr (0, 0)
      else
      let baseAssetDirection = (if 0 < Size currentPosition then LONG else SHORT) in
      bindE (case pnlCalcOption of
          PNL_TWAP \<Rightarrow> v1_GetBaseAssetTWAP E ctx s (pos_Pair currentPosition) baseAssetDirection positionSizeAbs
            (v1_TwapLookbackWindow (v1_Params s))
        | PNL_SPOT_PRICE \<Rightarrow> v1_GetBaseAssetPrice E m baseAssetDirection positionSizeAbs
        | PNL_ORACLE \<Rightarrow>
            bindE (mapErr (\<lambda>_. V1_NotFound) (GetExchangeRate os (pos_Pair currentPosition))) (\<lambda>oraclePrice.
            Inr (dec_Mul E oraclePrice positionSizeAbs))
        | PNL_CALC_OPTION_UNSPECIFIED \<Rightarrow> Inl (V1_Text ''unrecognized pnl calc option''))
      (\<lambda>positionNotional.
        if positionNotional = OpenNotional currentPosition then Inr (positionNotional, 0)
        else if 0 < Size currentPosition
        then Inr (positionNotional, positionNotional - OpenNotional currentPosition)
        else Inr (positionNotional, OpenNotional currentPosition - positionNotional)))"

definition v1_GetPreference :: "'x sdk_dec_scheme \<Rightarrow> 'c oracle_state \<Rightarrow> block_ctx \<Rightarrow>
    'b v1_state \<Rightarrow> v1_market \<Rightarrow> position \<Rightarrow> PnLPreferenceOption \<Rightarrow> v1_error + dec \<times> dec" where
  "v1_GetPreference E os ctx s m p pnLPreferenceOption =
     bindE (v1_getPositionNotionalAndUnrealizedPnL E os ctx s m p PNL_SPOT_PRICE)
       (\<lambda>(spotPositionNotional, spotPricePnl).
     bindE (v1_getPositionNotionalAndUnrealizedPnL E os ctx s m p PNL_TWAP)
       (\<lambda>(twapPositionNotional, twapPnl).
     case pnLPreferenceOption of
       PNL_MAX \<Rightarrow> Inr (max spotPositionNotional twapPositionNotional, max spotPricePnl twapPnl)
     | PNL_MIN \<Rightarrow> Inr (min spotPositionNotional twapPositionNotional, min spotPricePnl twapPnl)
     | PNL_PREFERENCE_OPTION_UNSPECIFIED \<Rightarrow> Inl (V1_Text ''invalid pnl preference option'')))"

definition v1_GetMarginRatio :: "'x sdk_dec_scheme \<Rightarrow> 'c oracle_state \<Rightarrow> block_ctx \<Rightarrow>
    'b v1_state \<Rightarrow> v1_market \<Rightarrow> position \<Rightarrow> MarginCalculationPriceOption \<Rightarrow> v1_error + dec" where
  "v1_GetMarginRatio E os ctx s m p priceOption =
     (if Size p = 0 then Inl V1_PositionZero
      else
      bindE (case priceOption of
          MARGIN_MAX_PNL \<Rightarrow> v1_GetPreference E os ctx s m p PNL_MAX
        | MARGIN_INDEX \<Rightarrow> v1_getPositionNotionalAndUnrealizedPnL E os ctx s m p PNL_ORACLE
        | MARGIN_SPOT \<Rightarrow> v1_getPositionNotionalAndUnrealizedPnL E os ctx s m p PNL_SPOT_PRICE
        | MARGIN_OPTION_UNSPECIFIED \<Rightarrow> Inl (V1_Panic ''nil decimal''))
      (\<lambda>(positionNotional, unrealizedPnL).
      if positionNotional = 0 then Inl (V1_Text ''margin ratio doesnt make sense with zero position notional'')
      else
      bindE (v1_CalcRemainMarginWithFundingPayment E s p unrealizedPnL) (\<lambda>remaining.
      Inr (dec_Quo E (v1r_Margin remaining - v1r_BadDebt remaining) positionNotional))))"

definition v1_calcFreeCollateral :: "'b sdk \<Rightarrow> 'c oracle_state \<Rightarrow> block_ctx \<Rightarrow>
    'b v1_state \<Rightarrow> v1_market \<Rightarrow> position \<Rightarrow> v1_error + dec" where
  "v1_calcFreeCollateral E os ctx s m pos =
     bindE (mapErr V1_Asset (Pair_Validate (ValidateDenom E) (pos_Pair pos))) (\<lambda>_.
     bindE (v1_GetPreference E os ctx s m pos PNL_MIN) (\<lambda>(positionNotional, unrealizedPnL).
     let remainingMargin = min (Margin pos) (Margin pos + unrealizedPnL) in
     bindE (v1_GetMaintenanceMarginRatio s (pos_Pair pos)) (\<lambda>maintenanceMarginRatio.
     Inr (remainingMargin - dec_Mul E positionNotional maintenanceMarginRatio))))"

definition v1_requireMarket :: "'z v1_amm_state_scheme \<Rightarrow> pair \<Rightarrow> v1_error + unit" where
  "v1_requireMarket s p = checkE (v1_ExistsPool s p) V1_PairNotFound"

definition v1_validateMarginRatio :: "dec \<Rightarrow> dec \<Rightarrow> bool \<Rightarrow> v1_error + unit" where
  "v1_validateMarginRatio marginRatio threshold largerThanOrEqualTo =
     (if largerThanOrEqualTo
      then (if \<not> threshold \<le> marginRatio then Inl V1_MarginRatioTooLow else Inr ())
      else (if \<not> marginRatio < threshold then Inl V1_MarginRatioTooHigh else Inr ()))"


section \<open>The vault\<close>

definition v1_prepaid :: "'b v1_state \<Rightarrow> denom \<Rightarrow> int" where
  "v1_prepaid s d = (case kv_get (v1_PrepaidBadDebt s) d of None \<Rightarrow> 0 | Some c \<Rightarrow> Amount c)"

definition v1_setPrepaid :: "denom \<Rightarrow> int \<Rightarrow> 'b v1_state \<Rightarrow> 'b v1_state" where
  "v1_setPrepaid d n s =
     s\<lparr>v1_PrepaidBadDebt := kv_insert d \<lparr>Denom = d, Amount = n\<rparr> (v1_PrepaidBadDebt s)\<rparr>"

definition v1_IncrementPrepaidBadDebt :: "denom \<Rightarrow> int \<Rightarrow> 'b v1_state \<Rightarrow> 'b v1_state \<times> int" where
  "v1_IncrementPrepaidBadDebt d amount s =
     (let newBadDebt = v1_prepaid s d + amount in (v1_setPrepaid d newBadDebt s, newBadDebt))"

definition v1_DecrementPrepaidBadDebt :: "denom \<Rightarrow> int \<Rightarrow> 'b v1_state \<Rightarrow> 'b v1_state \<times> int" where
  "v1_DecrementPrepaidBadDebt d amount s =
     (let newBadDebt = max (v1_prepaid s d - amount) 0 in (v1_setPrepaid d newBadDebt s, newBadDebt))"

definition v1_Withdraw :: "'b sdk \<Rightarrow> denom \<Rightarrow> addr \<Rightarrow> int \<Rightarrow> 'b v1_state \<Rightarrow> v1_error + 'b v1_state" where
  "v1_Withdraw E d receiver amountToWithdraw s =
     (if \<not> 0 < amountToWithdraw then Inr s
      else
      let vaultQuoteBalance = GetBalance E (v1_bank s) (GetModuleAddress E VaultModuleAccount) d in
      bindE (if vaultQuoteBalance < amountToWithdraw then
               let shortage = amountToWithdraw - vaultQuoteBalance;
                   s1 = fst (v1_IncrementPrepaidBadDebt d shortage s)
               in v1_sendM2M E PerpEFModuleAccount VaultModuleAccount d shortage s1
             else Inr s)
        (\<lambda>s2. v1_sendM2A E VaultModuleAccount receiver d amountToWithdraw s2))"

definition v1_realizeBadDebt :: "'b sdk \<Rightarrow> denom \<Rightarrow> int \<Rightarrow> 'b v1_state \<Rightarrow> v1_error + 'b v1_state" where
  "v1_realizeBadDebt E d badDebtToRealize s =
     (let prepaidBadDebtBalance = v1_prepaid s d in
      if badDebtToRealize \<le> prepaidBadDebtBalance
      then Inr (fst (v1_DecrementPrepaidBadDebt d badDebtToRealize s))
      else v1_sendM2M E PerpEFModuleAccount VaultModuleAccount d (badDebtToRealize - prepaidBadDebtBalance)
             (v1_setPrepaid d 0 s))"


section \<open>Swaps of the clearing house\<close>

definition v1_OnSwapEnd :: "pair \<Rightarrow> dec \<Rightarrow> dec \<Rightarrow> 'b v1_state \<Rightarrow> 'b v1_state" where
  "v1_OnSwapEnd p quoteAssetAmount baseAssetAmount s =
     (let x = (case kv_get (v1_Metrics s) p of
                 None \<Rightarrow> \<lparr>v1x_Pair = p, v1x_NetSize = 0, v1x_VolumeQuote = 0, v1x_VolumeBase = 0\<rparr>
               | Some x \<Rightarrow> x);
          x' = x\<lparr>v1x_NetSize := v1x_NetSize x + baseAssetAmount,
                 v1x_VolumeBase := v1x_VolumeBase x + \<bar>baseAssetAmount\<bar>,
                 v1x_VolumeQuote := v1x_VolumeQuote x + \<bar>quoteAssetAmount\<bar>\<rparr>
      in s\<lparr>v1_Metrics := kv_insert p x' (v1_Metrics s)\<rparr>)"

definition v1_swapQuoteForBase :: "'x sdk_dec_scheme \<Rightarrow> 'c oracle_state \<Rightarrow> block_ctx \<Rightarrow> v1_market \<Rightarrow> Direction \<Rightarrow>
    dec \<Rightarrow> dec \<Rightarrow> bool \<Rightarrow> 'b v1_state \<Rightarrow> v1_error + 'b v1_state \<times> v1_market \<times> dec" where
  "v1_swapQuoteForBase E os ctx m side quoteAssetAmount baseAssetLimit skipFluctuationLimitCheck s =
     (let quoteAssetDirection = (if side = LONG then LONG else SHORT) in
      bindE (v1_SwapQuoteForBase E os ctx m quoteAssetDirection quoteAssetAmount baseAssetLimit
          skipFluctuationLimitCheck s) (\<lambda>(s1, updatedMarket, amt).
      let baseAssetAmount = (if side = SHORT then - amt else amt)
      in Inr (v1_OnSwapEnd (v1_Pair m) quoteAssetAmount baseAssetAmount s1, updatedMarket, baseAssetAmount)))"

definition v1_swapBaseForQuote :: "'x sdk_dec_scheme \<Rightarrow> 'c oracle_state \<Rightarrow> block_ctx \<Rightarrow> v1_market \<Rightarrow> Direction \<Rightarrow>
    dec \<Rightarrow> dec \<Rightarrow> bool \<Rightarrow> 'b v1_state \<Rightarrow> v1_error + 'b v1_state \<times> v1_market \<times> dec" where
  "v1_swapBaseForQuote E os ctx m side baseAssetAmount quoteAssetLimit skipFluctuationLimitCheck s =
     (let baseAssetDirection = (if side = SHORT then LONG else SHORT) in
      bindE (v1_SwapBaseForQuote E os ctx m baseAssetDirection baseAssetAmount quoteAssetLimit
          skipFluctuationLimitCheck s) (\<lambda>(s1, updatedMarket, quoteAssetAmount).
      let baseAssetAmount' = (if side = SHORT then - baseAssetAmount else baseAssetAmount)
      in Inr (v1_OnSwapEnd (v1_Pair m) quoteAssetAmount baseAssetAmount' s1, updatedMarket, quoteAssetAmount)))"


section \<open>Position changes\<close>

definition v1_increasePosition :: "'b sdk \<Rightarrow> 'c oracle_state \<Rightarrow> block_ctx \<Rightarrow> v1_market \<Rightarrow> position \<Rightarrow> Direction \<Rightarrow>
    dec \<Rightarrow> dec \<Rightarrow> dec \<Rightarrow> 'b v1_state \<Rightarrow> v1_error + 'b v1_state \<times> v1_market \<times> position_resp" where
  "v1_increasePosition E os ctx m currentPosition side increasedNotional baseAmtLimit leverage s =
     bindE (v1_swapQuoteForBase E os ctx m side increasedNotional baseAmtLimit False s)
       (\<lambda>(s1, updatedMarket, exchangedPositionSize).
     bindE (v1_quoE E increasedNotional leverage) (\<lambda>increaseMarginRequirement.
     bindE (v1_CalcRemainMarginWithFundingPayment E s1 currentPosition increaseMarginRequirement) (\<lambda>remaining.
     bindE (v1_getPositionNotionalAndUnrealizedPnL E os ctx s1 updatedMarket currentPosition PNL_SPOT_PRICE)
       (\<lambda>(positionNotional, unrealizedPnL).
     Inr (s1, updatedMarket,
       \<lparr>resp_Position =
          \<lparr>TraderAddress = TraderAddress currentPosition,
           pos_Pair = pos_Pair currentPosition,
           Size = Size currentPosition + exchangedPositionSize,
           Margin = v1r_Margin remaining,
           OpenNotional = OpenNotional currentPosition + increasedNotional,
           pos_LatestCumulativePremiumFraction = v1r_LatestCumulativePremiumFraction remaining,
           LastUpdatedBlockNumber = BlockHeight ctx\<rparr>,
        ExchangedNotionalValue = increasedNotional,
        ExchangedPositionSize = exchangedPositionSize,
        BadDebt = v1r_BadDebt remaining,
        FundingPaymentApplied = v1r_FundingPayment remaining,
        RealizedPnl = 0,
        UnrealizedPnlAfter = unrealizedPnL,
        MarginToVault = increaseMarginRequirement,
        PositionNotional = positionNotional + increasedNotional\<rparr>)))))"

definition v1_decreasePosition :: "'b sdk \<Rightarrow> 'c oracle_state \<Rightarrow> block_ctx \<Rightarrow> v1_market \<Rightarrow> position \<Rightarrow>
    dec \<Rightarrow> dec \<Rightarrow> bool \<Rightarrow> 'b v1_state \<Rightarrow> v1_error + 'b v1_state \<times> v1_market \<times> position_resp" where
  "v1_decreasePosition E os ctx m currentPosition decreasedNotional baseAmtLimit skipFluctuationLimitCheck s =
     (if Size currentPosition = 0 then Inl (V1_Text ''current position size is zero, nothing to decrease'')
      else
     bindE (v1_getPositionNotionalAndUnrealizedPnL E os ctx s m currentPosition PNL_SPOT_PRICE)
       (\<lambda>(currentPositionNotional, currentUnrealizedPnL).
     let sideToTake = (if 0 < Size currentPosition then SHORT else LONG) in
     bindE (v1_swapQuoteForBase E os ctx m sideToTake decreasedNotional baseAmtLimit skipFluctuationLimitCheck s)
       (\<lambda>(s1, updatedMarket, exchangedPositionSize).
     let realizedPnl = dec_Mul E currentUnrealizedPnL
           (dec_Quo E \<bar>exchangedPositionSize\<bar> \<bar>Size currentPosition\<bar>)
     in
     bindE (v1_CalcRemainMarginWithFundingPayment E s1 currentPosition realizedPnl) (\<lambda>remaining.
     let unrealizedPnlAfter = currentUnrealizedPnL - realizedPnl;
         positionNotional = currentPositionNotional - decreasedNotional;
         remainOpenNotional =
           (if 0 < Size currentPosition then positionNotional - unrealizedPnlAfter
            else positionNotional + unrealizedPnlAfter)
     in if remainOpenNotional < 0 then Inl (V1_Text ''value of open notional < 0'')
        else Inr (s1, updatedMarket,
          \<lparr>resp_Position =
             \<lparr>TraderAddress = TraderAddress currentPosition,
              pos_Pair = pos_Pair currentPosition,
              Size = Size currentPosition + exchangedPositionSize,
              Margin = v1r_Margin remaining,
              OpenNotional = remainOpenNotional,
              pos_LatestCumulativePremiumFraction = v1r_LatestCumulativePremiumFraction remaining,
              LastUpdatedBlockNumber = BlockHeight ctx\<rparr>,
           ExchangedNotionalValue = decreasedNotional,
           ExchangedPositionSize = exchangedPositionSize,
           BadDebt = v1r_BadDebt remaining,
           FundingPaymentApplied = v1r_FundingPayment remaining,
           RealizedPnl = realizedPnl,
           UnrealizedPnlAfter = unrealizedPnlAfter,
           MarginToVault = 0,
           PositionNotional = positionNotional\<rparr>)))))"

definition v1_closePositionEntirely :: "'b sdk \<Rightarrow> 'c oracle_state \<Rightarrow> block_ctx \<Rightarrow> v1_market \<Rightarrow> position \<Rightarrow>
    dec \<Rightarrow> bool \<Rightarrow> 'b v1_state \<Rightarrow> v1_error + 'b v1_state \<times> v1_market \<times> position_resp" where
  "v1_closePositionEntirely E os ctx m currentPosition quoteAssetAmountLimit skipFluctuationLimitCheck s =
     (if Size currentPosition = 0 then Inl (V1_Text ''zero position size'')
      else
     bindE (getE V1_Bech32 (AccAddressFromBech32 E (TraderAddress currentPosition))) (\<lambda>trader.
     bindE (v1_getPositionNotionalAndUnrealizedPnL E os ctx s m currentPosition PNL_SPOT_PRICE)
       (\<lambda>(_, unrealizedPnL).
     bindE (v1_CalcRemainMarginWithFundingPayment E s currentPosition unrealizedPnL) (\<lambda>remaining.
     let sideToTake = (if 0 < Size currentPosition then SHORT else LONG) in
     bindE (v1_swapBaseForQuote E os ctx m sideToTake \<bar>Size currentPosition\<bar> quoteAssetAmountLimit
         skipFluctuationLimitCheck s) (\<lambda>(s1, updatedMarket, exchangedNotionalValue).
     bindE (checkE (kv_get (v1_Positions s1) (pos_Pair currentPosition, trader) \<noteq> None) V1_NotFound) (\<lambda>_.
     Inr (s1\<lparr>v1_Positions := kv_delete (pos_Pair currentPosition, trader) (v1_Positions s1)\<rparr>, updatedMarket,
       \<lparr>resp_Position =
          \<lparr>TraderAddress = TraderAddress currentPosition,
           pos_Pair = pos_Pair currentPosition,
           Size = 0,
           Margin = 0,
           OpenNotional = 0,
           pos_LatestCumulativePremiumFraction = v1r_LatestCumulativePremiumFraction remaining,
           LastUpdatedBlockNumber = BlockHeight ctx\<rparr>,
        ExchangedNotionalValue = exchangedNotionalValue,
        ExchangedPositionSize = - Size currentPosition,
        BadDebt = v1r_BadDebt remaining,
        FundingPaymentApplied = v1r_FundingPayment remaining,
        RealizedPnl = unrealizedPnL,
        UnrealizedPnlAfter = 0,
        MarginToVault = - v1r_Margin remaining,
        PositionNotional = 0\<rparr>)))))))"

definition v1_closeAndOpenReversePosition :: "'b sdk \<Rightarrow> 'c oracle_state \<Rightarrow> block_ctx \<Rightarrow> v1_market \<Rightarrow> position \<Rightarrow>
    dec \<Rightarrow> dec \<Rightarrow> dec \<Rightarrow> 'b v1_state \<Rightarrow> v1_error + 'b v1_state \<times> v1_market \<times> position_resp" where
  "v1_closeAndOpenReversePosition E os ctx m existingPosition quoteAssetAmount leverage baseAmtLimit s =
     bindE (getE V1_Bech32 (AccAddressFromBech32 E (TraderAddress existingPosition))) (\<lambda>trader.
     bindE (v1_closePositionEntirely E os ctx m existingPosition 0 False s) (\<lambda>(s1, market1, closeResp).
     if 0 < BadDebt closeResp then Inl (V1_Text ''underwater position'')
     else
     let reverseNotionalValue = dec_Mul E leverage quoteAssetAmount;
         remainingReverseNotionalValue = reverseNotionalValue - ExchangedNotionalValue closeResp
     in
     if remainingReverseNotionalValue < 0 then
       Inl (V1_Text ''provided quote asset amount and leverage not large enough to close position'')
     else if 0 < remainingReverseNotionalValue then
       let updatedBaseAmtLimit =
             (if 0 < baseAmtLimit then baseAmtLimit - \<bar>ExchangedPositionSize closeResp\<bar> else baseAmtLimit)
       in
       if updatedBaseAmtLimit < 0 then
         Inl (V1_Text ''position size changed by greater than the specified base limit'')
       else
         let sideToTake = (if 0 < Size existingPosition then SHORT else LONG);
             newPosition = ZeroPosition E ctx (pos_Pair existingPosition) trader
         in
         bindE (v1_increasePosition E os ctx market1 newPosition sideToTake remainingReverseNotionalValue
             updatedBaseAmtLimit leverage s1) (\<lambda>(s2, market2, incResp).
           Inr (s2, market2,
             \<lparr>resp_Position = resp_Position incResp,
              ExchangedNotionalValue = ExchangedNotionalValue closeResp + ExchangedNotionalValue incResp,
              ExchangedPositionSize = ExchangedPositionSize closeResp + ExchangedPositionSize incResp,
              BadDebt = BadDebt closeResp + BadDebt incResp,
              FundingPaymentApplied = FundingPaymentApplied closeResp + FundingPaymentApplied incResp,
              RealizedPnl = RealizedPnl closeResp + RealizedPnl incResp,
              UnrealizedPnlAfter = 0,
              MarginToVault = MarginToVault closeResp + MarginToVault incResp,
              PositionNotional = PositionNotional incResp\<rparr>))
     else Inr (s1, market1, closeResp)))"

definition v1_openReversePosition :: "'b sdk \<Rightarrow> 'c oracle_state \<Rightarrow> block_ctx \<Rightarrow> v1_market \<Rightarrow> position \<Rightarrow>
    dec \<Rightarrow> dec \<Rightarrow> dec \<Rightarrow> 'b v1_state \<Rightarrow> v1_error + 'b v1_state \<times> v1_market \<times> position_resp" where
  "v1_openReversePosition E os ctx m currentPosition quoteAssetAmount leverage baseAmtLimit s =
     (let notionalToDecreaseBy = dec_Mul E leverage quoteAssetAmount in
      bindE (v1_getPositionNotionalAndUnrealizedPnL E os ctx s m currentPosition PNL_SPOT_PRICE)
        (\<lambda>(currentPositionNotional, _).
        if notionalToDecreaseBy < currentPositionNotional
        then v1_decreasePosition E os ctx m currentPosition notionalToDecreaseBy baseAmtLimit False s
        else v1_closeAndOpenReversePosition E os ctx m currentPosition quoteAssetAmount leverage baseAmtLimit s))"


section \<open>Checks and settlement\<close>

definition v1_checkOpenPositionRequirements :: "v1_market \<Rightarrow> int \<Rightarrow> dec \<Rightarrow> v1_error + unit" where
  "v1_checkOpenPositionRequirements m quoteAssetAmount leverage =
     (if quoteAssetAmount = 0 then Inl V1_QuoteAmountIsZero
      else if quoteAssetAmount < 1000000 then Inl V1_QuoteAmountIsTooSmall
      else if leverage = 0 then Inl V1_LeverageIsZero
      else if v1_MaxLeverage (v1_Config m) < leverage then Inl V1_LeverageIsTooHigh
      else Inr ())"

definition v1_transferFee :: "'b sdk \<Rightarrow> pair \<Rightarrow> addr \<Rightarrow> dec \<Rightarrow> 'b v1_state \<Rightarrow> v1_error + 'b v1_state \<times> int" where
  "v1_transferFee E p trader positionNotional s =
     (let feeToFeePool = dec_RoundInt E (dec_Mul E (v1_FeePoolFeeRatio (v1_Params s)) positionNotional);
          feeToEcosystemFund = dec_RoundInt E (dec_Mul E (v1_EcosystemFundFeeRatio (v1_Params s)) positionNotional)
      in
      bindE (if 0 < feeToFeePool
             then bindE (v1_quoteDenomE p) (\<lambda>d. v1_sendA2M E trader FeePoolModuleAccount d feeToFeePool s)
             else Inr s) (\<lambda>s1.
      bindE (if 0 < feeToEcosystemFund
             then bindE (v1_quoteDenomE p) (\<lambda>d. v1_sendA2M E trader PerpEFModuleAccount d feeToEcosystemFund s1)
             else Inr s1) (\<lambda>s2.
      Inr (s2, feeToFeePool + feeToEcosystemFund))))"

definition v1_settleMargin :: "'b sdk \<Rightarrow> pair \<Rightarrow> addr \<Rightarrow> int \<Rightarrow> 'b v1_state \<Rightarrow> v1_error + 'b v1_state" where
  "v1_settleMargin E p traderAddr marginToVault s =
     (if 0 < marginToVault then
        bindE (v1_quoteDenomE p) (\<lambda>d. v1_sendA2M E traderAddr VaultModuleAccount d marginToVault s)
      else if marginToVault < 0 then
        bindE (v1_quoteDenomE p) (\<lambda>d. v1_Withdraw E d traderAddr \<bar>marginToVault\<bar> s)
      else Inr s)"

definition v1_checkMarginRatio :: "'b sdk \<Rightarrow> 'c oracle_state \<Rightarrow> block_ctx \<Rightarrow> 'b v1_state \<Rightarrow> v1_market \<Rightarrow> position \<Rightarrow>
    v1_error + unit" where
  "v1_checkMarginRatio E os ctx s m p =
     (if Size p \<noteq> 0 then
        bindE (v1_GetMarginRatio E os ctx s m p MARGIN_MAX_PNL) (\<lambda>marginRatio.
        mapErr (\<lambda>_. V1_MarginRatioTooLow)
          (v1_validateMarginRatio marginRatio (v1_MaintenanceMarginRatio (v1_Config m)) True))
      else Inr ())"

definition v1_positionChanged :: "'b sdk \<Rightarrow> block_ctx \<Rightarrow> pair \<Rightarrow> addr \<Rightarrow> position_resp \<Rightarrow> int \<Rightarrow> dec \<Rightarrow>
    v1_error + v1_event" where
  "v1_positionChanged E ctx p traderAddr r transferredFee markPrice =
     (let pos = resp_Position r;
          positionNotional =
            (if 0 < Size pos then OpenNotional pos + UnrealizedPnlAfter r
             else if Size pos < 0 then OpenNotional pos - UnrealizedPnlAfter r
             else 0)
      in
      bindE (v1_quoteDenomE p) (\<lambda>d.
      bindE (v1_newCoinE E d (dec_RoundInt E (Margin pos))) (\<lambda>margin.
      bindE (v1_newCoinE E d transferredFee) (\<lambda>fee.
      bindE (v1_newCoinE E d (dec_RoundInt E (BadDebt r))) (\<lambda>badDebt.
      Inr (V1_PositionChangedEvent
        \<lparr>pce_TraderAddress = AccAddressString E traderAddr, pce_Pair = p, pce_Margin = margin,
         pce_PositionNotional = positionNotional, pce_ExchangedNotional = ExchangedNotionalValue r,
         pce_ExchangedSize = ExchangedPositionSize r, pce_TransactionFee = fee, pce_PositionSize = Size pos,
         pce_RealizedPnl = RealizedPnl r, pce_UnrealizedPnlAfter = UnrealizedPnlAfter r,
         pce_BadDebt = badDebt, pce_FundingPayment = FundingPaymentApplied r,
         pce_BlockHeight = BlockHeight ctx, pce_BlockTimeMs = UnixMilli (BlockTime ctx)\<rparr> markPrice))))))"

text \<open>The position is written before the checks; a check that fails discards the write.\<close>

definition v1_afterPositionUpdate :: "'b sdk \<Rightarrow> 'c oracle_state \<Rightarrow> block_ctx \<Rightarrow> v1_market \<Rightarrow> addr \<Rightarrow>
    position_resp \<Rightarrow> 'b v1_state \<Rightarrow> v1_error + 'b v1_state" where
  "v1_afterPositionUpdate E os ctx m traderAddr r s =
     (let p = v1_Pair m;
          s1 = (if Size (resp_Position r) \<noteq> 0
                then s\<lparr>v1_Positions := kv_insert (p, traderAddr) (resp_Position r) (v1_Positions s)\<rparr>
                else s)
      in
      if BadDebt r \<noteq> 0 then Inl (V1_Text ''bad debt must be zero to prevent attacker from leveraging it'')
      else
      bindE (v1_checkMarginRatio E os ctx s1 m (resp_Position r)) (\<lambda>_.
      bindE (v1_settleMargin E p traderAddr (dec_RoundInt E (MarginToVault r)) s1) (\<lambda>s2.
      bindE (v1_transferFee E p traderAddr (ExchangedNotionalValue r) s2) (\<lambda>(s3, transferredFee).
      bindE (v1k_GetMarkPrice E s3 p) (\<lambda>markPrice.
      bindE (v1_positionChanged E ctx p traderAddr r transferredFee markPrice) (\<lambda>ev.
      Inr (v1_emit ev s3)))))))"


section \<open>Entry points\<close>

definition v1_OpenPosition :: "'b sdk \<Rightarrow> 'c oracle_state \<Rightarrow> block_ctx \<Rightarrow> pair \<Rightarrow> Direction \<Rightarrow> addr \<Rightarrow> int \<Rightarrow> dec \<Rightarrow>
    dec \<Rightarrow> 'b v1_state \<Rightarrow> v1_error + 'b v1_state \<times> position_resp" where
  "v1_OpenPosition E os ctx p side traderAddr quoteAssetAmount leverage baseAmtLimit s =
     bindE (mapErr (\<lambda>_. V1_PairNotFound) (v1_GetPool s p)) (\<lambda>m.
     bindE (v1_checkOpenPositionRequirements m quoteAssetAmount leverage) (\<lambda>_.
     let found = kv_get (v1_Positions s) (p, traderAddr);
         isNewPosition = (found = None);
         pos = (case found of None \<Rightarrow> ZeroPosition E ctx p traderAddr | Some q \<Rightarrow> q);
         sameSideLong = (0 < Size pos \<and> side = LONG);
         sameSideShort = (Size pos < 0 \<and> side = SHORT);
         openSideMatchesPosition = (sameSideLong \<or> sameSideShort)
     in
     bindE
       (if isNewPosition \<or> openSideMatchesPosition
        then v1_increasePosition E os ctx m pos side (leverage * quoteAssetAmount) baseAmtLimit leverage s
        else v1_openReversePosition E os ctx m pos (NewDec quoteAssetAmount) leverage baseAmtLimit s)
       (\<lambda>(s1, updatedMarket, positionResp).
     bindE (v1_afterPositionUpdate E os ctx updatedMarket traderAddr positionResp s1) (\<lambda>s2.
     Inr (s2, positionResp)))))"

definition v1_ClosePosition :: "'b sdk \<Rightarrow> 'c oracle_state \<Rightarrow> block_ctx \<Rightarrow> pair \<Rightarrow> addr \<Rightarrow> 'b v1_state \<Rightarrow>
    v1_error + 'b v1_state \<times> position_resp" where
  "v1_ClosePosition E os ctx p traderAddr s =
     bindE (getE V1_NotFound (kv_get (v1_Positions s) (p, traderAddr))) (\<lambda>pos.
     bindE (mapErr (\<lambda>_. V1_PairNotFound) (v1_GetPool s p)) (\<lambda>m.
     bindE (v1_closePositionEntirely E os ctx m pos 0 False s) (\<lambda>(s1, updatedMarket, positionResp).
     if 0 < BadDebt positionResp then Inl (V1_Text ''underwater position'')
     else
     bindE (v1_afterPositionUpdate E os ctx updatedMarket traderAddr positionResp s1) (\<lambda>s2.
     Inr (s2, positionResp)))))"

text \<open>The event of a change of margin: nothing is exchanged and there is no fee.\<close>

definition v1_marginChanged :: "'b sdk \<Rightarrow> block_ctx \<Rightarrow> pair \<Rightarrow> addr \<Rightarrow> position \<Rightarrow> dec \<Rightarrow> dec \<Rightarrow>
    v1_remaining \<Rightarrow> dec \<Rightarrow> v1_error + v1_event" where
  "v1_marginChanged E ctx p traderAddr pos positionNotional unrealizedPnl remaining markPrice =
     bindE (v1_quoteDenomE p) (\<lambda>d.
     bindE (v1_newCoinE E d (dec_RoundInt E (Margin pos))) (\<lambda>margin.
     bindE (v1_newCoinE E d 0) (\<lambda>fee.
     bindE (v1_newCoinE E d (dec_RoundInt E (v1r_BadDebt remaining))) (\<lambda>badDebt.
     Inr (V1_PositionChangedEvent
       \<lparr>pce_TraderAddress = AccAddressString E traderAddr, pce_Pair = p, pce_Margin = margin,
        pce_PositionNotional = positionNotional, pce_ExchangedNotional = 0, pce_ExchangedSize = 0,
        pce_TransactionFee = fee, pce_PositionSize = Size pos, pce_RealizedPnl = 0,
        pce_UnrealizedPnlAfter = unrealizedPnl, pce_BadDebt = badDebt,
        pce_FundingPayment = v1r_FundingPayment remaining, pce_BlockHeight = BlockHeight ctx,
        pce_BlockTimeMs = UnixMilli (BlockTime ctx)\<rparr> markPrice)))))"

text \<open>The position with its margin and its funding brought up to date.\<close>

definition v1_withMargin :: "block_ctx \<Rightarrow> v1_remaining \<Rightarrow> position \<Rightarrow> position" where
  "v1_withMargin ctx remaining pos =
     pos\<lparr>Margin := v1r_Margin remaining,
         pos_LatestCumulativePremiumFraction := v1r_LatestCumulativePremiumFraction remaining,
         LastUpdatedBlockNumber := BlockHeight ctx\<rparr>"

definition v1_AddMargin :: "'b sdk \<Rightarrow> 'c oracle_state \<Rightarrow> block_ctx \<Rightarrow> pair \<Rightarrow> addr \<Rightarrow> coin \<Rightarrow> 'b v1_state \<Rightarrow>
    v1_error + 'b v1_state \<times> dec \<times> position" where
  "v1_AddMargin E os ctx p traderAddr marginCoin s =
     bindE (mapErr (\<lambda>_. V1_PairNotFound) (v1_GetPool s p)) (\<lambda>m.
     bindE (getE V1_NotFound (kv_get (v1_Positions s) (p, traderAddr))) (\<lambda>pos.
     bindE (v1_CalcRemainMarginWithFundingPayment E s pos (NewDec (Amount marginCoin))) (\<lambda>remaining.
     if v1r_BadDebt remaining \<noteq> 0 then
       Inl (V1_Text ''failed to add margin; position has bad debt; consider adding more margin'')
     else
     bindE (v1_sendA2M E traderAddr VaultModuleAccount (Denom marginCoin) (Amount marginCoin) s) (\<lambda>s1.
     let pos' = v1_withMargin ctx remaining pos;
         s2 = s1\<lparr>v1_Positions := kv_insert (pos_Pair pos', traderAddr) pos' (v1_Positions s1)\<rparr>
     in
     bindE (v1_getPositionNotionalAndUnrealizedPnL E os ctx s2 m pos' PNL_SPOT_PRICE)
       (\<lambda>(positionNotional, unrealizedPnl).
     bindE (v1k_GetMarkPrice E s2 p) (\<lambda>markPrice.
     bindE (v1_marginChanged E ctx p traderAddr pos' positionNotional unrealizedPnl remaining markPrice) (\<lambda>ev.
     Inr (v1_emit ev s2, v1r_FundingPayment remaining, pos'))))))))"

definition v1_RemoveMargin :: "'b sdk \<Rightarrow> 'c oracle_state \<Rightarrow> block_ctx \<Rightarrow> pair \<Rightarrow> addr \<Rightarrow> coin \<Rightarrow> 'b v1_state \<Rightarrow>
    v1_error + 'b v1_state \<times> coin \<times> dec \<times> position" where
  "v1_RemoveMargin E os ctx p traderAddr marginCoin s =
     bindE (mapErr (\<lambda>_. V1_PairNotFound) (v1_GetPool s p)) (\<lambda>m.
     bindE (getE V1_NotFound (kv_get (v1_Positions s) (p, traderAddr))) (\<lambda>pos.
     bindE (v1_CalcRemainMarginWithFundingPayment E s pos (NewDec (- Amount marginCoin))) (\<lambda>remaining.
     if v1r_BadDebt remaining \<noteq> 0 then Inl V1_FailedRemoveMarginCanCauseBadDebt
     else
     let pos' = v1_withMargin ctx remaining pos in
     bindE (v1_calcFreeCollateral E os ctx s m pos') (\<lambda>freeCollateral.
     if \<not> 0 < freeCollateral then Inl (V1_Text ''not enough free collateral'')
     else
     let s1 = s\<lparr>v1_Positions := kv_insert (pos_Pair pos', traderAddr) pos' (v1_Positions s)\<rparr> in
     bindE (v1_getPositionNotionalAndUnrealizedPnL E os ctx s1 m pos' PNL_SPOT_PRICE)
       (\<lambda>(positionNotional, unrealizedPnl).
     bindE (v1k_GetMarkPrice E s1 p) (\<lambda>markPrice.
     bindE (v1_quoteDenomE p) (\<lambda>d.
     bindE (v1_Withdraw E d traderAddr (Amount marginCoin) s1) (\<lambda>s2.
     bindE (v1_marginChanged E ctx p traderAddr pos' positionNotional unrealizedPnl remaining markPrice) (\<lambda>ev.
     Inr (v1_emit ev s2, marginCoin, v1r_FundingPayment remaining, pos'))))))))))"

end
