(* ===== verification/V1_Liquidate.thy ===== *)
theory V1_Liquidate
  imports V1_Keeper Epochs Perp_Liquidate
begin

text \<open>
  Liquidations of the first version (\<^verbatim>\<open>x/perp/keeper/v1/liquidate.go\<close>), the changes of a market paid
  for by the ecosystem fund (\<^verbatim>\<open>amm.go\<close>), the funding payments at the end of an epoch (\<^verbatim>\<open>hooks.go\<close>), the
  settlement of a position (\<^verbatim>\<open>perp.go\<close>) and the migration of the totals (\<^verbatim>\<open>migrations.go\<close>).
\<close>

section \<open>Liquidations\<close>

definition v1_LiquidateResp_Validate :: "'b sdk \<Rightarrow> liquidate_resp \<Rightarrow> v1_error + unit" where
  "v1_LiquidateResp_Validate E l =
     bindE (getE V1_Bech32 (AccAddressFromBech32 E (lr_Liquidator l))) (\<lambda>_. Inr ())"

definition v1_distributeLiquidateRewards ::
    "'b sdk \<Rightarrow> liquidate_resp \<Rightarrow> 'b v1_state \<Rightarrow> v1_error + 'b v1_state" where
  "v1_distributeLiquidateRewards E r s =
     bindE (v1_LiquidateResp_Validate E r) (\<lambda>_.
     bindE (getE V1_Bech32 (AccAddressFromBech32 E (lr_Liquidator r))) (\<lambda>liquidator.
     let p = pos_Pair (resp_Position (lr_PositionResp r)) in
     bindE (v1_requireMarket s p) (\<lambda>_.
     bindE (if 0 < FeeToPerpEcosystemFund r
            then bindE (v1_quoteDenomE p) (\<lambda>d.
              v1_sendM2M E VaultModuleAccount PerpEFModuleAccount d (FeeToPerpEcosystemFund r) s)
            else Inr s) (\<lambda>s1.
     if 0 < FeeToLiquidator r
     then bindE (v1_quoteDenomE p) (\<lambda>d. v1_Withdraw E d liquidator (FeeToLiquidator r) s1)
     else Inr s1))))"

definition v1_positionLiquidated :: "'b sdk \<Rightarrow> block_ctx \<Rightarrow> pair \<Rightarrow> addr \<Rightarrow> addr \<Rightarrow> liquidate_resp \<Rightarrow> dec \<Rightarrow>
    v1_error + v1_event" where
  "v1_positionLiquidated E ctx p trader liquidator r markPrice =
     bindE (v1_quoteDenomE p) (\<lambda>d.
     bindE (v1_newCoinE E d (FeeToLiquidator r)) (\<lambda>feeToLiquidator.
     bindE (v1_newCoinE E d (FeeToPerpEcosystemFund r)) (\<lambda>feeToEcosystemFund.
     bindE (v1_newCoinE E d (lr_BadDebt r)) (\<lambda>badDebt.
     bindE (v1_newCoinE E d (dec_RoundInt E (Margin (resp_Position (lr_PositionResp r))))) (\<lambda>margin.
     Inr (V1_PositionLiquidatedEvent
       \<lparr>ple_Pair = p, ple_TraderAddress = AccAddressString E trader,
        ple_ExchangedQuoteAmount = ExchangedNotionalValue (lr_PositionResp r),
        ple_ExchangedPositionSize = ExchangedPositionSize (lr_PositionResp r),
        ple_LiquidatorAddress = AccAddressString E liquidator,
        ple_FeeToLiquidator = feeToLiquidator, ple_FeeToEcosystemFund = feeToEcosystemFund,
        ple_BadDebt = badDebt, ple_Margin = margin,
        ple_PositionNotional = PositionNotional (lr_PositionResp r),
        ple_PositionSize = Size (resp_Position (lr_PositionResp r)),
        ple_UnrealizedPnl = UnrealizedPnlAfter (lr_PositionResp r), ple_MarkPrice = markPrice,
        ple_BlockHeight = BlockHeight ctx, ple_BlockTimeMs = UnixMilli (BlockTime ctx)\<rparr>))))))"

definition v1_ExecuteFullLiquidation :: "'b sdk \<Rightarrow> 'c oracle_state \<Rightarrow> block_ctx \<Rightarrow> addr \<Rightarrow> position \<Rightarrow>
    'b v1_state \<Rightarrow> v1_error + 'b v1_state \<times> liquidate_resp" where
  "v1_ExecuteFullLiquidation E os ctx liquidator pos s =
     bindE (mapErr (\<lambda>_. V1_PairNotFound) (v1_GetPool s (pos_Pair pos))) (\<lambda>m.
     bindE (getE V1_Bech32 (AccAddressFromBech32 E (TraderAddress pos))) (\<lambda>traderAddr.
     bindE (v1_closePositionEntirely E os ctx m pos 0 True s) (\<lambda>(s1, _, positionResp).
     let remainMargin0 = \<bar>MarginToVault positionResp\<bar>;
         feeToLiquidator = dec_QuoInt64 E
           (dec_Mul E (v1_LiquidationFeeRatio (v1_Params s)) (ExchangedNotionalValue positionResp)) 2;
         short = remainMargin0 < feeToLiquidator;
         totalBadDebt = (if short then BadDebt positionResp + (feeToLiquidator - remainMargin0)
                         else BadDebt positionResp);
         remainMargin = (if short then 0 else remainMargin0 - feeToLiquidator)
     in
     bindE (if 0 < totalBadDebt
            then bindE (v1_quoteDenomE (pos_Pair pos)) (\<lambda>d.
              v1_realizeBadDebt E d (dec_RoundInt E totalBadDebt) s1)
            else Inr s1) (\<lambda>s2.
     let feeToPerpEcosystemFund = (if 0 < remainMargin then remainMargin else 0);
         liquidationResp =
           \<lparr>lr_BadDebt = dec_RoundInt E totalBadDebt,
            FeeToLiquidator = dec_RoundInt E feeToLiquidator,
            FeeToPerpEcosystemFund = dec_RoundInt E feeToPerpEcosystemFund,
            lr_Liquidator = AccAddressString E liquidator,
            lr_PositionResp = positionResp\<rparr>
     in
     bindE (v1_distributeLiquidateRewards E liquidationResp s2) (\<lambda>s3.
     bindE (v1k_GetMarkPrice E s3 (pos_Pair pos)) (\<lambda>markPrice.
     bindE (v1_positionLiquidated E ctx (pos_Pair pos) traderAddr liquidator liquidationResp markPrice) (\<lambda>ev.
     Inr (v1_emit ev s3, liquidationResp))))))))"

text \<open>The size is passed with its sign, although the argument is named an absolute value: for a short
  the two signs cancel and the base is added to the pool.\<close>

definition v1_ExecutePartialLiquidation :: "'b sdk \<Rightarrow> 'c oracle_state \<Rightarrow> block_ctx \<Rightarrow> addr \<Rightarrow> position \<Rightarrow>
    'b v1_state \<Rightarrow> v1_error + 'b v1_state \<times> liquidate_resp" where
  "v1_ExecutePartialLiquidation E os ctx liquidator pos s =
     bindE (mapErr (\<lambda>_. V1_PairNotFound) (v1_GetPool s (pos_Pair pos))) (\<lambda>m.
     bindE (getE V1_Bech32 (AccAddressFromBech32 E (TraderAddress pos))) (\<lambda>traderAddr.
     let baseAssetDir = (if 0 < Size pos then LONG else SHORT) in
     bindE (v1_GetBaseAssetPrice E m baseAssetDir
         (dec_Mul E (Size pos) (v1_PartialLiquidationRatio (v1_Params s)))) (\<lambda>partialNotional.
     bindE (v1_decreasePosition E os ctx m pos partialNotional 0 True s) (\<lambda>(s1, _, resp0).
     let liquidationFeeAmount = dec_Mul E (ExchangedNotionalValue resp0) (v1_LiquidationFeeRatio (v1_Params s));
         pos' = (resp_Position resp0)\<lparr>Margin := Margin (resp_Position resp0) - liquidationFeeAmount\<rparr>;
         positionResp = resp0\<lparr>resp_Position := pos'\<rparr>;
         s2 = s1\<lparr>v1_Positions := kv_insert (pos_Pair pos', traderAddr) pos' (v1_Positions s1)\<rparr>;
         feeToLiquidator = dec_QuoInt64 E liquidationFeeAmount 2;
         feeToPerpEcosystemFund = liquidationFeeAmount - feeToLiquidator;
         liquidationResp =
           \<lparr>lr_BadDebt = 0,
            FeeToLiquidator = dec_RoundInt E feeToLiquidator,
            FeeToPerpEcosystemFund = dec_RoundInt E feeToPerpEcosystemFund,
            lr_Liquidator = AccAddressString E liquidator,
            lr_PositionResp = positionResp\<rparr>
     in
     bindE (v1_distributeLiquidateRewards E liquidationResp s2) (\<lambda>s3.
     bindE (v1k_GetMarkPrice E s3 (pos_Pair pos)) (\<lambda>markPrice.
     bindE (v1_positionLiquidated E ctx (pos_Pair pos) traderAddr liquidator liquidationResp markPrice) (\<lambda>ev.
     Inr (v1_emit ev s3, liquidationResp))))))))"

definition v1_withEvents :: "v1_event list \<Rightarrow> v1_error + 'a \<Rightarrow> (v1_event list \<times> v1_error) + 'a" where
  "v1_withEvents evs = mapErr (\<lambda>e. (evs, e))"

definition v1_liquidationFailed ::
    "'b sdk \<Rightarrow> addr \<Rightarrow> pair \<Rightarrow> addr \<Rightarrow> liquidation_failed_reason \<Rightarrow> v1_event list" where
  "v1_liquidationFailed E liquidator p trader reason =
     [V1_LiquidationFailedEvent p (AccAddressString E trader) (AccAddressString E liquidator) reason]"

text \<open>A failed liquidation returns its error with the events it emitted.\<close>

definition v1_liquidationRatio :: "'b sdk \<Rightarrow> 'c oracle_state \<Rightarrow> block_ctx \<Rightarrow> v1_market \<Rightarrow> position \<Rightarrow> pair \<Rightarrow>
    'b v1_state \<Rightarrow> v1_error + dec" where
  "v1_liquidationRatio E os ctx m pos p s =
     bindE (v1_GetMarginRatio E os ctx s m pos MARGIN_MAX_PNL) (\<lambda>marginRatio.
     bindE (v1_IsOverSpreadLimit E os s p) (\<lambda>isOverSpreadLimit.
     if isOverSpreadLimit
     then bindE (v1_GetMarginRatio E os ctx s m pos MARGIN_INDEX) (\<lambda>basedOnOracle.
       Inr (max marginRatio basedOnOracle))
     else Inr marginRatio))"

definition v1_Liquidate :: "'b sdk \<Rightarrow> 'c oracle_state \<Rightarrow> block_ctx \<Rightarrow> addr \<Rightarrow> pair \<Rightarrow> addr \<Rightarrow> 'b v1_state \<Rightarrow>
    (v1_event list \<times> v1_error) + 'b v1_state \<times> coin \<times> coin" where
  "v1_Liquidate E os ctx liquidator p trader s =
     bindE (v1_withEvents [] (mapErr (\<lambda>_. V1_PairNotFound) (v1_GetPool s p))) (\<lambda>m.
     bindE (v1_withEvents (v1_liquidationFailed E liquidator p trader NONEXISTENT_POSITION)
       (getE V1_NotFound (kv_get (v1_Positions s) (p, trader)))) (\<lambda>pos.
     bindE (v1_withEvents [] (v1_liquidationRatio E os ctx m pos p s)) (\<lambda>marginRatio.
     bindE (v1_withEvents [] (v1_GetMaintenanceMarginRatio s p)) (\<lambda>maintenanceMarginRatio.
     bindE (v1_withEvents (v1_liquidationFailed E liquidator p trader POSITION_HEALTHY)
       (v1_validateMarginRatio marginRatio maintenanceMarginRatio False)) (\<lambda>_.
     bindE (v1_withEvents [] (v1_GetMarginRatio E os ctx s m pos MARGIN_SPOT)) (\<lambda>marginRatioBasedOnSpot.
     bindE (v1_withEvents []
       (if v1_LiquidationFeeRatio (v1_Params s) \<le> marginRatioBasedOnSpot
        then v1_ExecutePartialLiquidation E os ctx liquidator pos s
        else v1_ExecuteFullLiquidation E os ctx liquidator pos s)) (\<lambda>(s1, resp).
     bindE (v1_withEvents [] (v1_quoteDenomE p)) (\<lambda>d.
     bindE (v1_withEvents [] (v1_newCoinE E d (FeeToLiquidator resp))) (\<lambda>liquidatorFee.
     bindE (v1_withEvents [] (v1_newCoinE E d (FeeToPerpEcosystemFund resp))) (\<lambda>perpEcosystemFundFee.
     Inr (s1, liquidatorFee, perpEcosystemFundFee)))))))))))"

definition v1_isWhitelistedLiquidator :: "'b sdk \<Rightarrow> 'b v1_state \<Rightarrow> addr \<Rightarrow> bool" where
  "v1_isWhitelistedLiquidator E s a \<longleftrightarrow>
     list_ex (\<lambda>whitelisted. AccAddressString E a = whitelisted) (v1_WhitelistedLiquidators (v1_Params s))"

datatype v1_liquidation_response = V1_LiqFailed v1_error | V1_LiqDone coin coin

fun v1_isDone :: "v1_liquidation_response \<Rightarrow> bool" where
  "v1_isDone (V1_LiqDone _ _) = True"
| "v1_isDone (V1_LiqFailed _) = False"

fun v1_MultiLiquidate_loop :: "'b sdk \<Rightarrow> 'c oracle_state \<Rightarrow> block_ctx \<Rightarrow> addr \<Rightarrow> liquidation_request list \<Rightarrow>
    'b v1_state \<Rightarrow> v1_error + 'b v1_state \<times> v1_liquidation_response list" where
  "v1_MultiLiquidate_loop E os ctx liquidator [] s = Inr (s, [])"
| "v1_MultiLiquidate_loop E os ctx liquidator ((p, traderStr) # reqs) s =
     bindE (getE (V1_Panic ''invalid address'') (AccAddressFromBech32 E traderStr)) (\<lambda>traderAddr.
     case v1_Liquidate E os ctx liquidator p traderAddr (s\<lparr>v1_events := []\<rparr>) of
       Inl (_, e) \<Rightarrow>
         if v1_isPanic e then Inl e
         else bindE (v1_MultiLiquidate_loop E os ctx liquidator reqs s) (\<lambda>(s', resps).
           Inr (s', V1_LiqFailed e # resps))
     | Inr (cached, liquidatorFee, perpEfFee) \<Rightarrow>
         bindE (v1_MultiLiquidate_loop E os ctx liquidator reqs
             (cached\<lparr>v1_events := v1_events s @ v1_events cached\<rparr>))
           (\<lambda>(s', resps). Inr (s', V1_LiqDone liquidatorFee perpEfFee # resps)))"

definition v1_MultiLiquidate :: "'b sdk \<Rightarrow> 'c oracle_state \<Rightarrow> block_ctx \<Rightarrow> addr \<Rightarrow> liquidation_request list \<Rightarrow>
    'b v1_state \<Rightarrow> v1_error + 'b v1_state \<times> v1_liquidation_response list" where
  "v1_MultiLiquidate E os ctx liquidator reqs s =
     bindE (checkE (v1_isWhitelistedLiquidator E s liquidator) V1_Unauthorized) (\<lambda>_.
     bindE (v1_MultiLiquidate_loop E os ctx liquidator reqs s) (\<lambda>(s', resps).
     if list_ex v1_isDone resps then Inr (s', resps) else Inl V1_AllLiquidationsFailed))"


section \<open>Changes of a market\<close>

text \<open>A negative cost that the vault cannot pay is ignored.\<close>

definition v1_handleMarketUpdateCost :: "'b sdk \<Rightarrow> pair \<Rightarrow> int \<Rightarrow> 'b v1_state \<Rightarrow> v1_error + 'b v1_state" where
  "v1_handleMarketUpdateCost E p cost s =
     (if 0 < cost then
        bindE (v1_quoteDenomE p) (\<lambda>d.
        case v1_sendM2M E PerpEFModuleAccount VaultModuleAccount d cost s of
          Inl e \<Rightarrow> Inl (if v1_isPanic e then e else V1_NotEnoughFundToPayAction)
        | Inr s1 \<Rightarrow> Inr s1)
      else if cost < 0 then
        bindE (v1_quoteDenomE p) (\<lambda>d.
        case v1_sendM2M E VaultModuleAccount PerpEFModuleAccount d (- cost) s of
          Inl e \<Rightarrow> if v1_isPanic e then Inl e else Inr s
        | Inr s1 \<Rightarrow> Inr s1)
      else Inr s)"

definition v1_EditPoolPegMultiplier ::
    "'b sdk \<Rightarrow> pair \<Rightarrow> dec \<Rightarrow> 'b v1_state \<Rightarrow> v1_error + 'b v1_state" where
  "v1_EditPoolPegMultiplier E p pegMultiplier s =
     bindE (v1_GetPool s p) (\<lambda>pool.
     bindE (v1_GetRepegCost E pool pegMultiplier) (\<lambda>cost.
     let costInt = dec_TruncateInt E (dec_Ceil E cost) in
     bindE (v1_handleMarketUpdateCost E p costInt s) (\<lambda>s1.
     bindE (v1k_EditPoolPegMultiplier E p pegMultiplier s1) (\<lambda>s2.
     Inr (v1_emit (V1_PegMultiplierUpdate p pegMultiplier costInt) s2)))))"

definition v1_EditPoolSwapInvariant ::
    "'b sdk \<Rightarrow> pair \<Rightarrow> dec option \<Rightarrow> 'b v1_state \<Rightarrow> v1_error + 'b v1_state" where
  "v1_EditPoolSwapInvariant E p multiplier s =
     bindE (v1_GetPool s p) (\<lambda>pool.
     bindE (v1_GetSwapInvariantUpdateCost E pool multiplier) (\<lambda>cost.
     let costInt = dec_TruncateInt E (dec_Ceil E cost) in
     bindE (v1_handleMarketUpdateCost E p costInt s) (\<lambda>s1.
     bindE (v1_EditSwapInvariant E p multiplier s1) (\<lambda>(s2, pool').
     Inr (v1_emit (V1_SwapInvariantUpdate p (dec_Mul E (v1_SqrtDepth pool') (v1_SqrtDepth pool'))
       multiplier costInt) s2)))))"


section \<open>Funding payments\<close>

text \<open>One market at the end of a funding epoch; a market without a price is skipped.  \<open>GetEpochInfo\<close>
  panics on an unknown epoch, and an epoch longer than a day divides by zero.\<close>

definition v1_fundingStep :: "'b chain_sdk \<Rightarrow> 'b oracle_state \<Rightarrow> epochs_store \<Rightarrow> block_ctx \<Rightarrow> string \<Rightarrow> int \<Rightarrow>
    v1_pair_metadata \<Rightarrow> 'b v1_state \<Rightarrow> v1_error + 'b v1_state" where
  "v1_fundingStep E os es ctx epochIdentifier lookback md s =
     (if \<not> v1_ExistsPool s (v1pm_Pair md) then Inr s
      else case GetExchangeRateTwap E ctx os (v1pm_Pair md) of
        Inl e \<Rightarrow> if e = DivideByZero then Inl (V1_Panic ''division by zero'') else Inr s
      | Inr indexTWAP \<Rightarrow>
          if indexTWAP = 0 then Inr s
          else case v1_GetMarkPriceTWAP E ctx s (v1pm_Pair md) lookback of
            Inl e \<Rightarrow> if v1_isPanic e then Inl e else Inr s
          | Inr markTwap \<Rightarrow>
              if markTwap = 0 then Inr s
              else
              bindE (mapErr (\<lambda>_. V1_Panic ''epoch not found'') (GetEpochInfo es epochIdentifier)) (\<lambda>epochInfo.
              if Duration epochInfo = 0 then Inl (V1_Panic ''division by zero'')
              else
              let intervalsPerDay = go_quo 86400000000000 (Duration epochInfo) in
              if intervalsPerDay = 0 then Inl (V1_Panic ''division by zero'')
              else
              let premiumFraction = dec_QuoInt64 E (markTwap - indexTWAP) intervalsPerDay;
                  md' = md\<lparr>v1pm_LatestCumulativePremiumFraction :=
                          v1pm_LatestCumulativePremiumFraction md + premiumFraction\<rparr>;
                  s1 = s\<lparr>v1_PairsMetadata := kv_insert (v1pm_Pair md') md' (v1_PairsMetadata s)\<rparr>
              in Inr (v1_emit (V1_FundingRateChangedEvent
                   \<lparr>fre_Pair = v1pm_Pair md', fre_MarkPrice = markTwap, fre_IndexPrice = indexTWAP,
                    fre_LatestFundingRate = dec_Quo E premiumFraction indexTWAP,
                    fre_LatestPremiumFraction = premiumFraction,
                    fre_CumulativePremiumFraction = v1pm_LatestCumulativePremiumFraction md',
                    fre_BlockHeight = BlockHeight ctx, fre_BlockTimeMs = UnixMilli (BlockTime ctx)\<rparr>) s1)))"

fun v1_AfterEpochEnd_loop :: "'b chain_sdk \<Rightarrow> 'b oracle_state \<Rightarrow> epochs_store \<Rightarrow> block_ctx \<Rightarrow> string \<Rightarrow> int \<Rightarrow>
    v1_pair_metadata list \<Rightarrow> 'b v1_state \<Rightarrow> v1_error + 'b v1_state" where
  "v1_AfterEpochEnd_loop E os es ctx epochIdentifier lookback [] s = Inr s"
| "v1_AfterEpochEnd_loop E os es ctx epochIdentifier lookback (md # mds) s =
     bindE (v1_fundingStep E os es ctx epochIdentifier lookback md s) (\<lambda>s1.
     v1_AfterEpochEnd_loop E os es ctx epochIdentifier lookback mds s1)"

definition v1_AfterEpochEnd :: "'b chain_sdk \<Rightarrow> 'b oracle_state \<Rightarrow> epochs_store \<Rightarrow> block_ctx \<Rightarrow> string \<Rightarrow>
    'b v1_state \<Rightarrow> v1_error + 'b v1_state" where
  "v1_AfterEpochEnd E os es ctx epochIdentifier s =
     (if epochIdentifier \<noteq> v1_FundingRateInterval (v1_Params s) \<or> v1_Stopped (v1_Params s) then Inr s
      else v1_AfterEpochEnd_loop E os es ctx epochIdentifier (v1_TwapLookbackWindow (v1_Params s))
             (kv_values (v1_PairsMetadata s)) s)"


section \<open>Settlement and migration\<close>

text \<open>Every failure but that of the transfer itself is reported as an empty, successful settlement; the
  position is deleted before the price is asked for.\<close>

definition v1_SettlePosition ::
    "'b sdk \<Rightarrow> position \<Rightarrow> 'b v1_state \<Rightarrow> v1_error + 'b v1_state \<times> coin list" where
  "v1_SettlePosition E pos s =
     (case AccAddressFromBech32 E (TraderAddress pos) of
        None \<Rightarrow> Inr (s, [])
      | Some traderAddr \<Rightarrow>
          if Size pos = 0 then Inr (s, [])
          else if kv_get (v1_Positions s) (pos_Pair pos, traderAddr) = None then Inr (s, [])
          else
          let s1 = s\<lparr>v1_Positions := kv_delete (pos_Pair pos, traderAddr) (v1_Positions s)\<rparr> in
          case v1_GetSettlementPrice s1 (pos_Pair pos) of
            Inl _ \<Rightarrow> Inr (s1, [])
          | Inr settlementPrice \<Rightarrow>
              let settledValue =
                (if settlementPrice = 0 then Margin pos
                 else let openPrice = dec_Quo E (OpenNotional pos) \<bar>Size pos\<bar>;
                          returnedFund = dec_Mul E (Size pos) (settlementPrice - openPrice) + Margin pos
                      in if 0 < returnedFund then returnedFund else 0);
                  settledValueInt = dec_RoundInt E settledValue
              in
              bindE (v1_quoteDenomE (pos_Pair pos)) (\<lambda>d.
              bindE (if 0 < settledValueInt
                     then bindE (v1_newCoinE E d settledValueInt) (\<lambda>c.
                          bindE (v1_sendM2A E VaultModuleAccount traderAddr d settledValueInt s1) (\<lambda>s2.
                          Inr (s2, [c])))
                     else Inr (s1, [])) (\<lambda>(s2, transferredCoins).
              Inr (v1_emit (V1_PositionSettledEvent (pos_Pair pos) (AccAddressString E traderAddr)
                     transferredCoins) s2, transferredCoins))))"

text \<open>The migration iterates over all positions, whatever their pair, for every pool.\<close>

definition v1_sumLong :: "position list \<Rightarrow> dec" where
  "v1_sumLong ps = fold (\<lambda>p acc. if 0 < Size p then acc + Size p else acc) ps 0"

definition v1_sumShort :: "position list \<Rightarrow> dec" where
  "v1_sumShort ps = fold (\<lambda>p acc. if 0 < Size p then acc else acc + - Size p) ps 0"

fun v1_From2To3_loop :: "v1_market list \<Rightarrow> 'b v1_state \<Rightarrow> 'b v1_state" where
  "v1_From2To3_loop [] s = s"
| "v1_From2To3_loop (pool # pools) s =
     (let positions = kv_values (v1_Positions s);
          pool' = pool\<lparr>v1_TotalLong := v1_sumLong positions, v1_TotalShort := v1_sumShort positions,
                       v1_PegMultiplier := OneDec\<rparr>
      in v1_From2To3_loop pools (s\<lparr>v1_Pools := kv_insert (v1_Pair pool') pool' (v1_Pools s)\<rparr>))"

definition v1_From2To3 :: "'b v1_state \<Rightarrow> 'b v1_state" where
  "v1_From2To3 s = v1_From2To3_loop (kv_values (v1_Pools s)) s"

end
