(* ===== verification/V1_Trading.thy ===== *)
theory V1_Trading
  imports V1_Swap V1_Liquidate Perp_Invariant
begin

text \<open>
  What a position change of the first version does to the books.  Three ledgers count the open
  interest of a pair: the bias of the pool, the net size of the metrics and the sum of the stored
  positions.  Every position change moves the first two by the exchanged size and returns a
  position that accounts for the third; the locale \<open>v1_position_change\<close> is that contract, and what
  follows from it is proved once and used through its interpretations.
\<close>

section \<open>The three ledgers\<close>

definition v1_bias :: "'z v1_amm_state_scheme \<Rightarrow> pair \<Rightarrow> dec" where
  "v1_bias s p = (case kv_get (v1_Pools s) p of None \<Rightarrow> 0 | Some m \<Rightarrow> v1_GetBias m)"

definition v1_net :: "'b v1_state \<Rightarrow> pair \<Rightarrow> dec" where
  "v1_net s p = (case kv_get (v1_Metrics s) p of None \<Rightarrow> 0 | Some x \<Rightarrow> v1x_NetSize x)"

definition v1_sizes :: "'b v1_state \<Rightarrow> pair \<Rightarrow> dec" where
  "v1_sizes s p = kv_sum (\<lambda>k v. if fst k = p then Size v else 0) (v1_Positions s)"

definition v1_pools_keyed :: "'z v1_amm_state_scheme \<Rightarrow> bool" where
  "v1_pools_keyed s \<longleftrightarrow> (\<forall>p m. kv_get (v1_Pools s) p = Some m \<longrightarrow> v1_Pair m = p)"

definition v1_positions_keyed :: "'b sdk \<Rightarrow> 'b v1_state \<Rightarrow> bool" where
  "v1_positions_keyed E s \<longleftrightarrow>
     kv_wf (v1_Positions s) \<and> (\<forall>k v. kv_get (v1_Positions s) k = Some v \<longrightarrow> owned E k v)"

definition v1_inv :: "'b sdk \<Rightarrow> 'b v1_state \<Rightarrow> bool" where
  "v1_inv E s \<longleftrightarrow> v1_pools_keyed s \<and> v1_positions_keyed E s
     \<and> (\<forall>p. v1_bias s p = v1_sizes s p \<and> v1_net s p = v1_sizes s p)"

lemma v1_invD:
  assumes "v1_inv E s"
  shows "v1_pools_keyed s" and "v1_positions_keyed E s" and "v1_bias s p = v1_sizes s p"
    and "v1_net s p = v1_sizes s p" and "kv_get (v1_Pools s) p = Some m \<Longrightarrow> v1_Pair m = p"
    and "kv_get (v1_Positions s) k = Some v \<Longrightarrow> owned E k v" and "kv_wf (v1_Positions s)"
  using assms by (simp_all add: v1_inv_def v1_pools_keyed_def v1_positions_keyed_def del: split_paired_All)

text \<open>An operation that moves the first two ledgers of a pair by the same amount.\<close>

definition v1_moves :: "'b v1_state \<Rightarrow> 'b v1_state \<Rightarrow> pair \<Rightarrow> dec \<Rightarrow> bool" where
  "v1_moves s s' p d \<longleftrightarrow>
     (\<forall>q. v1_bias s' q = v1_bias s q + (if q = p then d else 0)
        \<and> v1_net s' q = v1_net s q + (if q = p then d else 0))
     \<and> (v1_pools_keyed s \<longrightarrow> v1_pools_keyed s')"

text \<open>What a trade leaves alone.\<close>

definition v1_frame :: "'b v1_state \<Rightarrow> 'b v1_state \<Rightarrow> bool" where
  "v1_frame s s' \<longleftrightarrow> v1_Snapshots s' = v1_Snapshots s \<and> v1_PairsMetadata s' = v1_PairsMetadata s
     \<and> v1_PrepaidBadDebt s' = v1_PrepaidBadDebt s \<and> v1_Params s' = v1_Params s \<and> v1_bank s' = v1_bank s"

lemma v1_moves_trans: "v1_moves s s1 p d \<Longrightarrow> v1_moves s1 s2 p e \<Longrightarrow> v1_moves s s2 p (d + e)"
  by (auto simp: v1_moves_def)

lemma v1_frame_trans: "v1_frame s s1 \<Longrightarrow> v1_frame s1 s2 \<Longrightarrow> v1_frame s s2"
  by (simp add: v1_frame_def)

lemma v1_frame_refl [simp]: "v1_frame s s"
  by (simp add: v1_frame_def)

lemma v1_net_OnSwapEnd:
  "v1_net (v1_OnSwapEnd p q b s) r = v1_net s r + (if r = p then b else 0)"
  "v1_Pools (v1_OnSwapEnd p q b s) = v1_Pools s" "v1_Positions (v1_OnSwapEnd p q b s) = v1_Positions s"
  "v1_frame s (v1_OnSwapEnd p q b s)"
  by (auto simp: v1_OnSwapEnd_def v1_net_def v1_frame_def Let_def split: option.splits)

lemma v1_moves_cong:
  assumes "v1_moves s s1 p d" and "v1_Pools s2 = v1_Pools s1" and "v1_Metrics s2 = v1_Metrics s1"
  shows "v1_moves s s2 p d"
proof -
  have "v1_bias s2 = v1_bias s1" "v1_net s2 = v1_net s1" "v1_pools_keyed s2 = v1_pools_keyed s1"
    using assms(2,3) by (simp_all add: v1_bias_def v1_net_def v1_pools_keyed_def fun_eq_iff)
  then show ?thesis using assms(1) by (simp add: v1_moves_def)
qed

lemma v1_movesD:
  "v1_moves s s1 p d \<Longrightarrow> v1_bias s1 q = v1_bias s q + (if q = p then d else 0)"
  "v1_moves s s1 p d \<Longrightarrow> v1_net s1 q = v1_net s q + (if q = p then d else 0)"
  "v1_moves s s1 p d \<Longrightarrow> v1_pools_keyed s \<Longrightarrow> v1_pools_keyed s1"
  by (simp_all add: v1_moves_def)


section \<open>Swaps of the clearing house\<close>

lemma v1_replaced_moves:
  assumes "v1_Pools s1 = kv_insert p m' (v1_Pools s)" and "kv_get (v1_Pools s) p = Some m"
    and "v1_GetBias m' = v1_GetBias m + d" and "v1_Pair m' = p" and "v1_Metrics s1 = v1_Metrics s"
  shows "v1_moves s (v1_OnSwapEnd p q d s1) p d"
  using assms
  by (auto simp: v1_moves_def v1_bias_def v1_net_OnSwapEnd v1_pools_keyed_def)
    (simp_all add: v1_net_def)

lemma v1_swapQuoteForBase_Inr:
  assumes "v1_swapQuoteForBase E os ctx m side q lim skip s = Inr (s1, m1, d)"
    and "kv_get (v1_Pools s) (v1_Pair m) = Some m" and "side = LONG \<or> side = SHORT"
  shows "v1_moves s s1 (v1_Pair m) d" and "v1_Positions s1 = v1_Positions s" and "v1_frame s s1"
    and "q \<noteq> 0 \<Longrightarrow> kv_get (v1_Pools s1) (v1_Pair m) = Some m1 \<and> v1_Pair m1 = v1_Pair m \<and> v1_Config m1 = v1_Config m"
    and "q \<noteq> 0 \<Longrightarrow> \<not> skip \<Longrightarrow> v1_checkFluctuationLimitRatio E s m1 = Inr ()"
proof -
  have side: "(if side = LONG then LONG else SHORT) = side" using assms(3) by auto
  from assms(1) obtain s0 amt where sw: "v1_SwapQuoteForBase E os ctx m side q lim skip s = Inr (s0, m1, amt)"
    and s1: "s1 = v1_OnSwapEnd (v1_Pair m) q d s0" and d0: "d = (if side = SHORT then - amt else amt)"
    by (clarsimp simp: v1_swapQuoteForBase_def Let_def side bindE_eq_Inr)
  have d: "d = amt * ToMultiplier side" using assms(3) d0 by (elim disjE) (simp_all add: ToMultiplier_def)
  have "v1_moves s s1 (v1_Pair m) d \<and> v1_Positions s1 = v1_Positions s \<and> v1_frame s s1
    \<and> (q \<noteq> 0 \<longrightarrow> (kv_get (v1_Pools s1) (v1_Pair m) = Some m1 \<and> v1_Pair m1 = v1_Pair m \<and> v1_Config m1 = v1_Config m)
       \<and> (\<not> skip \<longrightarrow> v1_checkFluctuationLimitRatio E s m1 = Inr ()))"
  proof (cases "q = 0")
    case True
    then have "s0 = s" "d = 0" using sw d by (auto simp: v1_SwapQuoteForBase_def)
    then show ?thesis using True s1
      by (auto simp: v1_moves_def v1_net_OnSwapEnd v1_bias_def v1_pools_keyed_def)
  next
    case False
    obtain r where m1: "m1 = v1_moved m (\<bar>r\<bar> * ToMultiplier side) (- amt * ToMultiplier side)"
      and ex: "v1_executeSwap E ctx m (\<bar>r\<bar> * ToMultiplier side) (- amt * ToMultiplier side) skip s = Inr (s0, m1)"
      using v1_SwapQuoteForBase_Inr [OF sw False] by blast
    have P: "v1_Pools s0 = kv_insert (v1_Pair m) m1 (v1_Pools s)" by (rule v1_executeSwap_Inr(2) [OF ex])
    have M: "v1_Metrics s0 = v1_Metrics s" "v1_Positions s0 = v1_Positions s" "v1_frame s s0"
      using v1_executeSwap_Inr(3) [OF ex] by (auto simp: v1_frame_def)
    have "v1_moves s s1 (v1_Pair m) d"
      unfolding s1 by (rule v1_replaced_moves [OF P assms(2) _ _ M(1)]) (simp_all add: m1 d)
    then show ?thesis
      using M v1_executeSwap_Inr(4) [OF ex] v1_frame_trans [OF M(3) v1_net_OnSwapEnd(4)]
      by (auto simp: s1 v1_net_OnSwapEnd P) (simp_all add: m1)
  qed
  then show "v1_moves s s1 (v1_Pair m) d" "v1_Positions s1 = v1_Positions s" "v1_frame s s1"
    "q \<noteq> 0 \<Longrightarrow> kv_get (v1_Pools s1) (v1_Pair m) = Some m1 \<and> v1_Pair m1 = v1_Pair m \<and> v1_Config m1 = v1_Config m"
    "q \<noteq> 0 \<Longrightarrow> \<not> skip \<Longrightarrow> v1_checkFluctuationLimitRatio E s m1 = Inr ()" by simp_all
qed

lemma v1_swapBaseForQuote_Inr:
  assumes "v1_swapBaseForQuote E os ctx m side b lim skip s = Inr (s1, m1, q)"
    and "kv_get (v1_Pools s) (v1_Pair m) = Some m" and "side = LONG \<or> side = SHORT" and "0 < b"
  shows "v1_moves s s1 (v1_Pair m) (if side = SHORT then - b else b)" and "v1_Positions s1 = v1_Positions s"
    and "v1_frame s s1"
    and "kv_get (v1_Pools s1) (v1_Pair m) = Some m1 \<and> v1_Pair m1 = v1_Pair m \<and> v1_Config m1 = v1_Config m"
    and "\<not> skip \<Longrightarrow> v1_checkFluctuationLimitRatio E s m1 = Inr ()"
proof -
  let ?dir = "if side = SHORT then LONG else SHORT" and ?d = "if side = SHORT then - b else b"
  from assms(1) obtain s0 where sw: "v1_SwapBaseForQuote E os ctx m ?dir b lim skip s = Inr (s0, m1, q)"
    and s1: "s1 = v1_OnSwapEnd (v1_Pair m) q ?d s0"
    by (auto simp: v1_swapBaseForQuote_def res_simps Let_def)
  have b: "b \<noteq> 0" using assms(4) by simp
  obtain r where m1: "m1 = v1_moved m (- r * ToMultiplier ?dir) (\<bar>b\<bar> * ToMultiplier ?dir)"
    and ex: "v1_executeSwap E ctx m (- r * ToMultiplier ?dir) (\<bar>b\<bar> * ToMultiplier ?dir) skip s = Inr (s0, m1)"
    using v1_SwapBaseForQuote_Inr [OF sw b] by blast
  have P: "v1_Pools s0 = kv_insert (v1_Pair m) m1 (v1_Pools s)" by (rule v1_executeSwap_Inr(2) [OF ex])
  have M: "v1_Metrics s0 = v1_Metrics s" "v1_Positions s0 = v1_Positions s" "v1_frame s s0"
    using v1_executeSwap_Inr(3) [OF ex] by (auto simp: v1_frame_def)
  show "v1_moves s s1 (v1_Pair m) ?d"
    unfolding s1 by (rule v1_replaced_moves [OF P assms(2) _ _ M(1)]) (use assms(4) in \<open>simp_all add: m1 ToMultiplier_def\<close>)
  show "v1_Positions s1 = v1_Positions s" using M by (simp add: s1 v1_net_OnSwapEnd)
  show "v1_frame s s1" using v1_frame_trans [OF M(3) v1_net_OnSwapEnd(4)] by (simp add: s1)
  show "kv_get (v1_Pools s1) (v1_Pair m) = Some m1 \<and> v1_Pair m1 = v1_Pair m \<and> v1_Config m1 = v1_Config m"
    by (simp add: s1 v1_net_OnSwapEnd P) (simp add: m1)
  show "v1_checkFluctuationLimitRatio E s m1 = Inr ()" if "\<not> skip" using v1_executeSwap_Inr(4) [OF ex that] .
qed

lemma v1_checkFluctuation_frame:
  "v1_frame s s' \<Longrightarrow> v1_checkFluctuationLimitRatio E s' m = v1_checkFluctuationLimitRatio E s m"
  by (simp add: v1_checkFluctuationLimitRatio_def v1_GetLastSnapshot_def v1_frame_def)

lemma v1_CalcRemain_Inr:
  assumes "v1_CalcRemainMarginWithFundingPayment E s pos d = Inr x"
  shows "v1r_Margin x - v1r_BadDebt x = Margin pos + d - v1r_FundingPayment x"
    and "0 \<le> v1r_Margin x" and "0 \<le> v1r_BadDebt x" and "v1r_Margin x = 0 \<or> v1r_BadDebt x = 0"
    and "kv_get (v1_PairsMetadata s) (pos_Pair pos) =
      Some \<lparr>v1pm_Pair = v1pm_Pair (the (kv_get (v1_PairsMetadata s) (pos_Pair pos))),
        v1pm_LatestCumulativePremiumFraction = v1r_LatestCumulativePremiumFraction x\<rparr>"
  using assms
  by (auto simp: v1_CalcRemainMarginWithFundingPayment_def v1_getLatestCumulativePremiumFraction_def Let_def
      res_simps split: if_splits)



section \<open>The contract of a position change\<close>

definition v1_changed :: "'b sdk \<Rightarrow> 'b v1_state \<Rightarrow> pair \<Rightarrow> addr \<Rightarrow> position \<Rightarrow> 'b v1_state \<Rightarrow> position_resp \<Rightarrow> bool" where
  "v1_changed E s p t pos s1 r \<longleftrightarrow>
     v1_moves s s1 p (ExchangedPositionSize r) \<and> v1_frame s s1
     \<and> Size (resp_Position r) = Size pos + ExchangedPositionSize r
     \<and> owned E (p, t) (resp_Position r)
     \<and> Margin (resp_Position r) - BadDebt r - MarginToVault r
         = Margin pos + RealizedPnl r - FundingPaymentApplied r
     \<and> v1_Positions s1 \<in> {v1_Positions s, kv_delete (p, t) (v1_Positions s)}"

locale v1_position_change =
  fixes E :: "'b sdk"
    and change :: "v1_market \<Rightarrow> position \<Rightarrow> 'b v1_state \<Rightarrow> v1_error + 'b v1_state \<times> v1_market \<times> position_resp"
  assumes changes: "change m pos s = Inr (s1, m1, r) \<Longrightarrow> addr_laws E \<Longrightarrow> kv_get (v1_Pools s) p = Some m \<Longrightarrow>
      v1_Pair m = p \<Longrightarrow> owned E (p, t) pos \<Longrightarrow> v1_changed E s p t pos s1 r"
begin

text \<open>After a change the position is written back, or nothing is stored and its size is zero.\<close>

lemma change_keeps:
  assumes c: "change m pos s = Inr (s1, m1, r)" and E: "addr_laws E" and inv: "v1_inv E s"
    and m: "kv_get (v1_Pools s) p = Some m" and o: "owned E (p, t) pos"
    and cur: "(case kv_get (v1_Positions s) (p, t) of None \<Rightarrow> 0 | Some q \<Rightarrow> Size q) = Size pos"
    and w: "v1_Positions s2 = kv_insert (p, t) (resp_Position r) (v1_Positions s1)
      \<or> v1_Positions s2 = v1_Positions s1 \<and> Size (resp_Position r) = 0 \<and> kv_get (v1_Positions s1) (p, t) = None"
    and rest: "v1_Pools s2 = v1_Pools s1" "v1_Metrics s2 = v1_Metrics s1"
  shows "v1_inv E s2"
proof -
  have ch: "v1_changed E s p t pos s1 r" using changes [OF c E m _ o] v1_invD(5) [OF inv m] by blast
  let ?d = "ExchangedPositionSize r"
  have mv: "v1_moves s s1 p ?d" and sz: "Size (resp_Position r) = Size pos + ?d"
    and own: "owned E (p, t) (resp_Position r)"
    and P: "v1_Positions s1 \<in> {v1_Positions s, kv_delete (p, t) (v1_Positions s)}"
    using ch by (simp_all add: v1_changed_def)
  note wf = v1_invD(7) [OF inv]
  have own1: "kv_get (v1_Positions s1) k = Some v \<Longrightarrow> owned E k v" for k v
    using P v1_invD(6) [OF inv, of k v] wf by (auto simp: kv_get_delete split: if_splits)
  have wf1: "kv_wf (v1_Positions s1)" using P wf by auto
  have pk: "v1_positions_keyed E s2"
    using w wf1 own1 own by (auto simp: v1_positions_keyed_def split: if_splits)
  have at: "kv_sum (\<lambda>k v. if fst k = q then Size v else 0) (kv_delete (p, t) (v1_Positions s))
      = v1_sizes s q - (if q = p then Size pos else 0)" for q
    using cur by (auto simp: v1_sizes_def kv.total_del [OF wf] split: option.splits)
  have ins: "v1_sizes s q - (if q = p then Size pos else 0) + (if q = p then Size (resp_Position r) else 0)
      = kv_sum (\<lambda>k v. if fst k = q then Size v else 0) (kv_insert (p, t) (resp_Position r) (v1_Positions s))" for q
    using cur by (auto simp: v1_sizes_def kv.total_ins [OF wf] split: option.splits)
  have q2: "v1_sizes s2 q = v1_sizes s q + (if q = p then ?d else 0)" for q
  proof (cases "v1_Positions s2 = v1_Positions s1 \<and> Size (resp_Position r) = 0 \<and> kv_get (v1_Positions s1) (p, t) = None")
    case True
    then have "v1_sizes s2 q = v1_sizes s q - (if q = p then Size pos else 0)"
      using P at [of q] cur by (auto simp: v1_sizes_def split: option.splits)
    then show ?thesis using True sz by auto
  next
    case False
    then have "v1_Positions s2 = kv_insert (p, t) (resp_Position r) (v1_Positions s1)" using w by blast
    then have "v1_sizes s2 q = kv_sum (\<lambda>k v. if fst k = q then Size v else 0)
        (kv_insert (p, t) (resp_Position r) (v1_Positions s))"
      using P kv.total_ins_del [OF wf] by (auto simp: v1_sizes_def)
    then show ?thesis using ins [of q] sz by auto
  qed
  note mv2 = v1_moves_cong [OF mv rest]
  have "v1_bias s2 q = v1_sizes s2 q \<and> v1_net s2 q = v1_sizes s2 q" for q
    using v1_movesD(1,2) [OF mv2, of q] q2 [of q] v1_invD(3,4) [OF inv, of q] by simp
  moreover have "v1_pools_keyed s2" by (rule v1_movesD(3) [OF mv2 v1_invD(1) [OF inv]])
  ultimately show ?thesis using pk by (simp add: v1_inv_def)
qed

end

lemma v1_owned_resp:
  "owned E (p, t) pos \<Longrightarrow> pos_Pair pos' = pos_Pair pos \<Longrightarrow> TraderAddress pos' = TraderAddress pos \<Longrightarrow> owned E (p, t) pos'"
  by (simp add: owned_def)

definition v1_side :: "bool \<Rightarrow> Direction" where
  "v1_side long = (if long then LONG else SHORT)"

lemma v1_side_cases: "v1_side b = LONG \<or> v1_side b = SHORT"
  by (simp add: v1_side_def)

lemma v1_increasePosition_Inr:
  assumes "v1_increasePosition E os ctx m pos side n lim lev s = Inr (s1, m1, r)"
  obtains x pn u where "v1_swapQuoteForBase E os ctx m side n lim False s = Inr (s1, m1, ExchangedPositionSize r)"
    and "lev \<noteq> 0" and "MarginToVault r = dec_Quo E n lev"
    and "v1_CalcRemainMarginWithFundingPayment E s1 pos (dec_Quo E n lev) = Inr x"
    and "v1_getPositionNotionalAndUnrealizedPnL E os ctx s1 m1 pos PNL_SPOT_PRICE = Inr (pn, u)"
    and "resp_Position r = \<lparr>TraderAddress = TraderAddress pos, pos_Pair = pos_Pair pos,
           Size = Size pos + ExchangedPositionSize r, Margin = v1r_Margin x,
           OpenNotional = OpenNotional pos + n,
           pos_LatestCumulativePremiumFraction = v1r_LatestCumulativePremiumFraction x,
           LastUpdatedBlockNumber = BlockHeight ctx\<rparr>"
    and "BadDebt r = v1r_BadDebt x" and "FundingPaymentApplied r = v1r_FundingPayment x"
    and "RealizedPnl r = 0" and "ExchangedNotionalValue r = n"
  using assms by (auto simp: v1_increasePosition_def res_simps)

lemma v1_decreasePosition_Inr:
  assumes "v1_decreasePosition E os ctx m pos n lim skip s = Inr (s1, m1, r)"
  obtains x u where "Size pos \<noteq> 0"
    and "v1_swapQuoteForBase E os ctx m (v1_side (\<not> 0 < Size pos)) n lim skip s = Inr (s1, m1, ExchangedPositionSize r)"
    and "v1_CalcRemainMarginWithFundingPayment E s1 pos (RealizedPnl r) = Inr x"
    and "TraderAddress (resp_Position r) = TraderAddress pos" and "pos_Pair (resp_Position r) = pos_Pair pos"
    and "Size (resp_Position r) = Size pos + ExchangedPositionSize r" and "Margin (resp_Position r) = v1r_Margin x"
    and "BadDebt r = v1r_BadDebt x" and "FundingPaymentApplied r = v1r_FundingPayment x"
    and "MarginToVault r = 0" and "ExchangedNotionalValue r = n"
  using assms by (auto simp: v1_decreasePosition_def res_simps Let_def v1_side_def split: if_splits)

lemma v1_closePositionEntirely_Inr:
  assumes "v1_closePositionEntirely E os ctx m pos lim skip s = Inr (s1, m1, r)"
  obtains t s0 pn x where "Size pos \<noteq> 0" and "AccAddressFromBech32 E (TraderAddress pos) = Some t"
    and "v1_getPositionNotionalAndUnrealizedPnL E os ctx s m pos PNL_SPOT_PRICE = Inr (pn, RealizedPnl r)"
    and "v1_CalcRemainMarginWithFundingPayment E s pos (RealizedPnl r) = Inr x"
    and "v1_swapBaseForQuote E os ctx m (v1_side (\<not> 0 < Size pos)) \<bar>Size pos\<bar> lim skip s
           = Inr (s0, m1, ExchangedNotionalValue r)"
    and "kv_get (v1_Positions s0) (pos_Pair pos, t) \<noteq> None"
    and "s1 = s0\<lparr>v1_Positions := kv_delete (pos_Pair pos, t) (v1_Positions s0)\<rparr>"
    and "TraderAddress (resp_Position r) = TraderAddress pos" and "pos_Pair (resp_Position r) = pos_Pair pos"
    and "Size (resp_Position r) = 0" and "Margin (resp_Position r) = 0"
    and "ExchangedPositionSize r = - Size pos" and "BadDebt r = v1r_BadDebt x"
    and "FundingPaymentApplied r = v1r_FundingPayment x" and "MarginToVault r = - v1r_Margin x"
  using assms by (auto simp: v1_closePositionEntirely_def res_simps Let_def v1_side_def split: if_splits)

lemma v1_increase_changed:
  assumes "v1_increasePosition E os ctx m pos side n lim lev s = Inr (s1, m1, r)"
    and "side = LONG \<or> side = SHORT"
    and "kv_get (v1_Pools s) p = Some m" and "v1_Pair m = p" and "owned E (p, t) pos"
  shows "v1_changed E s p t pos s1 r" and "v1_Positions s1 = v1_Positions s"
proof -
  obtain x where sw: "v1_swapQuoteForBase E os ctx m side n lim False s = Inr (s1, m1, ExchangedPositionSize r)"
    and x: "v1_CalcRemainMarginWithFundingPayment E s1 pos (dec_Quo E n lev) = Inr x"
      "MarginToVault r = dec_Quo E n lev" "BadDebt r = v1r_BadDebt x" "FundingPaymentApplied r = v1r_FundingPayment x"
      "RealizedPnl r = 0"
    and rp: "resp_Position r = \<lparr>TraderAddress = TraderAddress pos, pos_Pair = pos_Pair pos,
           Size = Size pos + ExchangedPositionSize r, Margin = v1r_Margin x,
           OpenNotional = OpenNotional pos + n,
           pos_LatestCumulativePremiumFraction = v1r_LatestCumulativePremiumFraction x,
           LastUpdatedBlockNumber = BlockHeight ctx\<rparr>"
    using assms(1) by (rule v1_increasePosition_Inr)
  note f = v1_swapQuoteForBase_Inr(1-3) [OF sw _ assms(2), unfolded assms(4), OF assms(3)]
  show "v1_Positions s1 = v1_Positions s" by (rule f(2))
  show "v1_changed E s p t pos s1 r"
    using f v1_CalcRemain_Inr(1) [OF x(1)] x(2-) assms(5) by (simp add: v1_changed_def rp owned_def)
qed

lemma v1_decrease_changed:
  assumes "v1_decreasePosition E os ctx m pos n lim skip s = Inr (s1, m1, r)"
    and "kv_get (v1_Pools s) p = Some m" and "v1_Pair m = p" and "owned E (p, t) pos"
  shows "v1_changed E s p t pos s1 r" and "v1_Positions s1 = v1_Positions s"
proof -
  obtain x where sw: "v1_swapQuoteForBase E os ctx m (v1_side (\<not> 0 < Size pos)) n lim skip s
      = Inr (s1, m1, ExchangedPositionSize r)"
    and x: "v1_CalcRemainMarginWithFundingPayment E s1 pos (RealizedPnl r) = Inr x"
      "TraderAddress (resp_Position r) = TraderAddress pos" "pos_Pair (resp_Position r) = pos_Pair pos"
      "Size (resp_Position r) = Size pos + ExchangedPositionSize r" "Margin (resp_Position r) = v1r_Margin x"
      "BadDebt r = v1r_BadDebt x" "FundingPaymentApplied r = v1r_FundingPayment x" "MarginToVault r = 0"
    using assms(1) by (rule v1_decreasePosition_Inr)
  note f = v1_swapQuoteForBase_Inr(1-3) [OF sw _ v1_side_cases, unfolded assms(3), OF assms(2)]
  show "v1_Positions s1 = v1_Positions s" by (rule f(2))
  show "v1_changed E s p t pos s1 r"
    using f v1_CalcRemain_Inr(1) [OF x(1)] x(2-) assms(4) by (simp add: v1_changed_def owned_def)
qed

lemma v1_close_changed:
  assumes "v1_closePositionEntirely E os ctx m pos lim skip s = Inr (s1, m1, r)"
    and "kv_get (v1_Pools s) p = Some m" and "v1_Pair m = p" and "owned E (p, t) pos"
  shows "v1_changed E s p t pos s1 r" and "v1_Positions s1 = kv_delete (p, t) (v1_Positions s)"
    and "kv_get (v1_Pools s1) p = Some m1 \<and> v1_Pair m1 = p \<and> v1_Config m1 = v1_Config m"
    and "\<not> skip \<Longrightarrow> v1_checkFluctuationLimitRatio E s m1 = Inr ()" and "Size (resp_Position r) = 0"
    and "Margin (resp_Position r) = 0"
proof -
  obtain t' s0 pn x where sz: "Size pos \<noteq> 0" and t': "AccAddressFromBech32 E (TraderAddress pos) = Some t'"
    and x: "v1_CalcRemainMarginWithFundingPayment E s pos (RealizedPnl r) = Inr x"
    and sw: "v1_swapBaseForQuote E os ctx m (v1_side (\<not> 0 < Size pos)) \<bar>Size pos\<bar> lim skip s
           = Inr (s0, m1, ExchangedNotionalValue r)"
    and s1: "s1 = s0\<lparr>v1_Positions := kv_delete (pos_Pair pos, t') (v1_Positions s0)\<rparr>"
    and r: "TraderAddress (resp_Position r) = TraderAddress pos" "pos_Pair (resp_Position r) = pos_Pair pos"
      "Size (resp_Position r) = 0" "Margin (resp_Position r) = 0"
      "ExchangedPositionSize r = - Size pos" "BadDebt r = v1r_BadDebt x"
      "FundingPaymentApplied r = v1r_FundingPayment x" "MarginToVault r = - v1r_Margin x"
    using assms(1) by (rule v1_closePositionEntirely_Inr)
  have tt: "t' = t" "pos_Pair pos = p" using t' assms(4) by (simp_all add: owned_def)
  have g: "kv_get (v1_Pools s) (v1_Pair m) = Some m" using assms(2,3) by simp
  have pos: "0 < \<bar>Size pos\<bar>" using sz by simp
  note f = v1_swapBaseForQuote_Inr [OF sw g v1_side_cases pos, unfolded assms(3)]
  have d: "(if v1_side (\<not> 0 < Size pos) = SHORT then - \<bar>Size pos\<bar> else \<bar>Size pos\<bar>) = - Size pos"
    using sz by (cases "0 < Size pos") (simp_all add: v1_side_def)
  show ps: "v1_Positions s1 = kv_delete (p, t) (v1_Positions s)" using f(2) by (simp add: s1 tt)
  have "v1_moves s s1 p (- Size pos)" by (rule v1_moves_cong [OF f(1) [unfolded d]]) (simp_all add: s1)
  moreover have "v1_frame s s1" using f(3) by (simp add: s1 v1_frame_def)
  ultimately show "v1_changed E s p t pos s1 r"
    using ps v1_CalcRemain_Inr(1) [OF x] r assms(4) by (simp add: v1_changed_def owned_def)
  show "kv_get (v1_Pools s1) p = Some m1 \<and> v1_Pair m1 = p \<and> v1_Config m1 = v1_Config m" using f(4) by (simp add: s1)
  show "v1_checkFluctuationLimitRatio E s m1 = Inr ()" if "\<not> skip" by (rule f(5) [OF that])
  show "Size (resp_Position r) = 0" "Margin (resp_Position r) = 0" by (rule r(3,4))+
qed

end
