(* ===== verification/V1_Books.thy ===== *)
theory V1_Books
  imports V1_Trading
begin

text \<open>
  The books of the first version along its entry points: reversing a position, opening and closing,
  margin changes and liquidations all keep the three ledgers of open interest equal, and every trade
  leaves the price of its pool in the band around the last snapshot.
\<close>

section \<open>Reversing a position\<close>

text \<open>The market a trade returns is the stored one and passed the check against the last snapshot.\<close>

definition v1_priced :: "'b sdk \<Rightarrow> 'b v1_state \<Rightarrow> pair \<Rightarrow> v1_config \<Rightarrow> 'b v1_state \<Rightarrow> v1_market \<Rightarrow> bool" where
  "v1_priced E s p cfg s1 m1 \<longleftrightarrow> kv_get (v1_Pools s1) p = Some m1 \<and> v1_Pair m1 = p \<and> v1_Config m1 = cfg
     \<and> v1_checkFluctuationLimitRatio E s m1 = Inr ()"

lemma v1_increase_priced:
  assumes "v1_increasePosition E os ctx m pos side n lim lev s = Inr (s1, m1, r)"
    and "side = LONG \<or> side = SHORT" and "kv_get (v1_Pools s) p = Some m" and "v1_Pair m = p" and "n \<noteq> 0"
  shows "v1_priced E s p (v1_Config m) s1 m1"
proof -
  have sw: "v1_swapQuoteForBase E os ctx m side n lim False s = Inr (s1, m1, ExchangedPositionSize r)"
    using assms(1) by (rule v1_increasePosition_Inr)
  have g: "kv_get (v1_Pools s) (v1_Pair m) = Some m" using assms(3,4) by simp
  show ?thesis using v1_swapQuoteForBase_Inr(4,5) [OF sw g assms(2,5)] assms(4) by (simp add: v1_priced_def)
qed

lemma v1_decrease_priced:
  assumes "v1_decreasePosition E os ctx m pos n lim False s = Inr (s1, m1, r)"
    and "kv_get (v1_Pools s) p = Some m" and "v1_Pair m = p" and "n \<noteq> 0"
  shows "v1_priced E s p (v1_Config m) s1 m1"
proof -
  have sw: "v1_swapQuoteForBase E os ctx m (v1_side (\<not> 0 < Size pos)) n lim False s = Inr (s1, m1, ExchangedPositionSize r)"
    using assms(1) by (rule v1_decreasePosition_Inr)
  have g: "kv_get (v1_Pools s) (v1_Pair m) = Some m" using assms(2,3) by simp
  show ?thesis using v1_swapQuoteForBase_Inr(4,5) [OF sw g v1_side_cases assms(4)] assms(3) by (simp add: v1_priced_def)
qed

lemma v1_close_priced:
  assumes "v1_closePositionEntirely E os ctx m pos lim False s = Inr (s1, m1, r)"
    and "kv_get (v1_Pools s) p = Some m" and "v1_Pair m = p" and "owned E (p, t) pos"
  shows "v1_priced E s p (v1_Config m) s1 m1"
  using v1_close_changed(3,4) [OF assms] by (simp add: v1_priced_def)

lemma v1_reverse_cases:
  assumes "v1_closeAndOpenReversePosition E os ctx m pos q lev lim s = Inr (s2, m2, r)"
  obtains (exact) "v1_closePositionEntirely E os ctx m pos 0 False s = Inr (s2, m2, r)" and "\<not> 0 < BadDebt r"
  | (reverse) t s1 m1 c i l n where "AccAddressFromBech32 E (TraderAddress pos) = Some t"
      and "v1_closePositionEntirely E os ctx m pos 0 False s = Inr (s1, m1, c)" and "\<not> 0 < BadDebt c"
      and "v1_increasePosition E os ctx m1 (ZeroPosition E ctx (pos_Pair pos) t) (v1_side (\<not> 0 < Size pos)) n l lev s1
             = Inr (s2, m2, i)" and "0 < n"
      and "resp_Position r = resp_Position i"
      and "ExchangedPositionSize r = ExchangedPositionSize c + ExchangedPositionSize i"
      and "BadDebt r = BadDebt c + BadDebt i"
      and "FundingPaymentApplied r = FundingPaymentApplied c + FundingPaymentApplied i"
      and "RealizedPnl r = RealizedPnl c + RealizedPnl i" and "MarginToVault r = MarginToVault c + MarginToVault i"
proof -
  from assms obtain t s1 m1 c where t: "AccAddressFromBech32 E (TraderAddress pos) = Some t"
    and cl: "v1_closePositionEntirely E os ctx m pos 0 False s = Inr (s1, m1, c)" and bd: "\<not> 0 < BadDebt c"
    by (auto simp: v1_closeAndOpenReversePosition_def bindE_eq_Inr getE_eq_Inr split: if_splits)
  let ?n = "dec_Mul E lev q - ExchangedNotionalValue c"
  show thesis
  proof (cases "0 < ?n")
    case True
    with assms t cl bd show thesis
      unfolding v1_closeAndOpenReversePosition_def Let_def v1_side_def
      by (auto simp: bindE_eq_Inr split: if_splits intro!: reverse [unfolded v1_side_def, OF t cl bd _ True])
  next
    case False
    with assms t cl bd have "s1 = s2" "m1 = m2" "c = r"
      unfolding v1_closeAndOpenReversePosition_def Let_def by (auto split: if_splits)
    with cl bd show thesis using exact by blast
  qed
qed

lemma v1_close_BadDebt_nonneg:
  "v1_closePositionEntirely E os ctx m pos lim skip s = Inr (s1, m1, r) \<Longrightarrow> 0 \<le> BadDebt r"
  by (elim v1_closePositionEntirely_Inr) (auto dest: v1_CalcRemain_Inr(3))

lemma v1_reverse_changed:
  assumes rev: "v1_closeAndOpenReversePosition E os ctx m pos q lev lim s = Inr (s2, m2, r)" and E: "addr_laws E"
    and m: "kv_get (v1_Pools s) p = Some m" "v1_Pair m = p" and o: "owned E (p, t) pos"
  shows "v1_changed E s p t pos s2 r" and "v1_Positions s2 = kv_delete (p, t) (v1_Positions s)"
    and "v1_priced E s p (v1_Config m) s2 m2"
proof -
  have "v1_changed E s p t pos s2 r \<and> v1_Positions s2 = kv_delete (p, t) (v1_Positions s)
    \<and> v1_priced E s p (v1_Config m) s2 m2"
    using rev
  proof (cases rule: v1_reverse_cases)
    case exact
    then show ?thesis using v1_close_changed(1,2) [OF exact(1) m o] v1_close_priced [OF exact(1) m o] by blast
  next
    case (reverse t' s1 m1 c i l n)
    have t': "t' = t" "pos_Pair pos = p" using reverse(1) o by (simp_all add: owned_def)
    note cl = v1_close_changed [OF reverse(2) m o]
    have z: "owned E (p, t) (ZeroPosition E ctx p t)" by (rule owned_zero [OF E])
    have inc: "v1_increasePosition E os ctx m1 (ZeroPosition E ctx p t) (v1_side (\<not> 0 < Size pos)) n l lev s1
        = Inr (s2, m2, i)" using reverse(4) t' by simp
    have m1: "kv_get (v1_Pools s1) p = Some m1" "v1_Pair m1 = p" "v1_Config m1 = v1_Config m" using cl(3) by simp_all
    note ic = v1_increase_changed [OF inc v1_side_cases m1(1,2) z]
    have bd: "BadDebt c = 0" using reverse(3) v1_close_BadDebt_nonneg [OF reverse(2)] by simp
    have mv: "v1_moves s s2 p (ExchangedPositionSize r)" and fr: "v1_frame s s1" "v1_frame s s2"
      using cl(1) ic(1) v1_moves_trans v1_frame_trans by (auto simp: v1_changed_def reverse(7))
    have "v1_changed E s p t pos s2 r"
      using cl(1,2,5,6) ic mv fr reverse(6-) bd by (simp add: v1_changed_def ZeroPosition_def)
    moreover have "v1_priced E s p (v1_Config m) s2 m2"
      using v1_increase_priced [OF inc v1_side_cases m1(1,2)] reverse(5) m1(3)
      by (simp add: v1_priced_def v1_checkFluctuation_frame [OF fr(1)])
    ultimately show ?thesis using cl(2) ic(2) by simp
  qed
  then show "v1_changed E s p t pos s2 r" "v1_Positions s2 = kv_delete (p, t) (v1_Positions s)"
    "v1_priced E s p (v1_Config m) s2 m2" by simp_all
qed

lemma v1_openReverse_changed:
  assumes "v1_openReversePosition E os ctx m pos q lev lim s = Inr (s2, m2, r)" and "addr_laws E"
    and "kv_get (v1_Pools s) p = Some m" "v1_Pair m = p" and "owned E (p, t) pos"
  shows "v1_changed E s p t pos s2 r"
    and "dec_Mul E lev q \<noteq> 0 \<Longrightarrow> v1_priced E s p (v1_Config m) s2 m2"
proof -
  from assms(1) consider
    (dec) "v1_decreasePosition E os ctx m pos (dec_Mul E lev q) lim False s = Inr (s2, m2, r)"
    | (rev) "v1_closeAndOpenReversePosition E os ctx m pos q lev lim s = Inr (s2, m2, r)"
    by (auto simp: v1_openReversePosition_def Let_def bindE_eq_Inr split: if_splits)
  then have "v1_changed E s p t pos s2 r \<and> (dec_Mul E lev q \<noteq> 0 \<longrightarrow> v1_priced E s p (v1_Config m) s2 m2)"
  proof cases
    case dec
    then show ?thesis using v1_decrease_changed(1) [OF dec assms(3-)] v1_decrease_priced [OF dec assms(3,4)] by blast
  next
    case rev
    then show ?thesis using v1_reverse_changed(1,3) [OF rev assms(2-)] by blast
  qed
  then show "v1_changed E s p t pos s2 r"
    "dec_Mul E lev q \<noteq> 0 \<Longrightarrow> v1_priced E s p (v1_Config m) s2 m2" by simp_all
qed

interpretation v1_inc: v1_position_change E
    "\<lambda>m pos. v1_increasePosition E os ctx m pos (v1_side long) n lim lev" for E os ctx long n lim lev
  by unfold_locales (rule v1_increase_changed(1) [OF _ v1_side_cases])

interpretation v1_dec: v1_position_change E
    "\<lambda>m pos. v1_decreasePosition E os ctx m pos n lim skip" for E os ctx n lim skip
  by unfold_locales (rule v1_decrease_changed(1))

interpretation v1_cls: v1_position_change E
    "\<lambda>m pos. v1_closePositionEntirely E os ctx m pos lim skip" for E os ctx lim skip
  by unfold_locales (rule v1_close_changed(1))

interpretation v1_opr: v1_position_change E
    "\<lambda>m pos. v1_openReversePosition E os ctx m pos q lev lim" for E os ctx q lev lim
  by unfold_locales (rule v1_openReverse_changed(1))

end
