(* ===== verification/V1_Invariant.thy ===== *)
theory V1_Invariant
  imports V1_Books
begin

text \<open>
  The invariant of the first version along its operations: the bias of every pool, the net size of
  the metrics and the sum of the stored positions agree after any sequence of messages.
\<close>

section \<open>Settlement\<close>

text \<open>Settlement touches the bank, the prepaid bad debt and the events, nothing else.\<close>

definition v1_settles :: "'b v1_state \<Rightarrow> 'b v1_state \<Rightarrow> bool" where
  "v1_settles s s' \<longleftrightarrow> v1_Pools s' = v1_Pools s \<and> v1_Positions s' = v1_Positions s \<and> v1_Metrics s' = v1_Metrics s
     \<and> v1_Snapshots s' = v1_Snapshots s \<and> v1_PairsMetadata s' = v1_PairsMetadata s \<and> v1_Params s' = v1_Params s"

named_theorems v1_settling \<open>operations of the first version that only settle\<close>

lemma v1_settles_refl [simp, intro]: "v1_settles s s"
  by (simp add: v1_settles_def)

lemma v1_settles_trans: "v1_settles s s1 \<Longrightarrow> v1_settles s1 s2 \<Longrightarrow> v1_settles s s2"
  by (simp add: v1_settles_def)

lemma v1_settles_basic [simp]:
  "v1_settles s (s\<lparr>v1_bank := b\<rparr>)" "v1_settles s (v1_emit e s)" "v1_settles s (v1_setPrepaid d n s)"
  "v1_settles s (s\<lparr>v1_events := evs\<rparr>)"
  by (simp_all add: v1_settles_def v1_emit_def v1_setPrepaid_def)

lemma v1_settles_inv: "v1_settles s s' \<Longrightarrow> v1_inv E s \<Longrightarrow> v1_inv E s'"
  by (simp add: v1_settles_def v1_inv_def v1_pools_keyed_def v1_positions_keyed_def v1_bias_def v1_net_def
      v1_sizes_def del: split_paired_All)

lemma v1_send_settles [v1_settling]:
  "v1_sendM2M E f t d n s = Inr s' \<Longrightarrow> v1_settles s s'"
  "v1_sendM2A E f a d n s = Inr s' \<Longrightarrow> v1_settles s s'"
  "v1_sendA2M E a t d n s = Inr s' \<Longrightarrow> v1_settles s s'"
  by (auto simp: v1_sendM2M_def v1_sendM2A_def v1_sendA2M_def bindE_eq_Inr split: if_splits)

lemma v1_Withdraw_settles [v1_settling]: "v1_Withdraw E d a n s = Inr s' \<Longrightarrow> v1_settles s s'"
  by (auto simp: v1_Withdraw_def v1_IncrementPrepaidBadDebt_def bindE_eq_Inr Let_def split: if_splits
      dest!: v1_send_settles intro: v1_settles_trans v1_settles_basic)

lemma v1_realizeBadDebt_settles [v1_settling]: "v1_realizeBadDebt E d n s = Inr s' \<Longrightarrow> v1_settles s s'"
  by (auto simp: v1_realizeBadDebt_def v1_DecrementPrepaidBadDebt_def bindE_eq_Inr Let_def split: if_splits
      dest!: v1_send_settles intro: v1_settles_trans v1_settles_basic)

lemma v1_settleMargin_settles [v1_settling]: "v1_settleMargin E p a n s = Inr s' \<Longrightarrow> v1_settles s s'"
  by (auto simp: v1_settleMargin_def bindE_eq_Inr split: if_splits dest!: v1_settling)

lemma v1_transferFee_settles [v1_settling]: "v1_transferFee E p a n s = Inr (s', f) \<Longrightarrow> v1_settles s s'"
  by (auto simp: v1_transferFee_def Let_def bindE_eq_Inr split: if_splits
      dest!: v1_send_settles intro: v1_settles_trans)

lemma v1_distribute_settles [v1_settling]:
  "v1_distributeLiquidateRewards E r s = Inr s' \<Longrightarrow> v1_settles s s'"
  by (auto simp: v1_distributeLiquidateRewards_def bindE_eq_Inr Let_def split: if_splits
      dest!: v1_send_settles v1_Withdraw_settles intro: v1_settles_trans)

lemma v1_afterPositionUpdate_Inr:
  assumes "v1_afterPositionUpdate E os ctx m t r s = Inr s'"
  obtains s1 s2 s3 fee ev where "BadDebt r = 0"
    and "s1 = (if Size (resp_Position r) \<noteq> 0
           then s\<lparr>v1_Positions := kv_insert (v1_Pair m, t) (resp_Position r) (v1_Positions s)\<rparr> else s)"
    and "v1_checkMarginRatio E os ctx s1 m (resp_Position r) = Inr ()"
    and "v1_settleMargin E (v1_Pair m) t (dec_RoundInt E (MarginToVault r)) s1 = Inr s2"
    and "v1_transferFee E (v1_Pair m) t (ExchangedNotionalValue r) s2 = Inr (s3, fee)"
    and "s' = v1_emit ev s3" and "v1_settles s1 s'"
proof -
  define s1 where "s1 = (if Size (resp_Position r) \<noteq> 0
           then s\<lparr>v1_Positions := kv_insert (v1_Pair m, t) (resp_Position r) (v1_Positions s)\<rparr> else s)"
  from assms obtain s2 s3 fee ev where a: "BadDebt r = 0" "v1_checkMarginRatio E os ctx s1 m (resp_Position r) = Inr ()"
    "v1_settleMargin E (v1_Pair m) t (dec_RoundInt E (MarginToVault r)) s1 = Inr s2"
    "v1_transferFee E (v1_Pair m) t (ExchangedNotionalValue r) s2 = Inr (s3, fee)" "s' = v1_emit ev s3"
    unfolding v1_afterPositionUpdate_def Let_def s1_def [symmetric]
    by (cases "BadDebt r = 0") (auto simp: bindE_eq_Inr)
  have "v1_settles s1 s'"
    using v1_settles_trans [OF v1_settles_trans [OF v1_settleMargin_settles [OF a(3)] v1_transferFee_settles [OF a(4)]]
        v1_settles_basic(2)] by (simp add: a(5))
  with a s1_def show thesis using that by blast
qed


section \<open>Entry points\<close>

lemma v1_OpenPosition_Inr:
  assumes "v1_OpenPosition E os ctx p side t q lev lim s = Inr (s', r)"
  obtains m pos s1 m1 where "kv_get (v1_Pools s) p = Some m"
    and "v1_checkOpenPositionRequirements m q lev = Inr ()"
    and "pos = (case kv_get (v1_Positions s) (p, t) of None \<Rightarrow> ZeroPosition E ctx p t | Some x \<Rightarrow> x)"
    and "v1_increasePosition E os ctx m pos side (lev * q) lim lev s = Inr (s1, m1, r)
       \<or> v1_openReversePosition E os ctx m pos (NewDec q) lev lim s = Inr (s1, m1, r)"
    and "v1_afterPositionUpdate E os ctx m1 t r s1 = Inr s'"
  using assms
  by (cases "kv_get (v1_Positions s) (p, t)")
    (auto simp: v1_OpenPosition_def v1_GetPool_def res_simps Let_def split: if_splits intro!: that)

lemma v1_current:
  assumes "v1_inv E s" and "addr_laws E"
    and "pos = (case kv_get (v1_Positions s) (p, t) of None \<Rightarrow> ZeroPosition E ctx p t | Some x \<Rightarrow> x)"
  shows "owned E (p, t) pos"
    and "(case kv_get (v1_Positions s) (p, t) of None \<Rightarrow> 0 | Some q \<Rightarrow> Size q) = Size pos"
  using assms v1_invD(6) [OF assms(1)] owned_zero [OF assms(2)]
  by (auto split: option.splits simp: ZeroPosition_def)

text \<open>The position of a change is written back, or nothing is stored and its size is zero.\<close>

definition v1_written :: "pair \<Rightarrow> addr \<Rightarrow> position \<Rightarrow> 'b v1_state \<Rightarrow> 'b v1_state \<Rightarrow> bool" where
  "v1_written p t pos s1 s2 \<longleftrightarrow>
     (v1_Positions s2 = kv_insert (p, t) pos (v1_Positions s1)
      \<or> v1_Positions s2 = v1_Positions s1 \<and> Size pos = 0 \<and> kv_get (v1_Positions s1) (p, t) = None)
     \<and> v1_Pools s2 = v1_Pools s1 \<and> v1_Metrics s2 = v1_Metrics s1"

text \<open>The trade of an opened position: the change, the stored market and its price.\<close>

lemma v1_OpenPosition_trade:
  assumes op: "v1_OpenPosition E os ctx p side t q lev lim s = Inr (s', r)" and inv: "v1_inv E s"
    and E: "addr_laws E" and D: "dec_laws E" and side: "side = LONG \<or> side = SHORT"
  obtains m pos s1 m1 where "kv_get (v1_Pools s) p = Some m" and "v1_Pair m = p"
    and "pos = (case kv_get (v1_Positions s) (p, t) of None \<Rightarrow> ZeroPosition E ctx p t | Some x \<Rightarrow> x)"
    and "v1_changed E s p t pos s1 r" and "v1_priced E s p (v1_Config m) s1 m1"
    and "v1_afterPositionUpdate E os ctx m1 t r s1 = Inr s'"
    and "\<forall>s2. v1_written p t (resp_Position r) s1 s2 \<longrightarrow> v1_inv E s2"
proof -
  obtain m pos s1 m1 where m: "kv_get (v1_Pools s) p = Some m"
    and req: "v1_checkOpenPositionRequirements m q lev = Inr ()"
    and pos: "pos = (case kv_get (v1_Positions s) (p, t) of None \<Rightarrow> ZeroPosition E ctx p t | Some x \<Rightarrow> x)"
    and c: "v1_increasePosition E os ctx m pos side (lev * q) lim lev s = Inr (s1, m1, r)
       \<or> v1_openReversePosition E os ctx m pos (NewDec q) lev lim s = Inr (s1, m1, r)"
    and u: "v1_afterPositionUpdate E os ctx m1 t r s1 = Inr s'"
    using op by (rule v1_OpenPosition_Inr)
  have mp: "v1_Pair m = p" by (rule v1_invD(5) [OF inv m])
  note cur = v1_current [OF inv E pos]
  have nz: "lev * q \<noteq> 0" using req by (auto simp: v1_checkOpenPositionRequirements_def split: if_splits)
  have mul: "dec_Mul E lev (NewDec q) = lev * q" by (rule sdk_decimal.mul_whole [OF dec_lawsD [OF D]])
  obtain long where long: "side = v1_side long" using side by (metis v1_side_def)
  show thesis
    using c
  proof
    assume i: "v1_increasePosition E os ctx m pos side (lev * q) lim lev s = Inr (s1, m1, r)"
    show thesis
      by (rule that [OF m mp pos v1_increase_changed(1) [OF i side m mp cur(1)] v1_increase_priced [OF i side m mp nz] u])
        (use v1_inc.change_keeps [OF i [unfolded long] E inv m cur] in \<open>auto simp: v1_written_def\<close>)
  next
    assume i: "v1_openReversePosition E os ctx m pos (NewDec q) lev lim s = Inr (s1, m1, r)"
    have nz': "dec_Mul E lev (NewDec q) \<noteq> 0" using nz mul by simp
    show thesis
      by (rule that [OF m mp pos v1_openReverse_changed(1) [OF i E m mp cur(1)]
            v1_openReverse_changed(2) [OF i E m mp cur(1) nz'] u])
        (use v1_opr.change_keeps [OF i E inv m cur] in \<open>auto simp: v1_written_def\<close>)
  qed
qed

lemma v1_OpenPosition_inv:
  assumes "v1_OpenPosition E os ctx p side t q lev lim s = Inr (s', r)" and "v1_inv E s"
    and "addr_laws E" and "dec_laws E" and "side = LONG \<or> side = SHORT"
    and gone: "Size (resp_Position r) \<noteq> 0 \<or> kv_get (v1_Positions s') (p, t) = None"
  shows "v1_inv E s'"
proof -
  obtain s1 m1 and m :: v1_market where pr: "v1_priced E s p (v1_Config m) s1 m1"
    and u: "v1_afterPositionUpdate E os ctx m1 t r s1 = Inr s'"
    and keeps: "\<forall>s2. v1_written p t (resp_Position r) s1 s2 \<longrightarrow> v1_inv E s2"
    using assms(1-5) by (rule v1_OpenPosition_trade) blast
  have mp: "v1_Pair m1 = p" using pr by (simp add: v1_priced_def)
  obtain w where w: "w = (if Size (resp_Position r) \<noteq> 0
           then s1\<lparr>v1_Positions := kv_insert (p, t) (resp_Position r) (v1_Positions s1)\<rparr> else s1)" "v1_settles w s'"
    using u mp by (metis v1_afterPositionUpdate_Inr)
  have "v1_written p t (resp_Position r) s1 s'"
    using w gone by (auto simp: v1_written_def v1_settles_def split: if_splits)
  then show ?thesis using keeps by blast
qed

lemma v1_ClosePosition_Inr:
  assumes "v1_ClosePosition E os ctx p t s = Inr (s', r)"
  obtains pos m s1 m1 where "kv_get (v1_Positions s) (p, t) = Some pos" and "kv_get (v1_Pools s) p = Some m"
    and "v1_closePositionEntirely E os ctx m pos 0 False s = Inr (s1, m1, r)" and "\<not> 0 < BadDebt r"
    and "v1_afterPositionUpdate E os ctx m1 t r s1 = Inr s'"
  using assms by (auto simp: v1_ClosePosition_def v1_GetPool_def res_simps split: if_splits)

text \<open>Closing a position entirely keeps the invariant and leaves no position.\<close>

lemma v1_close_inv:
  assumes c: "v1_closePositionEntirely E os ctx m pos lim skip s = Inr (s1, m1, r)" and inv: "v1_inv E s"
    and E: "addr_laws E" and m: "kv_get (v1_Pools s) p = Some m" and pos: "kv_get (v1_Positions s) (p, t) = Some pos"
  shows "v1_inv E s1" and "kv_get (v1_Positions s1) (p, t) = None"
proof -
  have o: "owned E (p, t) pos" by (rule v1_invD(6) [OF inv pos])
  note cl = v1_close_changed [OF c m v1_invD(5) [OF inv m] o]
  show none: "kv_get (v1_Positions s1) (p, t) = None"
    using cl(2) v1_invD(7) [OF inv] by (simp add: kv_get_delete)
  show "v1_inv E s1"
    by (rule v1_cls.change_keeps [OF c E inv m o]) (use none cl(5) pos in simp_all)
qed

lemma v1_ClosePosition_inv:
  assumes "v1_ClosePosition E os ctx p t s = Inr (s', r)" and inv: "v1_inv E s" and E: "addr_laws E"
  shows "v1_inv E s'" and "kv_get (v1_Positions s') (p, t) = None"
proof -
  obtain pos m s1 m1 where pos: "kv_get (v1_Positions s) (p, t) = Some pos" and m: "kv_get (v1_Pools s) p = Some m"
    and c: "v1_closePositionEntirely E os ctx m pos 0 False s = Inr (s1, m1, r)"
    and u: "v1_afterPositionUpdate E os ctx m1 t r s1 = Inr s'"
    using assms(1) by (rule v1_ClosePosition_Inr)
  note cl = v1_close_inv [OF c inv E m pos]
  have "Size (resp_Position r) = 0"
    using v1_close_changed(5) [OF c m v1_invD(5) [OF inv m] v1_invD(6) [OF inv pos]] .
  then have st: "v1_settles s1 s'" using u by (metis v1_afterPositionUpdate_Inr)
  show "v1_inv E s'" by (rule v1_settles_inv [OF st cl(1)])
  show "kv_get (v1_Positions s') (p, t) = None" using st cl(2) by (simp add: v1_settles_def)
qed



section \<open>Margin changes and liquidations\<close>

lemma v1_same_size_inv:
  assumes inv: "v1_inv E s" and pos: "kv_get (v1_Positions s) (p, t) = Some pos"
    and o: "owned E (p, t) pos'" and sz: "Size pos' = Size pos"
    and st: "v1_settles (s\<lparr>v1_Positions := kv_insert (p, t) pos' (v1_Positions s)\<rparr>) s'"
  shows "v1_inv E s'"
proof -
  let ?s = "s\<lparr>v1_Positions := kv_insert (p, t) pos' (v1_Positions s)\<rparr>"
  note wf = v1_invD(7) [OF inv]
  have "v1_sizes ?s q = v1_sizes s q" for q using pos sz by (simp add: v1_sizes_def kv.total_ins [OF wf])
  moreover have "v1_positions_keyed E ?s"
    using wf o v1_invD(6) [OF inv] by (auto simp: v1_positions_keyed_def split: if_splits)
  ultimately have "v1_inv E ?s" using v1_invD(1,3,4) [OF inv]
    by (simp add: v1_inv_def v1_pools_keyed_def v1_bias_def v1_net_def)
  then show ?thesis by (rule v1_settles_inv [OF st])
qed

lemma v1_settles_positions:
  "v1_settles s s' \<Longrightarrow> v1_settles (s\<lparr>v1_Positions := f (v1_Positions s)\<rparr>) (s'\<lparr>v1_Positions := f (v1_Positions s')\<rparr>)"
  by (simp add: v1_settles_def)

lemma v1_withMargin_sel [simp]:
  "pos_Pair (v1_withMargin ctx x pos) = pos_Pair pos" "Size (v1_withMargin ctx x pos) = Size pos"
  "TraderAddress (v1_withMargin ctx x pos) = TraderAddress pos" "Margin (v1_withMargin ctx x pos) = v1r_Margin x"
  "OpenNotional (v1_withMargin ctx x pos) = OpenNotional pos"
  by (simp_all add: v1_withMargin_def)

lemma v1_AddMargin_Inr:
  assumes "v1_AddMargin E os ctx p t c s = Inr (s', f, pos')"
  obtains m pos x s1 ev where "kv_get (v1_Pools s) p = Some m" and "kv_get (v1_Positions s) (p, t) = Some pos"
    and "v1_CalcRemainMarginWithFundingPayment E s pos (NewDec (Amount c)) = Inr x" and "v1r_BadDebt x = 0"
    and "v1_sendA2M E t VaultModuleAccount (Denom c) (Amount c) s = Inr s1" and "pos' = v1_withMargin ctx x pos"
    and "s' = v1_emit ev (s1\<lparr>v1_Positions := kv_insert (pos_Pair pos, t) pos' (v1_Positions s1)\<rparr>)"
    and "f = v1r_FundingPayment x"
  using assms unfolding v1_AddMargin_def Let_def
  by (auto simp: v1_GetPool_def res_simps split: if_splits)

lemma v1_RemoveMargin_Inr:
  assumes "v1_RemoveMargin E os ctx p t c s = Inr (s', co, f, pos')"
  obtains m pos x fc d s2 ev where "kv_get (v1_Pools s) p = Some m" and "kv_get (v1_Positions s) (p, t) = Some pos"
    and "v1_CalcRemainMarginWithFundingPayment E s pos (NewDec (- Amount c)) = Inr x" and "v1r_BadDebt x = 0"
    and "pos' = v1_withMargin ctx x pos"
    and "v1_calcFreeCollateral E os ctx s m pos' = Inr fc" and "0 < fc" and "v1_quoteDenomE p = Inr d"
    and "v1_Withdraw E d t (Amount c) (s\<lparr>v1_Positions := kv_insert (pos_Pair pos, t) pos' (v1_Positions s)\<rparr>) = Inr s2"
    and "s' = v1_emit ev s2" and "f = v1r_FundingPayment x" and "co = c"
proof -
  have "\<exists>m pos x fc d s2 ev. kv_get (v1_Pools s) p = Some m \<and> kv_get (v1_Positions s) (p, t) = Some pos
    \<and> v1_CalcRemainMarginWithFundingPayment E s pos (NewDec (- Amount c)) = Inr x \<and> v1r_BadDebt x = 0
    \<and> pos' = v1_withMargin ctx x pos \<and> v1_calcFreeCollateral E os ctx s m pos' = Inr fc \<and> 0 < fc \<and> v1_quoteDenomE p = Inr d
    \<and> v1_Withdraw E d t (Amount c) (s\<lparr>v1_Positions := kv_insert (pos_Pair pos, t) pos' (v1_Positions s)\<rparr>) = Inr s2
    \<and> s' = v1_emit ev s2 \<and> f = v1r_FundingPayment x \<and> co = c"
    using assms unfolding v1_RemoveMargin_def Let_def
    by (auto simp: v1_GetPool_def res_simps split: if_splits)
  with that show thesis by blast
qed

lemma v1_AddMargin_inv:
  assumes "v1_AddMargin E os ctx p t c s = Inr (s', f, pos')" and inv: "v1_inv E s"
  shows "v1_inv E s'"
proof -
  obtain m pos x s1 ev where pos: "kv_get (v1_Positions s) (p, t) = Some pos"
    and sd: "v1_sendA2M E t VaultModuleAccount (Denom c) (Amount c) s = Inr s1" and pos': "pos' = v1_withMargin ctx x pos"
    and s': "s' = v1_emit ev (s1\<lparr>v1_Positions := kv_insert (pos_Pair pos, t) pos' (v1_Positions s1)\<rparr>)"
    using assms(1) by (rule v1_AddMargin_Inr)
  have o: "owned E (p, t) pos" by (rule v1_invD(6) [OF inv pos])
  then have pp: "pos_Pair pos = p" by (simp add: owned_def)
  have "v1_settles (s\<lparr>v1_Positions := kv_insert (p, t) pos' (v1_Positions s)\<rparr>) s'"
    using v1_settles_trans [OF v1_settles_positions [OF v1_send_settles(3) [OF sd]] v1_settles_basic(2)]
    by (simp add: s' pp)
  then show ?thesis by (rule v1_same_size_inv [OF inv pos, rotated -1]) (use o in \<open>simp_all add: pos' owned_def\<close>)
qed

lemma v1_RemoveMargin_inv:
  assumes "v1_RemoveMargin E os ctx p t c s = Inr (s', co, f, pos')" and inv: "v1_inv E s"
  shows "v1_inv E s'"
proof -
  obtain m pos x fc d s2 ev where pos: "kv_get (v1_Positions s) (p, t) = Some pos" and pos': "pos' = v1_withMargin ctx x pos"
    and w: "v1_Withdraw E d t (Amount c) (s\<lparr>v1_Positions := kv_insert (pos_Pair pos, t) pos' (v1_Positions s)\<rparr>) = Inr s2"
    and s': "s' = v1_emit ev s2"
    using assms(1) by (rule v1_RemoveMargin_Inr)
  have o: "owned E (p, t) pos" by (rule v1_invD(6) [OF inv pos])
  then have pp: "pos_Pair pos = p" by (simp add: owned_def)
  have "v1_settles (s\<lparr>v1_Positions := kv_insert (p, t) pos' (v1_Positions s)\<rparr>) s'"
    using v1_settles_trans [OF v1_Withdraw_settles [OF w] v1_settles_basic(2)] by (simp add: s' pp)
  then show ?thesis by (rule v1_same_size_inv [OF inv pos, rotated -1]) (use o in \<open>simp_all add: pos' owned_def\<close>)
qed


lemma v1_ExecuteFullLiquidation_Inr:
  assumes "v1_ExecuteFullLiquidation E os ctx l pos s = Inr (s', r)"
  obtains m s1 m1 pr s2 s3 ev where "kv_get (v1_Pools s) (pos_Pair pos) = Some m"
    and "v1_closePositionEntirely E os ctx m pos 0 True s = Inr (s1, m1, pr)" and "v1_settles s1 s2"
    and "v1_distributeLiquidateRewards E r s2 = Inr s3" and "s' = v1_emit ev s3" and "lr_PositionResp r = pr"
proof -
  have "\<exists>m s1 m1 pr s2 s3 ev. kv_get (v1_Pools s) (pos_Pair pos) = Some m
    \<and> v1_closePositionEntirely E os ctx m pos 0 True s = Inr (s1, m1, pr) \<and> v1_settles s1 s2
    \<and> v1_distributeLiquidateRewards E r s2 = Inr s3 \<and> s' = v1_emit ev s3 \<and> lr_PositionResp r = pr"
    using assms unfolding v1_ExecuteFullLiquidation_def Let_def
    by (clarsimp simp: v1_GetPool_def bindE_eq_Inr mapErr_eq_Inr getE_eq_Inr split: if_split_asm)
      (use v1_realizeBadDebt_settles in \<open>fastforce+\<close>)
  with that show thesis by blast
qed

lemma v1_ExecuteFullLiquidation_inv:
  assumes "v1_ExecuteFullLiquidation E os ctx l pos s = Inr (s', r)" and inv: "v1_inv E s" and E: "addr_laws E"
    and pos: "kv_get (v1_Positions s) (p, t) = Some pos"
  shows "v1_inv E s'"
proof -
  obtain m s1 m1 pr s2 s3 ev where m: "kv_get (v1_Pools s) (pos_Pair pos) = Some m"
    and c: "v1_closePositionEntirely E os ctx m pos 0 True s = Inr (s1, m1, pr)" and st: "v1_settles s1 s2"
    and d: "v1_distributeLiquidateRewards E r s2 = Inr s3" and s': "s' = v1_emit ev s3"
    using assms(1) by (rule v1_ExecuteFullLiquidation_Inr)
  have pp: "pos_Pair pos = p" using v1_invD(6) [OF inv pos] by (simp add: owned_def)
  have "v1_settles s1 s'"
    using v1_settles_trans [OF v1_settles_trans [OF st v1_distribute_settles [OF d]] v1_settles_basic(2)] by (simp add: s')
  then show ?thesis using v1_settles_inv v1_close_inv(1) [OF c inv E m [unfolded pp] pos] by blast
qed

lemma v1_ExecutePartialLiquidation_Inr:
  assumes "v1_ExecutePartialLiquidation E os ctx l pos s = Inr (s', r)"
  obtains m t n s1 m1 r0 q s3 ev where "kv_get (v1_Pools s) (pos_Pair pos) = Some m"
    and "AccAddressFromBech32 E (TraderAddress pos) = Some t"
    and "v1_decreasePosition E os ctx m pos n 0 True s = Inr (s1, m1, r0)"
    and "q = (resp_Position r0)\<lparr>Margin := Margin (resp_Position r0)
           - dec_Mul E (ExchangedNotionalValue r0) (v1_LiquidationFeeRatio (v1_Params s))\<rparr>"
    and "v1_distributeLiquidateRewards E r (s1\<lparr>v1_Positions := kv_insert (pos_Pair q, t) q (v1_Positions s1)\<rparr>) = Inr s3"
    and "s' = v1_emit ev s3"
proof -
  have "\<exists>m t n s1 m1 r0 q s3 ev. kv_get (v1_Pools s) (pos_Pair pos) = Some m
    \<and> AccAddressFromBech32 E (TraderAddress pos) = Some t
    \<and> v1_decreasePosition E os ctx m pos n 0 True s = Inr (s1, m1, r0)
    \<and> q = (resp_Position r0)\<lparr>Margin := Margin (resp_Position r0)
           - dec_Mul E (ExchangedNotionalValue r0) (v1_LiquidationFeeRatio (v1_Params s))\<rparr>
    \<and> v1_distributeLiquidateRewards E r (s1\<lparr>v1_Positions := kv_insert (pos_Pair q, t) q (v1_Positions s1)\<rparr>) = Inr s3
    \<and> s' = v1_emit ev s3"
    using assms unfolding v1_ExecutePartialLiquidation_def Let_def
    by (clarsimp simp: v1_GetPool_def bindE_eq_Inr mapErr_eq_Inr getE_eq_Inr) blast
  with that show thesis by blast
qed

lemma v1_ExecutePartialLiquidation_inv:
  assumes "v1_ExecutePartialLiquidation E os ctx l pos s = Inr (s', r)" and inv: "v1_inv E s" and E: "addr_laws E"
    and pos: "kv_get (v1_Positions s) (p, t) = Some pos"
  shows "v1_inv E s'"
proof -
  obtain m t' n s1 m1 r0 q s3 ev where m: "kv_get (v1_Pools s) (pos_Pair pos) = Some m"
    and t': "AccAddressFromBech32 E (TraderAddress pos) = Some t'"
    and c: "v1_decreasePosition E os ctx m pos n 0 True s = Inr (s1, m1, r0)"
    and q: "q = (resp_Position r0)\<lparr>Margin := Margin (resp_Position r0)
           - dec_Mul E (ExchangedNotionalValue r0) (v1_LiquidationFeeRatio (v1_Params s))\<rparr>"
    and d: "v1_distributeLiquidateRewards E r (s1\<lparr>v1_Positions := kv_insert (pos_Pair q, t') q (v1_Positions s1)\<rparr>) = Inr s3"
    and s': "s' = v1_emit ev s3"
    using assms(1) by (rule v1_ExecutePartialLiquidation_Inr)
  have o: "owned E (p, t) pos" by (rule v1_invD(6) [OF inv pos])
  then have pp: "pos_Pair pos = p" "t' = t" using t' by (simp_all add: owned_def)
  have m': "kv_get (v1_Pools s) p = Some m" using m pp by simp
  have ow: "owned E (p, t) (resp_Position r0)" "v1_Positions s1 = v1_Positions s"
    using v1_decrease_changed [OF c m' v1_invD(5) [OF inv m'] o] by (simp_all add: v1_changed_def)
  let ?w = "s1\<lparr>v1_Positions := kv_insert (p, t) (resp_Position r0) (v1_Positions s1)\<rparr>"
  have w: "v1_inv E ?w" by (rule v1_dec.change_keeps [OF c E inv m' o]) (use pos in simp_all)
  have "v1_settles (?w\<lparr>v1_Positions := kv_insert (p, t) q (v1_Positions ?w)\<rparr>) s'"
    using v1_settles_trans [OF v1_distribute_settles [OF d] v1_settles_basic(2)] ow
    by (simp add: s' q pp owned_def kv_insert_twice)
  then show ?thesis
    by (rule v1_same_size_inv [OF w, rotated -1, where pos = "resp_Position r0"]) (use ow in \<open>simp_all add: q owned_def\<close>)
qed

lemma v1_Liquidate_Inr:
  assumes "v1_Liquidate E os ctx l p t s = Inr (s', fl, fe)"
  obtains m pos mr r where "kv_get (v1_Pools s) p = Some m" and "kv_get (v1_Positions s) (p, t) = Some pos"
    and "v1_liquidationRatio E os ctx m pos p s = Inr mr"
    and "mr < v1_MaintenanceMarginRatio (v1_Config m)"
    and "v1_ExecutePartialLiquidation E os ctx l pos s = Inr (s', r) \<or> v1_ExecuteFullLiquidation E os ctx l pos s = Inr (s', r)"
proof -
  have "\<exists>m pos mr r. kv_get (v1_Pools s) p = Some m \<and> kv_get (v1_Positions s) (p, t) = Some pos
    \<and> v1_liquidationRatio E os ctx m pos p s = Inr mr \<and> mr < v1_MaintenanceMarginRatio (v1_Config m)
    \<and> (v1_ExecutePartialLiquidation E os ctx l pos s = Inr (s', r) \<or> v1_ExecuteFullLiquidation E os ctx l pos s = Inr (s', r))"
    using assms unfolding v1_Liquidate_def v1_withEvents_def
    by (clarsimp simp: v1_GetPool_def v1_GetMaintenanceMarginRatio_def v1_validateMarginRatio_def bindE_eq_Inr
        mapErr_eq_Inr getE_eq_Inr split: if_split_asm) blast+
  with that show thesis by blast
qed

lemma v1_Liquidate_inv:
  assumes "v1_Liquidate E os ctx l p t s = Inr (s', fl, fe)" and "v1_inv E s" and "addr_laws E"
  shows "v1_inv E s'"
proof -
  obtain m pos mr r where "kv_get (v1_Positions s) (p, t) = Some pos"
    and "v1_ExecutePartialLiquidation E os ctx l pos s = Inr (s', r) \<or> v1_ExecuteFullLiquidation E os ctx l pos s = Inr (s', r)"
    using assms(1) by (rule v1_Liquidate_Inr)
  then show ?thesis
    using v1_ExecutePartialLiquidation_inv [OF _ assms(2,3), of os ctx l pos s' r p t]
      v1_ExecuteFullLiquidation_inv [OF _ assms(2,3), of os ctx l pos s' r p t] by blast
qed

lemma v1_MultiLiquidate_loop_inv:
  "v1_MultiLiquidate_loop E os ctx l reqs s = Inr (s', rs) \<Longrightarrow> v1_inv E s \<Longrightarrow> addr_laws E \<Longrightarrow> v1_inv E s'"
proof (induction E os ctx l reqs s arbitrary: rs rule: v1_MultiLiquidate_loop.induct)
  case (1 E os ctx l s)
  then show ?case by simp
next
  case (2 E os ctx l p tr reqs s)
  obtain t where t: "AccAddressFromBech32 E tr = Some t" using "2.prems"(1) by (auto simp: bindE_eq_Inr getE_eq_Inr)
  have ev: "v1_inv E (s\<lparr>v1_events := []\<rparr>)" by (rule v1_settles_inv [OF v1_settles_basic(4) "2.prems"(2)])
  show ?case
  proof (cases "v1_Liquidate E os ctx l p t (s\<lparr>v1_events := []\<rparr>)")
    case (Inl e)
    obtain evs err where e: "e = (evs, err)" by (cases e)
    show ?thesis using "2.prems" t Inl e "2.IH"(1) [OF Inl [unfolded e] HOL.refl]
      by (auto simp: bindE_eq_Inr split: if_splits)
  next
    case (Inr x)
    obtain c fl fe where x: "x = (c, fl, fe)" by (cases x)
    have "v1_inv E c" by (rule v1_Liquidate_inv [OF Inr [unfolded x] ev "2.prems"(3)])
    then have "v1_inv E (c\<lparr>v1_events := v1_events s @ v1_events c\<rparr>)" by (rule v1_settles_inv [OF v1_settles_basic(4)])
    then show ?thesis using "2.prems" t Inr x "2.IH"(2)
      by (auto simp: bindE_eq_Inr)
  qed
qed


lemma v1_MultiLiquidate_inv:
  "v1_MultiLiquidate E os ctx l reqs s = Inr (s', rs) \<Longrightarrow> v1_inv E s \<Longrightarrow> addr_laws E \<Longrightarrow> v1_inv E s'"
  by (auto simp: v1_MultiLiquidate_def bindE_eq_Inr split: if_splits dest: v1_MultiLiquidate_loop_inv)


section \<open>Changes of a market, funding and the end of a block\<close>

text \<open>Replacing a pool by one with the same pair and the same bias keeps the invariant.\<close>

lemma v1_same_bias_inv:
  assumes inv: "v1_inv E s" and m: "kv_get (v1_Pools s) p = Some m"
    and m': "v1_Pair m' = p" "v1_GetBias m' = v1_GetBias m"
  shows "v1_inv E (s\<lparr>v1_Pools := kv_insert p m' (v1_Pools s)\<rparr>)"
proof -
  let ?s = "s\<lparr>v1_Pools := kv_insert p m' (v1_Pools s)\<rparr>"
  have "v1_bias ?s q = v1_bias s q" for q using m m' by (simp add: v1_bias_def)
  moreover have "v1_pools_keyed ?s" using v1_invD(1) [OF inv] m' by (simp add: v1_pools_keyed_def)
  ultimately show ?thesis using v1_invD(2-4) [OF inv]
    by (simp add: v1_inv_def v1_positions_keyed_def v1_net_def v1_sizes_def del: split_paired_All)
qed

lemma v1_handleMarketUpdateCost_settles [v1_settling]:
  "v1_handleMarketUpdateCost E p c s = Inr s' \<Longrightarrow> v1_settles s s'"
  by (cases "v1_quoteDenomE p"; cases "v1_sendM2M E PerpEFModuleAccount VaultModuleAccount (projr (v1_quoteDenomE p)) c s";
      cases "v1_sendM2M E VaultModuleAccount PerpEFModuleAccount (projr (v1_quoteDenomE p)) (- c) s")
    (auto simp: v1_handleMarketUpdateCost_def split: if_splits dest: v1_send_settles)

lemma v1_EditPoolPegMultiplier_inv:
  assumes "v1_EditPoolPegMultiplier E p peg s = Inr s'" and inv: "v1_inv E s"
  shows "v1_inv E s'"
proof -
  obtain c s1 s2 ev where st: "v1_handleMarketUpdateCost E p c s = Inr s1"
    and ed: "v1k_EditPoolPegMultiplier E p peg s1 = Inr s2" and s': "s' = v1_emit ev s2"
    using assms(1) by (auto simp: v1_EditPoolPegMultiplier_def Let_def bindE_eq_Inr)
  have i1: "v1_inv E s1" by (rule v1_settles_inv [OF v1_handleMarketUpdateCost_settles [OF st] inv])
  obtain m where m: "kv_get (v1_Pools s1) p = Some m"
    and s2: "s2 = s1\<lparr>v1_Pools := kv_insert (v1_Pair m) (m\<lparr>v1_PegMultiplier := peg\<rparr>) (v1_Pools s1)\<rparr>"
    using ed by (auto simp: v1k_EditPoolPegMultiplier_def v1_updatePool_def v1_GetPool_def res_simps Let_def)
  have mp: "v1_Pair m = p" by (rule v1_invD(5) [OF i1 m])
  have "v1_inv E s2"
    unfolding s2 mp by (rule v1_same_bias_inv [OF i1 m]) (simp_all add: mp v1_GetBias_def)
  then show ?thesis using v1_settles_inv [OF v1_settles_basic(2)] s' by blast
qed

lemma v1_UpdateSwapInvariant_Inr:
  "v1_UpdateSwapInvariant E m x = Inr m' \<Longrightarrow>
     v1_Pair m' = v1_Pair m \<and> v1_GetBias m' = v1_GetBias m \<and> v1_Market_Validate E m' = Inr ()
     \<and> v1_PegMultiplier m' = v1_PegMultiplier m \<and> v1_Config m' = v1_Config m"
  by (auto simp: v1_UpdateSwapInvariant_def v1_GetBias_def Let_def res_simps split: option.splits if_splits)

lemma v1_EditPoolSwapInvariant_inv:
  assumes "v1_EditPoolSwapInvariant E p x s = Inr s'" and inv: "v1_inv E s"
  shows "v1_inv E s'"
proof -
  obtain c s1 s2 m' ev where st: "v1_handleMarketUpdateCost E p c s = Inr s1"
    and ed: "v1_EditSwapInvariant E p x s1 = Inr (s2, m')" and s': "s' = v1_emit ev s2"
    using assms(1) by (auto simp: v1_EditPoolSwapInvariant_def Let_def bindE_eq_Inr)
  have i1: "v1_inv E s1" by (rule v1_settles_inv [OF v1_handleMarketUpdateCost_settles [OF st] inv])
  obtain m where m: "kv_get (v1_Pools s1) p = Some m" and u: "v1_UpdateSwapInvariant E m x = Inr m'"
    and s2: "s2 = s1\<lparr>v1_Pools := kv_insert (v1_Pair m') m' (v1_Pools s1)\<rparr>"
    using ed by (auto simp: v1_EditSwapInvariant_def v1_updatePool_def v1_GetPool_def res_simps)
  have mp: "v1_Pair m' = p" using v1_UpdateSwapInvariant_Inr [OF u] v1_invD(5) [OF i1 m] by simp
  have "v1_inv E s2"
    unfolding s2 mp using v1_UpdateSwapInvariant_Inr [OF u] by (intro v1_same_bias_inv [OF i1 m mp]) simp
  then show ?thesis using v1_settles_inv [OF v1_settles_basic(2)] s' by blast
qed

text \<open>Operations that leave pools, positions and metrics alone.\<close>

definition v1_keeps_books :: "'b v1_state \<Rightarrow> 'b v1_state \<Rightarrow> bool" where
  "v1_keeps_books s s' \<longleftrightarrow>
     v1_Pools s' = v1_Pools s \<and> v1_Positions s' = v1_Positions s \<and> v1_Metrics s' = v1_Metrics s"

lemma v1_keeps_books_refl [simp]: "v1_keeps_books s s"
  by (simp add: v1_keeps_books_def)

lemma v1_keeps_books_inv: "v1_keeps_books s s' \<Longrightarrow> v1_inv E s \<Longrightarrow> v1_inv E s'"
  by (simp add: v1_keeps_books_def v1_inv_def v1_pools_keyed_def v1_positions_keyed_def v1_bias_def v1_net_def
      v1_sizes_def del: split_paired_All)

lemma v1_keeps_books_trans: "v1_keeps_books s s1 \<Longrightarrow> v1_keeps_books s1 s2 \<Longrightarrow> v1_keeps_books s s2"
  by (simp add: v1_keeps_books_def)

lemma v1_EndBlocker_books: "v1_EndBlocker_loop D ctx pools s = Inr s' \<Longrightarrow> v1_keeps_books s s'"
proof (induction pools arbitrary: s)
  case Nil
  then show ?case by (simp add: v1_keeps_books_def)
next
  case (Cons pool pools)
  then obtain s1 where "v1_EndBlocker_loop D ctx pools s1 = Inr s'" and "v1_keeps_books s s1"
    by (auto simp: Let_def bindE_eq_Inr v1_keeps_books_def v1_emit_def)
  then show ?case using Cons.IH v1_keeps_books_trans by blast
qed

lemma v1_fundingStep_books: "v1_fundingStep C os es ctx i w md s = Inr s' \<Longrightarrow> v1_keeps_books s s'"
  by (auto simp: v1_fundingStep_def v1_keeps_books_def v1_emit_def Let_def bindE_eq_Inr
      split: if_splits sum.splits)

lemma v1_AfterEpochEnd_loop_books:
  "v1_AfterEpochEnd_loop C os es ctx i w mds s = Inr s' \<Longrightarrow> v1_keeps_books s s'"
proof (induction mds arbitrary: s)
  case Nil
  then show ?case by (simp add: v1_keeps_books_def)
next
  case (Cons md mds)
  then obtain s1 where "v1_fundingStep C os es ctx i w md s = Inr s1"
    and "v1_AfterEpochEnd_loop C os es ctx i w mds s1 = Inr s'" by (auto simp: bindE_eq_Inr)
  then show ?case using Cons.IH v1_fundingStep_books v1_keeps_books_trans by blast
qed

lemma v1_AfterEpochEnd_books: "v1_AfterEpochEnd C os es ctx i s = Inr s' \<Longrightarrow> v1_keeps_books s s'"
  by (auto simp: v1_AfterEpochEnd_def split: if_splits dest: v1_AfterEpochEnd_loop_books)

lemma v1_CreatePool_inv:
  assumes "v1_CreatePool E ctx p q b cfg peg s = Inr s'" and inv: "v1_inv E s" and new: "kv_get (v1_Pools s) p = None"
  shows "v1_inv E s'"
proof -
  obtain m snap where n: "v1_NewMarket E p b q (Some cfg) 0 0 peg = Inr m"
    and s': "s' = s\<lparr>v1_Pools := kv_insert p m (v1_Pools s), v1_Snapshots := kv_insert (p, BlockTime ctx) snap (v1_Snapshots s)\<rparr>"
    using assms(1) by (auto simp: v1_CreatePool_def res_simps)
  have m: "v1_Pair m = p" "v1_GetBias m = 0" using n by (auto simp: v1_NewMarket_def v1_GetBias_def res_simps)
  have "v1_bias s' r = v1_bias s r" for r using m new by (simp add: v1_bias_def s')
  moreover have "v1_pools_keyed s'" using v1_invD(1) [OF inv] m by (simp add: v1_pools_keyed_def s')
  moreover have "v1_net s' = v1_net s" "v1_sizes s' = v1_sizes s" by (simp_all add: fun_eq_iff v1_net_def v1_sizes_def s')
  ultimately show ?thesis using v1_invD(2-4) [OF inv]
    by (simp add: v1_inv_def v1_positions_keyed_def s' del: split_paired_All)
qed

end
