(* ===== verification/V1_Server.thy ===== *)
theory V1_Server
  imports V1_Liquidate
begin

text \<open>
  The boundary of the first version: its parameters (\<^verbatim>\<open>x/perp/types/v1/params.go\<close>), messages
  (\<^verbatim>\<open>msgs.go\<close>), the message and query servers (\<^verbatim>\<open>keeper/v1/msg_server.go\<close>, \<^verbatim>\<open>grpc_query.go\<close>) and the genesis
  (\<^verbatim>\<open>types/v1/genesis.go\<close>, \<^verbatim>\<open>state.go\<close>, \<^verbatim>\<open>module/v1/genesis.go\<close>).
\<close>

section \<open>Parameters\<close>

definition v1_NewParams :: "bool \<Rightarrow> dec \<Rightarrow> dec \<Rightarrow> dec \<Rightarrow> dec \<Rightarrow> string \<Rightarrow> int \<Rightarrow> v1_params" where
  "v1_NewParams stopped feePoolFeeRatio ecosystemFundFeeRatio liquidationFeeRatio partialLiquidationRatio
     fundingRateInterval twapLookbackWindow =
     \<lparr>v1_Stopped = stopped, v1_FeePoolFeeRatio = feePoolFeeRatio,
      v1_EcosystemFundFeeRatio = ecosystemFundFeeRatio, v1_LiquidationFeeRatio = liquidationFeeRatio,
      v1_PartialLiquidationRatio = partialLiquidationRatio, v1_FundingRateInterval = fundingRateInterval,
      v1_TwapLookbackWindow = twapLookbackWindow, v1_WhitelistedLiquidators = []\<rparr>"

definition v1_DefaultParams :: v1_params where
  "v1_DefaultParams =
     v1_NewParams False (PREC div 1000) (PREC div 1000) (25 * PREC div 1000) (PREC div 4) ''30 min''
       (15 * 60 * 1000000000)"

definition v1_validatePercentageRatio :: "dec \<Rightarrow> v1_error + unit" where
  "v1_validatePercentageRatio ratio =
     (if OneDec < ratio then Inl (V1_Text ''ratio is above max value(1.00)'')
      else if ratio < 0 then Inl (V1_Text ''ratio is negative'')
      else Inr ())"

definition v1_validateTwapLookbackWindow :: "int \<Rightarrow> v1_error + unit" where
  "v1_validateTwapLookbackWindow val =
     checkE (\<not> val \<le> 0) (V1_Text ''twap lookback window must be positive'')"

definition v1_validateAddress :: "'b sdk \<Rightarrow> string list \<Rightarrow> v1_error + unit" where
  "v1_validateAddress E addrs =
     v1_each (\<lambda>a. bindE (getE V1_Bech32 (AccAddressFromBech32 E a)) (\<lambda>_. Inr ())) addrs"

definition v1_Params_Validate :: "v1_params \<Rightarrow> v1_error + unit" where
  "v1_Params_Validate p =
     bindE (v1_validatePercentageRatio (v1_LiquidationFeeRatio p)) (\<lambda>_.
     bindE (v1_validatePercentageRatio (v1_FeePoolFeeRatio p)) (\<lambda>_.
     bindE (v1_validatePercentageRatio (v1_PartialLiquidationRatio p)) (\<lambda>_.
     v1_validatePercentageRatio (v1_EcosystemFundFeeRatio p))))"

text \<open>The parameter store runs the validator of every pair and panics when one fails.\<close>

definition v1_ParamSetPairs :: "'b sdk \<Rightarrow> v1_params \<Rightarrow> v1_error + unit" where
  "v1_ParamSetPairs E p =
     bindE (v1_validatePercentageRatio (v1_FeePoolFeeRatio p)) (\<lambda>_.
     bindE (v1_validatePercentageRatio (v1_EcosystemFundFeeRatio p)) (\<lambda>_.
     bindE (v1_validatePercentageRatio (v1_LiquidationFeeRatio p)) (\<lambda>_.
     bindE (v1_validatePercentageRatio (v1_PartialLiquidationRatio p)) (\<lambda>_.
     bindE (v1_validateTwapLookbackWindow (v1_TwapLookbackWindow p)) (\<lambda>_.
     v1_validateAddress E (v1_WhitelistedLiquidators p))))))"

definition v1_SetParams :: "'b sdk \<Rightarrow> v1_params \<Rightarrow> 'b v1_state \<Rightarrow> v1_error + 'b v1_state" where
  "v1_SetParams E p s =
     bindE (mapErr (\<lambda>_. V1_Panic ''invalid parameter'') (v1_ParamSetPairs E p)) (\<lambda>_.
     Inr (s\<lparr>v1_Params := p\<rparr>))"


section \<open>Messages\<close>

record v1_MsgMargin =
  v1m_Sender :: string
  v1m_Pair :: pair
  v1m_Margin :: coin

record v1_MsgOpenPosition =
  v1o_Sender :: string
  v1o_Pair :: pair
  v1o_Side :: Direction
  v1o_QuoteAssetAmount :: int
  v1o_Leverage :: dec
  v1o_BaseAssetAmountLimit :: int

definition v1_validSender :: "'b sdk \<Rightarrow> string \<Rightarrow> v1_error + unit" where
  "v1_validSender E sender = bindE (getE V1_Bech32 (AccAddressFromBech32 E sender)) (\<lambda>_. Inr ())"

definition v1_validPair :: "'b sdk \<Rightarrow> pair \<Rightarrow> v1_error + unit" where
  "v1_validPair E p = bindE (mapErr V1_Asset (Pair_Validate (ValidateDenom E) p)) (\<lambda>_. Inr ())"

text \<open>\<open>MsgAddMargin\<close> and \<open>MsgRemoveMargin\<close> have the same fields and the same checks.\<close>

definition v1_MsgMargin_ValidateBasic :: "'b sdk \<Rightarrow> v1_MsgMargin \<Rightarrow> v1_error + unit" where
  "v1_MsgMargin_ValidateBasic E m =
     bindE (v1_validSender E (v1m_Sender m)) (\<lambda>_.
     bindE (v1_validPair E (v1m_Pair m)) (\<lambda>_.
     bindE (checkE (0 < Amount (v1m_Margin m)) (V1_Text ''margin must be positive'')) (\<lambda>_.
     bindE (v1_quoteDenomE (v1m_Pair m)) (\<lambda>d.
     checkE (Denom (v1m_Margin m) = d) (V1_Text ''invalid margin denom'')))))"

definition v1_MsgOpenPosition_ValidateBasic :: "'b sdk \<Rightarrow> v1_MsgOpenPosition \<Rightarrow> v1_error + unit" where
  "v1_MsgOpenPosition_ValidateBasic E m =
     bindE (checkE (v1o_Side m = SHORT \<or> v1o_Side m = LONG) (V1_Text ''invalid side'')) (\<lambda>_.
     bindE (v1_validPair E (v1o_Pair m)) (\<lambda>_.
     bindE (v1_validSender E (v1o_Sender m)) (\<lambda>_.
     bindE (checkE (0 < v1o_Leverage m) (V1_Text ''leverage must always be greater than zero'')) (\<lambda>_.
     bindE (checkE (\<not> v1o_BaseAssetAmountLimit m < 0) (V1_Text ''base asset amount limit must not be negative'')) (\<lambda>_.
     checkE (0 < v1o_QuoteAssetAmount m) (V1_Text ''quote asset amount must be always greater than zero''))))))"

definition v1_MsgMultiLiquidate_ValidateBasic ::
    "'b sdk \<Rightarrow> string \<Rightarrow> liquidation_request list \<Rightarrow> v1_error + unit" where
  "v1_MsgMultiLiquidate_ValidateBasic E sender liquidations =
     bindE (v1_validSender E sender) (\<lambda>_.
     v1_each (\<lambda>(p, trader). bindE (v1_validSender E trader) (\<lambda>_. v1_validPair E p)) liquidations)"

definition v1_MsgClosePosition_ValidateBasic :: "'b sdk \<Rightarrow> string \<Rightarrow> pair \<Rightarrow> v1_error + unit" where
  "v1_MsgClosePosition_ValidateBasic E sender p =
     bindE (v1_validSender E sender) (\<lambda>_. v1_validPair E p)"

definition v1_MsgDonate_ValidateBasic :: "'b sdk \<Rightarrow> string \<Rightarrow> coin option \<Rightarrow> v1_error + unit" where
  "v1_MsgDonate_ValidateBasic E sender donation =
     bindE (v1_validSender E sender) (\<lambda>_.
     case donation of
       None \<Rightarrow> Inl (V1_Text ''invalid donation amount'')
     | Some c \<Rightarrow> if Amount c < 0 then Inl (V1_Text ''invalid donation amount'') else Inr ())"


section \<open>The message server\<close>

definition v1_mustAddr :: "'b sdk \<Rightarrow> string \<Rightarrow> v1_error + addr" where
  "v1_mustAddr E a = getE (V1_Panic ''invalid address'') (AccAddressFromBech32 E a)"

record v1_MsgOpenPositionResponse =
  v1or_Position :: position
  v1or_ExchangedNotionalValue :: dec
  v1or_ExchangedPositionSize :: dec
  v1or_FundingPayment :: dec
  v1or_RealizedPnl :: dec
  v1or_UnrealizedPnlAfter :: dec
  v1or_MarginToVault :: dec
  v1or_PositionNotional :: dec

record v1_MsgClosePositionResponse =
  v1cr_ExchangedNotionalValue :: dec
  v1cr_ExchangedPositionSize :: dec
  v1cr_FundingPayment :: dec
  v1cr_RealizedPnl :: dec
  v1cr_MarginToTrader :: dec

definition v1_msg_RemoveMargin :: "'b sdk \<Rightarrow> 'c oracle_state \<Rightarrow> block_ctx \<Rightarrow> v1_MsgMargin \<Rightarrow> 'b v1_state \<Rightarrow>
    v1_error + 'b v1_state \<times> coin \<times> dec \<times> position" where
  "v1_msg_RemoveMargin E os ctx msg s =
     bindE (v1_mustAddr E (v1m_Sender msg)) (\<lambda>traderAddr.
     v1_RemoveMargin E os ctx (v1m_Pair msg) traderAddr (v1m_Margin msg) s)"

definition v1_msg_AddMargin :: "'b sdk \<Rightarrow> 'c oracle_state \<Rightarrow> block_ctx \<Rightarrow> v1_MsgMargin \<Rightarrow> 'b v1_state \<Rightarrow>
    v1_error + 'b v1_state \<times> dec \<times> position" where
  "v1_msg_AddMargin E os ctx msg s =
     bindE (v1_mustAddr E (v1m_Sender msg)) (\<lambda>traderAddr.
     v1_AddMargin E os ctx (v1m_Pair msg) traderAddr (v1m_Margin msg) s)"

definition v1_msg_OpenPosition :: "'b sdk \<Rightarrow> 'c oracle_state \<Rightarrow> block_ctx \<Rightarrow> v1_MsgOpenPosition \<Rightarrow> 'b v1_state \<Rightarrow>
    v1_error + 'b v1_state \<times> v1_MsgOpenPositionResponse" where
  "v1_msg_OpenPosition E os ctx req s =
     bindE (v1_mustAddr E (v1o_Sender req)) (\<lambda>traderAddr.
     bindE (v1_OpenPosition E os ctx (v1o_Pair req) (v1o_Side req) traderAddr (v1o_QuoteAssetAmount req)
         (v1o_Leverage req) (NewDec (v1o_BaseAssetAmountLimit req)) s) (\<lambda>(s1, r).
     Inr (s1, \<lparr>v1or_Position = resp_Position r, v1or_ExchangedNotionalValue = ExchangedNotionalValue r,
       v1or_ExchangedPositionSize = ExchangedPositionSize r, v1or_FundingPayment = FundingPaymentApplied r,
       v1or_RealizedPnl = RealizedPnl r, v1or_UnrealizedPnlAfter = UnrealizedPnlAfter r,
       v1or_MarginToVault = MarginToVault r, v1or_PositionNotional = PositionNotional r\<rparr>)))"

definition v1_msg_ClosePosition :: "'b sdk \<Rightarrow> 'c oracle_state \<Rightarrow> block_ctx \<Rightarrow> string \<Rightarrow> pair \<Rightarrow> 'b v1_state \<Rightarrow>
    v1_error + 'b v1_state \<times> v1_MsgClosePositionResponse" where
  "v1_msg_ClosePosition E os ctx sender p s =
     bindE (v1_mustAddr E sender) (\<lambda>traderAddr.
     bindE (v1_ClosePosition E os ctx p traderAddr s) (\<lambda>(s1, r).
     Inr (s1, \<lparr>v1cr_ExchangedNotionalValue = ExchangedNotionalValue r,
       v1cr_ExchangedPositionSize = ExchangedPositionSize r, v1cr_FundingPayment = FundingPaymentApplied r,
       v1cr_RealizedPnl = RealizedPnl r, v1cr_MarginToTrader = - MarginToVault r\<rparr>)))"

definition v1_msg_MultiLiquidate :: "'b sdk \<Rightarrow> 'c oracle_state \<Rightarrow> block_ctx \<Rightarrow> string \<Rightarrow> liquidation_request list \<Rightarrow>
    'b v1_state \<Rightarrow> v1_error + 'b v1_state \<times> v1_liquidation_response list" where
  "v1_msg_MultiLiquidate E os ctx sender reqs s =
     bindE (v1_mustAddr E sender) (\<lambda>liquidator. v1_MultiLiquidate E os ctx liquidator reqs s)"

definition v1_msg_DonateToEcosystemFund :: "'b sdk \<Rightarrow> string \<Rightarrow> coin \<Rightarrow> 'b v1_state \<Rightarrow> v1_error + 'b v1_state" where
  "v1_msg_DonateToEcosystemFund E sender donation s =
     bindE (v1_mustAddr E sender) (\<lambda>a.
     v1_sendA2M E a PerpEFModuleAccount (Denom donation) (Amount donation) s)"


section \<open>Queries\<close>

record v1_position_info =
  v1qi_Position :: position
  v1qi_PositionNotional :: dec
  v1qi_UnrealizedPnl :: dec
  v1qi_MarginRatioMark :: dec
  v1qi_MarginRatioIndex :: "dec option"
  v1qi_BlockNumber :: int

definition v1_query_position :: "'b sdk \<Rightarrow> 'c oracle_state \<Rightarrow> block_ctx \<Rightarrow> 'b v1_state \<Rightarrow> pair \<Rightarrow> addr \<Rightarrow>
    v1_error + v1_position_info" where
  "v1_query_position E os ctx s p trader =
     bindE (getE V1_NotFound (kv_get (v1_Positions s) (p, trader))) (\<lambda>pos.
     bindE (mapErr (\<lambda>_. V1_PairNotFound) (v1_GetPool s p)) (\<lambda>m.
     bindE (v1_getPositionNotionalAndUnrealizedPnL E os ctx s m pos PNL_SPOT_PRICE)
       (\<lambda>(positionNotional, unrealizedPnl).
     bindE (v1_GetMarginRatio E os ctx s m pos MARGIN_MAX_PNL) (\<lambda>marginRatioMark.
     bindE (case v1_GetMarginRatio E os ctx s m pos MARGIN_INDEX of
              Inl e \<Rightarrow> if v1_isPanic e then Inl e else Inr None
            | Inr r \<Rightarrow> Inr (Some r)) (\<lambda>marginRatioIndex.
     Inr \<lparr>v1qi_Position = pos, v1qi_PositionNotional = positionNotional, v1qi_UnrealizedPnl = unrealizedPnl,
          v1qi_MarginRatioMark = marginRatioMark, v1qi_MarginRatioIndex = marginRatioIndex,
          v1qi_BlockNumber = BlockHeight ctx\<rparr>)))))"

definition v1_QueryPosition :: "'b sdk \<Rightarrow> 'c oracle_state \<Rightarrow> block_ctx \<Rightarrow> 'b v1_state \<Rightarrow> (pair \<times> string) option \<Rightarrow>
    v1_error + v1_position_info" where
  "v1_QueryPosition E os ctx s req =
     bindE (getE (V1_Text ''invalid request'') req) (\<lambda>(p, trader).
     bindE (getE V1_Bech32 (AccAddressFromBech32 E trader)) (\<lambda>traderAddr.
     v1_query_position E os ctx s p traderAddr))"

fun v1_positions_loop :: "'b sdk \<Rightarrow> 'c oracle_state \<Rightarrow> block_ctx \<Rightarrow> 'b v1_state \<Rightarrow> addr \<Rightarrow> v1_market list \<Rightarrow>
    v1_error + v1_position_info list" where
  "v1_positions_loop E os ctx s trader [] = Inr []"
| "v1_positions_loop E os ctx s trader (pool # pools) =
     bindE (case v1_query_position E os ctx s (v1_Pair pool) trader of
              Inl e \<Rightarrow> if v1_isPanic e then Inl e else Inr []
            | Inr i \<Rightarrow> Inr [i]) (\<lambda>here.
     bindE (v1_positions_loop E os ctx s trader pools) (\<lambda>rest. Inr (here @ rest)))"

definition v1_QueryPositions :: "'b sdk \<Rightarrow> 'c oracle_state \<Rightarrow> block_ctx \<Rightarrow> 'b v1_state \<Rightarrow> string option \<Rightarrow>
    v1_error + v1_position_info list" where
  "v1_QueryPositions E os ctx s req =
     bindE (getE (V1_Text ''invalid request'') req) (\<lambda>trader.
     bindE (getE V1_Bech32 (AccAddressFromBech32 E trader)) (\<lambda>traderAddr.
     v1_positions_loop E os ctx s traderAddr (v1_GetAllPools s)))"

definition v1_query_Params :: "'b v1_state \<Rightarrow> unit option \<Rightarrow> v1_error + v1_params" where
  "v1_query_Params s req = bindE (getE (V1_Text ''invalid request'') req) (\<lambda>_. Inr (v1_Params s))"

definition v1_query_CumulativePremiumFraction :: "'b chain_sdk \<Rightarrow> 'b oracle_state \<Rightarrow> epochs_store \<Rightarrow> block_ctx \<Rightarrow>
    'b v1_state \<Rightarrow> pair option \<Rightarrow> v1_error + dec \<times> dec" where
  "v1_query_CumulativePremiumFraction E os es ctx s req =
     bindE (getE (V1_Text ''invalid request'') req) (\<lambda>p.
     bindE (getE (V1_Text ''could not find pair'') (kv_get (v1_PairsMetadata s) p)) (\<lambda>md.
     bindE (checkE (v1_ExistsPool s (v1pm_Pair md)) (V1_Text ''could not find pair'')) (\<lambda>_.
     bindE (mapErr (\<lambda>e. if e = DivideByZero then V1_Panic ''division by zero''
                         else V1_Text ''failed to fetch twap index price'')
              (GetExchangeRateTwap E ctx os (v1pm_Pair md))) (\<lambda>indexTWAP.
     bindE (checkE (indexTWAP \<noteq> 0) (V1_Text ''twap index price is zero'')) (\<lambda>_.
     bindE (mapErr (\<lambda>e. if v1_isPanic e then e else V1_Text ''failed to fetch twap mark price'')
              (v1_GetMarkPriceTWAP E ctx s (v1pm_Pair md) (v1_TwapLookbackWindow (v1_Params s)))) (\<lambda>markTwap.
     bindE (checkE (markTwap \<noteq> 0) (V1_Text ''twap mark price is zero'')) (\<lambda>_.
     bindE (mapErr (\<lambda>_. V1_Panic ''epoch not found'')
              (GetEpochInfo es (v1_FundingRateInterval (v1_Params s)))) (\<lambda>epochInfo.
     if Duration epochInfo = 0 then Inl (V1_Panic ''division by zero'')
     else
     let intervalsPerDay = go_quo 86400000000000 (Duration epochInfo) in
     if intervalsPerDay = 0 then Inl (V1_Panic ''division by zero'')
     else
     let premiumFraction = dec_QuoInt64 E (markTwap - indexTWAP) intervalsPerDay
     in Inr (v1pm_LatestCumulativePremiumFraction md,
             v1pm_LatestCumulativePremiumFraction md + premiumFraction)))))))))"

definition v1_query_Metrics :: "'b v1_state \<Rightarrow> pair option \<Rightarrow> v1_error + v1_metrics" where
  "v1_query_Metrics s req =
     bindE (getE (V1_Text ''invalid request'') req) (\<lambda>p.
     bindE (checkE (v1_ExistsPool s p) (V1_Text ''pool not found'')) (\<lambda>_.
     Inr (case kv_get (v1_Metrics s) p of
            None \<Rightarrow> \<lparr>v1x_Pair = p, v1x_NetSize = 0, v1x_VolumeQuote = 0, v1x_VolumeBase = 0\<rparr>
          | Some x \<Rightarrow> x)))"

definition v1_ModuleAccounts :: "string list" where
  "v1_ModuleAccounts = [''perp'', VaultModuleAccount, PerpEFModuleAccount, FeePoolModuleAccount, ''treasury_pool'']"

definition v1_query_ModuleAccounts :: "'b chain_sdk \<Rightarrow> 'b v1_state \<Rightarrow> (string \<times> string \<times> coin list) list" where
  "v1_query_ModuleAccounts E s =
     map (\<lambda>acc. let account = GetModuleAddress E acc
                in (acc, AccAddressString E account, GetAllBalances E (v1_bank s) account)) v1_ModuleAccounts"


section \<open>Genesis\<close>

record v1_genesis =
  v1g_Params :: v1_params
  v1g_PairMetadata :: "v1_pair_metadata list"
  v1g_Positions :: "position list"
  v1g_PrepaidBadDebts :: "coin list"

definition v1_DefaultGenesis :: v1_genesis where
  "v1_DefaultGenesis = \<lparr>v1g_Params = v1_DefaultParams, v1g_PairMetadata = [], v1g_Positions = [],
     v1g_PrepaidBadDebts = []\<rparr>"

definition v1_Position_Validate :: "'b sdk \<Rightarrow> position \<Rightarrow> v1_error + unit" where
  "v1_Position_Validate E p =
     bindE (v1_validSender E (TraderAddress p)) (\<lambda>_.
     bindE (v1_validPair E (pos_Pair p)) (\<lambda>_.
     if Size p = 0 then Inl (V1_Text ''zero size'')
     else if Margin p < 0 \<or> Margin p = 0 then Inl (V1_Text ''margin <= 0'')
     else if OpenNotional p < 0 \<or> OpenNotional p = 0 then Inl (V1_Text ''open notional <= 0'')
     else if LastUpdatedBlockNumber p < 0 then Inl (V1_Text ''invalid block number'')
     else Inr ()))"

definition v1_PairMetadata_Validate :: "'b sdk \<Rightarrow> v1_pair_metadata \<Rightarrow> v1_error + unit" where
  "v1_PairMetadata_Validate E md = v1_validPair E (v1pm_Pair md)"

definition v1_PrepaidBadDebt_Validate :: "'b sdk \<Rightarrow> coin \<Rightarrow> v1_error + unit" where
  "v1_PrepaidBadDebt_Validate E c =
     (if \<not> ValidateDenom E (Denom c) then Inl (V1_Text ''invalid denom'')
      else if Amount c < 0 then Inl (V1_Text ''negative coin amount'')
      else Inr ())"

definition v1_Genesis_Validate :: "'b sdk \<Rightarrow> v1_genesis \<Rightarrow> v1_error + unit" where
  "v1_Genesis_Validate E gs =
     bindE (v1_Params_Validate (v1g_Params gs)) (\<lambda>_.
     bindE (v1_each (v1_Position_Validate E) (v1g_Positions gs)) (\<lambda>_.
     bindE (v1_each (v1_PairMetadata_Validate E) (v1g_PairMetadata gs)) (\<lambda>_.
     v1_each (v1_PrepaidBadDebt_Validate E) (v1g_PrepaidBadDebts gs))))"

fun v1_init_metadata :: "v1_pair_metadata list \<Rightarrow> 'b v1_state \<Rightarrow> 'b v1_state" where
  "v1_init_metadata [] s = s"
| "v1_init_metadata (md # mds) s =
     v1_init_metadata mds (s\<lparr>v1_PairsMetadata := kv_insert (v1pm_Pair md) md (v1_PairsMetadata s)\<rparr>)"

fun v1_init_positions :: "'b sdk \<Rightarrow> position list \<Rightarrow> 'b v1_state \<Rightarrow> v1_error + 'b v1_state" where
  "v1_init_positions E [] s = Inr s"
| "v1_init_positions E (p # ps) s =
     bindE (v1_mustAddr E (TraderAddress p)) (\<lambda>a.
     v1_init_positions E ps (s\<lparr>v1_Positions := kv_insert (pos_Pair p, a) p (v1_Positions s)\<rparr>))"

fun v1_init_prepaid :: "coin list \<Rightarrow> 'b v1_state \<Rightarrow> 'b v1_state" where
  "v1_init_prepaid [] s = s"
| "v1_init_prepaid (c # cs) s =
     v1_init_prepaid cs (s\<lparr>v1_PrepaidBadDebt := kv_insert (Denom c) c (v1_PrepaidBadDebt s)\<rparr>)"

definition v1_InitGenesis :: "'b sdk \<Rightarrow> v1_genesis \<Rightarrow> 'b v1_state \<Rightarrow> v1_error + 'b v1_state" where
  "v1_InitGenesis E gs s =
     (let s1 = v1_init_metadata (v1g_PairMetadata gs) s in
      bindE (v1_init_positions E (v1g_Positions gs) s1) (\<lambda>s2.
      bindE (v1_SetParams E (v1g_Params gs) s2) (\<lambda>s3.
      Inr (v1_init_prepaid (v1g_PrepaidBadDebts gs) s3))))"

definition v1_ExportGenesis :: "'b v1_state \<Rightarrow> v1_genesis" where
  "v1_ExportGenesis s =
     \<lparr>v1g_Params = v1_Params s, v1g_PairMetadata = kv_values (v1_PairsMetadata s),
      v1g_Positions = kv_values (v1_Positions s), v1g_PrepaidBadDebts = kv_values (v1_PrepaidBadDebt s)\<rparr>"

end
