(* ===== verification/V1_Safety.thy ===== *)
theory V1_Safety
  imports V1_Invariant V1_Server Perp_Flows
begin

text \<open>
  What the first version of the module guarantees: the ledgers of open interest agree along any run,
  trades stay in the price band, a position that could be opened cannot be liquidated at once, and
  closing a position pays its equity less the fees.
\<close>

section \<open>Runs\<close>

text \<open>
  The operations of the module and its market maker, with any block and any prices.  Left out are the
  edit of a pool's configuration, which forgets the totals, the creation of a pool over an existing
  one, and a trade that brings a position to size zero without closing it, which leaves the old
  position stored.
\<close>

inductive v1_step :: "'b sdk \<Rightarrow> 'b chain_sdk \<Rightarrow> 'b v1_state \<Rightarrow> 'b v1_state \<Rightarrow> bool" for E C where
  open_position: "v1_step E C s s'"
    if "v1_OpenPosition E (os :: 'b oracle_state) ctx p side t q lev lim s = Inr (s', r)" "side = LONG \<or> side = SHORT"
      "Size (resp_Position r) \<noteq> 0 \<or> kv_get (v1_Positions s') (p, t) = None"
| close_position: "v1_step E C s s'" if "v1_ClosePosition E (os :: 'b oracle_state) ctx p t s = Inr (s', r)"
| add_margin: "v1_step E C s s'" if "v1_AddMargin E (os :: 'b oracle_state) ctx p t c s = Inr (s', f, pos)"
| remove_margin: "v1_step E C s s'" if "v1_RemoveMargin E (os :: 'b oracle_state) ctx p t c s = Inr (s', co, f, pos)"
| multi_liquidate: "v1_step E C s s'" if "v1_MultiLiquidate E (os :: 'b oracle_state) ctx l reqs s = Inr (s', rs)"
| donate: "v1_step E C s s'" if "v1_msg_DonateToEcosystemFund E sender c s = Inr s'"
| edit_peg: "v1_step E C s s'" if "v1_EditPoolPegMultiplier E p peg s = Inr s'"
| edit_invariant: "v1_step E C s s'" if "v1_EditPoolSwapInvariant E p x s = Inr s'"
| create_pool: "v1_step E C s s'"
    if "v1_CreatePool E ctx p q b cfg peg s = Inr s'" "kv_get (v1_Pools s) p = None"
| end_block: "v1_step E C s s'" if "v1_EndBlocker E ctx s = Inr s'"
| epoch_end: "v1_step E C s s'" if "v1_AfterEpochEnd C (os :: 'b oracle_state) es ctx i s = Inr s'"

inductive_simps v1_step_iff: "v1_step E C s s'"

lemma v1_step_inv: "v1_step E C s s' \<Longrightarrow> addr_laws E \<Longrightarrow> dec_laws E \<Longrightarrow> v1_inv E s \<Longrightarrow> v1_inv E s'"
proof (induction rule: v1_step.induct)
  case (open_position os ctx p side t q lev lim s s' r)
  show ?case by (rule v1_OpenPosition_inv [OF open_position(1,6,4,5,2,3)])
next
  case (close_position os ctx p t s s' r)
  then show ?case by (blast intro: v1_ClosePosition_inv(1))
next
  case (add_margin os ctx p t c s s' f pos)
  then show ?case by (blast intro: v1_AddMargin_inv)
next
  case (remove_margin os ctx p t c s s' co f pos)
  then show ?case by (blast intro: v1_RemoveMargin_inv)
next
  case (multi_liquidate os ctx l reqs s s' rs)
  then show ?case by (blast intro: v1_MultiLiquidate_inv)
next
  case (donate sender c s s')
  then show ?case
    by (auto simp: v1_msg_DonateToEcosystemFund_def bindE_eq_Inr dest: v1_send_settles(3) intro: v1_settles_inv)
next
  case (edit_peg p peg s s')
  then show ?case by (blast intro: v1_EditPoolPegMultiplier_inv)
next
  case (edit_invariant p x s s')
  then show ?case by (blast intro: v1_EditPoolSwapInvariant_inv)
next
  case (create_pool ctx p q b cfg peg s s')
  then show ?case by (blast intro: v1_CreatePool_inv)
next
  case (end_block ctx s s')
  show ?case by (rule v1_keeps_books_inv [OF v1_EndBlocker_books [OF end_block(1) [unfolded v1_EndBlocker_def]] end_block(4)])
next
  case (epoch_end os es ctx i s s')
  then show ?case by (blast intro: v1_keeps_books_inv dest: v1_AfterEpochEnd_books)
qed



section \<open>The price band\<close>

text \<open>
  C14: a position opened, increased, reduced or reversed by a trader leaves the price of its pool within
  the fluctuation limit of the last snapshot, whenever the pool has such a limit.
\<close>

theorem v1_open_stays_in_band:
  assumes "v1_OpenPosition E os ctx p side t q lev lim s = Inr (s', r)" and "v1_inv E s" and "addr_laws E"
    and "dec_laws E" and "side = LONG \<or> side = SHORT"
  shows "\<exists>m'. kv_get (v1_Pools s') p = Some m'
    \<and> (v1_FluctuationLimitRatio (v1_Config m') = 0 \<or> (\<exists>snap. v1_GetLastSnapshot s m' = Inr snap \<and> v1_in_band E snap m'))"
proof -
  obtain m pos s1 m1 where pr: "v1_priced E s p (v1_Config m) s1 m1"
    and u: "v1_afterPositionUpdate E os ctx m1 t r s1 = Inr s'" and m: "kv_get (v1_Pools s) p = Some m"
    using assms by (rule v1_OpenPosition_trade)
  have "v1_Pools s' = v1_Pools s1"
    using u by (rule v1_afterPositionUpdate_Inr) (auto simp: v1_settles_def split: if_splits)
  then have "kv_get (v1_Pools s') p = Some m1" using pr by (simp add: v1_priced_def)
  moreover have "v1_checkFluctuationLimitRatio E s m1 = Inr ()" using pr by (simp add: v1_priced_def)
  ultimately show ?thesis using v1_checkFluctuation_band by blast
qed


section \<open>Liquidations\<close>

lemma v1_MarginRatio_cong:
  assumes "v1_settles s s'"
  shows "v1_GetMarginRatio E os ctx s' m pos opt = v1_GetMarginRatio E os ctx s m pos opt"
proof -
  have n: "v1_getPositionNotionalAndUnrealizedPnL E os ctx s' m pos o' = v1_getPositionNotionalAndUnrealizedPnL E os ctx s m pos o'" for o'
    using assms
    by (cases o') (simp_all add: v1_getPositionNotionalAndUnrealizedPnL_def v1_GetBaseAssetTWAP_def v1k_calcTwap_def
        v1_settles_def Let_def)
  have c: "v1_CalcRemainMarginWithFundingPayment E s' pos d = v1_CalcRemainMarginWithFundingPayment E s pos d" for d
    using assms by (simp add: v1_CalcRemainMarginWithFundingPayment_def v1_getLatestCumulativePremiumFraction_def v1_settles_def)
  show ?thesis unfolding v1_GetMarginRatio_def v1_GetPreference_def n c by (rule HOL.refl)
qed

lemma v1_liquidationRatio_ge:
  assumes "v1_liquidationRatio E os ctx m pos p s = Inr mr"
  obtains mr0 where "v1_GetMarginRatio E os ctx s m pos MARGIN_MAX_PNL = Inr mr0" and "mr0 \<le> mr"
  using assms by (auto simp: v1_liquidationRatio_def bindE_eq_Inr split: if_splits)




section \<open>What a trader is paid\<close>

abbreviation v1_bal :: "'b sdk \<Rightarrow> 'b v1_state \<Rightarrow> addr \<Rightarrow> denom \<Rightarrow> int" where
  "v1_bal E s a d \<equiv> GetBalance E (v1_bank s) a d"

abbreviation v1_treasury :: "'b sdk \<Rightarrow> 'b v1_state \<Rightarrow> denom \<Rightarrow> int" where
  "v1_treasury E s d \<equiv> v1_bal E s (GetModuleAddress E VaultModuleAccount) d
     + v1_bal E s (GetModuleAddress E PerpEFModuleAccount) d"

lemma v1_transfer_zero: "Amount c = 0 \<Longrightarrow> transfer a b c bal = bal"
  by (simp add: transfer_def fun_eq_iff)

lemma v1_newCoinE_Inr:
  "coin_laws E \<Longrightarrow> v1_newCoinE E d n = Inr c \<Longrightarrow> c = \<lparr>Denom = d, Amount = n\<rparr>"
  by (auto simp: v1_newCoinE_def res_simps dest: coin_lawsD)

text \<open>Every transfer has the same shape: a coin is made, a zero coin is not sent.\<close>

lemma v1_sent:
  assumes "coin_laws E"
    and "bindE (v1_newCoinE E d n) (\<lambda>c. if Amount c = 0 then Inr s
      else bindE (mapErr V1_Bank (send c)) (\<lambda>b. Inr (s\<lparr>v1_bank := b\<rparr>))) = Inr s'"
    and "\<And>b. send \<lparr>Denom = d, Amount = n\<rparr> = Inr b \<Longrightarrow>
      GetBalance E b = transfer x y \<lparr>Denom = d, Amount = n\<rparr> (GetBalance E (v1_bank s))"
  shows "GetBalance E (v1_bank s') = transfer x y \<lparr>Denom = d, Amount = n\<rparr> (GetBalance E (v1_bank s))"
proof -
  obtain c where "v1_newCoinE E d n = Inr c"
    and r: "(if Amount c = 0 then Inr s else bindE (mapErr V1_Bank (send c)) (\<lambda>b. Inr (s\<lparr>v1_bank := b\<rparr>))) = Inr s'"
    using assms(2) unfolding bindE_eq_Inr by blast
  then have c: "c = \<lparr>Denom = d, Amount = n\<rparr>" using v1_newCoinE_Inr [OF assms(1)] by simp
  show ?thesis
  proof (cases "n = 0")
    case True
    with r c show ?thesis by (simp add: v1_transfer_zero)
  next
    case False
    then obtain b where "send c = Inr b" and s': "s' = s\<lparr>v1_bank := b\<rparr>" using r c by (auto simp: res_simps)
    from assms(3) this(1) c show ?thesis by (simp add: s')
  qed
qed

lemma v1_sendM2M_Inr:
  assumes "sdk_laws E" and "v1_sendM2M E f g d n s = Inr s'"
  shows "GetBalance E (v1_bank s') = transfer (GetModuleAddress E f) (GetModuleAddress E g) \<lparr>Denom = d, Amount = n\<rparr> (GetBalance E (v1_bank s))"
  using assms(2) unfolding v1_sendM2M_def
  by (rule v1_sent [OF sdk_lawsD(3) [OF assms(1)]])
    (rule conjunct1 [OF bank_keeper.m2m_ok [OF bank_lawsD [OF sdk_lawsD(2) [OF assms(1)]]]])

lemma v1_sendM2A_Inr:
  assumes "sdk_laws E" and "v1_sendM2A E f a d n s = Inr s'"
  shows "GetBalance E (v1_bank s') = transfer (GetModuleAddress E f) a \<lparr>Denom = d, Amount = n\<rparr> (GetBalance E (v1_bank s))"
  using assms(2) unfolding v1_sendM2A_def
  by (rule v1_sent [OF sdk_lawsD(3) [OF assms(1)]])
    (rule conjunct1 [OF bank_keeper.m2a_ok [OF bank_lawsD [OF sdk_lawsD(2) [OF assms(1)]]]])

lemma v1_sendA2M_Inr:
  assumes "sdk_laws E" and "v1_sendA2M E a g d n s = Inr s'"
  shows "GetBalance E (v1_bank s') = transfer a (GetModuleAddress E g) \<lparr>Denom = d, Amount = n\<rparr> (GetBalance E (v1_bank s))"
  using assms(2) unfolding v1_sendA2M_def
  by (rule v1_sent [OF sdk_lawsD(3) [OF assms(1)]])
    (rule conjunct1 [OF bank_keeper.a2m_ok [OF bank_lawsD [OF sdk_lawsD(2) [OF assms(1)]]]])

lemmas v1_send_Inr = v1_sendM2M_Inr v1_sendM2A_Inr v1_sendA2M_Inr

lemma v1_modules:
  assumes "sdk_laws E"
  shows "GetModuleAddress E VaultModuleAccount \<noteq> GetModuleAddress E PerpEFModuleAccount"
    and "GetModuleAddress E VaultModuleAccount \<noteq> GetModuleAddress E FeePoolModuleAccount"
    and "GetModuleAddress E PerpEFModuleAccount \<noteq> GetModuleAddress E FeePoolModuleAccount"
  using sdk_lawsD(5) [OF assms] by (auto simp: accounts_distinct_def)

lemma v1_send_prepaid:
  "v1_sendM2M E f g d n s = Inr s' \<Longrightarrow> v1_prepaid s' e = v1_prepaid s e"
  "v1_sendM2A E f a d n s = Inr s' \<Longrightarrow> v1_prepaid s' e = v1_prepaid s e"
  by (auto simp: v1_sendM2M_def v1_sendM2A_def v1_prepaid_def bindE_eq_Inr split: if_splits)

lemma v1_Withdraw_flows:
  assumes E: "sdk_laws E" and t: "outsider E t" and w: "v1_Withdraw E d t n s = Inr s'" and n: "0 < n"
  shows "v1_bal E s' t d = v1_bal E s t d + n" and "v1_treasury E s' d = v1_treasury E s d - n"
    and "v1_prepaid s' d = v1_prepaid s d + max 0 (n - v1_bal E s (GetModuleAddress E VaultModuleAccount) d)"
proof -
  let ?v = "v1_bal E s (GetModuleAddress E VaultModuleAccount) d"
  note pre = v1_send_prepaid
  have bank: "v1_bank (v1_setPrepaid d k s) = v1_bank s" "v1_prepaid (v1_setPrepaid d k s) d = k" for k
    by (simp_all add: v1_setPrepaid_def v1_prepaid_def)
  have "v1_bal E s' t d = v1_bal E s t d + n \<and> v1_treasury E s' d = v1_treasury E s d - n
    \<and> v1_prepaid s' d = v1_prepaid s d + max 0 (n - ?v)"
  proof (cases "?v < n")
    case True
    let ?s = "v1_setPrepaid d (v1_prepaid s d + (n - ?v)) s"
    from w n True obtain s1 where s1: "v1_sendM2M E PerpEFModuleAccount VaultModuleAccount d (n - ?v) ?s = Inr s1"
      and s': "v1_sendM2A E VaultModuleAccount t d n s1 = Inr s'"
      by (auto simp: v1_Withdraw_def Let_def v1_IncrementPrepaidBadDebt_def bindE_eq_Inr)
    show ?thesis
      using v1_send_Inr(1) [OF E s1] v1_send_Inr(2) [OF E s'] outsiderD [OF t] v1_modules [OF E] True
        pre(1) [OF s1] pre(2) [OF s']
      by (simp add: transfer_def bank)
  next
    case False
    then have s': "v1_sendM2A E VaultModuleAccount t d n s = Inr s'" using w n by (simp add: v1_Withdraw_def Let_def)
    show ?thesis
      using v1_send_Inr(2) [OF E s'] outsiderD [OF t] v1_modules [OF E] False pre(2) [OF s']
      by (simp add: transfer_def)
  qed
  then show "v1_bal E s' t d = v1_bal E s t d + n" "v1_treasury E s' d = v1_treasury E s d - n"
    "v1_prepaid s' d = v1_prepaid s d + max 0 (n - ?v)" by simp_all
qed

lemma v1_settleMargin_flows:
  assumes E: "sdk_laws E" and t: "outsider E t" and s': "v1_settleMargin E p t n s = Inr s'"
    and d: "QuoteDenom p = Inr d"
  shows "v1_bal E s' t d = v1_bal E s t d - n" and "v1_treasury E s' d = v1_treasury E s d + n"
proof -
  have dd: "v1_quoteDenomE p = Inr d" using d by (simp add: v1_quoteDenomE_def)
  consider "0 < n" | "n < 0" | "n = 0" by linarith
  then have "v1_bal E s' t d = v1_bal E s t d - n \<and> v1_treasury E s' d = v1_treasury E s d + n"
  proof cases
    case 1
    then have "v1_sendA2M E t VaultModuleAccount d n s = Inr s'" using s' dd by (simp add: v1_settleMargin_def)
    from v1_send_Inr(3) [OF E this] show ?thesis using outsiderD [OF t] v1_modules [OF E] by (simp add: transfer_def)
  next
    case 2
    then have w: "v1_Withdraw E d t \<bar>n\<bar> s = Inr s'" using s' dd by (simp add: v1_settleMargin_def)
    from 2 show ?thesis using v1_Withdraw_flows(1,2) [OF E t w] by simp
  next
    case 3
    then show ?thesis using s' by (simp add: v1_settleMargin_def)
  qed
  then show "v1_bal E s' t d = v1_bal E s t d - n" "v1_treasury E s' d = v1_treasury E s d + n" by simp_all
qed

text \<open>The two fees of a trade: nothing is taken when a fee rounds to zero or below.\<close>

definition v1_feePoolFee :: "'b sdk \<Rightarrow> v1_params \<Rightarrow> dec \<Rightarrow> int" where
  "v1_feePoolFee E pa n = max 0 (dec_RoundInt E (dec_Mul E (v1_FeePoolFeeRatio pa) n))"

definition v1_ecosystemFee :: "'b sdk \<Rightarrow> v1_params \<Rightarrow> dec \<Rightarrow> int" where
  "v1_ecosystemFee E pa n = max 0 (dec_RoundInt E (dec_Mul E (v1_EcosystemFundFeeRatio pa) n))"

lemma v1_optional_send:
  assumes E: "sdk_laws E" and t: "outsider E t" and d: "QuoteDenom p = Inr d"
    and s': "(if 0 < n then bindE (v1_quoteDenomE p) (\<lambda>d. v1_sendA2M E t g d n s) else Inr s) = Inr s'"
    and g: "GetModuleAddress E g \<noteq> t"
  shows "v1_bal E s' t d = v1_bal E s t d - max 0 n"
    and "v1_bal E s' (GetModuleAddress E g) d = v1_bal E s (GetModuleAddress E g) d + max 0 n"
    and "a \<noteq> t \<Longrightarrow> a \<noteq> GetModuleAddress E g \<Longrightarrow> v1_bal E s' a d = v1_bal E s a d"
  using s' d g v1_send_Inr(3) [OF E, of t g d n s s']
  by (auto simp: v1_quoteDenomE_def transfer_def split: if_splits)

lemma v1_transferFee_flows:
  assumes E: "sdk_laws E" and t: "outsider E t" and f: "v1_transferFee E p t n s = Inr (s', fee)"
    and d: "QuoteDenom p = Inr d"
  shows "v1_bal E s' t d = v1_bal E s t d - v1_feePoolFee E (v1_Params s) n - v1_ecosystemFee E (v1_Params s) n"
    and "v1_treasury E s' d = v1_treasury E s d + v1_ecosystemFee E (v1_Params s) n"
proof -
  let ?f1 = "dec_RoundInt E (dec_Mul E (v1_FeePoolFeeRatio (v1_Params s)) n)"
  let ?f2 = "dec_RoundInt E (dec_Mul E (v1_EcosystemFundFeeRatio (v1_Params s)) n)"
  obtain s1 where
    a: "(if 0 < ?f1 then bindE (v1_quoteDenomE p) (\<lambda>d. v1_sendA2M E t FeePoolModuleAccount d ?f1 s) else Inr s) = Inr s1"
    and b: "(if 0 < ?f2 then bindE (v1_quoteDenomE p) (\<lambda>d. v1_sendA2M E t PerpEFModuleAccount d ?f2 s1) else Inr s1) = Inr s'"
    using f unfolding v1_transferFee_def Let_def bindE_eq_Inr by auto
  note fa = v1_optional_send [OF E t d a outsiderD(3) [OF t]] and fb = v1_optional_send [OF E t d b outsiderD(2) [OF t]]
  show "v1_bal E s' t d = v1_bal E s t d - v1_feePoolFee E (v1_Params s) n - v1_ecosystemFee E (v1_Params s) n"
    using fa(1) fb(1) by (simp add: v1_feePoolFee_def v1_ecosystemFee_def)
  show "v1_treasury E s' d = v1_treasury E s d + v1_ecosystemFee E (v1_Params s) n"
    using fa(3) fb(2,3) outsiderD [OF t] v1_modules [OF E] by (simp add: v1_ecosystemFee_def)
qed

text \<open>
  C13: closing a position pays the trader the equity of the position (its margin, its profit at the price
  of the pool and its funding), rounded to a whole coin, less the two fees; the vault and the
  ecosystem fund together lose the equity and gain the second fee.
\<close>

theorem v1_ClosePosition_pays_equity:
  assumes "v1_ClosePosition E os ctx p t s = Inr (s', r)" and "kv_get (v1_Positions s) (p, t) = Some pos"
    and "v1_inv E s" and "sdk_laws E" and "outsider E t" and "QuoteDenom p = Inr d"
  defines "equity \<equiv> Margin pos + RealizedPnl r - FundingPaymentApplied r"
  shows "0 \<le> equity
    \<and> v1_bal E s' t d = v1_bal E s t d + dec_RoundInt E equity
        - v1_feePoolFee E (v1_Params s) (ExchangedNotionalValue r) - v1_ecosystemFee E (v1_Params s) (ExchangedNotionalValue r)
    \<and> v1_treasury E s' d = v1_treasury E s d - dec_RoundInt E equity
        + v1_ecosystemFee E (v1_Params s) (ExchangedNotionalValue r)"
proof -
  obtain pos0 m s1 m1 where pos0: "kv_get (v1_Positions s) (p, t) = Some pos0" and m: "kv_get (v1_Pools s) p = Some m"
    and c: "v1_closePositionEntirely E os ctx m pos0 0 False s = Inr (s1, m1, r)" and bd: "\<not> 0 < BadDebt r"
    and u: "v1_afterPositionUpdate E os ctx m1 t r s1 = Inr s'"
    using assms(1) by (rule v1_ClosePosition_Inr)
  have eq: "pos0 = pos" using pos0 assms(2) by simp
  note cl = v1_close_changed [OF c m v1_invD(5) [OF assms(3) m] v1_invD(6) [OF assms(3) pos0]]
  have mtv: "MarginToVault r = - equity" and fr: "v1_frame s s1"
    using cl(1,6) bd v1_close_BadDebt_nonneg [OF c] by (auto simp: v1_changed_def equity_def eq)
  have nn: "0 \<le> equity" using c mtv v1_CalcRemain_Inr(2) by (auto elim!: v1_closePositionEntirely_Inr)
  have mp: "v1_Pair m1 = p" using cl(3) by simp
  obtain s2 s3 fee ev where sm: "v1_settleMargin E p t (dec_RoundInt E (- equity)) s1 = Inr s2"
    and tf: "v1_transferFee E p t (ExchangedNotionalValue r) s2 = Inr (s3, fee)" and s': "s' = v1_emit ev s3"
    using u cl(5) by (auto elim!: v1_afterPositionUpdate_Inr simp: mp mtv)
  have rd: "dec_RoundInt E (- equity) = - dec_RoundInt E equity"
    by (rule sdk_decimal.roundInt_minus [OF dec_lawsD [OF sdk_lawsD(1) [OF assms(4)]]])
  have pa: "v1_Params s2 = v1_Params s" "v1_bank s1 = v1_bank s" "v1_bank s' = v1_bank s3"
    using v1_settleMargin_settles [OF sm] fr by (simp_all add: v1_settles_def v1_frame_def s' v1_emit_def)
  show ?thesis
    using nn v1_settleMargin_flows [OF assms(4,5) sm assms(6)] v1_transferFee_flows [OF assms(4,5) tf assms(6)]
    by (simp add: pa rd)
qed

end
