(* ===== verification/V1_Findings.thy ===== *)
theory V1_Findings
  imports V1_Safety
begin

text \<open>
  Where the first version of the module does not do what it means to: editing the configuration of a
  pool forgets its open interest, an exported market maker cannot be imported once it has traded,
  the migration counts the positions of every market in each of them, and settling a position deletes
  it without a payment.
\<close>

section \<open>Editing a configuration\<close>

lemma v1_zero_cost: "dec_laws E \<Longrightarrow> dec_TruncateInt E (dec_Ceil E 0) = 0"
  using sdk_decimal.ceil_truncInt [OF dec_lawsD, of E 0] PREC_pos
  by (smt (verit) mult_less_cancel_right2 zero_le_mult_iff)

lemma v1_EditPoolConfig_Inr:
  assumes "v1_EditPoolConfig E p cfg s = Inr s1" and "v1_pools_keyed s"
  obtains m where "kv_get (v1_Pools s) p = Some m"
    and "s1 = s\<lparr>v1_Pools := kv_insert p (m\<lparr>v1_Config := cfg, v1_TotalLong := 0, v1_TotalShort := 0\<rparr>) (v1_Pools s)\<rparr>"
proof -
  let ?new = "\<lambda>m. \<lparr>v1_Pair = v1_Pair m, v1_BaseReserve = v1_BaseReserve m, v1_QuoteReserve = v1_QuoteReserve m,
      v1_SqrtDepth = v1_SqrtDepth m, v1_PegMultiplier = v1_PegMultiplier m, v1_Config = cfg,
      v1_TotalLong = 0, v1_TotalShort = 0\<rparr>"
  obtain m :: v1_market where m: "kv_get (v1_Pools s) p = Some m"
    and s1: "s1 = s\<lparr>v1_Pools := kv_insert (v1_Pair m) (?new m) (v1_Pools s)\<rparr>"
    using assms(1) by (auto simp: v1_EditPoolConfig_def v1_GetPool_def v1_updatePool_def Let_def res_simps)
  have n: "?new m = m\<lparr>v1_Config := cfg, v1_TotalLong := 0, v1_TotalShort := 0\<rparr>" by simp
  have k: "v1_Pair m = p" using assms(2) m by (simp add: v1_pools_keyed_def)
  show thesis by (rule that [OF m s1 [unfolded n, unfolded k]])
qed

text \<open>
  C16: editing a pool's configuration replaces the pool by one without its open interest, so the next
  change of its peg is free whatever the traders hold: no coin moves between the vault and the
  ecosystem fund.
\<close>

theorem v1_config_edit_makes_repeg_free:
  assumes "v1_EditPoolConfig E p cfg s = Inr s1" and "v1_EditPoolPegMultiplier E p peg s1 = Inr s2"
    and "v1_pools_keyed s" and "dec_laws E"
  shows "v1_bank s2 = v1_bank s"
proof -
  obtain m where s1: "s1 = s\<lparr>v1_Pools := kv_insert p (m\<lparr>v1_Config := cfg, v1_TotalLong := 0, v1_TotalShort := 0\<rparr>) (v1_Pools s)\<rparr>"
    using assms(1,3) by (rule v1_EditPoolConfig_Inr)
  from assms(2) obtain s3 where "v1k_EditPoolPegMultiplier E p peg s1 = Inr s3" and "v1_bank s2 = v1_bank s3"
    by (auto simp: v1_EditPoolPegMultiplier_def v1_GetPool_def v1_GetRepegCost_def v1_GetBias_def s1 Let_def
        v1_zero_cost [OF assms(4)] v1_handleMarketUpdateCost_def res_simps v1_emit_def split: if_splits)
  then show ?thesis
    by (auto simp: v1k_EditPoolPegMultiplier_def v1_updatePool_def v1_GetPool_def s1 Let_def res_simps)
qed


section \<open>Genesis of the market maker\<close>

lemma v1_CreatePool_Inr:
  assumes "v1_CreatePool E ctx p q b cfg peg s = Inr s'"
  shows "q = b \<and> (\<exists>m. v1_Pools s' = kv_insert p m (v1_Pools s) \<and> v1_GetBias m = 0)"
proof -
  obtain m where "q = b" and "v1_NewMarket E p b q (Some cfg) 0 0 peg = Inr m" and "v1_Pools s' = kv_insert p m (v1_Pools s)"
    using assms by (auto simp: v1_CreatePool_def res_simps)
  then show ?thesis by (auto simp: v1_NewMarket_def res_simps v1_GetBias_def)
qed

lemma v1_amm_InitGenesis_zero:
  assumes "v1_amm_InitGenesis E ctx ms s = Inr s'" and "v1_bias s p = 0"
  shows "v1_bias s' p = 0"
  using assms
proof (induction ms arbitrary: s)
  case (Cons m ms)
  then obtain s1 where c: "v1_CreatePool E ctx (v1_Pair m) (v1_QuoteReserve m) (v1_BaseReserve m) (v1_Config m)
      (v1_PegMultiplier m) s = Inr s1" and r: "v1_amm_InitGenesis E ctx ms s1 = Inr s'"
    by (auto simp: res_simps)
  have "v1_bias s1 p = 0" using v1_CreatePool_Inr [OF c] Cons.prems(2) by (auto simp: v1_bias_def)
  then show ?case using Cons.IH [OF r] by simp
qed simp

lemma v1_amm_InitGenesis_Inr:
  assumes "v1_amm_InitGenesis E ctx ms s = Inr s'" and "m \<in> set ms"
  shows "v1_QuoteReserve m = v1_BaseReserve m \<and> v1_bias s' (v1_Pair m) = 0"
  using assms
proof (induction ms arbitrary: s)
  case (Cons x ms)
  then obtain s1 where c: "v1_CreatePool E ctx (v1_Pair x) (v1_QuoteReserve x) (v1_BaseReserve x) (v1_Config x)
      (v1_PegMultiplier x) s = Inr s1" and r: "v1_amm_InitGenesis E ctx ms s1 = Inr s'"
    by (auto simp: res_simps)
  show ?case
  proof (cases "m \<in> set ms")
    case True
    then show ?thesis by (rule Cons.IH [OF r])
  next
    case False
    then have "m = x" using Cons.prems(2) by simp
    moreover have "v1_bias s1 (v1_Pair x) = 0" using v1_CreatePool_Inr [OF c] by (auto simp: v1_bias_def)
    ultimately show ?thesis using v1_CreatePool_Inr [OF c] v1_amm_InitGenesis_zero [OF r] by simp
  qed
qed simp

text \<open>
  C17: an exported market maker can only be imported when every pool has equal reserves, and the
  imported pools have no open interest, whatever the exported pools had.
\<close>

theorem v1_genesis_forgets_trading:
  assumes "v1_amm_InitGenesis E ctx (v1_amm_ExportGenesis s) s0 = Inr s'" and "m \<in> set (v1_amm_ExportGenesis s)"
  shows "v1_QuoteReserve m = v1_BaseReserve m \<and> v1_bias s' (v1_Pair m) = 0"
  using assms by (rule v1_amm_InitGenesis_Inr)


section \<open>The migration of the totals\<close>

lemma v1_sumLong_sum: "v1_sumLong ps = (\<Sum>p\<leftarrow>ps. max 0 (Size p))"
proof -
  have "fold (\<lambda>p acc. if 0 < Size p then acc + Size p else acc) ps a = a + (\<Sum>p\<leftarrow>ps. max 0 (Size p))" for a
    by (induction ps arbitrary: a) auto
  then show ?thesis by (simp add: v1_sumLong_def)
qed

lemma v1_sumShort_sum: "v1_sumShort ps = (\<Sum>p\<leftarrow>ps. max 0 (- Size p))"
proof -
  have "fold (\<lambda>p acc. if 0 < Size p then acc else acc + - Size p) ps a = a + (\<Sum>p\<leftarrow>ps. max 0 (- Size p))" for a
    by (induction ps arbitrary: a) auto
  then show ?thesis by (simp add: v1_sumShort_def)
qed

lemma v1_sums: "v1_sumLong ps - v1_sumShort ps = (\<Sum>p\<leftarrow>ps. Size p)"
  unfolding v1_sumLong_sum v1_sumShort_sum by (induction ps) auto

lemma v1_From2To3_loop_keeps:
  assumes "m \<in> set ms \<or> v1_bias s (v1_Pair m) = (\<Sum>x\<leftarrow>kv_values (v1_Positions s). Size x)"
  shows "v1_bias (v1_From2To3_loop ms s) (v1_Pair m) = (\<Sum>x\<leftarrow>kv_values (v1_Positions s). Size x)"
  using assms
proof (induction ms arbitrary: s)
  case (Cons x ms)
  let ?ps = "kv_values (v1_Positions s)"
  let ?x = "x\<lparr>v1_TotalLong := v1_sumLong ?ps, v1_TotalShort := v1_sumShort ?ps, v1_PegMultiplier := OneDec\<rparr>"
  let ?s = "s\<lparr>v1_Pools := kv_insert (v1_Pair ?x) ?x (v1_Pools s)\<rparr>"
  have "m \<in> set ms \<or> v1_bias ?s (v1_Pair m) = (\<Sum>x\<leftarrow>kv_values (v1_Positions ?s). Size x)"
    using Cons.prems by (auto simp: v1_bias_def v1_GetBias_def v1_sums)
  from Cons.IH [OF this] show ?case by (simp add: Let_def)
qed simp

text \<open>
  The migration to the third version sets the bias of every pool to the sum of the sizes of all
  positions, those of other markets included.
\<close>

theorem v1_migration_mixes_markets:
  assumes "kv_get (v1_Pools s) p = Some m" and "v1_Pair m = p"
  shows "v1_bias (v1_From2To3 s) p = (\<Sum>x\<leftarrow>kv_values (v1_Positions s). Size x)"
proof -
  have "m \<in> set (kv_values (v1_Pools s))"
    using map_of_SomeD [OF assms(1)] by force
  then show ?thesis using v1_From2To3_loop_keeps [OF disjI1, of m _ s] assms(2) by (auto simp: v1_From2To3_def)
qed


section \<open>Settling a position\<close>

text \<open>
  Settling a position never pays: the prices of settlement are not implemented, so the position is
  deleted, no coin is transferred and the bank is as before.
\<close>

theorem v1_SettlePosition_pays_nothing:
  assumes "kv_get (v1_Positions s) (pos_Pair pos, t) = Some pos" and "AccAddressFromBech32 E (TraderAddress pos) = Some t"
    and "Size pos \<noteq> 0"
  shows "v1_SettlePosition E pos s = Inr (s\<lparr>v1_Positions := kv_delete (pos_Pair pos, t) (v1_Positions s)\<rparr>, [])"
  using assms by (simp add: v1_SettlePosition_def v1_GetSettlementPrice_def Let_def)

end
