(* ===== verification/Oracle_Update.thy ===== *)
theory Oracle_Update
  imports Oracle_Keeper
begin

text \<open>
  The end of a vote period (\<^verbatim>\<open>x/oracle/keeper/ballot.go\<close>, \<^verbatim>\<open>update_exchange_rates.go\<close>, \<^verbatim>\<open>reward.go\<close>,
  \<^verbatim>\<open>slash.go\<close>, \<^verbatim>\<open>hooks.go\<close>), the end blocker (\<^verbatim>\<open>x/oracle/abci.go\<close>) and the genesis (\<^verbatim>\<open>x/oracle/genesis.go\<close>).  The code ranges over Go maps,
  in an order that Go leaves open: each of these loops takes its order from the record \<open>map_order\<close>.
\<close>

record map_order =
  ord_invalid :: "(pair \<times> ballot list) list \<Rightarrow> (pair \<times> ballot list) list"
  ord_count :: "(pair \<times> ballot list) list \<Rightarrow> (pair \<times> ballot list) list"
  ord_missed :: "performance list \<Rightarrow> performance list"
  ord_weight :: "performance list \<Rightarrow> performance list"
  ord_reward :: "performance list \<Rightarrow> performance list"

type_synonym pair_ballots = "(pair, ballot list) kv"


section \<open>Ballots of a period\<close>

definition append_ballot :: "ballot \<Rightarrow> pair_ballots \<Rightarrow> pair_ballots" where
  "append_ballot b m = kv_insert (b_Pair b) ((case kv_get m (b_Pair b) of None \<Rightarrow> [] | Some bs \<Rightarrow> bs) @ [b]) m"

definition vote_ballots :: "performances \<Rightarrow> addr \<times> vote \<Rightarrow> ballot list" where
  "vote_ballots ps value =
     (case kv_get ps (vt_Voter (snd value)) of
        None \<Rightarrow> []
      | Some validatorPerformance \<Rightarrow>
          map (\<lambda>t. NewExchangeRateBallot (t_ExchangeRate t) (t_Pair t) (fst value)
                (if \<not> 0 < t_ExchangeRate t then 0 else vp_Power validatorPerformance))
            (vt_ExchangeRateTuples (snd value)))"

definition groupBallotsByPair :: "performances \<Rightarrow> 'b oracle_state \<Rightarrow> pair_ballots" where
  "groupBallotsByPair ps s = fold (\<lambda>value m. fold append_ballot (vote_ballots ps value) m) (Votes s) []"

definition isPassingVoteThreshold :: "ballot list \<Rightarrow> int \<Rightarrow> 64 word \<Rightarrow> bool" where
  "isPassingVoteThreshold ballots thresholdVotingPower minVoters =
     (let ballotPower = Ballots_Power ballots in
      if ballotPower = 0 then False
      else if ballotPower < thresholdVotingPower then False
      else if NumValidVoters ballots < minVoters then False
      else True)"

definition remove_invalid :: "int \<Rightarrow> 64 word \<Rightarrow> pair \<times> ballot list \<Rightarrow> pair_ballots \<times> pair go_set \<Rightarrow> pair_ballots \<times> pair go_set" where
  "remove_invalid threshold minVoters pb acc =
     (let pair = fst pb; m = fst acc; whitelistedPairs = snd acc in
      if \<not> set_Has whitelistedPairs pair then (kv_delete pair m, whitelistedPairs)
      else if \<not> isPassingVoteThreshold (snd pb) threshold minVoters
      then (kv_delete pair m, set_Remove pair whitelistedPairs)
      else (m, whitelistedPairs))"

definition vote_threshold :: "'b chain_sdk \<Rightarrow> dec \<Rightarrow> 'b oracle_state \<Rightarrow> int" where
  "vote_threshold E voteThreshold s =
     dec_RoundInt E (voteThreshold * TokensToConsensusPower E (TotalBondedTokens E (o_sdk s)) (PowerReduction E (o_sdk s)))"

definition removeInvalidBallots :: "'b chain_sdk \<Rightarrow> map_order \<Rightarrow> 'b oracle_state \<Rightarrow> pair_ballots \<Rightarrow>
    oracle_error + pair_ballots \<times> pair go_set" where
  "removeInvalidBallots E ord s m =
     bindE (getE NilPointer (VoteThreshold s)) (\<lambda>voteThreshold.
     Inr (fold (remove_invalid (vote_threshold E voteThreshold s) (MinVoters s)) (ord_invalid ord m)
            (m, set_New (GetWhitelistedPairs s))))"

definition getPairBallotsMapAndWhitelistedPairs :: "'b chain_sdk \<Rightarrow> map_order \<Rightarrow> 'b oracle_state \<Rightarrow> performances \<Rightarrow>
    oracle_error + pair_ballots \<times> pair go_set" where
  "getPairBallotsMapAndWhitelistedPairs E ord s ps = removeInvalidBallots E ord s (groupBallotsByPair ps s)"

definition resetExchangeRates :: "'b oracle_state \<Rightarrow> 'b oracle_state" where
  "resetExchangeRates s = s\<lparr>ExchangeRates := fold kv_delete (map fst (ExchangeRates s)) (ExchangeRates s)\<rparr>"

fun validator_loop :: "'b chain_sdk \<Rightarrow> 'b \<Rightarrow> addr list \<Rightarrow> int \<Rightarrow> performances \<Rightarrow> oracle_error + performances" where
  "validator_loop E b [] i ps = Inr ps"
| "validator_loop E b (v # vs) i ps =
     (if \<not> i < uint (MaxValidators E b) then Inr ps
      else bindE (getE NilPointer (Validator E b v)) (\<lambda>validator.
        if \<not> v_IsBonded validator then validator_loop E b vs i ps
        else validator_loop E b vs (i + 1) (kv_insert (ValAddressString E (v_Operator validator))
               (NewValidatorPerformance (v_ConsensusPower validator (PowerReduction E b)) (v_Operator validator)) ps)))"

definition newValidatorPerformances :: "'b chain_sdk \<Rightarrow> 'b oracle_state \<Rightarrow> oracle_error + performances" where
  "newValidatorPerformances E s =
     validator_loop E (o_sdk s) (ValidatorsPowerStoreIterator E (o_sdk s)) 0 []"

fun count_loop :: "'b chain_sdk \<Rightarrow> block_ctx \<Rightarrow> dec option \<Rightarrow> (pair \<times> ballot list) list \<Rightarrow>
    performances \<times> 'b oracle_state \<Rightarrow> oracle_error + performances \<times> 'b oracle_state" where
  "count_loop E ctx rewardBand [] acc = Inr acc"
| "count_loop E ctx rewardBand ((pair, ballots) # rest) (ps, s) =
     bindE (Tally E ballots rewardBand ps) (\<lambda>(exchangeRate, ps').
     let s' = SetPrice ctx pair exchangeRate s in
     count_loop E ctx rewardBand rest
       (ps', s'\<lparr>o_events := o_events s' @ [EventExchangeRateUpdate pair exchangeRate]\<rparr>))"

definition countVotesAndUpdateExchangeRates :: "'b chain_sdk \<Rightarrow> map_order \<Rightarrow> block_ctx \<Rightarrow> pair_ballots \<Rightarrow>
    performances \<Rightarrow> 'b oracle_state \<Rightarrow> oracle_error + performances \<times> 'b oracle_state" where
  "countVotesAndUpdateExchangeRates E ord ctx m ps s =
     count_loop E ctx (RewardBand s) (ord_count ord m) (ps, s)"

definition register_miss :: "pair go_set \<Rightarrow> performance \<Rightarrow> (addr, 64 word) kv \<Rightarrow> (addr, 64 word) kv" where
  "register_miss whitelistedPairs vp mc =
     (if vp_WinCount vp = int (length whitelistedPairs) then mc
      else kv_insert (vp_ValAddress vp) ((case kv_get mc (vp_ValAddress vp) of None \<Rightarrow> 0 | Some n \<Rightarrow> n) + 1) mc)"

definition registerMissedVotes :: "map_order \<Rightarrow> pair go_set \<Rightarrow> performances \<Rightarrow> 'b oracle_state \<Rightarrow> 'b oracle_state" where
  "registerMissedVotes ord whitelistedPairs ps s =
     s\<lparr>MissCounters := fold (register_miss whitelistedPairs) (ord_missed ord (map snd ps)) (MissCounters s)\<rparr>"

definition clearVotesAndPreVotes :: "block_ctx \<Rightarrow> 64 word \<Rightarrow> 'b oracle_state \<Rightarrow> 'b oracle_state" where
  "clearVotesAndPreVotes ctx votePeriod s =
     s\<lparr>Prevotes := fold (\<lambda>(valAddr, aggregatePrevote) pv.
           if sint (pv_SubmitBlock aggregatePrevote + votePeriod) \<le> BlockHeight ctx then kv_delete valAddr pv else pv)
           (Prevotes s) (Prevotes s),
       Votes := fold kv_delete (map fst (Votes s)) (Votes s)\<rparr>"


section \<open>Rewards\<close>

definition AllocateRewards :: "'b chain_sdk \<Rightarrow> string \<Rightarrow> coin list \<Rightarrow> 64 word \<Rightarrow> 'b oracle_state \<Rightarrow>
    oracle_error + 'b oracle_state" where
  "AllocateRewards E funderModule totalCoins votePeriods s =
     bindE (checkE (totalCoins = [] \<or> sint votePeriods \<noteq> 0) DivideByZero) (\<lambda>_.
     bindE (getE NegativeCoin (those (map (\<lambda>c. NewCoin E (Denom c) (go_quo (Amount c) (sint votePeriods))) totalCoins)))
       (\<lambda>votePeriodCoins.
     let i = RewardsID s;
         s' = s\<lparr>RewardsID := i + 1,
                Rewards := kv_insert i \<lparr>rw_Id = i, rw_VotePeriods = votePeriods, rw_Coins = votePeriodCoins\<rparr> (Rewards s)\<rparr>
     in bindE (mapErr PanicErr (SendCoins_ModuleToModule E (o_sdk s') funderModule ''oracle'' totalCoins)) (\<lambda>b.
        Inr (s'\<lparr>o_sdk := b\<rparr>))))"

definition gather_reward :: "'b chain_sdk \<Rightarrow> 64 word \<times> oracle_rewards \<Rightarrow>
    coin list \<times> (64 word, oracle_rewards) kv \<Rightarrow> coin list \<times> (64 word, oracle_rewards) kv" where
  "gather_reward E idr acc =
     (let rewardId = fst idr; pairReward = snd idr;
          votePeriods = rw_VotePeriods pairReward - 1
      in (Coins_Add E (fst acc) (rw_Coins pairReward),
          if votePeriods = 0 then kv_delete rewardId (snd acc)
          else kv_insert rewardId (pairReward\<lparr>rw_VotePeriods := votePeriods\<rparr>) (snd acc)))"

definition GatherRewardsForVotePeriod :: "'b chain_sdk \<Rightarrow> 'b oracle_state \<Rightarrow> coin list \<times> 'b oracle_state" where
  "GatherRewardsForVotePeriod E s =
     (let r = fold (gather_reward E) (Rewards s) ([], Rewards s) in (fst r, s\<lparr>Rewards := snd r\<rparr>))"

definition rewardPortion :: "'b chain_sdk \<Rightarrow> dec_coin list \<Rightarrow> int \<Rightarrow> performance \<Rightarrow> coin list" where
  "rewardPortion E totalRewards totalRewardWeight vp =
     fst (DecCoins_TruncateDecimal E (DecCoins_MulDec E totalRewards
            (dec_QuoInt64 E (NewDec (vp_RewardWeight vp)) totalRewardWeight)))"

definition reward_winner :: "'b chain_sdk \<Rightarrow> dec_coin list \<Rightarrow> int \<Rightarrow> performance \<Rightarrow> coin list \<times> 'b \<Rightarrow> coin list \<times> 'b" where
  "reward_winner E totalRewards totalRewardWeight vp acc =
     (case Validator E (snd acc) (vp_ValAddress vp) of
        None \<Rightarrow> acc
      | Some validator \<Rightarrow>
          let portion = rewardPortion E totalRewards totalRewardWeight vp in
          (Coins_Add E (fst acc) portion,
           AllocateTokensToValidator E (snd acc) validator (NewDecCoinsFromCoins E portion)))"

definition rewardBallotWinners :: "'b chain_sdk \<Rightarrow> string \<Rightarrow> map_order \<Rightarrow> performances \<Rightarrow> 'b oracle_state \<Rightarrow>
    oracle_error + 'b oracle_state" where
  "rewardBallotWinners E distrModuleName ord ps s =
     (let totalRewardWeight = GetTotalRewardWeight (ord_weight ord (map snd ps)) in
      if totalRewardWeight = 0 then Inr s
      else let (rewards, s1) = GatherRewardsForVotePeriod E s;
               totalRewards = DecCoins_Add E [] (NewDecCoinsFromCoins E rewards);
               (distributedRewards, b) = fold (reward_winner E totalRewards totalRewardWeight)
                 (ord_reward ord (map snd ps)) ([], o_sdk s1)
           in bindE (mapErr PanicErr (SendCoins_ModuleToModule E b ''oracle'' distrModuleName distributedRewards)) (\<lambda>b'.
              Inr (s1\<lparr>o_sdk := b'\<rparr>)))"


section \<open>The end of a vote period\<close>

definition UpdateExchangeRates :: "'b chain_sdk \<Rightarrow> string \<Rightarrow> map_order \<Rightarrow> block_ctx \<Rightarrow> 'b oracle_state \<Rightarrow>
    oracle_error + 'b oracle_state" where
  "UpdateExchangeRates E distrModuleName ord ctx s0 =
     (let s = resetExchangeRates s0 in
      bindE (newValidatorPerformances E s) (\<lambda>validatorPerformances.
      bindE (getPairBallotsMapAndWhitelistedPairs E ord s validatorPerformances) (\<lambda>(pairBallotsMap, whitelistedPairs).
      bindE (countVotesAndUpdateExchangeRates E ord ctx pairBallotsMap validatorPerformances s) (\<lambda>(performances, s1).
      let s2 = registerMissedVotes ord whitelistedPairs performances s1 in
      bindE (rewardBallotWinners E distrModuleName ord performances s2) (\<lambda>s3.
      let s4 = clearVotesAndPreVotes ctx (VotePeriod s3) s3 in
      Inr (updateWhitelist (Whitelist s4) whitelistedPairs s4))))))"


section \<open>Slashing\<close>

definition votePeriodsPerWindow :: "'b chain_sdk \<Rightarrow> 'b oracle_state \<Rightarrow> 64 word" where
  "votePeriodsPerWindow E s =
     word_of_int (dec_TruncateInt E (dec_QuoInt64 E (NewDec (sint (SlashWindow s))) (sint (VotePeriod s))))"

definition validVoteRate :: "'b chain_sdk \<Rightarrow> 64 word \<Rightarrow> 64 word \<Rightarrow> dec" where
  "validVoteRate E periods missCounter = dec_QuoInt64 E (NewDec (sint (periods - missCounter))) (sint periods)"

fun slash_loop :: "'b chain_sdk \<Rightarrow> int \<Rightarrow> 64 word \<Rightarrow> (addr \<times> 64 word) list \<Rightarrow> 'b oracle_state \<Rightarrow>
    oracle_error + 'b oracle_state" where
  "slash_loop E distributionHeight periods [] s = Inr s"
| "slash_loop E distributionHeight periods ((operator, missCounter) # rest) s =
     bindE (checkE (sint periods \<noteq> 0) DivideByZero) (\<lambda>_.
     bindE (getE NilPointer (MinValidPerWindow s)) (\<lambda>minValidPerWindow.
     bindE (if validVoteRate E periods missCounter < minValidPerWindow
            then bindE (getE NilPointer (Validator E (o_sdk s) operator)) (\<lambda>validator.
                 if v_IsBonded validator \<and> \<not> v_IsJailed validator
                 then bindE (getE (PanicErr ''consensus address'') (v_ConsAddr validator)) (\<lambda>consAddr.
                      bindE (getE NilPointer (SlashFraction s)) (\<lambda>slashFraction.
                      Inr (s\<lparr>o_sdk := Jail E (Slash E (o_sdk s) consAddr distributionHeight
                                 (v_ConsensusPower validator (PowerReduction E (o_sdk s))) slashFraction) consAddr\<rparr>)))
                 else Inr s)
            else Inr s) (\<lambda>s'.
     slash_loop E distributionHeight periods rest (s'\<lparr>MissCounters := kv_delete operator (MissCounters s')\<rparr>))))"

definition SlashAndResetMissCounters :: "'b chain_sdk \<Rightarrow> block_ctx \<Rightarrow> 'b oracle_state \<Rightarrow> oracle_error + 'b oracle_state" where
  "SlashAndResetMissCounters E ctx s =
     bindE (checkE (sint (VotePeriod s) \<noteq> 0) DivideByZero) (\<lambda>_.
     slash_loop E (BlockHeight ctx - 1 - 1) (votePeriodsPerWindow E s) (MissCounters s) s)"

definition EndBlocker :: "'b chain_sdk \<Rightarrow> string \<Rightarrow> map_order \<Rightarrow> block_ctx \<Rightarrow> 'b oracle_state \<Rightarrow>
    oracle_error + 'b oracle_state" where
  "EndBlocker E distrModuleName ord ctx s =
     (case o_Params s of
        None \<Rightarrow> Inr s
      | Some params \<Rightarrow>
          bindE (IsPeriodLastBlock ctx (VotePeriod_p params)) (\<lambda>votePeriodEnds.
          bindE (if votePeriodEnds then UpdateExchangeRates E distrModuleName ord ctx s else Inr s) (\<lambda>s1.
          bindE (IsPeriodLastBlock ctx (SlashWindow_p params)) (\<lambda>slashWindowEnds.
          if slashWindowEnds then SlashAndResetMissCounters E ctx s1 else Inr s1))))"


section \<open>The weekly hook\<close>

definition WeekEpochID :: string where "WeekEpochID = ''week''"

fun split_fees :: "'b chain_sdk \<Rightarrow> dec \<Rightarrow> coin list \<Rightarrow> oracle_error + coin list \<times> coin list" where
  "split_fees E validatorFeeRatio [] = Inr ([], [])"
| "split_fees E validatorFeeRatio (balance # balances) =
     (let validatorFees = dec_TruncateInt E (dec_Mul E (NewDec (Amount balance)) validatorFeeRatio);
          rest = Amount balance - validatorFees
      in bindE (getE NegativeCoin (NewCoin E (Denom balance) validatorFees)) (\<lambda>feeCoin.
         bindE (getE NegativeCoin (NewCoin E (Denom balance) rest)) (\<lambda>restCoin.
         bindE (split_fees E validatorFeeRatio balances) (\<lambda>(fees, rests).
         Inr (feeCoin # fees, restCoin # rests)))))"

definition oracle_AfterEpochEnd :: "'b chain_sdk \<Rightarrow> string \<Rightarrow> 'b oracle_state \<Rightarrow> oracle_error + 'b oracle_state" where
  "oracle_AfterEpochEnd E epochIdentifier s =
     (if epochIdentifier = WeekEpochID
      then bindE (getE OracleNotFound (o_Params s)) (\<lambda>params.
           bindE (split_fees E (ValidatorFeeRatio_p params)
                    (GetAllBalances E (o_sdk s) (GetModuleAddress E FeePoolModuleAccount))) (\<lambda>(totalValidatorFees, totalRest).
           bindE (mapErr PanicErr (SendCoins_ModuleToModule E (o_sdk s) FeePoolModuleAccount PerpEFModuleAccount totalRest)) (\<lambda>b.
           AllocateRewards E FeePoolModuleAccount totalValidatorFees 1 (s\<lparr>o_sdk := b\<rparr>))))
      else Inr s)"

end
