(* ===== verification/Oracle_Loops.thy ===== *)
theory Oracle_Loops
  imports Oracle_Update
begin

text \<open>
  What the loops of the oracle over Go maps compute: their results do not depend on the order of the
  iteration, up to the order of the events.
\<close>

section \<open>Loops whose steps commute\<close>

lemma fold_move_front:
  assumes inv: "\<And>x s. x \<in> A \<Longrightarrow> P s \<Longrightarrow> P (f x s)"
    and comm: "\<And>x y s. x \<in> A \<Longrightarrow> y \<in> A \<Longrightarrow> P s \<Longrightarrow> f x (f y s) = f y (f x s)"
    and "set as \<subseteq> A" "x \<in> A" "P s"
  shows "fold f as (f x s) = f x (fold f as s) \<and> P (fold f as s)"
  using assms(3-5)
proof (induction as arbitrary: s)
  case (Cons a as)
  have "fold f as (f x (f a s)) = f x (fold f as (f a s)) \<and> P (fold f as (f a s))"
    using Cons inv by simp
  moreover have "f a (f x s) = f x (f a s)" using Cons.prems comm by simp
  ultimately show ?case by simp
qed simp

lemma fold_mset_eq:
  assumes inv: "\<And>x s. x \<in> A \<Longrightarrow> P s \<Longrightarrow> P (f x s)"
    and comm: "\<And>x y s. x \<in> A \<Longrightarrow> y \<in> A \<Longrightarrow> P s \<Longrightarrow> f x (f y s) = f y (f x s)"
    and "mset xs = mset ys" "set xs \<subseteq> A" "P s"
  shows "fold f xs s = fold f ys s"
  using assms(3-5)
proof (induction xs arbitrary: ys s)
  case (Cons x xs)
  have "x \<in> set ys" using mset_eq_setD [OF Cons.prems(1)] by auto
  then obtain as bs where ys: "ys = as @ x # bs" by (meson split_list)
  have A: "set as \<subseteq> A" "x \<in> A" "set xs \<subseteq> A" using mset_eq_setD [OF Cons.prems(1)] Cons.prems(2) by (auto simp: ys)
  have "fold f ys s = fold f bs (f x (fold f as s))" by (simp add: ys)
  also have "f x (fold f as s) = fold f as (f x s)" using fold_move_front [where f = f and P = P, OF inv comm A(1,2) Cons.prems(3)] by simp
  also have "fold f bs (fold f as (f x s)) = fold f (as @ bs) (f x s)" by simp
  also have "\<dots> = fold f xs (f x s)"
    using Cons.IH [of "as @ bs" "f x s"] Cons.prems A inv by (simp add: ys)
  finally show ?case by simp
qed simp

lemma fold_inv: "(\<And>x s. x \<in> set xs \<Longrightarrow> P s \<Longrightarrow> P (f x s)) \<Longrightarrow> P s \<Longrightarrow> P (fold f xs s)"
  by (induction xs arbitrary: s) auto

lemma kv_insert_comm: "k \<noteq> l \<Longrightarrow> kv_wf m \<Longrightarrow> kv_insert k v (kv_insert l w m) = kv_insert l w (kv_insert k v m)"
  by (rule kv_ext) (auto simp: fun_upd_twist)


section \<open>Clearing collections\<close>

lemma kv_delete_all [simp]: "fold kv_delete (map fst xs) xs = []"
  by (induction xs) (auto split: prod.splits)

lemma kv_delete_filter: "kv_wf m \<Longrightarrow> kv_delete k m = filter (\<lambda>e. fst e \<noteq> k) m"
proof (induction m)
  case (Cons e m)
  have "filter (\<lambda>e'. fst e' \<noteq> fst e) m = m" using Cons.prems by (auto intro!: filter_True)
  with Cons show ?case by (cases e) auto
qed simp

declare kv_wf_filter [simp]

lemma resetExchangeRates_eq: "resetExchangeRates s = s\<lparr>ExchangeRates := []\<rparr>"
  by (simp add: resetExchangeRates_def)


section \<open>Removing invalid ballots\<close>

definition failed :: "int \<Rightarrow> 64 word \<Rightarrow> (pair \<times> ballot list) set \<Rightarrow> pair set" where
  "failed t mv L = {p. \<exists>bs. (p, bs) \<in> L \<and> \<not> isPassingVoteThreshold bs t mv}"

lemma set_Remove_filter: "set_Remove x s = filter (\<lambda>y. y \<noteq> x) s"
  by (induction s) (auto simp: set_Remove_def)

lemma remove_invalid_fold:
  assumes "distinct (map fst L)" and "kv_wf m" and "distinct wl"
  shows "fold (remove_invalid t mv) L (m, wl) =
    (filter (\<lambda>e. fst e \<in> fst ` set L \<longrightarrow> fst e \<in> set wl \<and> fst e \<notin> failed t mv (set L)) m,
     filter (\<lambda>p. p \<notin> failed t mv (set L)) wl)"
  using assms
proof (induction L arbitrary: m wl)
  case Nil
  then show ?case by (simp add: failed_def)
next
  case (Cons e L)
  obtain p bs where e: "e = (p, bs)" by (cases e)
  have p: "p \<notin> fst ` set L" and d: "distinct (map fst L)" using Cons.prems(1) by (auto simp: e)
  have f: "failed t mv (insert (p, bs) (set L)) = (if isPassingVoteThreshold bs t mv then {} else {p}) \<union> failed t mv (set L)"
    by (auto simp: failed_def e)
  have pf: "p \<notin> failed t mv (set L)" using p by (force simp: failed_def)
  consider "p \<notin> set wl" | "p \<in> set wl" "\<not> isPassingVoteThreshold bs t mv" | "p \<in> set wl" "isPassingVoteThreshold bs t mv"
    by blast
  then show ?case
  proof cases
    case 1
    then have "remove_invalid t mv e (m, wl) = (filter (\<lambda>e. fst e \<noteq> p) m, wl)"
      using Cons.prems by (simp add: remove_invalid_def e set_Has_def kv_delete_filter)
    then show ?thesis using Cons.IH [OF d kv_wf_filter [OF Cons.prems(2)] Cons.prems(3), of "\<lambda>e. fst e \<noteq> p"] 1 p
      by (auto simp: f e intro!: filter_cong)
  next
    case 2
    then have "remove_invalid t mv e (m, wl) = (filter (\<lambda>e. fst e \<noteq> p) m, filter (\<lambda>y. y \<noteq> p) wl)"
      using Cons.prems by (simp add: remove_invalid_def e set_Has_def kv_delete_filter set_Remove_filter)
    then show ?thesis
      using Cons.IH [OF d kv_wf_filter [OF Cons.prems(2)] distinct_filter [OF Cons.prems(3)], of "\<lambda>e. fst e \<noteq> p" "\<lambda>y. y \<noteq> p"] 2 p
      by (auto simp: f e intro!: filter_cong)
  next
    case 3
    then have "remove_invalid t mv e (m, wl) = (m, wl)"
      by (simp add: remove_invalid_def e set_Has_def)
    then show ?thesis using Cons.IH [OF d Cons.prems(2,3)] 3 p pf by (auto simp: f e intro!: filter_cong)
  qed
qed



section \<open>Counting the votes\<close>

definition price_of :: "ballot list \<Rightarrow> dec" where
  "price_of bs = WeightedMedian (sort_key b_ExchangeRate bs)"

definition spread_of :: "'b chain_sdk \<Rightarrow> dec \<Rightarrow> ballot list \<Rightarrow> dec" where
  "spread_of E band bs = rewardSpread E (price_of bs) band (StandardDeviation E (price_of bs) (sort_key b_ExchangeRate bs))"

definition tally_perf :: "'b chain_sdk \<Rightarrow> dec \<Rightarrow> ballot list \<Rightarrow> performances \<Rightarrow> performances" where
  "tally_perf E band bs = fold (credit E (price_of bs) (spread_of E band bs)) (sort_key b_ExchangeRate bs)"

lemma Tally_Inr: "Tally E bs (Some band) ps = Inr (price_of bs, tally_perf E band bs ps)"
  by (simp add: Tally_eq Let_def price_of_def spread_of_def tally_perf_def)

definition count_perfs :: "'b chain_sdk \<Rightarrow> dec \<Rightarrow> (pair \<times> ballot list) list \<Rightarrow> performances \<Rightarrow> performances" where
  "count_perfs E band L = fold (\<lambda>e. tally_perf E band (snd e)) L"

definition count_rates :: "(pair \<times> ballot list) list \<Rightarrow> (pair, dec) kv \<Rightarrow> (pair, dec) kv" where
  "count_rates L = fold (\<lambda>e. kv_insert (fst e) (price_of (snd e))) L"

definition snapshot_of :: "block_ctx \<Rightarrow> pair \<times> ballot list \<Rightarrow> price_snapshot" where
  "snapshot_of ctx e = \<lparr>ps_Pair = fst e, ps_Price = price_of (snd e), ps_TimestampMs = UnixMilli (BlockTime ctx)\<rparr>"

definition count_snapshots :: "block_ctx \<Rightarrow> (pair \<times> ballot list) list \<Rightarrow>
    (pair \<times> int, price_snapshot) kv \<Rightarrow> (pair \<times> int, price_snapshot) kv" where
  "count_snapshots ctx L = fold (\<lambda>e. kv_insert (fst e, BlockTime ctx) (snapshot_of ctx e)) L"

definition count_events :: "block_ctx \<Rightarrow> (pair \<times> ballot list) list \<Rightarrow> oracle_event list" where
  "count_events ctx L = concat (map (\<lambda>e. [OraclePriceUpdate (fst e) (price_of (snd e)) (UnixMilli (BlockTime ctx)),
     EventExchangeRateUpdate (fst e) (price_of (snd e))]) L)"

lemmas count_defs = count_perfs_def count_rates_def count_snapshots_def snapshot_of_def count_events_def

lemma count_loop_Inr:
  "count_loop E ctx (Some band) L (ps, s) =
     Inr (count_perfs E band L ps,
          s\<lparr>ExchangeRates := count_rates L (ExchangeRates s), PriceSnapshots := count_snapshots ctx L (PriceSnapshots s),
            o_events := o_events s @ count_events ctx L\<rparr>)"
proof (induction L arbitrary: ps s)
  case (Cons e L)
  obtain p bs where e: "e = (p, bs)" by (cases e)
  show ?case by (simp add: e Tally_Inr SetPrice_def Let_def Cons count_defs)
qed (simp add: count_defs)

lemma kv_inserts_mset:
  assumes "mset L = mset M" and "distinct (map k L)" and "kv_wf r"
  shows "fold (\<lambda>x. kv_insert (k x) (v x)) L r = fold (\<lambda>x. kv_insert (k x) (v x)) M r"
proof (rule fold_mset_eq [where A = "set L" and P = kv_wf])
  show "kv_insert (k x) (v x) (kv_insert (k y) (v y) s) = kv_insert (k y) (v y) (kv_insert (k x) (v x) s)"
    if "x \<in> set L" "y \<in> set L" "kv_wf s" for x y s
  proof -
    have "x = y \<or> k x \<noteq> k y" using that(1,2) assms(2) by (auto simp: distinct_map dest: inj_onD)
    then show ?thesis using that(3) by (auto simp: kv_insert_comm)
  qed
qed (use assms in auto)

lemma kv_inserts_wf: "kv_wf r \<Longrightarrow> kv_wf (fold (\<lambda>x. kv_insert (k x) (v x)) L r)"
  by (rule fold_inv) auto

lemma count_mset:
  assumes "mset L = mset M" and "distinct (map fst L)"
  shows "kv_wf r \<Longrightarrow> count_rates L r = count_rates M r"
    and "kv_wf sn \<Longrightarrow> count_snapshots ctx L sn = count_snapshots ctx M sn"
proof -
  show "kv_wf r \<Longrightarrow> count_rates L r = count_rates M r"
    unfolding count_rates_def by (rule kv_inserts_mset [OF assms])
  have "distinct (map (\<lambda>e. (fst e, BlockTime ctx)) L)"
    using assms(2) by (auto simp: distinct_map inj_on_def)
  then show "kv_wf sn \<Longrightarrow> count_snapshots ctx L sn = count_snapshots ctx M sn"
    unfolding count_snapshots_def by (rule kv_inserts_mset [OF assms(1)])
qed

lemma credit_wf: "kv_wf ps \<Longrightarrow> kv_wf (credit E m sp b ps)"
  by (simp add: credit_def Let_def)

lemma credit_comm:
  assumes "kv_wf ps"
  shows "credit E m sp b (credit E m' sp' c ps) = credit E m' sp' c (credit E m sp b ps)"
  by (rule kv_ext)
    (use assms in \<open>auto simp: credit_wf kv_get_credit credit_map_def add_win_comm fun_upd_twist split: option.splits\<close>)

definition credits_of :: "'b chain_sdk \<Rightarrow> dec \<Rightarrow> pair \<times> ballot list \<Rightarrow> (dec \<times> dec \<times> ballot) list" where
  "credits_of E band e = map (\<lambda>b. (price_of (snd e), spread_of E band (snd e), b)) (sort_key b_ExchangeRate (snd e))"

lemma count_perfs_flat:
  "count_perfs E band L ps = fold (\<lambda>c. credit E (fst c) (fst (snd c)) (snd (snd c))) (concat (map (credits_of E band) L)) ps"
  by (induction L arbitrary: ps) (simp_all add: count_perfs_def tally_perf_def credits_of_def fold_map o_def)

lemma count_perfs_mset:
  assumes "mset L = mset M" and "kv_wf ps"
  shows "count_perfs E band L ps = count_perfs E band M ps"
  unfolding count_perfs_flat
proof (rule fold_mset_eq [where A = UNIV and P = kv_wf])
  show "mset (concat (map (credits_of E band) L)) = mset (concat (map (credits_of E band) M))"
    unfolding mset_concat map_map using assms(1) by (metis mset_map sum_mset_sum_list)
qed (use assms(2) in \<open>auto simp: credit_wf intro: credit_comm\<close>)

lemma count_perfs_wf: "kv_wf ps \<Longrightarrow> kv_wf (count_perfs E band L ps)"
  unfolding count_perfs_flat by (rule fold_inv) (auto intro: credit_wf)


section \<open>Missed votes\<close>

lemma register_miss_wf: "kv_wf mc \<Longrightarrow> kv_wf (register_miss wl vp mc)"
  by (simp add: register_miss_def)

lemma register_miss_comm: "kv_wf mc \<Longrightarrow> register_miss wl v (register_miss wl w mc) = register_miss wl w (register_miss wl v mc)"
  by (rule kv_ext) (auto simp: register_miss_def fun_upd_twist split: option.splits)

lemma missed_mset:
  assumes "mset L = mset M" and "kv_wf mc"
  shows "fold (register_miss wl) L mc = fold (register_miss wl) M mc"
  by (rule fold_mset_eq [where A = UNIV and P = kv_wf]) (use assms in \<open>auto simp: register_miss_wf register_miss_comm\<close>)


section \<open>Rewarding the winners\<close>

lemma GetTotalRewardWeight_eq: "GetTotalRewardWeight L = i64 (sum_list (map vp_RewardWeight L))"
  using fold_i64 [of vp_RewardWeight L 0] by (simp add: GetTotalRewardWeight_def)

lemma weight_mset: "mset L = mset M \<Longrightarrow> GetTotalRewardWeight L = GetTotalRewardWeight M"
  unfolding GetTotalRewardWeight_eq by (metis mset_map sum_mset_sum_list)

lemma reward_winner_mset:
  assumes "coinset_laws E" and "alloc_laws E" and "coins_sorted r" and "mset L = mset M"
  shows "fold (reward_winner E (DecCoins_Add E [] (NewDecCoinsFromCoins E r)) w) L ([], b) =
    fold (reward_winner E (DecCoins_Add E [] (NewDecCoinsFromCoins E r)) w) M ([], b)"
proof (rule fold_mset_eq [where A = UNIV and P = "\<lambda>acc. coins_sorted (fst acc)"])
  note cs = coinset_lawsD [OF assms(1)]
  have p: "coins_sorted (rewardPortion E (DecCoins_Add E [] (NewDecCoinsFromCoins E r)) w vp)" for vp
    unfolding rewardPortion_def by (rule coin_sets.portion(1) [OF cs assms(3)])
  show "coins_sorted (fst (reward_winner E (DecCoins_Add E [] (NewDecCoinsFromCoins E r)) w vp acc))"
    if "coins_sorted (fst acc)" for vp acc
    using that coin_sets.add_coins [OF cs _ p] by (simp add: reward_winner_def Let_def split: option.splits)
  show "reward_winner E (DecCoins_Add E [] (NewDecCoinsFromCoins E r)) w x
      (reward_winner E (DecCoins_Add E [] (NewDecCoinsFromCoins E r)) w y acc) =
    reward_winner E (DecCoins_Add E [] (NewDecCoinsFromCoins E r)) w y
      (reward_winner E (DecCoins_Add E [] (NewDecCoinsFromCoins E r)) w x acc)"
    if "coins_sorted (fst acc)" for x y acc
    using coin_sets.add_swap [OF cs that p p] assms(2)
    by (auto simp: reward_winner_def Let_def alloc_laws_def split: option.splits)
qed (use assms in simp_all)

end
