(* ===== verification/Oracle_Pricing.thy ===== *)
theory Oracle_Pricing
  imports Oracle_Loops
begin

text \<open>
  The end of a vote period as a whole: its result does not depend on the iteration order of Go maps, and
  the prices it leaves are the weighted medians of the ballots that passed.
\<close>

section \<open>Well-formed states\<close>

definition orders_ok :: "map_order \<Rightarrow> bool" where
  "orders_ok ord \<longleftrightarrow> (\<forall>L. mset (ord_invalid ord L) = mset L) \<and> (\<forall>L. mset (ord_count ord L) = mset L)
     \<and> (\<forall>L. mset (ord_missed ord L) = mset L) \<and> (\<forall>L. mset (ord_weight ord L) = mset L)
     \<and> (\<forall>L. mset (ord_reward ord L) = mset L)"

definition key_order :: map_order where
  "key_order = \<lparr>ord_invalid = (\<lambda>L. L), ord_count = (\<lambda>L. L), ord_missed = (\<lambda>L. L), ord_weight = (\<lambda>L. L),
     ord_reward = (\<lambda>L. L)\<rparr>"

lemma key_order_ok: "orders_ok key_order"
  by (simp add: orders_ok_def key_order_def)

definition rewards_sorted :: "'b oracle_state \<Rightarrow> bool" where
  "rewards_sorted s \<longleftrightarrow> (\<forall>r \<in> snd ` set (Rewards s). coins_sorted (rw_Coins r))"

definition oracle_wf :: "'b oracle_state \<Rightarrow> bool" where
  "oracle_wf s \<longleftrightarrow> kv_wf (ExchangeRates s) \<and> kv_wf (FeederDelegations s) \<and> kv_wf (MissCounters s)
     \<and> kv_wf (Prevotes s) \<and> kv_wf (Votes s) \<and> kv_wf (PriceSnapshots s) \<and> kv_wf (WhitelistedPairs s)
     \<and> kv_wf (Rewards s) \<and> rewards_sorted s"


section \<open>Ballots of a pair\<close>

definition all_ballots :: "performances \<Rightarrow> 'b oracle_state \<Rightarrow> ballot list" where
  "all_ballots ps s = concat (map (vote_ballots ps) (Votes s))"

definition ballots_for :: "performances \<Rightarrow> 'b oracle_state \<Rightarrow> pair \<Rightarrow> ballot list" where
  "ballots_for ps s p = filter (\<lambda>b. b_Pair b = p) (all_ballots ps s)"

lemma append_ballots_get:
  "kv_get (fold append_ballot bs m) p =
     (let own = filter (\<lambda>b. b_Pair b = p) bs in
      if own = [] then kv_get m p else Some ((case kv_get m p of None \<Rightarrow> [] | Some cs \<Rightarrow> cs) @ own))"
  by (induction bs arbitrary: m) (auto simp: append_ballot_def Let_def split: option.splits)

lemma append_ballots_wf: "kv_wf m \<Longrightarrow> kv_wf (fold append_ballot bs m)"
  by (rule fold_inv) (auto simp: append_ballot_def)

lemma groupBallots_flat: "groupBallotsByPair ps s = fold append_ballot (all_ballots ps s) []"
proof -
  have "fold (\<lambda>value m. fold append_ballot (vote_ballots ps value) m) vs m =
      fold append_ballot (concat (map (vote_ballots ps) vs)) m" for vs m
    by (induction vs arbitrary: m) simp_all
  then show ?thesis by (simp add: groupBallotsByPair_def all_ballots_def)
qed

lemma groupBallots_wf: "kv_wf (groupBallotsByPair ps s)"
  by (simp add: groupBallots_flat append_ballots_wf)

lemma groupBallots_get:
  "kv_get (groupBallotsByPair ps s) p = (if ballots_for ps s p = [] then None else Some (ballots_for ps s p))"
  by (simp add: groupBallots_flat append_ballots_get ballots_for_def Let_def)

lemma empty_not_passing [simp]: "\<not> isPassingVoteThreshold [] t mv"
  by (simp add: isPassingVoteThreshold_def Ballots_Power_def)


section \<open>One vote period\<close>

definition period_failed :: "'b chain_sdk \<Rightarrow> oracle_params \<Rightarrow> performances \<Rightarrow> 'b oracle_state \<Rightarrow> pair set" where
  "period_failed E p ps s = failed (vote_threshold E (VoteThreshold_p p) s) (MinVoters_p p) (set (groupBallotsByPair ps s))"

definition passed_ballots :: "'b chain_sdk \<Rightarrow> oracle_params \<Rightarrow> performances \<Rightarrow> 'b oracle_state \<Rightarrow> pair_ballots" where
  "passed_ballots E p ps s =
     filter (\<lambda>e. IsWhitelistedPair s (fst e) \<and> fst e \<notin> period_failed E p ps s) (groupBallotsByPair ps s)"

definition counted_pairs :: "'b chain_sdk \<Rightarrow> oracle_params \<Rightarrow> performances \<Rightarrow> 'b oracle_state \<Rightarrow> pair go_set" where
  "counted_pairs E p ps s = filter (\<lambda>x. x \<notin> period_failed E p ps s) (set_New (GetWhitelistedPairs s))"

lemma whitelisted_iff: "IsWhitelistedPair s x \<longleftrightarrow> x \<in> set (GetWhitelistedPairs s)"
  using map_of_eq_None_iff [of "WhitelistedPairs s" x] by (auto simp: IsWhitelistedPair_def GetWhitelistedPairs_def)

lemma removeInvalidBallots_Inr:
  assumes "o_Params s = Some p" and "orders_ok ord"
  shows "getPairBallotsMapAndWhitelistedPairs E ord s ps = Inr (passed_ballots E p ps s, counted_pairs E p ps s)"
proof -
  let ?m = "groupBallotsByPair ps s"
  let ?t = "vote_threshold E (VoteThreshold_p p) s" and ?L = "ord_invalid ord ?m"
  have m: "mset ?L = mset ?m" using assms(2) by (simp add: orders_ok_def)
  then have "mset (map fst ?L) = mset (map fst ?m)" by simp
  then have d: "distinct (map fst ?L)" using kv_wf_distinct [OF groupBallots_wf [of ps s]] by (metis mset_eq_imp_distinct_iff)
  have L: "set ?L = set ?m" by (rule mset_eq_setD [OF m])
  have n: "set (set_New (GetWhitelistedPairs s)) = set (GetWhitelistedPairs s)" "distinct (set_New (GetWhitelistedPairs s))"
    using go.new_spec [of "GetWhitelistedPairs s"] by simp_all
  have "fold (remove_invalid ?t (MinVoters s)) ?L (?m, set_New (GetWhitelistedPairs s)) =
      (passed_ballots E p ps s, counted_pairs E p ps s)"
    unfolding remove_invalid_fold [OF d groupBallots_wf n(2)]
    using assms(1) by (auto simp: passed_ballots_def counted_pairs_def period_failed_def MinVoters_def L n(1) whitelisted_iff
        intro!: filter_cong)
  then show ?thesis using assms(1)
    by (simp add: getPairBallotsMapAndWhitelistedPairs_def removeInvalidBallots_def VoteThreshold_def)
qed

lemma passed_ballots_wf: "kv_wf (passed_ballots E p ps s)" "distinct (map fst (passed_ballots E p ps s))"
proof -
  show "kv_wf (passed_ballots E p ps s)" unfolding passed_ballots_def by (rule kv_wf_filter [OF groupBallots_wf])
  then show "distinct (map fst (passed_ballots E p ps s))" by (rule kv_wf_distinct)
qed

definition counted :: "'b chain_sdk \<Rightarrow> oracle_params \<Rightarrow> block_ctx \<Rightarrow> (pair \<times> ballot list) list \<Rightarrow> 'b oracle_state \<Rightarrow> 'b oracle_state" where
  "counted E p ctx L s =
     s\<lparr>ExchangeRates := count_rates L [], PriceSnapshots := count_snapshots ctx L (PriceSnapshots s),
       o_events := o_events s @ count_events ctx L\<rparr>"

definition finish_period :: "'b chain_sdk \<Rightarrow> string \<Rightarrow> block_ctx \<Rightarrow> pair go_set \<Rightarrow> performances \<Rightarrow> map_order \<Rightarrow>
    'b oracle_state \<Rightarrow> oracle_error + 'b oracle_state" where
  "finish_period E d ctx wl ps ord s1 =
     bindE (rewardBallotWinners E d ord ps (registerMissedVotes ord wl ps s1)) (\<lambda>s3.
     let s4 = clearVotesAndPreVotes ctx (VotePeriod s3) s3 in Inr (updateWhitelist (Whitelist s4) wl s4))"

lemma newValidatorPerformances_reset: "newValidatorPerformances E (s\<lparr>ExchangeRates := r\<rparr>) = newValidatorPerformances E s"
  by (simp add: newValidatorPerformances_def)

lemma period_reset:
  "passed_ballots E p ps (s\<lparr>ExchangeRates := r\<rparr>) = passed_ballots E p ps s"
  "counted_pairs E p ps (s\<lparr>ExchangeRates := r\<rparr>) = counted_pairs E p ps s"
  by (simp_all add: passed_ballots_def counted_pairs_def period_failed_def groupBallotsByPair_def vote_threshold_def
      IsWhitelistedPair_def GetWhitelistedPairs_def)

lemma UpdateExchangeRates_eq:
  assumes "o_Params s = Some p" and "orders_ok ord"
  shows "UpdateExchangeRates E d ord ctx s =
    bindE (newValidatorPerformances E s) (\<lambda>ps.
    let L = ord_count ord (passed_ballots E p ps s) in
    finish_period E d ctx (counted_pairs E p ps s) (count_perfs E (RewardBand_p p) L ps) ord (counted E p ctx L s))"
  using assms
  by (simp add: UpdateExchangeRates_def resetExchangeRates_eq newValidatorPerformances_reset removeInvalidBallots_Inr
      period_reset countVotesAndUpdateExchangeRates_def RewardBand_def count_loop_Inr finish_period_def counted_def Let_def)

lemma validator_loop_wf: "kv_wf ps \<Longrightarrow> validator_loop E b vs i ps = Inr ps' \<Longrightarrow> kv_wf ps'"
  by (induction E b vs i ps rule: validator_loop.induct) (auto simp: bindE_eq_Inr getE_eq_Inr split: if_splits)

lemma performances_wf: "newValidatorPerformances E s = Inr ps \<Longrightarrow> kv_wf ps"
  unfolding newValidatorPerformances_def by (rule validator_loop_wf [OF kv_wf_Nil])

lemma gather_coins: "fst (fold (gather_reward E) rs (c, k)) = fold (\<lambda>x acc. Coins_Add E acc x) (map (rw_Coins \<circ> snd) rs) c"
  by (induction rs arbitrary: c k) (simp_all add: gather_reward_def Let_def)

lemma gathered_sorted:
  assumes "coinset_laws E" and "rewards_sorted s"
  shows "coins_sorted (fst (GatherRewardsForVotePeriod E s))"
  using coin_sets.fold_add(1) [OF coinset_lawsD [OF assms(1)], of "map (rw_Coins \<circ> snd) (Rewards s)" "[]"] assms(2)
  by (auto simp: GatherRewardsForVotePeriod_def Let_def gather_coins rewards_sorted_def)

lemma rewardBallotWinners_order:
  assumes "coinset_laws E" and "alloc_laws E" and "rewards_sorted s" and "orders_ok ord"
  shows "rewardBallotWinners E d ord ps s = rewardBallotWinners E d key_order ps s"
proof -
  have w: "GetTotalRewardWeight (ord_weight ord (map snd ps)) = GetTotalRewardWeight (map snd ps)"
    using assms(4) by (intro weight_mset) (simp add: orders_ok_def)
  have m: "mset (ord_reward ord (map snd ps)) = mset (map snd ps)" using assms(4) by (simp add: orders_ok_def)
  obtain rewards s1 where g: "GatherRewardsForVotePeriod E s = (rewards, s1)" by fastforce
  then have "coins_sorted rewards" using gathered_sorted [OF assms(1,3)] by simp
  from reward_winner_mset [OF assms(1,2) this m, of "GetTotalRewardWeight (map snd ps)" "o_sdk s1"]
  show ?thesis by (simp add: rewardBallotWinners_def w g key_order_def Let_def)
qed



section \<open>Independence from the order of iteration\<close>

definition drop_events :: "'b oracle_state \<Rightarrow> 'b oracle_state" where
  "drop_events s = s\<lparr>o_events := []\<rparr>"

lemma reward_events:
  "rewardBallotWinners E d ord ps (s\<lparr>o_events := e\<rparr>) =
     map_sum id (\<lambda>s'. s'\<lparr>o_events := e\<rparr>) (rewardBallotWinners E d ord ps s)"
proof (cases "GetTotalRewardWeight (ord_weight ord (map snd ps)) = 0")
  case True
  then show ?thesis by (simp add: rewardBallotWinners_def)
next
  case False
  define r where "r = fold (gather_reward E) (Rewards s) ([], Rewards s)"
  have g: "GatherRewardsForVotePeriod E s = (fst r, s\<lparr>Rewards := snd r\<rparr>)"
    "GatherRewardsForVotePeriod E (s\<lparr>o_events := e\<rparr>) = (fst r, s\<lparr>o_events := e, Rewards := snd r\<rparr>)"
    by (simp_all add: GatherRewardsForVotePeriod_def r_def Let_def)
  show ?thesis using False unfolding rewardBallotWinners_def g
    by (auto simp: Let_def bindE_def mapErr_def split: prod.splits sum.splits)
qed

lemma tail_events:
  "updateWhitelist w wl (s\<lparr>o_events := e\<rparr>) = (updateWhitelist w wl s)\<lparr>o_events := e\<rparr>"
  "clearVotesAndPreVotes ctx n (s\<lparr>o_events := e\<rparr>) = (clearVotesAndPreVotes ctx n s)\<lparr>o_events := e\<rparr>"
  "VotePeriod (s\<lparr>o_events := e\<rparr>) = VotePeriod s" "Whitelist (s\<lparr>o_events := e\<rparr>) = Whitelist s"
proof -
  show "updateWhitelist w wl (s\<lparr>o_events := e\<rparr>) = (updateWhitelist w wl s)\<lparr>o_events := e\<rparr>"
    unfolding updateWhitelist_def Let_def GetWhitelistedPairs_def by (cases "length wl = length w") (simp_all split: if_split)
qed (simp_all add: clearVotesAndPreVotes_def VotePeriod_def Whitelist_def)

lemma finish_events:
  "map_sum id drop_events (finish_period E d ctx wl ps ord (s\<lparr>o_events := e\<rparr>)) =
   map_sum id drop_events (finish_period E d ctx wl ps ord s)"
proof -
  have "registerMissedVotes ord wl ps (s\<lparr>o_events := e\<rparr>) = (registerMissedVotes ord wl ps s)\<lparr>o_events := e\<rparr>"
    by (simp add: registerMissedVotes_def)
  then have r: "rewardBallotWinners E d ord ps (registerMissedVotes ord wl ps (s\<lparr>o_events := e\<rparr>)) =
      map_sum id (\<lambda>s'. s'\<lparr>o_events := e\<rparr>) (rewardBallotWinners E d ord ps (registerMissedVotes ord wl ps s))"
    by (simp add: reward_events)
  show ?thesis
    by (cases "rewardBallotWinners E d ord ps (registerMissedVotes ord wl ps s)")
      (simp_all add: finish_period_def r drop_events_def Let_def tail_events)
qed

lemma finish_order:
  assumes "coinset_laws E" and "alloc_laws E" and "rewards_sorted s" and "orders_ok ord" and "kv_wf (MissCounters s)"
  shows "finish_period E d ctx wl ps ord s = finish_period E d ctx wl ps key_order s"
proof -
  have m: "mset (ord_missed ord (map snd ps)) = mset (map snd ps)" using assms(4) by (simp add: orders_ok_def)
  have "registerMissedVotes ord wl ps s = registerMissedVotes key_order wl ps s"
    using missed_mset [OF m assms(5)] by (simp add: registerMissedVotes_def key_order_def)
  moreover have "rewards_sorted (registerMissedVotes key_order wl ps s)"
    using assms(3) by (simp add: rewards_sorted_def registerMissedVotes_def)
  ultimately show ?thesis
    using rewardBallotWinners_order [OF assms(1,2) _ assms(4)] by (simp add: finish_period_def)
qed

lemma UpdateExchangeRates_key_order:
  assumes "coinset_laws E" and "alloc_laws E" and "oracle_wf s" and "o_Params s = Some p" and "orders_ok ord"
  shows "map_sum id drop_events (UpdateExchangeRates E d ord ctx s) =
    map_sum id drop_events (UpdateExchangeRates E d key_order ctx s)"
proof (cases "newValidatorPerformances E s")
  case (Inl e)
  then show ?thesis using assms(4,5) by (simp add: UpdateExchangeRates_eq key_order_ok)
next
  case (Inr ps)
  let ?m = "passed_ballots E p ps s" and ?wl = "counted_pairs E p ps s"
  let ?L = "ord_count ord ?m" and ?band = "RewardBand_p p"
  have m: "mset ?L = mset ?m" using assms(5) by (simp add: orders_ok_def)
  have "mset (map fst ?L) = mset (map fst ?m)" using m by simp
  then have dist: "distinct (map fst ?L)" using passed_ballots_wf(2) by (metis mset_eq_imp_distinct_iff)
  have wf: "kv_wf ps" "kv_wf (PriceSnapshots s)" "kv_wf (MissCounters s)" "rewards_sorted s"
    using assms(3) performances_wf [OF Inr] by (simp_all add: oracle_wf_def)
  have ps: "count_perfs E ?band ?L ps = count_perfs E ?band ?m ps" by (rule count_perfs_mset [OF m wf(1)])
  have c: "counted E p ctx ?L s = (counted E p ctx ?m s)\<lparr>o_events := o_events s @ count_events ctx ?L\<rparr>"
    using count_mset(1) [OF m dist kv_wf_Nil] count_mset(2) [OF m dist wf(2)] by (simp add: counted_def)
  have k: "ord_count key_order ?m = ?m" by (simp add: key_order_def)
  have f: "finish_period E d ctx ?wl q ord (counted E p ctx ?m s) = finish_period E d ctx ?wl q key_order (counted E p ctx ?m s)" for q
    using finish_order [OF assms(1,2) _ assms(5)] wf(3,4) by (simp add: counted_def rewards_sorted_def)
  show ?thesis
    using assms(4,5) by (simp add: UpdateExchangeRates_eq key_order_ok Inr k ps c finish_events f Let_def)
qed

text \<open>C23: the end of a vote period is deterministic: whatever order Go takes to range over the maps of ballots and of
  validators, it fails alike, or it leaves the same prices, snapshots, miss counters, rewards, votes, whitelist and
  balances; only the order of the emitted events can differ.\<close>

theorem UpdateExchangeRates_deterministic:
  assumes "coinset_laws E" and "alloc_laws E" and "oracle_wf s" and "o_Params s = Some p"
    and "orders_ok ord" and "orders_ok ord'"
  shows "map_sum id drop_events (UpdateExchangeRates E d ord ctx s) =
    map_sum id drop_events (UpdateExchangeRates E d ord' ctx s)"
  using UpdateExchangeRates_key_order [OF assms(1-5)] UpdateExchangeRates_key_order [OF assms(1-4,6)] by simp



section \<open>The prices\<close>

lemma kv_inserts_get:
  assumes "distinct (map fst L)"
  shows "kv_get (fold (\<lambda>e. kv_insert (fst e) (f e)) L r) x =
    (case map_of L x of None \<Rightarrow> kv_get r x | Some v \<Rightarrow> Some (f (x, v)))"
  using assms
proof (induction L arbitrary: r)
  case (Cons e L)
  have "map_of L (fst e) = None" using Cons.prems by (simp add: map_of_eq_None_iff)
  with Cons show ?case by (cases e) (auto split: option.splits)
qed simp

lemma map_of_mset: "mset L = mset M \<Longrightarrow> distinct (map fst L) \<Longrightarrow> map_of L = map_of M"
proof -
  assume m: "mset L = mset M" and d: "distinct (map fst L)"
  have "mset (map fst L) = mset (map fst M)" using m by simp
  then have "distinct (map fst M)" using d by (metis mset_eq_imp_distinct_iff)
  then show ?thesis using map_of_inject_set [OF d] mset_eq_setD [OF m] by blast
qed

lemma map_of_filter_key: "map_of (filter (\<lambda>e. P (fst e)) m) x = (if P x then map_of m x else None)"
  by (induction m) auto

lemma failed_iff:
  "x \<in> period_failed E p ps s \<longleftrightarrow> ballots_for ps s x \<noteq> [] \<and>
     \<not> isPassingVoteThreshold (ballots_for ps s x) (vote_threshold E (VoteThreshold_p p) s) (MinVoters_p p)"
proof -
  have e: "(x, bs) \<in> set (groupBallotsByPair ps s) \<longleftrightarrow> kv_get (groupBallotsByPair ps s) x = Some bs" for bs
    using kv_wf_distinct [OF groupBallots_wf [of ps s]] by (simp add: map_of_eq_Some_iff)
  show ?thesis unfolding period_failed_def failed_def mem_Collect_eq e groupBallots_get by auto
qed

lemma passed_get:
  "kv_get (passed_ballots E p ps s) x =
     (if IsWhitelistedPair s x \<and> isPassingVoteThreshold (ballots_for ps s x) (vote_threshold E (VoteThreshold_p p) s) (MinVoters_p p)
      then Some (ballots_for ps s x) else None)"
  unfolding passed_ballots_def map_of_filter_key [of "\<lambda>x. IsWhitelistedPair s x \<and> x \<notin> period_failed E p ps s"]
  by (auto simp: groupBallots_get failed_iff)

lemma rewardBallotWinners_keeps:
  assumes "rewardBallotWinners E d ord ps s = Inr s'"
  shows "ExchangeRates s' = ExchangeRates s \<and> o_Params s' = o_Params s \<and> WhitelistedPairs s' = WhitelistedPairs s
    \<and> Prevotes s' = Prevotes s \<and> MissCounters s' = MissCounters s \<and> PriceSnapshots s' = PriceSnapshots s
    \<and> FeederDelegations s' = FeederDelegations s"
proof (cases "GetTotalRewardWeight (ord_weight ord (map snd ps)) = 0")
  case True
  then show ?thesis using assms by (simp add: rewardBallotWinners_def)
next
  case False
  then show ?thesis using assms
    by (auto simp: rewardBallotWinners_def GatherRewardsForVotePeriod_def Let_def bindE_eq_Inr mapErr_eq_Inr split: prod.splits)
qed

lemma updateWhitelist_keeps:
  "ExchangeRates (updateWhitelist w wl s) = ExchangeRates s" "Votes (updateWhitelist w wl s) = Votes s"
  "Prevotes (updateWhitelist w wl s) = Prevotes s" "o_Params (updateWhitelist w wl s) = o_Params s"
  "MissCounters (updateWhitelist w wl s) = MissCounters s" "PriceSnapshots (updateWhitelist w wl s) = PriceSnapshots s"
  "FeederDelegations (updateWhitelist w wl s) = FeederDelegations s" "Rewards (updateWhitelist w wl s) = Rewards s"
  "o_sdk (updateWhitelist w wl s) = o_sdk s"
  unfolding updateWhitelist_def Let_def by (simp_all split: if_split)

lemma finish_keeps:
  assumes "finish_period E d ctx wl ps ord s = Inr s'"
  shows "ExchangeRates s' = ExchangeRates s \<and> o_Params s' = o_Params s \<and> Votes s' = []"
proof -
  obtain s3 where s3: "rewardBallotWinners E d ord ps (registerMissedVotes ord wl ps s) = Inr s3"
      "s' = updateWhitelist (Whitelist (clearVotesAndPreVotes ctx (VotePeriod s3) s3)) wl (clearVotesAndPreVotes ctx (VotePeriod s3) s3)"
    using assms by (auto simp: finish_period_def bindE_eq_Inr Let_def)
  show ?thesis using rewardBallotWinners_keeps [OF s3(1)]
    by (simp add: s3(2) updateWhitelist_keeps clearVotesAndPreVotes_def registerMissedVotes_def)
qed

text \<open>C22: after a vote period a pair has a price exactly when it was whitelisted and the ballots of the bonded validators
  for it reached the voting threshold and the minimum number of voters; the price is the weighted median of those
  ballots (previous prices do not survive), and the votes are gone.\<close>

theorem UpdateExchangeRates_prices:
  assumes "o_Params s = Some p" and "orders_ok ord" and "newValidatorPerformances E s = Inr ps"
    and "UpdateExchangeRates E d ord ctx s = Inr s'"
  shows "Votes s' = [] \<and> kv_get (ExchangeRates s') x =
    (let bs = ballots_for ps s x in
     if IsWhitelistedPair s x \<and> isPassingVoteThreshold bs (vote_threshold E (VoteThreshold_p p) s) (MinVoters_p p)
     then Some (price_of bs) else None)"
proof -
  let ?m = "passed_ballots E p ps s"
  let ?L = "ord_count ord ?m"
  have m: "mset ?L = mset ?m" using assms(2) by (simp add: orders_ok_def)
  have "mset (map fst ?L) = mset (map fst ?m)" using m by simp
  then have dist: "distinct (map fst ?L)" using passed_ballots_wf(2) by (metis mset_eq_imp_distinct_iff)
  have "finish_period E d ctx (counted_pairs E p ps s) (count_perfs E (RewardBand_p p) ?L ps) ord (counted E p ctx ?L s) = Inr s'"
    using assms(4) by (simp add: UpdateExchangeRates_eq [OF assms(1,2)] assms(3) Let_def)
  from finish_keeps [OF this] have r: "ExchangeRates s' = count_rates ?L []" "Votes s' = []" by (simp_all add: counted_def)
  have "kv_get (count_rates ?L []) x = (case map_of ?m x of None \<Rightarrow> None | Some bs \<Rightarrow> Some (price_of bs))"
    unfolding count_rates_def kv_inserts_get [OF dist] map_of_mset [OF m dist] by (simp split: option.splits)
  then show ?thesis unfolding r by (simp add: passed_get Let_def)
qed

text \<open>A pair that the parameters no longer list stays whitelisted when its ballot fails: the update compares the configured
  whitelist with the pairs that did not fail, not with the stored ones, and sees no difference.\<close>

theorem failed_pair_stays_whitelisted:
  assumes "o_Params s = Some p" and "orders_ok ord" and "newValidatorPerformances E s = Inr ps"
    and "UpdateExchangeRates E d ord ctx s = Inr s'" and "kv_wf (WhitelistedPairs s)" and "distinct (Whitelist_p p)"
    and "set (counted_pairs E p ps s) = set (Whitelist_p p)" and "IsWhitelistedPair s x" and "x \<notin> set (Whitelist_p p)"
  shows "IsWhitelistedPair s' x"
proof -
  let ?L = "ord_count ord (passed_ballots E p ps s)" and ?wl = "counted_pairs E p ps s"
  have "finish_period E d ctx ?wl (count_perfs E (RewardBand_p p) ?L ps) ord (counted E p ctx ?L s) = Inr s'"
    using assms(4) by (simp add: UpdateExchangeRates_eq [OF assms(1,2)] assms(3) Let_def)
  then obtain s3 where s3: "rewardBallotWinners E d ord (count_perfs E (RewardBand_p p) ?L ps)
        (registerMissedVotes ord ?wl (count_perfs E (RewardBand_p p) ?L ps) (counted E p ctx ?L s)) = Inr s3"
      "s' = updateWhitelist (Whitelist (clearVotesAndPreVotes ctx (VotePeriod s3) s3)) ?wl (clearVotesAndPreVotes ctx (VotePeriod s3) s3)"
    by (auto simp: finish_period_def bindE_eq_Inr Let_def)
  from rewardBallotWinners_keeps [OF s3(1)] have k: "o_Params s3 = Some p" "WhitelistedPairs s3 = WhitelistedPairs s"
    using assms(1) by (simp_all add: registerMissedVotes_def counted_def)
  have "distinct ?wl" using go.new_spec [of "GetWhitelistedPairs s"] by (simp add: counted_pairs_def)
  then have l: "length ?wl = length (Whitelist_p p)" using assms(6,7) by (metis distinct_card)
  have "WhitelistedPairs s' = WhitelistedPairs s"
    using k l assms(7) by (simp add: s3(2) updateWhitelist_def clearVotesAndPreVotes_def Whitelist_def set_Has_def)
  then show ?thesis using assms(8) by (simp add: IsWhitelistedPair_def)
qed

end
