(* ===== verification/Oracle_Rewards.thy ===== *)
theory Oracle_Rewards
  imports Oracle_Pricing
begin

text \<open>
  The coins of the oracle: what a vote period pays to the validators, what the weekly hook collects, and
  when it panics.
\<close>

section \<open>Shares of a reward\<close>

context sdk_decimal
begin

lemma share_bounds:
  assumes "0 \<le> r" and "0 \<le> w" and "0 < t"
  shows "0 \<le> truncInt (mul (NewDec r) (quoInt (NewDec w) t))"
    and "truncInt (mul (NewDec r) (quoInt (NewDec w) t)) * PREC \<le> r * quoInt (NewDec w) t"
    and "quoInt (NewDec w) t * t \<le> w * PREC"
proof -
  let ?q = "quoInt (NewDec w) t"
  have q: "0 \<le> ?q" "?q * t \<le> w * PREC" using quoInt_bounds(1,2) [OF assms(3), of "NewDec w"] assms(2)
    by (simp_all add: NewDec_def)
  have m: "mul (NewDec r) ?q = r * ?q" using mul_whole [of ?q r] mul_comm [of ?q "NewDec r"] by (simp add: mult.commute)
  have n: "0 \<le> r * ?q" using assms(1) q(1) by simp
  have t: "\<bar>r * ?q - truncInt (r * ?q) * PREC\<bar> < PREC" "\<bar>truncInt (r * ?q) * PREC\<bar> \<le> \<bar>r * ?q\<bar>"
    using truncInt_trunc [of "r * ?q"] by auto
  show "?q * t \<le> w * PREC" by (rule q(2))
  show "truncInt (mul (NewDec r) ?q) * PREC \<le> r * ?q" unfolding m using t(2) n by linarith
  have "- PREC < truncInt (r * ?q) * PREC" using t(1) n by linarith
  then have "- 1 < truncInt (r * ?q)" using PREC_pos by (metis mult_less_cancel_right_pos mult_minus1)
  then show "0 \<le> truncInt (mul (NewDec r) ?q)" unfolding m by simp
qed

lemma shares_sum:
  assumes "0 \<le> r" and "\<forall>w \<in> set ws. 0 \<le> w" and "0 < t" and "sum_list ws \<le> t"
  shows "0 \<le> (\<Sum>w\<leftarrow>ws. truncInt (mul (NewDec r) (quoInt (NewDec w) t)))"
    and "(\<Sum>w\<leftarrow>ws. truncInt (mul (NewDec r) (quoInt (NewDec w) t))) \<le> r"
proof -
  have s: "0 \<le> (\<Sum>w\<leftarrow>ws. truncInt (mul (NewDec r) (quoInt (NewDec w) t)))
      \<and> (\<Sum>w\<leftarrow>ws. truncInt (mul (NewDec r) (quoInt (NewDec w) t))) * PREC \<le> r * (\<Sum>w\<leftarrow>ws. quoInt (NewDec w) t)
      \<and> (\<Sum>w\<leftarrow>ws. quoInt (NewDec w) t) * t \<le> sum_list ws * PREC"
    using assms(2)
  proof (induction ws)
    case (Cons w ws)
    then show ?case using share_bounds [OF assms(1) _ assms(3), of w] by (auto simp: algebra_simps)
  qed simp
  then show "0 \<le> (\<Sum>w\<leftarrow>ws. truncInt (mul (NewDec r) (quoInt (NewDec w) t)))" by simp
  have "(\<Sum>w\<leftarrow>ws. quoInt (NewDec w) t) * t \<le> PREC * t"
    using s mult_right_mono [OF assms(4) PREC_nonneg] unfolding mult.commute [of PREC t] by linarith
  then have "(\<Sum>w\<leftarrow>ws. quoInt (NewDec w) t) \<le> PREC" using assms(3) by simp
  then have "r * (\<Sum>w\<leftarrow>ws. quoInt (NewDec w) t) \<le> r * PREC" using assms(1) by (rule mult_left_mono)
  then have "(\<Sum>w\<leftarrow>ws. truncInt (mul (NewDec r) (quoInt (NewDec w) t))) * PREC \<le> r * PREC" using s by linarith
  then show "(\<Sum>w\<leftarrow>ws. truncInt (mul (NewDec r) (quoInt (NewDec w) t))) \<le> r" by simp
qed

end

text \<open>The validators that are still known are paid, each its share.\<close>

lemma reward_fold:
  assumes "coinset_laws E" and "alloc_laws E" and "coins_sorted r" and "coins_sorted c"
  shows "\<exists>c' b'. fold (reward_winner E (DecCoins_Add E [] (NewDecCoinsFromCoins E r)) t) L (c, b) = (c', b')
    \<and> coins_sorted c' \<and> GetBalance E b' = GetBalance E b
    \<and> (\<forall>d. AmountOf c' d = AmountOf c d +
        (\<Sum>vp\<leftarrow>filter (\<lambda>vp. Validator E b (vp_ValAddress vp) \<noteq> None) L.
           dec_TruncateInt E (dec_Mul E (NewDec (AmountOf r d)) (dec_QuoInt64 E (NewDec (vp_RewardWeight vp)) t))))"
  using assms(4)
proof (induction L arbitrary: c b)
  case (Cons vp L)
  note cs = coinset_lawsD [OF assms(1)]
  let ?p = "rewardPortion E (DecCoins_Add E [] (NewDecCoinsFromCoins E r)) t vp"
  have p: "coins_sorted ?p" "AmountOf ?p d = dec_TruncateInt E (dec_Mul E (NewDec (AmountOf r d))
      (dec_QuoInt64 E (NewDec (vp_RewardWeight vp)) t))" for d
    unfolding rewardPortion_def by (rule coin_sets.portion [OF cs assms(3)])+
  show ?case
  proof (cases "Validator E b (vp_ValAddress vp)")
    case None
    then have "reward_winner E (DecCoins_Add E [] (NewDecCoinsFromCoins E r)) t vp (c, b) = (c, b)"
      by (simp add: reward_winner_def)
    then show ?thesis using Cons None by simp
  next
    case (Some v)
    let ?b = "AllocateTokensToValidator E b v (NewDecCoinsFromCoins E ?p)"
    have b: "Validator E ?b a = Validator E b a" "GetBalance E ?b = GetBalance E b" for a
      using assms(2) by (auto simp: alloc_laws_def)
    have "coins_sorted (Coins_Add E c ?p)" "AmountOf (Coins_Add E c ?p) d = AmountOf c d + AmountOf ?p d" for d
      using coin_sets.add_coins [OF cs Cons.prems p(1)] by auto
    moreover have "reward_winner E (DecCoins_Add E [] (NewDecCoinsFromCoins E r)) t vp (c, b) = (Coins_Add E c ?p, ?b)"
      using Some by (simp add: reward_winner_def Let_def)
    ultimately show ?thesis using Cons.IH [of "Coins_Add E c ?p" ?b] Some by (simp add: b p(2) add.assoc)
  qed
qed simp

definition gathered :: "'b oracle_state \<Rightarrow> denom \<Rightarrow> int" where
  "gathered s d = (\<Sum>r\<leftarrow>kv_values (Rewards s). AmountOf (rw_Coins r) d)"

lemma gathered_amount:
  assumes "coinset_laws E" and "rewards_sorted s"
  shows "AmountOf (fst (GatherRewardsForVotePeriod E s)) d = gathered s d"
  using coin_sets.fold_add(2) [OF coinset_lawsD [OF assms(1)], of "map (rw_Coins \<circ> snd) (Rewards s)" "[]" d] assms(2)
  by (auto simp: GatherRewardsForVotePeriod_def Let_def gather_coins rewards_sorted_def gathered_def o_def)




section \<open>The weekly hook\<close>

definition newcoin_laws :: "'b chain_sdk \<Rightarrow> bool" where
  "newcoin_laws E \<longleftrightarrow> (\<forall>d n c. NewCoin E d n = Some c \<longrightarrow> 0 \<le> n \<and> c = \<lparr>Denom = d, Amount = n\<rparr>)"

definition fee_of :: "'b chain_sdk \<Rightarrow> dec \<Rightarrow> int \<Rightarrow> int" where
  "fee_of E ratio n = dec_TruncateInt E (dec_Mul E (NewDec n) ratio)"

lemma split_fees_Inr:
  assumes "newcoin_laws E" and "split_fees E ratio bs = Inr (fs, rs)"
  shows "fs = map (\<lambda>c. \<lparr>Denom = Denom c, Amount = fee_of E ratio (Amount c)\<rparr>) bs
    \<and> rs = map (\<lambda>c. \<lparr>Denom = Denom c, Amount = Amount c - fee_of E ratio (Amount c)\<rparr>) bs
    \<and> (\<forall>c \<in> set bs. 0 \<le> fee_of E ratio (Amount c) \<and> fee_of E ratio (Amount c) \<le> Amount c)"
  using assms(2)
proof (induction bs arbitrary: fs rs)
  case (Cons c bs)
  obtain fc rc fs' rs' where c: "NewCoin E (Denom c) (fee_of E ratio (Amount c)) = Some fc"
      "NewCoin E (Denom c) (Amount c - fee_of E ratio (Amount c)) = Some rc"
      "split_fees E ratio bs = Inr (fs', rs')" "fs = fc # fs'" "rs = rc # rs'"
    using Cons.prems by (auto simp: Let_def bindE_eq_Inr getE_eq_Inr fee_of_def)
  have "0 \<le> fee_of E ratio (Amount c) \<and> fc = \<lparr>Denom = Denom c, Amount = fee_of E ratio (Amount c)\<rparr>"
      "0 \<le> Amount c - fee_of E ratio (Amount c) \<and> rc = \<lparr>Denom = Denom c, Amount = Amount c - fee_of E ratio (Amount c)\<rparr>"
    using assms(1) c(1,2) unfolding newcoin_laws_def by blast+
  then show ?case using Cons.IH [OF c(3)] c(4,5) by simp
qed simp

lemma AmountOf_map:
  assumes "distinct (map Denom bs)" and "f 0 = 0"
  shows "AmountOf (map (\<lambda>c. \<lparr>Denom = Denom c, Amount = f (Amount c)\<rparr>) bs) d = f (AmountOf bs d)"
  using assms(1)
proof (induction bs)
  case (Cons c bs)
  then have "d = Denom c \<Longrightarrow> AmountOf bs d = 0" by (intro AmountOf_absent) auto
  with Cons show ?case using assms(2) by (cases "Denom c = d") simp_all
qed (simp add: assms(2))

lemma fee_of_0: "dec_laws E \<Longrightarrow> fee_of E ratio 0 = 0"
  using sdk_decimal.mul_0(1) [OF dec_lawsD, of E ratio] sdk_decimal.truncInt_trunc [OF dec_lawsD, of E 0]
  by (simp add: fee_of_def NewDec_def)

lemma weekly_split:
  assumes "dec_laws E" and "coins_laws E" and "newcoin_laws E"
    and "distinct [GetModuleAddress E FeePoolModuleAccount, GetModuleAddress E PerpEFModuleAccount, GetModuleAddress E ''oracle'']"
    and "o_Params s = Some p" and "oracle_AfterEpochEnd E WeekEpochID s = Inr s'"
  shows "GetBalance E (o_sdk s') (GetModuleAddress E FeePoolModuleAccount) d = 0"
    and "GetBalance E (o_sdk s') (GetModuleAddress E ''oracle'') d =
      GetBalance E (o_sdk s) (GetModuleAddress E ''oracle'') d
        + fee_of E (ValidatorFeeRatio_p p) (GetBalance E (o_sdk s) (GetModuleAddress E FeePoolModuleAccount) d)"
    and "GetBalance E (o_sdk s') (GetModuleAddress E PerpEFModuleAccount) d =
      GetBalance E (o_sdk s) (GetModuleAddress E PerpEFModuleAccount) d
        + GetBalance E (o_sdk s) (GetModuleAddress E FeePoolModuleAccount) d
        - fee_of E (ValidatorFeeRatio_p p) (GetBalance E (o_sdk s) (GetModuleAddress E FeePoolModuleAccount) d)"
    and "\<exists>r. kv_get (Rewards s') (RewardsID s) = Some r \<and> rw_VotePeriods r = 1
      \<and> AmountOf (rw_Coins r) d = fee_of E (ValidatorFeeRatio_p p) (GetBalance E (o_sdk s) (GetModuleAddress E FeePoolModuleAccount) d)"
proof -
  let ?fp = "GetModuleAddress E FeePoolModuleAccount" and ?r = "ValidatorFeeRatio_p p"
  let ?bs = "GetAllBalances E (o_sdk s) ?fp"
  note bank = coins_lawsD [OF assms(2)]
  have bs: "coins_valid ?bs" "AmountOf ?bs d = GetBalance E (o_sdk s) ?fp d"
    using coins_bank.all_balances [OF bank] by blast+
  obtain fs rs b vc b' where f: "split_fees E ?r ?bs = Inr (fs, rs)"
    and b: "SendCoins_ModuleToModule E (o_sdk s) FeePoolModuleAccount PerpEFModuleAccount rs = Inr b"
    and vc: "those (map (\<lambda>c. NewCoin E (Denom c) (go_quo (Amount c) 1)) fs) = Some vc"
    and b': "SendCoins_ModuleToModule E b FeePoolModuleAccount ''oracle'' fs = Inr b'"
    and s': "s' = s\<lparr>o_sdk := b', RewardsID := RewardsID s + 1,
      Rewards := kv_insert (RewardsID s) \<lparr>rw_Id = RewardsID s, rw_VotePeriods = 1, rw_Coins = vc\<rparr> (Rewards s)\<rparr>"
    using assms(6) by (auto simp: oracle_AfterEpochEnd_def assms(5) AllocateRewards_def Let_def bindE_eq_Inr mapErr_eq_Inr getE_eq_Inr)
  note F = split_fees_Inr [OF assms(3) f]
  have dd: "distinct (map Denom ?bs)" using bs(1) by (rule coins_valid_distinct)
  have af: "AmountOf fs d = fee_of E ?r (AmountOf ?bs d)" using F AmountOf_map [where f = "fee_of E ?r", OF dd fee_of_0 [OF assms(1)]] by simp
  have ar: "AmountOf rs d = AmountOf ?bs d - fee_of E ?r (AmountOf ?bs d)"
    using F AmountOf_map [OF dd, of "\<lambda>n. n - fee_of E ?r n"] fee_of_0 [OF assms(1)] by simp
  note m1 = coins_bank.send_moves [OF bank b] and m2 = coins_bank.send_moves [OF bank b']
  show "GetBalance E (o_sdk s') ?fp d = 0" using m1(1) m2(1) assms(4) by (simp add: s' af ar bs(2))
  show "GetBalance E (o_sdk s') (GetModuleAddress E ''oracle'') d =
      GetBalance E (o_sdk s) (GetModuleAddress E ''oracle'') d + fee_of E ?r (GetBalance E (o_sdk s) ?fp d)"
    using m1(3) [of "GetModuleAddress E ''oracle''"] m2(2) assms(4) by (auto simp: s' af bs(2))
  show "GetBalance E (o_sdk s') (GetModuleAddress E PerpEFModuleAccount) d =
      GetBalance E (o_sdk s) (GetModuleAddress E PerpEFModuleAccount) d + GetBalance E (o_sdk s) ?fp d
        - fee_of E ?r (GetBalance E (o_sdk s) ?fp d)"
    using m1(2) [of d] m2(3) [of "GetModuleAddress E PerpEFModuleAccount" d] assms(4) by (auto simp: s' ar bs(2))
  have "AmountOf vc d = AmountOf cs d" if "those (map (\<lambda>c. NewCoin E (Denom c) (go_quo (Amount c) 1)) cs) = Some vc" for cs vc
    using that
  proof (induction cs arbitrary: vc)
    case (Cons c cs)
    obtain c' vc' where c: "NewCoin E (Denom c) (go_quo (Amount c) 1) = Some c'" "vc = c' # vc'"
        "those (map (\<lambda>c. NewCoin E (Denom c) (go_quo (Amount c) 1)) cs) = Some vc'"
      using Cons.prems by (auto split: option.splits)
    have "go_quo n 1 = n" for n by (simp add: go_quo_def sgn_mult_abs)
    then have "c' = \<lparr>Denom = Denom c, Amount = Amount c\<rparr>" using assms(3) c(1) unfolding newcoin_laws_def by metis
    then show ?case using Cons.IH [OF c(3)] c(2) by simp
  qed simp
  from this [OF vc] show "\<exists>r. kv_get (Rewards s') (RewardsID s) = Some r \<and> rw_VotePeriods r = 1
      \<and> AmountOf (rw_Coins r) d = fee_of E ?r (GetBalance E (o_sdk s) ?fp d)"
    by (simp add: s' af bs(2))
qed

text \<open>The weekly hook splits the fee pool: afterwards the pool is empty, the oracle has received the validators' share
  of every balance, rounded down, and the ecosystem fund the rest; and the share is recorded as a reward for one vote
  period under the next reward number.\<close>

theorem oracle_AfterEpochEnd_splits:
  assumes "dec_laws E" and "coins_laws E" and "newcoin_laws E"
    and "distinct [GetModuleAddress E FeePoolModuleAccount, GetModuleAddress E PerpEFModuleAccount, GetModuleAddress E ''oracle'']"
    and "o_Params s = Some p" and "oracle_AfterEpochEnd E WeekEpochID s = Inr s'"
  shows "let bal = (\<lambda>m. GetBalance E (o_sdk s) (GetModuleAddress E m) d);
             bal' = (\<lambda>m. GetBalance E (o_sdk s') (GetModuleAddress E m) d);
             fee = fee_of E (ValidatorFeeRatio_p p) (bal FeePoolModuleAccount)
         in bal' FeePoolModuleAccount = 0 \<and> bal' ''oracle'' = bal ''oracle'' + fee
            \<and> bal' PerpEFModuleAccount = bal PerpEFModuleAccount + bal FeePoolModuleAccount - fee
            \<and> (\<exists>r. kv_get (Rewards s') (RewardsID s) = Some r \<and> rw_VotePeriods r = 1 \<and> AmountOf (rw_Coins r) d = fee)"
  using weekly_split [OF assms] by (simp add: Let_def)

text \<open>The weekly hook panics as soon as the validators' share of one balance rounds down to nothing (a pool with a few
  units of some denomination is enough): the code then sends a set of coins with a zero amount, which the bank
  refuses, and turns the refusal into a panic.\<close>

theorem oracle_AfterEpochEnd_panics:
  assumes "coins_laws E" and "newcoin_laws E" and "o_Params s = Some p"
    and "c \<in> set (GetAllBalances E (o_sdk s) (GetModuleAddress E FeePoolModuleAccount))"
    and "fee_of E (ValidatorFeeRatio_p p) (Amount c) = 0"
  shows "\<exists>e. oracle_AfterEpochEnd E WeekEpochID s = Inl e"
proof (rule ccontr)
  assume "\<not> ?thesis"
  then obtain s' where "oracle_AfterEpochEnd E WeekEpochID s = Inr s'"
    by (cases "oracle_AfterEpochEnd E WeekEpochID s") auto
  then obtain fs rs b b' where f: "split_fees E (ValidatorFeeRatio_p p)
        (GetAllBalances E (o_sdk s) (GetModuleAddress E FeePoolModuleAccount)) = Inr (fs, rs)"
    and b': "SendCoins_ModuleToModule E b FeePoolModuleAccount ''oracle'' fs = Inr b'"
    by (auto simp: oracle_AfterEpochEnd_def assms(3) AllocateRewards_def Let_def bindE_eq_Inr mapErr_eq_Inr)
  have "coins_valid fs" using coins_bank.send_ok [OF coins_lawsD [OF assms(1)] b'] by simp
  moreover have "\<lparr>Denom = Denom c, Amount = 0\<rparr> \<in> set fs" using split_fees_Inr [OF assms(2) f] assms(4,5) by force
  ultimately show False by (force simp: coins_valid_def)
qed

end
