(* ===== verification/Oracle_Slash.thy ===== *)
theory Oracle_Slash
  imports Oracle_Rewards
begin

text \<open>
  Slashing at the end of a slash window (\<^verbatim>\<open>x/oracle/keeper/slash.go\<close>) and the genesis of the oracle
  (\<^verbatim>\<open>x/oracle/genesis.go\<close>).
\<close>

section \<open>Slashing\<close>

text \<open>Slashing and jailing a validator leaves the other validators as they are.\<close>

definition slash_laws :: "'b chain_sdk \<Rightarrow> bool" where
  "slash_laws E \<longleftrightarrow> (\<forall>b c h w f a.
     (case Validator E b a of None \<Rightarrow> True | Some v \<Rightarrow> v_ConsAddr v \<noteq> Some c) \<longrightarrow>
       Validator E (Jail E (Slash E b c h w f) c) a = Validator E b a)
   \<and> (\<forall>b c h w f. PowerReduction E (Jail E (Slash E b c h w f) c) = PowerReduction E b)"

lemma slash_lawsD:
  assumes "slash_laws E"
  shows "Validator E b a = None \<Longrightarrow> Validator E (Jail E (Slash E b c h w f) c) a = None"
    and "Validator E b a = Some v \<Longrightarrow> v_ConsAddr v \<noteq> Some c \<Longrightarrow> Validator E (Jail E (Slash E b c h w f) c) a = Some v"
    and "PowerReduction E (Jail E (Slash E b c h w f) c) = PowerReduction E b"
proof -
  note l = assms [unfolded slash_laws_def]
  have L: "(case Validator E b a of None \<Rightarrow> True | Some v \<Rightarrow> v_ConsAddr v \<noteq> Some c) \<longrightarrow>
      Validator E (Jail E (Slash E b c h w f) c) a = Validator E b a" using conjunct1 [OF l] by blast
  show "Validator E b a = None \<Longrightarrow> Validator E (Jail E (Slash E b c h w f) c) a = None"
    using L by simp
  show "Validator E b a = Some v \<Longrightarrow> v_ConsAddr v \<noteq> Some c \<Longrightarrow> Validator E (Jail E (Slash E b c h w f) c) a = Some v"
    using L by simp
  show "PowerReduction E (Jail E (Slash E b c h w f) c) = PowerReduction E b" using l by simp
qed

definition missed_too_often :: "'b chain_sdk \<Rightarrow> oracle_params \<Rightarrow> 64 word \<Rightarrow> addr \<times> 64 word \<Rightarrow> bool" where
  "missed_too_often E p periods mc \<longleftrightarrow> validVoteRate E periods (snd mc) < MinValidPerWindow_p p"

definition punishable :: "'b chain_sdk \<Rightarrow> oracle_params \<Rightarrow> 64 word \<Rightarrow> 'b \<Rightarrow> addr \<times> 64 word \<Rightarrow> bool" where
  "punishable E p periods b mc \<longleftrightarrow> missed_too_often E p periods mc
     \<and> (case Validator E b (fst mc) of None \<Rightarrow> False | Some v \<Rightarrow> v_IsBonded v \<and> \<not> v_IsJailed v)"

definition punish :: "'b chain_sdk \<Rightarrow> oracle_params \<Rightarrow> int \<Rightarrow> 'b \<Rightarrow> addr \<times> 64 word \<Rightarrow> 'b \<Rightarrow> 'b" where
  "punish E p height b0 mc b =
     (case Validator E b0 (fst mc) of
        None \<Rightarrow> b
      | Some v \<Rightarrow> (case v_ConsAddr v of
          None \<Rightarrow> b
        | Some c \<Rightarrow> Jail E (Slash E b c height (v_ConsensusPower v (PowerReduction E b0)) (SlashFraction_p p)) c))"

lemma slash_loop_Inr:
  assumes "slash_laws E" and "o_Params s = Some p" and "sint periods \<noteq> 0" and "distinct (map fst L)"
    and "\<forall>mc \<in> set L. \<exists>v c. Validator E b0 (fst mc) = Some v \<and> v_ConsAddr v = Some c"
    and "inj_on (\<lambda>a. v_ConsAddr (the (Validator E b0 a))) (fst ` set L)"
    and "\<forall>mc \<in> set L. Validator E (o_sdk s) (fst mc) = Validator E b0 (fst mc)"
    and "PowerReduction E (o_sdk s) = PowerReduction E b0"
  shows "slash_loop E h periods L s =
    Inr (s\<lparr>MissCounters := fold kv_delete (map fst L) (MissCounters s),
           o_sdk := fold (punish E p h b0) (filter (punishable E p periods b0) L) (o_sdk s)\<rparr>)"
  using assms(2,4-8)
proof (induction L arbitrary: s)
  case (Cons mc L)
  obtain a n where mc: "mc = (a, n)" by (cases mc)
  obtain v c where v: "Validator E b0 a = Some v" "v_ConsAddr v = Some c" using Cons.prems(3) by (auto simp: mc)
  have sv: "Validator E (o_sdk s) a = Some v" using Cons.prems(5) v by (simp add: mc)
  have par: "MinValidPerWindow s = Some (MinValidPerWindow_p p)" "SlashFraction s = Some (SlashFraction_p p)"
    using Cons.prems(1) by (simp_all add: MinValidPerWindow_def SlashFraction_def)
  define b1 where "b1 = (if punishable E p periods b0 mc then punish E p h b0 mc (o_sdk s) else o_sdk s)"
  define s1 where "s1 = s\<lparr>o_sdk := b1, MissCounters := kv_delete a (MissCounters s)\<rparr>"
  have step: "slash_loop E h periods (mc # L) s = slash_loop E h periods L s1"
    using assms(3) par sv v Cons.prems(6)
    by (auto simp: mc s1_def b1_def punishable_def punish_def missed_too_often_def)
  have other: "Validator E b1 (fst mc') = Validator E b0 (fst mc')" if "mc' \<in> set L" for mc'
  proof -
    obtain v' c' where v': "Validator E b0 (fst mc') = Some v'" "v_ConsAddr v' = Some c'" using Cons.prems(3) \<open>mc' \<in> set L\<close> by auto
    have "fst mc' \<noteq> a" using Cons.prems(2) that by (auto simp: mc)
    have "c' \<noteq> c"
    proof
      assume "c' = c"
      then have "v_ConsAddr (the (Validator E b0 (fst mc'))) = v_ConsAddr (the (Validator E b0 a))" using v v' by simp
      then have "fst mc' = a" using inj_onD [OF Cons.prems(4), of "fst mc'" a] that by (auto simp: mc)
      with \<open>fst mc' \<noteq> a\<close> show False by simp
    qed
    moreover have "Validator E (o_sdk s) (fst mc') = Some v'" using Cons.prems(5) that v' by simp
    ultimately show ?thesis using slash_lawsD(2) [OF assms(1)] v v'
      by (simp add: b1_def punish_def mc)
  qed
  have "PowerReduction E b1 = PowerReduction E b0"
    using Cons.prems(6) slash_lawsD(3) [OF assms(1)] v by (simp add: b1_def punish_def mc)
  moreover have "inj_on (\<lambda>a. v_ConsAddr (the (Validator E b0 a))) (fst ` set L)"
    using Cons.prems(4) by (rule inj_on_subset) auto
  ultimately have "slash_loop E h periods L s1 =
      Inr (s1\<lparr>MissCounters := fold kv_delete (map fst L) (MissCounters s1),
           o_sdk := fold (punish E p h b0) (filter (punishable E p periods b0) L) (o_sdk s1)\<rparr>)"
    using Cons.IH [of s1] Cons.prems other by (simp add: s1_def)
  then show ?case unfolding step by (simp add: s1_def b1_def mc)
qed simp


lemma slash_loop_unknown:
  assumes "slash_laws E" and "(a, n) \<in> set L" and "Validator E (o_sdk s) a = None" and "o_Params s = Some p"
    and "missed_too_often E p periods (a, n)"
  shows "\<exists>e. slash_loop E h periods L s = Inl e"
  using assms(2-4)
proof (induction L arbitrary: s)
  case (Cons mc L)
  have par: "MinValidPerWindow s = Some (MinValidPerWindow_p p)" using Cons.prems(3) by (simp add: MinValidPerWindow_def)
  show ?case
  proof (cases "slash_loop E h periods (mc # L) s")
    case (Inr s')
    obtain a' n' where mc: "mc = (a', n')" by (cases mc)
    then obtain b1 where b1: "slash_loop E h periods L (s\<lparr>o_sdk := b1, MissCounters := kv_delete a' (MissCounters s)\<rparr>) = Inr s'"
        "b1 = o_sdk s \<or> (\<exists>c w f. b1 = Jail E (Slash E (o_sdk s) c h w f) c)"
        "missed_too_often E p periods (a', n') \<Longrightarrow> Validator E (o_sdk s) a' \<noteq> None"
      using Inr par
      by (auto simp: bindE_eq_Inr getE_eq_Inr missed_too_often_def split: if_splits) (metis oracle_state.surjective oracle_state.update_convs(11))+
    then have "Validator E b1 a = None" using slash_lawsD(1) [OF assms(1) Cons.prems(2)] Cons.prems(2) by auto
    moreover have "(a, n) \<noteq> mc" using b1(3) assms(5) Cons.prems(2) mc by auto
    ultimately obtain e where "slash_loop E h periods L (s\<lparr>o_sdk := b1, MissCounters := kv_delete a' (MissCounters s)\<rparr>) = Inl e"
      using Cons.IH [of "s\<lparr>o_sdk := b1, MissCounters := kv_delete a' (MissCounters s)\<rparr>"] Cons.prems by auto
    with b1(1) show ?thesis by simp
  qed simp
qed simp

text \<open>A validator that has missed too many votes and was removed from the staking module before the end of the slash
  window makes the end blocker of that window panic: the code dereferences the validator without checking that it was
  found.\<close>

theorem SlashAndResetMissCounters_panics:
  assumes "slash_laws E" and "o_Params s = Some p" and "kv_get (MissCounters s) a = Some n"
    and "missed_too_often E p (votePeriodsPerWindow E s) (a, n)" and "Validator E (o_sdk s) a = None"
  shows "\<exists>e. SlashAndResetMissCounters E ctx s = Inl e"
  using slash_loop_unknown [OF assms(1) map_of_SomeD [OF assms(3)] assms(5,2,4)]
  by (auto simp: SlashAndResetMissCounters_def checkE_def)

end
