(* ===== verification/Oracle_Genesis.thy ===== *)
theory Oracle_Genesis
  imports Oracle_Slash
begin

text \<open>
  The genesis of the oracle (\<^verbatim>\<open>x/oracle/genesis.go\<close>, \<^verbatim>\<open>x/oracle/types/genesis.go\<close>): import, export and their
  round trip, with what the import does not restore.
\<close>

record feeder_delegation =
  fd_FeederAddress :: string
  fd_ValidatorAddress :: string

record miss_counter =
  mc_ValidatorAddress :: string
  mc_MissCounter :: "64 word"

record oracle_genesis =
  g_Params :: oracle_params
  g_FeederDelegations :: "feeder_delegation list"
  g_ExchangeRates :: "rate_tuple list"
  g_MissCounters :: "miss_counter list"
  g_Prevotes :: "prevote list"
  g_Votes :: "vote list"
  g_Pairs :: "pair list"
  g_Rewards :: "oracle_rewards list"

definition oracle_DefaultGenesisState :: "'b chain_sdk \<Rightarrow> oracle_genesis" where
  "oracle_DefaultGenesisState E =
     \<lparr>g_Params = oracle_DefaultParams E, g_FeederDelegations = [], g_ExchangeRates = [], g_MissCounters = [],
      g_Prevotes = [], g_Votes = [], g_Pairs = [], g_Rewards = []\<rparr>"

definition oracle_ValidateGenesis :: "'b chain_sdk \<Rightarrow> oracle_genesis \<Rightarrow> oracle_error + unit" where
  "oracle_ValidateGenesis E g = oracle_Params_Validate E (g_Params g)"

fun import_keyed :: "('x \<Rightarrow> oracle_error + 'k::linorder \<times> 'v) \<Rightarrow> 'x list \<Rightarrow> ('k, 'v) kv \<Rightarrow> oracle_error + ('k, 'v) kv" where
  "import_keyed f [] m = Inr m"
| "import_keyed f (x # xs) m = bindE (f x) (\<lambda>(k, v). import_keyed f xs (kv_insert k v m))"

definition import_delegation :: "'b chain_sdk \<Rightarrow> feeder_delegation \<Rightarrow> oracle_error + addr \<times> addr" where
  "import_delegation E d =
     bindE (getE OracleBech32 (ValAddressFromBech32 E (fd_ValidatorAddress d))) (\<lambda>voter.
     bindE (getE OracleBech32 (AccAddressFromBech32 E (fd_FeederAddress d))) (\<lambda>feeder. Inr (voter, feeder)))"

definition import_by_voter :: "'b chain_sdk \<Rightarrow> ('x \<Rightarrow> string) \<Rightarrow> ('x \<Rightarrow> 'v) \<Rightarrow> 'x \<Rightarrow> oracle_error + addr \<times> 'v" where
  "import_by_voter E voter val x = bindE (getE OracleBech32 (ValAddressFromBech32 E (voter x))) (\<lambda>a. Inr (a, val x))"

definition oracle_InitGenesis :: "'b chain_sdk \<Rightarrow> block_ctx \<Rightarrow> oracle_genesis \<Rightarrow> 'b oracle_state \<Rightarrow> oracle_error + 'b oracle_state" where
  "oracle_InitGenesis E ctx data s =
     bindE (import_keyed (import_delegation E) (g_FeederDelegations data) (FeederDelegations s)) (\<lambda>fds.
     let s1 = fold (\<lambda>ex. SetPrice ctx (t_Pair ex) (t_ExchangeRate ex)) (g_ExchangeRates data) (s\<lparr>FeederDelegations := fds\<rparr>) in
     bindE (import_keyed (import_by_voter E mc_ValidatorAddress mc_MissCounter) (g_MissCounters data) (MissCounters s1)) (\<lambda>mcs.
     bindE (import_keyed (import_by_voter E pv_Voter (\<lambda>x. x)) (g_Prevotes data) (Prevotes s1)) (\<lambda>pvs.
     bindE (import_keyed (import_by_voter E vt_Voter (\<lambda>x. x)) (g_Votes data) (Votes s1)) (\<lambda>vts.
     let pairs = (if 0 < length (g_Pairs data) then g_Pairs data else Whitelist_p (g_Params data));
         s2 = s1\<lparr>MissCounters := mcs, Prevotes := pvs, Votes := vts,
                 WhitelistedPairs := fold (\<lambda>p. kv_insert p ()) pairs (WhitelistedPairs s1),
                 Rewards := fold (\<lambda>pr. kv_insert (rw_Id pr) pr) (g_Rewards data) (Rewards s1),
                 RewardsID := (if length (g_Rewards data) \<noteq> 0 then rw_Id (last (g_Rewards data)) else RewardsID s1),
                 o_Params := Some (g_Params data)\<rparr>
     in bindE (checkE (HasModuleAccount E (o_sdk s2) ''oracle'') ModuleAccountPanic) (\<lambda>_. Inr s2)))))"

text \<open>The export reads unset parameters as the zero value; it is modelled for a module whose parameters are set.\<close>

definition oracle_ExportGenesis :: "'b chain_sdk \<Rightarrow> oracle_params \<Rightarrow> 'b oracle_state \<Rightarrow> oracle_genesis" where
  "oracle_ExportGenesis E params s =
     \<lparr>g_Params = params,
      g_FeederDelegations = map (\<lambda>(k, v). \<lparr>fd_FeederAddress = AccAddressString E v, fd_ValidatorAddress = ValAddressString E k\<rparr>)
        (FeederDelegations s),
      g_ExchangeRates = map (\<lambda>(k, v). \<lparr>t_Pair = k, t_ExchangeRate = v\<rparr>) (ExchangeRates s),
      g_MissCounters = map (\<lambda>(k, v). \<lparr>mc_ValidatorAddress = ValAddressString E k, mc_MissCounter = v\<rparr>) (MissCounters s),
      g_Prevotes = kv_values (Prevotes s),
      g_Votes = kv_values (Votes s),
      g_Pairs = map fst (WhitelistedPairs s),
      g_Rewards = kv_values (Rewards s)\<rparr>"


section \<open>Import of an export\<close>

lemma import_keyed_map:
  assumes "\<And>e. e \<in> set m \<Longrightarrow> f (g e) = Inr e" and "kv_wf m"
  shows "import_keyed f (map g m) [] = Inr m"
proof -
  have "import_keyed f (map g m) acc = Inr (fold (\<lambda>e. kv_insert (fst e) (snd e)) m acc)" for acc
    using assms(1) by (induction m arbitrary: acc) (auto simp: split_beta)
  moreover have "fold (\<lambda>e. kv_insert (fst e) (snd e)) m [] = m"
  proof (rule kv_ext)
    show "kv_get (fold (\<lambda>e. kv_insert (fst e) (snd e)) m []) = kv_get m"
      by (rule ext) (simp add: kv_inserts_get [OF kv_wf_distinct [OF assms(2)]] split: option.splits)
  qed (use assms(2) in \<open>auto intro: kv_inserts_wf\<close>)
  ultimately show ?thesis by simp
qed

lemma inserts_self:
  assumes "kv_wf m" and "\<And>e. e \<in> set m \<Longrightarrow> k (g e) = fst e \<and> v (g e) = snd e"
  shows "fold (\<lambda>x. kv_insert (k x) (v x)) (map g m) [] = m"
proof -
  have "fold (\<lambda>x. kv_insert (k x) (v x)) (map g m) acc = fold (\<lambda>e. kv_insert (fst e) (snd e)) m acc" for acc
    using assms(2) by (induction m arbitrary: acc) auto
  moreover have "import_keyed Inr (map (\<lambda>e. e) m) [] = Inr (fold (\<lambda>e. kv_insert (fst e) (snd e)) m [])"
  proof -
    have "import_keyed Inr m acc = Inr (fold (\<lambda>e. kv_insert (fst e) (snd e)) m acc)" for acc
      by (induction m arbitrary: acc) (auto simp: split_beta)
    then show ?thesis by simp
  qed
  ultimately show ?thesis using import_keyed_map [of m Inr "\<lambda>e. e", OF _ assms(1)] by simp
qed

lemma SetPrices:
  "fold (\<lambda>ex. SetPrice ctx (t_Pair ex) (t_ExchangeRate ex)) exs s =
     s\<lparr>ExchangeRates := fold (\<lambda>ex. kv_insert (t_Pair ex) (t_ExchangeRate ex)) exs (ExchangeRates s),
       PriceSnapshots := fold (\<lambda>ex. kv_insert (t_Pair ex, BlockTime ctx)
         \<lparr>ps_Pair = t_Pair ex, ps_Price = t_ExchangeRate ex, ps_TimestampMs = UnixMilli (BlockTime ctx)\<rparr>) exs (PriceSnapshots s),
       o_events := o_events s @ map (\<lambda>ex. OraclePriceUpdate (t_Pair ex) (t_ExchangeRate ex) (UnixMilli (BlockTime ctx))) exs\<rparr>"
  by (induction exs arbitrary: s) (simp_all add: SetPrice_def Let_def)

definition fresh_oracle :: "'b oracle_state \<Rightarrow> bool" where
  "fresh_oracle s \<longleftrightarrow> ExchangeRates s = [] \<and> FeederDelegations s = [] \<and> MissCounters s = [] \<and> Prevotes s = []
     \<and> Votes s = [] \<and> WhitelistedPairs s = [] \<and> Rewards s = []"

text \<open>Votes and prevotes are stored under the address they name, rewards under their number.\<close>

definition oracle_keyed :: "'b chain_sdk \<Rightarrow> 'b oracle_state \<Rightarrow> bool" where
  "oracle_keyed E s \<longleftrightarrow> (\<forall>(a, v) \<in> set (Prevotes s). pv_Voter v = ValAddressString E a)
     \<and> (\<forall>(a, v) \<in> set (Votes s). vt_Voter v = ValAddressString E a) \<and> (\<forall>(i, r) \<in> set (Rewards s). rw_Id r = i)"

text \<open>Importing an exported genesis into a fresh module restores the parameters, prices, feeder delegations, miss counters,
  prevotes, votes, whitelist and rewards (of a module with a non-empty whitelist).\<close>

theorem oracle_genesis_round_trip:
  assumes "format_laws E" and "\<And>a. AccAddressFromBech32 E (AccAddressString E a) = Some a"
    and "oracle_wf s" and "oracle_keyed E s" and "o_Params s = Some p" and "WhitelistedPairs s \<noteq> []"
    and "fresh_oracle f" and "HasModuleAccount E (o_sdk f) ''oracle''"
  shows "\<exists>s'. oracle_InitGenesis E ctx (oracle_ExportGenesis E p s) f = Inr s'
    \<and> o_Params s' = o_Params s \<and> ExchangeRates s' = ExchangeRates s \<and> FeederDelegations s' = FeederDelegations s
    \<and> MissCounters s' = MissCounters s \<and> Prevotes s' = Prevotes s \<and> Votes s' = Votes s
    \<and> WhitelistedPairs s' = WhitelistedPairs s \<and> Rewards s' = Rewards s"
proof -
  have va: "ValAddressFromBech32 E (ValAddressString E a) = Some a" for a using assms(1) by (simp add: format_laws_def)
  have wf: "kv_wf (ExchangeRates s)" "kv_wf (FeederDelegations s)" "kv_wf (MissCounters s)" "kv_wf (Prevotes s)" "kv_wf (Votes s)"
    "kv_wf (WhitelistedPairs s)" "kv_wf (Rewards s)" using assms(3) by (simp_all add: oracle_wf_def)
  have d: "import_keyed (import_delegation E) (g_FeederDelegations (oracle_ExportGenesis E p s)) [] = Inr (FeederDelegations s)"
    unfolding oracle_ExportGenesis_def oracle_genesis.select_convs
    by (rule import_keyed_map [OF _ wf(2)]) (auto simp: import_delegation_def va assms(2))
  have m: "import_keyed (import_by_voter E mc_ValidatorAddress mc_MissCounter) (g_MissCounters (oracle_ExportGenesis E p s)) [] = Inr (MissCounters s)"
    unfolding oracle_ExportGenesis_def oracle_genesis.select_convs
    by (rule import_keyed_map [OF _ wf(3)]) (auto simp: import_by_voter_def va)
  have pv: "import_keyed (import_by_voter E pv_Voter (\<lambda>x. x)) (g_Prevotes (oracle_ExportGenesis E p s)) [] = Inr (Prevotes s)"
    unfolding oracle_ExportGenesis_def oracle_genesis.select_convs
    by (rule import_keyed_map [OF _ wf(4)]) (use assms(4) in \<open>auto simp: import_by_voter_def va oracle_keyed_def\<close>)
  have vt: "import_keyed (import_by_voter E vt_Voter (\<lambda>x. x)) (g_Votes (oracle_ExportGenesis E p s)) [] = Inr (Votes s)"
    unfolding oracle_ExportGenesis_def oracle_genesis.select_convs
    by (rule import_keyed_map [OF _ wf(5)]) (use assms(4) in \<open>auto simp: import_by_voter_def va oracle_keyed_def\<close>)
  have er: "fold (\<lambda>ex. kv_insert (t_Pair ex) (t_ExchangeRate ex)) (g_ExchangeRates (oracle_ExportGenesis E p s)) [] = ExchangeRates s"
    unfolding oracle_ExportGenesis_def oracle_genesis.select_convs by (rule inserts_self [OF wf(1)]) auto
  have wl: "fold (\<lambda>p. kv_insert p ()) (g_Pairs (oracle_ExportGenesis E p s)) [] = WhitelistedPairs s"
    unfolding oracle_ExportGenesis_def oracle_genesis.select_convs by (rule inserts_self [OF wf(6)]) auto
  have rw: "fold (\<lambda>pr. kv_insert (rw_Id pr) pr) (g_Rewards (oracle_ExportGenesis E p s)) [] = Rewards s"
    unfolding oracle_ExportGenesis_def oracle_genesis.select_convs
    by (rule inserts_self [OF wf(7)]) (use assms(4) in \<open>auto simp: oracle_keyed_def\<close>)
  have "g_Pairs (oracle_ExportGenesis E p s) \<noteq> []" "g_Params (oracle_ExportGenesis E p s) = p"
    using assms(6) by (simp_all add: oracle_ExportGenesis_def)
  then show ?thesis
    using assms(5,7,8) d m pv vt er wl rw by (simp add: oracle_InitGenesis_def SetPrices fresh_oracle_def Let_def)
qed

text \<open>The import does not restore the number of the next reward: it continues at the number of the last imported reward, so
  the next allocation overwrites that reward, whose coins are then never distributed.\<close>

theorem import_then_allocate_overwrites:
  assumes "oracle_InitGenesis E ctx g s = Inr s1" and "g_Rewards g \<noteq> []"
    and "AllocateRewards E funder cs n s1 = Inr s2"
  shows "\<exists>r. kv_get (Rewards s2) (rw_Id (last (g_Rewards g))) = Some r \<and> rw_VotePeriods r = n
    \<and> kv_get (Rewards s1) (rw_Id (last (g_Rewards g))) = Some (last (g_Rewards g))
    \<and> fst ` set (Rewards s2) = fst ` set (Rewards s1)"
proof -
  have s1: "RewardsID s1 = rw_Id (last (g_Rewards g))"
      "Rewards s1 = fold (\<lambda>pr. kv_insert (rw_Id pr) pr) (g_Rewards g) (Rewards s)"
    using assms(1,2) by (auto simp: oracle_InitGenesis_def Let_def bindE_eq_Inr SetPrices)
  have "fold (\<lambda>pr. kv_insert (rw_Id pr) pr) (butlast (g_Rewards g) @ [last (g_Rewards g)]) (Rewards s) =
      kv_insert (rw_Id (last (g_Rewards g))) (last (g_Rewards g))
        (fold (\<lambda>pr. kv_insert (rw_Id pr) pr) (butlast (g_Rewards g)) (Rewards s))" by simp
  then have "Rewards s1 = kv_insert (rw_Id (last (g_Rewards g))) (last (g_Rewards g))
      (fold (\<lambda>pr. kv_insert (rw_Id pr) pr) (butlast (g_Rewards g)) (Rewards s))"
    unfolding s1(2) append_butlast_last_id [OF assms(2)] .
  then have l: "kv_get (Rewards s1) (RewardsID s1) = Some (last (g_Rewards g))" by (simp add: s1(1))
  obtain vc b where "s2 = s1\<lparr>RewardsID := RewardsID s1 + 1,
      Rewards := kv_insert (RewardsID s1) \<lparr>rw_Id = RewardsID s1, rw_VotePeriods = n, rw_Coins = vc\<rparr> (Rewards s1), o_sdk := b\<rparr>"
    using assms(3) by (auto simp: AllocateRewards_def Let_def bindE_eq_Inr)
  moreover have "RewardsID s1 \<in> fst ` set (Rewards s1)" using l by (force dest: map_of_SomeD)
  ultimately show ?thesis using l by (simp add: insert_absorb flip: s1(1))
qed

end
