(* ===== verification/Oracle_Commit.thy ===== *)
theory Oracle_Commit
  imports Oracle_Genesis
begin

text \<open>
  The commit and reveal scheme of the oracle as a state machine: accepted messages, refused messages (which change
  nothing), ends of blocks, and changes of the other modules.  Every vote in the store was committed to, by hash, in the previous vote
  period.
\<close>

section \<open>Steps\<close>

datatype oracle_action =
    SubmitPrevote block_ctx msg_prevote
  | SubmitVote block_ctx msg_vote
  | SubmitDelegation msg_delegate
  | Refused
  | BlockEnd block_ctx
  | OtherModules

inductive oracle_step :: "'b chain_sdk \<Rightarrow> string \<Rightarrow> 'b oracle_state \<Rightarrow> oracle_action \<Rightarrow> 'b oracle_state \<Rightarrow> bool"
  for E d where
  prevote: "MsgPrevote_ValidateBasic E m = Inr () \<Longrightarrow> AggregateExchangeRatePrevote E ctx m s = Inr s'
     \<Longrightarrow> oracle_step E d s (SubmitPrevote ctx m) s'"
| vote: "MsgVote_ValidateBasic E m = Inr () \<Longrightarrow> AggregateExchangeRateVote E ctx m s = Inr s'
     \<Longrightarrow> oracle_step E d s (SubmitVote ctx m) s'"
| delegate: "MsgDelegateFeedConsent_ValidateBasic E m = Inr () \<Longrightarrow> DelegateFeedConsent E m s = Inr s'
     \<Longrightarrow> oracle_step E d s (SubmitDelegation m) s'"
| refused: "oracle_step E d s Refused s"
| blockend: "orders_ok ord \<Longrightarrow> EndBlocker E d ord ctx s = Inr s' \<Longrightarrow> oracle_step E d s (BlockEnd ctx) s'"
| others: "oracle_step E d s OtherModules (s\<lparr>o_sdk := b, o_Params := p\<rparr>)"

inductive oracle_run :: "'b chain_sdk \<Rightarrow> string \<Rightarrow> 'b oracle_state \<Rightarrow> oracle_action list \<Rightarrow> 'b oracle_state \<Rightarrow> bool"
  for E d s0 where
  start: "oracle_run E d s0 [] s0"
| step: "oracle_run E d s0 acts s \<Longrightarrow> oracle_step E d s a s' \<Longrightarrow> oracle_run E d s0 (acts @ [a]) s'"

inductive_cases oracle_stepE: "oracle_step E d s a s'"


section \<open>What the steps do to prevotes and votes\<close>

lemma fold_delete_sub:
  assumes "kv_wf m"
  shows "kv_wf (fold (\<lambda>(k, v) m. if P v then kv_delete k m else m) L m)
    \<and> (kv_get (fold (\<lambda>(k, v) m. if P v then kv_delete k m else m) L m) a = Some x \<longrightarrow> kv_get m a = Some x)"
  using assms
proof (induction L arbitrary: m)
  case (Cons e L)
  obtain k v where e: "e = (k, v)" by (cases e)
  let ?m = "if P v then kv_delete k m else m"
  have w: "kv_wf ?m" using Cons.prems by simp
  have g: "kv_get ?m a = Some x \<longrightarrow> kv_get m a = Some x" using Cons.prems by (simp add: kv_get_delete)
  show ?case using Cons.IH [OF w] g by (simp add: e)
qed simp

lemma clear_prevotes:
  assumes "kv_wf (Prevotes s)"
  shows "kv_wf (Prevotes (clearVotesAndPreVotes ctx n s))"
    and "kv_get (Prevotes (clearVotesAndPreVotes ctx n s)) a = Some x \<Longrightarrow> kv_get (Prevotes s) a = Some x"
  using fold_delete_sub [OF assms, of "\<lambda>v. sint (pv_SubmitBlock v + n) \<le> BlockHeight ctx" "Prevotes s" a x]
  by (simp_all add: clearVotesAndPreVotes_def)

lemma UpdateExchangeRates_clears:
  assumes "UpdateExchangeRates E d ord ctx s = Inr s'" and "o_Params s = Some p" and "orders_ok ord"
  shows "Votes s' = [] \<and> Prevotes s' = Prevotes (clearVotesAndPreVotes ctx (VotePeriod_p p) s)"
proof -
  obtain ps where ps: "newValidatorPerformances E s = Inr ps"
    using assms by (auto simp: UpdateExchangeRates_eq bindE_eq_Inr)
  let ?L = "ord_count ord (passed_ballots E p ps s)"
  have "finish_period E d ctx (counted_pairs E p ps s) (count_perfs E (RewardBand_p p) ?L ps) ord (counted E p ctx ?L s) = Inr s'"
    using assms(1) by (simp add: UpdateExchangeRates_eq [OF assms(2,3)] ps Let_def)
  then obtain s3 where s3: "rewardBallotWinners E d ord (count_perfs E (RewardBand_p p) ?L ps)
        (registerMissedVotes ord (counted_pairs E p ps s) (count_perfs E (RewardBand_p p) ?L ps) (counted E p ctx ?L s)) = Inr s3"
      "s' = updateWhitelist (Whitelist (clearVotesAndPreVotes ctx (VotePeriod s3) s3)) (counted_pairs E p ps s)
        (clearVotesAndPreVotes ctx (VotePeriod s3) s3)"
    by (auto simp: finish_period_def bindE_eq_Inr Let_def)
  from rewardBallotWinners_keeps [OF s3(1)] show ?thesis
    by (simp add: s3(2) updateWhitelist_keeps clearVotesAndPreVotes_def registerMissedVotes_def counted_def VotePeriod_def assms(2))
qed

lemma slash_loop_Cons:
  assumes "slash_loop E h n (e # L) s = Inr s'"
  shows "\<exists>s1. slash_loop E h n L s1 = Inr s' \<and> Votes s1 = Votes s \<and> Prevotes s1 = Prevotes s"
proof -
  obtain a n' where e: "e = (a, n')" by (cases e)
  obtain mv s1 where "(if validVoteRate E n n' < mv
            then bindE (getE NilPointer (Validator E (o_sdk s) a)) (\<lambda>validator.
                 if v_IsBonded validator \<and> \<not> v_IsJailed validator
                 then bindE (getE (PanicErr ''consensus address'') (v_ConsAddr validator)) (\<lambda>consAddr.
                      bindE (getE NilPointer (SlashFraction s)) (\<lambda>slashFraction.
                      Inr (s\<lparr>o_sdk := Jail E (Slash E (o_sdk s) consAddr h
                                 (v_ConsensusPower validator (PowerReduction E (o_sdk s))) slashFraction) consAddr\<rparr>)))
                 else Inr s)
            else Inr s) = Inr s1" and s1: "slash_loop E h n L (s1\<lparr>MissCounters := kv_delete a (MissCounters s1)\<rparr>) = Inr s'"
    using assms unfolding e slash_loop.simps bindE_eq_Inr [of "checkE _ _"] bindE_eq_Inr [of "getE NilPointer (MinValidPerWindow s)"]
      bindE_eq_Inr [of "if _ then _ else _"] by blast
  then have "Votes s1 = Votes s \<and> Prevotes s1 = Prevotes s" by (auto simp: bindE_eq_Inr split: if_splits)
  then show ?thesis using s1 by (intro exI [of _ "s1\<lparr>MissCounters := kv_delete a (MissCounters s1)\<rparr>"]) simp
qed

lemma slash_loop_keeps: "slash_loop E h n L s = Inr s' \<Longrightarrow> Votes s' = Votes s \<and> Prevotes s' = Prevotes s"
proof (induction L arbitrary: s)
  case (Cons e L)
  obtain s1 where s1: "slash_loop E h n L s1 = Inr s'" "Votes s1 = Votes s" "Prevotes s1 = Prevotes s"
    using slash_loop_Cons [OF Cons.prems] by blast
  from Cons.IH [OF s1(1)] s1(2,3) show ?case by simp
qed simp

lemma EndBlocker_votes:
  assumes "EndBlocker E d ord ctx s = Inr s'" and "orders_ok ord" and "kv_wf (Prevotes s)"
  shows "kv_wf (Prevotes s') \<and> (kv_get (Prevotes s') a = Some x \<longrightarrow> kv_get (Prevotes s) a = Some x)
    \<and> (kv_get (Votes s') a = Some y \<longrightarrow> kv_get (Votes s) a = Some y)"
proof (cases "o_Params s")
  case None
  then show ?thesis using assms by (simp add: EndBlocker_def)
next
  case (Some p)
  obtain s1 where s1: "s1 = s \<or> UpdateExchangeRates E d ord ctx s = Inr s1"
      "s' = s1 \<or> SlashAndResetMissCounters E ctx s1 = Inr s'"
    using assms(1) by (auto simp: EndBlocker_def Some bindE_eq_Inr split: if_splits)
  have "kv_wf (Prevotes s1) \<and> (kv_get (Prevotes s1) a = Some x \<longrightarrow> kv_get (Prevotes s) a = Some x)
    \<and> (kv_get (Votes s1) a = Some y \<longrightarrow> kv_get (Votes s) a = Some y)"
    using s1(1) UpdateExchangeRates_clears [OF _ Some assms(2), of E d ctx s1] clear_prevotes [OF assms(3)] assms(3) by auto
  moreover have "Votes s' = Votes s1 \<and> Prevotes s' = Prevotes s1"
    using s1(2) by (auto simp: SlashAndResetMissCounters_def bindE_eq_Inr dest: slash_loop_keeps)
  ultimately show ?thesis by simp
qed


section \<open>Commitments\<close>

text \<open>A prevote for a validator with a hash, at a height.\<close>

definition commits :: "'b chain_sdk \<Rightarrow> oracle_action \<Rightarrow> addr \<Rightarrow> prevote \<Rightarrow> bool" where
  "commits E act v pv \<longleftrightarrow> (\<exists>ctx m h. act = SubmitPrevote ctx m \<and> ValAddressFromBech32 E (mp_Validator m) = Some v
     \<and> AggregateVoteHashFromHexString (mp_Hash m) = Some h
     \<and> pv = NewAggregateExchangeRatePrevote E h v (word_of_int (BlockHeight ctx)))"

text \<open>A vote for a validator that opens a prevote of the vote period before, with a vote period \<open>n\<close>.\<close>

definition reveals :: "'b chain_sdk \<Rightarrow> oracle_action \<Rightarrow> addr \<Rightarrow> prevote \<Rightarrow> vote \<Rightarrow> bool" where
  "reveals E act v pv vt \<longleftrightarrow> (\<exists>ctx m n. act = SubmitVote ctx m \<and> ValAddressFromBech32 E (mv_Validator m) = Some v
     \<and> pv_Hash pv = Hash_String (GetAggregateVoteHash E (mv_Salt m) (mv_ExchangeRates m) v)
     \<and> n \<noteq> 0 \<and> word_of_int (BlockHeight ctx) div n - pv_SubmitBlock pv div n = 1
     \<and> ParseExchangeRateTuples E (mv_ExchangeRates m) = Inr (vt_ExchangeRateTuples vt))"

definition revealed :: "'b chain_sdk \<Rightarrow> oracle_action list \<Rightarrow> addr \<Rightarrow> vote \<Rightarrow> bool" where
  "revealed E acts v vt \<longleftrightarrow> (\<exists>as a bs b cs pv. acts = as @ a # bs @ b # cs \<and> commits E a v pv \<and> reveals E b v pv vt)"

lemma revealed_append: "revealed E acts v vt \<Longrightarrow> revealed E (acts @ bs) v vt"
  unfolding revealed_def by (metis append.assoc append_Cons)

lemma vote_step:
  assumes "AggregateExchangeRateVote E ctx m s = Inr s'"
  obtains v pv vt where "ValAddressFromBech32 E (mv_Validator m) = Some v" "kv_get (Prevotes s) v = Some pv"
    "reveals E (SubmitVote ctx m) v pv vt" "Votes s' = kv_insert v vt (Votes s)" "Prevotes s' = kv_delete v (Prevotes s)"
proof -
  from assms have "\<exists>v pv (p :: oracle_params) ts. ValAddressFromBech32 E (mv_Validator m) = Some v \<and> kv_get (Prevotes s) v = Some pv
      \<and> VotePeriod_p p \<noteq> 0 \<and> word_of_int (BlockHeight ctx) div VotePeriod_p p - pv_SubmitBlock pv div VotePeriod_p p = 1
      \<and> ParseExchangeRateTuples E (mv_ExchangeRates m) = Inr ts
      \<and> pv_Hash pv = Hash_String (GetAggregateVoteHash E (mv_Salt m) (mv_ExchangeRates m) v)
      \<and> s\<lparr>Votes := kv_insert v (NewAggregateExchangeRateVote E ts v) (Votes s),
            Prevotes := kv_delete v (Prevotes s),
            o_events := o_events s @ [EventAggregateVote (mv_Validator m) (mv_ExchangeRates m) (mv_Feeder m)]\<rparr> = s'"
    unfolding AggregateExchangeRateVote_def Let_def bindE_eq_Inr getE_eq_Inr mapErr_eq_Inr checkE_eq_Inr sum.inject by blast
  then obtain v pv and p :: oracle_params and ts where "ValAddressFromBech32 E (mv_Validator m) = Some v" "kv_get (Prevotes s) v = Some pv"
      "VotePeriod_p p \<noteq> 0" "word_of_int (BlockHeight ctx) div VotePeriod_p p - pv_SubmitBlock pv div VotePeriod_p p = 1"
      "ParseExchangeRateTuples E (mv_ExchangeRates m) = Inr ts"
      "pv_Hash pv = Hash_String (GetAggregateVoteHash E (mv_Salt m) (mv_ExchangeRates m) v)"
      "Votes s' = kv_insert v (NewAggregateExchangeRateVote E ts v) (Votes s)" "Prevotes s' = kv_delete v (Prevotes s)"
    by auto
  then show thesis
    by (intro that [of v pv "NewAggregateExchangeRateVote E ts v"])
      (auto simp: reveals_def NewAggregateExchangeRateVote_def)
qed

lemma prevote_step:
  assumes "AggregateExchangeRatePrevote E ctx m s = Inr s'"
  obtains v pv where "commits E (SubmitPrevote ctx m) v pv" "Prevotes s' = kv_insert v pv (Prevotes s)" "Votes s' = Votes s"
  using assms that by (auto simp: AggregateExchangeRatePrevote_def bindE_eq_Inr getE_eq_Inr commits_def)

definition commit_inv :: "'b chain_sdk \<Rightarrow> oracle_action list \<Rightarrow> 'b oracle_state \<Rightarrow> bool" where
  "commit_inv E acts s \<longleftrightarrow> kv_wf (Prevotes s)
     \<and> (\<forall>v pv. kv_get (Prevotes s) v = Some pv \<longrightarrow> (\<exists>a \<in> set acts. commits E a v pv))
     \<and> (\<forall>v vt. kv_get (Votes s) v = Some vt \<longrightarrow> revealed E acts v vt)"

lemma commit_inv_keep:
  assumes "commit_inv E acts s" and "kv_wf (Prevotes s')"
    and "\<And>v pv. kv_get (Prevotes s') v = Some pv \<Longrightarrow> kv_get (Prevotes s) v = Some pv \<or> commits E a v pv"
    and "\<And>v vt. kv_get (Votes s') v = Some vt \<Longrightarrow> kv_get (Votes s) v = Some vt \<or> revealed E (acts @ [a]) v vt"
  shows "commit_inv E (acts @ [a]) s'"
  unfolding commit_inv_def
proof (intro conjI allI impI)
  show "kv_wf (Prevotes s')" by (rule assms(2))
  show "\<exists>a' \<in> set (acts @ [a]). commits E a' v pv" if "kv_get (Prevotes s') v = Some pv" for v pv
    using assms(3) [OF that] assms(1) by (auto simp: commit_inv_def)
  show "revealed E (acts @ [a]) v vt" if "kv_get (Votes s') v = Some vt" for v vt
    using assms(4) [OF that] assms(1) revealed_append [of E acts v vt "[a]"] by (auto simp: commit_inv_def)
qed

lemma commit_inv_step:
  assumes inv: "commit_inv E acts s" and "oracle_step E d s a s'"
  shows "commit_inv E (acts @ [a]) s'"
  using assms(2)
proof (cases rule: oracle_step.cases)
  case (prevote m ctx)
  then obtain v pv where "commits E a v pv" "Prevotes s' = kv_insert v pv (Prevotes s)" "Votes s' = Votes s"
    by (metis prevote_step)
  then show ?thesis using inv by (intro commit_inv_keep [OF inv]) (auto simp: commit_inv_def split: if_splits)
next
  case (vote m ctx)
  obtain v pv vt where v: "kv_get (Prevotes s) v = Some pv" "reveals E a v pv vt"
      "Votes s' = kv_insert v vt (Votes s)" "Prevotes s' = kv_delete v (Prevotes s)"
    using vote_step [OF vote(3)] vote(1) by metis
  have wf: "kv_wf (Prevotes s)" using inv by (simp add: commit_inv_def)
  obtain c where "c \<in> set acts" "commits E c v pv" using inv v(1) unfolding commit_inv_def by blast
  then obtain as bs where "acts = as @ c # bs" by (meson split_list)
  then have "revealed E (acts @ [a]) v vt"
    using \<open>commits E c v pv\<close> v(2) unfolding revealed_def by (metis append.assoc append_Cons)
  then show ?thesis using wf v(3,4) by (intro commit_inv_keep [OF inv]) (auto simp: kv_get_delete split: if_splits)
next
  case (delegate m)
  then have "Prevotes s' = Prevotes s \<and> Votes s' = Votes s" by (auto simp: DelegateFeedConsent_def bindE_eq_Inr)
  then show ?thesis using inv by (intro commit_inv_keep [OF inv]) (auto simp: commit_inv_def)
next
  case refused
  then show ?thesis using inv by (intro commit_inv_keep [OF inv]) (auto simp: commit_inv_def)
next
  case (blockend ord ctx)
  have wf: "kv_wf (Prevotes s)" using inv by (simp add: commit_inv_def)
  from EndBlocker_votes [OF blockend(3,2) wf] show ?thesis by (intro commit_inv_keep [OF inv]) auto
next
  case (others b p)
  then show ?thesis using inv by (intro commit_inv_keep [OF inv]) (auto simp: commit_inv_def)
qed


end
