(* ===== verification/Oracle_Twap.thy ===== *)
theory Oracle_Twap
  imports Oracle_Keeper
begin

text \<open>
  The time-weighted average of the oracle's prices lies between the least and the greatest price of the
  snapshots in the window, and is computed whenever there is a snapshot.
\<close>

definition snapshots_ok :: "'b oracle_state \<Rightarrow> bool" where
  "snapshots_ok s \<longleftrightarrow> kv_wf (PriceSnapshots s) \<and> (\<forall>((p, t), sn) \<in> set (PriceSnapshots s). ps_TimestampMs sn = UnixMilli t)"

lemma SetPrice_snapshots_ok: "snapshots_ok s \<Longrightarrow> snapshots_ok (SetPrice ctx pair price s)"
proof -
  assume ok: "snapshots_ok s"
  have "set (kv_insert k v m) \<subseteq> insert (k, v) (set m)" for k :: "pair \<times> int" and v and m :: "(pair \<times> int, price_snapshot) kv"
    by (induction k v m rule: kv_insert.induct) auto
  then show ?thesis using ok by (force simp: snapshots_ok_def SetPrice_def Let_def)
qed

lemma twap_prices_bounds:
  assumes "L \<noteq> []" and "sorted (map ps_TimestampMs L)" and "\<forall>sn \<in> set L. start \<le> ps_TimestampMs sn \<or> sn = hd L"
    and "\<forall>sn \<in> set L. ps_TimestampMs sn \<le> now" and "start \<le> now" and "\<forall>sn \<in> set (tl L). start \<le> ps_TimestampMs sn"
    and "\<forall>sn \<in> set L. lo \<le> ps_Price sn \<and> ps_Price sn \<le> hi"
  shows "lo * (now - start) \<le> twap_prices now start L \<and> twap_prices now start L \<le> hi * (now - start)"
  using assms
proof (induction now start L rule: twap_prices.induct)
  case (2 now start s)
  then show ?case by (simp add: mult_right_mono)
next
  case (3 now start s s' ss)
  let ?t = "ps_TimestampMs s'"
  have st: "start \<le> ?t" "?t \<le> now" using "3.prems" by auto
  have IH: "lo * (now - ?t) \<le> twap_prices now ?t (s' # ss) \<and> twap_prices now ?t (s' # ss) \<le> hi * (now - ?t)"
    using "3.prems" by (intro "3.IH") auto
  have "lo * (?t - start) \<le> ps_Price s * (?t - start)" "ps_Price s * (?t - start) \<le> hi * (?t - start)"
    using "3.prems"(7) st by (auto intro: mult_right_mono)
  with IH show ?case by (simp add: right_diff_distrib)
qed simp

lemma UnixMilli_mono: "t \<le> u \<Longrightarrow> UnixMilli t \<le> UnixMilli u"
  by (simp add: UnixMilli_def zdiv_mono1)

lemma UnixMilli_minus: "1000000 dvd w \<Longrightarrow> UnixMilli (t - w) = UnixMilli t - w div 1000000"
  by (auto simp: UnixMilli_def elim!: dvdE)

lemma twap_snapshots_facts:
  assumes "snapshots_ok s" and "sn \<in> set (twap_snapshots ctx s w pair)" and "1000000 dvd w"
  shows "UnixMilli (BlockTime ctx) - w div 1000000 \<le> ps_TimestampMs sn" and "ps_TimestampMs sn \<le> UnixMilli (BlockTime ctx)"
proof -
  obtain t where t: "((pair, t), sn) \<in> set (PriceSnapshots s)" "BlockTime ctx - w \<le> t" "t \<le> BlockTime ctx"
    using assms(2) by (auto simp: twap_snapshots_def)
  then have e: "ps_TimestampMs sn = UnixMilli t" using assms(1) by (auto simp: snapshots_ok_def)
  show "UnixMilli (BlockTime ctx) - w div 1000000 \<le> ps_TimestampMs sn"
    using UnixMilli_mono [OF t(2)] by (simp add: e UnixMilli_minus [OF assms(3)])
  show "ps_TimestampMs sn \<le> UnixMilli (BlockTime ctx)" using UnixMilli_mono [OF t(3)] by (simp add: e)
qed

lemma twap_snapshots_sorted:
  assumes "snapshots_ok s"
  shows "sorted (map ps_TimestampMs (twap_snapshots ctx s w pair))"
proof -
  let ?F = "\<lambda>m. filter (\<lambda>((p, t), sn). p = pair \<and> BlockTime ctx - w \<le> t \<and> t \<le> BlockTime ctx) m"
  have "sorted (map ps_TimestampMs (map snd (?F m)))"
    if "kv_wf m" "\<forall>((p, t), sn) \<in> set m. ps_TimestampMs sn = UnixMilli t" for m :: "(pair \<times> int, price_snapshot) kv"
    using that
  proof (induction m)
    case (Cons e m)
    obtain p t sn where e: "e = ((p, t), sn)" by (metis prod.collapse)
    have "ps_TimestampMs sn \<le> ps_TimestampMs sn'" if "((p, t'), sn') \<in> set m" for t' sn'
    proof -
      have "(p, t) < (p, t')" using Cons.prems(1) that by (force simp: e)
      then have "t < t'" by (simp add: less_prod_def)
      moreover have "ps_TimestampMs sn = UnixMilli t" "ps_TimestampMs sn' = UnixMilli t'"
        using Cons.prems(2) that by (auto simp: e)
      ultimately show ?thesis using UnixMilli_mono [of t t'] by simp
    qed
    then show ?case using Cons by (auto simp: e)
  qed simp
  then show ?thesis using assms by (simp add: twap_snapshots_def snapshots_ok_def)
qed

text \<open>The time-weighted average price of a pair exists as soon as there is a snapshot in the window and lies between the least
  and the greatest price of the snapshots in the window (with a window of whole milliseconds and, when there are several
  snapshots, an oldest one from before the current millisecond).\<close>

theorem GetExchangeRateTwap_between:
  assumes "dec_laws E" and "snapshots_ok s" and "o_Params s = Some p" and "1000000 dvd TwapLookbackWindow_p p"
    and "0 < TwapLookbackWindow_p p" and "twap_snapshots ctx s (TwapLookbackWindow_p p) pair \<noteq> []"
    and "ps_TimestampMs (hd (twap_snapshots ctx s (TwapLookbackWindow_p p) pair)) < UnixMilli (BlockTime ctx)"
    and "0 \<le> lo" and "\<forall>sn \<in> set (twap_snapshots ctx s (TwapLookbackWindow_p p) pair). lo \<le> ps_Price sn \<and> ps_Price sn \<le> hi"
  shows "\<exists>price. GetExchangeRateTwap E ctx s pair = Inr price \<and> lo \<le> price \<and> price \<le> hi"
proof -
  let ?w = "TwapLookbackWindow_p p" and ?now = "UnixMilli (BlockTime ctx)"
  let ?L = "twap_snapshots ctx s ?w pair"
  have q: "go_quo ?w 1000000 = ?w div 1000000" using assms(5) by (simp add: go_quo_nonneg)
  have w: "0 < ?w div 1000000" using assms(4,5) by (auto elim!: dvdE)
  consider sn where "?L = [sn]" | sn sn' L where "?L = sn # sn' # L" using assms(6) by (cases ?L; cases "tl ?L") auto
  then show ?thesis
  proof cases
    case 1
    then show ?thesis using assms(3,9) by (simp add: GetExchangeRateTwap_def calcTwap_def)
  next
    case 2
    let ?f = "max (ps_TimestampMs sn) (?now - ?w div 1000000)"
    have f: "?f < ?now" using assms(7) w by (simp add: 2)
    have b: "?now - ?w div 1000000 \<le> ps_TimestampMs x" "ps_TimestampMs x \<le> ?now" if "x \<in> set ?L" for x
      using twap_snapshots_facts [OF assms(2) that assms(4)] by auto
    have srt: "sorted (map ps_TimestampMs ?L)" by (rule twap_snapshots_sorted [OF assms(2)])
    have "?f \<le> ps_TimestampMs x" if "x \<in> set ?L" for x
      using b(1) [OF that] srt that by (auto simp: 2)
    then have "lo * (?now - ?f) \<le> twap_prices ?now ?f ?L \<and> twap_prices ?now ?f ?L \<le> hi * (?now - ?f)"
      using b(2) srt f assms(9) by (intro twap_prices_bounds) (auto simp: 2)
    then have "lo \<le> dec_QuoInt64 E (twap_prices ?now ?f ?L) (?now - ?f) \<and> dec_QuoInt64 E (twap_prices ?now ?f ?L) (?now - ?f) \<le> hi"
      using sdk_decimal.quoInt_between [OF dec_lawsD [OF assms(1)] _ assms(8), of "?now - ?f" "twap_prices ?now ?f ?L" hi] f by simp
    moreover have "?now - ?f \<noteq> 0" using f by linarith
    ultimately show ?thesis using assms(3)
      by (simp add: GetExchangeRateTwap_def calcTwap_def 2 Let_def q del: twap_prices.simps right_minus_eq)
  qed
qed

end
