(* ===== verification/Oracle_Witness.thy ===== *)
theory Oracle_Witness
  imports Oracle_Commit Oracle_Twap
begin

text \<open>
  The theorems on the oracle at concrete states: two validators have voted on one of two whitelisted pairs, a
  reward is set aside, and the fee pool holds some coins.
\<close>

section \<open>An example\<close>

definition ex_params :: oracle_params where
  "ex_params = \<lparr>VotePeriod_p = 10, VoteThreshold_p = 500000000000000000, MinVoters_p = 1, RewardBand_p = 20000000000000000,
     Whitelist_p = [''aaa:bbb''], SlashFraction_p = 100000000000000, SlashWindow_p = 100,
     MinValidPerWindow_p = 500000000000000000, TwapLookbackWindow_p = 900000000000, ValidatorFeeRatio_p = 50000000000000000\<rparr>"

definition ex_validator :: "addr \<Rightarrow> int \<Rightarrow> validator" where
  "ex_validator a n = \<lparr>v_IsBonded = True, v_IsJailed = False, v_Operator = a, v_ConsAddr = Some (''c'' @ a),
     v_ConsensusPower = (\<lambda>_. n)\<rparr>"

definition ex_chain :: ref_chain where
  "ex_chain = \<lparr>rc_balances = [((''module/fee_pool'', ''unusd''), 100), ((''module/oracle'', ''unusd''), 500)],
     rc_validators = [(''v1'', ex_validator ''v1'' 10), (''v2'', ex_validator ''v2'' 20)],
     rc_slashed = [], rc_jailed = [], rc_allocated = (\<lambda>_ _. 0), rc_supply = (\<lambda>_. 0)\<rparr>"

definition ex_oracle :: "ref_chain oracle_state" where
  "ex_oracle = \<lparr>o_Params = Some ex_params, ExchangeRates = [(''zzz:bbb'', 5)], FeederDelegations = [],
     MissCounters = [(''v1'', 8), (''v2'', 1)], Prevotes = [],
     Votes = [(''v1'', \<lparr>vt_ExchangeRateTuples = [\<lparr>t_Pair = ''aaa:bbb'', t_ExchangeRate = 10 * PREC\<rparr>], vt_Voter = ''vv1''\<rparr>),
              (''v2'', \<lparr>vt_ExchangeRateTuples = [\<lparr>t_Pair = ''aaa:bbb'', t_ExchangeRate = 12 * PREC\<rparr>], vt_Voter = ''vv2''\<rparr>)],
     PriceSnapshots = [], WhitelistedPairs = [(''aaa:bbb'', ())],
     Rewards = [(1, \<lparr>rw_Id = 1, rw_VotePeriods = 2, rw_Coins = [\<lparr>Denom = ''unusd'', Amount = 100\<rparr>]\<rparr>)],
     RewardsID = 2, o_sdk = ex_chain, o_events = []\<rparr>"

definition ex_block :: block_ctx where
  "ex_block = \<lparr>BlockHeight = 19, BlockTime = 1000000000000\<rparr>"

definition rev_order :: map_order where
  "rev_order = \<lparr>ord_invalid = rev, ord_count = rev, ord_missed = rev, ord_weight = rev, ord_reward = rev\<rparr>"

lemma rev_orders_ok: "orders_ok rev_order"
  by (simp add: orders_ok_def rev_order_def)

lemma ex_oracle_ok: "oracle_wf ex_oracle" "o_Params ex_oracle = Some ex_params"
  by (code_simp, simp add: ex_oracle_def)

definition ex_perfs :: performances where
  "ex_perfs = [(''vv1'', NewValidatorPerformance 10 ''v1''), (''vv2'', NewValidatorPerformance 20 ''v2'')]"

definition ex_passed :: pair_ballots where
  "ex_passed = [(''aaa:bbb'', [NewExchangeRateBallot (10 * PREC) ''aaa:bbb'' ''v1'' 10,
     NewExchangeRateBallot (12 * PREC) ''aaa:bbb'' ''v2'' 20])]"

definition ex_counted :: performances where
  "ex_counted = [(''vv1'', NewValidatorPerformance 10 ''v1''),
     (''vv2'', (NewValidatorPerformance 20 ''v2'')\<lparr>vp_RewardWeight := 20, vp_WinCount := 1\<rparr>)]"

lemma ex_new_perfs: "newValidatorPerformances ref_chain_sdk ex_oracle = Inr ex_perfs"
  by code_simp

lemma ex_ballots_passed:
  "passed_ballots ref_chain_sdk ex_params ex_perfs ex_oracle = ex_passed"
  "counted_pairs ref_chain_sdk ex_params ex_perfs ex_oracle = [''aaa:bbb'']"
proof -
  have "removeInvalidBallots ref_chain_sdk rev_order ex_oracle (groupBallotsByPair ex_perfs ex_oracle) =
      Inr (ex_passed, [''aaa:bbb''])" by code_simp
  with removeInvalidBallots_Inr [OF ex_oracle_ok(2) rev_orders_ok, of ref_chain_sdk ex_perfs]
  show "passed_ballots ref_chain_sdk ex_params ex_perfs ex_oracle = ex_passed"
    "counted_pairs ref_chain_sdk ex_params ex_perfs ex_oracle = [''aaa:bbb'']"
    by (simp_all add: getPairBallotsMapAndWhitelistedPairs_def)
qed

lemma ex_count: "count_perfs ref_chain_sdk (RewardBand_p ex_params) ex_passed ex_perfs = ex_counted"
  by code_simp

lemma ex_finish: "\<exists>s. rewardBallotWinners ref_chain_sdk ''distribution'' rev_order ex_counted
    (registerMissedVotes rev_order [''aaa:bbb''] ex_counted (counted ref_chain_sdk ex_params ex_block ex_passed ex_oracle)) = Inr s"
proof -
  have "case rewardBallotWinners ref_chain_sdk ''distribution'' rev_order ex_counted
    (registerMissedVotes rev_order [''aaa:bbb''] ex_counted (counted ref_chain_sdk ex_params ex_block ex_passed ex_oracle)) of
    Inl _ \<Rightarrow> False | Inr _ \<Rightarrow> True" by code_simp
  then show ?thesis by (auto split: sum.splits)
qed

lemma ex_update: "\<exists>s. UpdateExchangeRates ref_chain_sdk ''distribution'' rev_order ex_block ex_oracle = Inr s"
proof -
  have "ord_count rev_order ex_passed = ex_passed" by (simp add: rev_order_def ex_passed_def)
  then show ?thesis using ex_finish
    by (auto simp: UpdateExchangeRates_eq [OF ex_oracle_ok(2) rev_orders_ok] ex_new_perfs ex_ballots_passed ex_count
        finish_period_def Let_def)
qed


section \<open>Witnesses\<close>

theorem UpdateExchangeRates_deterministic_witness:
  "map_sum id drop_events (UpdateExchangeRates ref_chain_sdk ''distribution'' rev_order ex_block ex_oracle) =
   map_sum id drop_events (UpdateExchangeRates ref_chain_sdk ''distribution'' key_order ex_block ex_oracle)"
  by (rule UpdateExchangeRates_deterministic [OF ref_chain_coinset_laws ref_chain_alloc_laws ex_oracle_ok rev_orders_ok key_order_ok])

theorem UpdateExchangeRates_prices_witness:
  "\<exists>s. UpdateExchangeRates ref_chain_sdk ''distribution'' rev_order ex_block ex_oracle = Inr s
    \<and> kv_get (ExchangeRates s) ''aaa:bbb'' = Some (12 * PREC) \<and> kv_get (ExchangeRates s) ''zzz:bbb'' = None"
proof -
  obtain s where s: "UpdateExchangeRates ref_chain_sdk ''distribution'' rev_order ex_block ex_oracle = Inr s"
    using ex_update by blast
  note P = UpdateExchangeRates_prices [OF ex_oracle_ok(2) rev_orders_ok ex_new_perfs s]
  have a: "let bs = ballots_for ex_perfs ex_oracle ''aaa:bbb'' in
    IsWhitelistedPair ex_oracle ''aaa:bbb'' \<and>
    isPassingVoteThreshold bs (vote_threshold ref_chain_sdk (VoteThreshold_p ex_params) ex_oracle) (MinVoters_p ex_params)
    \<and> price_of bs = 12 * PREC" by code_simp
  have z: "\<not> IsWhitelistedPair ex_oracle ''zzz:bbb''" by code_simp
  show ?thesis using s P [of "''aaa:bbb''"] P [of "''zzz:bbb''"] a z by (auto simp: Let_def)
qed


end
