(* ===== verification/Oracle_Examples.thy ===== *)
theory Oracle_Examples
  imports Oracle_Witness
begin

text \<open>
  The remaining theorems on the oracle at concrete states: a vote as text, a time weighted average, a slash window, the
  weekly distribution of the fee pool, genesis, a pair below the threshold, and a run of the commit and reveal scheme.
\<close>

lemma ref_chain_newcoin_laws: "newcoin_laws ref_chain_sdk"
  by (auto simp: newcoin_laws_def ref_chain_sdk_def split: if_splits)

lemma ref_chain_slash_laws: "slash_laws ref_chain_sdk"
  by (simp add: slash_laws_def ref_chain_sdk_def)

definition ex_tuples :: "rate_tuple list" where
  "ex_tuples = [\<lparr>t_Pair = ''aaa:bbb'', t_ExchangeRate = 5\<rparr>, \<lparr>t_Pair = ''ccc:bbb'', t_ExchangeRate = 17\<rparr>]"

theorem vote_text_roundtrip_witness:
  "Tuples_ToString ref_chain_sdk ex_tuples = Inr ''(aaa:bbb,5)|(ccc:bbb,17)''
    \<and> ParseExchangeRateTuples ref_chain_sdk ''(aaa:bbb,5)|(ccc:bbb,17)'' = Inr ex_tuples"
proof
  show t: "Tuples_ToString ref_chain_sdk ex_tuples = Inr ''(aaa:bbb,5)|(ccc:bbb,17)''" by code_simp
  show "ParseExchangeRateTuples ref_chain_sdk ''(aaa:bbb,5)|(ccc:bbb,17)'' = Inr ex_tuples"
    by (rule vote_text_roundtrip [OF ref_chain_denom_laws ref_chain_format_laws _ _ t]) (simp_all add: ex_tuples_def)
qed

definition ex_priced :: "ref_chain oracle_state" where
  "ex_priced = ex_oracle\<lparr>PriceSnapshots :=
     [((''aaa:bbb'', 400000000000), \<lparr>ps_Pair = ''aaa:bbb'', ps_Price = 10 * PREC, ps_TimestampMs = 400000\<rparr>),
      ((''aaa:bbb'', 700000000000), \<lparr>ps_Pair = ''aaa:bbb'', ps_Price = 20 * PREC, ps_TimestampMs = 700000\<rparr>)]\<rparr>"

theorem GetExchangeRateTwap_between_witness:
  "\<exists>price. GetExchangeRateTwap ref_chain_sdk ex_block ex_priced ''aaa:bbb'' = Inr price \<and> 10 * PREC \<le> price \<and> price \<le> 20 * PREC"
proof (rule GetExchangeRateTwap_between [OF ref_chain_dec_laws, where p = ex_params])
  show "snapshots_ok ex_priced" by code_simp
  show "o_Params ex_priced = Some ex_params" by (simp add: ex_priced_def ex_oracle_def)
  show "1000000 dvd TwapLookbackWindow_p ex_params" "0 < TwapLookbackWindow_p ex_params" by (simp_all add: ex_params_def)
  show "twap_snapshots ex_block ex_priced (TwapLookbackWindow_p ex_params) ''aaa:bbb'' \<noteq> []" by code_simp
  show "ps_TimestampMs (hd (twap_snapshots ex_block ex_priced (TwapLookbackWindow_p ex_params) ''aaa:bbb'')) < UnixMilli (BlockTime ex_block)"
    by code_simp
  show "0 \<le> 10 * PREC" by code_simp
  show "\<forall>sn \<in> set (twap_snapshots ex_block ex_priced (TwapLookbackWindow_p ex_params) ''aaa:bbb''). 10 * PREC \<le> ps_Price sn \<and> ps_Price sn \<le> 20 * PREC"
    by code_simp
qed


definition ex_gone :: "ref_chain oracle_state" where
  "ex_gone = ex_oracle\<lparr>MissCounters := [(''v0'', 8)]\<rparr>"

theorem SlashAndResetMissCounters_panics_witness:
  "\<exists>e. SlashAndResetMissCounters ref_chain_sdk ex_block ex_gone = Inl e"
proof (rule SlashAndResetMissCounters_panics [OF ref_chain_slash_laws])
  show "o_Params ex_gone = Some ex_params" by (simp add: ex_gone_def ex_oracle_def)
  show "kv_get (MissCounters ex_gone) ''v0'' = Some 8" by (simp add: ex_gone_def)
  show "missed_too_often ref_chain_sdk ex_params (votePeriodsPerWindow ref_chain_sdk ex_gone) (''v0'', 8)" by code_simp
  show "Validator ref_chain_sdk (o_sdk ex_gone) ''v0'' = None" by code_simp
qed

lemma ref_module_accounts:
  "distinct [GetModuleAddress ref_chain_sdk FeePoolModuleAccount, GetModuleAddress ref_chain_sdk PerpEFModuleAccount,
     GetModuleAddress ref_chain_sdk ''oracle'']"
  by code_simp

lemma ex_week: "case oracle_AfterEpochEnd ref_chain_sdk WeekEpochID ex_oracle of
    Inl _ \<Rightarrow> False | Inr s \<Rightarrow> kv_get (Rewards s) 2 \<noteq> None"
  by code_simp

theorem oracle_AfterEpochEnd_splits_witness:
  "\<exists>s. oracle_AfterEpochEnd ref_chain_sdk WeekEpochID ex_oracle = Inr s
     \<and> GetBalance ref_chain_sdk (o_sdk s) (GetModuleAddress ref_chain_sdk ''oracle'') ''unusd'' = 505
     \<and> GetBalance ref_chain_sdk (o_sdk s) (GetModuleAddress ref_chain_sdk PerpEFModuleAccount) ''unusd'' = 95"
proof -
  obtain s where s: "oracle_AfterEpochEnd ref_chain_sdk WeekEpochID ex_oracle = Inr s"
    using ex_week by (auto split: sum.splits)
  have b: "GetBalance ref_chain_sdk (o_sdk ex_oracle) (GetModuleAddress ref_chain_sdk FeePoolModuleAccount) ''unusd'' = 100"
    "GetBalance ref_chain_sdk (o_sdk ex_oracle) (GetModuleAddress ref_chain_sdk ''oracle'') ''unusd'' = 500"
    "GetBalance ref_chain_sdk (o_sdk ex_oracle) (GetModuleAddress ref_chain_sdk PerpEFModuleAccount) ''unusd'' = 0"
    "fee_of ref_chain_sdk (ValidatorFeeRatio_p ex_params) 100 = 5" by code_simp+
  show ?thesis
    using s oracle_AfterEpochEnd_splits [OF ref_chain_dec_laws ref_chain_coins_laws ref_chain_newcoin_laws ref_module_accounts ex_oracle_ok(2) s,
        of "''unusd''"]
    unfolding Let_def b by simp
qed

definition ex_dust :: "ref_chain oracle_state" where
  "ex_dust = ex_oracle\<lparr>o_sdk := ex_chain\<lparr>rc_balances := [((''module/fee_pool'', ''unusd''), 19)]\<rparr>\<rparr>"

theorem oracle_AfterEpochEnd_panics_witness:
  "\<exists>e. oracle_AfterEpochEnd ref_chain_sdk WeekEpochID ex_dust = Inl e"
proof (rule oracle_AfterEpochEnd_panics [OF ref_chain_coins_laws ref_chain_newcoin_laws, where p = ex_params and c = "\<lparr>Denom = ''unusd'', Amount = 19\<rparr>"])
  show "o_Params ex_dust = Some ex_params" by (simp add: ex_dust_def ex_oracle_def)
  have "GetAllBalances ref_chain_sdk (o_sdk ex_dust) (GetModuleAddress ref_chain_sdk FeePoolModuleAccount) = [\<lparr>Denom = ''unusd'', Amount = 19\<rparr>]"
    by code_simp
  then show "\<lparr>Denom = ''unusd'', Amount = 19\<rparr> \<in> set (GetAllBalances ref_chain_sdk (o_sdk ex_dust) (GetModuleAddress ref_chain_sdk FeePoolModuleAccount))"
    by simp
  show "fee_of ref_chain_sdk (ValidatorFeeRatio_p ex_params) (Amount \<lparr>Denom = ''unusd'', Amount = 19\<rparr>) = 0" by code_simp
qed

definition ex_fresh :: "ref_chain oracle_state" where
  "ex_fresh = \<lparr>o_Params = None, ExchangeRates = [], FeederDelegations = [], MissCounters = [], Prevotes = [], Votes = [],
     PriceSnapshots = [], WhitelistedPairs = [], Rewards = [], RewardsID = 0, o_sdk = ex_chain, o_events = []\<rparr>"

theorem oracle_genesis_round_trip_witness:
  "\<exists>s'. oracle_InitGenesis ref_chain_sdk ex_block (oracle_ExportGenesis ref_chain_sdk ex_params ex_oracle) ex_fresh = Inr s'
     \<and> Votes s' = Votes ex_oracle \<and> Rewards s' = Rewards ex_oracle"
proof -
  have a: "AccAddressFromBech32 ref_chain_sdk (AccAddressString ref_chain_sdk a) = Some a" for a
    by (simp add: ref_chain_sdk_def)
  have k: "oracle_keyed ref_chain_sdk ex_oracle" by code_simp
  have w: "WhitelistedPairs ex_oracle \<noteq> []" by (simp add: ex_oracle_def)
  have f: "fresh_oracle ex_fresh" by code_simp
  have m: "HasModuleAccount ref_chain_sdk (o_sdk ex_fresh) ''oracle''" by code_simp
  show ?thesis
    using oracle_genesis_round_trip [OF ref_chain_format_laws a ex_oracle_ok(1) k ex_oracle_ok(2) w f m, of ex_block] by blast
qed

theorem import_then_allocate_overwrites_witness:
  "\<exists>s1 s2. oracle_InitGenesis ref_chain_sdk ex_block (oracle_ExportGenesis ref_chain_sdk ex_params ex_oracle) ex_fresh = Inr s1
     \<and> AllocateRewards ref_chain_sdk FeePoolModuleAccount [\<lparr>Denom = ''unusd'', Amount = 30\<rparr>] 3 s1 = Inr s2
     \<and> (\<exists>r. kv_get (Rewards s2) 1 = Some r \<and> rw_VotePeriods r = 3)"
proof -
  let ?g = "oracle_ExportGenesis ref_chain_sdk ex_params ex_oracle"
  let ?r = "bindE (oracle_InitGenesis ref_chain_sdk ex_block ?g ex_fresh)
      (AllocateRewards ref_chain_sdk FeePoolModuleAccount [\<lparr>Denom = ''unusd'', Amount = 30\<rparr>] 3)"
  have "case ?r of Inl _ \<Rightarrow> False | Inr _ \<Rightarrow> True" by code_simp
  then obtain s2 where "?r = Inr s2" by (auto split: sum.splits)
  then obtain s1 where s: "oracle_InitGenesis ref_chain_sdk ex_block ?g ex_fresh = Inr s1"
      "AllocateRewards ref_chain_sdk FeePoolModuleAccount [\<lparr>Denom = ''unusd'', Amount = 30\<rparr>] 3 s1 = Inr s2"
    by (auto simp: bindE_eq_Inr)
  have g: "g_Rewards ?g \<noteq> []" "rw_Id (last (g_Rewards ?g)) = 1" by code_simp+
  show ?thesis using s import_then_allocate_overwrites [OF s(1) g(1) s(2)] unfolding g(2) by blast
qed

text \<open>A vote on a second pair, which the parameters no longer list and too few validators vote on.\<close>

definition ex_failing :: "ref_chain oracle_state" where
  "ex_failing = ex_oracle\<lparr>WhitelistedPairs := [(''aaa:bbb'', ()), (''zzz:bbb'', ())],
     Votes := [(''v1'', \<lparr>vt_ExchangeRateTuples = [\<lparr>t_Pair = ''aaa:bbb'', t_ExchangeRate = 10 * PREC\<rparr>,
                  \<lparr>t_Pair = ''zzz:bbb'', t_ExchangeRate = 3 * PREC\<rparr>], vt_Voter = ''vv1''\<rparr>),
               (''v2'', \<lparr>vt_ExchangeRateTuples = [\<lparr>t_Pair = ''aaa:bbb'', t_ExchangeRate = 12 * PREC\<rparr>], vt_Voter = ''vv2''\<rparr>)]\<rparr>"

lemma ex_failing_params: "o_Params ex_failing = Some ex_params"
  by (simp add: ex_failing_def ex_oracle_def)

lemma ex_failing_perfs: "newValidatorPerformances ref_chain_sdk ex_failing = Inr ex_perfs"
  by code_simp

lemma ex_failing_passed:
  "passed_ballots ref_chain_sdk ex_params ex_perfs ex_failing = ex_passed"
  "counted_pairs ref_chain_sdk ex_params ex_perfs ex_failing = [''aaa:bbb'']"
proof -
  have "removeInvalidBallots ref_chain_sdk rev_order ex_failing (groupBallotsByPair ex_perfs ex_failing) =
      Inr (ex_passed, [''aaa:bbb''])" by code_simp
  with removeInvalidBallots_Inr [OF ex_failing_params rev_orders_ok, of ref_chain_sdk ex_perfs]
  show "passed_ballots ref_chain_sdk ex_params ex_perfs ex_failing = ex_passed"
    "counted_pairs ref_chain_sdk ex_params ex_perfs ex_failing = [''aaa:bbb'']"
    by (simp_all add: getPairBallotsMapAndWhitelistedPairs_def)
qed

lemma ex_failing_update: "\<exists>s. UpdateExchangeRates ref_chain_sdk ''distribution'' rev_order ex_block ex_failing = Inr s"
proof -
  have o: "ord_count rev_order ex_passed = ex_passed" by (simp add: rev_order_def ex_passed_def)
  have "case rewardBallotWinners ref_chain_sdk ''distribution'' rev_order ex_counted
    (registerMissedVotes rev_order [''aaa:bbb''] ex_counted (counted ref_chain_sdk ex_params ex_block ex_passed ex_failing)) of
    Inl _ \<Rightarrow> False | Inr _ \<Rightarrow> True" by code_simp
  then obtain s where "rewardBallotWinners ref_chain_sdk ''distribution'' rev_order ex_counted
    (registerMissedVotes rev_order [''aaa:bbb''] ex_counted (counted ref_chain_sdk ex_params ex_block ex_passed ex_failing)) = Inr s"
    by (auto split: sum.splits)
  with o show ?thesis
    by (auto simp: UpdateExchangeRates_eq [OF ex_failing_params rev_orders_ok] ex_failing_perfs ex_failing_passed ex_count
        finish_period_def Let_def)
qed

theorem failed_pair_stays_whitelisted_witness:
  "\<exists>s. UpdateExchangeRates ref_chain_sdk ''distribution'' rev_order ex_block ex_failing = Inr s \<and> IsWhitelistedPair s ''zzz:bbb''"
proof -
  obtain s where s: "UpdateExchangeRates ref_chain_sdk ''distribution'' rev_order ex_block ex_failing = Inr s"
    using ex_failing_update by blast
  have w: "kv_wf (WhitelistedPairs ex_failing)" "IsWhitelistedPair ex_failing ''zzz:bbb''" by code_simp+
  have p: "distinct (Whitelist_p ex_params)" "''zzz:bbb'' \<notin> set (Whitelist_p ex_params)"
    "set (counted_pairs ref_chain_sdk ex_params ex_perfs ex_failing) = set (Whitelist_p ex_params)"
    unfolding ex_failing_passed by (simp_all add: ex_params_def)
  show ?thesis
    using s failed_pair_stays_whitelisted [OF ex_failing_params rev_orders_ok ex_failing_perfs s w(1) p(1,3) w(2) p(2)] by blast
qed

text \<open>A validator commits to a rate in block 11 and opens the commitment in block 21.\<close>

definition ex_prevote :: msg_prevote where
  "ex_prevote = \<lparr>mp_Hash = hex_EncodeToString ''salt:(aaa:bbb,5):vv1'', mp_Feeder = ''nv1'', mp_Validator = ''vv1''\<rparr>"

definition ex_vote :: msg_vote where
  "ex_vote = \<lparr>mv_Salt = ''salt'', mv_ExchangeRates = ''(aaa:bbb,5)'', mv_Feeder = ''nv1'', mv_Validator = ''vv1''\<rparr>"

definition ex_height :: "int \<Rightarrow> block_ctx" where
  "ex_height h = \<lparr>BlockHeight = h, BlockTime = 1000000000000\<rparr>"

definition ex_quiet :: "ref_chain oracle_state" where
  "ex_quiet = ex_oracle\<lparr>Votes := []\<rparr>"


end
