(* ===== verification/V1_Examples.thy ===== *)
theory V1_Examples
  imports V1_Findings Oracle_Examples
begin

text \<open>
  The theorems on the first version of the module at concrete states: a pool of a hundred million coins on
  each side with a price of one, a trader with a thousand million coins, an ecosystem fund of as much.
\<close>

definition ex_v1_pool :: v1_market where
  "ex_v1_pool = \<lparr>v1_Pair = ''ubtc:unusd'', v1_BaseReserve = NewDec (10 ^ 8), v1_QuoteReserve = NewDec (10 ^ 8),
     v1_SqrtDepth = NewDec (10 ^ 8), v1_PegMultiplier = OneDec, v1_Config = v1_DefaultMarketConfig,
     v1_TotalLong = 0, v1_TotalShort = 0\<rparr>"

definition ex_v1_params :: v1_params where
  "ex_v1_params = \<lparr>v1_Stopped = False, v1_FeePoolFeeRatio = PREC div 100, v1_EcosystemFundFeeRatio = PREC div 50,
     v1_LiquidationFeeRatio = PREC div 40, v1_PartialLiquidationRatio = PREC div 4, v1_FundingRateInterval = ''30 min'',
     v1_TwapLookbackWindow = 1800000000000, v1_WhitelistedLiquidators = []\<rparr>"

definition ex_v1_state :: "'b \<Rightarrow> 'b v1_state" where
  "ex_v1_state b = \<lparr>v1_Pools = [(''ubtc:unusd'', ex_v1_pool)],
     v1_Snapshots = [((''ubtc:unusd'', 10000000), \<lparr>v1s_Pair = ''ubtc:unusd'', v1s_BaseReserve = NewDec (10 ^ 8),
        v1s_QuoteReserve = NewDec (10 ^ 8), v1s_PegMultiplier = OneDec, v1s_TimestampMs = 10\<rparr>)],
     v1_events = [], v1_Positions = [],
     v1_PairsMetadata = [(''ubtc:unusd'', \<lparr>v1pm_Pair = ''ubtc:unusd'', v1pm_LatestCumulativePremiumFraction = 0\<rparr>)],
     v1_PrepaidBadDebt = [], v1_Metrics = [], v1_Params = ex_v1_params, v1_bank = b\<rparr>"

definition ex_v1_ledger :: ledger where
  "ex_v1_ledger a d =
     (if d \<noteq> ''unusd'' then 0
      else if a = ledger_module PerpEFModuleAccount \<or> a = ''alice'' then 10 ^ 9 else 0)"

definition ex_v1_prices :: "ref_chain oracle_state" where
  "ex_v1_prices = ex_oracle\<lparr>ExchangeRates := [(''ubtc:unusd'', PREC)]\<rparr>"

abbreviation ex_v1_ctx :: block_ctx where
  "ex_v1_ctx \<equiv> \<lparr>BlockHeight = 5, BlockTime = 60000000\<rparr>"

definition ex_v1_open :: "'b sdk \<Rightarrow> 'b \<Rightarrow> v1_error + 'b v1_state \<times> position_resp" where
  "ex_v1_open E b = v1_OpenPosition E ex_v1_prices ex_v1_ctx ''ubtc:unusd'' LONG ''alice'' 1000000 OneDec 0 (ex_v1_state b)"

definition ex_v1_opened :: "ledger v1_state" where
  "ex_v1_opened = (case ex_v1_open ref_sdk ex_v1_ledger of Inl _ \<Rightarrow> ex_v1_state ex_v1_ledger | Inr (s, _) \<Rightarrow> s)"

lemma ex_v1_inv: "v1_inv E (ex_v1_state b)"
  by (simp add: v1_inv_def v1_pools_keyed_def v1_positions_keyed_def v1_bias_def v1_net_def v1_sizes_def ex_v1_state_def
      ex_v1_pool_def v1_GetBias_def)

lemma ex_v1_open_Inr:
  "map_sum id (\<lambda>(s, r). (Size (resp_Position r), v1_bal ref_sdk s ''alice'' ''unusd'', v1_bias s ''ubtc:unusd''))
     (ex_v1_open ref_sdk ex_v1_ledger) = Inr (990099009900990099009901, 998970000, 990099009900990099009901)"
  by code_simp

lemma ex_v1_openE:
  obtains r where "v1_OpenPosition ref_sdk ex_v1_prices ex_v1_ctx ''ubtc:unusd'' LONG ''alice'' 1000000 OneDec 0
      (ex_v1_state ex_v1_ledger) = Inr (ex_v1_opened, r)"
    and "Size (resp_Position r) = 990099009900990099009901"
  using ex_v1_open_Inr
  by (cases "ex_v1_open ref_sdk ex_v1_ledger") (auto simp: ex_v1_opened_def ex_v1_open_def)

section \<open>Witnesses\<close>

theorem v1_open_stays_in_band_witness:
  "\<exists>m snap. kv_get (v1_Pools ex_v1_opened) ''ubtc:unusd'' = Some m
     \<and> v1_GetLastSnapshot (ex_v1_state ex_v1_ledger) m = Inr snap \<and> v1_in_band ref_sdk snap m"
proof -
  obtain r where o: "v1_OpenPosition ref_sdk ex_v1_prices ex_v1_ctx ''ubtc:unusd'' LONG ''alice'' 1000000 OneDec 0
      (ex_v1_state ex_v1_ledger) = Inr (ex_v1_opened, r)"
    by (rule ex_v1_openE)
  have "map_option (\<lambda>m. v1_FluctuationLimitRatio (v1_Config m)) (kv_get (v1_Pools ex_v1_opened) ''ubtc:unusd'') = Some (PREC div 10)"
    by code_simp
  then show ?thesis
    using v1_open_stays_in_band [OF o ex_v1_inv ref_sdk_addr_laws ref_sdk_dec_laws] by (auto simp: PREC_def)
qed


text \<open>The pool after a purchase by alice, who holds the position; the vault is short of its margin.\<close>

definition ex_v1_position :: position where
  "ex_v1_position = \<lparr>TraderAddress = ''nalice'', pos_Pair = ''ubtc:unusd'', Size = 990099009900990099009901,
     Margin = NewDec 1000000, OpenNotional = NewDec 1000000, pos_LatestCumulativePremiumFraction = 0,
     LastUpdatedBlockNumber = 4\<rparr>"

definition ex_v1_holding :: "'b \<Rightarrow> 'b v1_state" where
  "ex_v1_holding b = (ex_v1_state b)\<lparr>
     v1_Pools := [(''ubtc:unusd'', ex_v1_pool\<lparr>v1_BaseReserve := 99009900990099009900990099, v1_QuoteReserve := NewDec 101000000,
       v1_TotalLong := 990099009900990099009901\<rparr>)],
     v1_Positions := [((''ubtc:unusd'', ''alice''), ex_v1_position)],
     v1_Metrics := [(''ubtc:unusd'', \<lparr>v1x_Pair = ''ubtc:unusd'', v1x_NetSize = 990099009900990099009901, v1x_VolumeQuote = 0, v1x_VolumeBase = 0\<rparr>)]\<rparr>"

lemma ex_v1_holding_inv:
  "AccAddressFromBech32 E ''nalice'' = Some ''alice'' \<Longrightarrow> v1_inv E (ex_v1_holding b)"
  by (simp add: v1_inv_def v1_pools_keyed_def v1_positions_keyed_def v1_bias_def v1_net_def v1_sizes_def ex_v1_holding_def
      ex_v1_state_def ex_v1_pool_def ex_v1_position_def v1_GetBias_def owned_def)

definition ex_v1_chain :: ref_chain where
  "ex_v1_chain = ex_chain\<lparr>rc_balances := [((''alice'', ''unusd''), 10 ^ 9)]\<rparr>"

definition ex_v1_sdk :: "ref_chain sdk" where
  "ex_v1_sdk = sdk.truncate ref_chain_sdk"

lemma ex_v1_sdk_laws: "addr_laws ex_v1_sdk" "dec_laws ex_v1_sdk" "AccAddressFromBech32 ex_v1_sdk ''nalice'' = Some ''alice''"
  using ref_chain_dec_laws
  by (simp_all add: ex_v1_sdk_def sdk.truncate_def addr_laws_def ref_chain_sdk_def dec_laws_def)

lemma ex_v1_donate:
  "\<not> isl (v1_msg_DonateToEcosystemFund ex_v1_sdk ''nalice'' \<lparr>Denom = ''unusd'', Amount = 5\<rparr> (ex_v1_holding ex_v1_chain))"
  by code_simp


lemma ex_v1_close:
  "map_sum id (\<lambda>(s, r). (RealizedPnl r, FundingPaymentApplied r, ExchangedNotionalValue r))
     (v1_ClosePosition ref_sdk ex_v1_prices ex_v1_ctx ''ubtc:unusd'' ''alice'' (ex_v1_holding ex_v1_ledger)) = Inr (0, 0, NewDec 1000000)"
  by code_simp

lemma ex_v1_fees:
  "v1_feePoolFee ref_sdk ex_v1_params (NewDec 1000000) = 10000" "v1_ecosystemFee ref_sdk ex_v1_params (NewDec 1000000) = 20000"
  by (code_simp, code_simp)

theorem v1_ClosePosition_pays_equity_witness:
  "\<exists>s' r. v1_ClosePosition ref_sdk ex_v1_prices ex_v1_ctx ''ubtc:unusd'' ''alice'' (ex_v1_holding ex_v1_ledger) = Inr (s', r)
     \<and> v1_bal ref_sdk s' ''alice'' ''unusd'' = 10 ^ 9 + 1000000 - 30000"
proof -
  obtain s' r where c: "v1_ClosePosition ref_sdk ex_v1_prices ex_v1_ctx ''ubtc:unusd'' ''alice'' (ex_v1_holding ex_v1_ledger) = Inr (s', r)"
    and r: "RealizedPnl r = 0" "FundingPaymentApplied r = 0" "ExchangedNotionalValue r = NewDec 1000000"
    using ex_v1_close
    by (cases "v1_ClosePosition ref_sdk ex_v1_prices ex_v1_ctx ''ubtc:unusd'' ''alice'' (ex_v1_holding ex_v1_ledger)") auto
  have s: "kv_get (v1_Positions (ex_v1_holding ex_v1_ledger)) (''ubtc:unusd'', ''alice'') = Some ex_v1_position"
    "v1_Params (ex_v1_holding ex_v1_ledger) = ex_v1_params" "v1_bal ref_sdk (ex_v1_holding ex_v1_ledger) ''alice'' ''unusd'' = 10 ^ 9"
    by (simp_all add: ex_v1_holding_def ex_v1_state_def ref_sdk_sel ex_v1_ledger_def)
  have q: "QuoteDenom ''ubtc:unusd'' = Inr ''unusd''" by code_simp
  have i: "v1_inv ref_sdk (ex_v1_holding ex_v1_ledger)" by (rule ex_v1_holding_inv) code_simp
  have e: "dec_RoundInt ref_sdk (NewDec 1000000) = 1000000" by code_simp
  have "v1_bal ref_sdk s' ''alice'' ''unusd'' = 10 ^ 9 + 1000000 - 10000 - 20000"
    using v1_ClosePosition_pays_equity [OF c s(1) i ref_sdk_laws ref_outsider(1) q]
    by (simp add: s(2,3) r ex_v1_fees ex_v1_position_def e)
  then show ?thesis using c by simp
qed

lemma ex_v1_quote_swap:
  "map_sum id snd (v1_SwapQuoteForBase ref_sdk ex_v1_prices ex_v1_ctx ex_v1_pool LONG (NewDec 1000000) 0 True (ex_v1_state ())) =
     Inr (ex_v1_pool\<lparr>v1_BaseReserve := 99009900990099009900990099, v1_QuoteReserve := NewDec 101000000,
       v1_TotalLong := 990099009900990099009901\<rparr>, 990099009900990099009901)"
  by code_simp

theorem v1_quote_swap_refines_witness:
  "amm_SwapQuoteAsset ref_sdk (v1_abs ex_v1_pool) (NewDec 1000000) LONG =
     Inr (v1_abs (ex_v1_pool\<lparr>v1_BaseReserve := 99009900990099009900990099, v1_QuoteReserve := NewDec 101000000,
       v1_TotalLong := 990099009900990099009901\<rparr>), 990099009900990099009901)"
proof -
  obtain s' where o: "v1_SwapQuoteForBase ref_sdk ex_v1_prices ex_v1_ctx ex_v1_pool LONG (NewDec 1000000) 0 True (ex_v1_state ()) =
      Inr (s', ex_v1_pool\<lparr>v1_BaseReserve := 99009900990099009900990099, v1_QuoteReserve := NewDec 101000000,
        v1_TotalLong := 990099009900990099009901\<rparr>, 990099009900990099009901)"
    using ex_v1_quote_swap
    by (cases "v1_SwapQuoteForBase ref_sdk ex_v1_prices ex_v1_ctx ex_v1_pool LONG (NewDec 1000000) 0 True (ex_v1_state ())") auto
  show ?thesis by (rule v1_quote_swap_refines [OF ref_sdk_dec_laws o]) (simp_all add: NewDec_def OneDec_def ex_v1_pool_def)
qed

lemma ex_v1_base_swap:
  "map_sum id snd (v1_SwapBaseForQuote ref_sdk ex_v1_prices ex_v1_ctx ex_v1_pool LONG (NewDec 1000000) 0 True (ex_v1_state ())) =
     Inr (ex_v1_pool\<lparr>v1_BaseReserve := NewDec 101000000, v1_QuoteReserve := 99009900990099009900990099,
       v1_TotalShort := NewDec 1000000\<rparr>, 990099009900990099009901)"
  by code_simp

theorem v1_base_swap_refines_witness:
  "amm_SwapBaseAsset ref_sdk (v1_abs ex_v1_pool) (NewDec 1000000) (v1_flip LONG) =
     Inr (v1_abs (ex_v1_pool\<lparr>v1_BaseReserve := NewDec 101000000, v1_QuoteReserve := 99009900990099009900990099,
       v1_TotalShort := NewDec 1000000\<rparr>), 990099009900990099009901)"
proof -
  obtain s' where o: "v1_SwapBaseForQuote ref_sdk ex_v1_prices ex_v1_ctx ex_v1_pool LONG (NewDec 1000000) 0 True (ex_v1_state ()) =
      Inr (s', ex_v1_pool\<lparr>v1_BaseReserve := NewDec 101000000, v1_QuoteReserve := 99009900990099009900990099,
        v1_TotalShort := NewDec 1000000\<rparr>, 990099009900990099009901)"
    using ex_v1_base_swap
    by (cases "v1_SwapBaseForQuote ref_sdk ex_v1_prices ex_v1_ctx ex_v1_pool LONG (NewDec 1000000) 0 True (ex_v1_state ())") auto
  show ?thesis by (rule v1_base_swap_refines [OF o]) (simp_all add: NewDec_def)
qed

lemma ex_v1_edits:
  "\<not> isl (bindE (v1_EditPoolConfig ref_sdk ''ubtc:unusd'' v1_DefaultMarketConfig (ex_v1_holding ex_v1_ledger))
     (v1_EditPoolPegMultiplier ref_sdk ''ubtc:unusd'' (NewDec 2)))"
  by code_simp

theorem v1_config_edit_makes_repeg_free_witness:
  "\<exists>s2. bindE (v1_EditPoolConfig ref_sdk ''ubtc:unusd'' v1_DefaultMarketConfig (ex_v1_holding ex_v1_ledger))
     (v1_EditPoolPegMultiplier ref_sdk ''ubtc:unusd'' (NewDec 2)) = Inr s2 \<and> v1_bank s2 = ex_v1_ledger"
proof -
  have "\<exists>s2. bindE (v1_EditPoolConfig ref_sdk ''ubtc:unusd'' v1_DefaultMarketConfig (ex_v1_holding ex_v1_ledger))
     (v1_EditPoolPegMultiplier ref_sdk ''ubtc:unusd'' (NewDec 2)) = Inr s2"
    by (rule not_isl_Inr [OF ex_v1_edits])
  then obtain s1 s2 where "v1_EditPoolConfig ref_sdk ''ubtc:unusd'' v1_DefaultMarketConfig (ex_v1_holding ex_v1_ledger) = Inr s1"
    "v1_EditPoolPegMultiplier ref_sdk ''ubtc:unusd'' (NewDec 2) s1 = Inr s2"
    by (auto simp: bindE_eq_Inr)
  moreover have "v1_pools_keyed (ex_v1_holding ex_v1_ledger)"
    by (simp add: v1_pools_keyed_def ex_v1_holding_def ex_v1_pool_def)
  moreover have "v1_bank (ex_v1_holding ex_v1_ledger) = ex_v1_ledger" by (simp add: ex_v1_holding_def ex_v1_state_def)
  ultimately show ?thesis using v1_config_edit_makes_repeg_free [OF _ _ _ ref_sdk_dec_laws] by (auto simp: bindE_eq_Inr)
qed

definition ex_v1_untraded :: v1_amm_state where
  "ex_v1_untraded = \<lparr>v1_Pools = [(''ubtc:unusd'', ex_v1_pool\<lparr>v1_TotalLong := 7\<rparr>)], v1_Snapshots = [], v1_events = []\<rparr>"

lemma ex_v1_genesis:
  "\<not> isl (v1_amm_InitGenesis ref_sdk ex_v1_ctx (v1_amm_ExportGenesis ex_v1_untraded) (ex_v1_untraded\<lparr>v1_Pools := []\<rparr>))"
  by code_simp

theorem v1_genesis_forgets_trading_witness:
  "\<exists>s'. v1_amm_InitGenesis ref_sdk ex_v1_ctx (v1_amm_ExportGenesis ex_v1_untraded) (ex_v1_untraded\<lparr>v1_Pools := []\<rparr>) = Inr s'
     \<and> v1_bias ex_v1_untraded ''ubtc:unusd'' = 7 \<and> v1_bias s' ''ubtc:unusd'' = 0"
proof -
  obtain s' where s': "v1_amm_InitGenesis ref_sdk ex_v1_ctx (v1_amm_ExportGenesis ex_v1_untraded) (ex_v1_untraded\<lparr>v1_Pools := []\<rparr>) = Inr s'"
    using not_isl_Inr [OF ex_v1_genesis] by blast
  have "ex_v1_pool\<lparr>v1_TotalLong := 7\<rparr> \<in> set (v1_amm_ExportGenesis ex_v1_untraded)"
    by (simp add: ex_v1_untraded_def v1_amm_ExportGenesis_def)
  from v1_genesis_forgets_trading [OF s' this] show ?thesis
    using s' by (simp add: ex_v1_pool_def ex_v1_untraded_def v1_bias_def v1_GetBias_def)
qed

theorem v1_migration_mixes_markets_witness:
  "v1_bias (v1_From2To3 ((ex_v1_holding ())\<lparr>v1_Pools := [(''ueth:unusd'', ex_v1_pool\<lparr>v1_Pair := ''ueth:unusd''\<rparr>)]\<rparr>)) ''ueth:unusd'' =
     990099009900990099009901"
  using v1_migration_mixes_markets
    [of "(ex_v1_holding ())\<lparr>v1_Pools := [(''ueth:unusd'', ex_v1_pool\<lparr>v1_Pair := ''ueth:unusd''\<rparr>)]\<rparr>" "''ueth:unusd''"]
  by (simp add: ex_v1_holding_def ex_v1_position_def)

end
