(* ===== verification/Inflation.thy ===== *)
theory Inflation
  imports Oracle_Reference Asset_Registry
begin

text \<open>
  The inflation module (\<^verbatim>\<open>x/inflation\<close>): at the end of every day epoch it mints the provision of the
  current period and shares it out between the fee collector (staking rewards), the community pool and its own account
  (strategic reserves).  The sequences \<open>CurrentPeriod\<close> and \<open>NumSkippedEpochs\<close> are 64-bit words; minting, the
  community pool, the supply and the power of a decimal belong to the SDK and are the fields of the record \<open>mint_sdk\<close>.
  The theory holds the definitions; \<open>Inflation_Schedule\<close> has the theorems.
\<close>

section \<open>Parameters\<close>

record exp_calculation =
  ec_A :: dec
  ec_R :: dec
  ec_C :: dec

record infl_distribution =
  StakingRewards :: dec
  CommunityPool :: dec
  StrategicReserves :: dec

record infl_params =
  ExponentialCalculation :: exp_calculation
  InflationDistribution :: infl_distribution
  InflationEnabled :: bool
  EpochsPerPeriod :: "64 word"

definition DefaultExponentialCalculation :: exp_calculation where
  "DefaultExponentialCalculation = \<lparr>ec_A = NewDec 405000000, ec_R = 50 * 10 ^ 16, ec_C = 3955078125 * 10 ^ 14\<rparr>"

definition DefaultInflationDistribution :: infl_distribution where
  "DefaultInflationDistribution =
     \<lparr>StakingRewards = 278 * 10 ^ 15, CommunityPool = 6220 * 10 ^ 14, StrategicReserves = 10 * 10 ^ 16\<rparr>"

definition infl_NewParams :: "exp_calculation \<Rightarrow> infl_distribution \<Rightarrow> bool \<Rightarrow> 64 word \<Rightarrow> infl_params" where
  "infl_NewParams ec dist enabled n =
     \<lparr>ExponentialCalculation = ec, InflationDistribution = dist, InflationEnabled = enabled, EpochsPerPeriod = n\<rparr>"

definition infl_DefaultParams :: infl_params where
  "infl_DefaultParams =
     \<lparr>ExponentialCalculation = DefaultExponentialCalculation, InflationDistribution = DefaultInflationDistribution,
      InflationEnabled = True, EpochsPerPeriod = 365\<rparr>"

datatype infl_error = WrongType | NegativeInitialValue | ReductionAboveOne | NegativeReduction | NegativeLongTerm
  | NegativeStaking | NegativeCommunity | NegativeStrategic | TotalNotOne | NoEpochsPerPeriod
  | NoModuleAccount | ParamsNotSet | InvalidCoin | NilAmount | InflationBank string

text \<open>The values that the parameter store hands to the validation functions.\<close>

datatype infl_value = VBool bool | VCalculation exp_calculation | VDistribution infl_distribution | VUint64 "64 word"

fun validateExponentialCalculation :: "infl_value \<Rightarrow> infl_error + unit" where
  "validateExponentialCalculation (VCalculation v) =
     (if ec_A v < 0 then Inl NegativeInitialValue
      else if NewDec 1 < ec_R v then Inl ReductionAboveOne
      else if ec_R v < 0 then Inl NegativeReduction
      else if ec_C v < 0 then Inl NegativeLongTerm
      else Inr ())"
| "validateExponentialCalculation _ = Inl WrongType"

fun validateInflationDistribution :: "infl_value \<Rightarrow> infl_error + unit" where
  "validateInflationDistribution (VDistribution v) =
     (if StakingRewards v < 0 then Inl NegativeStaking
      else if CommunityPool v < 0 then Inl NegativeCommunity
      else if StrategicReserves v < 0 then Inl NegativeStrategic
      else if StakingRewards v + StrategicReserves v + CommunityPool v \<noteq> OneDec then Inl TotalNotOne
      else Inr ())"
| "validateInflationDistribution _ = Inl WrongType"

fun validateBool :: "infl_value \<Rightarrow> infl_error + unit" where
  "validateBool (VBool _) = Inr ()"
| "validateBool _ = Inl WrongType"

fun validateUint64 :: "infl_value \<Rightarrow> infl_error + unit" where
  "validateUint64 (VUint64 _) = Inr ()"
| "validateUint64 _ = Inl WrongType"

fun validateEpochsPerPeriod :: "infl_value \<Rightarrow> infl_error + unit" where
  "validateEpochsPerPeriod (VUint64 v) = (if v \<le> 0 then Inl NoEpochsPerPeriod else Inr ())"
| "validateEpochsPerPeriod _ = Inl WrongType"

definition infl_Params_Validate :: "infl_params \<Rightarrow> infl_error + unit" where
  "infl_Params_Validate p =
     bindE (validateEpochsPerPeriod (VUint64 (EpochsPerPeriod p))) (\<lambda>_.
     bindE (validateExponentialCalculation (VCalculation (ExponentialCalculation p))) (\<lambda>_.
     bindE (validateInflationDistribution (VDistribution (InflationDistribution p))) (\<lambda>_.
     validateBool (VBool (InflationEnabled p)))))"

text \<open>The pairs of a value and the function that checks it when the parameters are stored.\<close>

definition infl_ParamSetPairs :: "infl_params \<Rightarrow> (infl_value \<times> (infl_value \<Rightarrow> infl_error + unit)) list" where
  "infl_ParamSetPairs p =
     [(VBool (InflationEnabled p), validateBool),
      (VCalculation (ExponentialCalculation p), validateExponentialCalculation),
      (VDistribution (InflationDistribution p), validateInflationDistribution),
      (VUint64 (EpochsPerPeriod p), validateUint64)]"

fun check_pairs :: "(infl_value \<times> (infl_value \<Rightarrow> infl_error + unit)) list \<Rightarrow> infl_error + unit" where
  "check_pairs [] = Inr ()"
| "check_pairs ((v, f) # ps) = bindE (f v) (\<lambda>_. check_pairs ps)"


section \<open>The provision of an epoch\<close>

record 'b mint_sdk =
  bank_MintCoins :: "'b \<Rightarrow> string \<Rightarrow> coin list \<Rightarrow> string + 'b"
  FundCommunityPool :: "'b \<Rightarrow> coin list \<Rightarrow> addr \<Rightarrow> string + 'b"
  GetSupply :: "'b \<Rightarrow> denom \<Rightarrow> int"
  dec_Power :: "dec \<Rightarrow> nat \<Rightarrow> dec"

definition DefaultPowerReduction :: int where
  "DefaultPowerReduction = 1000000"

definition CalculateEpochMintProvision :: "'b chain_sdk \<Rightarrow> 'b mint_sdk \<Rightarrow> infl_params \<Rightarrow> 64 word \<Rightarrow> dec" where
  "CalculateEpochMintProvision E M params period =
     (if EpochsPerPeriod params = 0 then 0
      else
        let x = period;
            a = ec_A (ExponentialCalculation params);
            r = ec_R (ExponentialCalculation params);
            c = ec_C (ExponentialCalculation params);
            decay = OneDec - r;
            periodProvision = dec_Mul E a (dec_Power M decay (unat x)) + c;
            epochProvision = dec_QuoInt64 E periodProvision (sint (EpochsPerPeriod params))
        in epochProvision * DefaultPowerReduction)"


section \<open>The keeper\<close>

datatype infl_event = EventMint "64 word" dec int

record 'b infl_state =
  i_Params :: "infl_params option"
  CurrentPeriod :: "64 word"
  NumSkippedEpochs :: "64 word"
  i_sdk :: 'b
  i_events :: "infl_event list"

definition infl_SetParams :: "infl_params \<Rightarrow> 'b infl_state \<Rightarrow> infl_error + 'b infl_state" where
  "infl_SetParams params s = bindE (check_pairs (infl_ParamSetPairs params)) (\<lambda>_. Inr (s\<lparr>i_Params := Some params\<rparr>))"

definition InflationModule :: string where
  "InflationModule = ''inflation''"

text \<open>\<open>sdk.NewCoins\<close> on one coin: a zero amount gives the empty set, a negative one panics.\<close>

definition NewCoins :: "coin \<Rightarrow> infl_error + coin list" where
  "NewCoins c = (if Amount c < 0 then Inl InvalidCoin else if Amount c = 0 then Inr [] else Inr [c])"

definition MintCoins :: "'b mint_sdk \<Rightarrow> coin \<Rightarrow> 'b \<Rightarrow> infl_error + 'b" where
  "MintCoins M c b = mapErr InflationBank (bank_MintCoins M b InflationModule [c])"

definition GetProportions :: "'b chain_sdk \<Rightarrow> coin \<Rightarrow> dec \<Rightarrow> coin" where
  "GetProportions E c proportion =
     \<lparr>Denom = Denom c, Amount = dec_TruncateInt E (dec_Mul E (NewDec (Amount c)) proportion)\<rparr>"

definition AllocateExponentialInflation :: "'b chain_sdk \<Rightarrow> 'b mint_sdk \<Rightarrow> string \<Rightarrow> coin \<Rightarrow> infl_params \<Rightarrow> 'b \<Rightarrow>
    infl_error + ('b \<times> coin \<times> coin \<times> coin)" where
  "AllocateExponentialInflation E M feeCollectorName mintedCoin params b =
     (let inflationDistribution = InflationDistribution params;
          moduleAddr = GetModuleAddress E InflationModule;
          staking = GetProportions E mintedCoin (StakingRewards inflationDistribution)
      in
      bindE (NewCoins staking) (\<lambda>sc.
      bindE (mapErr InflationBank (SendCoins_ModuleToModule E b InflationModule feeCollectorName sc)) (\<lambda>b1.
      let community = GetProportions E mintedCoin (CommunityPool inflationDistribution) in
      bindE (NewCoins community) (\<lambda>cc.
      bindE (mapErr InflationBank (FundCommunityPool M b1 cc moduleAddr)) (\<lambda>b2.
      let strategic = \<lparr>Denom = NIBI, Amount = GetBalance E b2 moduleAddr NIBI\<rparr> in
      Inr (b2, staking, strategic, community))))))"

text \<open>Nothing is minted for an amount that is not positive; the code then returns coins without an amount.\<close>

definition MintAndAllocateInflation :: "'b chain_sdk \<Rightarrow> 'b mint_sdk \<Rightarrow> string \<Rightarrow> coin \<Rightarrow> infl_params \<Rightarrow> 'b \<Rightarrow>
    infl_error + ('b \<times> (coin \<times> coin \<times> coin) option)" where
  "MintAndAllocateInflation E M feeCollectorName coins params b =
     (if \<not> 0 < Amount coins then Inr (b, None)
      else
        bindE (MintCoins M coins b) (\<lambda>b1.
        bindE (AllocateExponentialInflation E M feeCollectorName coins params b1) (\<lambda>(b2, parts). Inr (b2, Some parts))))"

definition GetCirculatingSupply :: "'b mint_sdk \<Rightarrow> denom \<Rightarrow> 'b infl_state \<Rightarrow> int" where
  "GetCirculatingSupply M mintDenom s = GetSupply M (i_sdk s) mintDenom"

definition GetEpochMintProvision :: "'b chain_sdk \<Rightarrow> 'b mint_sdk \<Rightarrow> 'b infl_state \<Rightarrow> infl_error + dec" where
  "GetEpochMintProvision E M s =
     bindE (getE ParamsNotSet (i_Params s)) (\<lambda>params. Inr (CalculateEpochMintProvision E M params (CurrentPeriod s)))"

definition GetInflationRate :: "'b chain_sdk \<Rightarrow> 'b mint_sdk \<Rightarrow> denom \<Rightarrow> 'b infl_state \<Rightarrow> infl_error + dec" where
  "GetInflationRate E M mintDenom s =
     bindE (GetEpochMintProvision E M s) (\<lambda>epochMintProvision.
     if epochMintProvision = 0 then Inr 0
     else
       let circulatingSupply = GetCirculatingSupply M mintDenom s in
       if circulatingSupply = 0 then Inr 0
       else
         bindE (getE ParamsNotSet (i_Params s)) (\<lambda>params.
         Inr (dec_Mul E (dec_Quo E (epochMintProvision * sint (EpochsPerPeriod params)) (NewDec circulatingSupply))
                (NewDec 100))))"


section \<open>The hooks\<close>

definition DayEpochID :: string where
  "DayEpochID = ''day''"

text \<open>The hook at the end of an epoch.  Its deferred function reads the amounts that were shared out for the metrics: without an
  amount this dereferences a nil pointer.\<close>

definition infl_AfterEpochEnd :: "'b chain_sdk \<Rightarrow> 'b mint_sdk \<Rightarrow> string \<Rightarrow> string \<Rightarrow> 64 word \<Rightarrow> 'b infl_state \<Rightarrow>
    infl_error + 'b infl_state" where
  "infl_AfterEpochEnd E M feeCollectorName epochIdentifier epochNumber s =
     (if epochIdentifier \<noteq> DayEpochID then Inr s
      else
      bindE (getE ParamsNotSet (i_Params s)) (\<lambda>params.
      if \<not> InflationEnabled params then Inr (s\<lparr>NumSkippedEpochs := NumSkippedEpochs s + 1\<rparr>)
      else
      let period = CurrentPeriod s;
          epochsPerPeriod = EpochsPerPeriod params;
          epochMintProvision = CalculateEpochMintProvision E M params period
      in
      if \<not> 0 < epochMintProvision then Inr s
      else
      let mintedCoin = \<lparr>Denom = NIBI, Amount = dec_TruncateInt E epochMintProvision\<rparr> in
      bindE (MintAndAllocateInflation E M feeCollectorName mintedCoin params (i_sdk s)) (\<lambda>(b, parts).
      let s1 = s\<lparr>i_sdk := b\<rparr>;
          s2 = (if sint epochsPerPeriod < sint (epochNumber - epochsPerPeriod * period - NumSkippedEpochs s1)
                then s1\<lparr>CurrentPeriod := CurrentPeriod s1 + 1\<rparr> else s1);
          s3 = s2\<lparr>i_events := i_events s2 @ [EventMint epochNumber epochMintProvision (Amount mintedCoin)]\<rparr>
      in if parts = None then Inl NilAmount else Inr s3)))"

definition infl_BeforeEpochStart :: "string \<Rightarrow> 64 word \<Rightarrow> 'b infl_state \<Rightarrow> 'b infl_state" where
  "infl_BeforeEpochStart epochIdentifier epochNumber s = s"

definition infl_Hooks :: "'b chain_sdk \<Rightarrow> 'b mint_sdk \<Rightarrow> string \<Rightarrow> 'b infl_state epoch_hooks" where
  "infl_Hooks E M feeCollectorName =
     \<lparr>AfterEpochEnd_hook = (\<lambda>ctx i n s. mapErr (\<lambda>_. ''inflation'') (infl_AfterEpochEnd E M feeCollectorName i n s)),
      BeforeEpochStart_hook = (\<lambda>ctx i n s. Inr (infl_BeforeEpochStart i n s))\<rparr>"


section \<open>Queries\<close>

definition NewDecCoinFromDec :: "denom \<Rightarrow> dec \<Rightarrow> infl_error + dec_coin" where
  "NewDecCoinFromDec d x = (if x < 0 then Inl InvalidCoin else Inr \<lparr>dc_Denom = d, dc_Amount = x\<rparr>)"

definition query_Period :: "'b infl_state \<Rightarrow> 64 word" where
  "query_Period s = CurrentPeriod s"

definition query_EpochMintProvision :: "'b chain_sdk \<Rightarrow> 'b mint_sdk \<Rightarrow> 'b infl_state \<Rightarrow> infl_error + dec_coin" where
  "query_EpochMintProvision E M s = bindE (GetEpochMintProvision E M s) (NewDecCoinFromDec NIBI)"

definition query_SkippedEpochs :: "'b infl_state \<Rightarrow> 64 word" where
  "query_SkippedEpochs s = NumSkippedEpochs s"

definition query_InflationRate :: "'b chain_sdk \<Rightarrow> 'b mint_sdk \<Rightarrow> 'b infl_state \<Rightarrow> infl_error + dec" where
  "query_InflationRate E M s = GetInflationRate E M NIBI s"

definition query_CirculatingSupply :: "'b mint_sdk \<Rightarrow> 'b infl_state \<Rightarrow> infl_error + dec_coin" where
  "query_CirculatingSupply M s = NewDecCoinFromDec NIBI (NewDec (GetCirculatingSupply M NIBI s))"

definition query_infl_Params :: "'b infl_state \<Rightarrow> infl_error + infl_params" where
  "query_infl_Params s = getE ParamsNotSet (i_Params s)"


section \<open>Genesis\<close>

record infl_genesis =
  ig_Params :: infl_params
  ig_Period :: "64 word"
  ig_SkippedEpochs :: "64 word"

definition infl_DefaultGenesisState :: infl_genesis where
  "infl_DefaultGenesisState = \<lparr>ig_Params = infl_DefaultParams, ig_Period = 0, ig_SkippedEpochs = 0\<rparr>"

definition infl_Genesis_Validate :: "infl_genesis \<Rightarrow> infl_error + unit" where
  "infl_Genesis_Validate gs =
     bindE (validateUint64 (VUint64 (ig_SkippedEpochs gs))) (\<lambda>_.
     bindE (validateUint64 (VUint64 (ig_Period gs))) (\<lambda>_. infl_Params_Validate (ig_Params gs)))"

definition infl_InitGenesis :: "'b chain_sdk \<Rightarrow> infl_genesis \<Rightarrow> 'b infl_state \<Rightarrow> infl_error + 'b infl_state" where
  "infl_InitGenesis E data s =
     bindE (checkE (HasModuleAccount E (i_sdk s) InflationModule) NoModuleAccount) (\<lambda>_.
     bindE (infl_SetParams (ig_Params data) s) (\<lambda>s1.
     Inr (s1\<lparr>CurrentPeriod := ig_Period data, NumSkippedEpochs := ig_SkippedEpochs data\<rparr>)))"

definition infl_ExportGenesis :: "'b infl_state \<Rightarrow> infl_error + infl_genesis" where
  "infl_ExportGenesis s =
     bindE (getE ParamsNotSet (i_Params s)) (\<lambda>params.
     Inr \<lparr>ig_Params = params, ig_Period = CurrentPeriod s, ig_SkippedEpochs = NumSkippedEpochs s\<rparr>)"

end
