(* ===== verification/Spot_Pool.thy ===== *)
theory Spot_Pool
  imports Inflation
begin

text \<open>
  The pools of the spot module (\<^verbatim>\<open>x/spot/types\<close>): the balancer pools (a constant product) and the stable swap pools (the
  invariant \<open>D\<close> and its solution by Newton's iteration in 256-bit arithmetic), joining, exiting and swapping.  What the pools use of the
  SDK beyond \<open>chain_sdk\<close>, of the bank, and of the library \<^verbatim>\<open>holiman/uint256\<close> is the record \<open>spot_sdk\<close>.  A method with a pointer
  receiver returns the updated pool.
\<close>

section \<open>Data\<close>

datatype pool_type = BALANCER | STABLESWAP | OtherPoolType int

record pool_params =
  SwapFee :: dec
  ExitFee :: dec
  pp_A :: "int option"
  PoolType :: pool_type

record pool_asset =
  Token :: coin
  Weight :: int

record spot_pool =
  pool_Id :: "64 word"
  pool_Address :: string
  PoolParams :: pool_params
  PoolAssets :: "pool_asset list"
  TotalWeight :: int
  TotalShares :: coin

datatype spot_error = ErrTooFewPoolAssets | ErrTooManyPoolAssets | ErrInvalidSwapFee | ErrInvalidExitFee
  | ErrInvalidTokenWeight | ErrTokenNotAllowed | ErrInvalidPoolType | ErrAmplificationMissing | ErrAmplificationTooLow
  | ErrPoolWithSameAssetsExists | ErrBorkedPool | ErrInvariantLowerAfterJoining
  | ErrInvalidPoolId | ErrInvalidTokenIn | ErrInvalidTokenOutDenom | ErrPoolNotFound | ErrTokenDenomNotFound
  | ErrSameTokenDenom | ErrNotImplemented | ErrInsufficientFunds | ErrSpotAddress
  | SpotError string | SpotPanic string

record 'b spot_sdk =
  SendCoins :: "'b \<Rightarrow> addr \<Rightarrow> addr \<Rightarrow> coin list \<Rightarrow> string + 'b"
  SendCoins_ModuleToAccount :: "'b \<Rightarrow> string \<Rightarrow> addr \<Rightarrow> coin list \<Rightarrow> string + 'b"
  SendCoins_AccountToModule :: "'b \<Rightarrow> addr \<Rightarrow> string \<Rightarrow> coin list \<Rightarrow> string + 'b"
  BurnCoins :: "'b \<Rightarrow> string \<Rightarrow> coin list \<Rightarrow> string + 'b"
  SpendableCoins :: "'b \<Rightarrow> addr \<Rightarrow> coin list"
  NewModuleAccount :: "'b \<Rightarrow> string \<Rightarrow> 'b \<times> addr"
  SetDenomMetaData :: "'b \<Rightarrow> denom \<Rightarrow> denom \<Rightarrow> 'b"
  Coins_Sub :: "coin list \<Rightarrow> coin list \<Rightarrow> coin list option"
  Coins_IsAllGTE :: "coin list \<Rightarrow> coin list \<Rightarrow> bool"
  NewCoins_of :: "coin list \<Rightarrow> coin list option"
  Coins_AmountOf :: "coin list \<Rightarrow> denom \<Rightarrow> int"
  dec_QuoInt :: "dec \<Rightarrow> int \<Rightarrow> dec"
  dec_ApproxSqrt :: "dec \<Rightarrow> dec option"
  u_Add :: "256 word \<Rightarrow> 256 word \<Rightarrow> 256 word"
  u_Sub :: "256 word \<Rightarrow> 256 word \<Rightarrow> 256 word"
  u_Mul :: "256 word \<Rightarrow> 256 word \<Rightarrow> 256 word"
  u_Div :: "256 word \<Rightarrow> 256 word \<Rightarrow> 256 word"
  u_Abs :: "256 word \<Rightarrow> 256 word"
  u_Lt :: "256 word \<Rightarrow> 256 word \<Rightarrow> bool"

definition MinPoolAssets :: nat where
  "MinPoolAssets = 2"

definition MaxPoolAssets :: nat where
  "MaxPoolAssets = 2"

definition GuaranteedWeightPrecision :: int where
  "GuaranteedWeightPrecision = 2 ^ 30"

definition InitPoolSharesSupply :: int where
  "InitPoolSharesSupply = 10 ^ 18 * 100"

definition MaxUserSpecifiedWeight :: int where
  "MaxUserSpecifiedWeight = 2 ^ 20"

definition GetPoolShareBaseDenom :: "64 word \<Rightarrow> denom" where
  "GetPoolShareBaseDenom poolId = ''nibiru/pool/'' @ digits (unat poolId)"

definition GetPoolShareDisplayDenom :: "64 word \<Rightarrow> denom" where
  "GetPoolShareDisplayDenom poolId = ''NIBIRU-POOL-'' @ digits (unat poolId)"

text \<open>\<open>sdk.NewCoin\<close> panics on a negative amount; a division of decimals by zero panics.\<close>

definition newCoin :: "denom \<Rightarrow> int \<Rightarrow> spot_error + coin" where
  "newCoin d n = (if n < 0 then Inl (SpotPanic ''negative coin amount'') else Inr \<lparr>Denom = d, Amount = n\<rparr>)"

definition decQuo :: "'b chain_sdk \<Rightarrow> dec \<Rightarrow> dec \<Rightarrow> spot_error + dec" where
  "decQuo E x y = (if y = 0 then Inl (SpotPanic ''division by zero'') else Inr (dec_Quo E x y))"

definition decQuoInt :: "'b spot_sdk \<Rightarrow> dec \<Rightarrow> int \<Rightarrow> spot_error + dec" where
  "decQuoInt S x n = (if n = 0 then Inl (SpotPanic ''division by zero'') else Inr (dec_QuoInt S x n))"


section \<open>Pool assets\<close>

definition PoolAsset_Validate :: "pool_asset \<Rightarrow> spot_error + unit" where
  "PoolAsset_Validate a =
     (if Amount (Token a) \<le> 0 then Inl (SpotError ''can't add the zero or negative balance of token'')
      else if Weight a \<le> 0 then Inl (SpotError ''a token's weight in the pool must be greater than 0'')
      else if MaxUserSpecifiedWeight * GuaranteedWeightPrecision \<le> Weight a
        then Inl (SpotError ''a token's weight in the pool must be less than 1^50'')
      else Inr ())"

text \<open>The binary search of Go's \<^verbatim>\<open>sort.Search\<close>: the least index with the property, or the length.\<close>

function search_between :: "(nat \<Rightarrow> bool) \<Rightarrow> nat \<Rightarrow> nat \<Rightarrow> nat" where
  "search_between f i j =
     (if i < j
      then let h = (i + j) div 2 in if \<not> f h then search_between f (h + 1) j else search_between f i h
      else i)"
  by pat_completeness auto

termination by (relation "measure (\<lambda>(f, i, j). j - i)") auto

declare search_between.simps [simp del]

definition sort_Search :: "nat \<Rightarrow> (nat \<Rightarrow> bool) \<Rightarrow> nat" where
  "sort_Search n f = search_between f 0 n"

definition getPoolAssetAndIndex :: "spot_pool \<Rightarrow> denom \<Rightarrow> spot_error + (nat \<times> pool_asset)" where
  "getPoolAssetAndIndex pool denom =
     (if denom = [] then Inl (SpotError ''empty denom'')
      else if length (PoolAssets pool) = 0 then Inl (SpotError ''empty pool assets'')
      else
        let i = sort_Search (length (PoolAssets pool)) (\<lambda>i. denom \<le> Denom (Token (PoolAssets pool ! i))) in
        if length (PoolAssets pool) \<le> i \<or> Denom (Token (PoolAssets pool ! i)) \<noteq> denom then Inl ErrTokenDenomNotFound
        else Inr (i, PoolAssets pool ! i))"

definition PoolBalances :: "'b chain_sdk \<Rightarrow> spot_pool \<Rightarrow> coin list" where
  "PoolBalances E pool = fold (\<lambda>asset coins. Coins_Add E coins [Token asset]) (PoolAssets pool) []"

definition sortPoolAssetsByDenom :: "pool_asset list \<Rightarrow> pool_asset list" where
  "sortPoolAssetsByDenom assets = sort_key (\<lambda>a. Denom (Token a)) assets"

fun scale_assets :: "denom list \<Rightarrow> pool_asset list \<Rightarrow> spot_error + pool_asset list" where
  "scale_assets seen [] = Inr []"
| "scale_assets seen (asset # assets) =
     bindE (PoolAsset_Validate asset) (\<lambda>_.
     if Denom (Token asset) \<in> set seen then Inl (SpotError ''same PoolAsset already exists'')
     else
       bindE (scale_assets (Denom (Token asset) # seen) assets) (\<lambda>scaled.
       Inr (asset\<lparr>Weight := Weight asset * GuaranteedWeightPrecision\<rparr> # scaled)))"

definition setInitialPoolAssets :: "pool_asset list \<Rightarrow> spot_pool \<Rightarrow> spot_error + spot_pool" where
  "setInitialPoolAssets poolAssets pool =
     bindE (scale_assets [] poolAssets) (\<lambda>scaledPoolAssets.
     Inr (pool\<lparr>PoolAssets := sortPoolAssetsByDenom scaledPoolAssets,
               TotalWeight := sum_list (map Weight scaledPoolAssets)\<rparr>))"

definition types_NewPool :: "64 word \<Rightarrow> string \<Rightarrow> pool_params \<Rightarrow> pool_asset list \<Rightarrow> spot_error + spot_pool" where
  "types_NewPool poolId poolAccountAddr poolParams poolAssets =
     setInitialPoolAssets poolAssets
       \<lparr>pool_Id = poolId, pool_Address = poolAccountAddr, PoolParams = poolParams, PoolAssets = [], TotalWeight = 0,
        TotalShares = \<lparr>Denom = GetPoolShareBaseDenom poolId, Amount = InitPoolSharesSupply\<rparr>\<rparr>"

definition AreTokensInDenomInPoolAssets :: "spot_pool \<Rightarrow> coin list \<Rightarrow> bool" where
  "AreTokensInDenomInPoolAssets pool tokensIn \<longleftrightarrow> list_all (\<lambda>c. \<not> isl (getPoolAssetAndIndex pool (Denom c))) tokensIn"

definition GetAddress :: "'b chain_sdk \<Rightarrow> spot_pool \<Rightarrow> spot_error + addr" where
  "GetAddress E pool = getE (SpotPanic ''could not bech32 decode address of pool'') (AccAddressFromBech32 E (pool_Address pool))"

definition SubtractPoolAssetBalance :: "denom \<Rightarrow> int \<Rightarrow> spot_pool \<Rightarrow> spot_error + spot_pool" where
  "SubtractPoolAssetBalance assetDenom subAmt pool =
     (if subAmt < 0 then Inl (SpotError ''can't subtract a negative amount'')
      else
        bindE (getPoolAssetAndIndex pool assetDenom) (\<lambda>(index, poolAsset).
        let amount = Amount (Token poolAsset) - subAmt in
        if amount < 0 then Inl (SpotError ''can't set the pool's balance of a token to be zero or negative'')
        else Inr (pool\<lparr>PoolAssets := (PoolAssets pool)[index := poolAsset\<lparr>Token := (Token poolAsset)\<lparr>Amount := amount\<rparr>\<rparr>]\<rparr>)))"

fun updatePoolAssetBalances :: "coin list \<Rightarrow> spot_pool \<Rightarrow> spot_error + spot_pool" where
  "updatePoolAssetBalances [] pool = Inr pool"
| "updatePoolAssetBalances (coin # tokens) pool =
     (if Amount coin < 0 then Inl (SpotError ''provided coins are invalid'')
      else
        bindE (getPoolAssetAndIndex pool (Denom coin)) (\<lambda>(assetIndex, existingAsset).
        updatePoolAssetBalances tokens
          (pool\<lparr>PoolAssets := (PoolAssets pool)[assetIndex := (PoolAssets pool ! assetIndex)\<lparr>Token := coin\<rparr>]\<rparr>)))"

fun add_liquidity :: "coin list \<Rightarrow> spot_pool \<Rightarrow> spot_error + spot_pool" where
  "add_liquidity [] pool = Inr pool"
| "add_liquidity (coin # coins) pool =
     bindE (getPoolAssetAndIndex pool (Denom coin)) (\<lambda>(i, poolAsset).
     add_liquidity coins
       (pool\<lparr>PoolAssets := (PoolAssets pool)[i := poolAsset\<lparr>Token := (Token poolAsset)\<lparr>Amount := Amount (Token poolAsset) + Amount coin\<rparr>\<rparr>]\<rparr>))"

definition incrementBalances :: "int \<Rightarrow> coin list \<Rightarrow> spot_pool \<Rightarrow> spot_error + spot_pool" where
  "incrementBalances numShares newLiquidity pool =
     bindE (add_liquidity newLiquidity pool) (\<lambda>pool'.
     Inr (pool'\<lparr>TotalShares := (TotalShares pool')\<lparr>Amount := Amount (TotalShares pool') + numShares\<rparr>\<rparr>))"


section \<open>The stable swap invariant\<close>

text \<open>\<open>Int64()\<close> and \<open>Uint64()\<close> of a big integer panic out of range; conversions of words reinterpret or cut off bits.\<close>

definition int_Int64 :: "int \<Rightarrow> spot_error + 64 word" where
  "int_Int64 n = (if - (2 ^ 63) \<le> n \<and> n < 2 ^ 63 then Inr (word_of_int n) else Inl (SpotPanic ''Int64() out of bound''))"

definition int_Uint64 :: "int \<Rightarrow> spot_error + 64 word" where
  "int_Uint64 n = (if 0 \<le> n \<and> n < 2 ^ 64 then Inr (word_of_int n) else Inl (SpotPanic ''Uint64() out of bound''))"

definition u256 :: "64 word \<Rightarrow> 256 word" where
  "u256 w = word_of_nat (unat w)"

definition getA :: "spot_pool \<Rightarrow> spot_error + 256 word" where
  "getA pool =
     bindE (getE (SpotPanic ''nil amplification'') (pp_A (PoolParams pool))) (\<lambda>a.
     bindE (int_Int64 a) (\<lambda>w. Inr (u256 w)))"

text \<open>\<open>uint64(math.Pow(n, n))\<close>: exact for the pool sizes that the module allows.\<close>

definition pow_nn :: "nat \<Rightarrow> 256 word" where
  "pow_nn n = u256 (word_of_nat (n ^ n))"

fun token_amounts :: "pool_asset list \<Rightarrow> spot_error + 256 word list" where
  "token_amounts [] = Inr []"
| "token_amounts (a # as) =
     (if Amount (Token a) = 0 then Inl ErrBorkedPool
      else bindE (int_Uint64 (Amount (Token a))) (\<lambda>w. bindE (token_amounts as) (\<lambda>ws. Inr (u256 w # ws))))"

definition D_product :: "'b spot_sdk \<Rightarrow> 256 word \<Rightarrow> 256 word list \<Rightarrow> 256 word \<Rightarrow> 256 word" where
  "D_product S nCoins tokens D = fold (\<lambda>token D_P. u_Div S (u_Mul S D_P D) (u_Mul S token nCoins)) tokens D"

definition D_next :: "'b spot_sdk \<Rightarrow> 256 word \<Rightarrow> 256 word \<Rightarrow> 256 word \<Rightarrow> 256 word list \<Rightarrow> 256 word \<Rightarrow> 256 word" where
  "D_next S nCoins Ann sum_x tokens D =
     (let D_P = D_product S nCoins tokens D;
          num = u_Mul S (u_Add S (u_Mul S Ann sum_x) (u_Mul S D_P nCoins)) D;
          denom = u_Add S (u_Mul S (u_Add S nCoins 1) D_P) (u_Mul S (u_Sub S Ann 1) D)
      in u_Div S num denom)"

fun D_loop :: "'b spot_sdk \<Rightarrow> 256 word \<Rightarrow> 256 word \<Rightarrow> 256 word \<Rightarrow> 256 word list \<Rightarrow> nat \<Rightarrow> 256 word \<Rightarrow> 256 word" where
  "D_loop S nCoins Ann sum_x tokens 0 D = D"
| "D_loop S nCoins Ann sum_x tokens (Suc i) D =
     (let D' = D_next S nCoins Ann sum_x tokens D in
      if u_Lt S (u_Abs S (u_Sub S D' D)) 2 then D' else D_loop S nCoins Ann sum_x tokens i D')"

definition GetD :: "'b spot_sdk \<Rightarrow> spot_pool \<Rightarrow> pool_asset list \<Rightarrow> spot_error + 256 word" where
  "GetD S pool poolAssets =
     (let nCoins = word_of_nat (length poolAssets) in
      bindE (getA pool) (\<lambda>Amp.
      let Ann = u_Mul S Amp (pow_nn (length poolAssets)) in
      bindE (token_amounts poolAssets) (\<lambda>tokens.
      let sum_x = fold (\<lambda>x acc. u_Add S acc x) tokens 0 in
      Inr (D_loop S nCoins Ann sum_x tokens 255 sum_x))))"

definition getIJforSwap :: "spot_pool \<Rightarrow> denom \<Rightarrow> denom \<Rightarrow> spot_error + (nat \<times> nat)" where
  "getIJforSwap pool denomIn denomOut =
     bindE (getPoolAssetAndIndex pool denomIn) (\<lambda>(i, _).
     bindE (getPoolAssetAndIndex pool denomOut) (\<lambda>(j, _). Inr (i, j)))"

definition MustSdkIntToUint256 :: "int \<Rightarrow> spot_error + 256 word" where
  "MustSdkIntToUint256 num = bindE (int_Int64 num) (\<lambda>w. Inr (u256 w))"

text \<open>The loop over the assets that computes the sum and the constant \<open>c\<close> of the quadratic equation.\<close>

fun c_loop :: "'b spot_sdk \<Rightarrow> int \<Rightarrow> nat \<Rightarrow> nat \<Rightarrow> 256 word \<Rightarrow> 256 word \<Rightarrow> nat \<Rightarrow> pool_asset list \<Rightarrow> 256 word \<times> 256 word \<Rightarrow>
    spot_error + (256 word \<times> 256 word)" where
  "c_loop S amountIn i j nCoins D k [] (sum_x, c) = Inr (sum_x, c)"
| "c_loop S amountIn i j nCoins D k (a # as) (sum_x, c) =
     (if k \<noteq> i \<and> k = j then c_loop S amountIn i j nCoins D (k + 1) as (sum_x, c)
      else
        bindE (MustSdkIntToUint256 (if k = i then amountIn else Amount (Token a))) (\<lambda>x.
        c_loop S amountIn i j nCoins D (k + 1) as
          (u_Add S sum_x x, u_Div S (u_Mul S c D) (u_Mul S x nCoins))))"

fun y_loop :: "'b spot_sdk \<Rightarrow> 256 word \<Rightarrow> 256 word \<Rightarrow> 256 word \<Rightarrow> nat \<Rightarrow> 256 word \<Rightarrow> 256 word" where
  "y_loop S b c D 0 y = y"
| "y_loop S b c D (Suc i) y =
     (let y' = u_Div S (u_Add S (u_Mul S y y) c) (u_Sub S (u_Add S (u_Mul S 2 y) b) D) in
      if u_Lt S (u_Abs S (u_Sub S y' y)) 2 then y' else y_loop S b c D i y')"

definition SolveStableswapInvariant :: "'b spot_sdk \<Rightarrow> spot_pool \<Rightarrow> coin \<Rightarrow> denom \<Rightarrow> spot_error + int" where
  "SolveStableswapInvariant S pool tokenIn tokenOutDenom =
     bindE (getA pool) (\<lambda>A.
     bindE (GetD S pool (PoolAssets pool)) (\<lambda>D.
     let n = length (PoolAssets pool);
         nCoins = word_of_nat n;
         Ann = u_Mul S A (pow_nn n)
     in
     bindE (getIJforSwap pool (Denom tokenIn) tokenOutDenom) (\<lambda>(i, j).
     bindE (c_loop S (Amount tokenIn) i j nCoins D 0 (PoolAssets pool) (0, D)) (\<lambda>(sum_x, c0).
     let c = u_Div S (u_Mul S c0 D) (u_Mul S Ann nCoins);
         b = u_Add S sum_x (u_Div S D Ann);
         y = y_loop S b c D 255 D
     in Inr (uint (word_of_nat (unat y) :: 64 word))))))"

definition Exchange :: "'b spot_sdk \<Rightarrow> spot_pool \<Rightarrow> coin \<Rightarrow> denom \<Rightarrow> spot_error + int" where
  "Exchange S pool tokenIn tokenOutDenom =
     bindE (getPoolAssetAndIndex pool (Denom tokenIn)) (\<lambda>(_, poolAssetIn).
     bindE (getPoolAssetAndIndex pool tokenOutDenom) (\<lambda>(_, poolAssetOut).
     let dx = (Token poolAssetIn)\<lparr>Amount := Amount (Token poolAssetIn) + Amount tokenIn\<rparr> in
     bindE (SolveStableswapInvariant S pool dx tokenOutDenom) (\<lambda>yAmount.
     if Amount (Token poolAssetOut) - yAmount < 0 then Inl (SpotPanic ''negative coin amount'')
     else Inr (Amount (Token poolAssetOut) - yAmount))))"

end
