(* ===== verification/Spot_Shares.thy ===== *)
theory Spot_Shares
  imports Spot_Pool
begin

text \<open>
  Shares and swaps of a pool (\<^verbatim>\<open>x/spot/types/shares.go\<close>, \<^verbatim>\<open>swap.go\<close>, \<^verbatim>\<open>price.go\<close> and the pool methods that use them).
\<close>

section \<open>Joining\<close>

text \<open>\<open>sdk.MaxSortableDec\<close> is ten to the eighteenth, as a decimal.\<close>

definition MaxSortableDec :: dec where
  "MaxSortableDec = 10 ^ 18 * PREC"

fun share_ratios :: "'b spot_sdk \<Rightarrow> coin list \<Rightarrow> coin list \<Rightarrow> spot_error + dec list" where
  "share_ratios S poolLiquidity [] = Inr []"
| "share_ratios S poolLiquidity (coin # coins) =
     bindE (decQuoInt S (NewDec (Amount coin)) (AmountOf poolLiquidity (Denom coin))) (\<lambda>r.
     bindE (share_ratios S poolLiquidity coins) (\<lambda>rs. Inr (r # rs)))"

fun rem_coins :: "'b chain_sdk \<Rightarrow> coin list \<Rightarrow> dec \<Rightarrow> (coin \<times> dec) list \<Rightarrow> coin list \<Rightarrow> coin list" where
  "rem_coins E poolLiquidity minShareRatio [] remCoins = remCoins"
| "rem_coins E poolLiquidity minShareRatio ((coin, shareRatio) # cs) remCoins =
     rem_coins E poolLiquidity minShareRatio cs
       (if shareRatio = minShareRatio then remCoins
        else
          let usedAmount = dec_TruncateInt E (dec_Ceil E (minShareRatio * AmountOf poolLiquidity (Denom coin)));
              remainingAmount = Amount coin - usedAmount
          in if remainingAmount = 0 then remCoins
             else Coins_Add E remCoins [\<lparr>Denom = Denom coin, Amount = remainingAmount\<rparr>])"

definition numSharesSingle :: "'b chain_sdk \<Rightarrow> 'b spot_sdk \<Rightarrow> spot_pool \<Rightarrow> coin list \<Rightarrow> coin \<Rightarrow> spot_error + (int \<times> coin list)" where
  "numSharesSingle E S pool poolLiquidity token =
     bindE (decQuo E (SwapFee (PoolParams pool)) (NewDec 2)) (\<lambda>halfFee.
     bindE (decQuoInt S (dec_Mul E (NewDec (Amount token)) (OneDec - halfFee)) (AmountOf poolLiquidity (Denom token))) (\<lambda>x.
     bindE (getE (SpotError ''square root'') (dec_ApproxSqrt S (x + OneDec))) (\<lambda>joinShare.
     Inr (dec_TruncateInt E ((joinShare - OneDec) * Amount (TotalShares pool)), []))))"

definition numSharesOutFromTokensIn :: "'b chain_sdk \<Rightarrow> 'b spot_sdk \<Rightarrow> spot_pool \<Rightarrow> coin list \<Rightarrow> spot_error + (int \<times> coin list)" where
  "numSharesOutFromTokensIn E S pool tokensIn =
     (let poolLiquidity = PoolBalances E pool in
      if length tokensIn = 1 then numSharesSingle E S pool poolLiquidity (hd tokensIn)
      else
        bindE (share_ratios S poolLiquidity tokensIn) (\<lambda>coinShareRatios.
        let minShareRatio = fold min coinShareRatios MaxSortableDec;
            maxShareRatio = fold max coinShareRatios 0
        in
        if minShareRatio = MaxSortableDec then Inl (SpotError ''unexpected error in balancer maximalExactRatioJoin'')
        else if minShareRatio = 0 then Inr (0, tokensIn)
        else
          Inr (dec_TruncateInt E (minShareRatio * Amount (TotalShares pool)),
               if minShareRatio = maxShareRatio then []
               else rem_coins E poolLiquidity minShareRatio (zip tokensIn coinShareRatios) [])))"

text \<open>The amounts are looked up in the coins of the message, which nothing has sorted yet.\<close>

fun deposit_assets :: "'b spot_sdk \<Rightarrow> coin list \<Rightarrow> pool_asset list \<Rightarrow> spot_error + pool_asset list" where
  "deposit_assets S tokensIn [] = Inr []"
| "deposit_assets S tokensIn (a # as) =
     bindE (let inAmount = Coins_AmountOf S tokensIn (Denom (Token a)) in
        if inAmount = 0 then Inr a
        else bindE (newCoin (Denom (Token a)) (Amount (Token a) + inAmount)) (\<lambda>c. Inr \<lparr>Token = c, Weight = 0\<rparr>)) (\<lambda>a'.
     bindE (deposit_assets S tokensIn as) (\<lambda>as'. Inr (a' # as')))"

text \<open>\<open>int64(D.Uint64())\<close>: the low 64 bits, read as a signed number.\<close>

definition signed_low :: "256 word \<Rightarrow> int" where
  "signed_low D = sint (word_of_nat (unat D) :: 64 word)"

definition numSharesOutFromTokensInStableSwap :: "'b spot_sdk \<Rightarrow> spot_pool \<Rightarrow> coin list \<Rightarrow> spot_error + int" where
  "numSharesOutFromTokensInStableSwap S pool tokensIn =
     (let tokenSupply = Amount (TotalShares pool) in
      bindE (GetD S pool (PoolAssets pool)) (\<lambda>D.
      let D0 = signed_low D in
      bindE (deposit_assets S tokensIn (PoolAssets pool)) (\<lambda>newPoolAssets.
      bindE (GetD S pool newPoolAssets) (\<lambda>newD.
      let D1 = signed_low newD in
      if D1 < D0 then Inl ErrInvariantLowerAfterJoining
      else if D0 = 0 then Inl (SpotPanic ''division by zero'')
      else Inr (go_quo (tokenSupply * (D1 - D0)) D0)))))"

definition coins_Sort :: "coin list \<Rightarrow> coin list" where
  "coins_Sort cs = sort_key Denom cs"

definition coinsSub :: "'b spot_sdk \<Rightarrow> coin list \<Rightarrow> coin list \<Rightarrow> spot_error + coin list" where
  "coinsSub S a b = getE (SpotPanic ''negative coin amount'') (Coins_Sub S a b)"

text \<open>\<open>tokensIn.Sort()\<close> sorts in place, so remaining coins that are the very slice of the input are sorted with it; all others already are.\<close>

definition AddTokensToPool :: "'b chain_sdk \<Rightarrow> 'b spot_sdk \<Rightarrow> coin list \<Rightarrow> spot_pool \<Rightarrow> spot_error + (spot_pool \<times> int \<times> coin list)" where
  "AddTokensToPool E S tokensIn pool =
     bindE
       (if Amount (TotalShares pool) = 0 then Inr (InitPoolSharesSupply, [])
        else if PoolType (PoolParams pool) = STABLESWAP
          then bindE (numSharesOutFromTokensInStableSwap S pool tokensIn) (\<lambda>numShares. Inr (numShares, []))
        else numSharesOutFromTokensIn E S pool tokensIn) (\<lambda>(numShares, rem).
     let remCoins = coins_Sort rem in
     bindE (coinsSub S (coins_Sort tokensIn) remCoins) (\<lambda>newLiquidity.
     bindE (incrementBalances numShares newLiquidity pool) (\<lambda>pool'. Inr (pool', numShares, remCoins))))"

definition AddAllTokensToPool :: "'b chain_sdk \<Rightarrow> 'b spot_sdk \<Rightarrow> coin list \<Rightarrow> spot_pool \<Rightarrow> spot_error + (spot_pool \<times> int \<times> coin list)" where
  "AddAllTokensToPool E S tokensIn pool =
     (if PoolType (PoolParams pool) = STABLESWAP then Inl ErrInvalidPoolType
      else
        bindE (if 1 < length tokensIn then AddTokensToPool E S tokensIn pool else Inr (pool, 0, tokensIn)) (\<lambda>(pool1, numShares, remCoins).
        if remCoins = [] then Inr (pool1, numShares, remCoins)
        else
          bindE (AddTokensToPool E S remCoins pool1) (\<lambda>(pool2, numShares2nd, _).
          Inr (pool2, numShares2nd + numShares, []))))"


section \<open>Exiting\<close>

fun exit_amounts :: "'b chain_sdk \<Rightarrow> spot_pool \<Rightarrow> dec \<Rightarrow> coin list \<Rightarrow> spot_error + (coin list \<times> coin list)" where
  "exit_amounts E pool shareRatio [] = Inr ([], [])"
| "exit_amounts E pool shareRatio (coin # coins) =
     (let tokenAmount = shareRatio * Amount coin;
          tokenOutAmt = dec_TruncateInt E (dec_Mul E tokenAmount (OneDec - ExitFee (PoolParams pool)))
      in
      bindE (newCoin (Denom coin) tokenOutAmt) (\<lambda>out.
      bindE (newCoin (Denom coin) (dec_TruncateInt E tokenAmount - tokenOutAmt)) (\<lambda>fee.
      bindE (exit_amounts E pool shareRatio coins) (\<lambda>(tokensOut, fees). Inr (out # tokensOut, fee # fees)))))"

definition TokensOutFromPoolSharesIn :: "'b chain_sdk \<Rightarrow> 'b spot_sdk \<Rightarrow> spot_pool \<Rightarrow> int \<Rightarrow> spot_error + (coin list \<times> coin list)" where
  "TokensOutFromPoolSharesIn E S pool numSharesIn =
     (if numSharesIn = 0 then Inl (SpotError ''num shares in must be greater than zero'')
      else
        bindE (decQuoInt S (NewDec numSharesIn) (Amount (TotalShares pool))) (\<lambda>shareRatio.
        if shareRatio = 0 then Inl (SpotError ''share ratio must be greater than zero'')
        else if OneDec < shareRatio then Inl (SpotError ''share ratio cannot be greater than one'')
        else
          bindE (exit_amounts E pool shareRatio (PoolBalances E pool)) (\<lambda>(tokensOut, fees).
          bindE (getE (SpotPanic ''invalid coins'') (NewCoins_of S fees)) (\<lambda>fees'. Inr (tokensOut, fees')))))"

fun min_shares :: "'b chain_sdk \<Rightarrow> spot_pool \<Rightarrow> coin list \<Rightarrow> int \<Rightarrow> spot_error + int" where
  "min_shares E pool [] minShares = Inr minShares"
| "min_shares E pool (coin # coins) minShares =
     bindE (decQuo E (NewDec 2) (NewDec (Amount coin))) (\<lambda>x.
     bindE (decQuo E x (OneDec - ExitFee (PoolParams pool))) (\<lambda>shareRatio.
     let shares = dec_TruncateInt E (shareRatio * Amount (TotalShares pool)) in
     min_shares E pool coins (if minShares = 0 \<or> minShares < shares then shares else minShares)))"

definition MinSharesInForTokensOut :: "'b chain_sdk \<Rightarrow> spot_pool \<Rightarrow> spot_error + int" where
  "MinSharesInForTokensOut E pool = min_shares E pool (PoolBalances E pool) 0"

fun subtract_all :: "coin list \<Rightarrow> spot_pool \<Rightarrow> spot_error + spot_pool" where
  "subtract_all [] pool = Inr pool"
| "subtract_all (c # cs) pool = bindE (SubtractPoolAssetBalance (Denom c) (Amount c) pool) (\<lambda>pool'. subtract_all cs pool')"

definition types_ExitPool :: "'b chain_sdk \<Rightarrow> 'b spot_sdk \<Rightarrow> int \<Rightarrow> spot_pool \<Rightarrow> spot_error + (spot_pool \<times> coin list \<times> coin list)" where
  "types_ExitPool E S exitingShares pool =
     (if Amount (TotalShares pool) < exitingShares then Inl (SpotError ''too many shares out'')
      else
        bindE (TokensOutFromPoolSharesIn E S pool exitingShares) (\<lambda>(exitedCoins, fees).
        if \<not> coins_valid exitedCoins
        then bindE (MinSharesInForTokensOut E pool) (\<lambda>_. Inl (SpotError ''not enough pool shares to withdraw''))
        else
          bindE (subtract_all exitedCoins pool) (\<lambda>pool'.
          bindE (newCoin (Denom (TotalShares pool')) (Amount (TotalShares pool') - exitingShares)) (\<lambda>totalShares.
          Inr (pool'\<lparr>TotalShares := totalShares\<rparr>, exitedCoins, fees)))))"


section \<open>Swapping\<close>

definition SolveConstantProductInvariant :: "'b chain_sdk \<Rightarrow> dec \<Rightarrow> dec \<Rightarrow> dec \<Rightarrow> dec \<Rightarrow> dec \<Rightarrow> spot_error + dec" where
  "SolveConstantProductInvariant E xPrior xAfter xWeight yPrior yWeight =
     bindE (decQuo E xPrior xAfter) (\<lambda>r. Inr (dec_Mul E yPrior (OneDec - r)))"

definition CalcOutAmtGivenIn :: "'b chain_sdk \<Rightarrow> 'b spot_sdk \<Rightarrow> spot_pool \<Rightarrow> coin \<Rightarrow> denom \<Rightarrow> bool \<Rightarrow> spot_error + (coin \<times> coin)" where
  "CalcOutAmtGivenIn E S pool tokenIn tokenOutDenom noFee =
     bindE (getPoolAssetAndIndex pool (Denom tokenIn)) (\<lambda>(_, poolAssetIn).
     bindE (getPoolAssetAndIndex pool tokenOutDenom) (\<lambda>(_, poolAssetOut).
     let tokenAmountInAfterFee =
           (if noFee then NewDec (Amount tokenIn)
            else dec_Mul E (NewDec (Amount tokenIn)) (OneDec - SwapFee (PoolParams pool)));
         feeAmount = NewDec (Amount tokenIn) - tokenAmountInAfterFee
     in
     bindE (newCoin (Denom tokenIn) (dec_TruncateInt E feeAmount)) (\<lambda>fee.
     let poolTokenInBalance = NewDec (Amount (Token poolAssetIn));
         poolTokenInBalancePostSwap = poolTokenInBalance + tokenAmountInAfterFee
     in
     bindE
       (case PoolType (PoolParams pool) of
          STABLESWAP \<Rightarrow>
            bindE (newCoin (Denom tokenIn) (dec_TruncateInt E tokenAmountInAfterFee)) (\<lambda>c. Exchange S pool c tokenOutDenom)
        | BALANCER \<Rightarrow>
            bindE (SolveConstantProductInvariant E poolTokenInBalance poolTokenInBalancePostSwap (NewDec (Weight poolAssetIn))
              (NewDec (Amount (Token poolAssetOut))) (NewDec (Weight poolAssetOut))) (\<lambda>d. Inr (dec_TruncateInt E d))
        | OtherPoolType _ \<Rightarrow> Inl (SpotPanic ''nil amount'')) (\<lambda>tokenAmountOut.
     if tokenAmountOut = 0 then Inl (SpotError ''tokenIn must be higher to perform a swap'')
     else bindE (newCoin tokenOutDenom tokenAmountOut) (\<lambda>tokenOut. Inr (tokenOut, fee))))))"

definition CalcInAmtGivenOutStableswap :: "coin \<Rightarrow> denom \<Rightarrow> spot_error + coin" where
  "CalcInAmtGivenOutStableswap tokenOut tokenInDenom = Inl ErrNotImplemented"

definition CalcInAmtGivenOutBalancer :: "'b chain_sdk \<Rightarrow> spot_pool \<Rightarrow> coin \<Rightarrow> denom \<Rightarrow> spot_error + coin" where
  "CalcInAmtGivenOutBalancer E pool tokenOut tokenInDenom =
     bindE (getPoolAssetAndIndex pool (Denom tokenOut)) (\<lambda>(_, poolAssetOut).
     bindE (getPoolAssetAndIndex pool tokenInDenom) (\<lambda>(_, poolAssetIn).
     let poolTokenOutBalance = NewDec (Amount (Token poolAssetOut));
         poolTokenOutBalancePostSwap = poolTokenOutBalance - NewDec (Amount tokenOut)
     in
     bindE (SolveConstantProductInvariant E poolTokenOutBalance poolTokenOutBalancePostSwap (NewDec (Weight poolAssetOut))
              (NewDec (Amount (Token poolAssetIn))) (NewDec (Weight poolAssetIn))) (\<lambda>d.
     bindE (decQuo E (- d) (OneDec - SwapFee (PoolParams pool))) (\<lambda>x.
     newCoin tokenInDenom (dec_TruncateInt E (dec_Ceil E x))))))"

definition CalcInAmtGivenOut :: "'b chain_sdk \<Rightarrow> spot_pool \<Rightarrow> coin \<Rightarrow> denom \<Rightarrow> spot_error + coin" where
  "CalcInAmtGivenOut E pool tokenOut tokenInDenom =
     (case PoolType (PoolParams pool) of
        BALANCER \<Rightarrow> CalcInAmtGivenOutBalancer E pool tokenOut tokenInDenom
      | STABLESWAP \<Rightarrow> CalcInAmtGivenOutStableswap tokenOut tokenInDenom
      | OtherPoolType _ \<Rightarrow> Inl ErrInvalidPoolType)"

definition ApplySwap :: "coin \<Rightarrow> coin \<Rightarrow> spot_pool \<Rightarrow> spot_error + spot_pool" where
  "ApplySwap tokenIn tokenOut pool =
     (if Amount tokenIn \<le> 0 then Inl (SpotError ''tokenIn cannot be zero'')
      else if Amount tokenOut \<le> 0 then Inl (SpotError ''tokenOut cannot be zero'')
      else
        bindE (getPoolAssetAndIndex pool (Denom tokenIn)) (\<lambda>(_, poolAssetIn).
        bindE (getPoolAssetAndIndex pool (Denom tokenOut)) (\<lambda>(_, poolAssetOut).
        updatePoolAssetBalances
          [(Token poolAssetIn)\<lparr>Amount := Amount (Token poolAssetIn) + Amount tokenIn\<rparr>,
           (Token poolAssetOut)\<lparr>Amount := Amount (Token poolAssetOut) - Amount tokenOut\<rparr>] pool)))"

definition CalcSpotPrice :: "'b chain_sdk \<Rightarrow> spot_pool \<Rightarrow> denom \<Rightarrow> denom \<Rightarrow> spot_error + dec" where
  "CalcSpotPrice E pool tokenIn tokenOut =
     bindE (getPoolAssetAndIndex pool tokenIn) (\<lambda>(_, poolAssetIn).
     bindE (getPoolAssetAndIndex pool tokenOut) (\<lambda>(_, poolAssetOut).
     bindE (decQuo E (NewDec (Amount (Token poolAssetIn))) (NewDec (Weight poolAssetIn))) (\<lambda>weightedBalanceIn.
     bindE (decQuo E (NewDec (Amount (Token poolAssetOut))) (NewDec (Weight poolAssetOut))) (\<lambda>weightedBalanceOut.
     decQuo E weightedBalanceIn weightedBalanceOut))))"

end
