(* ===== verification/Spot_Keeper.thy ===== *)
theory Spot_Keeper
  imports Spot_Shares
begin

text \<open>
  The keeper of the spot module (\<^verbatim>\<open>x/spot/keeper\<close>), its messages, queries and genesis.  The stores hold the pools by number, the pool
  numbers by the concatenated denominations of a pair, and the total liquidity by denomination.  An error or a panic discards the whole
  message.
\<close>

section \<open>State\<close>

record spot_params =
  StartingPoolNumber :: "64 word"
  PoolCreationFee :: "coin list"
  WhitelistedAsset :: "denom list"

datatype spot_event =
    EventPoolCreated addr "64 word" "coin list"
  | EventPoolJoined addr "64 word" "coin list" coin "coin list"
  | EventPoolExited addr "64 word" coin "coin list" "coin list"
  | EventAssetsSwapped addr "64 word" coin coin coin

record 'b spot_state =
  s_Params :: "spot_params option"
  NextPoolNumber :: "64 word option"
  Pools :: "(64 word, spot_pool) kv"
  PoolIds :: "(string, 64 word) kv"
  TotalLiquidity :: "(denom, int) kv"
  s_sdk :: 'b
  s_events :: "spot_event list"

definition SpotModule :: string where
  "SpotModule = ''spot''"

definition GetDenomPrefixPoolIds :: "denom list \<Rightarrow> string" where
  "GetDenomPrefixPoolIds denoms = concat (sort denoms)"

definition spot_GetParams :: "'b spot_state \<Rightarrow> spot_error + spot_params" where
  "spot_GetParams s = getE (SpotPanic ''parameters not set'') (s_Params s)"

definition SetNextPoolNumber :: "64 word \<Rightarrow> 'b spot_state \<Rightarrow> 'b spot_state" where
  "SetNextPoolNumber poolNumber s = s\<lparr>NextPoolNumber := Some poolNumber\<rparr>"

definition GetNextPoolNumber :: "'b spot_state \<Rightarrow> spot_error + 64 word" where
  "GetNextPoolNumber s = getE (SpotError ''pool number has not been initialized'') (NextPoolNumber s)"

definition GetNextPoolNumberAndIncrement :: "'b spot_state \<Rightarrow> spot_error + ('b spot_state \<times> 64 word)" where
  "GetNextPoolNumberAndIncrement s =
     bindE (GetNextPoolNumber s) (\<lambda>poolNumber. Inr (SetNextPoolNumber (poolNumber + 1) s, poolNumber))"

text \<open>A pool that is not in the store is read as the zero value, without assets.\<close>

definition zero_pool :: spot_pool where
  "zero_pool = \<lparr>pool_Id = 0, pool_Address = [], PoolParams = \<lparr>SwapFee = 0, ExitFee = 0, pp_A = None, PoolType = BALANCER\<rparr>,
     PoolAssets = [], TotalWeight = 0, TotalShares = \<lparr>Denom = [], Amount = 0\<rparr>\<rparr>"

definition read_pool :: "'b spot_state \<Rightarrow> 64 word \<Rightarrow> spot_pool" where
  "read_pool s poolId = (case kv_get (Pools s) poolId of None \<Rightarrow> zero_pool | Some pool \<Rightarrow> pool)"

definition FetchPool :: "'b spot_state \<Rightarrow> 64 word \<Rightarrow> spot_error + spot_pool" where
  "FetchPool s poolId =
     (let pool = read_pool s poolId in if length (PoolAssets pool) = 0 then Inl ErrPoolNotFound else Inr pool)"

definition FetchPoolFromPair :: "'b spot_state \<Rightarrow> denom \<Rightarrow> denom \<Rightarrow> spot_error + spot_pool" where
  "FetchPoolFromPair s denomA denomB =
     (let poolid = (case kv_get (PoolIds s) (GetDenomPrefixPoolIds [denomA, denomB]) of None \<Rightarrow> 0 | Some i \<Rightarrow> i)
      in FetchPool s poolid)"

definition FetchAllPools :: "'b spot_state \<Rightarrow> spot_pool list" where
  "FetchAllPools s = kv_values (Pools s)"

definition SetPoolIdByDenom :: "spot_pool \<Rightarrow> 'b spot_state \<Rightarrow> spot_error + 'b spot_state" where
  "SetPoolIdByDenom pool s =
     (case PoolAssets pool of
        a # b # _ \<Rightarrow>
          Inr (s\<lparr>PoolIds := kv_insert (GetDenomPrefixPoolIds [Denom (Token a), Denom (Token b)]) (pool_Id pool) (PoolIds s)\<rparr>)
      | _ \<Rightarrow> Inl (SpotPanic ''index out of range''))"

definition SetPool :: "spot_pool \<Rightarrow> 'b spot_state \<Rightarrow> spot_error + 'b spot_state" where
  "SetPool pool s = SetPoolIdByDenom pool (s\<lparr>Pools := kv_insert (pool_Id pool) pool (Pools s)\<rparr>)"


section \<open>Liquidity\<close>

definition GetDenomLiquidity :: "'b spot_state \<Rightarrow> denom \<Rightarrow> int" where
  "GetDenomLiquidity s denom = (case kv_get (TotalLiquidity s) denom of None \<Rightarrow> 0 | Some n \<Rightarrow> n)"

definition SetDenomLiquidity :: "denom \<Rightarrow> int \<Rightarrow> 'b spot_state \<Rightarrow> 'b spot_state" where
  "SetDenomLiquidity denom amount s = s\<lparr>TotalLiquidity := kv_insert denom amount (TotalLiquidity s)\<rparr>"

fun total_liquidity :: "'b chain_sdk \<Rightarrow> 'b spot_state \<Rightarrow> denom list \<Rightarrow> coin list \<Rightarrow> spot_error + coin list" where
  "total_liquidity E s [] coins = Inr coins"
| "total_liquidity E s (denom # denoms) coins =
     bindE (newCoin denom (GetDenomLiquidity s denom)) (\<lambda>c. total_liquidity E s denoms (Coins_Add E coins [c]))"

definition GetTotalLiquidity :: "'b chain_sdk \<Rightarrow> 'b spot_state \<Rightarrow> spot_error + coin list" where
  "GetTotalLiquidity E s = total_liquidity E s (map fst (TotalLiquidity s)) []"

definition SetTotalLiquidity :: "coin list \<Rightarrow> 'b spot_state \<Rightarrow> 'b spot_state" where
  "SetTotalLiquidity coins s = fold (\<lambda>c. SetDenomLiquidity (Denom c) (Amount c)) coins s"

definition RecordTotalLiquidityIncrease :: "coin list \<Rightarrow> 'b spot_state \<Rightarrow> 'b spot_state" where
  "RecordTotalLiquidityIncrease coins s =
     fold (\<lambda>c s. SetDenomLiquidity (Denom c) (GetDenomLiquidity s (Denom c) + Amount c) s) coins s"

definition RecordTotalLiquidityDecrease :: "coin list \<Rightarrow> 'b spot_state \<Rightarrow> 'b spot_state" where
  "RecordTotalLiquidityDecrease coins s =
     fold (\<lambda>c s. SetDenomLiquidity (Denom c) (GetDenomLiquidity s (Denom c) - Amount c) s) coins s"


section \<open>Shares and balances\<close>

definition bankE :: "(string + 'b) \<Rightarrow> 'b spot_state \<Rightarrow> spot_error + 'b spot_state" where
  "bankE r s = bindE (mapErr SpotError r) (\<lambda>b. Inr (s\<lparr>s_sdk := b\<rparr>))"

definition mintPoolShareToAccount :: "'b spot_sdk \<Rightarrow> 'b mint_sdk \<Rightarrow> 64 word \<Rightarrow> addr \<Rightarrow> int \<Rightarrow> 'b spot_state \<Rightarrow> spot_error + 'b spot_state" where
  "mintPoolShareToAccount S M poolId recipientAddr amountPoolShares s =
     bindE (newCoin (GetPoolShareBaseDenom poolId) amountPoolShares) (\<lambda>c.
     bindE (bankE (bank_MintCoins M (s_sdk s) SpotModule [c]) s) (\<lambda>s1.
     bankE (SendCoins_ModuleToAccount S (s_sdk s1) SpotModule recipientAddr [c]) s1))"

definition burnPoolShareFromAccount :: "'b spot_sdk \<Rightarrow> addr \<Rightarrow> coin \<Rightarrow> 'b spot_state \<Rightarrow> spot_error + 'b spot_state" where
  "burnPoolShareFromAccount S fromAddr poolSharesOut s =
     bindE (bankE (SendCoins_AccountToModule S (s_sdk s) fromAddr SpotModule [poolSharesOut]) s) (\<lambda>s1.
     bankE (BurnCoins S (s_sdk s1) SpotModule [poolSharesOut]) s1)"

definition CheckEnoughBalances :: "'b spot_sdk \<Rightarrow> coin list \<Rightarrow> addr \<Rightarrow> 'b spot_state \<Rightarrow> spot_error + unit" where
  "CheckEnoughBalances S coinsToSpend account s =
     checkE (Coins_IsAllGTE S (SpendableCoins S (s_sdk s) account) coinsToSpend) ErrInsufficientFunds"


section \<open>Operations\<close>

definition areAllAssetsWhitelisted :: "spot_params \<Rightarrow> pool_asset list \<Rightarrow> bool" where
  "areAllAssetsWhitelisted params assets \<longleftrightarrow> list_all (\<lambda>a. Denom (Token a) \<in> set (WhitelistedAsset params)) assets"

definition NewPool :: "'b chain_sdk \<Rightarrow> 'b spot_sdk \<Rightarrow> 'b mint_sdk \<Rightarrow> addr \<Rightarrow> pool_params \<Rightarrow> pool_asset list \<Rightarrow> 'b spot_state \<Rightarrow>
    spot_error + ('b spot_state \<times> 64 word)" where
  "NewPool E S M sender poolParams poolAssets s =
     (if length poolAssets < MinPoolAssets then Inl ErrTooFewPoolAssets
      else if MaxPoolAssets < length poolAssets then Inl ErrTooManyPoolAssets
      else
      bindE (spot_GetParams s) (\<lambda>params.
      if \<not> areAllAssetsWhitelisted params poolAssets then Inl ErrTokenNotAllowed
      else if \<not> isl (FetchPoolFromPair s (Denom (Token (poolAssets ! 0))) (Denom (Token (poolAssets ! 1))))
        then Inl ErrPoolWithSameAssetsExists
      else
      bindE (bankE (FundCommunityPool M (s_sdk s) (PoolCreationFee params) sender) s) (\<lambda>s1.
      bindE (GetNextPoolNumberAndIncrement s1) (\<lambda>(s2, poolId).
      let poolName = ''nibiru-pool-'' @ digits (unat poolId);
          (b, poolAddr) = NewModuleAccount S (s_sdk s2) poolName;
          s3 = s2\<lparr>s_sdk := b\<rparr>
      in
      bindE (types_NewPool poolId (AccAddressString E poolAddr) poolParams poolAssets) (\<lambda>pool.
      bindE (getE (SpotPanic ''invalid coins'') (NewCoins_of S (map Token poolAssets))) (\<lambda>coins.
      bindE (bankE (SendCoins S (s_sdk s3) sender poolAddr coins) s3) (\<lambda>s4.
      bindE (mintPoolShareToAccount S M (pool_Id pool) sender InitPoolSharesSupply s4) (\<lambda>s5.
      let s6 = s5\<lparr>s_sdk := SetDenomMetaData S (s_sdk s5) (GetPoolShareBaseDenom (pool_Id pool))
                             (GetPoolShareDisplayDenom (pool_Id pool))\<rparr>
      in
      bindE (SetPool pool s6) (\<lambda>s7.
      let s8 = RecordTotalLiquidityIncrease coins s7 in
      Inr (s8\<lparr>s_events := s_events s8 @ [EventPoolCreated sender poolId (PoolCreationFee params)]\<rparr>, poolId))))))))))"

definition JoinPool :: "'b chain_sdk \<Rightarrow> 'b spot_sdk \<Rightarrow> 'b mint_sdk \<Rightarrow> addr \<Rightarrow> 64 word \<Rightarrow> coin list \<Rightarrow> bool \<Rightarrow> 'b spot_state \<Rightarrow>
    spot_error + ('b spot_state \<times> spot_pool \<times> coin \<times> coin list)" where
  "JoinPool E S M joinerAddr poolId tokensIn shouldSwap s =
     (let pool = read_pool s poolId in
      if length tokensIn \<noteq> length (PoolAssets pool) \<and> \<not> shouldSwap then Inl (SpotError ''too few assets to join this pool'')
      else if \<not> AreTokensInDenomInPoolAssets pool tokensIn then Inl ErrTokenDenomNotFound
      else
      bindE (GetAddress E pool) (\<lambda>poolAddr.
      bindE (if \<not> shouldSwap \<or> PoolType (PoolParams pool) = STABLESWAP then AddTokensToPool E S tokensIn pool
             else AddAllTokensToPool E S tokensIn pool) (\<lambda>(pool', numShares, remCoins).
      let sortedIn = coins_Sort tokensIn in
      bindE (coinsSub S sortedIn remCoins) (\<lambda>tokensConsumed.
      bindE (bankE (SendCoins S (s_sdk s) joinerAddr poolAddr tokensConsumed) s) (\<lambda>s1.
      bindE (mintPoolShareToAccount S M (pool_Id pool') joinerAddr numShares s1) (\<lambda>s2.
      bindE (SetPool pool' s2) (\<lambda>s3.
      let s4 = RecordTotalLiquidityIncrease tokensConsumed s3 in
      bindE (newCoin (Denom (TotalShares pool')) numShares) (\<lambda>poolSharesOut.
      Inr (s4\<lparr>s_events := s_events s4 @ [EventPoolJoined joinerAddr poolId sortedIn poolSharesOut remCoins]\<rparr>,
           pool', poolSharesOut, remCoins)))))))))"

definition ExitPool :: "'b chain_sdk \<Rightarrow> 'b spot_sdk \<Rightarrow> addr \<Rightarrow> 64 word \<Rightarrow> coin \<Rightarrow> 'b spot_state \<Rightarrow> spot_error + ('b spot_state \<times> coin list)" where
  "ExitPool E S sender poolId poolSharesOut s =
     (let pool = read_pool s poolId in
      if Denom poolSharesOut \<noteq> Denom (TotalShares pool) then Inl (SpotError ''invalid pool share denom'')
      else if PoolAssets pool = [] then Inl (SpotPanic ''nil amount'')
      else if Amount (TotalShares pool) < Amount poolSharesOut \<or> Amount poolSharesOut \<le> 0
        then Inl (SpotError ''invalid number of pool shares'')
      else
      bindE (types_ExitPool E S (Amount poolSharesOut) pool) (\<lambda>(pool', tokensOut, fees).
      bindE (GetAddress E pool') (\<lambda>poolAddr.
      bindE (bankE (SendCoins S (s_sdk s) poolAddr sender tokensOut) s) (\<lambda>s1.
      bindE (burnPoolShareFromAccount S sender poolSharesOut s1) (\<lambda>s2.
      bindE (SetPool pool' s2) (\<lambda>s3.
      let s4 = RecordTotalLiquidityDecrease tokensOut s3 in
      Inr (s4\<lparr>s_events := s_events s4 @ [EventPoolExited sender poolId poolSharesOut tokensOut fees]\<rparr>, tokensOut)))))))"

definition updatePoolForSwap :: "'b chain_sdk \<Rightarrow> 'b spot_sdk \<Rightarrow> spot_pool \<Rightarrow> addr \<Rightarrow> coin \<Rightarrow> coin \<Rightarrow> 'b spot_state \<Rightarrow>
    spot_error + 'b spot_state" where
  "updatePoolForSwap E S pool sender tokenIn tokenOut s =
     bindE (GetAddress E pool) (\<lambda>poolAddr.
     bindE (bankE (SendCoins S (s_sdk s) sender poolAddr [tokenIn]) s) (\<lambda>s1.
     bindE (bankE (SendCoins S (s_sdk s1) poolAddr sender [tokenOut]) s1) (\<lambda>s2.
     bindE (ApplySwap tokenIn tokenOut pool) (\<lambda>pool'.
     bindE (SetPool pool' s2) (\<lambda>s3.
     Inr (RecordTotalLiquidityDecrease [tokenOut] (RecordTotalLiquidityIncrease [tokenIn] s3)))))))"

definition SwapExactAmountIn :: "'b chain_sdk \<Rightarrow> 'b spot_sdk \<Rightarrow> addr \<Rightarrow> 64 word \<Rightarrow> coin \<Rightarrow> denom \<Rightarrow> 'b spot_state \<Rightarrow>
    spot_error + ('b spot_state \<times> coin)" where
  "SwapExactAmountIn E S sender poolId tokenIn tokenOutDenom s =
     (if Denom tokenIn = tokenOutDenom then Inl ErrSameTokenDenom
      else
      bindE (FetchPool s poolId) (\<lambda>pool.
      bindE (CalcOutAmtGivenIn E S pool tokenIn tokenOutDenom False) (\<lambda>(tokenOut, fee).
      if Amount tokenOut \<le> 0 then Inl (SpotError ''tokenOut amount must be greater than zero'')
      else
      bindE (CheckEnoughBalances S [tokenIn] sender s) (\<lambda>_.
      bindE (GetAddress E pool) (\<lambda>poolAddr.
      bindE (CheckEnoughBalances S [tokenOut] poolAddr s) (\<lambda>_.
      bindE (updatePoolForSwap E S pool sender tokenIn tokenOut s) (\<lambda>s1.
      Inr (s1\<lparr>s_events := s_events s1 @ [EventAssetsSwapped sender poolId tokenIn tokenOut fee]\<rparr>, tokenOut))))))))"

end
