(* ===== verification/Spot_Server.thy ===== *)
theory Spot_Server
  imports Spot_Keeper
begin

text \<open>
  The surface of the spot module: the four messages with their stateless checks, the handler that dispatches them, the queries,
  the parameters and the genesis.  A message that is rejected, or whose handling fails or panics, leaves no trace.
\<close>

section \<open>Parameters and genesis\<close>

definition spot_NewParams :: "64 word \<Rightarrow> coin list \<Rightarrow> denom list \<Rightarrow> spot_params" where
  "spot_NewParams startingPoolNumber poolCreationFee whitelistedAssets =
     \<lparr>StartingPoolNumber = startingPoolNumber, PoolCreationFee = poolCreationFee, WhitelistedAsset = whitelistedAssets\<rparr>"

definition spot_DefaultParams :: spot_params where
  "spot_DefaultParams =
     \<lparr>StartingPoolNumber = 1, PoolCreationFee = [\<lparr>Denom = NIBI, Amount = 1000 * 1000000\<rparr>], WhitelistedAsset = [NIBI, USDC, NUSD, USDT]\<rparr>"

definition validatePoolCreationFee :: "coin list \<Rightarrow> spot_error + unit" where
  "validatePoolCreationFee v = checkE (coins_valid v) (SpotError ''invalid pool creation fee'')"

definition spot_Params_Validate :: "spot_params \<Rightarrow> spot_error + unit" where
  "spot_Params_Validate p = validatePoolCreationFee (PoolCreationFee p)"

text \<open>The parameter store checks each value before it stores the set and panics on a value that is refused.\<close>

definition spot_SetParams :: "spot_params \<Rightarrow> 'b spot_state \<Rightarrow> spot_error + 'b spot_state" where
  "spot_SetParams params s =
     bindE (mapErr (\<lambda>_. SpotPanic ''value from ParamSetPair is invalid'') (validatePoolCreationFee (PoolCreationFee params))) (\<lambda>_.
     Inr (s\<lparr>s_Params := Some params\<rparr>))"

definition spot_DefaultGenesis :: spot_params where
  "spot_DefaultGenesis = spot_DefaultParams"

definition spot_Genesis_Validate :: "spot_params \<Rightarrow> spot_error + unit" where
  "spot_Genesis_Validate gs = spot_Params_Validate gs"

definition spot_InitGenesis :: "spot_params \<Rightarrow> 'b spot_state \<Rightarrow> spot_error + 'b spot_state" where
  "spot_InitGenesis genState s =
     bindE (spot_SetParams genState s) (\<lambda>s1. Inr (SetNextPoolNumber (StartingPoolNumber genState) s1))"

definition spot_ExportGenesis :: "'b spot_state \<Rightarrow> spot_error + spot_params" where
  "spot_ExportGenesis s = spot_GetParams s"


section \<open>Messages\<close>

datatype spot_msg =
    MsgCreatePool (sm_creator: string) (sm_params: pool_params) (sm_assets: "pool_asset list")
  | MsgJoinPool (sm_sender: string) (sm_poolId: "64 word") (sm_tokensIn: "coin list") (sm_useAllCoins: bool)
  | MsgExitPool (sm_sender: string) (sm_poolId: "64 word") (sm_poolShares: coin)
  | MsgSwapAssets (sm_sender: string) (sm_poolId: "64 word") (sm_tokenIn: coin) (sm_tokenOutDenom: denom)

definition checkAddr :: "'b chain_sdk \<Rightarrow> string \<Rightarrow> spot_error + addr" where
  "checkAddr E a = getE ErrSpotAddress (AccAddressFromBech32 E a)"

fun GetSigners :: "'b chain_sdk \<Rightarrow> spot_msg \<Rightarrow> spot_error + addr list" where
  "GetSigners E (MsgCreatePool creator _ _) = bindE (checkAddr E creator) (\<lambda>a. Inr [a])"
| "GetSigners E (MsgJoinPool sender _ _ _) = bindE (checkAddr E sender) (\<lambda>a. Inr [a])"
| "GetSigners E (MsgExitPool sender _ _) = bindE (checkAddr E sender) (\<lambda>a. Inr [a])"
| "GetSigners E (MsgSwapAssets sender _ _ _) = bindE (checkAddr E sender) (\<lambda>a. Inr [a])"

definition CreatePool_ValidateBasic :: "'b chain_sdk \<Rightarrow> string \<Rightarrow> pool_params \<Rightarrow> pool_asset list \<Rightarrow> spot_error + unit" where
  "CreatePool_ValidateBasic E creator params assets =
     bindE (checkAddr E creator) (\<lambda>_.
     if length assets < MinPoolAssets then Inl ErrTooFewPoolAssets
     else if MaxPoolAssets < length assets then Inl ErrTooManyPoolAssets
     else if list_ex (\<lambda>a. Weight a \<le> 0) assets then Inl ErrInvalidTokenWeight
     else if SwapFee params < 0 \<or> OneDec < SwapFee params then Inl ErrInvalidSwapFee
     else if ExitFee params < 0 \<or> OneDec < ExitFee params then Inl ErrInvalidExitFee
     else case PoolType params of
       STABLESWAP \<Rightarrow> (case pp_A params of None \<Rightarrow> Inl ErrAmplificationMissing
         | Some a \<Rightarrow> if a \<le> 0 then Inl ErrAmplificationTooLow else Inr ())
     | BALANCER \<Rightarrow> Inr ()
     | OtherPoolType _ \<Rightarrow> Inl ErrInvalidPoolType)"

definition JoinPool_ValidateBasic :: "'b chain_sdk \<Rightarrow> string \<Rightarrow> spot_error + unit" where
  "JoinPool_ValidateBasic E sender = bindE (checkAddr E sender) (\<lambda>_. Inr ())"

definition ExitPool_ValidateBasic :: "'b chain_sdk \<Rightarrow> string \<Rightarrow> spot_error + unit" where
  "ExitPool_ValidateBasic E sender = bindE (checkAddr E sender) (\<lambda>_. Inr ())"

definition SwapAssets_ValidateBasic :: "'b chain_sdk \<Rightarrow> string \<Rightarrow> 64 word \<Rightarrow> coin \<Rightarrow> denom \<Rightarrow> spot_error + unit" where
  "SwapAssets_ValidateBasic E sender poolId tokenIn tokenOutDenom =
     bindE (checkAddr E sender) (\<lambda>_.
     if poolId = 0 then Inl ErrInvalidPoolId
     else if Amount tokenIn \<le> 0 then Inl ErrInvalidTokenIn
     else if tokenOutDenom = [] then Inl ErrInvalidTokenOutDenom
     else Inr ())"

fun spot_ValidateBasic :: "'b chain_sdk \<Rightarrow> spot_msg \<Rightarrow> spot_error + unit" where
  "spot_ValidateBasic E (MsgCreatePool creator params assets) = CreatePool_ValidateBasic E creator params assets"
| "spot_ValidateBasic E (MsgJoinPool sender _ _ _) = JoinPool_ValidateBasic E sender"
| "spot_ValidateBasic E (MsgExitPool sender _ _) = ExitPool_ValidateBasic E sender"
| "spot_ValidateBasic E (MsgSwapAssets sender poolId tokenIn tokenOutDenom) =
     SwapAssets_ValidateBasic E sender poolId tokenIn tokenOutDenom"


section \<open>The message server\<close>

definition msg_CreatePool :: "'b chain_sdk \<Rightarrow> 'b spot_sdk \<Rightarrow> 'b mint_sdk \<Rightarrow> string \<Rightarrow> pool_params \<Rightarrow> pool_asset list \<Rightarrow> 'b spot_state \<Rightarrow>
    spot_error + ('b spot_state \<times> 64 word)" where
  "msg_CreatePool E S M creator params assets s =
     bindE (checkAddr E creator) (\<lambda>sender. NewPool E S M sender params assets s)"

definition msg_JoinPool :: "'b chain_sdk \<Rightarrow> 'b spot_sdk \<Rightarrow> 'b mint_sdk \<Rightarrow> string \<Rightarrow> 64 word \<Rightarrow> coin list \<Rightarrow> bool \<Rightarrow> 'b spot_state \<Rightarrow>
    spot_error + ('b spot_state \<times> spot_pool \<times> coin \<times> coin list)" where
  "msg_JoinPool E S M sender poolId tokensIn useAllCoins s =
     bindE (checkAddr E sender) (\<lambda>a. JoinPool E S M a poolId tokensIn useAllCoins s)"

definition msg_ExitPool :: "'b chain_sdk \<Rightarrow> 'b spot_sdk \<Rightarrow> string \<Rightarrow> 64 word \<Rightarrow> coin \<Rightarrow> 'b spot_state \<Rightarrow> spot_error + ('b spot_state \<times> coin list)" where
  "msg_ExitPool E S sender poolId poolShares s =
     bindE (checkAddr E sender) (\<lambda>a. ExitPool E S a poolId poolShares s)"

definition msg_SwapAssets :: "'b chain_sdk \<Rightarrow> 'b spot_sdk \<Rightarrow> string \<Rightarrow> 64 word \<Rightarrow> coin \<Rightarrow> denom \<Rightarrow> 'b spot_state \<Rightarrow>
    spot_error + ('b spot_state \<times> coin)" where
  "msg_SwapAssets E S sender poolId tokenIn tokenOutDenom s =
     bindE (checkAddr E sender) (\<lambda>a. SwapExactAmountIn E S a poolId tokenIn tokenOutDenom s)"

text \<open>The handler of the module; what is kept of an answer is the new state.\<close>

fun spot_Handler :: "'b chain_sdk \<Rightarrow> 'b spot_sdk \<Rightarrow> 'b mint_sdk \<Rightarrow> spot_msg \<Rightarrow> 'b spot_state \<Rightarrow> spot_error + 'b spot_state" where
  "spot_Handler E S M (MsgCreatePool creator params assets) s =
     bindE (msg_CreatePool E S M creator params assets s) (\<lambda>(s', _). Inr s')"
| "spot_Handler E S M (MsgJoinPool sender poolId tokensIn useAllCoins) s =
     bindE (msg_JoinPool E S M sender poolId tokensIn useAllCoins s) (\<lambda>(s', _). Inr s')"
| "spot_Handler E S M (MsgExitPool sender poolId poolShares) s =
     bindE (msg_ExitPool E S sender poolId poolShares s) (\<lambda>(s', _). Inr s')"
| "spot_Handler E S M (MsgSwapAssets sender poolId tokenIn tokenOutDenom) s =
     bindE (msg_SwapAssets E S sender poolId tokenIn tokenOutDenom s) (\<lambda>(s', _). Inr s')"

definition spot_deliver :: "'b chain_sdk \<Rightarrow> 'b spot_sdk \<Rightarrow> 'b mint_sdk \<Rightarrow> spot_msg \<Rightarrow> 'b spot_state \<Rightarrow> 'b spot_state" where
  "spot_deliver E S M msg s =
     (case bindE (spot_ValidateBasic E msg) (\<lambda>_. spot_Handler E S M msg s) of Inl _ \<Rightarrow> s | Inr s' \<Rightarrow> s')"


section \<open>Queries\<close>

definition query_spot_Params :: "'b spot_state \<Rightarrow> spot_error + spot_params" where
  "query_spot_Params s = spot_GetParams s"

definition query_Pool :: "64 word \<Rightarrow> 'b spot_state \<Rightarrow> spot_error + spot_pool" where
  "query_Pool poolId s = FetchPool s poolId"

definition query_PoolNumber :: "'b spot_state \<Rightarrow> spot_error + 64 word" where
  "query_PoolNumber s = getE (SpotError ''pool number has not been initialized'') (NextPoolNumber s)"

definition query_PoolParams :: "64 word \<Rightarrow> 'b spot_state \<Rightarrow> spot_error + pool_params" where
  "query_PoolParams poolId s = bindE (FetchPool s poolId) (\<lambda>pool. Inr (PoolParams pool))"

definition query_NumPools :: "'b spot_state \<Rightarrow> spot_error + 64 word" where
  "query_NumPools s = bindE (GetNextPoolNumber s) (\<lambda>nextPoolNumber. Inr (nextPoolNumber - 1))"

definition query_TotalLiquidity :: "'b chain_sdk \<Rightarrow> 'b spot_state \<Rightarrow> spot_error + coin list" where
  "query_TotalLiquidity E s = GetTotalLiquidity E s"

definition query_TotalPoolLiquidity :: "'b chain_sdk \<Rightarrow> 64 word \<Rightarrow> 'b spot_state \<Rightarrow> spot_error + coin list" where
  "query_TotalPoolLiquidity E poolId s =
     bindE (FetchPool s poolId) (\<lambda>pool. bindE (GetAddress E pool) (\<lambda>a. Inr (GetAllBalances E (s_sdk s) a)))"

definition query_TotalShares :: "64 word \<Rightarrow> 'b spot_state \<Rightarrow> spot_error + coin" where
  "query_TotalShares poolId s = bindE (FetchPool s poolId) (\<lambda>pool. Inr (TotalShares pool))"

definition query_SpotPrice :: "'b chain_sdk \<Rightarrow> 64 word \<Rightarrow> denom \<Rightarrow> denom \<Rightarrow> 'b spot_state \<Rightarrow> spot_error + string" where
  "query_SpotPrice E poolId tokenInDenom tokenOutDenom s =
     bindE (FetchPool s poolId) (\<lambda>pool.
     bindE (CalcSpotPrice E pool tokenInDenom tokenOutDenom) (\<lambda>price. Inr (DecString E price)))"

definition EstimateSwapExactAmountIn :: "'b chain_sdk \<Rightarrow> 'b spot_sdk \<Rightarrow> 64 word \<Rightarrow> coin \<Rightarrow> denom \<Rightarrow> 'b spot_state \<Rightarrow>
    spot_error + (coin \<times> coin)" where
  "EstimateSwapExactAmountIn E S poolId tokenIn tokenOutDenom s =
     bindE (FetchPool s poolId) (\<lambda>pool. CalcOutAmtGivenIn E S pool tokenIn tokenOutDenom False)"

definition EstimateSwapExactAmountOut :: "'b chain_sdk \<Rightarrow> 64 word \<Rightarrow> coin \<Rightarrow> denom \<Rightarrow> 'b spot_state \<Rightarrow> spot_error + coin" where
  "EstimateSwapExactAmountOut E poolId tokenOut tokenInDenom s =
     bindE (FetchPool s poolId) (\<lambda>pool. CalcInAmtGivenOut E pool tokenOut tokenInDenom)"

definition EstimateJoinExactAmountIn :: "'b chain_sdk \<Rightarrow> 'b spot_sdk \<Rightarrow> 64 word \<Rightarrow> coin list \<Rightarrow> 'b spot_state \<Rightarrow>
    spot_error + (int \<times> coin list)" where
  "EstimateJoinExactAmountIn E S poolId tokensIn s =
     bindE (FetchPool s poolId) (\<lambda>pool.
     bindE (AddTokensToPool E S tokensIn pool) (\<lambda>(_, numShares, remCoins). Inr (numShares, remCoins)))"

definition EstimateJoinExactAmountOut :: "spot_error + unit" where
  "EstimateJoinExactAmountOut = Inl ErrNotImplemented"

definition EstimateExitExactAmountIn :: "'b chain_sdk \<Rightarrow> 'b spot_sdk \<Rightarrow> 64 word \<Rightarrow> int \<Rightarrow> 'b spot_state \<Rightarrow>
    spot_error + (coin list \<times> coin list)" where
  "EstimateExitExactAmountIn E S poolId poolSharesIn s =
     bindE (FetchPool s poolId) (\<lambda>pool.
     bindE (types_ExitPool E S poolSharesIn pool) (\<lambda>(_, tokensOut, fees). Inr (tokensOut, fees)))"

definition EstimateExitExactAmountOut :: "spot_error + unit" where
  "EstimateExitExactAmountOut = Inl ErrNotImplemented"

end
