(* ===== verification/Spot_Assets.thy ===== *)
theory Spot_Assets
  imports Spot_Server
begin

text \<open>
  The assets of a pool: the binary search finds what a scan finds, and every operation on a pool changes the recorded amounts
  by exactly the coins that it was given, and nothing else of the pool.
\<close>

section \<open>Searching\<close>

lemma search_between_spec:
  assumes "i \<le> j" and "\<forall>a b. a \<le> b \<and> b < j \<and> f a \<longrightarrow> f b" and "\<forall>m < i. \<not> f m"
  shows "search_between f i j \<le> j \<and> (\<forall>m < search_between f i j. \<not> f m) \<and> (search_between f i j < j \<longrightarrow> f (search_between f i j))"
  using assms
proof (induction f i j rule: search_between.induct)
  case (1 f i j)
  show ?case
  proof (cases "i < j")
    case False
    then have "search_between f i j = i" by (simp add: search_between.simps [of f i j])
    then show ?thesis using False 1(3,5) by simp
  next
    case True
    define h where "h = (i + j) div 2"
    have h: "i \<le> h" "h < j" using True by (auto simp: h_def)
    show ?thesis
    proof (cases "f h")
      case False
      have no: "\<not> f m" if "m < h + 1" for m
      proof
        assume "f m"
        moreover have "m \<le> h" using that by simp
        ultimately show False using 1(4) h(2) False by blast
      qed
      have e: "search_between f i j = search_between f (h + 1) j"
        using True False by (simp add: search_between.simps [of f i j] Let_def h_def)
      have "h + 1 \<le> j" using h(2) by simp
      moreover have "\<forall>m < h + 1. \<not> f m" using no by blast
      ultimately show ?thesis unfolding e using 1(1) [OF True h_def False] 1(4) by blast
    next
      case fh: True
      have e: "search_between f i j = search_between f i h"
        using True fh by (simp add: search_between.simps [of f i j] Let_def h_def)
      have "search_between f i h \<le> h \<and> (\<forall>m < search_between f i h. \<not> f m) \<and> (search_between f i h < h \<longrightarrow> f (search_between f i h))"
      proof (rule 1(2) [OF True h_def])
        show "\<not> \<not> f h" "i \<le> h" "\<forall>m < i. \<not> f m" using fh h(1) 1(5) by simp_all
        show "\<forall>a b. a \<le> b \<and> b < h \<and> f a \<longrightarrow> f b" using 1(4) h(2) order_less_trans by blast
      qed
      then show ?thesis unfolding e using h fh by (metis le_neq_implies_less order_less_imp_le order_trans)
    qed
  qed
qed

lemma sort_Search_spec:
  assumes "\<forall>a b. a \<le> b \<and> b < n \<and> f a \<longrightarrow> f b"
  shows "sort_Search n f \<le> n" and "m < sort_Search n f \<Longrightarrow> \<not> f m" and "sort_Search n f < n \<Longrightarrow> f (sort_Search n f)"
  using search_between_spec [OF le0 assms] by (simp_all add: sort_Search_def)

abbreviation asset_denom :: "pool_asset \<Rightarrow> denom" where
  "asset_denom a \<equiv> Denom (Token a)"

abbreviation assets_sorted :: "pool_asset list \<Rightarrow> bool" where
  "assets_sorted as \<equiv> sorted_wrt (<) (map asset_denom as)"

text \<open>The plain scan that the binary search stands for.\<close>

fun scan_assets :: "nat \<Rightarrow> denom \<Rightarrow> pool_asset list \<Rightarrow> (nat \<times> pool_asset) option" where
  "scan_assets i d [] = None"
| "scan_assets i d (a # as) = (if asset_denom a = d then Some (i, a) else scan_assets (i + 1) d as)"

lemma scan_assets_None: "scan_assets i d as = None \<longleftrightarrow> d \<notin> asset_denom ` set as"
  by (induction as arbitrary: i) auto

lemma scan_assets_nth:
  assumes "assets_sorted as" and "k < length as" and "asset_denom (as ! k) = d"
  shows "scan_assets i d as = Some (i + k, as ! k)"
  using assms
proof (induction as arbitrary: i k)
  case (Cons a as)
  show ?case
  proof (cases k)
    case (Suc m)
    then have "asset_denom a < d" using Cons.prems by (metis (no_types, lifting) Suc_less_eq length_Cons length_map list.simps(9) nth_Cons_Suc nth_map nth_mem sorted_wrt.simps(2))
    then show ?thesis using Cons Suc by auto
  qed (use Cons.prems in simp)
qed simp

lemma getPoolAssetAndIndex_scan:
  assumes "assets_sorted (PoolAssets pool)" and "d \<noteq> []" and "PoolAssets pool \<noteq> []"
  shows "getPoolAssetAndIndex pool d = getE ErrTokenDenomNotFound (scan_assets 0 d (PoolAssets pool))"
proof -
  let ?as = "PoolAssets pool" and ?f = "\<lambda>i. d \<le> Denom (Token (PoolAssets pool ! i))"
  define k where "k = sort_Search (length ?as) ?f"
  have lt: "asset_denom (?as ! a) < asset_denom (?as ! b)" if "a < b" "b < length ?as" for a b
    using sorted_wrt_nth_less [OF assms(1), of a b] that by simp
  then have "\<forall>a b. a \<le> b \<and> b < length ?as \<and> ?f a \<longrightarrow> ?f b" by (metis order_le_less order_trans)
  note k = sort_Search_spec [OF this, folded k_def]
  show ?thesis
  proof (cases "k < length ?as \<and> asset_denom (?as ! k) = d")
    case True
    then show ?thesis using assms(2,3) scan_assets_nth [OF assms(1), of k d 0]
      by (auto simp: getPoolAssetAndIndex_def k_def [symmetric] Let_def)
  next
    case False
    have "d \<notin> asset_denom ` set ?as"
    proof
      assume "d \<in> asset_denom ` set ?as"
      then obtain m where m: "m < length ?as" "asset_denom (?as ! m) = d" by (auto simp: in_set_conv_nth)
      then have "k \<le> m" using k(2) [of m] by (metis dual_order.refl not_le)
      then have "k < length ?as" using m by simp
      then have "d \<le> asset_denom (?as ! k)" using k(3) by simp
      moreover have "asset_denom (?as ! k) \<le> d" using lt [of k m] m \<open>k \<le> m\<close> by (cases "k = m") auto
      ultimately show False using False \<open>k < length ?as\<close> by simp
    qed
    then have "scan_assets 0 d ?as = None" by (simp only: scan_assets_None not_False_eq_True)
    then show ?thesis using assms(2,3) False by (auto simp: getPoolAssetAndIndex_def k_def [symmetric] Let_def not_less)
  qed
qed


section \<open>Amounts\<close>

definition assets_ok :: "pool_asset list \<Rightarrow> bool" where
  "assets_ok as \<longleftrightarrow> assets_sorted as \<and> (\<forall>a \<in> set as. 0 \<le> Amount (Token a))"

definition pool_amount :: "spot_pool \<Rightarrow> denom \<Rightarrow> int" where
  "pool_amount pool d = AmountOf (map Token (PoolAssets pool)) d"

lemma getPoolAssetAndIndex_Inr:
  assumes "getPoolAssetAndIndex pool d = Inr (i, a)"
  shows "i < length (PoolAssets pool)" and "a = PoolAssets pool ! i" and "asset_denom a = d" and "d \<noteq> []"
  using assms by (auto simp: getPoolAssetAndIndex_def Let_def split: if_splits)

lemma AmountOf_update:
  assumes "i < length cs" and "Denom c = Denom (cs ! i)"
  shows "AmountOf (cs[i := c]) d = AmountOf cs d + (if d = Denom c then Amount c - Amount (cs ! i) else 0)"
  using assms
proof (induction cs arbitrary: i)
  case (Cons x cs)
  then show ?case using Cons.IH [of "i - 1"] by (cases i) simp_all
qed simp

lemma pool_amount_nth:
  assumes "assets_sorted (PoolAssets pool)" and "i < length (PoolAssets pool)" and "asset_denom (PoolAssets pool ! i) = d"
  shows "pool_amount pool d = Amount (Token (PoolAssets pool ! i))"
proof -
  have "distinct (map Denom (map Token (PoolAssets pool)))" using assms(1) by (simp add: o_def strict_sorted_iff)
  moreover have "Token (PoolAssets pool ! i) \<in> set (map Token (PoolAssets pool))" using assms(2) by simp
  ultimately show ?thesis using AmountOf_member assms(3) unfolding pool_amount_def by metis
qed

text \<open>The pool \<open>q\<close> is the pool \<open>p\<close> with the recorded amounts changed by \<open>\<delta>\<close>.\<close>

definition pool_moved :: "spot_pool \<Rightarrow> (denom \<Rightarrow> int) \<Rightarrow> spot_pool \<Rightarrow> bool" where
  "pool_moved p \<delta> q \<longleftrightarrow> q = p\<lparr>PoolAssets := PoolAssets q\<rparr>
     \<and> map (\<lambda>a. (asset_denom a, Weight a)) (PoolAssets q) = map (\<lambda>a. (asset_denom a, Weight a)) (PoolAssets p)
     \<and> assets_ok (PoolAssets q) \<and> (\<forall>d. pool_amount q d = pool_amount p d + \<delta> d)"

lemma pool_moved_refl: "assets_ok (PoolAssets p) \<Longrightarrow> pool_moved p (\<lambda>d. 0) p"
  by (simp add: pool_moved_def)

lemma pool_moved_trans: "pool_moved p \<delta> q \<Longrightarrow> pool_moved q \<epsilon> r \<Longrightarrow> pool_moved p (\<lambda>d. \<delta> d + \<epsilon> d) r"
  unfolding pool_moved_def by (metis (no_types, lifting) add.assoc spot_pool.surjective spot_pool.update_convs(4))

lemma pool_movedD:
  assumes "pool_moved p \<delta> q"
  shows "assets_ok (PoolAssets q)" and "pool_amount q d = pool_amount p d + \<delta> d"
    and "map asset_denom (PoolAssets q) = map asset_denom (PoolAssets p)" and "length (PoolAssets q) = length (PoolAssets p)"
    and "pool_Id q = pool_Id p" "pool_Address q = pool_Address p" "PoolParams q = PoolParams p" "TotalShares q = TotalShares p"
proof -
  have q: "q = p\<lparr>PoolAssets := PoolAssets q\<rparr>"
    and m: "map (\<lambda>a. (asset_denom a, Weight a)) (PoolAssets q) = map (\<lambda>a. (asset_denom a, Weight a)) (PoolAssets p)"
    using assms by (simp_all add: pool_moved_def)
  show "assets_ok (PoolAssets q)" "pool_amount q d = pool_amount p d + \<delta> d" using assms by (simp_all add: pool_moved_def)
  show "map asset_denom (PoolAssets q) = map asset_denom (PoolAssets p)" using arg_cong [OF m, of "map fst"] by (simp add: o_def)
  show "length (PoolAssets q) = length (PoolAssets p)" using arg_cong [OF m, of length] by simp
  show "pool_Id q = pool_Id p" "pool_Address q = pool_Address p" "PoolParams q = PoolParams p" "TotalShares q = TotalShares p"
    by (subst q, simp)+
qed

lemma set_token:
  assumes "assets_ok (PoolAssets p)" and "getPoolAssetAndIndex p (Denom c) = Inr (i, a)" and "0 \<le> Amount c"
  shows "pool_moved p (\<lambda>d. if d = Denom c then Amount c - Amount (Token a) else 0)
    (p\<lparr>PoolAssets := (PoolAssets p)[i := a\<lparr>Token := c\<rparr>]\<rparr>)"
proof -
  note g = getPoolAssetAndIndex_Inr [OF assms(2)]
  let ?as = "(PoolAssets p)[i := a\<lparr>Token := c\<rparr>]"
  have d: "map asset_denom ?as = map asset_denom (PoolAssets p)"
    using g by (intro nth_equalityI) (auto simp: nth_list_update)
  have w: "map (\<lambda>a. (asset_denom a, Weight a)) ?as = map (\<lambda>a. (asset_denom a, Weight a)) (PoolAssets p)"
    using g by (intro nth_equalityI) (auto simp: nth_list_update)
  have n: "\<forall>x \<in> set ?as. 0 \<le> Amount (Token x)"
    using assms(1,3) by (auto simp: assets_ok_def dest!: set_update_subset_insert [THEN subsetD])
  have t: "map Token ?as = (map Token (PoolAssets p))[i := c]" by (simp add: map_update)
  have "pool_amount (p\<lparr>PoolAssets := ?as\<rparr>) d =
      pool_amount p d + (if d = Denom c then Amount c - Amount (Token a) else 0)" for d
    using AmountOf_update [of i "map Token (PoolAssets p)" c d] g(1,3) unfolding g(2) by (simp add: pool_amount_def t [unfolded g(2)])
  then show ?thesis using d w n assms(1) by (simp add: pool_moved_def assets_ok_def)
qed

lemma add_liquidity_moves:
  assumes "assets_ok (PoolAssets p)" and "\<forall>c \<in> set cs. 0 \<le> Amount c" and "add_liquidity cs p = Inr q"
  shows "pool_moved p (AmountOf cs) q"
  using assms
proof (induction cs arbitrary: p)
  case Nil
  then show ?case using pool_moved_refl by (simp add: AmountOf_def)
next
  case (Cons c cs)
  obtain i a where a: "getPoolAssetAndIndex p (Denom c) = Inr (i, a)"
    and q: "add_liquidity cs (p\<lparr>PoolAssets := (PoolAssets p)[i := a\<lparr>Token := (Token a)\<lparr>Amount := Amount (Token a) + Amount c\<rparr>\<rparr>]\<rparr>) = Inr q"
    using Cons.prems(3) by (auto simp: bindE_eq_Inr)
  let ?c = "(Token a)\<lparr>Amount := Amount (Token a) + Amount c\<rparr>"
  have d: "Denom ?c = Denom c" using getPoolAssetAndIndex_Inr(3) [OF a] by simp
  have "0 \<le> Amount (Token a)" using getPoolAssetAndIndex_Inr(1,2) [OF a] Cons.prems(1) by (simp add: assets_ok_def)
  then have "0 \<le> Amount ?c" using Cons.prems(2) by simp
  note m = set_token [OF Cons.prems(1) a [folded d] this]
  have "pool_moved p (\<lambda>x. (if x = Denom ?c then Amount ?c - Amount (Token a) else 0) + AmountOf cs x) q"
    using pool_moved_trans [OF m Cons.IH [OF pool_movedD(1) [OF m] _ q]] Cons.prems(2) by simp
  moreover have "(\<lambda>x. (if x = Denom ?c then Amount ?c - Amount (Token a) else 0) + AmountOf cs x) = AmountOf (c # cs)"
    using d by (auto simp: fun_eq_iff)
  ultimately show ?case by (simp only:)
qed

lemma subtract_all_moves:
  assumes "assets_ok (PoolAssets p)" and "subtract_all cs p = Inr q"
  shows "pool_moved p (\<lambda>d. - AmountOf cs d) q"
  using assms
proof (induction cs arbitrary: p)
  case Nil
  then show ?case using pool_moved_refl by (simp add: AmountOf_def)
next
  case (Cons c cs)
  obtain i a where a: "getPoolAssetAndIndex p (Denom c) = Inr (i, a)" and n: "0 \<le> Amount (Token a) - Amount c"
    and q: "subtract_all cs (p\<lparr>PoolAssets := (PoolAssets p)[i := a\<lparr>Token := (Token a)\<lparr>Amount := Amount (Token a) - Amount c\<rparr>\<rparr>]\<rparr>) = Inr q"
    using Cons.prems(2) by (auto simp: bindE_eq_Inr SubtractPoolAssetBalance_def Let_def split: if_splits)
  let ?c = "(Token a)\<lparr>Amount := Amount (Token a) - Amount c\<rparr>"
  have d: "Denom ?c = Denom c" using getPoolAssetAndIndex_Inr(3) [OF a] by simp
  have "0 \<le> Amount ?c" using n by simp
  note m = set_token [OF Cons.prems(1) a [folded d] this]
  have "pool_moved p (\<lambda>x. (if x = Denom ?c then Amount ?c - Amount (Token a) else 0) + - AmountOf cs x) q"
    using pool_moved_trans [OF m Cons.IH [OF pool_movedD(1) [OF m] q]] by simp
  moreover have "(\<lambda>x. (if x = Denom ?c then Amount ?c - Amount (Token a) else 0) + - AmountOf cs x) = (\<lambda>x. - AmountOf (c # cs) x)"
    using d by (auto simp: fun_eq_iff)
  ultimately show ?case by simp
qed

lemma ApplySwap_moves:
  assumes "assets_ok (PoolAssets p)" and "Denom tin \<noteq> Denom tout" and "ApplySwap tin tout p = Inr q"
  shows "pool_moved p (\<lambda>d. AmountOf [tin] d - AmountOf [tout] d) q" and "0 < Amount tin" and "0 < Amount tout"
    and "Amount tout \<le> pool_amount p (Denom tout)"
proof -
  obtain i a j b where a: "getPoolAssetAndIndex p (Denom tin) = Inr (i, a)" and b: "getPoolAssetAndIndex p (Denom tout) = Inr (j, b)"
    and pos: "0 < Amount tin" "0 < Amount tout"
    and q: "updatePoolAssetBalances
      [(Token a)\<lparr>Amount := Amount (Token a) + Amount tin\<rparr>, (Token b)\<lparr>Amount := Amount (Token b) - Amount tout\<rparr>] p = Inr q"
    using assms(3) by (auto simp: ApplySwap_def bindE_eq_Inr split: if_splits)
  show "0 < Amount tin" "0 < Amount tout" by (fact pos)+
  let ?x = "(Token a)\<lparr>Amount := Amount (Token a) + Amount tin\<rparr>" and ?y = "(Token b)\<lparr>Amount := Amount (Token b) - Amount tout\<rparr>"
  note ga = getPoolAssetAndIndex_Inr [OF a] and gb = getPoolAssetAndIndex_Inr [OF b]
  have dx: "Denom ?x = Denom tin" and dy: "Denom ?y = Denom tout" using ga(3) gb(3) by simp_all
  have s: "assets_sorted (PoolAssets p)" using assms(1) by (simp add: assets_ok_def)
  have nx: "0 \<le> Amount ?x" using ga(1,2) assms(1) pos by (simp add: assets_ok_def)
  define p1 where "p1 = p\<lparr>PoolAssets := (PoolAssets p)[i := a\<lparr>Token := ?x\<rparr>]\<rparr>"
  note m1 = set_token [OF assms(1) a [folded dx] nx, folded p1_def]
  have "getPoolAssetAndIndex p (Denom ?x) = Inr (i, a)" using a dx by simp
  then have q1: "updatePoolAssetBalances [?y] p1 = Inr q"
    using q ga(2) by (simp add: p1_def split: if_splits)
  then have ny: "0 \<le> Amount ?y" by (simp split: if_splits)
  obtain k c where c: "getPoolAssetAndIndex p1 (Denom ?y) = Inr (k, c)" and q2: "q = p1\<lparr>PoolAssets := (PoolAssets p1)[k := c\<lparr>Token := ?y\<rparr>]\<rparr>"
    using q1 ny getPoolAssetAndIndex_Inr(2) by (auto simp: bindE_eq_Inr)
  note m2 = set_token [OF pool_movedD(1) [OF m1] c ny, folded q2]
  have ta: "pool_amount p (Denom tout) = Amount (Token b)" using pool_amount_nth [OF s gb(1)] gb by simp
  have s1: "assets_sorted (PoolAssets p1)" using pool_movedD(1) [OF m1] by (simp add: assets_ok_def)
  have "pool_amount p1 (Denom tout) = Amount (Token c)"
    using pool_amount_nth [OF s1] getPoolAssetAndIndex_Inr [OF c] dy by metis
  moreover have "pool_amount p1 (Denom tout) = pool_amount p (Denom tout)"
    using pool_movedD(2) [OF m1, of "Denom tout"] dx assms(2) by (simp only: dx) simp
  ultimately have tc: "Amount (Token c) = Amount (Token b)" using ta by simp
  show "pool_moved p (\<lambda>d. AmountOf [tin] d - AmountOf [tout] d) q"
  proof -
    have "(\<lambda>d. (if d = Denom ?x then Amount ?x - Amount (Token a) else 0) + (if d = Denom ?y then Amount ?y - Amount (Token c) else 0))
      = (\<lambda>d. AmountOf [tin] d - AmountOf [tout] d)"
      using tc unfolding dx dy by (auto simp: fun_eq_iff)
    with pool_moved_trans [OF m1 m2] show ?thesis by (simp only:)
  qed
  show "Amount tout \<le> pool_amount p (Denom tout)" using ny ta by simp
qed

end
