(* ===== verification/Inflation_Schedule.thy ===== *)
theory Inflation_Schedule
  imports Inflation
begin

text \<open>
  What the inflation module mints: the bounds of a provision, one day epoch (no panic, who gets what, what happens to the
  supply), and the schedule over any sequence of days on which inflation is switched on or off.
\<close>

section \<open>Coins\<close>

definition one_coin :: "denom \<Rightarrow> int \<Rightarrow> coin list" where
  "one_coin dn v = (if v = 0 then [] else [\<lparr>Denom = dn, Amount = v\<rparr>])"

lemma NewCoins_one: "0 \<le> v \<Longrightarrow> NewCoins \<lparr>Denom = dn, Amount = v\<rparr> = Inr (one_coin dn v)"
  by (simp add: NewCoins_def one_coin_def)


lemma sint_small: "unat (w :: 64 word) < 2 ^ 63 \<Longrightarrow> sint w = int (unat w)"
proof -
  assume "unat w < 2 ^ 63"
  then have "int (unat w) < int (2 ^ 63)" by (simp only: of_nat_less_iff)
  then have "uint w < 2 ^ 63" by simp
  then have "signed_take_bit 63 (uint w) = uint w" by (intro signed_take_bit_int_eq_self) (simp_all add: order_trans [OF _ uint_ge_0])
  then show ?thesis by (simp add: sint_uint)
qed


section \<open>Minting as an interface\<close>

text \<open>What is relied on: minting adds to the account of the module and to the supply; funding the community pool moves coins to
  the account of the pool; transfers keep the supply; a power of a number between 0 and 1 lies between 0 and 1.\<close>

locale mint_bank = coins_bank bal all modAddr send
  for bal :: "'b \<Rightarrow> addr \<Rightarrow> denom \<Rightarrow> int" and all and modAddr and send +
  fixes mint :: "'b \<Rightarrow> string \<Rightarrow> coin list \<Rightarrow> string + 'b"
    and fund :: "'b \<Rightarrow> coin list \<Rightarrow> addr \<Rightarrow> string + 'b"
    and circ :: "'b \<Rightarrow> denom \<Rightarrow> int"
    and pool :: addr
  assumes mint_ok: "mint b m cs = Inr b' \<Longrightarrow>
      bal b' = (\<lambda>a d. bal b a d + (if a = modAddr m then AmountOf cs d else 0)) \<and> circ b' = (\<lambda>d. circ b d + AmountOf cs d)"
    and mint_valid: "coins_valid cs \<Longrightarrow> \<exists>b'. mint b InflationModule cs = Inr b'"
    and fund_ok: "fund b cs a = Inr b' \<Longrightarrow> bal b' = move_coins a pool cs (bal b) \<and> circ b' = circ b"
    and fund_enough: "coins_valid cs \<Longrightarrow> (\<forall>d. AmountOf cs d \<le> bal b a d) \<Longrightarrow> \<exists>b'. fund b cs a = Inr b'"
    and send_supply: "send b m n cs = Inr b' \<Longrightarrow> circ b' = circ b"
begin

lemma bal_nonneg: "0 \<le> bal b a d"
proof -
  have "coins_valid cs \<Longrightarrow> 0 \<le> AmountOf cs d" for cs by (induction cs) auto
  then show ?thesis using all_balances [of b a d] by metis
qed

text \<open>Minting \<open>n\<close>, then sending \<open>x\<close> to a module and \<open>y\<close> to the pool succeeds when \<open>x + y \<le> n\<close>.\<close>

lemma mint_and_share:
  assumes "0 < n" and "0 \<le> x" and "0 \<le> y" and "x + y \<le> n"
    and "modAddr InflationModule \<noteq> modAddr m" and "modAddr InflationModule \<noteq> pool" and "modAddr m \<noteq> pool"
  shows "\<exists>b1 b2 b3. mint b InflationModule [\<lparr>Denom = dn, Amount = n\<rparr>] = Inr b1 \<and> send b1 InflationModule m (one_coin dn x) = Inr b2
    \<and> fund b2 (one_coin dn y) (modAddr InflationModule) = Inr b3
    \<and> circ b3 dn = circ b dn + n
    \<and> bal b3 (modAddr m) dn = bal b (modAddr m) dn + x \<and> bal b3 pool dn = bal b pool dn + y
    \<and> bal b3 (modAddr InflationModule) dn = bal b (modAddr InflationModule) dn + (n - x - y)"
proof -
  let ?i = "modAddr InflationModule"
  have c: "coins_valid (one_coin dn v)" if "0 \<le> v" for v using that by (simp add: one_coin_def)
  have a: "AmountOf (one_coin dn v) d = (if d = dn then v else 0)" for v d by (simp add: one_coin_def)
  obtain b1 where b1: "mint b InflationModule [\<lparr>Denom = dn, Amount = n\<rparr>] = Inr b1"
    using mint_valid [of "[\<lparr>Denom = dn, Amount = n\<rparr>]"] assms(1) by auto
  note m1 = mint_ok [OF b1]
  have "\<forall>d. AmountOf (one_coin dn x) d \<le> bal b1 ?i d" using m1 bal_nonneg [of b ?i] assms(1-4) by (auto simp: a add_increasing)
  then obtain b2 where b2: "send b1 InflationModule m (one_coin dn x) = Inr b2" using send_enough [OF c [OF assms(2)]] by blast
  note m2 = send_moves [OF b2 assms(5)]
  have "AmountOf (one_coin dn y) d \<le> bal b2 ?i d" for d
    using m1 m2(1) [of d] bal_nonneg [of b ?i d] bal_nonneg [of b2 ?i d] assms(1-4) by (auto simp: a)
  then obtain b3 where b3: "fund b2 (one_coin dn y) ?i = Inr b3" using fund_enough [OF c [OF assms(3)]] by blast
  have "circ b3 dn = circ b dn + n" using m1 send_supply [OF b2] fund_ok [OF b3] by simp
  moreover have "bal b3 (modAddr m) dn = bal b (modAddr m) dn + x" "bal b3 pool dn = bal b pool dn + y"
      "bal b3 ?i dn = bal b ?i dn + (n - x - y)"
    using m1 m2(1,2) [of dn] m2(3) [of pool dn] fund_ok [OF b3] assms(5-7) by (auto simp: move_coins_def a)
  ultimately show ?thesis using b1 b2 b3 by blast
qed

end

definition mint_laws :: "'b chain_sdk \<Rightarrow> 'b mint_sdk \<Rightarrow> addr \<Rightarrow> bool" where
  "mint_laws E M pool \<longleftrightarrow> mint_bank (GetBalance E) (GetAllBalances E) (GetModuleAddress E) (SendCoins_ModuleToModule E)
     (bank_MintCoins M) (FundCommunityPool M) (GetSupply M) pool"

definition power_laws :: "'b mint_sdk \<Rightarrow> bool" where
  "power_laws M \<longleftrightarrow> (\<forall>x n. 0 \<le> x \<and> x \<le> OneDec \<longrightarrow> 0 \<le> dec_Power M x n \<and> dec_Power M x n \<le> OneDec)"


section \<open>The provision of an epoch\<close>

lemma Params_Validate_iff:
  "infl_Params_Validate p = Inr () \<longleftrightarrow> EpochsPerPeriod p \<noteq> 0
     \<and> 0 \<le> ec_A (ExponentialCalculation p) \<and> 0 \<le> ec_R (ExponentialCalculation p) \<and> ec_R (ExponentialCalculation p) \<le> OneDec
     \<and> 0 \<le> ec_C (ExponentialCalculation p)
     \<and> 0 \<le> StakingRewards (InflationDistribution p) \<and> 0 \<le> CommunityPool (InflationDistribution p)
     \<and> 0 \<le> StrategicReserves (InflationDistribution p)
     \<and> StakingRewards (InflationDistribution p) + StrategicReserves (InflationDistribution p)
         + CommunityPool (InflationDistribution p) = OneDec"
  by (auto simp: infl_Params_Validate_def bindE_eq_Inr NewDec_def OneDec_def split: if_splits)

lemma period_provision:
  assumes "dec_laws E" and "power_laws M" and "infl_Params_Validate p = Inr ()"
  defines "e \<equiv> ExponentialCalculation p"
  shows "ec_C e \<le> dec_Mul E (ec_A e) (dec_Power M (OneDec - ec_R e) n) + ec_C e"
    and "dec_Mul E (ec_A e) (dec_Power M (OneDec - ec_R e) n) + ec_C e \<le> ec_A e + ec_C e"
proof -
  have v: "0 \<le> ec_A e" "0 \<le> OneDec - ec_R e" "OneDec - ec_R e \<le> OneDec" using assms(3) by (simp_all add: Params_Validate_iff e_def)
  then have w: "0 \<le> dec_Power M (OneDec - ec_R e) n" "dec_Power M (OneDec - ec_R e) n \<le> OneDec"
    using assms(2) by (simp_all add: power_laws_def)
  note L = dec_lawsD [OF assms(1)]
  show "ec_C e \<le> dec_Mul E (ec_A e) (dec_Power M (OneDec - ec_R e) n) + ec_C e"
    using sdk_decimal.mul_nonneg [OF L v(1) w(1)] by simp
  have "dec_Mul E (dec_Power M (OneDec - ec_R e) n) (ec_A e) \<le> dec_Mul E OneDec (ec_A e)"
    by (rule sdk_decimal.mul_mono [OF L w(2) v(1)])
  also have "\<dots> = ec_A e"
    using sdk_decimal.mul_One [OF L, of "ec_A e"] sdk_decimal.mul_comm [OF L, of OneDec "ec_A e"] by simp
  finally show "dec_Mul E (ec_A e) (dec_Power M (OneDec - ec_R e) n) + ec_C e \<le> ec_A e + ec_C e"
    using sdk_decimal.mul_comm [OF L, of "ec_A e"] by simp
qed

lemma provision_bounds:
  assumes "dec_laws E" and "power_laws M" and "infl_Params_Validate p = Inr ()" and "unat (EpochsPerPeriod p) < 2 ^ 63"
  shows "let n = int (unat (EpochsPerPeriod p)); e = ExponentialCalculation p; v = CalculateEpochMintProvision E M p period in
     0 \<le> v \<and> (ec_C e - n) * DefaultPowerReduction < v * n \<and> v * n \<le> (ec_A e + ec_C e) * DefaultPowerReduction"
proof -
  let ?n = "int (unat (EpochsPerPeriod p))" and ?e = "ExponentialCalculation p"
  let ?P = "dec_Mul E (ec_A ?e) (dec_Power M (OneDec - ec_R ?e) (unat period)) + ec_C ?e"
  let ?q = "dec_QuoInt64 E ?P ?n"
  have nz: "EpochsPerPeriod p \<noteq> 0" "0 \<le> ec_C ?e" using assms(3) by (simp_all add: Params_Validate_iff)
  have s: "sint (EpochsPerPeriod p) = ?n" using assms(4) by (rule sint_small)
  have n: "0 < ?n" using nz(1) by (simp only: of_nat_0_less_iff unat_gt_0 not_False_eq_True)
  note P = period_provision [OF assms(1-3), of "unat period"]
  have P0: "0 \<le> ?P" using P(1) nz(2) by linarith
  note q = sdk_decimal.quoInt_bounds [OF dec_lawsD [OF assms(1)] n, of ?P]
  have v: "CalculateEpochMintProvision E M p period = ?q * DefaultPowerReduction"
    using nz(1) by (simp add: CalculateEpochMintProvision_def Let_def s)
  have "ec_C ?e - ?n < ?q * ?n" "?q * ?n \<le> ec_A ?e + ec_C ?e" using q(2) [OF P0] q(3) P by linarith+
  then have "(ec_C ?e - ?n) * DefaultPowerReduction < ?q * ?n * DefaultPowerReduction"
      "?q * ?n * DefaultPowerReduction \<le> (ec_A ?e + ec_C ?e) * DefaultPowerReduction"
    by (simp_all add: DefaultPowerReduction_def)
  moreover have "0 \<le> ?q * DefaultPowerReduction" using q(1) [OF P0] by (simp add: DefaultPowerReduction_def)
  ultimately show ?thesis unfolding v by (simp add: Let_def ac_simps)
qed

text \<open>With valid parameters and fewer than 2 to the 63 epochs per period, the provision of an epoch, in units of the last place
  of a micro token, is never negative, is at least the long-term provision of the period divided by its epochs (up to the truncation
  of the division), and never more than the initial value plus the long-term provision divided by the epochs.\<close>

theorem CalculateEpochMintProvision_bounds:
  assumes "dec_laws E" and "power_laws M" and "infl_Params_Validate p = Inr ()" and "unat (EpochsPerPeriod p) < 2 ^ 63"
  shows "let n = int (unat (EpochsPerPeriod p)); e = ExponentialCalculation p; v = CalculateEpochMintProvision E M p period in
     0 \<le> v \<and> (ec_C e - n) * DefaultPowerReduction < v * n \<and> v * n \<le> (ec_A e + ec_C e) * DefaultPowerReduction"
  by (rule provision_bounds [OF assms])


section \<open>One day\<close>

definition minted :: "'b chain_sdk \<Rightarrow> 'b mint_sdk \<Rightarrow> infl_params \<Rightarrow> 64 word \<Rightarrow> int" where
  "minted E M p period = dec_TruncateInt E (CalculateEpochMintProvision E M p period)"

definition share :: "'b chain_sdk \<Rightarrow> int \<Rightarrow> dec \<Rightarrow> int" where
  "share E n proportion = dec_TruncateInt E (dec_Mul E (NewDec n) proportion)"

lemma part_bounds:
  assumes "dec_laws E" and "0 \<le> n" and "0 \<le> r"
  shows "0 \<le> share E n r" and "share E n r * PREC \<le> n * r"
proof -
  note L = dec_lawsD [OF assms(1)]
  have m: "dec_Mul E (NewDec n) r = n * r"
    using sdk_decimal.mul_whole [OF L, of r n] sdk_decimal.mul_comm [OF L, of r "NewDec n"] by (simp add: ac_simps)
  have nr: "0 \<le> n * r" using assms(2,3) by simp
  have t: "\<bar>n * r - share E n r * PREC\<bar> < PREC" "\<bar>share E n r * PREC\<bar> \<le> n * r"
    using sdk_decimal.truncInt_trunc [OF L, of "n * r"] nr by (simp_all add: share_def m)
  show "share E n r * PREC \<le> n * r" using t(2) by linarith
  have "- PREC < share E n r * PREC" using t(1) nr by linarith
  then have "- 1 * PREC < share E n r * PREC" by simp
  then have "- 1 < share E n r" by (simp only: mult_less_cancel_right_pos PREC_pos)
  then show "0 \<le> share E n r" by simp
qed

lemma shares_fit:
  assumes "dec_laws E" and "0 \<le> n" and "infl_Params_Validate p = Inr ()"
  shows "share E n (StakingRewards (InflationDistribution p)) + share E n (CommunityPool (InflationDistribution p)) \<le> n"
proof -
  let ?x = "StakingRewards (InflationDistribution p)" and ?y = "CommunityPool (InflationDistribution p)"
  have v: "0 \<le> ?x" "0 \<le> ?y" "?x + ?y \<le> PREC" using assms(3) by (auto simp: Params_Validate_iff OneDec_def)
  have "(share E n ?x + share E n ?y) * PREC \<le> n * (?x + ?y)"
    using part_bounds(2) [OF assms(1,2) v(1)] part_bounds(2) [OF assms(1,2) v(2)] by (simp add: distrib_left distrib_right)
  also have "\<dots> \<le> n * PREC" using v(3) assms(2) by (intro mult_left_mono)
  finally show ?thesis by (simp only: mult_le_cancel_right_pos PREC_pos)
qed

definition infl_accounts :: "'b chain_sdk \<Rightarrow> string \<Rightarrow> addr \<Rightarrow> bool" where
  "infl_accounts E fc pool \<longleftrightarrow> distinct [GetModuleAddress E InflationModule, GetModuleAddress E fc, pool]"

lemma provision_minted:
  assumes "dec_laws E" and "0 < minted E M p period"
  shows "0 < CalculateEpochMintProvision E M p period"
proof (rule ccontr)
  let ?v = "CalculateEpochMintProvision E M p period"
  assume "\<not> ?thesis"
  moreover have "\<bar>?v - minted E M p period * PREC\<bar> < PREC" "\<bar>minted E M p period * PREC\<bar> \<le> \<bar>?v\<bar>"
    using sdk_decimal.truncInt_trunc [OF dec_lawsD [OF assms(1)], of ?v] by (simp_all add: minted_def)
  moreover have "PREC \<le> minted E M p period * PREC" using assms(2) mult_right_mono [of 1 "minted E M p period" PREC] by simp
  ultimately show False by linarith
qed

text \<open>When the long-term provision is at least one unit an epoch, every epoch mints.\<close>

lemma minted_pos:
  assumes "dec_laws E" and "power_laws M" and "infl_Params_Validate p = Inr ()" and "unat (EpochsPerPeriod p) < 2 ^ 63"
    and "int (unat (EpochsPerPeriod p)) * PREC \<le> (ec_C (ExponentialCalculation p) - int (unat (EpochsPerPeriod p))) * DefaultPowerReduction"
  shows "0 < minted E M p period"
proof -
  let ?n = "int (unat (EpochsPerPeriod p))" and ?v = "CalculateEpochMintProvision E M p period"
  have v: "0 \<le> ?v" "?n * PREC < ?v * ?n" using provision_bounds [OF assms(1-4), of period] assms(5) by (simp_all add: Let_def)
  have "PREC < ?v"
  proof (rule ccontr)
    assume "\<not> PREC < ?v"
    then have "?v * ?n \<le> PREC * ?n" by (intro mult_right_mono) simp_all
    then show False using v(2) by (simp add: mult.commute)
  qed
  moreover have "\<bar>?v - minted E M p period * PREC\<bar> < PREC"
    using sdk_decimal.truncInt_trunc [OF dec_lawsD [OF assms(1)], of ?v] by (simp add: minted_def)
  ultimately have "0 * PREC < minted E M p period * PREC" by linarith
  then show ?thesis by (simp only: mult_less_cancel_right_pos PREC_pos)
qed

definition next_period :: "infl_params \<Rightarrow> 64 word \<Rightarrow> 'b infl_state \<Rightarrow> 64 word" where
  "next_period p n s =
     (if sint (EpochsPerPeriod p) < sint (n - EpochsPerPeriod p * CurrentPeriod s - NumSkippedEpochs s)
      then CurrentPeriod s + 1 else CurrentPeriod s)"

lemma day_mints:
  assumes "dec_laws E" and "mint_laws E M pool" and "infl_accounts E fc pool"
    and "i_Params s = Some p" and "infl_Params_Validate p = Inr ()" and "InflationEnabled p"
    and "0 < minted E M p (CurrentPeriod s)"
  defines "v \<equiv> minted E M p (CurrentPeriod s)"
  shows "\<exists>s'. infl_AfterEpochEnd E M fc DayEpochID n s = Inr s' \<and> i_Params s' = Some p
    \<and> CurrentPeriod s' = next_period p n s \<and> NumSkippedEpochs s' = NumSkippedEpochs s
    \<and> GetSupply M (i_sdk s') NIBI = GetSupply M (i_sdk s) NIBI + v
    \<and> GetBalance E (i_sdk s') (GetModuleAddress E fc) NIBI =
        GetBalance E (i_sdk s) (GetModuleAddress E fc) NIBI + share E v (StakingRewards (InflationDistribution p))
    \<and> GetBalance E (i_sdk s') pool NIBI = GetBalance E (i_sdk s) pool NIBI + share E v (CommunityPool (InflationDistribution p))
    \<and> GetBalance E (i_sdk s') (GetModuleAddress E InflationModule) NIBI =
        GetBalance E (i_sdk s) (GetModuleAddress E InflationModule) NIBI
          + (v - share E v (StakingRewards (InflationDistribution p)) - share E v (CommunityPool (InflationDistribution p)))"
proof -
  let ?x = "share E v (StakingRewards (InflationDistribution p))" and ?y = "share E v (CommunityPool (InflationDistribution p))"
  have v: "0 < v" "0 \<le> v" using assms(7) by (simp_all add: v_def)
  have r: "0 \<le> StakingRewards (InflationDistribution p)" "0 \<le> CommunityPool (InflationDistribution p)"
    using assms(5) by (simp_all add: Params_Validate_iff)
  have x: "0 \<le> ?x" "0 \<le> ?y" using part_bounds(1) [OF assms(1) v(2) r(1)] part_bounds(1) [OF assms(1) v(2) r(2)] .
  note bank = assms(2) [unfolded mint_laws_def]
  have d: "GetModuleAddress E InflationModule \<noteq> GetModuleAddress E fc" "GetModuleAddress E InflationModule \<noteq> pool"
      "GetModuleAddress E fc \<noteq> pool" using assms(3) by (simp_all add: infl_accounts_def)
  obtain b1 b2 b3 where b: "bank_MintCoins M (i_sdk s) InflationModule [\<lparr>Denom = NIBI, Amount = v\<rparr>] = Inr b1"
      "SendCoins_ModuleToModule E b1 InflationModule fc (one_coin NIBI ?x) = Inr b2"
      "FundCommunityPool M b2 (one_coin NIBI ?y) (GetModuleAddress E InflationModule) = Inr b3"
    and res: "GetSupply M b3 NIBI = GetSupply M (i_sdk s) NIBI + v"
      "GetBalance E b3 (GetModuleAddress E fc) NIBI = GetBalance E (i_sdk s) (GetModuleAddress E fc) NIBI + ?x"
      "GetBalance E b3 pool NIBI = GetBalance E (i_sdk s) pool NIBI + ?y"
      "GetBalance E b3 (GetModuleAddress E InflationModule) NIBI =
         GetBalance E (i_sdk s) (GetModuleAddress E InflationModule) NIBI + (v - ?x - ?y)"
    using mint_bank.mint_and_share [OF bank v(1) x shares_fit [OF assms(1) v(2) assms(5)] d, of "i_sdk s" NIBI] by blast
  let ?e = "EventMint n (CalculateEpochMintProvision E M p (CurrentPeriod s)) v"
  let ?s = "s\<lparr>i_sdk := b3, CurrentPeriod := next_period p n s, i_events := i_events s @ [?e]\<rparr>"
  have "infl_AfterEpochEnd E M fc DayEpochID n s = Inr ?s"
    using b x provision_minted [OF assms(1,7)] v assms(4,6) NewCoins_one [OF x(1), of NIBI] NewCoins_one [OF x(2), of NIBI]
    by (simp add: infl_AfterEpochEnd_def Let_def MintAndAllocateInflation_def MintCoins_def AllocateExponentialInflation_def
        GetProportions_def next_period_def flip: minted_def v_def share_def)
  then show ?thesis using res assms(4) by simp
qed

text \<open>On a day epoch with inflation switched on and at least one unit to mint, the hook never fails: the supply grows by exactly the
  truncated provision, the fee collector and the community pool receive their proportions of it rounded down, the module keeps
  the rest, and nothing else of the module changes but the period.\<close>

theorem infl_AfterEpochEnd_mints:
  assumes "dec_laws E" and "mint_laws E M pool" and "infl_accounts E fc pool"
    and "i_Params s = Some p" and "infl_Params_Validate p = Inr ()" and "InflationEnabled p"
    and "0 < minted E M p (CurrentPeriod s)"
  shows "\<exists>s'. infl_AfterEpochEnd E M fc DayEpochID n s = Inr s' \<and> i_Params s' = Some p \<and> NumSkippedEpochs s' = NumSkippedEpochs s
    \<and> (let v = minted E M p (CurrentPeriod s); bal = (\<lambda>s a. GetBalance E (i_sdk s) a NIBI);
           x = share E v (StakingRewards (InflationDistribution p)); y = share E v (CommunityPool (InflationDistribution p))
       in GetSupply M (i_sdk s') NIBI = GetSupply M (i_sdk s) NIBI + v
        \<and> bal s' (GetModuleAddress E fc) = bal s (GetModuleAddress E fc) + x \<and> bal s' pool = bal s pool + y
        \<and> bal s' (GetModuleAddress E InflationModule) = bal s (GetModuleAddress E InflationModule) + (v - x - y)
        \<and> 0 \<le> x \<and> 0 \<le> y \<and> x + y \<le> v)"
proof -
  let ?v = "minted E M p (CurrentPeriod s)"
  have v: "0 \<le> ?v" using assms(7) by simp
  have r: "0 \<le> StakingRewards (InflationDistribution p)" "0 \<le> CommunityPool (InflationDistribution p)"
    using assms(5) by (simp_all add: Params_Validate_iff)
  show ?thesis
    using day_mints [OF assms, of n] shares_fit [OF assms(1) v assms(5)]
      part_bounds(1) [OF assms(1) v r(1)] part_bounds(1) [OF assms(1) v r(2)]
    by (simp add: Let_def) blast
qed

text \<open>When the provision of an epoch is positive but below one unit, the hook mints nothing and then panics in its deferred
  function, which reads the amounts of coins that were never set.\<close>

theorem infl_AfterEpochEnd_panics:
  assumes "dec_laws E" and "i_Params s = Some p" and "InflationEnabled p"
    and "0 < CalculateEpochMintProvision E M p (CurrentPeriod s)" and "CalculateEpochMintProvision E M p (CurrentPeriod s) < PREC"
  shows "infl_AfterEpochEnd E M fc DayEpochID n s = Inl NilAmount"
proof -
  let ?v = "CalculateEpochMintProvision E M p (CurrentPeriod s)" and ?t = "dec_TruncateInt E (CalculateEpochMintProvision E M p (CurrentPeriod s))"
  have "\<bar>?t * PREC\<bar> \<le> \<bar>?v\<bar>" using sdk_decimal.truncInt_trunc [OF dec_lawsD [OF assms(1)], of ?v] by simp
  then have "?t * PREC < 1 * PREC" using assms(4,5) by linarith
  then have "\<not> 0 < ?t" by (simp only: mult_less_cancel_right_pos PREC_pos)
  then show ?thesis using assms(2-4) by (simp add: infl_AfterEpochEnd_def Let_def MintAndAllocateInflation_def)
qed


section \<open>The schedule\<close>

text \<open>A sequence of day epochs, numbered from \<open>n\<close>, with inflation on or off on each of them.\<close>

fun infl_days :: "'b chain_sdk \<Rightarrow> 'b mint_sdk \<Rightarrow> string \<Rightarrow> infl_params \<Rightarrow> bool list \<Rightarrow> 64 word \<Rightarrow> 'b infl_state \<Rightarrow>
    infl_error + 'b infl_state" where
  "infl_days E M fc p [] n s = Inr s"
| "infl_days E M fc p (on # days) n s =
     bindE (infl_AfterEpochEnd E M fc DayEpochID n (s\<lparr>i_Params := Some (p\<lparr>InflationEnabled := on\<rparr>)\<rparr>)) (\<lambda>s'.
     infl_days E M fc p days (n + 1) s')"

text \<open>The abstract schedule: the \<open>k\<close>-th minting (from 0) takes place in period \<open>(k - 1) div N\<close>, truncated at 0.\<close>

definition period_at :: "nat \<Rightarrow> nat \<Rightarrow> nat" where
  "period_at N k = (k - 1) div N"

definition total_minted :: "'b chain_sdk \<Rightarrow> 'b mint_sdk \<Rightarrow> infl_params \<Rightarrow> nat \<Rightarrow> nat \<Rightarrow> int" where
  "total_minted E M p k m = (\<Sum>i \<leftarrow> [k..<m]. minted E M p (of_nat (period_at (unat (EpochsPerPeriod p)) i)))"

lemma period_at_Suc:
  assumes "0 < N"
  shows "period_at N (Suc k) = (if N * Suc (period_at N k) < Suc k then Suc (period_at N k) else period_at N k)"
proof (cases k)
  case (Suc j)
  have "Suc j div N = (if Suc (j mod N) = N then Suc (j div N) else j div N)" by (simp add: div_Suc mod_Suc)
  moreover have "N * Suc (j div N) < Suc (Suc j) \<longleftrightarrow> Suc (j mod N) = N"
  proof -
    obtain q r where "j div N = q" "j mod N = r" "j = N * q + r" "r < N" using assms by (metis mult_div_mod_eq mod_less_divisor)
    then show ?thesis by auto
  qed
  ultimately show ?thesis by (simp add: period_at_def Suc)
qed (use assms in \<open>auto simp: period_at_def\<close>)

lemma period_at_le: "period_at N k * N \<le> k" and period_at_le': "0 < N \<Longrightarrow> period_at N k \<le> k"
proof -
  have "(k - 1) div N * N \<le> k - 1" by simp
  then show "period_at N k * N \<le> k" unfolding period_at_def by linarith
  have "(k - 1) div N \<le> k - 1" by simp
  then show "0 < N \<Longrightarrow> period_at N k \<le> k" unfolding period_at_def by linarith
qed

text \<open>The comparison of the code, in 64-bit arithmetic, is the comparison of the schedule.\<close>

lemma next_period_at:
  assumes "CurrentPeriod s = of_nat (period_at (unat (EpochsPerPeriod p)) k)" and "NumSkippedEpochs s = of_nat sk"
    and "EpochsPerPeriod p \<noteq> 0" and "unat (EpochsPerPeriod p) < 2 ^ 63" and "k + sk + 1 < 2 ^ 63"
  shows "next_period p (of_nat (Suc (k + sk))) s = of_nat (period_at (unat (EpochsPerPeriod p)) (Suc k))"
proof -
  let ?N = "unat (EpochsPerPeriod p)"
  have N: "0 < ?N" using assms(3) by (simp only: unat_gt_0 not_False_eq_True)
  have pk: "?N * period_at ?N k \<le> k" using period_at_le [of ?N k] by (simp add: mult.commute)
  have "of_nat (Suc (k + sk)) - EpochsPerPeriod p * CurrentPeriod s - NumSkippedEpochs s =
      of_nat (Suc k - ?N * period_at ?N k)"
  proof -
    have "EpochsPerPeriod p * CurrentPeriod s = of_nat (?N * period_at ?N k)" by (simp add: assms(1))
    moreover have "(of_nat (Suc (k + sk)) :: 64 word) = of_nat (Suc k - ?N * period_at ?N k) + of_nat (?N * period_at ?N k) + of_nat sk"
      using pk unfolding of_nat_add [symmetric] by simp
    moreover have "x = a + b + c \<Longrightarrow> x - b - c = a" for x a b c :: "64 word" by simp
    ultimately show ?thesis unfolding assms(2) by (simp only:)
  qed
  moreover have "unat (of_nat (Suc k - ?N * period_at ?N k) :: 64 word) = Suc k - ?N * period_at ?N k"
    using assms(5) by (subst unat_of_nat) (simp add: mod_less)
  ultimately have "sint (of_nat (Suc (k + sk)) - EpochsPerPeriod p * CurrentPeriod s - NumSkippedEpochs s) =
      int (Suc k - ?N * period_at ?N k)"
    using assms(5) sint_small [of "of_nat (Suc k - ?N * period_at ?N k)"] by simp
  then have "sint (EpochsPerPeriod p) < sint (of_nat (Suc (k + sk)) - EpochsPerPeriod p * CurrentPeriod s - NumSkippedEpochs s)
      \<longleftrightarrow> ?N * Suc (period_at ?N k) < Suc k"
    using sint_small [OF assms(4)] pk by (simp only: of_nat_less_iff) auto
  then show ?thesis by (simp add: next_period_def assms(1) period_at_Suc [OF N])
qed

lemma infl_days_schedule:
  assumes "dec_laws E" and "mint_laws E M pool" and "infl_accounts E fc pool" and "infl_Params_Validate p = Inr ()"
    and "unat (EpochsPerPeriod p) < 2 ^ 63" and "\<And>period. 0 < minted E M p period"
    and "CurrentPeriod s = of_nat (period_at (unat (EpochsPerPeriod p)) k)" and "NumSkippedEpochs s = of_nat sk"
    and "k + sk + length days < 2 ^ 63"
  shows "\<exists>s'. infl_days E M fc p days (of_nat (Suc (k + sk))) s = Inr s'
     \<and> NumSkippedEpochs s' = of_nat (sk + length (filter Not days))
     \<and> CurrentPeriod s' = of_nat (period_at (unat (EpochsPerPeriod p)) (k + length (filter (\<lambda>on. on) days)))
     \<and> GetSupply M (i_sdk s') NIBI = GetSupply M (i_sdk s) NIBI + total_minted E M p k (k + length (filter (\<lambda>on. on) days))"
  using assms(7-)
proof (induction days arbitrary: s k sk)
  case Nil
  then show ?case by (simp add: total_minted_def)
next
  case (Cons on days)
  let ?N = "unat (EpochsPerPeriod p)" and ?p = "p\<lparr>InflationEnabled := on\<rparr>"
  let ?s = "s\<lparr>i_Params := Some ?p\<rparr>"
  have same: "minted E M ?p = minted E M p" by (simp add: minted_def CalculateEpochMintProvision_def fun_eq_iff)
  show ?case
  proof (cases on)
    case False
    then have "infl_AfterEpochEnd E M fc DayEpochID (of_nat (Suc (k + sk))) ?s = Inr (?s\<lparr>NumSkippedEpochs := NumSkippedEpochs s + 1\<rparr>)"
      by (simp add: infl_AfterEpochEnd_def)
    moreover have "k + Suc sk + length days < 2 ^ 63" using Cons.prems(3) by simp
    ultimately show ?thesis
      using Cons.IH [of "?s\<lparr>NumSkippedEpochs := NumSkippedEpochs s + 1\<rparr>" k "Suc sk"] Cons.prems(1,2) False by (simp add: ac_simps)
  next
    case True
    have v: "infl_Params_Validate ?p = Inr ()" "InflationEnabled ?p" using assms(4) True by (simp_all add: Params_Validate_iff)
    have nz: "EpochsPerPeriod p \<noteq> 0" using assms(4) by (simp add: Params_Validate_iff)
    have m: "0 < minted E M ?p (CurrentPeriod ?s)" by (simp only: same assms(6))
    obtain s1 where s1: "infl_AfterEpochEnd E M fc DayEpochID (of_nat (Suc (k + sk))) ?s = Inr s1"
        "CurrentPeriod s1 = next_period ?p (of_nat (Suc (k + sk))) ?s" "NumSkippedEpochs s1 = NumSkippedEpochs s"
        "GetSupply M (i_sdk s1) NIBI = GetSupply M (i_sdk s) NIBI + minted E M p (CurrentPeriod s)"
      using day_mints [OF assms(1-3) _ v m, of "of_nat (Suc (k + sk))"] by (auto simp: same)
    have "next_period ?p (of_nat (Suc (k + sk))) ?s = next_period p (of_nat (Suc (k + sk))) s" by (simp add: next_period_def)
    then have c: "CurrentPeriod s1 = of_nat (period_at ?N (Suc k))"
      using s1(2) next_period_at [OF Cons.prems(1,2) nz assms(5)] Cons.prems(3) by simp
    have "Suc k + sk + length days < 2 ^ 63" using Cons.prems(3) by simp
    then obtain s' where s': "infl_days E M fc p days (of_nat (Suc (Suc k + sk))) s1 = Inr s'"
        "NumSkippedEpochs s' = of_nat (sk + length (filter Not days))"
        "CurrentPeriod s' = of_nat (period_at ?N (Suc k + length (filter (\<lambda>on. on) days)))"
        "GetSupply M (i_sdk s') NIBI = GetSupply M (i_sdk s1) NIBI + total_minted E M p (Suc k) (Suc k + length (filter (\<lambda>on. on) days))"
      using Cons.IH [OF c, of sk] s1(3) Cons.prems(2) by (metis (no_types, lifting))
    have "total_minted E M p k (k + Suc (length (filter (\<lambda>on. on) days))) =
        minted E M p (of_nat (period_at ?N k)) + total_minted E M p (Suc k) (Suc k + length (filter (\<lambda>on. on) days))"
      by (simp add: total_minted_def upt_conv_Cons [of k "Suc (k + length (filter (\<lambda>on. on) days))"] del: upt_Suc)
    then show ?thesis using s1 s' True Cons.prems(1) by (simp add: ac_simps)
  qed
qed

text \<open>C28: the schedule of inflation over any sequence of days on which it is switched on or off, starting from a new chain (period 0, no
  skipped epoch, day epochs numbered from 1): the hook never fails; the skipped epochs are the days it was off; the period depends only on the
  number of days it was on, and every period after the first lasts exactly \<open>EpochsPerPeriod\<close> mintings (the first lasts one more);
  the supply has grown by exactly the provisions of those periods.  The long-term provision is assumed to be at least one unit an epoch.\<close>

theorem inflation_schedule:
  assumes "dec_laws E" and "mint_laws E M pool" and "infl_accounts E fc pool" and "infl_Params_Validate p = Inr ()"
    and "unat (EpochsPerPeriod p) < 2 ^ 63" and "power_laws M"
    and "int (unat (EpochsPerPeriod p)) * PREC \<le> (ec_C (ExponentialCalculation p) - int (unat (EpochsPerPeriod p))) * DefaultPowerReduction"
    and "CurrentPeriod s = 0" and "NumSkippedEpochs s = 0" and "length days < 2 ^ 63"
  shows "\<exists>s'. infl_days E M fc p days 1 s = Inr s'
     \<and> NumSkippedEpochs s' = of_nat (length (filter Not days))
     \<and> CurrentPeriod s' = of_nat ((length (filter (\<lambda>on. on) days) - 1) div unat (EpochsPerPeriod p))
     \<and> GetSupply M (i_sdk s') NIBI = GetSupply M (i_sdk s) NIBI + total_minted E M p 0 (length (filter (\<lambda>on. on) days))"
proof -
  have z: "CurrentPeriod s = of_nat (period_at (unat (EpochsPerPeriod p)) 0)" "NumSkippedEpochs s = of_nat 0"
    using assms(8,9) by (simp_all add: period_at_def)
  show ?thesis using infl_days_schedule [OF assms(1-5) minted_pos [OF assms(1,6,4,5,7)] z, of days] assms(10) by (simp add: period_at_def)
qed


section \<open>Parameters, genesis and the timers of the chain\<close>

text \<open>The parameter store accepts zero epochs per period, which \<open>Params.Validate\<close> refuses, and then every day epoch does nothing:
  no minting and no skipped epoch is counted, with no error.\<close>

theorem zero_epochs_per_period_accepted:
  assumes "infl_Params_Validate p = Inr ()"
  shows "infl_Params_Validate (p\<lparr>EpochsPerPeriod := 0\<rparr>) = Inl NoEpochsPerPeriod
    \<and> (\<exists>s'. infl_SetParams (p\<lparr>EpochsPerPeriod := 0\<rparr>) s = Inr s'
         \<and> (InflationEnabled p \<longrightarrow> infl_AfterEpochEnd E M fc DayEpochID n s' = Inr s'))"
proof -
  have "check_pairs (infl_ParamSetPairs (p\<lparr>EpochsPerPeriod := 0\<rparr>)) = Inr ()"
    using assms by (auto simp: infl_ParamSetPairs_def infl_Params_Validate_def bindE_eq_Inr)
  then show ?thesis
    by (auto simp: infl_SetParams_def infl_Params_Validate_def infl_AfterEpochEnd_def CalculateEpochMintProvision_def)
qed

lemma hooks_idle:
  assumes "\<forall>e \<in> set es. Identifier e \<noteq> DayEpochID" and "beginEpochs [infl_Hooks E M fc] ctx es s = Inr s'"
  shows "hook_state s' = hook_state s"
  using assms
proof (induction es arbitrary: s)
  case (Cons e es)
  obtain s1 where s1: "beginEpoch [infl_Hooks E M fc] ctx e s = Inr s1" "beginEpochs [infl_Hooks E M fc] ctx es s1 = Inr s'"
    using Cons.prems(2) by (auto simp: bindE_eq_Inr)
  have "hook_state s1 = hook_state s" using s1(1) Cons.prems(1)
    by (auto simp: beginEpoch_def Let_def bindE_eq_Inr mapErr_eq_Inr infl_Hooks_def infl_AfterEpochEnd_def infl_BeforeEpochStart_def
        split: if_splits)
  then show ?case using Cons.IH [OF _ s1(2)] Cons.prems(1) by simp
qed simp

fun run_blocks :: "'h epoch_hooks list \<Rightarrow> block_ctx list \<Rightarrow> 'h epochs_state \<Rightarrow> epoch_error + 'h epochs_state" where
  "run_blocks hooks [] s = Inr s"
| "run_blocks hooks (ctx # ctxs) s = bindE (BeginBlocker hooks ctx s) (\<lambda>s'. run_blocks hooks ctxs s')"

lemma idle_blocks:
  assumes "run_blocks [infl_Hooks E M fc] ctxs s = Inr s'" and "epochs_keyed (Epochs s)" and "kv_get (Epochs s) DayEpochID = None"
  shows "hook_state s' = hook_state s"
  using assms
proof (induction ctxs arbitrary: s)
  case (Cons ctx ctxs)
  obtain s1 where s1: "BeginBlocker [infl_Hooks E M fc] ctx s = Inr s1" "run_blocks [infl_Hooks E M fc] ctxs s1 = Inr s'"
    using Cons.prems(1) by (auto simp: bindE_eq_Inr)
  have "Identifier e \<noteq> DayEpochID" if "e \<in> set (kv_values (Epochs s))" for e
  proof -
    obtain i where i: "(i, e) \<in> set (Epochs s)" using \<open>e \<in> set (kv_values (Epochs s))\<close> by auto
    have "kv_get (Epochs s) i = Some e" by (rule epochs_keyedD(4) [OF Cons.prems(2) i])
    then show ?thesis using epochs_keyedD(2) [OF Cons.prems(2)] Cons.prems(3) by force
  qed
  then have "hook_state s1 = hook_state s" using hooks_idle s1(1) unfolding BeginBlocker_def by blast
  then show ?case
    using Cons.IH [OF s1(2)] BeginBlocker_advances [OF s1(1) Cons.prems(2)] Cons.prems(3) by simp
qed simp

text \<open>C29: a chain that starts from the default genesis of the epochs module never mints: the default timers have no day epoch, so over
  any sequence of blocks the inflation module keeps its state.\<close>

theorem default_genesis_never_mints:
  assumes "epochs_InitGenesis ctx0 epochs_DefaultGenesis [] = Inr es" and "Epochs s = es"
    and "run_blocks [infl_Hooks E M fc] ctxs s = Inr s'"
  shows "hook_state s' = hook_state s"
proof (rule idle_blocks [OF assms(3)])
  have "es = map (\<lambda>e. (Identifier e, e\<lparr>StartTime := BlockTime ctx0, CurrentEpochStartHeight := BlockHeight ctx0\<rparr>)) epochs_DefaultGenesis"
    using assms(1) by (auto simp: epochs_DefaultGenesis_def AddEpochInfo_def EpochInfo_Validate_def EpochExists_def NewEpochInfo_def
        Let_def bindE_eq_Inr)
  then show "epochs_keyed (Epochs s)" "kv_get (Epochs s) DayEpochID = None"
    by (simp_all add: assms(2) epochs_keyed_def epochs_DefaultGenesis_def NewEpochInfo_def DayEpochID_def)
qed

end
