(* ===== verification/Spot_Bank.thy ===== *)
theory Spot_Bank
  imports Spot_Assets Inflation_Schedule
begin

text \<open>
  The contract of the bank that the spot module relies on, beyond the contract of the mint: transfers between accounts, burning,
  new module accounts, address formats and the arithmetic of coin sets.  The locale extends \<open>mint_bank\<close>.
\<close>

locale spot_bank = mint_bank bal all modAddr send mint fund circ distr
  for bal :: "'b \<Rightarrow> addr \<Rightarrow> denom \<Rightarrow> int" and all and modAddr and send and mint and fund and circ and distr +
  fixes sendA :: "'b \<Rightarrow> addr \<Rightarrow> addr \<Rightarrow> coin list \<Rightarrow> string + 'b"
    and m2a :: "'b \<Rightarrow> string \<Rightarrow> addr \<Rightarrow> coin list \<Rightarrow> string + 'b"
    and a2m :: "'b \<Rightarrow> addr \<Rightarrow> string \<Rightarrow> coin list \<Rightarrow> string + 'b"
    and burn :: "'b \<Rightarrow> string \<Rightarrow> coin list \<Rightarrow> string + 'b"
    and newacc :: "'b \<Rightarrow> string \<Rightarrow> 'b \<times> addr"
    and setmeta :: "'b \<Rightarrow> denom \<Rightarrow> denom \<Rightarrow> 'b"
    and encode :: "addr \<Rightarrow> string"
    and decode :: "string \<Rightarrow> addr option"
    and csub :: "coin list \<Rightarrow> coin list \<Rightarrow> coin list option"
    and newcoins :: "coin list \<Rightarrow> coin list option"
  assumes sendA_ok: "sendA b x y cs = Inr b' \<Longrightarrow> coins_valid cs \<and> bal b' = move_coins x y cs (bal b) \<and> circ b' = circ b"
    and m2a_ok: "m2a b m y cs = Inr b' \<Longrightarrow> coins_valid cs \<and> bal b' = move_coins (modAddr m) y cs (bal b) \<and> circ b' = circ b"
    and a2m_ok: "a2m b x m cs = Inr b' \<Longrightarrow> coins_valid cs \<and> bal b' = move_coins x (modAddr m) cs (bal b) \<and> circ b' = circ b"
    and burn_ok: "burn b m cs = Inr b' \<Longrightarrow>
      bal b' = (\<lambda>a d. bal b a d - (if a = modAddr m then AmountOf cs d else 0)) \<and> circ b' = (\<lambda>d. circ b d - AmountOf cs d)"
    and mint_checks: "mint b m cs = Inr b' \<Longrightarrow> coins_valid cs"
    and fund_checks: "fund b cs a = Inr b' \<Longrightarrow> coins_valid cs"
    and newacc_ok: "newacc b name = (b', a) \<Longrightarrow> a = modAddr name \<and> bal b' = bal b \<and> circ b' = circ b"
    and setmeta_ok: "bal (setmeta b base display) = bal b \<and> circ (setmeta b base display) = circ b"
    and modAddr_inj: "modAddr m = modAddr n \<Longrightarrow> m = n"
    and decode_encode: "decode (encode a) = Some a"
    and decode_empty: "decode [] = None"
    and csub_ok: "csub u v = Some z \<Longrightarrow> AmountOf z d = AmountOf u d - AmountOf v d \<and> (\<forall>c \<in> set z. 0 < Amount c)"
    and csub_Nil: "csub u [] = Some z \<Longrightarrow> z = filter (\<lambda>c. Amount c \<noteq> 0) u"
    and newcoins_ok: "newcoins u = Some z \<Longrightarrow> coins_valid z \<and> AmountOf z d = AmountOf u d"
begin

text \<open>Minting to an account and burning from an account.\<close>

lemma mint_to:
  assumes "mint b m cs = Inr b1" and "m2a b1 m x cs = Inr b2"
  shows "bal b2 = (\<lambda>a d. bal b a d + (if a = x then AmountOf cs d else 0))" and "circ b2 = (\<lambda>d. circ b d + AmountOf cs d)"
  using mint_ok [OF assms(1)] m2a_ok [OF assms(2)] by (auto simp: move_coins_def fun_eq_iff)

lemma burn_from:
  assumes "a2m b x m cs = Inr b1" and "burn b1 m cs = Inr b2"
  shows "bal b2 = (\<lambda>a d. bal b a d - (if a = x then AmountOf cs d else 0))" and "circ b2 = (\<lambda>d. circ b d - AmountOf cs d)"
  using a2m_ok [OF assms(1)] burn_ok [OF assms(2)] by (auto simp: move_coins_def fun_eq_iff)

end

definition spot_laws :: "'b chain_sdk \<Rightarrow> 'b spot_sdk \<Rightarrow> 'b mint_sdk \<Rightarrow> addr \<Rightarrow> bool" where
  "spot_laws E S M distr \<longleftrightarrow> spot_bank (GetBalance E) (GetAllBalances E) (GetModuleAddress E) (SendCoins_ModuleToModule E)
     (bank_MintCoins M) (FundCommunityPool M) (GetSupply M) distr (SendCoins S) (SendCoins_ModuleToAccount S)
     (SendCoins_AccountToModule S) (BurnCoins S) (NewModuleAccount S) (SetDenomMetaData S) (AccAddressString E)
     (AccAddressFromBech32 E) (Coins_Sub S) (NewCoins_of S)"

lemma spot_lawsD: "spot_laws E S M distr \<Longrightarrow>
    spot_bank (GetBalance E) (GetAllBalances E) (GetModuleAddress E) (SendCoins_ModuleToModule E)
     (bank_MintCoins M) (FundCommunityPool M) (GetSupply M) distr (SendCoins S) (SendCoins_ModuleToAccount S)
     (SendCoins_AccountToModule S) (BurnCoins S) (NewModuleAccount S) (SetDenomMetaData S) (AccAddressString E)
     (AccAddressFromBech32 E) (Coins_Sub S) (NewCoins_of S)"
  by (simp add: spot_laws_def)

lemma spot_laws_mint: "spot_laws E S M distr \<Longrightarrow> mint_laws E M distr"
  unfolding spot_laws_def mint_laws_def by (rule spot_bank.axioms(1))

lemma bankE_Inr: "bankE r s = Inr s' \<longleftrightarrow> (\<exists>b. r = Inr b \<and> s' = s\<lparr>s_sdk := b\<rparr>)"
  by (auto simp: bankE_def bindE_eq_Inr mapErr_eq_Inr)

lemma newCoin_Inr: "newCoin d n = Inr c \<longleftrightarrow> 0 \<le> n \<and> c = \<lparr>Denom = d, Amount = n\<rparr>"
  by (auto simp: newCoin_def)

lemma mintPoolShareToAccount_Inr:
  assumes "spot_laws E S M distr" and "mintPoolShareToAccount S M poolId x n s = Inr s'"
  shows "0 < n" and "\<exists>b. s' = s\<lparr>s_sdk := b\<rparr>
    \<and> GetBalance E b = (\<lambda>a d. GetBalance E (s_sdk s) a d + (if a = x \<and> d = GetPoolShareBaseDenom poolId then n else 0))
    \<and> GetSupply M b = (\<lambda>d. GetSupply M (s_sdk s) d + (if d = GetPoolShareBaseDenom poolId then n else 0))"
proof -
  let ?c = "\<lparr>Denom = GetPoolShareBaseDenom poolId, Amount = n\<rparr>"
  obtain b1 b2 where b: "bank_MintCoins M (s_sdk s) SpotModule [?c] = Inr b1" "SendCoins_ModuleToAccount S b1 SpotModule x [?c] = Inr b2"
      "s' = s\<lparr>s_sdk := b2\<rparr>"
    using assms(2) by (auto simp: mintPoolShareToAccount_def bindE_eq_Inr bankE_Inr newCoin_Inr)
  show "0 < n" using spot_bank.mint_checks [OF spot_lawsD [OF assms(1)] b(1)] by simp
  show "\<exists>b. s' = s\<lparr>s_sdk := b\<rparr>
    \<and> GetBalance E b = (\<lambda>a d. GetBalance E (s_sdk s) a d + (if a = x \<and> d = GetPoolShareBaseDenom poolId then n else 0))
    \<and> GetSupply M b = (\<lambda>d. GetSupply M (s_sdk s) d + (if d = GetPoolShareBaseDenom poolId then n else 0))"
    using spot_bank.mint_to [OF spot_lawsD [OF assms(1)] b(1,2)] b(3) by (intro exI [of _ b2]) (auto simp: fun_eq_iff)
qed

lemma burnPoolShareFromAccount_Inr:
  assumes "spot_laws E S M distr" and "burnPoolShareFromAccount S x c s = Inr s'"
  shows "\<exists>b. s' = s\<lparr>s_sdk := b\<rparr>
    \<and> GetBalance E b = (\<lambda>a d. GetBalance E (s_sdk s) a d - (if a = x \<and> d = Denom c then Amount c else 0))
    \<and> GetSupply M b = (\<lambda>d. GetSupply M (s_sdk s) d - (if d = Denom c then Amount c else 0))"
proof -
  obtain b1 b2 where b: "SendCoins_AccountToModule S (s_sdk s) x SpotModule [c] = Inr b1" "BurnCoins S b1 SpotModule [c] = Inr b2"
      "s' = s\<lparr>s_sdk := b2\<rparr>"
    using assms(2) by (auto simp: burnPoolShareFromAccount_def bindE_eq_Inr bankE_Inr)
  show ?thesis
    using spot_bank.burn_from [OF spot_lawsD [OF assms(1)] b(1,2)] b(3) by (intro exI [of _ b2]) (auto simp: fun_eq_iff)
qed

text \<open>The share denominations and the accounts of different pools differ.\<close>

lemma digits_inj: "digits m = digits n \<Longrightarrow> m = n"
  by (metis option.inject undigits_digits)

lemma digits_unat_inj: "digits (unat i) = digits (unat j) \<Longrightarrow> i = (j :: 64 word)"
  by (drule digits_inj) (rule unsigned_word_eqI, assumption)

lemma GetPoolShareBaseDenom_inj: "GetPoolShareBaseDenom i = GetPoolShareBaseDenom j \<longleftrightarrow> i = j"
  by (auto simp: GetPoolShareBaseDenom_def dest: digits_unat_inj)

definition pool_name :: "64 word \<Rightarrow> string" where
  "pool_name poolId = ''nibiru-pool-'' @ digits (unat poolId)"

definition pool_addr :: "'b chain_sdk \<Rightarrow> 64 word \<Rightarrow> addr" where
  "pool_addr E poolId = GetModuleAddress E (pool_name poolId)"

lemma pool_addr_inj: "spot_laws E S M distr \<Longrightarrow> pool_addr E i = pool_addr E j \<longleftrightarrow> i = j"
  by (auto simp: pool_addr_def pool_name_def dest!: spot_bank.modAddr_inj [OF spot_lawsD] dest: digits_unat_inj)

end
