(* ===== verification/Spot_Join.thy ===== *)
theory Spot_Join
  imports Spot_Bank
begin

text \<open>
  Joining a pool: the deposit that a join records is what it takes minus what it gives back, and nothing that is given back is
  negative.
\<close>

section \<open>Rounding\<close>

text \<open>\<open>QuoInt\<close> truncates towards zero.\<close>

definition quo_laws :: "'b spot_sdk \<Rightarrow> bool" where
  "quo_laws S \<longleftrightarrow> (\<forall>x n. n \<noteq> 0 \<longrightarrow> \<bar>x - dec_QuoInt S x n * n\<bar> < \<bar>n\<bar> \<and> \<bar>dec_QuoInt S x n * n\<bar> \<le> \<bar>x\<bar>)"

lemma quo_lawsD:
  assumes "quo_laws S" and "0 \<le> x" and "0 < n"
  shows "0 \<le> dec_QuoInt S x n" and "dec_QuoInt S x n * n \<le> x" and "x < dec_QuoInt S x n * n + n"
proof -
  let ?q = "dec_QuoInt S x n"
  have a: "\<bar>x - ?q * n\<bar> < \<bar>n\<bar>" "\<bar>?q * n\<bar> \<le> \<bar>x\<bar>" using assms(1,3) unfolding quo_laws_def by (metis less_irrefl)+
  show q: "0 \<le> ?q"
  proof (rule ccontr)
    assume "\<not> 0 \<le> ?q"
    then have "?q * n \<le> (-1) * n" using assms(3) by (intro mult_right_mono) simp_all
    then show False using a(1) assms(2,3) by simp
  qed
  have "0 \<le> ?q * n" using q assms(3) by simp
  then show "?q * n \<le> x" "x < ?q * n + n" using a assms(2,3) by simp_all
qed

lemma fold_min_le:
  "fold min xs a \<le> (a :: 'a :: linorder) \<and> (\<forall>x \<in> set xs. fold min xs a \<le> x)"
proof (induction xs arbitrary: a)
  case (Cons x xs)
  then show ?case using Cons [of "min x a"] by auto
qed simp

lemma fold_min_in: "fold min xs a = a \<or> fold min xs a \<in> set (xs :: 'a :: linorder list)"
proof (induction xs arbitrary: a)
  case (Cons x xs)
  then show ?case using Cons [of "min x a"] by (auto simp: min_def split: if_splits)
qed simp

lemma PoolBalances_amount:
  assumes "coinset_laws E"
  shows "AmountOf (PoolBalances E p) d = pool_amount p d" and "coins_sorted (PoolBalances E p)"
proof -
  let ?css = "map (\<lambda>a. [Token a]) (PoolAssets p)"
  have e: "PoolBalances E p = fold (\<lambda>c acc. Coins_Add E acc c) ?css []" by (simp add: PoolBalances_def fold_map o_def)
  have s: "\<forall>c \<in> set ?css. coins_sorted c" by simp
  note f = coin_sets.fold_add [OF coinset_lawsD [OF assms] s, of "[]"]
  show "coins_sorted (PoolBalances E p)" unfolding e by (rule f) simp
  have "sum_list (map (\<lambda>c. AmountOf c d) ?css) = AmountOf (map Token as) d" if "as = PoolAssets p" for as
    unfolding that [symmetric] by (induction as) simp_all
  then show "AmountOf (PoolBalances E p) d = pool_amount p d" unfolding e using f(2) [of d] by (simp add: pool_amount_def)
qed

lemma share_ratios_zip:
  assumes "share_ratios S L cs = Inr rs"
  shows "length rs = length cs \<and> (\<forall>(c, r) \<in> set (zip cs rs).
    AmountOf L (Denom c) \<noteq> 0 \<and> r = dec_QuoInt S (NewDec (Amount c)) (AmountOf L (Denom c)))"
  using assms
proof (induction cs arbitrary: rs)
  case (Cons c cs)
  then obtain r rs' where "rs = r # rs'" "share_ratios S L cs = Inr rs'" "AmountOf L (Denom c) \<noteq> 0"
      "r = dec_QuoInt S (NewDec (Amount c)) (AmountOf L (Denom c))"
    by (auto simp: bindE_eq_Inr decQuoInt_def split: if_splits)
  then show ?case using Cons.IH [of rs'] by simp
qed simp

lemma zipped_ratios:
  assumes "quo_laws S" and "\<And>d. 0 \<le> AmountOf L d" and "share_ratios S L cs = Inr rs" and "\<forall>c \<in> set cs. 0 \<le> Amount c"
  shows "\<forall>(c, r) \<in> set (zip cs rs). fold min rs MaxSortableDec \<le> r \<and> 0 \<le> AmountOf L (Denom c) \<and> r * AmountOf L (Denom c) \<le> Amount c * PREC"
proof (intro ballI, clarify)
  fix c r assume z: "(c, r) \<in> set (zip cs rs)"
  have "0 < AmountOf L (Denom c)" "r = dec_QuoInt S (NewDec (Amount c)) (AmountOf L (Denom c))"
    using share_ratios_zip [OF assms(3)] z assms(2) [of "Denom c"] by force+
  moreover have "0 \<le> NewDec (Amount c)" using assms(4) set_zip_leftD [OF z] by (simp add: NewDec_def)
  ultimately have "r * AmountOf L (Denom c) \<le> Amount c * PREC" using quo_lawsD(2) [OF assms(1)] by (simp add: NewDec_def)
  then show "fold min rs MaxSortableDec \<le> r \<and> 0 \<le> AmountOf L (Denom c) \<and> r * AmountOf L (Denom c) \<le> Amount c * PREC"
    using fold_min_le [of rs MaxSortableDec] set_zip_rightD [OF z] assms(2) by simp
qed

lemma zipped_min:
  assumes "quo_laws S" and "\<And>d. 0 \<le> AmountOf L d" and "share_ratios S L cs = Inr rs" and "\<forall>c \<in> set cs. 0 \<le> Amount c"
  shows "0 \<le> fold min rs MaxSortableDec"
proof -
  have "0 \<le> r" if r: "r \<in> set rs" for r
  proof -
    have "length cs = length rs" using share_ratios_zip [OF assms(3)] by simp
    then obtain c where z: "(c, r) \<in> set (zip cs rs)" using r by (rule in_set_impl_in_set_zip2)
    then have "0 < AmountOf L (Denom c)" "r = dec_QuoInt S (NewDec (Amount c)) (AmountOf L (Denom c))"
      using share_ratios_zip [OF assms(3)] assms(2) [of "Denom c"] by force+
    moreover have "0 \<le> NewDec (Amount c)" using assms(4) set_zip_leftD [OF z] by (simp add: NewDec_def)
    ultimately show ?thesis using quo_lawsD(1) [OF assms(1)] by simp
  qed
  then show ?thesis using fold_min_in [of rs MaxSortableDec] by (auto simp: MaxSortableDec_def)
qed

lemma coins_sorted_entries:
  assumes "coins_sorted cs" and "\<forall>d. 0 \<le> AmountOf cs d"
  shows "\<forall>c \<in> set cs. 0 \<le> Amount c"
  using assms AmountOf_member by (metis strict_sorted_iff)

lemma rem_coins_nonneg:
  assumes "dec_laws E" and "coinset_laws E" and "coins_sorted acc" and "\<forall>d. 0 \<le> AmountOf acc d"
    and "\<forall>(c, r) \<in> set zs. m \<le> r \<and> 0 \<le> AmountOf L (Denom c) \<and> r * AmountOf L (Denom c) \<le> Amount c * PREC"
  shows "coins_sorted (rem_coins E L m zs acc) \<and> (\<forall>d. 0 \<le> AmountOf (rem_coins E L m zs acc) d)"
  using assms(3-5)
proof (induction zs arbitrary: acc)
  case (Cons z zs)
  obtain c r where z: "z = (c, r)" by (cases z)
  let ?u = "dec_TruncateInt E (dec_Ceil E (m * AmountOf L (Denom c)))"
  let ?acc = "if r = m then acc else if Amount c - ?u = 0 then acc else Coins_Add E acc [\<lparr>Denom = Denom c, Amount = Amount c - ?u\<rparr>]"
  have "m * AmountOf L (Denom c) \<le> r * AmountOf L (Denom c)" using Cons.prems(3) z by (intro mult_right_mono) auto
  also have "\<dots> \<le> Amount c * PREC" using Cons.prems(3) z by auto
  finally have "?u * PREC < (Amount c + 1) * PREC"
    using sdk_decimal.ceil_truncInt(2) [OF dec_lawsD [OF assms(1)], of "m * AmountOf L (Denom c)"] by (simp add: algebra_simps)
  then have u: "?u \<le> Amount c" by simp
  have "coins_sorted ?acc \<and> (\<forall>d. 0 \<le> AmountOf ?acc d)"
    using Cons.prems(1,2) u coin_sets.add_coins [OF coinset_lawsD [OF assms(2)], of acc "[\<lparr>Denom = Denom c, Amount = Amount c - ?u\<rparr>]"] by simp
  then have "coins_sorted (rem_coins E L m zs ?acc) \<and> (\<forall>d. 0 \<le> AmountOf (rem_coins E L m zs ?acc) d)"
    using Cons.IH [of ?acc] Cons.prems(3) by simp
  then show ?case by (auto simp add: z Let_def split: if_splits)
qed simp

lemma numSharesOutFromTokensIn_rem:
  assumes "dec_laws E" and "coinset_laws E" and "quo_laws S" and "assets_ok (PoolAssets p)"
    and "\<forall>c \<in> set cs. 0 \<le> Amount c" and "numSharesOutFromTokensIn E S p cs = Inr (n, rem)"
  shows "\<forall>c \<in> set rem. 0 \<le> Amount c"
proof -
  let ?L = "PoolBalances E p"
  have L: "0 \<le> AmountOf ?L d" for d
  proof -
    have "0 \<le> sum_list (map (\<lambda>c. if Denom c = d then Amount c else 0) (map Token (PoolAssets p)))"
      using assms(4) by (intro sum_list_nonneg) (auto simp: assets_ok_def)
    then have "0 \<le> pool_amount p d" unfolding pool_amount_def AmountOf_def .
    then show ?thesis by (simp only: PoolBalances_amount(1) [OF assms(2)])
  qed
  show ?thesis
  proof (cases "length cs = 1")
    case True
    then have "rem = []" using assms(6) by (auto simp: numSharesOutFromTokensIn_def numSharesSingle_def bindE_eq_Inr Let_def)
    then show ?thesis by simp
  next
    case False
    obtain rs where rs: "share_ratios S ?L cs = Inr rs"
      using assms(6) False by (auto simp: numSharesOutFromTokensIn_def bindE_eq_Inr Let_def)
    let ?m = "fold min rs MaxSortableDec"
    have "coins_sorted (rem_coins E ?L ?m (zip cs rs) []) \<and> (\<forall>d. 0 \<le> AmountOf (rem_coins E ?L ?m (zip cs rs) []) d)"
      using zipped_ratios [OF assms(3) L rs assms(5)] by (intro rem_coins_nonneg [OF assms(1,2)]) auto
    then have "\<forall>c \<in> set (rem_coins E ?L ?m (zip cs rs) []). 0 \<le> Amount c" by (intro coins_sorted_entries) auto
    then show ?thesis using assms(5,6) rs False
      by (auto simp: numSharesOutFromTokensIn_def Let_def split: if_splits)
  qed
qed


section \<open>What a join records\<close>

definition pool_joined :: "spot_pool \<Rightarrow> (denom \<Rightarrow> int) \<Rightarrow> int \<Rightarrow> spot_pool \<Rightarrow> bool" where
  "pool_joined p \<delta> n q \<longleftrightarrow> pool_moved p \<delta> (q\<lparr>TotalShares := TotalShares p\<rparr>)
     \<and> TotalShares q = (TotalShares p)\<lparr>Amount := Amount (TotalShares p) + n\<rparr>"

lemma pool_amount_shares [simp]: "pool_amount (p\<lparr>TotalShares := t\<rparr>) d = pool_amount p d"
  by (simp add: pool_amount_def)

lemma pool_moved_shares: "pool_moved p \<delta> q \<Longrightarrow> pool_moved (p\<lparr>TotalShares := t\<rparr>) \<delta> (q\<lparr>TotalShares := t\<rparr>)"
  unfolding pool_moved_def by (cases p, cases q) (auto simp: pool_amount_def)

lemma pool_joined_trans:
  assumes "pool_joined p \<delta> n q" and "pool_joined q \<epsilon> m r"
  shows "pool_joined p (\<lambda>d. \<delta> d + \<epsilon> d) (n + m) r"
proof -
  have "pool_moved (q\<lparr>TotalShares := TotalShares p\<rparr>) \<epsilon> (r\<lparr>TotalShares := TotalShares p\<rparr>)"
    using pool_moved_shares [of q \<epsilon> "r\<lparr>TotalShares := TotalShares q\<rparr>" "TotalShares p"] assms(2) by (simp add: pool_joined_def)
  then show ?thesis using assms pool_moved_trans by (auto simp: pool_joined_def)
qed

lemma pool_joinedD:
  assumes "pool_joined p \<delta> n q"
  shows "assets_ok (PoolAssets q)" and "pool_amount q d = pool_amount p d + \<delta> d"
    and "length (PoolAssets q) = length (PoolAssets p)" and "map asset_denom (PoolAssets q) = map asset_denom (PoolAssets p)"
    and "pool_Id q = pool_Id p" "pool_Address q = pool_Address p" "PoolParams q = PoolParams p"
    and "Denom (TotalShares q) = Denom (TotalShares p)" "Amount (TotalShares q) = Amount (TotalShares p) + n"
  using assms pool_movedD [of p \<delta> "q\<lparr>TotalShares := TotalShares p\<rparr>"] by (simp_all add: pool_joined_def)

lemma incrementBalances_joined:
  assumes "assets_ok (PoolAssets p)" and "\<forall>c \<in> set cs. 0 \<le> Amount c" and "incrementBalances n cs p = Inr q"
  shows "pool_joined p (AmountOf cs) n q"
proof -
  obtain q0 where q0: "add_liquidity cs p = Inr q0" and q: "q = q0\<lparr>TotalShares := (TotalShares q0)\<lparr>Amount := Amount (TotalShares q0) + n\<rparr>\<rparr>"
    using assms(3) by (auto simp: incrementBalances_def bindE_eq_Inr)
  note m = add_liquidity_moves [OF assms(1,2) q0]
  have "q\<lparr>TotalShares := TotalShares p\<rparr> = q0" using pool_movedD(8) [OF m] q by (cases q0) simp
  then have "pool_moved p (AmountOf cs) (q\<lparr>TotalShares := TotalShares p\<rparr>)" using m by (simp only:)
  then show ?thesis unfolding pool_joined_def using pool_movedD(8) [OF m] q by (intro conjI) simp_all
qed

lemma AmountOf_coins_Sort: "AmountOf (coins_Sort cs) d = AmountOf cs d"
  using sum_mset_sum_list [of "map (\<lambda>c. if Denom c = d then Amount c else 0) (sort_key Denom cs)"]
    sum_mset_sum_list [of "map (\<lambda>c. if Denom c = d then Amount c else 0) cs"] by (simp add: coins_Sort_def AmountOf_def)

lemma AddTokensToPool_joined:
  assumes "spot_laws E S M distr" and "assets_ok (PoolAssets p)" and "AddTokensToPool E S cs p = Inr (q, n, rem)"
  obtains z where "Coins_Sub S (coins_Sort cs) rem = Some z" and "pool_joined p (AmountOf z) n q"
    and "AmountOf z = (\<lambda>d. AmountOf cs d - AmountOf rem d)"
proof -
  obtain z where z: "Coins_Sub S (coins_Sort cs) rem = Some z" and i: "incrementBalances n z p = Inr q"
    using assms(3) by (auto simp: AddTokensToPool_def bindE_eq_Inr Let_def coinsSub_def getE_eq_Inr)
  note c = spot_bank.csub_ok [OF spot_lawsD [OF assms(1)] z]
  have "AmountOf z = (\<lambda>d. AmountOf cs d - AmountOf rem d)" using c by (auto simp: fun_eq_iff AmountOf_coins_Sort)
  moreover have "\<forall>c \<in> set z. 0 \<le> Amount c" using c by force
  ultimately show thesis using that z incrementBalances_joined [OF assms(2) _ i] by simp
qed

lemma AddTokensToPool_rem:
  assumes "dec_laws E" and "coinset_laws E" and "quo_laws S" and "assets_ok (PoolAssets p)" and "\<forall>c \<in> set cs. 0 \<le> Amount c"
    and "AddTokensToPool E S cs p = Inr (q, n, rem)"
  shows "\<forall>c \<in> set rem. 0 \<le> Amount c"
  using assms(6) numSharesOutFromTokensIn_rem [OF assms(1-5)]
  by (auto simp: AddTokensToPool_def bindE_eq_Inr Let_def coins_Sort_def split: if_splits)

lemma AmountOf_nonneg: "\<forall>c \<in> set cs. 0 \<le> Amount c \<Longrightarrow> 0 \<le> AmountOf cs d"
  unfolding AmountOf_def by (rule sum_list_nonneg) auto

lemma AddAllTokensToPool_joined:
  assumes "spot_laws E S M distr" and "dec_laws E" and "coinset_laws E" and "quo_laws S" and "assets_ok (PoolAssets p)"
    and "\<forall>c \<in> set cs. 0 \<le> Amount c" and "AddAllTokensToPool E S cs p = Inr (q, n, rem)"
  shows "\<exists>\<delta>. pool_joined p \<delta> n q \<and> (\<forall>d. \<delta> d \<le> AmountOf cs d)"
proof -
  let ?first = "if 1 < length cs then AddTokensToPool E S cs p else Inr (p, 0, cs)"
  obtain p1 n1 r1 where f: "?first = Inr (p1, n1, r1)"
    and g: "(if r1 = [] then Inr (p1, n1, r1) else bindE (AddTokensToPool E S r1 p1) (\<lambda>(pool2, k, _). Inr (pool2, k + n1, []))) = Inr (q, n, rem)"
    using assms(7) by (auto simp: AddAllTokensToPool_def bindE_eq_Inr split: if_splits)
  have one: "pool_joined p (\<lambda>d. AmountOf cs d - AmountOf r1 d) n1 p1 \<and> (\<forall>c \<in> set r1. 0 \<le> Amount c)"
  proof (cases "1 < length cs")
    case True
    then have a: "AddTokensToPool E S cs p = Inr (p1, n1, r1)" using f by simp
    from AddTokensToPool_joined [OF assms(1,5) a] AddTokensToPool_rem [OF assms(2-6) a] show ?thesis by metis
  next
    case False
    then show ?thesis using f assms(5,6) pool_moved_refl [OF assms(5)] by (simp add: pool_joined_def)
  qed
  show ?thesis
  proof (cases "r1 = []")
    case True
    then show ?thesis using one g by (intro exI [of _ "AmountOf cs"]) simp
  next
    case False
    then obtain k r2 where a: "AddTokensToPool E S r1 p1 = Inr (q, k, r2)" "n = k + n1"
      using g by (auto simp: bindE_eq_Inr)
    have ok: "assets_ok (PoolAssets p1)" using one pool_joinedD(1) by blast
    have two: "pool_joined p1 (\<lambda>d. AmountOf r1 d - AmountOf r2 d) k q" using AddTokensToPool_joined [OF assms(1) ok a(1)] by metis
    have r2: "\<forall>c \<in> set r2. 0 \<le> Amount c" using AddTokensToPool_rem [OF assms(2-4) ok _ a(1)] one by blast
    show ?thesis
      using pool_joined_trans [OF conjunct1 [OF one] two] a(2) AmountOf_nonneg [OF r2]
      by (intro exI [of _ "\<lambda>d. AmountOf cs d - AmountOf r2 d"]) (simp add: add.commute)
  qed
qed

end
