(* ===== verification/Spot_Invariant.thy ===== *)
theory Spot_Invariant
  imports Spot_Join
begin

text \<open>
  The invariant of the spot module: every stored pool has two assets in order, its recorded amounts are covered by the balance of its
  own account, and its total of shares is the supply of its share token.  Every message keeps it.
\<close>

section \<open>The invariant\<close>

definition fees_ok :: "pool_params \<Rightarrow> bool" where
  "fees_ok params \<longleftrightarrow> 0 \<le> SwapFee params \<and> SwapFee params \<le> OneDec \<and> 0 \<le> ExitFee params \<and> ExitFee params \<le> OneDec"

definition pool_wf :: "'b chain_sdk \<Rightarrow> spot_pool \<Rightarrow> bool" where
  "pool_wf E p \<longleftrightarrow> length (PoolAssets p) = 2 \<and> assets_ok (PoolAssets p) \<and> 0 \<le> Amount (TotalShares p)
     \<and> Denom (TotalShares p) = GetPoolShareBaseDenom (pool_Id p) \<and> fees_ok (PoolParams p)
     \<and> AccAddressFromBech32 E (pool_Address p) = Some (pool_addr E (pool_Id p))"

definition pool_backed :: "'b chain_sdk \<Rightarrow> 'b mint_sdk \<Rightarrow> 'b \<Rightarrow> spot_pool \<Rightarrow> bool" where
  "pool_backed E M b p \<longleftrightarrow> (\<forall>d. pool_amount p d \<le> GetBalance E b (pool_addr E (pool_Id p)) d)
     \<and> GetSupply M b (GetPoolShareBaseDenom (pool_Id p)) = Amount (TotalShares p)"

definition spot_inv :: "'b chain_sdk \<Rightarrow> 'b mint_sdk \<Rightarrow> 'b spot_state \<Rightarrow> bool" where
  "spot_inv E M s \<longleftrightarrow>
     (\<forall>i p. kv_get (Pools s) i = Some p \<longrightarrow> pool_Id p = i \<and> pool_wf E p \<and> pool_backed E M (s_sdk s) p
       \<and> (\<forall>n. NextPoolNumber s = Some n \<longrightarrow> i < n)) \<and>
     (\<forall>n i. NextPoolNumber s = Some n \<longrightarrow> n \<le> i \<longrightarrow> GetSupply M (s_sdk s) (GetPoolShareBaseDenom i) = 0)"

lemma spot_invD:
  assumes "spot_inv E M s" and "kv_get (Pools s) i = Some p"
  shows "pool_Id p = i" and "pool_wf E p" and "pool_backed E M (s_sdk s) p" and "NextPoolNumber s = Some n \<Longrightarrow> i < n"
  using assms by (auto simp: spot_inv_def)

text \<open>A step that stores one pool again and leaves the accounts and shares of all others alone.\<close>

lemma spot_inv_step:
  assumes inv: "spot_inv E M s" and old: "kv_get (Pools s) i = Some p" and q: "pool_Id q = i" "pool_wf E q" "pool_backed E M (s_sdk s') q"
    and s': "Pools s' = kv_insert i q (Pools s)" "NextPoolNumber s' = NextPoolNumber s"
    and frame: "\<And>j d. j \<noteq> i \<Longrightarrow> GetBalance E (s_sdk s) (pool_addr E j) d \<le> GetBalance E (s_sdk s') (pool_addr E j) d"
      "\<And>j. j \<noteq> i \<Longrightarrow> GetSupply M (s_sdk s') (GetPoolShareBaseDenom j) = GetSupply M (s_sdk s) (GetPoolShareBaseDenom j)"
  shows "spot_inv E M s'"
  unfolding spot_inv_def
proof (intro conjI allI impI)
  fix j r assume j: "kv_get (Pools s') j = Some r"
  show "pool_Id r = j"
    using j q(1) spot_invD(1) [OF inv, of j r] by (auto simp: s'(1) split: if_splits)
  show "pool_wf E r" using j q(2) spot_invD(2) [OF inv, of j r] by (auto simp: s'(1) split: if_splits)
  show "pool_backed E M (s_sdk s') r"
  proof (cases "j = i")
    case True then show ?thesis using j q(3) s'(1) by simp
  next
    case False
    then have r: "kv_get (Pools s) j = Some r" using j s'(1) by simp
    show ?thesis using spot_invD(1,3) [OF inv r] frame(1) [OF False] frame(2) [OF False]
      by (auto simp: pool_backed_def intro: order_trans)
  qed
  show "j < n" if "NextPoolNumber s' = Some n" for n
    using j that s' spot_invD(4) [OF inv, of j r n] spot_invD(4) [OF inv old, of n] by (auto split: if_splits)
next
  fix n j assume n: "NextPoolNumber s' = Some n" "n \<le> j"
  then have "j \<noteq> i" using spot_invD(4) [OF inv old, of n] s'(2) by auto
  then show "GetSupply M (s_sdk s') (GetPoolShareBaseDenom j) = 0" using frame(2) inv n s'(2) by (simp add: spot_inv_def)
qed

lemma SetPool_Inr:
  assumes "SetPool q s = Inr s'"
  shows "Pools s' = kv_insert (pool_Id q) q (Pools s)" and "NextPoolNumber s' = NextPoolNumber s" and "s_sdk s' = s_sdk s"
  using assms by (auto simp: SetPool_def SetPoolIdByDenom_def split: list.splits)

lemma RecordTotalLiquidityIncrease_keeps [simp]:
  "Pools (RecordTotalLiquidityIncrease cs s) = Pools s"
  "NextPoolNumber (RecordTotalLiquidityIncrease cs s) = NextPoolNumber s"
  "s_sdk (RecordTotalLiquidityIncrease cs s) = s_sdk s"
  unfolding RecordTotalLiquidityIncrease_def by (induction cs arbitrary: s) (simp_all add: SetDenomLiquidity_def)

lemma RecordTotalLiquidityDecrease_keeps [simp]:
  "Pools (RecordTotalLiquidityDecrease cs s) = Pools s"
  "NextPoolNumber (RecordTotalLiquidityDecrease cs s) = NextPoolNumber s"
  "s_sdk (RecordTotalLiquidityDecrease cs s) = s_sdk s"
  unfolding RecordTotalLiquidityDecrease_def by (induction cs arbitrary: s) (simp_all add: SetDenomLiquidity_def)

definition not_pool_account :: "'b chain_sdk \<Rightarrow> addr \<Rightarrow> bool" where
  "not_pool_account E a \<longleftrightarrow> (\<forall>i. a \<noteq> pool_addr E i)"

lemma GetAddress_pool: "pool_wf E p \<Longrightarrow> GetAddress E p = Inr (pool_addr E (pool_Id p))"
  by (simp add: pool_wf_def GetAddress_def)


section \<open>Joining\<close>

lemma JoinPool_records:
  assumes "spot_laws E S M distr" and "dec_laws E" and "coinset_laws E" and "quo_laws S" and "assets_ok (PoolAssets p)"
    and add: "(if \<not> swp \<or> PoolType (PoolParams p) = STABLESWAP then AddTokensToPool E S cs p
             else AddAllTokensToPool E S cs p) = Inr (q, n, rem)"
    and z: "Coins_Sub S (coins_Sort cs) rem = Some z" and v: "coins_valid z"
  shows "\<exists>\<delta>. pool_joined p \<delta> n q \<and> (\<forall>d. \<delta> d \<le> AmountOf z d)"
proof (cases "\<not> swp \<or> PoolType (PoolParams p) = STABLESWAP")
  case True
  then have a: "AddTokensToPool E S cs p = Inr (q, n, rem)" using add by simp
  show ?thesis using AddTokensToPool_joined [OF assms(1,5) a] z by (metis option.inject order_refl)
next
  case False
  then have a: "AddAllTokensToPool E S cs p = Inr (q, n, rem)" using add by simp
  have "rem = []" using a by (auto simp: AddAllTokensToPool_def bindE_eq_Inr split: if_splits)
  then have zc: "z = filter (\<lambda>c. Amount c \<noteq> 0) (coins_Sort cs)" using spot_bank.csub_Nil [OF spot_lawsD [OF assms(1)]] z by simp
  have nn: "0 \<le> Amount c" if "c \<in> set cs" for c
  proof (cases "Amount c = 0")
    case False
    then have "c \<in> set z" using that by (simp add: zc coins_Sort_def)
    then show ?thesis using v by (auto simp: coins_valid_def)
  qed simp
  have "AmountOf z d = AmountOf cs d" for d
    using spot_bank.csub_ok [OF spot_lawsD [OF assms(1)] z] \<open>rem = []\<close> by (simp add: AmountOf_coins_Sort)
  then show ?thesis using AddAllTokensToPool_joined [OF assms(1-5) _ a] nn by auto
qed

lemma read_pool_cases: "kv_get (Pools s) i = Some (read_pool s i) \<or> read_pool s i = zero_pool"
  by (auto simp: read_pool_def split: option.splits)

lemma JoinPool_keeps_inv:
  assumes L: "spot_laws E S M distr" "dec_laws E" "coinset_laws E" "quo_laws S" and inv: "spot_inv E M s"
    and x: "not_pool_account E x" and j: "JoinPool E S M x i cs swp s = Inr (s', r)"
  shows "spot_inv E M s'"
proof -
  define p where "p = read_pool s i"
  obtain a q n rem z s1 s2 s3 where
      a: "GetAddress E p = Inr a" and
      add: "(if \<not> swp \<or> PoolType (PoolParams p) = STABLESWAP then AddTokensToPool E S cs p
             else AddAllTokensToPool E S cs p) = Inr (q, n, rem)" and
      z: "Coins_Sub S (coins_Sort cs) rem = Some z" and
      s1: "bankE (SendCoins S (s_sdk s) x a z) s = Inr s1" and
      s2: "mintPoolShareToAccount S M (pool_Id q) x n s1 = Inr s2" and
      s3: "SetPool q s2 = Inr s3" and
      s': "Pools s' = Pools s3" "NextPoolNumber s' = NextPoolNumber s3" "s_sdk s' = s_sdk s3"
    using j by (auto simp: JoinPool_def Let_def bindE_eq_Inr coinsSub_def getE_eq_Inr p_def [symmetric] split: if_splits)
  have "p \<noteq> zero_pool"
    using a spot_bank.decode_empty [OF spot_lawsD [OF L(1)]] by (auto simp: GetAddress_def zero_pool_def)
  then have old: "kv_get (Pools s) i = Some p" using read_pool_cases [of s i] by (auto simp: p_def)
  note p = spot_invD [OF inv old]
  have ad: "a = pool_addr E i" using a GetAddress_pool [OF p(2)] p(1) by simp
  obtain b1 where b1: "SendCoins S (s_sdk s) x a z = Inr b1" "s1 = s\<lparr>s_sdk := b1\<rparr>" using s1 by (auto simp: bankE_Inr)
  note send = spot_bank.sendA_ok [OF spot_lawsD [OF L(1)] b1(1)]
  obtain \<delta> where d: "pool_joined p \<delta> n q" "\<And>d. \<delta> d \<le> AmountOf z d"
    using JoinPool_records [OF L _ add z] p(2) send by (auto simp: pool_wf_def)
  note jd = pool_joinedD [OF d(1)]
  obtain b2 where b2: "s2 = s1\<lparr>s_sdk := b2\<rparr>"
      "GetBalance E b2 = (\<lambda>y d. GetBalance E (s_sdk s1) y d + (if y = x \<and> d = GetPoolShareBaseDenom (pool_Id q) then n else 0))"
      "GetSupply M b2 = (\<lambda>d. GetSupply M (s_sdk s1) d + (if d = GetPoolShareBaseDenom (pool_Id q) then n else 0))"
    using mintPoolShareToAccount_Inr(2) [OF L(1) s2] by auto
  have np: "pool_addr E k \<noteq> x" for k using x by (auto simp: not_pool_account_def)
  have bal: "GetBalance E b2 (pool_addr E k) d = GetBalance E (s_sdk s) (pool_addr E k) d + (if k = i then AmountOf z d else 0)" for k d
    using b2(2) b1 send np pool_addr_inj [OF L(1)] by (simp add: move_coins_def ad)
  have sup: "GetSupply M b2 (GetPoolShareBaseDenom k) = GetSupply M (s_sdk s) (GetPoolShareBaseDenom k) + (if k = i then n else 0)" for k
    using b2(3) b1 send p(1) jd(5) by (simp add: GetPoolShareBaseDenom_inj)
  have sd: "s_sdk s' = b2" using s' SetPool_Inr(3) [OF s3] b2(1) by simp
  have wf: "pool_wf E q" using p(2) jd mintPoolShareToAccount_Inr(1) [OF L(1) s2] by (simp add: pool_wf_def)
  have "pool_backed E M b2 q"
    using p(3) p(1) jd(2,5,9) d(2) bal sup by (auto simp: pool_backed_def intro: add_mono)
  then show ?thesis
    using spot_inv_step [OF inv old _ wf, of s'] jd(5) p(1) SetPool_Inr(1,2) [OF s3] s' b1(2) b2(1) bal sup sd by simp
qed


section \<open>Exiting\<close>

lemma types_ExitPool_moves:
  assumes "assets_ok (PoolAssets p)" and "types_ExitPool E S n p = Inr (q, cs, fees)"
  shows "pool_joined p (\<lambda>d. - AmountOf cs d) (- n) q" and "coins_valid cs" and "n \<le> Amount (TotalShares p)"
proof -
  obtain q0 where c: "n \<le> Amount (TotalShares p)" "coins_valid cs" and q0: "subtract_all cs p = Inr q0"
    and q: "q = q0\<lparr>TotalShares := \<lparr>Denom = Denom (TotalShares q0), Amount = Amount (TotalShares q0) - n\<rparr>\<rparr>"
    using assms(2) by (auto simp: types_ExitPool_def bindE_eq_Inr newCoin_Inr split: if_splits)
  show "coins_valid cs" "n \<le> Amount (TotalShares p)" by (fact c)+
  note m = subtract_all_moves [OF assms(1) q0]
  have "q\<lparr>TotalShares := TotalShares p\<rparr> = q0" using pool_movedD(8) [OF m] q by (cases q0) simp
  then have "pool_moved p (\<lambda>d. - AmountOf cs d) (q\<lparr>TotalShares := TotalShares p\<rparr>)" using m by (simp only:)
  moreover have "TotalShares q = (TotalShares p)\<lparr>Amount := Amount (TotalShares p) + - n\<rparr>"
    using pool_movedD(8) [OF m] q by (cases "TotalShares p") simp
  ultimately show "pool_joined p (\<lambda>d. - AmountOf cs d) (- n) q" unfolding pool_joined_def by blast
qed

lemma ExitPool_keeps_inv:
  assumes L: "spot_laws E S M distr" and inv: "spot_inv E M s"
    and x: "not_pool_account E x" and e: "ExitPool E S x i c s = Inr (s', r)"
  shows "spot_inv E M s'"
proof -
  define p where "p = read_pool s i"
  obtain q cs fees a s1 s2 s3 where
      c: "Denom c = Denom (TotalShares p)" "PoolAssets p \<noteq> []" "Amount c \<le> Amount (TotalShares p)" and
      t: "types_ExitPool E S (Amount c) p = Inr (q, cs, fees)" and
      a: "GetAddress E q = Inr a" and
      s1: "bankE (SendCoins S (s_sdk s) a x cs) s = Inr s1" and
      s2: "burnPoolShareFromAccount S x c s1 = Inr s2" and
      s3: "SetPool q s2 = Inr s3" and
      s': "Pools s' = Pools s3" "NextPoolNumber s' = NextPoolNumber s3" "s_sdk s' = s_sdk s3"
    using e by (auto simp: ExitPool_def Let_def bindE_eq_Inr p_def [symmetric] split: if_splits)
  have "p \<noteq> zero_pool" using c(2) by (auto simp: zero_pool_def)
  then have old: "kv_get (Pools s) i = Some p" using read_pool_cases [of s i] by (auto simp: p_def)
  note p = spot_invD [OF inv old]
  have ok: "assets_ok (PoolAssets p)" using p(2) by (simp add: pool_wf_def)
  note m = types_ExitPool_moves [OF ok t] and jd = pool_joinedD [OF types_ExitPool_moves(1) [OF ok t]]
  have wf: "pool_wf E q" using p(2) jd c(3) by (simp add: pool_wf_def)
  have ad: "a = pool_addr E i" using a GetAddress_pool [OF wf] p(1) jd(5) by simp
  have den: "Denom c = GetPoolShareBaseDenom i" using c(1) p(1,2) by (simp add: pool_wf_def)
  obtain b1 where b1: "SendCoins S (s_sdk s) a x cs = Inr b1" "s1 = s\<lparr>s_sdk := b1\<rparr>" using s1 by (auto simp: bankE_Inr)
  note send = spot_bank.sendA_ok [OF spot_lawsD [OF L] b1(1)]
  obtain b2 where b2: "s2 = s1\<lparr>s_sdk := b2\<rparr>"
      "GetBalance E b2 = (\<lambda>y d. GetBalance E (s_sdk s1) y d - (if y = x \<and> d = Denom c then Amount c else 0))"
      "GetSupply M b2 = (\<lambda>d. GetSupply M (s_sdk s1) d - (if d = Denom c then Amount c else 0))"
    using burnPoolShareFromAccount_Inr [OF L s2] by auto
  have np: "pool_addr E k \<noteq> x" for k using x by (auto simp: not_pool_account_def)
  have bal: "GetBalance E b2 (pool_addr E k) d = GetBalance E (s_sdk s) (pool_addr E k) d - (if k = i then AmountOf cs d else 0)" for k d
    using b2(2) b1 send np pool_addr_inj [OF L] by (simp add: move_coins_def ad)
  have sup: "GetSupply M b2 (GetPoolShareBaseDenom k) = GetSupply M (s_sdk s) (GetPoolShareBaseDenom k) - (if k = i then Amount c else 0)" for k
    using b2(3) b1 send by (simp add: GetPoolShareBaseDenom_inj den)
  have sd: "s_sdk s' = b2" using s' SetPool_Inr(3) [OF s3] b2(1) by simp
  have "pool_backed E M b2 q" using p(3) p(1) jd(2,5,9) bal sup by (simp add: pool_backed_def)
  then show ?thesis
    using spot_inv_step [OF inv old _ wf, of s'] jd(5) p(1) SetPool_Inr(1,2) [OF s3] s' b1(2) b2(1) bal sup sd by simp
qed


section \<open>Swapping\<close>

lemma CalcOutAmtGivenIn_denom: "CalcOutAmtGivenIn E S p tin d nofee = Inr (tout, fee) \<Longrightarrow> Denom tout = d"
  by (auto simp: CalcOutAmtGivenIn_def bindE_eq_Inr newCoin_Inr Let_def split: if_splits)

lemma SwapExactAmountIn_Inr:
  assumes L: "spot_laws E S M distr" and inv: "spot_inv E M s" and x: "not_pool_account E x"
    and w: "SwapExactAmountIn E S x i tin d s = Inr (s', tout)"
  obtains p q b fee where "kv_get (Pools s) i = Some p" and "CalcOutAmtGivenIn E S p tin d False = Inr (tout, fee)"
    and "Denom tin \<noteq> Denom tout" and "ApplySwap tin tout p = Inr q"
    and "Pools s' = kv_insert i q (Pools s)" and "NextPoolNumber s' = NextPoolNumber s" and "s_sdk s' = b"
    and "\<And>k e. GetBalance E b (pool_addr E k) e = GetBalance E (s_sdk s) (pool_addr E k) e
      + (if k = i then AmountOf [tin] e - AmountOf [tout] e else 0)"
    and "GetSupply M b = GetSupply M (s_sdk s)"
proof -
  obtain p fee a s1 s2 s3 q where
      f: "FetchPool s i = Inr p" and c: "CalcOutAmtGivenIn E S p tin d False = Inr (tout, fee)" "Denom tin \<noteq> d" and
      a: "GetAddress E p = Inr a" and
      s1: "bankE (SendCoins S (s_sdk s) x a [tin]) s = Inr s1" and
      s2: "bankE (SendCoins S (s_sdk s1) a x [tout]) s1 = Inr s2" and
      q: "ApplySwap tin tout p = Inr q" and
      s3: "SetPool q s2 = Inr s3" and
      s': "Pools s' = Pools s3" "NextPoolNumber s' = NextPoolNumber s3" "s_sdk s' = s_sdk s3"
    using w by (auto simp: SwapExactAmountIn_def updatePoolForSwap_def Let_def bindE_eq_Inr split: if_splits)
  have "read_pool s i = p" "p \<noteq> zero_pool" using f by (auto simp: FetchPool_def Let_def zero_pool_def split: if_splits)
  then have old: "kv_get (Pools s) i = Some p" using read_pool_cases [of s i] by auto
  note p = spot_invD [OF inv old]
  have ad: "a = pool_addr E i" using a GetAddress_pool [OF p(2)] p(1) by simp
  have dd: "Denom tin \<noteq> Denom tout" using c CalcOutAmtGivenIn_denom [OF c(1)] by simp
  have ok: "assets_ok (PoolAssets p)" using p(2) by (simp add: pool_wf_def)
  have qi: "pool_Id q = i" using pool_movedD(5) [OF ApplySwap_moves(1) [OF ok dd q]] p(1) by simp
  obtain b1 where b1: "SendCoins S (s_sdk s) x a [tin] = Inr b1" "s1 = s\<lparr>s_sdk := b1\<rparr>" using s1 by (auto simp: bankE_Inr)
  obtain b2 where b2: "SendCoins S b1 a x [tout] = Inr b2" "s2 = s1\<lparr>s_sdk := b2\<rparr>" using s2 b1(2) by (auto simp: bankE_Inr)
  note send1 = spot_bank.sendA_ok [OF spot_lawsD [OF L] b1(1)] and send2 = spot_bank.sendA_ok [OF spot_lawsD [OF L] b2(1)]
  have np: "pool_addr E k \<noteq> x" for k using x by (auto simp: not_pool_account_def)
  have bal: "GetBalance E b2 (pool_addr E k) e = GetBalance E (s_sdk s) (pool_addr E k) e
      + (if k = i then AmountOf [tin] e - AmountOf [tout] e else 0)" for k e
    using send1 send2 np pool_addr_inj [OF L] by (simp add: move_coins_def ad)
  show thesis
    using that [OF old c(1) dd q _ _ _ bal] SetPool_Inr [OF s3] s' b1(2) b2(2) qi send1 send2 by simp
qed

lemma SwapExactAmountIn_keeps_inv:
  assumes L: "spot_laws E S M distr" and inv: "spot_inv E M s" and x: "not_pool_account E x"
    and w: "SwapExactAmountIn E S x i tin d s = Inr (s', tout)"
  shows "spot_inv E M s'"
proof -
  obtain p q b fee where old: "kv_get (Pools s) i = Some p" and dd: "Denom tin \<noteq> Denom tout" and q: "ApplySwap tin tout p = Inr q"
    and s': "Pools s' = kv_insert i q (Pools s)" "NextPoolNumber s' = NextPoolNumber s" "s_sdk s' = b"
    and bal: "\<And>k e. GetBalance E b (pool_addr E k) e = GetBalance E (s_sdk s) (pool_addr E k) e
      + (if k = i then AmountOf [tin] e - AmountOf [tout] e else 0)"
    and sup: "GetSupply M b = GetSupply M (s_sdk s)"
    using SwapExactAmountIn_Inr [OF assms] by metis
  note p = spot_invD [OF inv old]
  have ok: "assets_ok (PoolAssets p)" using p(2) by (simp add: pool_wf_def)
  note mv = pool_movedD [OF ApplySwap_moves(1) [OF ok dd q]]
  have wf: "pool_wf E q" using p(2) mv by (simp add: pool_wf_def)
  have "pool_backed E M b q" using p(1,3) mv(2,5,8) bal [of i] sup by (simp add: pool_backed_def)
  then show ?thesis using spot_inv_step [OF inv old _ wf, of s'] mv(5) p(1) s' bal sup by simp
qed

end
