(* ===== verification/Spot_Messages.thy ===== *)
theory Spot_Messages
  imports Spot_Invariant
begin

text \<open>
  Creating a pool, and what holds after any sequence of messages.
\<close>

section \<open>New pools\<close>

definition scaled :: "pool_asset \<Rightarrow> pool_asset" where
  "scaled a = a\<lparr>Weight := Weight a * GuaranteedWeightPrecision\<rparr>"

lemma scale_assets_Inr:
  "scale_assets seen as = Inr as' \<Longrightarrow> as' = map scaled as \<and> distinct (map asset_denom as)
     \<and> set (map asset_denom as) \<inter> set seen = {} \<and> (\<forall>a \<in> set as. PoolAsset_Validate a = Inr ())"
proof (induction seen as arbitrary: as' rule: scale_assets.induct)
  case (2 seen a as)
  then obtain s where s: "PoolAsset_Validate a = Inr ()" "asset_denom a \<notin> set seen"
      "scale_assets (asset_denom a # seen) as = Inr s" "as' = scaled a # s"
    by (auto simp: bindE_eq_Inr scaled_def split: if_splits)
  then show ?case using 2(1) [OF s(2,3)] by auto
qed simp

lemma PoolAsset_Validate_Inr:
  "PoolAsset_Validate a = Inr () \<longleftrightarrow>
     0 < Amount (Token a) \<and> 0 < Weight a \<and> Weight a < MaxUserSpecifiedWeight * GuaranteedWeightPrecision"
  by (auto simp: PoolAsset_Validate_def)

lemma types_NewPool_Inr:
  assumes "types_NewPool i addr params as = Inr p"
  shows "pool_Id p = i" and "pool_Address p = addr" and "PoolParams p = params"
    and "TotalShares p = \<lparr>Denom = GetPoolShareBaseDenom i, Amount = InitPoolSharesSupply\<rparr>"
    and "PoolAssets p = sort_key asset_denom (map scaled as)" and "TotalWeight p = sum_list (map Weight (PoolAssets p))"
    and "assets_sorted (PoolAssets p)" and "\<forall>a \<in> set as. PoolAsset_Validate a = Inr ()"
proof -
  obtain as' where as': "scale_assets [] as = Inr as'" and
    p: "p = \<lparr>pool_Id = i, pool_Address = addr, PoolParams = params, PoolAssets = sort_key asset_denom as',
        TotalWeight = sum_list (map Weight as'), TotalShares = \<lparr>Denom = GetPoolShareBaseDenom i, Amount = InitPoolSharesSupply\<rparr>\<rparr>"
    using assms by (auto simp: types_NewPool_def setInitialPoolAssets_def sortPoolAssetsByDenom_def bindE_eq_Inr)
  note c = scale_assets_Inr [OF as']
  show "pool_Id p = i" "pool_Address p = addr" "PoolParams p = params"
      "TotalShares p = \<lparr>Denom = GetPoolShareBaseDenom i, Amount = InitPoolSharesSupply\<rparr>"
      "PoolAssets p = sort_key asset_denom (map scaled as)" "\<forall>a \<in> set as. PoolAsset_Validate a = Inr ()"
    using p c by simp_all
  show "TotalWeight p = sum_list (map Weight (PoolAssets p))"
    using sum_mset_sum_list [of "map Weight (sort_key asset_denom as')"] sum_mset_sum_list [of "map Weight as'"] by (simp add: p)
  have "asset_denom \<circ> scaled = asset_denom" by (auto simp: scaled_def)
  then have "distinct (map asset_denom as')" using c by simp
  then have "distinct (map asset_denom (sort_key asset_denom as'))" by (simp add: distinct_map)
  then show "assets_sorted (PoolAssets p)" by (simp add: p strict_sorted_iff)
qed

lemma NewPool_amounts:
  assumes "types_NewPool i addr params as = Inr p"
  shows "pool_amount p d = AmountOf (map Token as) d" and "length (PoolAssets p) = length as" and "assets_ok (PoolAssets p)"
proof -
  note n = types_NewPool_Inr [OF assms]
  have t: "map Token (map scaled as) = map Token as" by (simp add: scaled_def)
  have "mset (map Token (PoolAssets p)) = mset (map Token as)" by (simp add: n(5) t [symmetric] del: map_map)
  then have "mset (map (\<lambda>c. if Denom c = d then Amount c else 0) (map Token (PoolAssets p)))
      = mset (map (\<lambda>c. if Denom c = d then Amount c else 0) (map Token as))" by (simp only: mset_map)
  then show "pool_amount p d = AmountOf (map Token as) d"
    unfolding pool_amount_def AmountOf_def by (simp only: sum_mset_sum_list [symmetric])
  show "length (PoolAssets p) = length as" by (simp add: n(5))
  show "assets_ok (PoolAssets p)"
    using n(7,8) by (auto simp: assets_ok_def n(5) scaled_def PoolAsset_Validate_Inr)
qed

lemma NewPool_keeps_inv:
  assumes L: "spot_laws E S M distr" and inv: "spot_inv E M s" and x: "not_pool_account E x"
    and room: "NextPoolNumber s \<noteq> Some (- 1)" and fo: "fees_ok params" and e: "NewPool E S M x params as s = Inr (s', i)"
  shows "spot_inv E M s'"
proof -
  let ?acc = "\<lambda>t. NewModuleAccount S (s_sdk t) (pool_name i)"
  obtain fee s1 p cs s4 s5 s7 where len: "length as = 2" and
      s1: "bankE (FundCommunityPool M (s_sdk s) fee x) s = Inr s1" and n: "NextPoolNumber s1 = Some i" and
      p0: "types_NewPool i (AccAddressString E (snd (?acc s1))) params as = Inr p" and
      cs: "NewCoins_of S (map Token as) = Some cs" and
      s40: "bankE (SendCoins S (fst (?acc s1)) x (snd (?acc s1)) cs) ((SetNextPoolNumber (i + 1) s1)\<lparr>s_sdk := fst (?acc s1)\<rparr>) = Inr s4" and
      s5: "mintPoolShareToAccount S M (pool_Id p) x InitPoolSharesSupply s4 = Inr s5" and
      s7: "SetPool p (s5\<lparr>s_sdk := SetDenomMetaData S (s_sdk s5) (GetPoolShareBaseDenom (pool_Id p))
                             (GetPoolShareDisplayDenom (pool_Id p))\<rparr>) = Inr s7" and
      s': "Pools s' = Pools s7" "NextPoolNumber s' = NextPoolNumber s7" "s_sdk s' = s_sdk s7"
    using e by (auto simp: NewPool_def Let_def bindE_eq_Inr getE_eq_Inr GetNextPoolNumberAndIncrement_def GetNextPoolNumber_def
        SetNextPoolNumber_def pool_name_def MinPoolAssets_def MaxPoolAssets_def case_prod_beta split: if_splits)
  obtain b acc where acc: "?acc s1 = (b, acc)" by (cases "?acc s1")
  have p: "types_NewPool i (AccAddressString E acc) params as = Inr p"
    and s4: "bankE (SendCoins S b x acc cs) ((SetNextPoolNumber (i + 1) s1)\<lparr>s_sdk := b\<rparr>) = Inr s4"
    using p0 s40 by (simp_all add: acc)
  note np = types_NewPool_Inr [OF p] and am = NewPool_amounts [OF p]
  note B = spot_lawsD [OF L]
  obtain b1 where b1: "FundCommunityPool M (s_sdk s) fee x = Inr b1" "s1 = s\<lparr>s_sdk := b1\<rparr>" using s1 by (auto simp: bankE_Inr)
  have f: "GetBalance E b1 = move_coins x distr fee (GetBalance E (s_sdk s))" "GetSupply M b1 = GetSupply M (s_sdk s)"
    using mint_bank.fund_ok [OF spot_laws_mint [OF L, unfolded mint_laws_def] b1(1)] by simp_all
  have fv: "0 \<le> AmountOf fee d" for d
    using spot_bank.fund_checks [OF B b1(1)] by (intro AmountOf_nonneg) (auto simp: coins_valid_def order_less_imp_le)
  have ac: "acc = pool_addr E i" "GetBalance E b = GetBalance E b1" "GetSupply M b = GetSupply M b1"
    using spot_bank.newacc_ok [OF B acc] b1(2) by (simp_all add: pool_addr_def)
  obtain b4 where b4: "SendCoins S b x acc cs = Inr b4" "s4 = (SetNextPoolNumber (i + 1) s1)\<lparr>s_sdk := b4\<rparr>"
    using s4 by (auto simp: bankE_Inr)
  note send = spot_bank.sendA_ok [OF B b4(1)]
  obtain b5 where b5: "s5 = s4\<lparr>s_sdk := b5\<rparr>"
      "GetBalance E b5 = (\<lambda>a d. GetBalance E b4 a d + (if a = x \<and> d = GetPoolShareBaseDenom i then InitPoolSharesSupply else 0))"
      "GetSupply M b5 = (\<lambda>d. GetSupply M b4 d + (if d = GetPoolShareBaseDenom i then InitPoolSharesSupply else 0))"
    using mintPoolShareToAccount_Inr(2) [OF L s5] np(1) b4(2) by auto
  have sd: "GetBalance E (s_sdk s') = GetBalance E b5" "GetSupply M (s_sdk s') = GetSupply M b5"
    using s'(3) SetPool_Inr(3) [OF s7] b5(1) spot_bank.setmeta_ok [OF B] by simp_all
  have npa: "pool_addr E k \<noteq> x" for k using x by (auto simp: not_pool_account_def)
  have bal: "GetBalance E (s_sdk s) (pool_addr E k) d + (if k = i then AmountOf cs d else 0) \<le> GetBalance E (s_sdk s') (pool_addr E k) d" for k d
    using sd(1) b5(2) send ac f(1) npa pool_addr_inj [OF L] fv [of d] by (simp add: move_coins_def)
  have sup: "GetSupply M (s_sdk s') (GetPoolShareBaseDenom k) = GetSupply M (s_sdk s) (GetPoolShareBaseDenom k)
      + (if k = i then InitPoolSharesSupply else 0)" for k
    using sd(2) b5(3) send ac f(2) by (simp add: GetPoolShareBaseDenom_inj)
  have ni: "NextPoolNumber s = Some i" using n b1(2) by simp
  have pools: "Pools s' = kv_insert i p (Pools s)" "NextPoolNumber s' = Some (i + 1)"
    using s' SetPool_Inr(1,2) [OF s7] b5(1) b4(2) b1(2) np(1) by (simp_all add: SetNextPoolNumber_def)
  have "1 + i \<noteq> 0" using room ni by (metis add.commute eq_neg_iff_add_eq_0)
  then have up: "i < i + 1" using unatSuc [of i] by (simp add: word_less_nat_alt add.commute)
  have wf: "pool_wf E p"
    using am(2,3) len np(1,2,3,4) fo ac(1) spot_bank.decode_encode [OF B] by (simp add: pool_wf_def InitPoolSharesSupply_def)
  have "0 \<le> GetBalance E (s_sdk s) (pool_addr E i) d" for d
    using mint_bank.bal_nonneg [OF spot_laws_mint [OF L, unfolded mint_laws_def]] by simp
  moreover have "AmountOf cs d = AmountOf (map Token as) d" for d using spot_bank.newcoins_ok [OF B cs] by simp
  moreover have "GetSupply M (s_sdk s) (GetPoolShareBaseDenom i) = 0" using inv ni by (auto simp: spot_inv_def)
  ultimately have bk: "pool_backed E M (s_sdk s') p"
    using bal [of i] sup [of i] am(1) np(1,4) unfolding pool_backed_def by (auto intro: order_trans [OF le_add_same_cancel2 [THEN iffD2]])
  show ?thesis
    unfolding spot_inv_def
  proof (intro conjI allI impI)
    fix j r assume j: "kv_get (Pools s') j = Some r"
    have "pool_Id r = j \<and> pool_wf E r \<and> pool_backed E M (s_sdk s') r \<and> j < i + 1"
    proof (cases "j = i")
      case True then show ?thesis using j pools np(1) wf bk up by simp
    next
      case False
      then have r: "kv_get (Pools s) j = Some r" using j pools(1) by simp
      note q = spot_invD [OF inv r]
      have "pool_backed E M (s_sdk s') r"
        using q(1,3) False bal [of j] sup [of j] by (auto simp: pool_backed_def intro: order_trans)
      then show ?thesis using q(1,2) q(4) [OF ni] up by simp
    qed
    then show "pool_Id r = j" "pool_wf E r" "pool_backed E M (s_sdk s') r" "\<And>n. NextPoolNumber s' = Some n \<Longrightarrow> j < n"
      using pools(2) by simp_all
  next
    fix n j assume j: "NextPoolNumber s' = Some n" "n \<le> j"
    then have "i < j" using up pools(2) by auto
    then show "GetSupply M (s_sdk s') (GetPoolShareBaseDenom j) = 0"
      using inv ni sup [of j] by (auto simp: spot_inv_def)
  qed
qed


section \<open>Sequences of messages\<close>

definition from_user :: "'b chain_sdk \<Rightarrow> spot_msg \<Rightarrow> bool" where
  "from_user E msg \<longleftrightarrow> (\<forall>a. GetSigners E msg = Inr [a] \<longrightarrow> not_pool_account E a)"

lemma spot_Handler_keeps_inv:
  assumes L: "spot_laws E S M distr" "dec_laws E" "coinset_laws E" "quo_laws S" and "spot_inv E M s" and u: "from_user E msg"
    and "NextPoolNumber s \<noteq> Some (- 1)" and v: "spot_ValidateBasic E msg = Inr ()" and h: "spot_Handler E S M msg s = Inr s'"
  shows "spot_inv E M s'"
proof (cases msg)
  case (MsgCreatePool c params as)
  then obtain x i where "checkAddr E c = Inr x" "NewPool E S M x params as s = Inr (s', i)"
    using h by (auto simp: bindE_eq_Inr msg_CreatePool_def)
  moreover have "fees_ok params"
    using v MsgCreatePool by (auto simp: CreatePool_ValidateBasic_def bindE_eq_Inr fees_ok_def split: if_splits)
  ultimately show ?thesis using NewPool_keeps_inv [OF L(1)] assms(5,7) u MsgCreatePool by (auto simp: from_user_def)
next
  case (MsgJoinPool c i cs swp)
  then obtain x r where "checkAddr E c = Inr x" "JoinPool E S M x i cs swp s = Inr (s', r)"
    using h by (auto simp: bindE_eq_Inr msg_JoinPool_def)
  then show ?thesis using JoinPool_keeps_inv [OF L] assms(5) u MsgJoinPool by (auto simp: from_user_def)
next
  case (MsgExitPool c i sh)
  then obtain x r where "checkAddr E c = Inr x" "ExitPool E S x i sh s = Inr (s', r)"
    using h by (auto simp: bindE_eq_Inr msg_ExitPool_def)
  then show ?thesis using ExitPool_keeps_inv [OF L(1)] assms(5) u MsgExitPool by (auto simp: from_user_def)
next
  case (MsgSwapAssets c i tin d)
  then obtain x r where "checkAddr E c = Inr x" "SwapExactAmountIn E S x i tin d s = Inr (s', r)"
    using h by (auto simp: bindE_eq_Inr msg_SwapAssets_def)
  then show ?thesis using SwapExactAmountIn_keeps_inv [OF L(1)] assms(5) u MsgSwapAssets by (auto simp: from_user_def)
qed

text \<open>A message creates at most one pool.\<close>

lemma bankE_next: "bankE r s = Inr s' \<Longrightarrow> NextPoolNumber s' = NextPoolNumber s"
  by (auto simp: bankE_Inr)

lemma mint_next: "mintPoolShareToAccount S M i x n s = Inr s' \<Longrightarrow> NextPoolNumber s' = NextPoolNumber s"
  by (auto simp: mintPoolShareToAccount_def bindE_eq_Inr dest!: bankE_next)

lemma burn_next: "burnPoolShareFromAccount S x c s = Inr s' \<Longrightarrow> NextPoolNumber s' = NextPoolNumber s"
  by (auto simp: burnPoolShareFromAccount_def bindE_eq_Inr dest!: bankE_next)

lemmas next_facts = bankE_next mint_next burn_next SetPool_Inr(2)

lemma NewPool_next:
  assumes "NewPool E S M x params as s = Inr (s', i)"
  shows "NextPoolNumber s = Some i \<and> NextPoolNumber s' = Some (i + 1)"
  using assms
  by (auto simp: NewPool_def Let_def bindE_eq_Inr getE_eq_Inr GetNextPoolNumberAndIncrement_def GetNextPoolNumber_def
      SetNextPoolNumber_def case_prod_beta dest!: next_facts split: if_splits)

lemma other_messages_next:
  "JoinPool E S M x i cs swp s = Inr (s', r1) \<Longrightarrow> NextPoolNumber s' = NextPoolNumber s"
  "ExitPool E S x i c s = Inr (s', r2) \<Longrightarrow> NextPoolNumber s' = NextPoolNumber s"
  "SwapExactAmountIn E S x i tin d s = Inr (s', r3) \<Longrightarrow> NextPoolNumber s' = NextPoolNumber s"
  by (auto simp: JoinPool_def ExitPool_def SwapExactAmountIn_def updatePoolForSwap_def Let_def bindE_eq_Inr
      dest!: next_facts split: if_splits)

lemma spot_deliver_next:
  assumes "NextPoolNumber s = Some n"
  shows "NextPoolNumber (spot_deliver E S M msg s) \<in> {Some n, Some (n + 1)}"
proof (cases "bindE (spot_ValidateBasic E msg) (\<lambda>_. spot_Handler E S M msg s)")
  case (Inl e) then show ?thesis using assms by (simp add: spot_deliver_def)
next
  case (Inr s')
  then have h: "spot_Handler E S M msg s = Inr s'" by (auto simp: bindE_eq_Inr)
  have "NextPoolNumber s' \<in> {Some n, Some (n + 1)}"
    using h assms by (cases msg) (auto simp: bindE_eq_Inr msg_CreatePool_def msg_JoinPool_def msg_ExitPool_def msg_SwapAssets_def
        dest!: NewPool_next other_messages_next)
  then show ?thesis by (simp add: spot_deliver_def Inr)
qed

lemma spot_deliver_keeps_inv:
  assumes "spot_laws E S M distr" "dec_laws E" "coinset_laws E" "quo_laws S" and "spot_inv E M s" and "from_user E msg"
    and "NextPoolNumber s \<noteq> Some (- 1)"
  shows "spot_inv E M (spot_deliver E S M msg s)"
  using spot_Handler_keeps_inv [OF assms] assms(5) by (auto simp: spot_deliver_def bindE_eq_Inr split: sum.splits)

lemma messages_keep_inv:
  assumes L: "spot_laws E S M distr" "dec_laws E" "coinset_laws E" "quo_laws S"
    and "spot_inv E M s" and "NextPoolNumber s = Some n" and "unat n + length msgs < 2 ^ 64" and "\<forall>msg \<in> set msgs. from_user E msg"
  shows "spot_inv E M (fold (spot_deliver E S M) msgs s)"
  using assms(5-8)
proof (induction msgs arbitrary: s n)
  case (Cons msg msgs)
  let ?s = "spot_deliver E S M msg s"
  have "unat n \<noteq> 2 ^ 64 - 1" using Cons.prems(3) by simp
  then have m1: "n \<noteq> - 1" by (auto simp: unsigned_minus_1_eq_mask mask_eq_exp_minus_1)
  then have i: "spot_inv E M ?s" using spot_deliver_keeps_inv [OF L Cons.prems(1)] Cons.prems(2,4) by simp
  have "1 + n \<noteq> 0" using m1 by (metis add.commute eq_neg_iff_add_eq_0)
  then have un: "unat (n + 1) = Suc (unat n)" using unatSuc [of n] by (simp add: add.commute)
  consider "NextPoolNumber ?s = Some n" | "NextPoolNumber ?s = Some (n + 1)" using spot_deliver_next [OF Cons.prems(2), of E S M msg] by blast
  then show ?case
  proof cases
    case 1 then show ?thesis using Cons.IH [OF i 1] Cons.prems(3,4) by simp
  next
    case 2 then show ?thesis using Cons.IH [OF i 2] Cons.prems(3,4) un by simp
  qed
qed simp

lemma InitGenesis_inv:
  assumes "spot_InitGenesis g s0 = Inr s" and "Pools s0 = []" and "\<forall>i. GetSupply M (s_sdk s0) (GetPoolShareBaseDenom i) = 0"
  shows "spot_inv E M s" and "NextPoolNumber s = Some (StartingPoolNumber g)"
  using assms by (auto simp: spot_InitGenesis_def spot_SetParams_def SetNextPoolNumber_def bindE_eq_Inr spot_inv_def)

text \<open>
  C30: starting from a genesis without pools, after any sequence of messages from users (senders that are not the account of a
  pool) with fewer than \<open>2^64\<close> pools, every pool has its two assets in order with non-negative amounts and fees between 0 and 1, the balance of its account covers the
  recorded amounts, and its total of shares is the supply of its share token.
\<close>

theorem spot_pools_stay_backed:
  assumes "spot_laws E S M distr" and "dec_laws E" and "coinset_laws E" and "quo_laws S"
    and "spot_InitGenesis g s0 = Inr s" and "Pools s0 = []" and "\<forall>i. GetSupply M (s_sdk s0) (GetPoolShareBaseDenom i) = 0"
    and "unat (StartingPoolNumber g) + length msgs < 2 ^ 64" and "\<forall>msg \<in> set msgs. from_user E msg"
  shows "spot_inv E M (fold (spot_deliver E S M) msgs s)"
  using messages_keep_inv [OF assms(1-4) InitGenesis_inv [OF assms(5-7)] assms(8,9)] .

end
