(* ===== verification/Spot_Swap.thy ===== *)
theory Spot_Swap
  imports Spot_Messages
begin

text \<open>
  The value that a pool keeps: a swap in a balancer pool does not lower the product of the two amounts by more than the rounding of one
  division, and shares that a join has issued cannot be exchanged for more than was deposited.
\<close>

section \<open>The constant product\<close>

lemma trunc_pos:
  assumes "dec_laws E" and "0 < dec_TruncateInt E x"
  shows "dec_TruncateInt E x * PREC \<le> x"
proof -
  have t: "\<bar>x - dec_TruncateInt E x * PREC\<bar> < PREC" "\<bar>dec_TruncateInt E x * PREC\<bar> \<le> \<bar>x\<bar>"
    using sdk_decimal.truncInt_trunc [OF dec_lawsD [OF assms(1)], of x] by simp_all
  have "1 * PREC \<le> dec_TruncateInt E x * PREC" using assms(2) by (intro mult_right_mono) simp_all
  then have "0 < x" using t(1) by linarith
  then show ?thesis using t(2) \<open>1 * PREC \<le> _\<close> by linarith
qed

lemma trunc_le:
  assumes "dec_laws E" and "0 \<le> x"
  shows "dec_TruncateInt E x * PREC \<le> x"
  using sdk_decimal.truncInt_trunc [OF dec_lawsD [OF assms(1)], of x] assms(2) by linarith

lemma mul_with_whole: "dec_laws E \<Longrightarrow> dec_Mul E (NewDec n) x = x * n"
  using sdk_decimal.mul_whole [OF dec_lawsD] sdk_decimal.mul_comm [OF dec_lawsD] by metis

text \<open>The arithmetic of one swap: \<open>x'\<close> is the balance after the fee, in units of the last place.\<close>

lemma product_bound:
  fixes x y i w r x' :: int
  assumes "0 < y" and "0 < x'" and "x' \<le> (x + i) * PREC" and "\<bar>r * x' - (x * PREC) * PREC\<bar> < x'"
    and "w * PREC \<le> (PREC - r) * y" and "w \<le> y"
  shows "x * y * PREC - y * (x + i) < (x + i) * (y - w) * PREC"
proof -
  have "(x * PREC) * PREC - x' < r * x'" using assms(4) by linarith
  then have "((x * PREC) * PREC - x') * y < r * x' * y" using assms(1) by (rule mult_strict_right_mono)
  also have "r * x' * y = (r * y) * x'" by simp
  also have "\<dots> \<le> ((y - w) * PREC) * x'" using assms(2,5) by (intro mult_right_mono) (simp_all add: algebra_simps)
  also have "\<dots> \<le> ((y - w) * PREC) * ((x + i) * PREC)" using assms(3,6) by (intro mult_left_mono) simp_all
  finally have a: "((x * PREC) * PREC - x') * y < ((y - w) * PREC) * ((x + i) * PREC)" .
  have "x' * y \<le> ((x + i) * PREC) * y" using assms(1,3) by (intro mult_right_mono) simp_all
  then have "(x * y * PREC - y * (x + i)) * PREC \<le> ((x * PREC) * PREC - x') * y" by (simp add: algebra_simps)
  also note a
  also have "((y - w) * PREC) * ((x + i) * PREC) = ((x + i) * (y - w) * PREC) * PREC" by simp
  finally show ?thesis using PREC_pos by (simp only: mult_less_cancel_right_pos)
qed

lemma balancer_swap:
  assumes D: "dec_laws E" and c: "CalcOutAmtGivenIn E S p tin d False = Inr (tout, fee)" and b: "PoolType (PoolParams p) = BALANCER"
    and f: "0 \<le> SwapFee (PoolParams p)" "SwapFee (PoolParams p) \<le> OneDec" and ok: "assets_ok (PoolAssets p)"
    and pos: "0 < Amount tin" "0 < Amount tout" and le: "Amount tout \<le> pool_amount p d"
  shows "let x = pool_amount p (Denom tin); y = pool_amount p d in
    x * y * PREC - y * (x + Amount tin) < (x + Amount tin) * (y - Amount tout) * PREC"
proof -
  obtain i pin j pout where ga: "getPoolAssetAndIndex p (Denom tin) = Inr (i, pin)" and gb: "getPoolAssetAndIndex p d = Inr (j, pout)"
    using c by (auto simp: CalcOutAmtGivenIn_def bindE_eq_Inr)
  have s: "assets_sorted (PoolAssets p)" using ok by (simp add: assets_ok_def)
  have x: "Amount (Token pin) = pool_amount p (Denom tin)" and y: "Amount (Token pout) = pool_amount p d"
    using pool_amount_nth [OF s] getPoolAssetAndIndex_Inr [OF ga] getPoolAssetAndIndex_Inr [OF gb] by metis+
  let ?x = "pool_amount p (Denom tin)" and ?y = "pool_amount p d"
  let ?a = "(OneDec - SwapFee (PoolParams p)) * Amount tin"
  let ?x' = "NewDec ?x + ?a"
  let ?r = "dec_Quo E (NewDec ?x) ?x'"
  have nz: "?x' \<noteq> 0" and out: "Amount tout = dec_TruncateInt E ((OneDec - ?r) * ?y)"
    using c b by (auto simp: CalcOutAmtGivenIn_def ga gb bindE_eq_Inr Let_def newCoin_Inr SolveConstantProductInvariant_def decQuo_def
        mul_with_whole [OF D] x y split: if_splits)
  have "0 \<le> Amount (Token pin)" using ok getPoolAssetAndIndex_Inr(1,2) [OF ga] by (auto simp: assets_ok_def)
  then have "0 \<le> ?x" using x by simp
  then have x0: "0 \<le> NewDec ?x" by (simp add: NewDec_def)
  have a0: "0 \<le> ?a" using f pos by simp
  have a1: "?a \<le> PREC * Amount tin" using f pos by (intro mult_right_mono) (simp_all add: OneDec_def)
  show ?thesis unfolding Let_def
  proof (rule product_bound)
    show "0 < ?y" "Amount tout \<le> ?y" using pos le by simp_all
    show xp: "0 < ?x'" using x0 a0 nz by linarith
    show "?x' \<le> (?x + Amount tin) * PREC" using a1 by (simp add: NewDec_def algebra_simps)
    show "\<bar>?r * ?x' - ?x * PREC * PREC\<bar> < ?x'"
      using sdk_decimal.quo_near [OF dec_lawsD [OF D], of ?x' "NewDec ?x"] xp by (simp add: NewDec_def)
    show "Amount tout * PREC \<le> (PREC - ?r) * ?y" using trunc_pos [OF D, of "(OneDec - ?r) * ?y"] pos(2) out by (simp add: OneDec_def)
  qed
qed

text \<open>
  C31: a swap in a balancer pool pays out a positive amount, adds what it takes to one asset and takes what it pays from the other, and the
  product of the amounts drops by less than \<open>y (x + in) / 10^18\<close>, the rounding of the quotient.
\<close>

theorem swap_constant_product:
  assumes "spot_laws E S M distr" and "dec_laws E" and "spot_inv E M s" and "not_pool_account E a"
    and "kv_get (Pools s) i = Some p" and "PoolType (PoolParams p) = BALANCER"
    and "SwapExactAmountIn E S a i tin d s = Inr (s', tout)"
  shows "\<exists>q x y. kv_get (Pools s') i = Some q \<and> x = pool_amount p (Denom tin) \<and> y = pool_amount p d
    \<and> 0 < Amount tout \<and> pool_amount q (Denom tin) = x + Amount tin \<and> pool_amount q d = y - Amount tout \<and> 0 \<le> y - Amount tout
    \<and> x * y * PREC - y * (x + Amount tin) < pool_amount q (Denom tin) * pool_amount q d * PREC"
proof -
  obtain q fee where c: "CalcOutAmtGivenIn E S p tin d False = Inr (tout, fee)" and dd: "Denom tin \<noteq> Denom tout"
    and ap: "ApplySwap tin tout p = Inr q" and s': "Pools s' = kv_insert i q (Pools s)"
    using SwapExactAmountIn_Inr [OF assms(1,3,4,7)] assms(5) by (metis option.inject)
  have ok: "assets_ok (PoolAssets p)" and fee: "0 \<le> SwapFee (PoolParams p)" "SwapFee (PoolParams p) \<le> OneDec"
    using spot_invD(2) [OF assms(3,5)] by (simp_all add: pool_wf_def fees_ok_def)
  have d: "Denom tout = d" by (rule CalcOutAmtGivenIn_denom [OF c])
  note m = ApplySwap_moves [OF ok dd ap]
  have q: "pool_amount q (Denom tin) = pool_amount p (Denom tin) + Amount tin" "pool_amount q d = pool_amount p d - Amount tout"
    using pool_movedD(2) [OF m(1)] dd d by auto
  show ?thesis
    using balancer_swap [OF assms(2) c assms(6) fee ok m(2,3) m(4) [unfolded d]] q m(3,4) d s' by (intro exI [of _ q]) (simp add: Let_def)
qed


section \<open>Joining and exiting\<close>

lemma rem_coins_used:
  assumes "dec_laws E" and "coinset_laws E" and "coins_sorted acc"
    and "\<forall>(c, r) \<in> set zs. m \<le> r \<and> 0 \<le> AmountOf L (Denom c) \<and> r * AmountOf L (Denom c) \<le> Amount c * PREC"
  shows "m * (int (length (filter (\<lambda>c. Denom c = d) (map fst zs))) * AmountOf L d)
      \<le> (AmountOf (map fst zs) d - (AmountOf (rem_coins E L m zs acc) d - AmountOf acc d)) * PREC"
  using assms(3,4)
proof (induction zs arbitrary: acc)
  case (Cons z zs)
  obtain c r where z: "z = (c, r)" by (cases z)
  let ?u = "dec_TruncateInt E (dec_Ceil E (m * AmountOf L (Denom c)))"
  let ?acc = "if r = m then acc else if Amount c - ?u = 0 then acc else Coins_Add E acc [\<lparr>Denom = Denom c, Amount = Amount c - ?u\<rparr>]"
  have "m * AmountOf L (Denom c) \<le> r * AmountOf L (Denom c)" using Cons.prems(2) z by (intro mult_right_mono) auto
  moreover have "r * AmountOf L (Denom c) \<le> Amount c * PREC" using Cons.prems(2) z by auto
  ultimately have lo: "m * AmountOf L (Denom c) \<le> Amount c * PREC" by linarith
  have up: "m * AmountOf L (Denom c) \<le> ?u * PREC"
    using sdk_decimal.ceil_truncInt(1) [OF dec_lawsD [OF assms(1)], of "m * AmountOf L (Denom c)"] .
  note ac = coin_sets.add_coins [OF coinset_lawsD [OF assms(2)] Cons.prems(1), of "[\<lparr>Denom = Denom c, Amount = Amount c - ?u\<rparr>]"]
  have s: "coins_sorted ?acc" using Cons.prems(1) ac by simp
  have step: "m * (if Denom c = d then AmountOf L d else 0) \<le> ((if Denom c = d then Amount c else 0) - (AmountOf ?acc d - AmountOf acc d)) * PREC"
  proof (cases "Denom c = d")
    case True
    have "AmountOf ?acc d - AmountOf acc d = (if r = m \<or> Amount c = ?u then 0 else Amount c - ?u)" using ac True by simp
    then show ?thesis using lo up True by (cases "r = m \<or> Amount c = ?u") (simp_all only: if_True if_False, simp_all)
  next
    case False
    then show ?thesis using ac by simp
  qed
  have r: "rem_coins E L m (z # zs) acc = rem_coins E L m zs ?acc" by (simp add: z Let_def)
  have ih: "m * (int (length (filter (\<lambda>c. Denom c = d) (map fst zs))) * AmountOf L d)
      \<le> (AmountOf (map fst zs) d - (AmountOf (rem_coins E L m zs ?acc) d - AmountOf ?acc d)) * PREC"
    using Cons.IH [OF s] Cons.prems(2) by simp
  have "m * (int (length (filter (\<lambda>c. Denom c = d) (map fst (z # zs)))) * AmountOf L d)
      = m * (if Denom c = d then AmountOf L d else 0) + m * (int (length (filter (\<lambda>c. Denom c = d) (map fst zs))) * AmountOf L d)"
    by (simp add: z algebra_simps)
  also have "\<dots> \<le> ((if Denom c = d then Amount c else 0) - (AmountOf ?acc d - AmountOf acc d)) * PREC
      + (AmountOf (map fst zs) d - (AmountOf (rem_coins E L m zs ?acc) d - AmountOf ?acc d)) * PREC" using step ih by (rule add_mono)
  also have "\<dots> = (AmountOf (map fst (z # zs)) d - (AmountOf (rem_coins E L m (z # zs) acc) d - AmountOf acc d)) * PREC"
    unfolding r by (simp add: z algebra_simps)
  finally show ?case .
qed simp

lemma exit_amounts_bound:
  assumes "dec_laws E" and "0 \<le> ExitFee (PoolParams p)" and "ExitFee (PoolParams p) \<le> OneDec" and "0 \<le> r"
    and "exit_amounts E p r cs = Inr (out, fees)" and "\<forall>c \<in> set cs. 0 \<le> Amount c"
  shows "AmountOf out d * PREC \<le> r * AmountOf cs d"
  using assms(5,6)
proof (induction cs arbitrary: out fees)
  case (Cons c cs)
  let ?t = "r * Amount c" and ?k = "OneDec - ExitFee (PoolParams p)"
  let ?o = "dec_TruncateInt E (dec_Mul E ?t ?k)"
  obtain out' fees' where o: "exit_amounts E p r cs = Inr (out', fees')" "out = \<lparr>Denom = Denom c, Amount = ?o\<rparr> # out'"
    using Cons.prems(1) by (auto simp: Let_def bindE_eq_Inr newCoin_Inr)
  note L = dec_lawsD [OF assms(1)]
  have t: "0 \<le> ?t" using assms(4) Cons.prems(2) by simp
  have "dec_Mul E ?k ?t \<le> dec_Mul E OneDec ?t" using assms(2) t by (intro sdk_decimal.mul_mono [OF L]) simp_all
  also have "\<dots> = ?t" using sdk_decimal.mul_One [OF L, of ?t] sdk_decimal.mul_comm [OF L, of OneDec ?t] by simp
  finally have "dec_Mul E ?t ?k \<le> ?t" using sdk_decimal.mul_comm [OF L, of ?t ?k] by simp
  moreover have "0 \<le> dec_Mul E ?t ?k" using t assms(3) by (intro sdk_decimal.mul_nonneg [OF L]) simp_all
  ultimately have "?o * PREC \<le> ?t" using trunc_le [OF assms(1), of "dec_Mul E ?t ?k"] by linarith
  then show ?case using Cons.IH [OF o(1)] Cons.prems(2) o(2) by (auto simp: algebra_simps)
qed simp

lemma types_ExitPool_share:
  assumes D: "dec_laws E" "coinset_laws E" "quo_laws S" and e: "types_ExitPool E S n p = Inr (q, out, fees)"
    and f: "0 \<le> ExitFee (PoolParams p)" "ExitFee (PoolParams p) \<le> OneDec" and ok: "assets_ok (PoolAssets p)"
    and n: "0 \<le> n" "0 < Amount (TotalShares p)"
  shows "AmountOf out d * Amount (TotalShares p) \<le> n * pool_amount p d"
proof -
  let ?T = "Amount (TotalShares p)"
  let ?r = "dec_QuoInt S (NewDec n) ?T"
  obtain fees0 where x: "exit_amounts E p ?r (PoolBalances E p) = Inr (out, fees0)"
    using e by (auto simp: types_ExitPool_def TokensOutFromPoolSharesIn_def decQuoInt_def bindE_eq_Inr split: if_splits)
  have nd: "0 \<le> NewDec n" using n(1) by (simp add: NewDec_def)
  note r = quo_lawsD [OF D(3) nd n(2)]
  have am: "0 \<le> pool_amount p d" for d
    unfolding pool_amount_def using ok by (intro AmountOf_nonneg) (auto simp: assets_ok_def)
  then have "\<forall>c \<in> set (PoolBalances E p). 0 \<le> Amount c"
    using PoolBalances_amount [OF D(2)] by (intro coins_sorted_entries) simp_all
  then have "AmountOf out d * PREC \<le> ?r * pool_amount p d"
    using exit_amounts_bound [OF D(1) f r(1) x] PoolBalances_amount(1) [OF D(2)] by simp
  then have "AmountOf out d * PREC * ?T \<le> ?r * pool_amount p d * ?T" using n(2) by (intro mult_right_mono) simp_all
  also have "\<dots> = ?r * ?T * pool_amount p d" by simp
  also have "\<dots> \<le> n * PREC * pool_amount p d" using r(2) am by (intro mult_right_mono) (simp_all add: NewDec_def)
  finally have "(AmountOf out d * ?T) * PREC \<le> (n * pool_amount p d) * PREC" by (simp add: algebra_simps)
  then show ?thesis by simp
qed


lemma count_denom:
  "distinct (map Denom cs) \<Longrightarrow> length (filter (\<lambda>c. Denom c = d) cs) = (if d \<in> Denom ` set cs then 1 else 0)"
  by (induction cs) auto

lemma numShares_covered:
  assumes D: "dec_laws E" "coinset_laws E" "quo_laws S" and ok: "assets_ok (PoolAssets p)"
    and cs: "\<forall>c \<in> set cs. 0 \<le> Amount c" "distinct (map Denom cs)" "length cs \<noteq> 1" "d \<in> Denom ` set cs"
    and e: "numSharesOutFromTokensIn E S p cs = Inr (n, rem)" and n: "0 < n" and T: "0 < Amount (TotalShares p)"
  shows "n * pool_amount p d \<le> Amount (TotalShares p) * (AmountOf cs d - AmountOf rem d)"
proof -
  let ?L = "PoolBalances E p" and ?T = "Amount (TotalShares p)"
  have am: "0 \<le> AmountOf ?L d" for d
    unfolding PoolBalances_amount(1) [OF D(2)] pool_amount_def using ok by (intro AmountOf_nonneg) (auto simp: assets_ok_def)
  obtain rs where rs: "share_ratios S ?L cs = Inr rs" using e cs(3) by (auto simp: numSharesOutFromTokensIn_def bindE_eq_Inr Let_def)
  define m where "m = fold min rs MaxSortableDec"
  have ratios: "\<forall>(c, r) \<in> set (zip cs rs). m \<le> r \<and> 0 \<le> AmountOf ?L (Denom c) \<and> r * AmountOf ?L (Denom c) \<le> Amount c * PREC"
    using zipped_ratios [OF D(3) am rs cs(1)] by (simp add: m_def)
  have m0: "0 \<le> m" using zipped_min [OF D(3) am rs cs(1)] by (simp add: m_def)
  have z: "map fst (zip cs rs) = cs" using share_ratios_zip [OF rs] by simp
  have cnt: "length (filter (\<lambda>c. Denom c = d) cs) = 1"
    using count_denom [OF cs(2)] cs(4) by simp
  have used: "m * AmountOf ?L d \<le> (AmountOf cs d - AmountOf (rem_coins E ?L m (zip cs rs) []) d) * PREC"
    using rem_coins_used [OF D(1,2) _ ratios, of "[]" d] z cnt by simp
  have all: "m * AmountOf ?L d \<le> AmountOf cs d * PREC"
  proof -
    obtain c where c: "c \<in> set cs" "Denom c = d" using cs(4) by blast
    have "length cs = length rs" using share_ratios_zip [OF rs] by simp
    then obtain r where "(c, r) \<in> set (zip cs rs)" using c(1) by (rule in_set_impl_in_set_zip1)
    then have r: "m \<le> r" "r * AmountOf ?L d \<le> Amount c * PREC" using ratios c(2) by auto
    have "m * AmountOf ?L d \<le> r * AmountOf ?L d" using r(1) am by (intro mult_right_mono) simp_all
    then show ?thesis using r(2) AmountOf_member [OF cs(2) c(1)] c(2) by simp
  qed
  have "n = dec_TruncateInt E (m * ?T)" and "rem = [] \<or> rem = rem_coins E ?L m (zip cs rs) []"
    using e n cs(3) rs by (auto simp: numSharesOutFromTokensIn_def Let_def m_def split: if_splits)
  then have u: "m * AmountOf ?L d \<le> (AmountOf cs d - AmountOf rem d) * PREC" and "n * PREC \<le> m * ?T"
    using used all trunc_le [OF D(1), of "m * ?T"] m0 T by auto
  then have "n * PREC * AmountOf ?L d \<le> m * ?T * AmountOf ?L d" using am by (intro mult_right_mono) simp_all
  also have "\<dots> = ?T * (m * AmountOf ?L d)" by simp
  also have "\<dots> \<le> ?T * ((AmountOf cs d - AmountOf rem d) * PREC)" using u T by (intro mult_left_mono) simp_all
  finally have "(n * pool_amount p d) * PREC \<le> (?T * (AmountOf cs d - AmountOf rem d)) * PREC"
    unfolding PoolBalances_amount(1) [OF D(2)] by (simp add: algebra_simps)
  then show ?thesis by simp
qed


lemma JoinPool_Inr:
  assumes "JoinPool E S M x i cs False s = Inr (s1, q, sh, rem)"
  shows "AddTokensToPool E S cs (read_pool s i) = Inr (q, Amount sh, rem)" and "Denom sh = Denom (TotalShares q)"
    and "kv_get (Pools s1) (pool_Id q) = Some q" and "length cs = length (PoolAssets (read_pool s i))"
    and "AreTokensInDenomInPoolAssets (read_pool s i) cs"
    and "\<exists>b a z. Coins_Sub S (coins_Sort cs) rem = Some z \<and> SendCoins S (s_sdk s) x a z = Inr b"
    and "\<exists>s2 s3. mintPoolShareToAccount S M (pool_Id q) x (Amount sh) s2 = Inr s3"
  using assms by (auto simp: JoinPool_def Let_def bindE_eq_Inr coinsSub_def getE_eq_Inr newCoin_Inr bankE_Inr SetPool_Inr(1) split: if_splits) blast

lemma covered_denoms:
  assumes "length cs = length as" and "distinct (map Denom cs)" and "set (map Denom cs) \<subseteq> set (map asset_denom as)"
  shows "set (map asset_denom as) = set (map Denom cs)"
proof -
  have "card (set (map Denom cs)) = length as" using distinct_card [OF assms(2)] assms(1) by (simp only: length_map)
  moreover have "card (set (map asset_denom as)) \<le> length as" using card_length [of "map asset_denom as"] by simp
  ultimately show ?thesis using card_seteq [OF _ assms(3)] by simp
qed


end
