(* ===== verification/Spot_Stable.thy ===== *)
theory Spot_Stable
  imports Spot_Swap
begin

text \<open>
  The stable swap invariant in 256-bit arithmetic: for a pool with equal amounts, Newton's iteration stops at once with the sum of the
  amounts, a proportional deposit gets the proportional number of shares, and above \<open>2^63\<close> units the conversion to a signed 64-bit
  number makes every further deposit fail.
\<close>

section \<open>256-bit words\<close>

definition uint_laws :: "'b spot_sdk \<Rightarrow> bool" where
  "uint_laws S \<longleftrightarrow> u_Add S = (+) \<and> u_Sub S = (-) \<and> u_Mul S = (*) \<and> u_Div S = (\<lambda>a b. if b = 0 then 0 else a div b)
     \<and> u_Abs S = (\<lambda>a. if sint a < 0 then - a else a) \<and> u_Lt S = (<)"

definition amountof_laws :: "'b spot_sdk \<Rightarrow> bool" where
  "amountof_laws S \<longleftrightarrow> (\<forall>cs d. coins_sorted cs \<longrightarrow> Coins_AmountOf S cs d = AmountOf cs d)"

lemma unat_word: "a < 2 ^ 256 \<Longrightarrow> unat (word_of_nat a :: 256 word) = a"
  by (simp add: unat_of_nat)

lemma word_div:
  assumes "a < 2 ^ 256" and "b < 2 ^ 256"
  shows "(word_of_nat a :: 256 word) div word_of_nat b = word_of_nat (a div b)"
  using assms by (simp add: word_arith_nat_div unat_word)

lemma word_nonzero: "0 < a \<Longrightarrow> a < 2 ^ 256 \<Longrightarrow> (word_of_nat a :: 256 word) \<noteq> 0"
  using unat_word [of a] by auto

lemma u_Div_nat:
  assumes "uint_laws S" and "a < 2 ^ 256" and "0 < b" and "b < 2 ^ 256"
  shows "u_Div S (word_of_nat a) (word_of_nat b) = word_of_nat (a div b)"
  using assms word_div [of a b] word_nonzero [of b] by (simp add: uint_laws_def)


section \<open>Pools with equal amounts\<close>

lemma D_next_balanced:
  assumes u: "uint_laws S" and x: "0 < x" "x < 2 ^ 63" and a: "0 < a" "a < 2 ^ 63"
  shows "D_next S 2 (word_of_nat (4 * a)) (word_of_nat (2 * x)) [word_of_nat x, word_of_nat x] (word_of_nat (2 * x)) = word_of_nat (2 * x)"
proof -
  let ?D = "word_of_nat (2 * x) :: 256 word"
  have ops: "u_Add S = (+)" "u_Sub S = (-)" "u_Mul S = (*)" using u by (simp_all add: uint_laws_def)
  have w2: "(2 :: 256 word) = word_of_nat 2" "(1 :: 256 word) = word_of_nat 1" by simp_all
  have m: "word_of_nat i * word_of_nat j = (word_of_nat (i * j) :: 256 word)" for i j by simp
  have ad: "word_of_nat i + word_of_nat j = (word_of_nat (i + j) :: 256 word)" for i j by simp
  have sb: "j \<le> i \<Longrightarrow> word_of_nat i - word_of_nat j = (word_of_nat (i - j) :: 256 word)" for i j by (simp add: of_nat_diff)
  have xx: "2 * x * (2 * x) \<le> 2 ^ 64 * 2 ^ 64" using x(2) by (intro mult_mono) simp_all
  have once: "u_Div S (?D * ?D) (word_of_nat x * 2) = ?D"
  proof -
    have "u_Div S (word_of_nat (2 * x * (2 * x))) (word_of_nat (x * 2)) = word_of_nat (2 * x * (2 * x) div (x * 2))"
      using xx x by (intro u_Div_nat [OF u]) simp_all
    then show ?thesis using x(1) unfolding w2(1) m by (simp add: mult.commute [of x 2])
  qed
  have p: "D_product S 2 [word_of_nat x, word_of_nat x] ?D = ?D" by (simp only: D_product_def fold_simps ops once)
  have big: "(4 * a + 2) * (2 * x) * (2 * x) \<le> 2 ^ 66 * (2 ^ 64 * 2 ^ 64)"
    using mult_le_mono [OF _ xx, of "4 * a + 2" "2 ^ 66"] a by (simp only: mult.assoc) simp
  have num: "(word_of_nat (4 * a) * ?D + ?D * 2) * ?D = word_of_nat ((4 * a + 2) * (2 * x) * (2 * x))"
    unfolding w2(1) m ad by (simp add: algebra_simps)
  have den: "(2 + 1) * ?D + (word_of_nat (4 * a) - 1) * ?D = word_of_nat ((4 * a + 2) * (2 * x))"
  proof -
    have "(2 + 1) * ?D + (word_of_nat (4 * a) - 1) * ?D = word_of_nat ((2 + 1) * (2 * x) + (4 * a - 1) * (2 * x))"
      unfolding w2 ad using a(1) by (simp only: sb m ad One_nat_def)
    also have "(2 + 1) * (2 * x) + (4 * a - 1) * (2 * x) = (4 * a + 2) * (2 * x)"
      unfolding distrib_right [symmetric] using a(1) by (intro arg_cong [of _ _ "\<lambda>k. k * (2 * x)"]) simp
    finally show ?thesis .
  qed
  have lt: "(4 * a + 2) * (2 * x) < 2 ^ 256"
  proof -
    have "(4 * a + 2) * (2 * x) \<le> 2 ^ 66 * 2 ^ 64" using a x by (intro mult_mono) simp_all
    then show ?thesis by (rule order_le_less_trans) simp
  qed
  have "D_next S 2 (word_of_nat (4 * a)) ?D [word_of_nat x, word_of_nat x] ?D
      = u_Div S (word_of_nat ((4 * a + 2) * (2 * x) * (2 * x))) (word_of_nat ((4 * a + 2) * (2 * x)))"
    unfolding D_next_def Let_def p ops num den ..
  also have "\<dots> = word_of_nat ((4 * a + 2) * (2 * x) * (2 * x) div ((4 * a + 2) * (2 * x)))"
    using big lt x(1) by (intro u_Div_nat [OF u]) simp_all
  also have "(4 * a + 2) * (2 * x) * (2 * x) div ((4 * a + 2) * (2 * x)) = 2 * x" using x(1) by simp
  finally show ?thesis .
qed

lemma D_loop_stops:
  assumes "uint_laws S" and "D_next S n Ann s ts D = D"
  shows "D_loop S n Ann s ts (Suc k) D = D"
proof -
  have "u_Sub S D D = 0" "u_Abs S 0 = 0" "u_Lt S 0 2" using assms(1) by (simp_all add: uint_laws_def)
  then show ?thesis unfolding D_loop.simps(2) Let_def assms(2) by (simp only: if_True)
qed

lemma u256_of_int: "0 \<le> n \<Longrightarrow> n < 2 ^ 64 \<Longrightarrow> u256 (word_of_int n) = word_of_nat (nat n)"
proof -
  assume "0 \<le> n" and "n < 2 ^ 64"
  then have "uint (word_of_int n :: 64 word) = n" by (simp add: uint_word_of_int)
  then have "unat (word_of_int n :: 64 word) = nat n" by (simp only: unat_eq_nat_uint)
  then show ?thesis by (simp only: u256_def)
qed

lemma GetD_balanced:
  assumes u: "uint_laws S" and A: "pp_A (PoolParams p) = Some A" "0 < A" "A < 2 ^ 63"
    and as: "map (\<lambda>a. Amount (Token a)) as = [x, x]" and x: "0 < x" "x < 2 ^ 63"
  shows "GetD S p as = Inr (word_of_nat (nat (2 * x)))"
proof -
  obtain a b where ab: "as = [a, b]" "Amount (Token a) = x" "Amount (Token b) = x" using as by auto
  have g: "getA p = Inr (word_of_nat (nat A))" using A u256_of_int [of A] by (simp add: getA_def int_Int64_def)
  have t: "token_amounts as = Inr [word_of_nat (nat x), word_of_nat (nat x)]"
    using ab x u256_of_int [of x] by (simp add: int_Uint64_def)
  have four: "pow_nn 2 = 4" by (simp add: pow_nn_def u256_def)
  have ann: "u_Mul S (word_of_nat (nat A)) 4 = word_of_nat (4 * nat A)" using u by (simp add: uint_laws_def)
  have sm: "fold (\<lambda>x acc. u_Add S acc x) [word_of_nat (nat x), word_of_nat (nat x)] 0 = (word_of_nat (2 * nat x) :: 256 word)"
    using u by (simp add: uint_laws_def)
  have two: "word_of_nat 2 = (2 :: 256 word)" "length as = 2" using ab by simp_all
  have k: "(255 :: nat) = Suc 254" by simp
  have "GetD S p as = Inr (D_loop S 2 (word_of_nat (4 * nat A)) (word_of_nat (2 * nat x)) [word_of_nat (nat x), word_of_nat (nat x)] 255
      (word_of_nat (2 * nat x)))"
    by (simp only: GetD_def Let_def two g t bindE_Inr four ann sm)
  also have "\<dots> = Inr (word_of_nat (2 * nat x))"
    unfolding k by (rule arg_cong [where f = Inr], rule D_loop_stops [OF u], rule D_next_balanced [OF u]) (use x A in auto)
  finally show ?thesis using x(1) by (simp add: nat_mult_distrib)
qed


section \<open>Deposits\<close>

lemma sint_large:
  assumes "2 ^ 63 \<le> unat (w :: 64 word)"
  shows "sint w = int (unat w) - 2 ^ 64"
proof -
  have e: "int (unat w) = uint w" by simp
  have "int (2 ^ 63) \<le> int (unat w)" using assms by (simp only: of_nat_le_iff)
  then have u: "2 ^ 63 \<le> uint w" "uint w < 2 ^ 64" unfolding e using uint_lt2p [of w] by simp_all
  then have "uint w div 2 ^ 63 = 1" by (intro int_div_pos_eq [of _ _ _ "uint w - 2 ^ 63"]) simp_all
  then have b: "bit (uint w) 63" by (simp add: bit_iff_odd)
  have "sint w = take_bit (Suc 63) (uint w) - 2 ^ Suc 63 * of_bool (bit (uint w) 63)"
    using signed_take_bit_eq_take_bit_minus [of 63 "uint w"] by (simp add: sint_uint)
  then show ?thesis unfolding e using u b by (simp add: take_bit_int_eq_self)
qed

lemma signed_low_nat:
  assumes "0 \<le> n" and "n < 2 ^ 64"
  shows "signed_low (word_of_nat (nat n)) = (if n < 2 ^ 63 then n else n - 2 ^ 64)"
proof -
  have n: "nat n < 2 ^ 64" using assms by (simp add: nat_less_iff)
  then have "unat (word_of_nat (nat n) :: 256 word) = nat n" by (intro unat_word) simp
  then have s: "signed_low (word_of_nat (nat n)) = sint (word_of_nat (nat n) :: 64 word)" by (simp only: signed_low_def)
  have u: "unat (word_of_nat (nat n) :: 64 word) = nat n" using n by (simp add: unat_of_nat)
  show ?thesis
  proof (cases "n < 2 ^ 63")
    case True
    then have "nat n < 2 ^ 63" using assms(1) by (simp add: nat_less_iff)
    then have "sint (word_of_nat (nat n) :: 64 word) = int (nat n)" using sint_small [of "word_of_nat (nat n)"] unfolding u by simp
    then show ?thesis unfolding s using True assms(1) by simp
  next
    case False
    then have "2 ^ 63 \<le> nat n" by (simp add: le_nat_iff)
    then have "sint (word_of_nat (nat n) :: 64 word) = int (nat n) - 2 ^ 64" using sint_large [of "word_of_nat (nat n)"] unfolding u by simp
    then show ?thesis unfolding s using False assms(1) by simp
  qed
qed

lemma deposit_balanced:
  assumes "\<forall>a \<in> set as. Coins_AmountOf S cs (asset_denom a) = k" and "map (\<lambda>a. Amount (Token a)) as = [x, x]" and "0 \<le> x" and "0 \<le> k"
  shows "\<exists>as'. deposit_assets S cs as = Inr as' \<and> map (\<lambda>a. Amount (Token a)) as' = [x + k, x + k]"
proof -
  obtain a b where ab: "as = [a, b]" "Amount (Token a) = x" "Amount (Token b) = x" using assms(2) by auto
  show ?thesis using assms(1,3,4) by (cases "k = 0") (simp_all add: ab newCoin_def)
qed

lemma stable_shares:
  assumes u: "uint_laws S" and A: "pp_A (PoolParams p) = Some A" "0 < A" "A < 2 ^ 63"
    and as: "map (\<lambda>a. Amount (Token a)) (PoolAssets p) = [x, x]" "0 < x"
    and cs: "\<forall>a \<in> set (PoolAssets p). Coins_AmountOf S cs (asset_denom a) = k" "0 \<le> k" "x + k < 2 ^ 63"
  shows "numSharesOutFromTokensInStableSwap S p cs =
    (let D0 = (if x < 2 ^ 62 then 2 * x else 2 * x - 2 ^ 64); D1 = (if x + k < 2 ^ 62 then 2 * (x + k) else 2 * (x + k) - 2 ^ 64) in
     if D1 < D0 then Inl ErrInvariantLowerAfterJoining else Inr (go_quo (Amount (TotalShares p) * (D1 - D0)) D0))"
proof -
  obtain as' where as': "deposit_assets S cs (PoolAssets p) = Inr as'" "map (\<lambda>a. Amount (Token a)) as' = [x + k, x + k]"
    using deposit_balanced [OF cs(1) as(1)] as(2) cs(2) by auto
  have g0: "GetD S p (PoolAssets p) = Inr (word_of_nat (nat (2 * x)))" using cs(2,3) by (intro GetD_balanced [OF u A as]) simp
  have g1: "GetD S p as' = Inr (word_of_nat (nat (2 * (x + k))))" using as(2) cs(2,3) by (intro GetD_balanced [OF u A as'(2)]) simp_all
  have s0: "signed_low (word_of_nat (nat (2 * x))) = (if x < 2 ^ 62 then 2 * x else 2 * x - 2 ^ 64)"
    using signed_low_nat [of "2 * x"] as(2) cs(2,3) by simp
  have s1: "signed_low (word_of_nat (nat (2 * (x + k)))) = (if x + k < 2 ^ 62 then 2 * (x + k) else 2 * (x + k) - 2 ^ 64)"
    using signed_low_nat [of "2 * (x + k)"] as(2) cs(2,3) by simp
  have nz: "(if x < 2 ^ 62 then 2 * x else 2 * x - 2 ^ 64) \<noteq> 0" using as(2) cs(2,3) by simp
  show ?thesis unfolding numSharesOutFromTokensInStableSwap_def g0 g1 as'(1) bindE_Inr Let_def s0 s1 using nz by simp
qed

text \<open>
  A deposit of the same amount \<open>k\<close> of both assets into a stable swap pool that holds \<open>x\<close> of each issues \<open>shares * k div x\<close> shares, for any
  amplification, as long as the invariant stays below \<open>2^63\<close>.
\<close>

theorem stable_balanced_join:
  assumes "uint_laws S" and "amountof_laws S" and "pp_A (PoolParams p) = Some A" and "0 < A" and "A < 2 ^ 63"
    and "map (\<lambda>a. Amount (Token a)) (PoolAssets p) = [x, x]" and "0 < x" and "0 \<le> Amount (TotalShares p)"
    and "coins_sorted cs" and "\<forall>a \<in> set (PoolAssets p). AmountOf cs (asset_denom a) = k" and "0 \<le> k" and "x + k < 2 ^ 62"
  shows "numSharesOutFromTokensInStableSwap S p cs = Inr (Amount (TotalShares p) * k div x)"
proof -
  have am: "\<forall>a \<in> set (PoolAssets p). Coins_AmountOf S cs (asset_denom a) = k" using assms(2,9,10) by (simp add: amountof_laws_def)
  have "x + k < 2 ^ 63" using assms(12) by simp
  note st = stable_shares [OF assms(1,3-7) am assms(11) this]
  have "go_quo (Amount (TotalShares p) * (2 * k)) (2 * x) = Amount (TotalShares p) * (2 * k) div (2 * x)"
    using assms(7,8,11) by (intro go_quo_nonneg) simp_all
  moreover have "Amount (TotalShares p) * (2 * k) div (2 * x) = Amount (TotalShares p) * k div x"
    using div_mult_mult1 [of 2 "Amount (TotalShares p) * k" x] by (simp only: mult.left_commute [of 2])
  ultimately show ?thesis unfolding st Let_def using assms(7,11,12) by simp
qed


end
