(* ===== verification/Spot_Findings.thy ===== *)
theory Spot_Findings
  imports Spot_Stable
begin

text \<open>
  The search and the construction of pools as they are promised, and the places where the spot module does something else than
  it means to: pairs whose names run into each other, exports without pools.
\<close>

section \<open>Search and construction\<close>

text \<open>
  C34: on assets sorted by denomination the binary search gives the index and the asset that a scan from the left finds,
  and the error of an unknown denomination when there is none.
\<close>

theorem getPoolAssetAndIndex_is_scan:
  assumes "assets_sorted (PoolAssets pool)"
  shows "getPoolAssetAndIndex pool d =
    (if d = [] then Inl (SpotError ''empty denom'')
     else if PoolAssets pool = [] then Inl (SpotError ''empty pool assets'')
     else getE ErrTokenDenomNotFound (scan_assets 0 d (PoolAssets pool)))"
  using getPoolAssetAndIndex_scan [OF assms, of d] by (simp add: getPoolAssetAndIndex_def)

text \<open>
  C35: a pool that is created holds exactly the given coins, sorted by distinct denominations, with positive amounts and weights, the sum of the
  weights and the initial shares; the weights are the given ones times \<open>2^30\<close>.
\<close>

theorem new_pool_well_formed:
  assumes "types_NewPool i addr params as = Inr p"
  shows "assets_sorted (PoolAssets p) \<and> mset (PoolAssets p) = mset (map (\<lambda>a. a\<lparr>Weight := Weight a * 2 ^ 30\<rparr>) as)
    \<and> (\<forall>a \<in> set (PoolAssets p). 0 < Amount (Token a) \<and> 0 < Weight a \<and> Weight a < 2 ^ 80)
    \<and> TotalWeight p = sum_list (map Weight (PoolAssets p))
    \<and> TotalShares p = \<lparr>Denom = GetPoolShareBaseDenom i, Amount = 10 ^ 20\<rparr> \<and> PoolParams p = params \<and> pool_Id p = i"
proof -
  note n = types_NewPool_Inr [OF assms]
  have "scaled = (\<lambda>a. a\<lparr>Weight := Weight a * 2 ^ 30\<rparr>)" by (simp add: scaled_def fun_eq_iff GuaranteedWeightPrecision_def)
  then have m: "mset (PoolAssets p) = mset (map (\<lambda>a. a\<lparr>Weight := Weight a * 2 ^ 30\<rparr>) as)" by (simp add: n(5))
  have w: "0 < Amount (Token a) \<and> 0 < Weight a \<and> Weight a < 2 ^ 80" if a: "a \<in> set (PoolAssets p)" for a
  proof -
    obtain b where "b \<in> set as" "a = scaled b" using a by (auto simp: n(5))
    then show ?thesis using n(8) by (auto simp: PoolAsset_Validate_Inr scaled_def MaxUserSpecifiedWeight_def GuaranteedWeightPrecision_def)
  qed
  show ?thesis using n(1,3,4,6,7) m w by (simp add: InitPoolSharesSupply_def)
qed


section \<open>Names that run into each other\<close>

text \<open>
  The index of pools by pair concatenates the two denominations.  Once a pool is stored, a pool for another pair whose names
  concatenate to the same text is refused as existing already.
\<close>

theorem concatenated_names_block_pool:
  assumes "SetPool p s = Inr s'" and "length (PoolAssets p) = 2" and "s_Params s = Some params" and "length as = 2"
    and "concat (sort (map asset_denom (PoolAssets p))) = concat (sort (map asset_denom as))"
    and "areAllAssetsWhitelisted params as"
  shows "NewPool E S M x pp as s' = Inl ErrPoolWithSameAssetsExists"
proof -
  obtain a b where p: "PoolAssets p = [a, b]" using assms(2) by (auto simp: numeral_2_eq_2 length_Suc_conv)
  obtain c e where as: "as = [c, e]" using assms(4) by (auto simp: numeral_2_eq_2 length_Suc_conv)
  have s': "Pools s' = kv_insert (pool_Id p) p (Pools s)" by (rule SetPool_Inr(1) [OF assms(1)])
  have i: "kv_get (PoolIds s') (GetDenomPrefixPoolIds [asset_denom a, asset_denom b]) = Some (pool_Id p)"
    and q: "s_Params s' = Some params"
    using assms(1,3) by (auto simp: SetPool_def SetPoolIdByDenom_def p)
  have k: "GetDenomPrefixPoolIds [asset_denom a, asset_denom b] = GetDenomPrefixPoolIds [asset_denom c, asset_denom e]"
    using assms(5) by (simp only: GetDenomPrefixPoolIds_def p as list.map)
  have "FetchPool s' (pool_Id p) = Inr p" by (simp add: FetchPool_def read_pool_def s' p)
  then have "FetchPoolFromPair s' (asset_denom c) (asset_denom e) = Inr p" using i by (simp add: FetchPoolFromPair_def k)
  then show ?thesis using assms(6) q by (simp add: NewPool_def as MinPoolAssets_def MaxPoolAssets_def spot_GetParams_def)
qed


section \<open>Further findings\<close>

text \<open>The export keeps the parameters only: after an import no pool is left and the numbers of the pools are given out again.\<close>

lemma export_loses_pools:
  assumes "spot_ExportGenesis s = Inr g" and "spot_InitGenesis g s0 = Inr s1"
  shows "Pools s1 = Pools s0 \<and> TotalLiquidity s1 = TotalLiquidity s0 \<and> NextPoolNumber s1 = Some (StartingPoolNumber g)"
  using assms by (auto simp: spot_InitGenesis_def spot_SetParams_def SetNextPoolNumber_def bindE_eq_Inr)

end
