(* ===== verification/Inflation_Examples.thy ===== *)
theory Inflation_Examples
  imports Inflation_Schedule
begin

text \<open>
  The contracts of the inflation module hold on the concrete chain, and its theorems at concrete states.
\<close>

section \<open>A concrete mint\<close>

primrec ref_power :: "dec \<Rightarrow> nat \<Rightarrow> dec" where
  "ref_power x 0 = OneDec"
| "ref_power x (Suc n) = dec_Mul ref_dec (ref_power x n) x"

definition ref_mint :: "ref_chain mint_sdk" where
  "ref_mint = \<lparr>
     bank_MintCoins = (\<lambda>b m cs. if coins_valid cs
       then Inr (b\<lparr>rc_balances := fold (tadd (ledger_module m)) cs (rc_balances b), rc_supply := (\<lambda>d. rc_supply b d + AmountOf cs d)\<rparr>)
       else Inl ''invalid coins''),
     FundCommunityPool = (\<lambda>b cs a. on_balances (tsend (rc_balances b) a (ledger_module ''distribution'') cs) b),
     GetSupply = rc_supply,
     dec_Power = ref_power\<rparr>"

lemma ref_mint_sel [simp]:
  "GetSupply ref_mint = rc_supply" "dec_Power ref_mint = ref_power"
  by (simp_all add: ref_mint_def)

lemma ref_power_laws: "power_laws ref_mint"
proof -
  note L = dec_lawsD [OF ref_chain_dec_laws, simplified]
  have "0 \<le> ref_power x n \<and> ref_power x n \<le> OneDec" if x: "0 \<le> x" "x \<le> OneDec" for x n
  proof (induction n)
    case (Suc n)
    have "dec_Mul ref_dec (ref_power x n) x \<le> dec_Mul ref_dec OneDec x" using sdk_decimal.mul_mono [OF L _ x(1)] Suc by blast
    also have "\<dots> = x" using sdk_decimal.mul_One [OF L, of x] sdk_decimal.mul_comm [OF L, of OneDec x] by simp
    finally show ?case using Suc x sdk_decimal.mul_nonneg [OF L, of "ref_power x n" x] by simp
  qed (simp add: OneDec_def)
  then show ?thesis by (simp add: power_laws_def)
qed

interpretation ref_bank: mint_bank "GetBalance ref_chain_sdk" "GetAllBalances ref_chain_sdk" "GetModuleAddress ref_chain_sdk"
    "SendCoins_ModuleToModule ref_chain_sdk" "bank_MintCoins ref_mint" "FundCommunityPool ref_mint" "GetSupply ref_mint"
    "ledger_module ''distribution''"
proof (intro mint_bank.intro mint_bank_axioms.intro, goal_cases)
  case 1
  show ?case by (rule coins_lawsD [OF ref_chain_coins_laws])
next
  case (2 b m cs b')
  then show ?case by (auto simp: ref_mint_def tbal_fold_tadd fun_eq_iff split: if_splits)
next
  case (3 cs b)
  then show ?case by (simp add: ref_mint_def)
next
  case (4 b cs a b')
  then show ?case
    by (auto simp: ref_mint_def on_balances_def bindE_eq_Inr tsend_def tbal_fold_tadd tbal_fold_tsub not_less move_coins_def fun_eq_iff
        split: if_splits)
next
  case (5 cs b a)
  have "\<not> (\<exists>c \<in> set cs. tbal (rc_balances b) a (Denom c) < Amount c)"
    using 5(2) AmountOf_member [OF coins_valid_distinct [OF 5(1)]] by (metis leD ref_chain_sel(9))
  with 5(1) show ?case by (simp add: ref_mint_def tsend_def on_balances_def)
next
  case (6 b m n cs b')
  then show ?case by (auto simp: on_balances_def bindE_eq_Inr)
qed

lemma ref_mint_laws: "mint_laws ref_chain_sdk ref_mint (ledger_module ''distribution'')"
  unfolding mint_laws_def by (rule ref_bank.mint_bank_axioms)

lemma ref_infl_accounts: "infl_accounts ref_chain_sdk ''fee_collector'' (ledger_module ''distribution'')"
  by code_simp


section \<open>Witnesses\<close>

definition ex_supply_chain :: ref_chain where
  "ex_supply_chain = \<lparr>rc_balances = [], rc_validators = [], rc_slashed = [], rc_jailed = [], rc_allocated = (\<lambda>_ _. 0), rc_supply = (\<lambda>_. 0)\<rparr>"

definition ex_inflation :: "ref_chain infl_state" where
  "ex_inflation = \<lparr>i_Params = Some infl_DefaultParams, CurrentPeriod = 0, NumSkippedEpochs = 0, i_sdk = ex_supply_chain, i_events = []\<rparr>"

lemma default_params_valid: "infl_Params_Validate infl_DefaultParams = Inr ()"
  by code_simp

lemma default_epochs: "unat (EpochsPerPeriod infl_DefaultParams) = 365"
  by (simp add: infl_DefaultParams_def)

theorem CalculateEpochMintProvision_bounds_witness:
  "0 \<le> CalculateEpochMintProvision ref_chain_sdk ref_mint infl_DefaultParams 3"
  using CalculateEpochMintProvision_bounds [OF ref_chain_dec_laws ref_power_laws default_params_valid, of 3]
  by (simp add: default_epochs Let_def)

theorem infl_AfterEpochEnd_mints_witness:
  "\<exists>s. infl_AfterEpochEnd ref_chain_sdk ref_mint ''fee_collector'' DayEpochID 1 ex_inflation = Inr s
     \<and> GetSupply ref_mint (i_sdk s) NIBI = minted ref_chain_sdk ref_mint infl_DefaultParams 0"
proof -
  have p: "i_Params ex_inflation = Some infl_DefaultParams" "CurrentPeriod ex_inflation = 0" "InflationEnabled infl_DefaultParams"
    "GetSupply ref_mint (i_sdk ex_inflation) NIBI = 0"
    by (simp_all add: ex_inflation_def infl_DefaultParams_def ex_supply_chain_def)
  have "0 < minted ref_chain_sdk ref_mint infl_DefaultParams 0" by code_simp
  then have m: "0 < minted ref_chain_sdk ref_mint infl_DefaultParams (CurrentPeriod ex_inflation)" unfolding p(2) .
  show ?thesis
    using infl_AfterEpochEnd_mints [OF ref_chain_dec_laws ref_mint_laws ref_infl_accounts p(1) default_params_valid p(3) m, of 1]
    unfolding Let_def p(2,4) by auto
qed

definition ex_tiny :: infl_params where
  "ex_tiny = infl_DefaultParams\<lparr>ExponentialCalculation := \<lparr>ec_A = 0, ec_R = 0, ec_C = 365\<rparr>\<rparr>"

theorem infl_AfterEpochEnd_panics_witness:
  "infl_AfterEpochEnd ref_chain_sdk ref_mint ''fee_collector'' DayEpochID 1 (ex_inflation\<lparr>i_Params := Some ex_tiny\<rparr>) = Inl NilAmount"
proof (rule infl_AfterEpochEnd_panics [OF ref_chain_dec_laws, where p = ex_tiny])
  show "i_Params (ex_inflation\<lparr>i_Params := Some ex_tiny\<rparr>) = Some ex_tiny" by simp
  show "InflationEnabled ex_tiny" by code_simp
  show "0 < CalculateEpochMintProvision ref_chain_sdk ref_mint ex_tiny (CurrentPeriod (ex_inflation\<lparr>i_Params := Some ex_tiny\<rparr>))" by code_simp
  show "CalculateEpochMintProvision ref_chain_sdk ref_mint ex_tiny (CurrentPeriod (ex_inflation\<lparr>i_Params := Some ex_tiny\<rparr>)) < PREC" by code_simp
qed

theorem inflation_schedule_witness:
  "\<exists>s. infl_days ref_chain_sdk ref_mint ''fee_collector'' infl_DefaultParams (replicate 10 False @ replicate 366 True) 1 ex_inflation = Inr s
     \<and> NumSkippedEpochs s = 10 \<and> CurrentPeriod s = 1"
proof -
  let ?days = "replicate 10 False @ replicate 366 True"
  have "int 365 * PREC \<le> (ec_C (ExponentialCalculation infl_DefaultParams) - int 365) * DefaultPowerReduction" by code_simp
  then have c: "int (unat (EpochsPerPeriod infl_DefaultParams)) * PREC
      \<le> (ec_C (ExponentialCalculation infl_DefaultParams) - int (unat (EpochsPerPeriod infl_DefaultParams))) * DefaultPowerReduction"
    unfolding default_epochs .
  have z: "CurrentPeriod ex_inflation = 0" "NumSkippedEpochs ex_inflation = 0" by (simp_all add: ex_inflation_def)
  have "length (filter (\<lambda>on. on) ?days) = 366" "length (filter Not ?days) = 10" by simp_all
  then show ?thesis
    using inflation_schedule [OF ref_chain_dec_laws ref_mint_laws ref_infl_accounts default_params_valid _ ref_power_laws c z, of ?days]
    unfolding default_epochs by auto
qed

theorem zero_epochs_per_period_accepted_witness:
  "\<exists>s. infl_SetParams (infl_DefaultParams\<lparr>EpochsPerPeriod := 0\<rparr>) ex_inflation = Inr s
     \<and> infl_AfterEpochEnd ref_chain_sdk ref_mint ''fee_collector'' DayEpochID 1 s = Inr s"
proof -
  have "InflationEnabled infl_DefaultParams" by (simp add: infl_DefaultParams_def)
  then show ?thesis
    using zero_epochs_per_period_accepted [OF default_params_valid, of ex_inflation ref_chain_sdk ref_mint "''fee_collector''" 1] by blast
qed

definition ex_block_at :: "int \<Rightarrow> block_ctx" where
  "ex_block_at t = \<lparr>BlockHeight = 1, BlockTime = t\<rparr>"

theorem default_genesis_never_mints_witness:
  "\<exists>es s. epochs_InitGenesis (ex_block_at 0) epochs_DefaultGenesis [] = Inr es
     \<and> run_blocks [infl_Hooks ref_chain_sdk ref_mint ''fee_collector''] [ex_block_at 1, ex_block_at 604800000000001]
          \<lparr>Epochs = es, epoch_events = [], hook_state = ex_inflation\<rparr> = Inr s \<and> hook_state s = ex_inflation"
proof -
  let ?g = "epochs_InitGenesis (ex_block_at 0) epochs_DefaultGenesis []"
  let ?run = "\<lambda>es. run_blocks [infl_Hooks ref_chain_sdk ref_mint ''fee_collector''] [ex_block_at 1, ex_block_at 604800000000001]
      \<lparr>Epochs = es, epoch_events = [], hook_state = ex_inflation\<rparr>"
  have "case ?g of Inl _ \<Rightarrow> False | Inr es \<Rightarrow> (case ?run es of Inl _ \<Rightarrow> False | Inr _ \<Rightarrow> True)" by code_simp
  then obtain es s where g: "?g = Inr es" "?run es = Inr s" by (auto split: sum.splits)
  show ?thesis using g default_genesis_never_mints [OF g(1) _ g(2)] by auto
qed

end
