(* ===== verification/Spot_Examples.thy ===== *)
theory Spot_Examples
  imports Spot_Findings Inflation_Examples
begin

text \<open>
  The contracts of the spot module hold on the concrete chain, and its theorems at concrete states.
\<close>

section \<open>A concrete bank\<close>

definition ref_sub :: "coin list \<Rightarrow> coin list \<Rightarrow> coin list option" where
  "ref_sub x y =
     (let z = (if y = [] then filter (\<lambda>c. Amount c \<noteq> 0) x
               else ref_coins (\<lambda>d. AmountOf x d - AmountOf y d) (map Denom (x @ y)))
      in if list_ex (\<lambda>c. Amount c < 0) z then None else Some z)"

definition ref_newcoins :: "coin list \<Rightarrow> coin list option" where
  "ref_newcoins x =
     (let z = ref_coins (AmountOf x) (map Denom x) in
      if list_ex (\<lambda>c. Amount c < 0) x \<or> \<not> distinct (map Denom x) then None else Some z)"

definition ref_burn :: "ref_chain \<Rightarrow> string \<Rightarrow> coin list \<Rightarrow> string + ref_chain" where
  "ref_burn b m cs =
     (if \<not> coins_valid cs then Inl ''invalid coins''
      else if \<exists>c \<in> set cs. tbal (rc_balances b) (ledger_module m) (Denom c) < Amount c then Inl ''insufficient funds''
      else Inr (b\<lparr>rc_balances := fold (tsub (ledger_module m)) cs (rc_balances b), rc_supply := (\<lambda>d. rc_supply b d - AmountOf cs d)\<rparr>))"

definition ref_spot :: "ref_chain spot_sdk" where
  "ref_spot = \<lparr>
     SendCoins = (\<lambda>b x y cs. on_balances (tsend (rc_balances b) x y cs) b),
     SendCoins_ModuleToAccount = (\<lambda>b m y cs. on_balances (tsend (rc_balances b) (ledger_module m) y cs) b),
     SendCoins_AccountToModule = (\<lambda>b x m cs. on_balances (tsend (rc_balances b) x (ledger_module m) cs) b),
     BurnCoins = ref_burn,
     SpendableCoins = (\<lambda>b. tall (rc_balances b)),
     NewModuleAccount = (\<lambda>b name. (b, ledger_module name)),
     SetDenomMetaData = (\<lambda>b base display. b),
     Coins_Sub = ref_sub,
     Coins_IsAllGTE = (\<lambda>x y. list_all (\<lambda>c. Amount c \<le> AmountOf x (Denom c)) y),
     NewCoins_of = ref_newcoins,
     Coins_AmountOf = AmountOf,
     dec_QuoInt = go_quo,
     dec_ApproxSqrt = (\<lambda>x. if x < 0 then None else Some (isqrt (x * PREC))),
     u_Add = (+), u_Sub = (-), u_Mul = (*), u_Div = (\<lambda>a b. if b = 0 then 0 else a div b),
     u_Abs = (\<lambda>a. if sint a < 0 then - a else a), u_Lt = (<)\<rparr>"

lemma tsend_moves:
  assumes "tsend t x y cs = Inr t'"
  shows "coins_valid cs" and "tbal t' = move_coins x y cs (tbal t)"
  using assms by (auto simp: tsend_def tbal_fold_tadd tbal_fold_tsub not_less move_coins_def fun_eq_iff split: if_splits)

lemma ref_send_ok:
  assumes "on_balances (tsend (rc_balances b) x y cs) b = Inr b'"
  shows "coins_valid cs \<and> tbal (rc_balances b') = move_coins x y cs (tbal (rc_balances b)) \<and> rc_supply b' = rc_supply b"
  using assms tsend_moves [of "rc_balances b" x y cs] by (auto simp: on_balances_def bindE_eq_Inr)

lemma ref_sub_ok:
  assumes "ref_sub x y = Some z"
  shows "AmountOf z d = AmountOf x d - AmountOf y d" and "c \<in> set z \<Longrightarrow> 0 < Amount c"
proof -
  have n: "0 \<le> Amount c" if "c \<in> set z" for c using assms that by (auto simp: ref_sub_def Let_def list_ex_iff split: if_splits)
  have f: "AmountOf (filter (\<lambda>c. Amount c \<noteq> 0) x) d = AmountOf x d" by (induction x) auto
  have r: "AmountOf (ref_coins (\<lambda>d. AmountOf x d - AmountOf y d) (map Denom (x @ y))) d = AmountOf x d - AmountOf y d"
    by (rule AmountOf_ref_coins) (use AmountOf_nonzero [of x d] AmountOf_nonzero [of y d] in \<open>cases "AmountOf x d = 0"; auto\<close>)
  show "AmountOf z d = AmountOf x d - AmountOf y d" using assms f r by (auto simp: ref_sub_def Let_def split: if_splits)
  assume c: "c \<in> set z"
  have "Amount c \<noteq> 0" using assms c by (auto simp: ref_sub_def Let_def ref_coins_def split: if_splits)
  then show "0 < Amount c" using n [OF c] by simp
qed

lemma ref_newcoins_ok:
  assumes "ref_newcoins x = Some z"
  shows "coins_valid z" and "AmountOf z d = AmountOf x d"
proof -
  have z: "z = ref_coins (AmountOf x) (map Denom x)" and n: "\<forall>c \<in> set x. 0 \<le> Amount c"
    using assms by (auto simp: ref_newcoins_def Let_def list_ex_iff not_less split: if_splits)
  have "Amount c = AmountOf x (Denom c) \<and> Amount c \<noteq> 0" if "c \<in> set z" for c using that by (auto simp: z ref_coins_def)
  then have "\<forall>c \<in> set z. 0 < Amount c" using AmountOf_nonneg [OF n] by (metis less_le)
  then show "coins_valid z" by (simp add: coins_valid_def z ref_coins_sorted)
  show "AmountOf z d = AmountOf x d" unfolding z by (rule AmountOf_ref_coins) (use AmountOf_nonzero [of x d] in auto)
qed

lemma ref_burn_ok:
  assumes "ref_burn b m cs = Inr b'"
  shows "tbal (rc_balances b') = (\<lambda>a d. tbal (rc_balances b) a d - (if a = ledger_module m then AmountOf cs d else 0))"
    and "rc_supply b' = (\<lambda>d. rc_supply b d - AmountOf cs d)"
  using assms by (auto simp: ref_burn_def tbal_fold_tsub not_less fun_eq_iff split: if_splits)

interpretation ref_spot_bank: spot_bank "GetBalance ref_chain_sdk" "GetAllBalances ref_chain_sdk" "GetModuleAddress ref_chain_sdk"
    "SendCoins_ModuleToModule ref_chain_sdk" "bank_MintCoins ref_mint" "FundCommunityPool ref_mint" "GetSupply ref_mint"
    "ledger_module ''distribution''" "SendCoins ref_spot" "SendCoins_ModuleToAccount ref_spot" "SendCoins_AccountToModule ref_spot"
    "BurnCoins ref_spot" "NewModuleAccount ref_spot" "SetDenomMetaData ref_spot" "AccAddressString ref_chain_sdk"
    "AccAddressFromBech32 ref_chain_sdk" "Coins_Sub ref_spot" "NewCoins_of ref_spot"
proof (intro spot_bank.intro spot_bank_axioms.intro, goal_cases)
  case 1 show ?case by (rule ref_bank.mint_bank_axioms)
next
  case (2 b x y cs b') then show ?case using ref_send_ok by (simp add: ref_spot_def)
next
  case (3 b m y cs b') then show ?case using ref_send_ok by (simp add: ref_spot_def)
next
  case (4 b x m cs b') then show ?case using ref_send_ok by (simp add: ref_spot_def)
next
  case (5 b m cs b') then show ?case using ref_burn_ok by (simp add: ref_spot_def)
next
  case (6 b m cs b') then show ?case by (auto simp: ref_mint_def split: if_splits)
next
  case (7 b cs a b') then show ?case using ref_send_ok by (auto simp: ref_mint_def)
next
  case (8 b name b' a) then show ?case by (auto simp: ref_spot_def)
next
  case 9 show ?case by (simp add: ref_spot_def)
next
  case (10 m n) then show ?case by (simp add: ledger_module_def)
next
  case 11 show ?case by (simp add: ref_chain_sdk_def)
next
  case 12 show ?case by (simp add: ref_chain_sdk_def)
next
  case (13 u v z d) then show ?case using ref_sub_ok by (simp add: ref_spot_def)
next
  case (14 u z) then show ?case by (auto simp: ref_spot_def ref_sub_def Let_def split: if_splits)
next
  case (15 u z d) then show ?case using ref_newcoins_ok by (simp add: ref_spot_def)
qed

lemma ref_spot_laws: "spot_laws ref_chain_sdk ref_spot ref_mint (ledger_module ''distribution'')"
  unfolding spot_laws_def by (rule ref_spot_bank.spot_bank_axioms)

lemma ref_quo_laws: "quo_laws ref_spot"
  using go_quo_remainder by (simp add: quo_laws_def ref_spot_def)

lemma ref_uint_laws: "uint_laws ref_spot"
  by (simp add: uint_laws_def ref_spot_def)

lemma ref_amountof_laws: "amountof_laws ref_spot"
  by (simp add: amountof_laws_def ref_spot_def)


section \<open>A chain with a pool\<close>

definition ex_spot0 :: "ref_chain spot_state" where
  "ex_spot0 = \<lparr>s_Params = None, NextPoolNumber = None, Pools = [], PoolIds = [], TotalLiquidity = [],
     s_sdk = ex_supply_chain\<lparr>rc_balances :=
       [((''alice'', NIBI), 10 ^ 12), ((''alice'', NUSD), 10 ^ 12), ((''alice'', USDC), 10 ^ 12)]\<rparr>, s_events = []\<rparr>"

definition ex_asset :: "denom \<Rightarrow> int \<Rightarrow> pool_asset" where
  "ex_asset d n = \<lparr>Token = \<lparr>Denom = d, Amount = n\<rparr>, Weight = 1\<rparr>"

definition ex_create :: "pool_type \<Rightarrow> denom \<Rightarrow> denom \<Rightarrow> int \<Rightarrow> spot_msg" where
  "ex_create t d e n = MsgCreatePool ''nalice''
     \<lparr>SwapFee = 3 * 10 ^ 15, ExitFee = 10 ^ 16, pp_A = Some 100, PoolType = t\<rparr> [ex_asset d n, ex_asset e n]"

definition ex_messages :: "spot_msg list" where
  "ex_messages =
     [ex_create BALANCER USDC NIBI 1000000,
      MsgSwapAssets ''nalice'' 1 \<lparr>Denom = NIBI, Amount = 1000\<rparr> USDC,
      MsgJoinPool ''nalice'' 1 [\<lparr>Denom = NIBI, Amount = 500\<rparr>, \<lparr>Denom = USDC, Amount = 700\<rparr>] True,
      MsgExitPool ''nalice'' 1 \<lparr>Denom = GetPoolShareBaseDenom 1, Amount = 10 ^ 18\<rparr>]"

definition ex_run :: "spot_msg list \<Rightarrow> ref_chain spot_state \<Rightarrow> ref_chain spot_state" where
  "ex_run = fold (spot_deliver ref_chain_sdk ref_spot ref_mint)"

definition ex_spot :: "ref_chain spot_state" where
  "ex_spot = (case spot_InitGenesis spot_DefaultGenesis ex_spot0 of Inl _ \<Rightarrow> ex_spot0 | Inr s \<Rightarrow> s)"

lemma ex_genesis: "spot_InitGenesis spot_DefaultGenesis ex_spot0 = Inr ex_spot"
  by (simp add: ex_spot_def spot_InitGenesis_def spot_SetParams_def spot_DefaultGenesis_def spot_DefaultParams_def validatePoolCreationFee_def)


lemma ex_spot_fields: "Pools ex_spot = []" "NextPoolNumber ex_spot = Some 1" "\<forall>i. GetSupply ref_mint (s_sdk ex_spot0) (GetPoolShareBaseDenom i) = 0"
  by (simp_all add: ex_spot_def spot_InitGenesis_def spot_SetParams_def SetNextPoolNumber_def validatePoolCreationFee_def ex_spot0_def
      ex_supply_chain_def spot_DefaultGenesis_def spot_DefaultParams_def)

lemma alice: "not_pool_account ref_chain_sdk ''alice''"
  by (simp add: not_pool_account_def pool_addr_def ledger_module_def)

lemma ex_user: "AccAddressFromBech32 ref_chain_sdk ''nalice'' = Some ''alice''"
  by (simp add: ref_chain_sdk_def)

lemma ex_from_user:
  "from_user ref_chain_sdk (ex_create t d e n)" "from_user ref_chain_sdk (MsgJoinPool ''nalice'' i cs w)"
  "from_user ref_chain_sdk (MsgExitPool ''nalice'' i c)" "from_user ref_chain_sdk (MsgSwapAssets ''nalice'' i c d)"
  by (simp_all add: from_user_def ex_create_def checkAddr_def ex_user alice)

lemma ex_run_inv:
  assumes "\<forall>msg \<in> set msgs. from_user ref_chain_sdk msg" and "length msgs < 100"
  shows "spot_inv ref_chain_sdk ref_mint (ex_run msgs ex_spot)"
proof -
  have "spot_inv ref_chain_sdk ref_mint ex_spot"
    by (rule InitGenesis_inv(1) [OF ex_genesis _ ex_spot_fields(3)]) (simp add: ex_spot0_def)
  moreover have "unat (1 :: 64 word) + length msgs < 2 ^ 64" using assms(2) by simp
  ultimately show ?thesis unfolding ex_run_def
    using messages_keep_inv [OF ref_spot_laws ref_chain_dec_laws ref_chain_coinset_laws ref_quo_laws _ ex_spot_fields(2)] assms(1) by blast
qed

definition ex_view :: "ref_chain spot_state \<Rightarrow> (int list \<times> int) list" where
  "ex_view s = map (\<lambda>(i, p). (map (\<lambda>a. Amount (Token a)) (PoolAssets p), Amount (TotalShares p))) (Pools s)"


section \<open>Witnesses\<close>

theorem spot_pools_stay_backed_witness:
  "spot_inv ref_chain_sdk ref_mint (fold (spot_deliver ref_chain_sdk ref_spot ref_mint) ex_messages ex_spot)
     \<and> ex_view (fold (spot_deliver ref_chain_sdk ref_spot ref_mint) ex_messages ex_spot) = [([991592, 989813], 99059944495759873065)]"
proof
  have m: "\<forall>msg \<in> set ex_messages. from_user ref_chain_sdk msg" by (simp add: ex_messages_def ex_from_user)
  have "length ex_messages = 4" by (simp add: ex_messages_def)
  then have l: "unat (StartingPoolNumber spot_DefaultGenesis) + length ex_messages < 2 ^ 64"
    by (simp add: spot_DefaultGenesis_def spot_DefaultParams_def)
  show "spot_inv ref_chain_sdk ref_mint (fold (spot_deliver ref_chain_sdk ref_spot ref_mint) ex_messages ex_spot)"
    by (rule spot_pools_stay_backed [OF ref_spot_laws ref_chain_dec_laws ref_chain_coinset_laws ref_quo_laws ex_genesis _ ex_spot_fields(3) l m])
      (simp add: ex_spot0_def)
  show "ex_view (fold (spot_deliver ref_chain_sdk ref_spot ref_mint) ex_messages ex_spot) = [([991592, 989813], 99059944495759873065)]"
    by code_simp
qed

definition ex_pool_state :: "ref_chain spot_state" where
  "ex_pool_state = ex_run [ex_create BALANCER USDC NIBI 1000000] ex_spot"

lemma ex_pool_inv: "spot_inv ref_chain_sdk ref_mint ex_pool_state"
  unfolding ex_pool_state_def by (rule ex_run_inv) (simp_all add: ex_from_user)

lemma ex_pool: "\<exists>p. kv_get (Pools ex_pool_state) 1 = Some p \<and> PoolType (PoolParams p) = BALANCER \<and> 0 < Amount (TotalShares p)
    \<and> pool_amount p NIBI = 1000000 \<and> pool_amount p USDC = 1000000"
proof -
  have "case kv_get (Pools ex_pool_state) 1 of None \<Rightarrow> False | Some p \<Rightarrow> PoolType (PoolParams p) = BALANCER \<and> 0 < Amount (TotalShares p)
    \<and> pool_amount p NIBI = 1000000 \<and> pool_amount p USDC = 1000000" by code_simp
  then show ?thesis by (auto split: option.splits)
qed

theorem swap_constant_product_witness:
  "\<exists>q s. SwapExactAmountIn ref_chain_sdk ref_spot ''alice'' 1 \<lparr>Denom = NIBI, Amount = 1000\<rparr> USDC ex_pool_state = Inr (s, \<lparr>Denom = USDC, Amount = 996\<rparr>)
     \<and> kv_get (Pools s) 1 = Some q \<and> pool_amount q NIBI = 1001000 \<and> pool_amount q USDC = 999004
     \<and> 1000000 * 1000000 * PREC - 1000000 * 1001000 < 1001000 * 999004 * PREC"
proof -
  let ?r = "SwapExactAmountIn ref_chain_sdk ref_spot ''alice'' 1 \<lparr>Denom = NIBI, Amount = 1000\<rparr> USDC ex_pool_state"
  have "case ?r of Inl _ \<Rightarrow> False | Inr (s, c) \<Rightarrow> c = \<lparr>Denom = USDC, Amount = 996\<rparr>" by code_simp
  then obtain s where s: "?r = Inr (s, \<lparr>Denom = USDC, Amount = 996\<rparr>)" by (auto split: sum.splits prod.splits)
  obtain p where p: "kv_get (Pools ex_pool_state) 1 = Some p" "PoolType (PoolParams p) = BALANCER"
      "pool_amount p NIBI = 1000000" "pool_amount p USDC = 1000000" using ex_pool by blast
  show ?thesis
    using swap_constant_product [OF ref_spot_laws ref_chain_dec_laws ex_pool_inv alice p(1,2) s] s p(3,4) by auto
qed


definition ex_stable :: "int \<Rightarrow> spot_pool" where
  "ex_stable x = \<lparr>pool_Id = 1, pool_Address = ''nmodule/nibiru-pool-1'',
     PoolParams = \<lparr>SwapFee = 0, ExitFee = 0, pp_A = Some 100, PoolType = STABLESWAP\<rparr>,
     PoolAssets = [ex_asset NUSD x, ex_asset USDC x], TotalWeight = 2, TotalShares = \<lparr>Denom = GetPoolShareBaseDenom 1, Amount = 10 ^ 20\<rparr>\<rparr>"

definition ex_deposit :: "int \<Rightarrow> coin list" where
  "ex_deposit k = [\<lparr>Denom = NUSD, Amount = k\<rparr>, \<lparr>Denom = USDC, Amount = k\<rparr>]"

lemma ex_stable_facts:
  "pp_A (PoolParams (ex_stable x)) = Some 100" "map (\<lambda>a. Amount (Token a)) (PoolAssets (ex_stable x)) = [x, x]"
  "PoolType (PoolParams (ex_stable x)) = STABLESWAP" "Amount (TotalShares (ex_stable x)) = 10 ^ 20" "coins_sorted (ex_deposit k)"
  "\<forall>a \<in> set (PoolAssets (ex_stable x)). AmountOf (ex_deposit k) (asset_denom a) = k"
  by (simp_all add: ex_stable_def ex_deposit_def ex_asset_def denom_defs)

theorem stable_balanced_join_witness:
  "numSharesOutFromTokensInStableSwap ref_spot (ex_stable 1000000) (ex_deposit 250000) = Inr (25 * 10 ^ 18)"
proof -
  have "numSharesOutFromTokensInStableSwap ref_spot (ex_stable 1000000) (ex_deposit 250000)
      = Inr (Amount (TotalShares (ex_stable 1000000)) * 250000 div 1000000)"
    by (rule stable_balanced_join [OF ref_uint_laws ref_amountof_laws ex_stable_facts(1) _ _ ex_stable_facts(2) _ _ ex_stable_facts(5,6)])
      (simp_all add: ex_stable_facts(4))
  then show ?thesis by (simp add: ex_stable_facts(4))
qed


theorem getPoolAssetAndIndex_is_scan_witness:
  "getPoolAssetAndIndex (ex_stable 5) USDC = Inr (1, ex_asset USDC 5)"
proof -
  have "assets_sorted (PoolAssets (ex_stable 5))" by code_simp
  then show ?thesis
    using getPoolAssetAndIndex_is_scan [of "ex_stable 5" USDC] by (simp add: ex_stable_def ex_asset_def denom_defs)
qed

theorem new_pool_well_formed_witness:
  "\<exists>p. types_NewPool 1 ''n'' (PoolParams (ex_stable 1)) [ex_asset USDC 5, ex_asset NUSD 7] = Inr p
     \<and> assets_sorted (PoolAssets p) \<and> TotalWeight p = sum_list (map Weight (PoolAssets p))"
proof -
  have "\<not> isl (types_NewPool 1 ''n'' (PoolParams (ex_stable 1)) [ex_asset USDC 5, ex_asset NUSD 7])" by code_simp
  then obtain p where "types_NewPool 1 ''n'' (PoolParams (ex_stable 1)) [ex_asset USDC 5, ex_asset NUSD 7] = Inr p" by (auto dest: not_isl_Inr)
  with new_pool_well_formed [OF this] show ?thesis by blast
qed

definition ex_names :: "denom \<Rightarrow> denom \<Rightarrow> spot_pool" where
  "ex_names d e = (ex_stable 5)\<lparr>PoolAssets := [ex_asset d 5, ex_asset e 5]\<rparr>"

theorem concatenated_names_block_pool_witness:
  "\<exists>s. SetPool (ex_names ''ab'' ''c'') (ex_spot\<lparr>s_Params := Some (spot_NewParams 1 [] [''a'', ''bc''])\<rparr>) = Inr s
     \<and> NewPool ref_chain_sdk ref_spot ref_mint ''alice'' (PoolParams (ex_stable 1)) [ex_asset ''a'' 5, ex_asset ''bc'' 5] s
        = Inl ErrPoolWithSameAssetsExists"
proof -
  let ?p = "ex_names ''ab'' ''c''" and ?pr = "spot_NewParams 1 [] [''a'', ''bc'']"
  let ?s = "ex_spot\<lparr>s_Params := Some ?pr\<rparr>" and ?as = "[ex_asset ''a'' 5, ex_asset ''bc'' 5]"
  obtain s where s: "SetPool ?p ?s = Inr s" by (simp add: SetPool_def SetPoolIdByDenom_def ex_names_def)
  have k: "concat (sort (map asset_denom (PoolAssets ?p))) = concat (sort (map asset_denom ?as))" by code_simp
  have "NewPool ref_chain_sdk ref_spot ref_mint ''alice'' (PoolParams (ex_stable 1)) ?as s = Inl ErrPoolWithSameAssetsExists"
    by (rule concatenated_names_block_pool [OF s _ _ _ k, where params = ?pr])
      (simp_all add: ex_names_def areAllAssetsWhitelisted_def spot_NewParams_def ex_asset_def)
  with s show ?thesis by blast
qed

end
