(* ===== verification/Stable_Keeper.thy ===== *)
theory Stable_Keeper
  imports Spot_Server Oracle_Keeper
begin

text \<open>
  The stablecoin module (\<^verbatim>\<open>x/stablecoin\<close>): NUSD is minted against a mixture of collateral (USDC) and governance
  tokens (NIBI) given by the collateral ratio, and burned for the same mixture; the ratio follows the price of NUSD at the end of
  every epoch.  Prices come from the oracle and the market value of NIBI from a spot pool, so the states of the models of
  those modules are arguments of the definitions that read them.  Amounts of the parameters are 64-bit words in millionths.
\<close>

section \<open>Parameters\<close>

record stable_params =
  CollRatio :: "64 word"
  FeeRatio :: "64 word"
  EfFeeRatio :: "64 word"
  BonusRateRecoll :: "64 word"
  DistrEpochIdentifier :: string
  AdjustmentStep :: "64 word"
  PriceLowerBound :: "64 word"
  PriceUpperBound :: "64 word"
  IsCollateralRatioValid :: bool

datatype stable_error = NoCoinFound | NotEnoughBalance | NoValidCollateralRatio | StableAddress | OracleFailed oracle_error
  | SpotFailed spot_error | StableError string | StablePanic string

definition TO_MICRO :: int where
  "TO_MICRO = 1000000"

definition int64E :: "int \<Rightarrow> stable_error + 64 word" where
  "int64E n = mapErr (\<lambda>_. StablePanic ''Int64() out of bound'') (int_Int64 n)"

definition to_micro :: "'b chain_sdk \<Rightarrow> dec \<Rightarrow> stable_error + 64 word" where
  "to_micro E x = int64E (dec_RoundInt E (dec_Mul E x (NewDec (1 * TO_MICRO))))"

definition stable_NewParams :: "'b chain_sdk \<Rightarrow> dec \<Rightarrow> dec \<Rightarrow> dec \<Rightarrow> dec \<Rightarrow> string \<Rightarrow> dec \<Rightarrow> dec \<Rightarrow> dec \<Rightarrow> bool \<Rightarrow> stable_error + stable_params" where
  "stable_NewParams E collRatio feeRatio efFeeRatio bonusRateRecoll distrEpochIdentifier adjustmentStep lower upper valid =
     bindE (to_micro E collRatio) (\<lambda>collRatioInt.
     bindE (to_micro E feeRatio) (\<lambda>feeRatioInt.
     bindE (to_micro E efFeeRatio) (\<lambda>efFeeRatioInt.
     bindE (to_micro E bonusRateRecoll) (\<lambda>bonusRateRecollInt.
     bindE (to_micro E adjustmentStep) (\<lambda>adjustmentStepInt.
     bindE (to_micro E lower) (\<lambda>lowerInt.
     bindE (to_micro E upper) (\<lambda>upperInt.
     Inr \<lparr>CollRatio = collRatioInt, FeeRatio = feeRatioInt, EfFeeRatio = efFeeRatioInt, BonusRateRecoll = bonusRateRecollInt,
          DistrEpochIdentifier = distrEpochIdentifier, AdjustmentStep = adjustmentStepInt, PriceLowerBound = lowerInt,
          PriceUpperBound = upperInt, IsCollateralRatioValid = valid\<rparr>)))))))"

definition FifteenMinuteEpochID :: string where
  "FifteenMinuteEpochID = ''15 min''"

definition stable_DefaultParams :: "'b chain_sdk \<Rightarrow> stable_error + stable_params" where
  "stable_DefaultParams E = stable_NewParams E OneDec (2 * 10 ^ 15) (5 * 10 ^ 17) (2 * 10 ^ 15) FifteenMinuteEpochID
     (25 * 10 ^ 14) (9999 * 10 ^ 14) (10001 * 10 ^ 14) False"

text \<open>The unsigned reading of the word, over a million.\<close>

definition ratio_dec :: "'b chain_sdk \<Rightarrow> 64 word \<Rightarrow> dec" where
  "ratio_dec E w = dec_Quo E (NewDec (uint w)) (NewDec 1000000)"

definition GetFeeRatioAsDec :: "'b chain_sdk \<Rightarrow> stable_params \<Rightarrow> dec" where
  "GetFeeRatioAsDec E p = ratio_dec E (FeeRatio p)"

definition GetCollRatioAsDec :: "'b chain_sdk \<Rightarrow> stable_params \<Rightarrow> dec" where
  "GetCollRatioAsDec E p = ratio_dec E (CollRatio p)"

definition GetEfFeeRatioAsDec :: "'b chain_sdk \<Rightarrow> stable_params \<Rightarrow> dec" where
  "GetEfFeeRatioAsDec E p = ratio_dec E (EfFeeRatio p)"

definition GetBonusRateRecollAsDec :: "'b chain_sdk \<Rightarrow> stable_params \<Rightarrow> dec" where
  "GetBonusRateRecollAsDec E p = ratio_dec E (BonusRateRecoll p)"

definition GetAdjustmentStepAsDec :: "'b chain_sdk \<Rightarrow> stable_params \<Rightarrow> dec" where
  "GetAdjustmentStepAsDec E p = ratio_dec E (AdjustmentStep p)"

definition GetPriceLowerBoundAsDec :: "'b chain_sdk \<Rightarrow> stable_params \<Rightarrow> dec" where
  "GetPriceLowerBoundAsDec E p = ratio_dec E (PriceLowerBound p)"

definition GetPriceUpperBoundAsDec :: "'b chain_sdk \<Rightarrow> stable_params \<Rightarrow> dec" where
  "GetPriceUpperBoundAsDec E p = ratio_dec E (PriceUpperBound p)"

definition validate_micro :: "int \<Rightarrow> string \<Rightarrow> string \<Rightarrow> 64 word \<Rightarrow> stable_error + unit" where
  "validate_micro limit high low w =
     (if limit < sint w then Inl (StableError high) else if sint w < 0 then Inl (StableError low) else Inr ())"

definition validateCollRatio :: "64 word \<Rightarrow> stable_error + unit" where
  "validateCollRatio = validate_micro (1 * TO_MICRO) ''collateral ratio is above max value(1e6)'' ''collateral Ratio is negative''"

definition validateFeeRatio :: "64 word \<Rightarrow> stable_error + unit" where
  "validateFeeRatio = validate_micro (1 * TO_MICRO) ''fee ratio is above max value(1e6)'' ''fee ratio is negative''"

definition validateEfFeeRatio :: "64 word \<Rightarrow> stable_error + unit" where
  "validateEfFeeRatio = validate_micro (1 * TO_MICRO) ''stable EF fee ratio is above max value(1e6)'' ''stable EF fee ratio is negative''"

definition validateBonusRateRecoll :: "64 word \<Rightarrow> stable_error + unit" where
  "validateBonusRateRecoll = validate_micro (1 * TO_MICRO) ''collateral Ratio is above max value(1e6)'' ''collateral Ratio is negative''"

definition validateAdjustmentStep :: "64 word \<Rightarrow> stable_error + unit" where
  "validateAdjustmentStep = validate_micro (1 * TO_MICRO) ''AdjustmentStep is above max value(1e6)'' ''AdjustmentStep is negative''"

definition validatePriceLowerBound :: "64 word \<Rightarrow> stable_error + unit" where
  "validatePriceLowerBound = validate_micro (1 * TO_MICRO) ''PriceLowerBound is above max value(1e6)'' ''PriceLowerBound is negative''"

definition validatePriceUpperBound :: "64 word \<Rightarrow> stable_error + unit" where
  "validatePriceUpperBound = validate_micro (2 * TO_MICRO) ''PriceUpperBound is above max value(1e6)'' ''PriceUpperBound is negative''"

definition stable_Params_Validate :: "stable_params \<Rightarrow> stable_error + unit" where
  "stable_Params_Validate p =
     bindE (validateCollRatio (CollRatio p)) (\<lambda>_.
     bindE (validateFeeRatio (FeeRatio p)) (\<lambda>_.
     validateEfFeeRatio (EfFeeRatio p)))"

text \<open>The checks that the parameter store runs when the set is stored; the other two values are only checked for their type.\<close>

definition stable_ParamSetPairs :: "stable_params \<Rightarrow> stable_error + unit" where
  "stable_ParamSetPairs p =
     bindE (validateCollRatio (CollRatio p)) (\<lambda>_.
     bindE (validateFeeRatio (FeeRatio p)) (\<lambda>_.
     bindE (validateEfFeeRatio (EfFeeRatio p)) (\<lambda>_.
     bindE (validateBonusRateRecoll (BonusRateRecoll p)) (\<lambda>_.
     bindE (validateAdjustmentStep (AdjustmentStep p)) (\<lambda>_.
     bindE (validatePriceLowerBound (PriceLowerBound p)) (\<lambda>_.
     validatePriceUpperBound (PriceUpperBound p)))))))"


section \<open>The keeper\<close>

datatype stable_event =
    EventTransfer coin addr addr
  | EventMintStable int | EventBurnStable int | EventMintNIBI int | EventBurnNIBI int
  | EventRecollateralize addr coin coin dec
  | EventBuyback addr coin coin dec

record 'b stable_state =
  st_Params :: stable_params
  st_sdk :: 'b
  st_events :: "stable_event list"

definition StableModule :: string where
  "StableModule = ''stablecoin''"

definition StableEFModuleAccount :: string where
  "StableEFModuleAccount = ''stable_ef''"

definition TreasuryPoolModuleAccount :: string where
  "TreasuryPoolModuleAccount = ''treasury_pool''"

definition stable_SetParams :: "stable_params \<Rightarrow> 'b stable_state \<Rightarrow> stable_error + 'b stable_state" where
  "stable_SetParams params s =
     bindE (mapErr (\<lambda>_. StablePanic ''value from ParamSetPair is invalid'') (stable_ParamSetPairs params)) (\<lambda>_.
     Inr (s\<lparr>st_Params := params\<rparr>))"

definition stable_emit :: "stable_event list \<Rightarrow> 'b stable_state \<Rightarrow> 'b stable_state" where
  "stable_emit es s = s\<lparr>st_events := st_events s @ es\<rparr>"

definition st_bank :: "(string + 'b) \<Rightarrow> 'b stable_state \<Rightarrow> stable_error + 'b stable_state" where
  "st_bank r s = bindE (mapErr StableError r) (\<lambda>b. Inr (s\<lparr>st_sdk := b\<rparr>))"

definition st_NewCoin :: "'b chain_sdk \<Rightarrow> denom \<Rightarrow> int \<Rightarrow> stable_error + coin" where
  "st_NewCoin E d n = getE (StablePanic ''invalid coin'') (NewCoin E d n)"

definition st_NewCoins :: "'b spot_sdk \<Rightarrow> coin list \<Rightarrow> stable_error + coin list" where
  "st_NewCoins S cs = getE (StablePanic ''invalid coins'') (NewCoins_of S cs)"

definition st_Quo :: "'b chain_sdk \<Rightarrow> dec \<Rightarrow> dec \<Rightarrow> stable_error + dec" where
  "st_Quo E x y = (if y = 0 then Inl (StablePanic ''division by zero'') else Inr (dec_Quo E x y))"

text \<open>The oracle's keeper panics when a time-weighted average divides by zero and returns its other errors.\<close>

definition oracleE :: "oracle_error + dec \<Rightarrow> stable_error + dec" where
  "oracleE r = mapErr (\<lambda>e. if e = DivideByZero then StablePanic ''division by zero'' else OracleFailed e) r"

definition price_coll :: "'b oracle_state \<Rightarrow> stable_error + dec" where
  "price_coll os = oracleE (GetExchangeRate os (registry_Pair Registry USDC NUSD))"

definition price_gov :: "'b oracle_state \<Rightarrow> stable_error + dec" where
  "price_gov os = oracleE (GetExchangeRate os (registry_Pair Registry NIBI NUSD))"


section \<open>Balances and supply\<close>

definition checkEnoughBalance :: "'b spot_sdk \<Rightarrow> coin \<Rightarrow> addr \<Rightarrow> 'b stable_state \<Rightarrow> stable_error + unit" where
  "checkEnoughBalance S coinToSpend acc s =
     (case find (\<lambda>c. Denom c = Denom coinToSpend) (SpendableCoins S (st_sdk s) acc) of
        None \<Rightarrow> Inl NotEnoughBalance
      | Some c \<Rightarrow> if Amount coinToSpend \<le> Amount c then Inr () else Inl NotEnoughBalance)"

fun st_CheckEnoughBalances :: "'b spot_sdk \<Rightarrow> coin list \<Rightarrow> addr \<Rightarrow> 'b stable_state \<Rightarrow> stable_error + unit" where
  "st_CheckEnoughBalances S [] account s = Inr ()"
| "st_CheckEnoughBalances S (c # cs) account s =
     bindE (checkEnoughBalance S c account s) (\<lambda>_. st_CheckEnoughBalances S cs account s)"

definition GetSupplyNUSD :: "'b mint_sdk \<Rightarrow> 'b stable_state \<Rightarrow> coin" where
  "GetSupplyNUSD M s = \<lparr>Denom = NUSD, Amount = GetSupply M (st_sdk s) NUSD\<rparr>"

definition GetSupplyNIBI :: "'b mint_sdk \<Rightarrow> 'b stable_state \<Rightarrow> coin" where
  "GetSupplyNIBI M s = \<lparr>Denom = NIBI, Amount = GetSupply M (st_sdk s) NIBI\<rparr>"

definition GetStableMarketCap :: "'b mint_sdk \<Rightarrow> 'b stable_state \<Rightarrow> int" where
  "GetStableMarketCap M s = Amount (GetSupplyNUSD M s)"

definition GetGovMarketCap :: "'b chain_sdk \<Rightarrow> 'b mint_sdk \<Rightarrow> 'b spot_state \<Rightarrow> 'b stable_state \<Rightarrow> stable_error + int" where
  "GetGovMarketCap E M sp s =
     bindE (mapErr SpotFailed (FetchPoolFromPair sp NIBI NUSD)) (\<lambda>pool.
     bindE (mapErr SpotFailed (CalcSpotPrice E pool NIBI NUSD)) (\<lambda>price.
     Inr (dec_RoundInt E (dec_Mul E (NewDec (Amount (GetSupplyNIBI M s))) price))))"

definition GetLiquidityRatio :: "'b chain_sdk \<Rightarrow> 'b mint_sdk \<Rightarrow> 'b spot_state \<Rightarrow> 'b stable_state \<Rightarrow> stable_error + dec" where
  "GetLiquidityRatio E M sp s =
     bindE (GetGovMarketCap E M sp s) (\<lambda>govMarketCap.
     let stableMarketCap = GetStableMarketCap M s in
     if stableMarketCap = 0 then Inl (StableError ''stable maket cap is equal to zero'')
     else Inr (dec_Quo E (NewDec govMarketCap) (NewDec stableMarketCap)))"

definition LiquidityRatioBands :: dec where
  "LiquidityRatioBands = 10 ^ 15"

definition GetLiquidityRatioBands :: "'b chain_sdk \<Rightarrow> 'b mint_sdk \<Rightarrow> 'b spot_state \<Rightarrow> 'b stable_state \<Rightarrow> stable_error + (dec \<times> dec)" where
  "GetLiquidityRatioBands E M sp s =
     bindE (GetLiquidityRatio E M sp s) (\<lambda>liquidityRatio.
     Inr (dec_Mul E liquidityRatio (OneDec - LiquidityRatioBands), dec_Mul E liquidityRatio (OneDec + LiquidityRatioBands)))"


section \<open>Needed amounts\<close>

definition NeededGovAmtGivenColl :: "'b chain_sdk \<Rightarrow> int \<Rightarrow> dec \<Rightarrow> dec \<Rightarrow> dec \<Rightarrow> stable_error + (int \<times> int)" where
  "NeededGovAmtGivenColl E collAmt priceGov priceColl collRatio =
     (let collUSD = dec_Mul E (NewDec collAmt) priceColl in
      bindE (st_Quo E collUSD collRatio) (\<lambda>x.
      let neededGovUSD = x - collUSD in
      bindE (st_Quo E neededGovUSD priceGov) (\<lambda>y.
      Inr (dec_TruncateInt E y, dec_TruncateInt E (collUSD + neededGovUSD)))))"

definition NeededCollAmtGivenGov :: "'b chain_sdk \<Rightarrow> int \<Rightarrow> dec \<Rightarrow> dec \<Rightarrow> dec \<Rightarrow> stable_error + (int \<times> int)" where
  "NeededCollAmtGivenGov E govAmt priceGov priceColl collRatio =
     (let govUSD = dec_Mul E (NewDec govAmt) priceGov;
          govRatio = NewDec 1 - collRatio
      in
      bindE (st_Quo E collRatio govRatio) (\<lambda>x.
      let neededCollUSD = dec_Mul E x govUSD in
      bindE (st_Quo E neededCollUSD priceColl) (\<lambda>y.
      Inr (dec_TruncateInt E y, dec_TruncateInt E (govUSD + neededCollUSD)))))"

text \<open>The part of an amount that is paid in one token at its price, and its fee.\<close>

definition needed_and_fees :: "'b chain_sdk \<Rightarrow> denom \<Rightarrow> coin \<Rightarrow> dec \<Rightarrow> dec \<Rightarrow> dec \<Rightarrow> stable_error + (coin \<times> coin)" where
  "needed_and_fees E d stableCoin ratio feeRatio price =
     (let neededUSD = dec_Mul E (NewDec (Amount stableCoin)) ratio in
      bindE (st_Quo E neededUSD price) (\<lambda>x.
      let neededAmt = dec_TruncateInt E x in
      bindE (st_NewCoin E d neededAmt) (\<lambda>needed.
      bindE (st_NewCoin E d (dec_RoundInt E (dec_Mul E (NewDec neededAmt) feeRatio))) (\<lambda>fee.
      Inr (needed, fee)))))"

definition calcNeededGovAndFees :: "'b chain_sdk \<Rightarrow> 'b oracle_state \<Rightarrow> coin \<Rightarrow> dec \<Rightarrow> dec \<Rightarrow> stable_error + (coin \<times> coin)" where
  "calcNeededGovAndFees E os stableCoin govRatio feeRatio =
     bindE (price_gov os) (\<lambda>priceGov. needed_and_fees E NIBI stableCoin govRatio feeRatio priceGov)"

definition calcNeededCollateralAndFees :: "'b chain_sdk \<Rightarrow> 'b oracle_state \<Rightarrow> coin \<Rightarrow> dec \<Rightarrow> dec \<Rightarrow> stable_error + (coin \<times> coin)" where
  "calcNeededCollateralAndFees E os stableCoin collRatio feeRatio =
     bindE (price_coll os) (\<lambda>priceColl. needed_and_fees E USDC stableCoin collRatio feeRatio priceColl)"


section \<open>Minting and burning\<close>

definition stable_addr :: "'b chain_sdk \<Rightarrow> string \<Rightarrow> stable_error + addr" where
  "stable_addr E a = getE StableAddress (AccAddressFromBech32 E a)"

definition sendCoinsToModuleAccount :: "'b chain_sdk \<Rightarrow> 'b spot_sdk \<Rightarrow> addr \<Rightarrow> coin list \<Rightarrow> 'b stable_state \<Rightarrow> stable_error + 'b stable_state" where
  "sendCoinsToModuleAccount E S from coins s =
     bindE (st_bank (SendCoins_AccountToModule S (st_sdk s) from StableModule coins) s) (\<lambda>s.
     Inr (stable_emit (map (\<lambda>c. EventTransfer c from (GetModuleAddress E StableModule)) coins) s))"

definition sendCoinsFromModuleAccountToUser :: "'b chain_sdk \<Rightarrow> 'b spot_sdk \<Rightarrow> addr \<Rightarrow> coin list \<Rightarrow> 'b stable_state \<Rightarrow> stable_error + 'b stable_state" where
  "sendCoinsFromModuleAccountToUser E S to coins s =
     bindE (st_bank (SendCoins_ModuleToAccount S (st_sdk s) StableModule to coins) s) (\<lambda>s.
     Inr (stable_emit (map (\<lambda>c. EventTransfer c (GetModuleAddress E StableModule) to) coins) s))"

definition stable_burnCoins :: "'b spot_sdk \<Rightarrow> coin list \<Rightarrow> 'b stable_state \<Rightarrow> stable_error + 'b stable_state" where
  "stable_burnCoins S coins s = st_bank (BurnCoins S (st_sdk s) StableModule coins) s"

definition burnGovTokens :: "'b spot_sdk \<Rightarrow> coin \<Rightarrow> 'b stable_state \<Rightarrow> stable_error + 'b stable_state" where
  "burnGovTokens S govTokens s =
     bindE (st_NewCoins S [govTokens]) (\<lambda>coins.
     bindE (stable_burnCoins S coins s) (\<lambda>s.
     Inr (stable_emit [EventBurnNIBI (Amount govTokens)] s)))"

definition burnStableTokens :: "'b spot_sdk \<Rightarrow> coin \<Rightarrow> 'b stable_state \<Rightarrow> stable_error + 'b stable_state" where
  "burnStableTokens S stableCoin s =
     bindE (st_NewCoins S [stableCoin]) (\<lambda>coins.
     bindE (stable_burnCoins S coins s) (\<lambda>s.
     Inr (stable_emit [EventBurnStable (Amount stableCoin)] s)))"

definition mintStable :: "'b spot_sdk \<Rightarrow> 'b mint_sdk \<Rightarrow> coin \<Rightarrow> 'b stable_state \<Rightarrow> stable_error + 'b stable_state" where
  "mintStable S M stableCoin s =
     bindE (st_NewCoins S [stableCoin]) (\<lambda>coins.
     bindE (st_bank (bank_MintCoins M (st_sdk s) StableModule coins) s) (\<lambda>s.
     Inr (stable_emit [EventMintStable (Amount stableCoin)] s)))"

definition mintGov :: "'b spot_sdk \<Rightarrow> 'b mint_sdk \<Rightarrow> coin \<Rightarrow> 'b stable_state \<Rightarrow> stable_error + 'b stable_state" where
  "mintGov S M gov s =
     bindE (st_NewCoins S [gov]) (\<lambda>coins.
     bindE (st_bank (bank_MintCoins M (st_sdk s) StableModule coins) s) (\<lambda>s.
     Inr (stable_emit [EventMintNIBI (Amount gov)] s)))"

text \<open>The ecosystem fund's part of a fee in NIBI is burned at once, its part of any other fee is collected.\<close>

definition ef_fee :: "'b chain_sdk \<Rightarrow> 'b spot_sdk \<Rightarrow> addr \<Rightarrow> coin \<Rightarrow> coin list \<Rightarrow> 'b stable_state \<Rightarrow> stable_error + ('b stable_state \<times> coin list)" where
  "ef_fee E S account efCoin efCoins s =
     (if Denom efCoin = NIBI
      then bindE (st_NewCoins S [efCoin]) (\<lambda>stableCoins.
           bindE (st_bank (SendCoins_AccountToModule S (st_sdk s) account StableEFModuleAccount stableCoins) s) (\<lambda>s.
           bindE (st_bank (BurnCoins S (st_sdk s) StableEFModuleAccount stableCoins) s) (\<lambda>s.
           Inr (s, efCoins))))
      else Inr (s, Coins_Add E efCoins [efCoin]))"

fun stable_split_fees :: "'b chain_sdk \<Rightarrow> 'b spot_sdk \<Rightarrow> addr \<Rightarrow> dec \<Rightarrow> coin list \<Rightarrow> coin list \<Rightarrow> coin list \<Rightarrow> 'b stable_state
    \<Rightarrow> stable_error + ('b stable_state \<times> coin list \<times> coin list)" where
  "stable_split_fees E S account efFeeRatio [] efCoins treasuryCoins s = Inr (s, efCoins, treasuryCoins)"
| "stable_split_fees E S account efFeeRatio (c # cs) efCoins treasuryCoins s =
     (let amountEf = dec_TruncateInt E (dec_Mul E (NewDec (Amount c)) efFeeRatio);
          amountTreasury = Amount c - amountEf
      in
      bindE (st_NewCoin E (Denom c) amountEf) (\<lambda>efCoin.
      bindE (ef_fee E S account efCoin efCoins s) (\<lambda>(s, efCoins).
      bindE (st_NewCoin E (Denom c) amountTreasury) (\<lambda>treasuryCoin.
      stable_split_fees E S account efFeeRatio cs efCoins (Coins_Add E treasuryCoins [treasuryCoin]) s))))"

definition splitAndSendFeesToEfAndTreasury :: "'b chain_sdk \<Rightarrow> 'b spot_sdk \<Rightarrow> addr \<Rightarrow> dec \<Rightarrow> coin list \<Rightarrow> 'b stable_state \<Rightarrow> stable_error + 'b stable_state" where
  "splitAndSendFeesToEfAndTreasury E S account efFeeRatio coins s =
     bindE (stable_split_fees E S account efFeeRatio coins [] [] s) (\<lambda>(s, efCoins, treasuryCoins).
     bindE (st_bank (SendCoins_AccountToModule S (st_sdk s) account StableEFModuleAccount efCoins) s) (\<lambda>s.
     st_bank (SendCoins_AccountToModule S (st_sdk s) account TreasuryPoolModuleAccount treasuryCoins) s))"

record mint_response =
  mr_Stable :: coin
  mr_UsedCoins :: "coin list"
  mr_FeesPayed :: "coin list"

definition MintStable :: "'b chain_sdk \<Rightarrow> 'b spot_sdk \<Rightarrow> 'b mint_sdk \<Rightarrow> 'b oracle_state \<Rightarrow> string \<Rightarrow> coin \<Rightarrow> 'b stable_state
    \<Rightarrow> stable_error + ('b stable_state \<times> mint_response)" where
  "MintStable E S M os creator stableCoin s =
     bindE (stable_addr E creator) (\<lambda>msgCreator.
     let params = st_Params s in
     if \<not> IsCollateralRatioValid params then Inl NoValidCollateralRatio
     else
     let feeRatio = GetFeeRatioAsDec E params;
         collRatio = GetCollRatioAsDec E params;
         efFeeRatio = GetEfFeeRatioAsDec E params;
         govRatio = OneDec - collRatio
     in
     bindE (calcNeededCollateralAndFees E os stableCoin collRatio feeRatio) (\<lambda>(neededColl, collFees).
     bindE (calcNeededGovAndFees E os stableCoin govRatio feeRatio) (\<lambda>(neededGov, govFees).
     bindE (st_NewCoins S [neededColl, neededGov]) (\<lambda>coinsNeededToMint.
     bindE (st_CheckEnoughBalances S (Coins_Add E coinsNeededToMint [govFees, collFees]) msgCreator s) (\<lambda>_.
     bindE (sendCoinsToModuleAccount E S msgCreator coinsNeededToMint s) (\<lambda>s.
     bindE (burnGovTokens S neededGov s) (\<lambda>s.
     bindE (st_NewCoins S [collFees, govFees]) (\<lambda>fees.
     bindE (splitAndSendFeesToEfAndTreasury E S msgCreator efFeeRatio fees s) (\<lambda>s.
     bindE (mintStable S M stableCoin s) (\<lambda>s.
     bindE (st_NewCoins S [stableCoin]) (\<lambda>minted.
     bindE (sendCoinsFromModuleAccountToUser E S msgCreator minted s) (\<lambda>s.
     bindE (st_NewCoins S [neededGov, neededColl]) (\<lambda>usedCoins.
     bindE (st_NewCoins S [govFees, collFees]) (\<lambda>feesPayed.
     Inr (s, \<lparr>mr_Stable = stableCoin, mr_UsedCoins = usedCoins, mr_FeesPayed = feesPayed\<rparr>)))))))))))))))"

text \<open>The difference of two coins panics when the denominations differ or the result is negative.\<close>

definition st_Coin_Sub :: "coin \<Rightarrow> coin \<Rightarrow> stable_error + coin" where
  "st_Coin_Sub c d =
     (if Denom c \<noteq> Denom d then Inl (StablePanic ''invalid coin denominations'')
      else if Amount c < Amount d then Inl (StablePanic ''negative coin amount'')
      else Inr \<lparr>Denom = Denom c, Amount = Amount c - Amount d\<rparr>)"

record burn_response =
  br_Collateral :: coin
  br_Gov :: coin
  br_FeesPayed :: "coin list"

text \<open>\<open>BurnStable\<close> compares the amount with a fresh zero by the identity of two objects, which always differ: the test never
  succeeds and has no branch here.\<close>

definition BurnStable :: "'b chain_sdk \<Rightarrow> 'b spot_sdk \<Rightarrow> 'b mint_sdk \<Rightarrow> 'b oracle_state \<Rightarrow> string \<Rightarrow> coin \<Rightarrow> 'b stable_state
    \<Rightarrow> stable_error + ('b stable_state \<times> burn_response)" where
  "BurnStable E S M os creator stableCoin s =
     bindE (stable_addr E creator) (\<lambda>msgCreator.
     let params = st_Params s in
     if \<not> IsCollateralRatioValid params then Inl NoValidCollateralRatio
     else
     let feeRatio = GetFeeRatioAsDec E params;
         collRatio = GetCollRatioAsDec E params;
         govRatio = OneDec - collRatio
     in
     bindE (calcNeededGovAndFees E os stableCoin govRatio feeRatio) (\<lambda>(redeemGovCoin, govFees).
     bindE (calcNeededCollateralAndFees E os stableCoin collRatio feeRatio) (\<lambda>(redeemCollCoin, collFees).
     bindE (mintGov S M redeemGovCoin s) (\<lambda>s.
     bindE (st_NewCoins S [stableCoin]) (\<lambda>stablesToBurn.
     bindE (st_bank (SendCoins_AccountToModule S (st_sdk s) msgCreator StableModule stablesToBurn) s) (\<lambda>s.
     bindE (st_NewCoins S [redeemCollCoin, redeemGovCoin]) (\<lambda>redeemedCoins.
     bindE (sendCoinsFromModuleAccountToUser E S msgCreator redeemedCoins s) (\<lambda>s.
     bindE (st_NewCoins S [govFees, collFees]) (\<lambda>feesToSendEF.
     bindE (splitAndSendFeesToEfAndTreasury E S msgCreator (GetEfFeeRatioAsDec E params) feesToSendEF s) (\<lambda>s.
     bindE (burnStableTokens S stableCoin s) (\<lambda>s.
     bindE (st_Coin_Sub redeemCollCoin collFees) (\<lambda>collateral.
     bindE (st_Coin_Sub redeemGovCoin govFees) (\<lambda>gov.
     bindE (st_NewCoins S [govFees, collFees]) (\<lambda>feesPayed.
     Inr (s, \<lparr>br_Collateral = collateral, br_Gov = gov, br_FeesPayed = feesPayed\<rparr>)))))))))))))))"

end
