(* ===== verification/Stable_Ratio.thy ===== *)
theory Stable_Ratio
  imports Stable_Keeper
begin

text \<open>
  The collateral ratio (\<^verbatim>\<open>keeper/collateral_ratio.go\<close>), the hook at the end of an epoch, the end of a block, recollateralization
  and buyback, and the messages, queries and genesis of the stablecoin module.
\<close>

section \<open>The collateral ratio\<close>

definition GetCollRatio :: "'b chain_sdk \<Rightarrow> 'b stable_state \<Rightarrow> dec" where
  "GetCollRatio E s = dec_QuoInt64 E (NewDec (sint (CollRatio (st_Params s)))) (1 * TO_MICRO)"

definition SetCollRatio :: "'b chain_sdk \<Rightarrow> dec \<Rightarrow> 'b stable_state \<Rightarrow> stable_error + 'b stable_state" where
  "SetCollRatio E collRatio s =
     (if OneDec < collRatio then Inl (StableError ''input 'collRatio' is higher than 1'')
      else if collRatio < 0 then Inl (StableError ''input 'collRatio' is negative'')
      else
      bindE (to_micro E collRatio) (\<lambda>collRatioInt.
      stable_SetParams ((st_Params s)\<lparr>CollRatio := collRatioInt\<rparr>) s))"

definition updateCollRatio :: "'b chain_sdk \<Rightarrow> bool \<Rightarrow> 'b stable_state \<Rightarrow> stable_error + 'b stable_state" where
  "updateCollRatio E isPriceUp s =
     (let nibiruStep = GetAdjustmentStepAsDec E (st_Params s);
          adjustment = (if \<not> isPriceUp then nibiruStep else dec_Mul E nibiruStep (- OneDec))
      in SetCollRatio E (GetCollRatio E s + adjustment) s)"

definition twap_coll :: "'b chain_sdk \<Rightarrow> block_ctx \<Rightarrow> 'b oracle_state \<Rightarrow> stable_error + dec" where
  "twap_coll E ctx os = oracleE (GetExchangeRateTwap E ctx os (registry_Pair Registry USDC NUSD))"

definition EvaluateCollRatio :: "'b chain_sdk \<Rightarrow> block_ctx \<Rightarrow> 'b oracle_state \<Rightarrow> 'b stable_state \<Rightarrow> stable_error + 'b stable_state" where
  "EvaluateCollRatio E ctx os s =
     (let lowerBound = GetPriceLowerBoundAsDec E (st_Params s);
          upperBound = GetPriceUpperBoundAsDec E (st_Params s)
      in
      bindE (twap_coll E ctx os) (\<lambda>stablePrice.
      if stablePrice \<le> lowerBound then updateCollRatio E True s
      else if upperBound \<le> stablePrice then updateCollRatio E False s
      else Inr s))"

text \<open>The caller keeps the state when the evaluation returns an error and records whether it did; a panic is not caught.\<close>

definition set_valid :: "bool \<Rightarrow> 'b stable_state \<Rightarrow> stable_error + 'b stable_state" where
  "set_valid valid s = stable_SetParams ((st_Params s)\<lparr>IsCollateralRatioValid := valid\<rparr>) s"

definition evaluate_and_record :: "'b chain_sdk \<Rightarrow> block_ctx \<Rightarrow> 'b oracle_state \<Rightarrow> 'b stable_state \<Rightarrow> stable_error + 'b stable_state" where
  "evaluate_and_record E ctx os s =
     (case EvaluateCollRatio E ctx os s of
        Inr s1 \<Rightarrow> set_valid True s1
      | Inl (StablePanic msg) \<Rightarrow> Inl (StablePanic msg)
      | Inl _ \<Rightarrow> set_valid False s)"

definition stable_AfterEpochEnd :: "'b chain_sdk \<Rightarrow> block_ctx \<Rightarrow> 'b oracle_state \<Rightarrow> string \<Rightarrow> 64 word \<Rightarrow> 'b stable_state \<Rightarrow> stable_error + 'b stable_state" where
  "stable_AfterEpochEnd E ctx os epochIdentifier epochNumber s =
     (if epochIdentifier = DistrEpochIdentifier (st_Params s) then evaluate_and_record E ctx os s else Inr s)"

definition stable_BeforeEpochStart :: "string \<Rightarrow> 64 word \<Rightarrow> 'b stable_state \<Rightarrow> 'b stable_state" where
  "stable_BeforeEpochStart epochIdentifier epochNumber s = s"

definition stable_EndBlocker :: "'b chain_sdk \<Rightarrow> block_ctx \<Rightarrow> 'b oracle_state \<Rightarrow> 'b stable_state \<Rightarrow> stable_error + 'b stable_state" where
  "stable_EndBlocker E ctx os s =
     bindE (if \<not> IsCollateralRatioValid (st_Params s) then evaluate_and_record E ctx os s else Inr s) (\<lambda>s.
     case twap_coll E ctx os of
       Inr _ \<Rightarrow> Inr s
     | Inl (StablePanic msg) \<Rightarrow> Inl (StablePanic msg)
     | Inl _ \<Rightarrow> set_valid False s)"


section \<open>Recollateralization\<close>

text \<open>The product of a decimal and an integer is exact.\<close>

definition StableRequiredForTargetCollRatio :: "'b chain_sdk \<Rightarrow> 'b spot_sdk \<Rightarrow> 'b mint_sdk \<Rightarrow> 'b oracle_state \<Rightarrow> 'b stable_state \<Rightarrow> stable_error + dec" where
  "StableRequiredForTargetCollRatio E S M os s =
     (let stableSupply = GetSupplyNUSD M s;
          targetCollRatio = GetCollRatio E s;
          moduleCoins = SpendableCoins S (st_sdk s) (GetModuleAddress E StableModule);
          amtColl = Coins_AmountOf S moduleCoins USDC
      in
      bindE (price_coll os) (\<lambda>priceColl.
      let currentTotalCollUSD = 0 + priceColl * amtColl;
          targetCollUSD = targetCollRatio * Amount stableSupply
      in Inr (targetCollUSD - currentTotalCollUSD)))"

text \<open>Two callers ignore the error and go on with the zero that is returned with it.\<close>

definition or_zero :: "stable_error + dec \<Rightarrow> dec" where
  "or_zero r = (case r of Inr x \<Rightarrow> x | Inl _ \<Rightarrow> 0)"

definition RecollateralizeCollAmtForTargetCollRatio :: "'b chain_sdk \<Rightarrow> 'b spot_sdk \<Rightarrow> 'b mint_sdk \<Rightarrow> 'b oracle_state \<Rightarrow> 'b stable_state \<Rightarrow> stable_error + int" where
  "RecollateralizeCollAmtForTargetCollRatio E S M os s =
     (let neededUSDForRecoll = or_zero (StableRequiredForTargetCollRatio E S M os s) in
      bindE (price_coll os) (\<lambda>priceCollStable.
      bindE (st_Quo E neededUSDForRecoll priceCollStable) (\<lambda>neededCollAmountDec.
      Inr (dec_TruncateInt E (dec_Ceil E neededCollAmountDec)))))"

definition GovAmtFromRecollateralize :: "'b chain_sdk \<Rightarrow> 'b oracle_state \<Rightarrow> dec \<Rightarrow> 'b stable_state \<Rightarrow> stable_error + int" where
  "GovAmtFromRecollateralize E os inUSD s =
     (let bonusRate = GetBonusRateRecollAsDec E (st_Params s) in
      bindE (price_gov os) (\<lambda>priceGovStable.
      bindE (st_Quo E (dec_Mul E inUSD (OneDec + bonusRate)) priceGovStable) (\<lambda>x.
      Inr (dec_TruncateInt E x))))"

definition GovAmtFromFullRecollateralize :: "'b chain_sdk \<Rightarrow> 'b spot_sdk \<Rightarrow> 'b mint_sdk \<Rightarrow> 'b oracle_state \<Rightarrow> 'b stable_state \<Rightarrow> stable_error + int" where
  "GovAmtFromFullRecollateralize E S M os s =
     bindE (StableRequiredForTargetCollRatio E S M os s) (\<lambda>neededCollUSD. GovAmtFromRecollateralize E os neededCollUSD s)"

text \<open>The part of an offered amount that is taken: at most what is needed, and it must be positive.\<close>

definition offered :: "'b chain_sdk \<Rightarrow> coin \<Rightarrow> int \<Rightarrow> stable_error + coin" where
  "offered E c needed =
     bindE (st_NewCoin E (Denom c) 0) (\<lambda>inCoin.
     if needed < Amount c then Inr (inCoin\<lparr>Amount := needed\<rparr>)
     else if Amount c \<le> 0 then Inl (StableError ''collateral input must be positive'')
     else Inr (inCoin\<lparr>Amount := Amount c\<rparr>))"

definition Recollateralize :: "'b chain_sdk \<Rightarrow> 'b spot_sdk \<Rightarrow> 'b mint_sdk \<Rightarrow> 'b oracle_state \<Rightarrow> string \<Rightarrow> coin \<Rightarrow> 'b stable_state
    \<Rightarrow> stable_error + ('b stable_state \<times> coin)" where
  "Recollateralize E S M os creator coll s =
     bindE (stable_addr E creator) (\<lambda>caller.
     let targetCollRatio = GetCollRatioAsDec E (st_Params s) in
     bindE (RecollateralizeCollAmtForTargetCollRatio E S M os s) (\<lambda>neededCollAmt.
     if neededCollAmt \<le> 0 then Inl (StableError ''protocol has sufficient COLL, so 'Recollateralize' is not needed'')
     else
     bindE (offered E coll neededCollAmt) (\<lambda>inColl.
     bindE (checkEnoughBalance S inColl caller s) (\<lambda>_.
     bindE (st_NewCoins S [inColl]) (\<lambda>inCoins.
     bindE (st_bank (SendCoins_AccountToModule S (st_sdk s) caller StableModule inCoins) s) (\<lambda>s.
     let s = stable_emit [EventTransfer inColl caller (GetModuleAddress E StableModule)] s in
     bindE (price_coll os) (\<lambda>priceCollStable.
     let inUSD = priceCollStable * Amount inColl in
     bindE (GovAmtFromRecollateralize E os inUSD s) (\<lambda>outGovAmount.
     bindE (st_NewCoin E NIBI outGovAmount) (\<lambda>outGov.
     bindE (st_NewCoins S [outGov]) (\<lambda>outCoins.
     bindE (st_bank (bank_MintCoins M (st_sdk s) StableModule outCoins) s) (\<lambda>s.
     let s = stable_emit [EventMintNIBI (Amount outGov)] s in
     bindE (st_bank (SendCoins_ModuleToAccount S (st_sdk s) StableModule caller outCoins) s) (\<lambda>s.
     Inr (stable_emit [EventTransfer outGov (GetModuleAddress E StableModule) caller,
                EventRecollateralize caller inColl outGov targetCollRatio] s, outGov)))))))))))))"


section \<open>Buyback\<close>

definition BuybackGovAmtForTargetCollRatio :: "'b chain_sdk \<Rightarrow> 'b spot_sdk \<Rightarrow> 'b mint_sdk \<Rightarrow> 'b oracle_state \<Rightarrow> 'b stable_state \<Rightarrow> stable_error + int" where
  "BuybackGovAmtForTargetCollRatio E S M os s =
     (let neededUSDForRecoll = or_zero (StableRequiredForTargetCollRatio E S M os s);
          neededUSDForBuyback = - neededUSDForRecoll
      in
      bindE (price_gov os) (\<lambda>priceGovStable.
      bindE (st_Quo E neededUSDForBuyback priceGovStable) (\<lambda>neededGovAmtDec.
      Inr (dec_TruncateInt E (dec_Ceil E neededGovAmtDec)))))"

definition CollAmtFromBuyback :: "'b chain_sdk \<Rightarrow> 'b oracle_state \<Rightarrow> dec \<Rightarrow> stable_error + int" where
  "CollAmtFromBuyback E os valUSD =
     bindE (price_coll os) (\<lambda>priceCollStable.
     bindE (st_Quo E valUSD priceCollStable) (\<lambda>x. Inr (dec_TruncateInt E x)))"

definition CollAmtFromFullBuyback :: "'b chain_sdk \<Rightarrow> 'b spot_sdk \<Rightarrow> 'b mint_sdk \<Rightarrow> 'b oracle_state \<Rightarrow> 'b stable_state \<Rightarrow> stable_error + int" where
  "CollAmtFromFullBuyback E S M os s =
     bindE (StableRequiredForTargetCollRatio E S M os s) (\<lambda>neededUSDForRecoll.
     let neededUSDForBuyback = - neededUSDForRecoll in
     CollAmtFromBuyback E os neededUSDForBuyback)"

definition Buyback :: "'b chain_sdk \<Rightarrow> 'b spot_sdk \<Rightarrow> 'b mint_sdk \<Rightarrow> 'b oracle_state \<Rightarrow> string \<Rightarrow> coin \<Rightarrow> 'b stable_state
    \<Rightarrow> stable_error + ('b stable_state \<times> coin)" where
  "Buyback E S M os creator gov s =
     bindE (stable_addr E creator) (\<lambda>caller.
     let targetCollRatio = GetCollRatioAsDec E (st_Params s) in
     bindE (BuybackGovAmtForTargetCollRatio E S M os s) (\<lambda>neededGovAmt.
     if neededGovAmt \<le> 0 then Inl (StableError ''protocol has insufficient COLL, so 'Buyback' is not needed'')
     else
     bindE (offered E gov neededGovAmt) (\<lambda>inGov.
     bindE (checkEnoughBalance S inGov caller s) (\<lambda>_.
     bindE (st_NewCoins S [inGov]) (\<lambda>inCoins.
     bindE (st_bank (SendCoins_AccountToModule S (st_sdk s) caller StableModule inCoins) s) (\<lambda>s.
     let s = stable_emit [EventTransfer inGov caller (GetModuleAddress E StableModule)] s in
     bindE (st_bank (BurnCoins S (st_sdk s) StableModule inCoins) s) (\<lambda>s.
     let s = stable_emit [EventBurnNIBI (Amount inGov)] s in
     bindE (price_gov os) (\<lambda>priceGovStable.
     let inUSD = priceGovStable * Amount inGov in
     bindE (CollAmtFromBuyback E os inUSD) (\<lambda>outCollAmount.
     bindE (st_NewCoin E USDC outCollAmount) (\<lambda>outColl.
     bindE (st_NewCoins S [outColl]) (\<lambda>outCoins.
     bindE (st_bank (SendCoins_ModuleToAccount S (st_sdk s) StableModule caller outCoins) s) (\<lambda>s.
     Inr (stable_emit [EventTransfer outColl (GetModuleAddress E StableModule) caller,
                EventBuyback caller inGov outColl targetCollRatio] s, outColl)))))))))))))"


section \<open>Messages, queries and genesis\<close>

datatype stable_msg =
    MsgMintStable string coin
  | MsgBurnStable string coin
  | MsgRecollateralize string coin
  | MsgBuyback string coin

fun stable_Creator :: "stable_msg \<Rightarrow> string" where
  "stable_Creator (MsgMintStable creator _) = creator"
| "stable_Creator (MsgBurnStable creator _) = creator"
| "stable_Creator (MsgRecollateralize creator _) = creator"
| "stable_Creator (MsgBuyback creator _) = creator"

definition stable_ValidateBasic :: "'b chain_sdk \<Rightarrow> stable_msg \<Rightarrow> stable_error + unit" where
  "stable_ValidateBasic E msg = bindE (stable_addr E (stable_Creator msg)) (\<lambda>_. Inr ())"

definition stable_GetSigners :: "'b chain_sdk \<Rightarrow> stable_msg \<Rightarrow> stable_error + addr list" where
  "stable_GetSigners E msg =
     bindE (getE (StablePanic ''invalid address'') (AccAddressFromBech32 E (stable_Creator msg))) (\<lambda>creator. Inr [creator])"

datatype stable_response = RespMint mint_response | RespBurn burn_response | RespRecollateralize coin | RespBuyback coin

fun stable_Handler :: "'b chain_sdk \<Rightarrow> 'b spot_sdk \<Rightarrow> 'b mint_sdk \<Rightarrow> 'b oracle_state \<Rightarrow> stable_msg \<Rightarrow> 'b stable_state
    \<Rightarrow> stable_error + ('b stable_state \<times> stable_response)" where
  "stable_Handler E S M os (MsgMintStable creator stableCoin) s =
     bindE (MintStable E S M os creator stableCoin s) (\<lambda>(s, r). Inr (s, RespMint r))"
| "stable_Handler E S M os (MsgBurnStable creator stableCoin) s =
     bindE (BurnStable E S M os creator stableCoin s) (\<lambda>(s, r). Inr (s, RespBurn r))"
| "stable_Handler E S M os (MsgRecollateralize creator coll) s =
     bindE (Recollateralize E S M os creator coll s) (\<lambda>(s, r). Inr (s, RespRecollateralize r))"
| "stable_Handler E S M os (MsgBuyback creator gov) s =
     bindE (Buyback E S M os creator gov s) (\<lambda>(s, r). Inr (s, RespBuyback r))"

text \<open>A message that fails leaves the state as it was.\<close>

definition stable_deliver :: "'b chain_sdk \<Rightarrow> 'b spot_sdk \<Rightarrow> 'b mint_sdk \<Rightarrow> 'b oracle_state \<Rightarrow> stable_msg \<Rightarrow> 'b stable_state \<Rightarrow> 'b stable_state" where
  "stable_deliver E S M os msg s =
     (case bindE (stable_ValidateBasic E msg) (\<lambda>_. stable_Handler E S M os msg s) of Inr (s1, _) \<Rightarrow> s1 | Inl _ \<Rightarrow> s)"

definition invalid_request :: stable_error where
  "invalid_request = StableError ''invalid request''"

definition query_stable_Params :: "unit option \<Rightarrow> 'b stable_state \<Rightarrow> stable_error + stable_params" where
  "query_stable_Params req s = bindE (getE invalid_request req) (\<lambda>_. Inr (st_Params s))"

definition query_ModuleAccountBalances :: "'b chain_sdk \<Rightarrow> unit option \<Rightarrow> 'b stable_state \<Rightarrow> stable_error + coin list" where
  "query_ModuleAccountBalances E req s =
     bindE (getE invalid_request req) (\<lambda>_. Inr (GetAllBalances E (st_sdk s) (GetModuleAddress E StableModule)))"

definition query_CirculatingSupplies :: "'b mint_sdk \<Rightarrow> unit option \<Rightarrow> 'b stable_state \<Rightarrow> stable_error + (coin \<times> coin)" where
  "query_CirculatingSupplies M req s = bindE (getE invalid_request req) (\<lambda>_. Inr (GetSupplyNIBI M s, GetSupplyNUSD M s))"

record liquidity_ratio_info =
  li_LiquidityRatio :: dec
  li_UpperBand :: dec
  li_LowerBand :: dec

definition query_LiquidityRatioInfo :: "'b chain_sdk \<Rightarrow> 'b mint_sdk \<Rightarrow> 'b spot_state \<Rightarrow> unit option \<Rightarrow> 'b stable_state \<Rightarrow> stable_error + liquidity_ratio_info" where
  "query_LiquidityRatioInfo E M sp req s =
     bindE (getE invalid_request req) (\<lambda>_.
     bindE (GetLiquidityRatio E M sp s) (\<lambda>liqRatio.
     bindE (GetLiquidityRatioBands E M sp s) (\<lambda>(lowerBand, upperBand).
     Inr \<lparr>li_LiquidityRatio = liqRatio, li_UpperBand = upperBand, li_LowerBand = lowerBand\<rparr>)))"

record stable_genesis =
  sg_Params :: stable_params
  sg_ModuleAccountBalance :: coin

definition stable_DefaultGenesis :: "'b chain_sdk \<Rightarrow> stable_error + stable_genesis" where
  "stable_DefaultGenesis E =
     bindE (stable_DefaultParams E) (\<lambda>params.
     bindE (st_NewCoin E USDC 0) (\<lambda>c.
     Inr \<lparr>sg_Params = params, sg_ModuleAccountBalance = c\<rparr>))"

definition stable_Genesis_Validate :: "stable_genesis \<Rightarrow> stable_error + unit" where
  "stable_Genesis_Validate gs = stable_Params_Validate (sg_Params gs)"

definition GetModuleAccountBalance :: "'b chain_sdk \<Rightarrow> 'b stable_state \<Rightarrow> coin" where
  "GetModuleAccountBalance E s = \<lparr>Denom = NIBI, Amount = GetBalance E (st_sdk s) (GetModuleAddress E StableModule) NIBI\<rparr>"

definition stable_InitGenesis :: "'b spot_sdk \<Rightarrow> 'b mint_sdk \<Rightarrow> stable_genesis \<Rightarrow> 'b stable_state \<Rightarrow> stable_error + 'b stable_state" where
  "stable_InitGenesis S M genState s =
     bindE (if 0 < Amount (sg_ModuleAccountBalance genState)
            then bindE (st_NewCoins S [sg_ModuleAccountBalance genState]) (\<lambda>coins.
                 mapErr (\<lambda>_. StablePanic ''cannot mint'') (st_bank (bank_MintCoins M (st_sdk s) StableModule coins) s))
            else Inr s) (\<lambda>s.
     stable_SetParams (sg_Params genState) s)"

definition stable_ExportGenesis :: "'b chain_sdk \<Rightarrow> 'b stable_state \<Rightarrow> stable_error + stable_genesis" where
  "stable_ExportGenesis E s =
     bindE (stable_DefaultGenesis E) (\<lambda>genesis.
     Inr (genesis\<lparr>sg_Params := st_Params s, sg_ModuleAccountBalance := GetModuleAccountBalance E s\<rparr>))"

end
