(* ===== verification/Stable_Books.thy ===== *)
theory Stable_Books
  imports Stable_Ratio Spot_Bank Oracle_Rewards
begin

text \<open>
  The books of the stablecoin: what every operation of the keeper does to the balances and to the supply, as an amount added per
  account and denomination.  The effects of the steps add up to the effects of minting, burning, recollateralization and buyback.
\<close>

section \<open>Effects\<close>

definition st_effect :: "'b chain_sdk \<Rightarrow> 'b mint_sdk \<Rightarrow> 'b stable_state \<Rightarrow> 'b stable_state \<Rightarrow> (addr \<Rightarrow> denom \<Rightarrow> int) \<Rightarrow> (denom \<Rightarrow> int) \<Rightarrow> bool" where
  "st_effect E M s s' db dq \<longleftrightarrow>
     (\<forall>a d. GetBalance E (st_sdk s') a d = GetBalance E (st_sdk s) a d + db a d)
     \<and> (\<forall>d. GetSupply M (st_sdk s') d = GetSupply M (st_sdk s) d + dq d)
     \<and> st_Params s' = st_Params s"

definition at_acc :: "addr \<Rightarrow> (denom \<Rightarrow> int) \<Rightarrow> addr \<Rightarrow> denom \<Rightarrow> int" where
  "at_acc x f = (\<lambda>a d. if a = x then f d else 0)"

definition in_denom :: "denom \<Rightarrow> int \<Rightarrow> denom \<Rightarrow> int" where
  "in_denom dn n = (\<lambda>d. if d = dn then n else 0)"

lemma in_denom_AmountOf: "AmountOf [\<lparr>Denom = dn, Amount = n\<rparr>] = in_denom dn n"
  by (simp add: fun_eq_iff in_denom_def)

lemma AmountOf_single: "AmountOf [c] = in_denom (Denom c) (Amount c)"
  by (simp add: fun_eq_iff in_denom_def)

lemma st_effect_trans [trans]:
  "st_effect E M s s1 db dq \<Longrightarrow> st_effect E M s1 s2 db' dq' \<Longrightarrow>
   st_effect E M s s2 (\<lambda>a d. db a d + db' a d) (\<lambda>d. dq d + dq' d)"
  by (simp add: st_effect_def)

lemma st_effect_eq: "st_effect E M s s' db dq \<Longrightarrow> (\<And>a d. db a d = db' a d) \<Longrightarrow> (\<And>d. dq d = dq' d) \<Longrightarrow> st_effect E M s s' db' dq'"
  by (simp add: st_effect_def)

lemma st_effect_emit: "st_effect E M s (stable_emit es s') db dq \<longleftrightarrow> st_effect E M s s' db dq"
  by (simp add: st_effect_def stable_emit_def)

lemma st_effect_from_emit: "st_effect E M (stable_emit es s) s' db dq \<longleftrightarrow> st_effect E M s s' db dq"
  by (simp add: st_effect_def stable_emit_def)

lemma st_bank_Inr: "st_bank r s = Inr s' \<longleftrightarrow> (\<exists>b. r = Inr b \<and> s' = s\<lparr>st_sdk := b\<rparr>)"
  by (auto simp: st_bank_def bindE_eq_Inr mapErr_eq_Inr)

lemma st_NewCoin_Inr: "newcoin_laws E \<Longrightarrow> st_NewCoin E d n = Inr c \<Longrightarrow> 0 \<le> n \<and> c = \<lparr>Denom = d, Amount = n\<rparr>"
  by (auto simp: st_NewCoin_def getE_eq_Inr newcoin_laws_def)

lemma st_NewCoins_Inr:
  assumes "spot_laws E S M distr" and "st_NewCoins S cs = Inr z"
  shows "coins_valid z" and "AmountOf z = AmountOf cs"
  using spot_bank.newcoins_ok [OF spot_lawsD [OF assms(1)]] assms(2)
  by (auto simp: st_NewCoins_def getE_eq_Inr fun_eq_iff)

text \<open>The steps on the bank.\<close>

lemma st_a2m_effect:
  assumes "spot_laws E S M distr" and "st_bank (SendCoins_AccountToModule S (st_sdk s) x m cs) s = Inr s'"
  shows "st_effect E M s s' (\<lambda>a d. at_acc (GetModuleAddress E m) (AmountOf cs) a d - at_acc x (AmountOf cs) a d) (\<lambda>d. 0)"
  using assms(2) spot_bank.a2m_ok [OF spot_lawsD [OF assms(1)]]
  by (fastforce simp: st_bank_Inr st_effect_def move_coins_def at_acc_def)

lemma st_m2a_effect:
  assumes "spot_laws E S M distr" and "st_bank (SendCoins_ModuleToAccount S (st_sdk s) m x cs) s = Inr s'"
  shows "st_effect E M s s' (\<lambda>a d. at_acc x (AmountOf cs) a d - at_acc (GetModuleAddress E m) (AmountOf cs) a d) (\<lambda>d. 0)"
  using assms(2) spot_bank.m2a_ok [OF spot_lawsD [OF assms(1)]]
  by (fastforce simp: st_bank_Inr st_effect_def move_coins_def at_acc_def)

lemma st_burn_effect:
  assumes "spot_laws E S M distr" and "st_bank (BurnCoins S (st_sdk s) m cs) s = Inr s'"
  shows "st_effect E M s s' (\<lambda>a d. - at_acc (GetModuleAddress E m) (AmountOf cs) a d) (\<lambda>d. - AmountOf cs d)"
  using assms(2) spot_bank.burn_ok [OF spot_lawsD [OF assms(1)]]
  by (fastforce simp: st_bank_Inr st_effect_def at_acc_def)

lemma st_mint_effect:
  assumes "spot_laws E S M distr" and "st_bank (bank_MintCoins M (st_sdk s) m cs) s = Inr s'"
  shows "st_effect E M s s' (at_acc (GetModuleAddress E m) (AmountOf cs)) (AmountOf cs)"
  using assms(2) mint_bank.mint_ok [OF spot_laws_mint [OF assms(1), unfolded mint_laws_def]]
  by (fastforce simp: st_bank_Inr st_effect_def at_acc_def)

text \<open>The operations of the keeper.\<close>

abbreviation stable_acc :: "'b chain_sdk \<Rightarrow> addr" where
  "stable_acc E \<equiv> GetModuleAddress E StableModule"

lemma sendCoinsToModuleAccount_effect:
  assumes "spot_laws E S M distr" and "sendCoinsToModuleAccount E S x cs s = Inr s'"
  shows "st_effect E M s s' (\<lambda>a d. at_acc (stable_acc E) (AmountOf cs) a d - at_acc x (AmountOf cs) a d) (\<lambda>d. 0)"
  using assms(2) st_a2m_effect [OF assms(1)] by (auto simp: sendCoinsToModuleAccount_def bindE_eq_Inr st_effect_emit)

lemma sendCoinsFromModuleAccountToUser_effect:
  assumes "spot_laws E S M distr" and "sendCoinsFromModuleAccountToUser E S x cs s = Inr s'"
  shows "st_effect E M s s' (\<lambda>a d. at_acc x (AmountOf cs) a d - at_acc (stable_acc E) (AmountOf cs) a d) (\<lambda>d. 0)"
  using assms(2) st_m2a_effect [OF assms(1)] by (auto simp: sendCoinsFromModuleAccountToUser_def bindE_eq_Inr st_effect_emit)

lemma burn_tokens_effect:
  assumes "spot_laws E S M distr" and "burnGovTokens S c s = Inr s' \<or> burnStableTokens S c s = Inr s'"
  shows "st_effect E M s s' (\<lambda>a d. - at_acc (stable_acc E) (AmountOf [c]) a d) (\<lambda>d. - AmountOf [c] d)"
  using assms(2) st_burn_effect [OF assms(1)] st_NewCoins_Inr(2) [OF assms(1)]
  by (fastforce simp: burnGovTokens_def burnStableTokens_def stable_burnCoins_def bindE_eq_Inr st_effect_emit simp del: AmountOf_simps)

lemma mint_tokens_effect:
  assumes "spot_laws E S M distr" and "mintStable S M c s = Inr s' \<or> mintGov S M c s = Inr s'"
  shows "st_effect E M s s' (at_acc (stable_acc E) (AmountOf [c])) (AmountOf [c])"
  using assms(2) st_mint_effect [OF assms(1)] st_NewCoins_Inr(2) [OF assms(1)]
  by (fastforce simp: mintStable_def mintGov_def bindE_eq_Inr st_effect_emit simp del: AmountOf_simps)


section \<open>Fees\<close>

definition ef_part :: "'b chain_sdk \<Rightarrow> dec \<Rightarrow> int \<Rightarrow> int" where
  "ef_part E r n = dec_TruncateInt E (dec_Mul E (NewDec n) r)"

definition ef_sum :: "'b chain_sdk \<Rightarrow> dec \<Rightarrow> coin list \<Rightarrow> denom \<Rightarrow> int" where
  "ef_sum E r cs d = sum_list (map (\<lambda>c. in_denom (Denom c) (ef_part E r (Amount c)) d) cs)"

definition only_in :: "denom \<Rightarrow> (denom \<Rightarrow> int) \<Rightarrow> denom \<Rightarrow> int" where
  "only_in dn f = (\<lambda>d. if d = dn then f d else 0)"

definition not_in :: "denom \<Rightarrow> (denom \<Rightarrow> int) \<Rightarrow> denom \<Rightarrow> int" where
  "not_in dn f = (\<lambda>d. if d = dn then 0 else f d)"

lemma ef_part_0 [simp]: "dec_laws E \<Longrightarrow> ef_part E r 0 = 0"
proof -
  assume "dec_laws E"
  note D = dec_lawsD [OF this]
  have "dec_TruncateInt E 0 * PREC = 0" using sdk_decimal.truncInt_whole [OF D, of 0] by simp
  then have "dec_TruncateInt E 0 = 0" using PREC_pos by simp
  then show ?thesis by (simp add: ef_part_def NewDec_def sdk_decimal.mul_0 [OF D])
qed

lemma ef_sum_absent: "d \<notin> Denom ` set cs \<Longrightarrow> ef_sum E r cs d = 0"
  by (induction cs) (auto simp: ef_sum_def in_denom_def)

lemma ef_sum_distinct:
  assumes "dec_laws E" and "distinct (map Denom cs)"
  shows "ef_sum E r cs d = ef_part E r (AmountOf cs d)"
  using assms(2)
proof (induction cs)
  case Nil
  then show ?case using assms(1) by (simp add: ef_sum_def)
next
  case (Cons c cs)
  have s: "ef_sum E r (c # cs) d = in_denom (Denom c) (ef_part E r (Amount c)) d + ef_sum E r cs d" by (simp add: ef_sum_def)
  show ?case
  proof (cases "d = Denom c")
    case True
    then have "d \<notin> Denom ` set cs" using Cons.prems by simp
    then show ?thesis using s True by (simp add: in_denom_def ef_sum_absent AmountOf_absent)
  next
    case False
    then show ?thesis using s Cons by (simp add: in_denom_def)
  qed
qed

lemma stable_split_fees_effect:
  assumes "spot_laws E S M distr" and "coinset_laws E" and "newcoin_laws E"
    and "stable_split_fees E S x r cs ef tr s = Inr (s', ef', tr')" and "coins_sorted ef" and "coins_sorted tr"
  shows "st_effect E M s s' (\<lambda>a d. - at_acc x (only_in NIBI (ef_sum E r cs)) a d) (\<lambda>d. - only_in NIBI (ef_sum E r cs) d)
    \<and> (\<forall>d. AmountOf ef' d = AmountOf ef d + not_in NIBI (ef_sum E r cs) d)
    \<and> (\<forall>d. AmountOf tr' d = AmountOf tr d + AmountOf cs d - ef_sum E r cs d)"
  using assms(4-)
proof (induction cs arbitrary: ef tr s)
  case Nil
  then show ?case by (simp add: st_effect_def ef_sum_def at_acc_def only_in_def not_in_def)
next
  case (Cons c cs)
  note add = coin_sets.add_coins [OF coinset_lawsD [OF assms(2)]]
  note effs = st_a2m_effect [OF assms(1)] st_burn_effect [OF assms(1)]
  let ?e = "\<lparr>Denom = Denom c, Amount = ef_part E r (Amount c)\<rparr>" and ?t = "\<lparr>Denom = Denom c, Amount = Amount c - ef_part E r (Amount c)\<rparr>"
  obtain s1 ef1 where step: "ef_fee E S x ?e ef s = Inr (s1, ef1)"
      and rest: "stable_split_fees E S x r cs ef1 (Coins_Add E tr [?t]) s1 = Inr (s', ef', tr')"
    using Cons.prems(1) by (auto simp: Let_def bindE_eq_Inr ef_part_def dest!: st_NewCoin_Inr [OF assms(3)])
  have sum: "ef_sum E r (c # cs) d = in_denom (Denom c) (ef_part E r (Amount c)) d + ef_sum E r cs d" for d by (simp add: ef_sum_def)
  have tr: "coins_sorted (Coins_Add E tr [?t])" "AmountOf (Coins_Add E tr [?t]) d = AmountOf tr d + AmountOf [?t] d" for d
    using add [OF Cons.prems(3), of "[?t]"] by simp_all
  have one: "st_effect E M s s1 (\<lambda>a d. - at_acc x (only_in NIBI (in_denom (Denom c) (ef_part E r (Amount c)))) a d)
        (\<lambda>d. - only_in NIBI (in_denom (Denom c) (ef_part E r (Amount c))) d)
      \<and> coins_sorted ef1 \<and> (\<forall>d. AmountOf ef1 d = AmountOf ef d + not_in NIBI (in_denom (Denom c) (ef_part E r (Amount c))) d)"
  proof (cases "Denom c = NIBI")
    case True
    then obtain cs' s2 where b: "st_NewCoins S [?e] = Inr cs'" "st_bank (SendCoins_AccountToModule S (st_sdk s) x StableEFModuleAccount cs') s = Inr s2"
        "st_bank (BurnCoins S (st_sdk s2) StableEFModuleAccount cs') s2 = Inr s1" and ef1: "ef1 = ef"
      using step by (auto simp: ef_fee_def bindE_eq_Inr)
    show ?thesis
      using st_effect_trans [OF effs(1) [OF b(2)] effs(2) [OF b(3)]] st_NewCoins_Inr(2) [OF assms(1) b(1)] True ef1 Cons.prems(2)
      by (auto simp: AmountOf_single only_in_def not_in_def in_denom_def at_acc_def elim!: st_effect_eq simp del: AmountOf_simps)
  next
    case False
    then have "s1 = s" "ef1 = Coins_Add E ef [?e]" using step by (simp_all add: ef_fee_def)
    then show ?thesis using add [OF Cons.prems(2), of "[?e]"] False
      by (auto simp: st_effect_def at_acc_def only_in_def not_in_def in_denom_def)
  qed
  have ih: "st_effect E M s1 s' (\<lambda>a d. - at_acc x (only_in NIBI (ef_sum E r cs)) a d) (\<lambda>d. - only_in NIBI (ef_sum E r cs) d)
    \<and> (\<forall>d. AmountOf ef' d = AmountOf ef1 d + not_in NIBI (ef_sum E r cs) d)
    \<and> (\<forall>d. AmountOf tr' d = AmountOf (Coins_Add E tr [?t]) d + AmountOf cs d - ef_sum E r cs d)"
    using Cons.IH [OF rest] one tr(1) by blast
  have "st_effect E M s s' (\<lambda>a d. - at_acc x (only_in NIBI (ef_sum E r (c # cs))) a d) (\<lambda>d. - only_in NIBI (ef_sum E r (c # cs)) d)"
    using st_effect_trans [OF conjunct1 [OF one] conjunct1 [OF ih]]
    by (rule st_effect_eq) (auto simp: at_acc_def only_in_def sum)
  moreover have "AmountOf ef' d = AmountOf ef d + not_in NIBI (ef_sum E r (c # cs)) d" for d
    using one ih by (simp add: not_in_def sum)
  moreover have "AmountOf tr' d = AmountOf tr d + AmountOf (c # cs) d - ef_sum E r (c # cs) d" for d
    using ih by (simp add: tr(2) sum in_denom_def)
  ultimately show ?case by blast
qed

text \<open>Of a set of fees the ecosystem fund gets its part, except that its part of a fee in NIBI is burned; the treasury gets the rest.\<close>

lemma splitAndSend_effect:
  assumes "spot_laws E S M distr" and "coinset_laws E" and "newcoin_laws E" and "dec_laws E" and "coins_valid cs"
    and "splitAndSendFeesToEfAndTreasury E S x r cs s = Inr s'"
  defines "ef \<equiv> \<lambda>d. ef_part E r (AmountOf cs d)"
  shows "st_effect E M s s' (\<lambda>a d. at_acc (GetModuleAddress E StableEFModuleAccount) (not_in NIBI ef) a d
      + at_acc (GetModuleAddress E TreasuryPoolModuleAccount) (\<lambda>d. AmountOf cs d - ef d) a d - at_acc x (AmountOf cs) a d)
    (\<lambda>d. - only_in NIBI ef d)"
proof -
  obtain s1 s2 efc trc where b: "stable_split_fees E S x r cs [] [] s = Inr (s1, efc, trc)"
      "st_bank (SendCoins_AccountToModule S (st_sdk s1) x StableEFModuleAccount efc) s1 = Inr s2"
      "st_bank (SendCoins_AccountToModule S (st_sdk s2) x TreasuryPoolModuleAccount trc) s2 = Inr s'"
    using assms(6) by (auto simp: splitAndSendFeesToEfAndTreasury_def bindE_eq_Inr)
  have ef: "ef_sum E r cs d = ef d" for d
    using ef_sum_distinct [OF assms(4) coins_valid_distinct [OF assms(5)]] by (simp add: ef_def)
  note f = stable_split_fees_effect [OF assms(1-3) b(1)]
  have amounts: "AmountOf efc = not_in NIBI ef" "AmountOf trc = (\<lambda>d. AmountOf cs d - ef d)" using f by (auto simp: fun_eq_iff not_in_def ef)
  show ?thesis
    using st_effect_trans [OF st_effect_trans [OF conjunct1 [OF f] st_a2m_effect [OF assms(1) b(2)]] st_a2m_effect [OF assms(1) b(3)]]
    by (rule st_effect_eq) (auto simp: amounts at_acc_def only_in_def not_in_def ef)
qed

end
