(* ===== verification/Stable_Mint.thy ===== *)
theory Stable_Mint
  imports Stable_Books
begin

text \<open>
  Minting and burning: what the user pays and receives, where the fees go, what happens to the supply, and that minting and
  burning again costs the fees of both and nothing else.
\<close>

section \<open>Amounts\<close>

definition needed_amt :: "'b chain_sdk \<Rightarrow> dec \<Rightarrow> dec \<Rightarrow> int \<Rightarrow> int" where
  "needed_amt E ratio price n = dec_TruncateInt E (dec_Quo E (dec_Mul E (NewDec n) ratio) price)"

definition fee_amt :: "'b chain_sdk \<Rightarrow> dec \<Rightarrow> int \<Rightarrow> int" where
  "fee_amt E r n = dec_RoundInt E (dec_Mul E (NewDec n) r)"

text \<open>The mixture for an amount of stablecoins at the prices of the collateral and of NIBI, and its fee, by denomination.\<close>

definition mixture :: "'b chain_sdk \<Rightarrow> stable_params \<Rightarrow> dec \<Rightarrow> dec \<Rightarrow> int \<Rightarrow> denom \<Rightarrow> int" where
  "mixture E p pc pg n = (\<lambda>d. in_denom USDC (needed_amt E (GetCollRatioAsDec E p) pc n) d
     + in_denom NIBI (needed_amt E (OneDec - GetCollRatioAsDec E p) pg n) d)"

definition mixture_fee :: "'b chain_sdk \<Rightarrow> stable_params \<Rightarrow> dec \<Rightarrow> dec \<Rightarrow> int \<Rightarrow> denom \<Rightarrow> int" where
  "mixture_fee E p pc pg n = (\<lambda>d. fee_amt E (GetFeeRatioAsDec E p) (mixture E p pc pg n d))"

lemma USDC_NIBI [simp]: "USDC \<noteq> NIBI" "NIBI \<noteq> USDC"
  by (simp_all add: USDC_def NIBI_def)

lemma fee_amt_0 [simp]: "dec_laws E \<Longrightarrow> fee_amt E r 0 = 0"
  by (simp add: fee_amt_def NewDec_def sdk_decimal.mul_0 [OF dec_lawsD] sdk_decimal.roundInt_0 [OF dec_lawsD])

lemma needed_and_fees_Inr:
  assumes "newcoin_laws E" and "needed_and_fees E d c ratio feeRatio price = Inr (x, f)"
  shows "x = \<lparr>Denom = d, Amount = needed_amt E ratio price (Amount c)\<rparr>"
    and "f = \<lparr>Denom = d, Amount = fee_amt E feeRatio (needed_amt E ratio price (Amount c))\<rparr>"
    and "0 \<le> needed_amt E ratio price (Amount c)" and "price \<noteq> 0"
  using assms(2) by (auto simp: needed_and_fees_def Let_def bindE_eq_Inr st_Quo_def needed_amt_def fee_amt_def
    dest!: st_NewCoin_Inr [OF assms(1)] split: if_splits)

text \<open>Both messages compute the same two coins with their fees.\<close>

lemma mixture_Inr:
  assumes "newcoin_laws E" and "dec_laws E"
    and "calcNeededCollateralAndFees E os c (GetCollRatioAsDec E p) (GetFeeRatioAsDec E p) = Inr (coll, collFees)"
    and "calcNeededGovAndFees E os c (OneDec - GetCollRatioAsDec E p) (GetFeeRatioAsDec E p) = Inr (gov, govFees)"
  shows "\<exists>pc pg. price_coll os = Inr pc \<and> price_gov os = Inr pg \<and> pc \<noteq> 0 \<and> pg \<noteq> 0
    \<and> AmountOf [coll, gov] = mixture E p pc pg (Amount c) \<and> AmountOf [collFees, govFees] = mixture_fee E p pc pg (Amount c)
    \<and> AmountOf [govFees, collFees] = mixture_fee E p pc pg (Amount c)
    \<and> AmountOf [gov] = only_in NIBI (mixture E p pc pg (Amount c))"
proof -
  obtain pc pg where p: "price_coll os = Inr pc" "price_gov os = Inr pg"
      "needed_and_fees E USDC c (GetCollRatioAsDec E p) (GetFeeRatioAsDec E p) pc = Inr (coll, collFees)"
      "needed_and_fees E NIBI c (OneDec - GetCollRatioAsDec E p) (GetFeeRatioAsDec E p) pg = Inr (gov, govFees)"
    using assms(3,4) by (auto simp: calcNeededCollateralAndFees_def calcNeededGovAndFees_def bindE_eq_Inr)
  note x = needed_and_fees_Inr [OF assms(1) p(3)] needed_and_fees_Inr [OF assms(1) p(4)]
  show ?thesis
    by (intro exI [of _ pc] exI [of _ pg])
      (auto simp: p(1,2) x(4,8) x(1,2,5,6) mixture_def mixture_fee_def in_denom_def only_in_def fun_eq_iff assms(2))
qed


section \<open>Minting\<close>

lemma MintStable_effect:
  assumes "spot_laws E S M distr" and "coinset_laws E" and "newcoin_laws E" and "dec_laws E"
    and "MintStable E S M os creator c s = Inr (s', resp)"
  shows "\<exists>x pc pg. AccAddressFromBech32 E creator = Some x \<and> price_coll os = Inr pc \<and> price_gov os = Inr pg
    \<and> IsCollateralRatioValid (st_Params s) \<and>
    (let need = mixture E (st_Params s) pc pg (Amount c); fee = mixture_fee E (st_Params s) pc pg (Amount c);
         ef = (\<lambda>d. ef_part E (GetEfFeeRatioAsDec E (st_Params s)) (fee d))
     in st_effect E M s s'
       (\<lambda>a d. at_acc x (\<lambda>d. in_denom (Denom c) (Amount c) d - need d - fee d) a d + at_acc (stable_acc E) (not_in NIBI need) a d
         + at_acc (GetModuleAddress E StableEFModuleAccount) (not_in NIBI ef) a d
         + at_acc (GetModuleAddress E TreasuryPoolModuleAccount) (\<lambda>d. fee d - ef d) a d)
       (\<lambda>d. in_denom (Denom c) (Amount c) d - only_in NIBI need d - only_in NIBI ef d))"
proof -
  let ?p = "st_Params s"
  obtain x coll collFees gov govFees cs s1 s2 fees s3 s4 minted where valid: "IsCollateralRatioValid ?p"
      and x: "AccAddressFromBech32 E creator = Some x"
      and coll: "calcNeededCollateralAndFees E os c (GetCollRatioAsDec E ?p) (GetFeeRatioAsDec E ?p) = Inr (coll, collFees)"
      and gov: "calcNeededGovAndFees E os c (OneDec - GetCollRatioAsDec E ?p) (GetFeeRatioAsDec E ?p) = Inr (gov, govFees)"
      and cs: "st_NewCoins S [coll, gov] = Inr cs" "sendCoinsToModuleAccount E S x cs s = Inr s1" "burnGovTokens S gov s1 = Inr s2"
      and fees: "st_NewCoins S [collFees, govFees] = Inr fees"
        "splitAndSendFeesToEfAndTreasury E S x (GetEfFeeRatioAsDec E ?p) fees s2 = Inr s3"
      and mint: "mintStable S M c s3 = Inr s4" "st_NewCoins S [c] = Inr minted" "sendCoinsFromModuleAccountToUser E S x minted s4 = Inr s'"
    using assms(5) by (auto simp: MintStable_def Let_def bindE_eq_Inr stable_addr_def getE_eq_Inr split: if_splits)
  obtain pc pg where m: "price_coll os = Inr pc" "price_gov os = Inr pg" "AmountOf [coll, gov] = mixture E ?p pc pg (Amount c)"
      "AmountOf [collFees, govFees] = mixture_fee E ?p pc pg (Amount c)" "AmountOf [gov] = only_in NIBI (mixture E ?p pc pg (Amount c))"
    using mixture_Inr [OF assms(3,4) coll gov] by blast
  note A = st_NewCoins_Inr(2) [OF assms(1)]
  note amounts = A [OF cs(1), unfolded m] A [OF fees(1), unfolded m] A [OF mint(2), unfolded AmountOf_single] m(5)
    AmountOf_single [of c]
  have "st_effect E M s s'
       (\<lambda>a d. at_acc x (\<lambda>d. in_denom (Denom c) (Amount c) d - mixture E ?p pc pg (Amount c) d - mixture_fee E ?p pc pg (Amount c) d) a d
         + at_acc (stable_acc E) (not_in NIBI (mixture E ?p pc pg (Amount c))) a d
         + at_acc (GetModuleAddress E StableEFModuleAccount)
             (not_in NIBI (\<lambda>d. ef_part E (GetEfFeeRatioAsDec E ?p) (mixture_fee E ?p pc pg (Amount c) d))) a d
         + at_acc (GetModuleAddress E TreasuryPoolModuleAccount)
             (\<lambda>d. mixture_fee E ?p pc pg (Amount c) d - ef_part E (GetEfFeeRatioAsDec E ?p) (mixture_fee E ?p pc pg (Amount c) d)) a d)
       (\<lambda>d. in_denom (Denom c) (Amount c) d - only_in NIBI (mixture E ?p pc pg (Amount c)) d
         - only_in NIBI (\<lambda>d. ef_part E (GetEfFeeRatioAsDec E ?p) (mixture_fee E ?p pc pg (Amount c) d)) d)"
    using st_effect_trans [OF st_effect_trans [OF st_effect_trans [OF st_effect_trans [OF
        sendCoinsToModuleAccount_effect [OF assms(1) cs(2)] burn_tokens_effect [OF assms(1) disjI1 [OF cs(3)]]]
        splitAndSend_effect [OF assms(1-4) st_NewCoins_Inr(1) [OF assms(1) fees(1)] fees(2)]]
        mint_tokens_effect [OF assms(1) disjI1 [OF mint(1)]]] sendCoinsFromModuleAccountToUser_effect [OF assms(1) mint(3)]]
    by (rule st_effect_eq) (auto simp: amounts at_acc_def only_in_def not_in_def simp del: AmountOf_simps)
  then show ?thesis using valid x m(1,2) by (auto simp: Let_def)
qed


section \<open>Burning\<close>

lemma BurnStable_effect:
  assumes "spot_laws E S M distr" and "coinset_laws E" and "newcoin_laws E" and "dec_laws E"
    and "BurnStable E S M os creator c s = Inr (s', resp)"
  shows "\<exists>x pc pg. AccAddressFromBech32 E creator = Some x \<and> price_coll os = Inr pc \<and> price_gov os = Inr pg
    \<and> IsCollateralRatioValid (st_Params s) \<and>
    (let need = mixture E (st_Params s) pc pg (Amount c); fee = mixture_fee E (st_Params s) pc pg (Amount c);
         ef = (\<lambda>d. ef_part E (GetEfFeeRatioAsDec E (st_Params s)) (fee d))
     in st_effect E M s s'
       (\<lambda>a d. at_acc x (\<lambda>d. need d - fee d - in_denom (Denom c) (Amount c) d) a d - at_acc (stable_acc E) (not_in NIBI need) a d
         + at_acc (GetModuleAddress E StableEFModuleAccount) (not_in NIBI ef) a d
         + at_acc (GetModuleAddress E TreasuryPoolModuleAccount) (\<lambda>d. fee d - ef d) a d)
       (\<lambda>d. only_in NIBI need d - only_in NIBI ef d - in_denom (Denom c) (Amount c) d))"
proof -
  let ?p = "st_Params s"
  obtain x coll collFees gov govFees s1 burned s2 cs s3 fees s4 where valid: "IsCollateralRatioValid ?p"
      and x: "AccAddressFromBech32 E creator = Some x"
      and coll: "calcNeededCollateralAndFees E os c (GetCollRatioAsDec E ?p) (GetFeeRatioAsDec E ?p) = Inr (coll, collFees)"
      and gov: "calcNeededGovAndFees E os c (OneDec - GetCollRatioAsDec E ?p) (GetFeeRatioAsDec E ?p) = Inr (gov, govFees)"
      and b: "mintGov S M gov s = Inr s1" "st_NewCoins S [c] = Inr burned"
        "st_bank (SendCoins_AccountToModule S (st_sdk s1) x StableModule burned) s1 = Inr s2"
      and cs: "st_NewCoins S [coll, gov] = Inr cs" "sendCoinsFromModuleAccountToUser E S x cs s2 = Inr s3"
      and fees: "st_NewCoins S [govFees, collFees] = Inr fees"
        "splitAndSendFeesToEfAndTreasury E S x (GetEfFeeRatioAsDec E ?p) fees s3 = Inr s4"
      and burn: "burnStableTokens S c s4 = Inr s'"
    using assms(5) by (auto simp: BurnStable_def Let_def bindE_eq_Inr stable_addr_def getE_eq_Inr split: if_splits)
  obtain pc pg where m: "price_coll os = Inr pc" "price_gov os = Inr pg" "AmountOf [coll, gov] = mixture E ?p pc pg (Amount c)"
      "AmountOf [govFees, collFees] = mixture_fee E ?p pc pg (Amount c)" "AmountOf [gov] = only_in NIBI (mixture E ?p pc pg (Amount c))"
    using mixture_Inr [OF assms(3,4) coll gov] by blast
  note A = st_NewCoins_Inr(2) [OF assms(1)]
  note amounts = A [OF cs(1), unfolded m] A [OF fees(1), unfolded m] A [OF b(2), unfolded AmountOf_single] m(5)
    AmountOf_single [of c]
  have "st_effect E M s s'
       (\<lambda>a d. at_acc x (\<lambda>d. mixture E ?p pc pg (Amount c) d - mixture_fee E ?p pc pg (Amount c) d - in_denom (Denom c) (Amount c) d) a d
         - at_acc (stable_acc E) (not_in NIBI (mixture E ?p pc pg (Amount c))) a d
         + at_acc (GetModuleAddress E StableEFModuleAccount)
             (not_in NIBI (\<lambda>d. ef_part E (GetEfFeeRatioAsDec E ?p) (mixture_fee E ?p pc pg (Amount c) d))) a d
         + at_acc (GetModuleAddress E TreasuryPoolModuleAccount)
             (\<lambda>d. mixture_fee E ?p pc pg (Amount c) d - ef_part E (GetEfFeeRatioAsDec E ?p) (mixture_fee E ?p pc pg (Amount c) d)) a d)
       (\<lambda>d. only_in NIBI (mixture E ?p pc pg (Amount c)) d
         - only_in NIBI (\<lambda>d. ef_part E (GetEfFeeRatioAsDec E ?p) (mixture_fee E ?p pc pg (Amount c) d)) d - in_denom (Denom c) (Amount c) d)"
    using st_effect_trans [OF st_effect_trans [OF st_effect_trans [OF st_effect_trans [OF
        mint_tokens_effect [OF assms(1) disjI2 [OF b(1)]] st_a2m_effect [OF assms(1) b(3)]]
        sendCoinsFromModuleAccountToUser_effect [OF assms(1) cs(2)]]
        splitAndSend_effect [OF assms(1-4) st_NewCoins_Inr(1) [OF assms(1) fees(1)] fees(2)]]
        burn_tokens_effect [OF assms(1) disjI2 [OF burn]]]
    by (rule st_effect_eq) (auto simp: amounts at_acc_def only_in_def not_in_def simp del: AmountOf_simps)
  then show ?thesis using valid x m(1,2) by (auto simp: Let_def)
qed


section \<open>What a user pays\<close>

definition stable_accounts :: "'b chain_sdk \<Rightarrow> addr \<Rightarrow> bool" where
  "stable_accounts E x \<longleftrightarrow> distinct [x, stable_acc E, GetModuleAddress E StableEFModuleAccount, GetModuleAddress E TreasuryPoolModuleAccount]"

lemma ratio_dec_eq: "dec_laws E \<Longrightarrow> ratio_dec E w = uint w * 10 ^ 12"
proof -
  assume "dec_laws E"
  note D = dec_lawsD [OF this]
  have "ratio_dec E w * NewDec 1000000 = NewDec (uint w) * PREC"
    unfolding ratio_dec_def by (rule sdk_decimal.quo_exact [OF D]) (simp_all add: NewDec_def PREC_def)
  then show ?thesis by (simp add: NewDec_def PREC_def)
qed

lemma mixture_fee_nonneg:
  assumes "dec_laws E" and "0 \<le> mixture E p pc pg n d"
  shows "0 \<le> mixture_fee E p pc pg n d"
proof -
  note D = dec_lawsD [OF assms(1)]
  have "0 \<le> GetFeeRatioAsDec E p" by (simp add: GetFeeRatioAsDec_def ratio_dec_eq [OF assms(1)])
  moreover have "0 \<le> NewDec (mixture E p pc pg n d)" using assms(2) by (simp add: NewDec_def)
  ultimately show ?thesis
    unfolding mixture_fee_def fee_amt_def by (intro sdk_decimal.roundInt_nonneg [OF D] sdk_decimal.mul_nonneg [OF D])
qed

lemma MintStable_amounts:
  assumes "newcoin_laws E" and "MintStable E S M os creator c s = Inr (s', resp)"
  shows "\<exists>pc pg. price_coll os = Inr pc \<and> price_gov os = Inr pg
    \<and> 0 \<le> needed_amt E (GetCollRatioAsDec E (st_Params s)) pc (Amount c)
    \<and> 0 \<le> needed_amt E (OneDec - GetCollRatioAsDec E (st_Params s)) pg (Amount c)"
  using assms(2) by (auto simp: MintStable_def Let_def bindE_eq_Inr calcNeededCollateralAndFees_def calcNeededGovAndFees_def
    split: if_splits dest: needed_and_fees_Inr(3) [OF assms(1)])

text \<open>The mixture is worth the minted amount up to the rounding: less than one unit of each token is missing.\<close>

lemma needed_value:
  assumes "dec_laws E" and "0 < price"
  shows "0 \<le> n * ratio \<Longrightarrow> needed_amt E ratio price n * price * PREC < n * ratio * PREC + price"
    and "n * ratio * PREC - price * (PREC + 1) < needed_amt E ratio price n * price * PREC"
proof -
  note D = dec_lawsD [OF assms(1)]
  let ?q = "dec_Quo E (n * ratio) price" and ?t = "needed_amt E ratio price n"
  have t: "?t = dec_TruncateInt E ?q"
    by (simp add: needed_amt_def sdk_decimal.mul_comm [OF D, of "NewDec n"] sdk_decimal.mul_whole [OF D] mult.commute)
  have q: "\<bar>?q * price - n * ratio * PREC\<bar> < price" using sdk_decimal.quo_near [OF D, of price "n * ratio"] assms(2) by simp
  have u: "\<bar>?q - ?t * PREC\<bar> < PREC" "\<bar>?t * PREC\<bar> \<le> \<bar>?q\<bar>" using sdk_decimal.truncInt_trunc [OF D, of ?q] by (simp_all add: t)
  show "?t * price * PREC < n * ratio * PREC + price" if "0 \<le> n * ratio"
  proof -
    have "0 \<le> ?q" by (rule sdk_decimal.quo_nonneg [OF D that assms(2)])
    then have "?t * PREC * price \<le> ?q * price" using u(2) assms(2) by (intro mult_right_mono) linarith+
    then show ?thesis using q by (simp add: algebra_simps)
  qed
  have "(?q - PREC) * price \<le> (?t * PREC) * price" using u(1) assms(2) by (intro mult_right_mono) linarith+
  then show "n * ratio * PREC - price * (PREC + 1) < ?t * price * PREC" using q by (simp add: algebra_simps)
qed


text \<open>
  C37: minting and burning the same coin at the same prices returns the user everything but the fees of both, which are not
  negative, leaves the module with the collateral it had, and the supply as it was except for the burned part of the fees in NIBI.
\<close>

theorem mint_then_burn_costs_fees:
  assumes "spot_laws E S M distr" and "coinset_laws E" and "newcoin_laws E" and "dec_laws E"
    and "MintStable E S M os creator c s = Inr (s1, r1)" and "BurnStable E S M os creator c s1 = Inr (s2, r2)"
    and "AccAddressFromBech32 E creator = Some x" and "stable_accounts E x" and "price_coll os = Inr pc" and "price_gov os = Inr pg"
  defines "fee \<equiv> mixture_fee E (st_Params s) pc pg (Amount c)"
  shows "(\<forall>d. GetBalance E (st_sdk s2) x d = GetBalance E (st_sdk s) x d - 2 * fee d \<and> 0 \<le> fee d)
    \<and> (\<forall>d. GetBalance E (st_sdk s2) (stable_acc E) d = GetBalance E (st_sdk s) (stable_acc E) d)
    \<and> (\<forall>d. GetSupply M (st_sdk s2) d = GetSupply M (st_sdk s) d
         - (if d = NIBI then 2 * ef_part E (GetEfFeeRatioAsDec E (st_Params s)) (fee NIBI) else 0))"
proof -
  have "0 \<le> mixture E (st_Params s) pc pg (Amount c) d" for d
    using MintStable_amounts [OF assms(3,5)] assms(9,10) by (simp add: mixture_def in_denom_def)
  then have f: "0 \<le> fee d" for d unfolding fee_def by (rule mixture_fee_nonneg [OF assms(4)])
  have p: "st_Params s1 = st_Params s" using MintStable_effect [OF assms(1-5)] by (auto simp: Let_def st_effect_def)
  show ?thesis
    using MintStable_effect [OF assms(1-5)] BurnStable_effect [OF assms(1-4,6), unfolded p] assms(7-10) f
    by (auto simp: Let_def st_effect_def stable_accounts_def at_acc_def in_denom_def only_in_def not_in_def fee_def)
qed

end
