(* ===== verification/Stable_Peg.thy ===== *)
theory Stable_Peg
  imports Stable_Mint
begin

text \<open>
  The collateral ratio over time: it moves by one step against the price of the collateral, it stays between 0 and 1 with every other
  parameter in its range, and at the ends of the range the module stops minting and burning.
\<close>

section \<open>Parameters in millionths\<close>

definition MILLIONTH :: dec where
  "MILLIONTH = 10 ^ 12"

lemma stable_ParamSetPairs_iff:
  "stable_ParamSetPairs p = Inr () \<longleftrightarrow>
     0 \<le> sint (CollRatio p) \<and> sint (CollRatio p) \<le> 1000000 \<and> 0 \<le> sint (FeeRatio p) \<and> sint (FeeRatio p) \<le> 1000000
     \<and> 0 \<le> sint (EfFeeRatio p) \<and> sint (EfFeeRatio p) \<le> 1000000 \<and> 0 \<le> sint (BonusRateRecoll p) \<and> sint (BonusRateRecoll p) \<le> 1000000
     \<and> 0 \<le> sint (AdjustmentStep p) \<and> sint (AdjustmentStep p) \<le> 1000000 \<and> 0 \<le> sint (PriceLowerBound p)
     \<and> sint (PriceLowerBound p) \<le> 1000000 \<and> 0 \<le> sint (PriceUpperBound p) \<and> sint (PriceUpperBound p) \<le> 2000000"
  by (auto simp: stable_ParamSetPairs_def bindE_eq_Inr validate_micro_def validateCollRatio_def validateFeeRatio_def
    validateEfFeeRatio_def validateBonusRateRecoll_def validateAdjustmentStep_def validatePriceLowerBound_def
    validatePriceUpperBound_def TO_MICRO_def split: if_splits)

lemma stable_SetParams_Inr: "stable_SetParams p s = Inr s' \<longleftrightarrow> stable_ParamSetPairs p = Inr () \<and> s' = s\<lparr>st_Params := p\<rparr>"
  by (auto simp: stable_SetParams_def bindE_eq_Inr mapErr_eq_Inr)

lemma uint_sint: "0 \<le> sint (w :: 64 word) \<Longrightarrow> uint w = sint w"
proof -
  assume s: "0 \<le> sint w"
  have "uint (word_of_int (sint w) :: 64 word) = take_bit 64 (sint w)" by (subst unsigned_of_int) simp
  then have "uint w = take_bit 64 (sint w)" by (simp only: of_int_sint scast_id)
  moreover have "sint w < 2 ^ 63" using sint_lt [of w] by simp
  ultimately show ?thesis using s by (simp add: take_bit_int_eq_self)
qed

lemma sint_of_int_64: "- (2 ^ 63) \<le> k \<Longrightarrow> k < 2 ^ 63 \<Longrightarrow> sint (word_of_int k :: 64 word) = k"
  by (simp add: signed_of_int signed_take_bit_int_eq_self)

lemma ratio_dec_signed: "dec_laws E \<Longrightarrow> 0 \<le> sint w \<Longrightarrow> ratio_dec E w = sint w * MILLIONTH"
  by (simp add: ratio_dec_eq uint_sint MILLIONTH_def)

lemma GetCollRatio_eq: "dec_laws E \<Longrightarrow> GetCollRatio E s = sint (CollRatio (st_Params s)) * MILLIONTH"
proof -
  assume "dec_laws E"
  note D = dec_lawsD [OF this]
  let ?k = "sint (CollRatio (st_Params s))" and ?q = "GetCollRatio E s"
  have "\<bar>?k * PREC - ?q * 1000000\<bar> < 1000000"
    using sdk_decimal.quoInt_trunc [OF D, of 1000000 "NewDec ?k"] by (simp add: GetCollRatio_def TO_MICRO_def NewDec_def)
  then show ?thesis by (simp add: PREC_def MILLIONTH_def)
qed

lemma to_micro_eq:
  assumes "dec_laws E" and "- (2 ^ 63) \<le> k" and "k < 2 ^ 63"
  shows "to_micro E (k * MILLIONTH) = Inr (word_of_int k)"
proof -
  note D = dec_lawsD [OF assms(1)]
  have "dec_Mul E (k * MILLIONTH) (NewDec (1 * TO_MICRO)) = NewDec k"
    by (simp only: sdk_decimal.mul_whole [OF D]) (simp add: NewDec_def PREC_def TO_MICRO_def MILLIONTH_def)
  then show ?thesis
    using assms(2,3) by (simp add: to_micro_def sdk_decimal.roundInt_NewDec [OF D] int64E_def int_Int64_def)
qed

lemma millionths: "OneDec < k * MILLIONTH \<longleftrightarrow> 1000000 < k" "k * MILLIONTH < 0 \<longleftrightarrow> k < 0"
  by (auto simp: OneDec_def PREC_def MILLIONTH_def)

lemma SetCollRatio_eq:
  assumes "dec_laws E" and "stable_ParamSetPairs (st_Params s) = Inr ()"
  shows "SetCollRatio E (k * MILLIONTH) s =
    (if 1000000 < k then Inl (StableError ''input 'collRatio' is higher than 1'')
     else if k < 0 then Inl (StableError ''input 'collRatio' is negative'')
     else Inr (s\<lparr>st_Params := (st_Params s)\<lparr>CollRatio := word_of_int k\<rparr>\<rparr>))"
proof (cases "0 \<le> k \<and> k \<le> 1000000")
  case True
  then have k: "- (2 ^ 63) \<le> k" "k < 2 ^ 63" by simp_all
  have "stable_ParamSetPairs ((st_Params s)\<lparr>CollRatio := word_of_int k\<rparr>) = Inr ()"
    using assms(2) True sint_of_int_64 [OF k] by (simp add: stable_ParamSetPairs_iff)
  then show ?thesis using True by (simp add: SetCollRatio_def millionths to_micro_eq [OF assms(1) k] stable_SetParams_Inr)
next
  case False
  then show ?thesis by (auto simp: SetCollRatio_def millionths)
qed


section \<open>One evaluation\<close>

text \<open>The ratio that an evaluation aims at, in millionths.\<close>

definition next_ratio :: "stable_params \<Rightarrow> dec \<Rightarrow> int" where
  "next_ratio p price =
     (if price \<le> sint (PriceLowerBound p) * MILLIONTH then sint (CollRatio p) - sint (AdjustmentStep p)
      else if sint (PriceUpperBound p) * MILLIONTH \<le> price then sint (CollRatio p) + sint (AdjustmentStep p)
      else sint (CollRatio p))"

lemma EvaluateCollRatio_eq:
  assumes "dec_laws E" and "stable_ParamSetPairs (st_Params s) = Inr ()"
    and "GetExchangeRateTwap E ctx os (registry_Pair Registry USDC NUSD) = Inr price"
  defines "k \<equiv> next_ratio (st_Params s) price"
  shows "EvaluateCollRatio E ctx os s =
    (if 1000000 < k then Inl (StableError ''input 'collRatio' is higher than 1'')
     else if k < 0 then Inl (StableError ''input 'collRatio' is negative'')
     else Inr (s\<lparr>st_Params := (st_Params s)\<lparr>CollRatio := word_of_int k\<rparr>\<rparr>))"
proof -
  let ?p = "st_Params s"
  note D = dec_lawsD [OF assms(1)]
  note range = assms(2) [unfolded stable_ParamSetPairs_iff]
  have tw: "twap_coll E ctx os = Inr price" by (simp add: twap_coll_def oracleE_def assms(3))
  have neg: "dec_Mul E x (- OneDec) = - x" for x
    by (metis sdk_decimal.mul_minus [OF D] sdk_decimal.mul_comm [OF D] sdk_decimal.mul_One [OF D])
  have step: "updateCollRatio E up s = SetCollRatio E ((sint (CollRatio ?p) + (if up then - 1 else 1) * sint (AdjustmentStep ?p)) * MILLIONTH) s" for up
    using range by (simp add: updateCollRatio_def GetAdjustmentStepAsDec_def ratio_dec_signed [OF assms(1)] GetCollRatio_eq [OF assms(1)]
      neg Let_def left_diff_distrib distrib_right)
  have keep: "s\<lparr>st_Params := ?p\<lparr>CollRatio := word_of_int (sint (CollRatio ?p))\<rparr>\<rparr> = s" by simp
  show ?thesis
    using range by (simp add: EvaluateCollRatio_def GetPriceLowerBoundAsDec_def GetPriceUpperBoundAsDec_def ratio_dec_signed [OF assms(1)]
      tw step SetCollRatio_eq [OF assms(1,2)] k_def next_ratio_def keep)
qed


text \<open>Recording the outcome keeps the other parameters and cannot fail.\<close>

lemma set_valid_eq: "stable_ParamSetPairs (st_Params s) = Inr () \<Longrightarrow>
    set_valid v s = Inr (s\<lparr>st_Params := (st_Params s)\<lparr>IsCollateralRatioValid := v\<rparr>\<rparr>)"
  by (simp add: set_valid_def stable_SetParams_Inr stable_ParamSetPairs_iff)

lemma oracleE_Inl: "oracleE r = Inl e \<Longrightarrow> r \<noteq> Inl DivideByZero \<Longrightarrow> \<exists>e'. e = OracleFailed e'"
  by (cases r) (auto simp: oracleE_def mapErr_def split: if_splits)

text \<open>What an evaluation that is recorded leaves: a ratio within bounds, or the old ratio marked as not valid.\<close>

lemma evaluate_and_record_eq:
  assumes "dec_laws E" and "stable_ParamSetPairs (st_Params s) = Inr ()"
    and "GetExchangeRateTwap E ctx os (registry_Pair Registry USDC NUSD) = Inr price"
  defines "k \<equiv> next_ratio (st_Params s) price"
  shows "evaluate_and_record E ctx os s = Inr (s\<lparr>st_Params :=
    (if 0 \<le> k \<and> k \<le> 1000000 then (st_Params s)\<lparr>CollRatio := word_of_int k, IsCollateralRatioValid := True\<rparr>
     else (st_Params s)\<lparr>IsCollateralRatioValid := False\<rparr>)\<rparr>)"
proof (cases "0 \<le> k \<and> k \<le> 1000000")
  case True
  then have "stable_ParamSetPairs ((st_Params s)\<lparr>CollRatio := word_of_int k\<rparr>) = Inr ()"
    using assms(2) sint_of_int_64 [of k] by (simp add: stable_ParamSetPairs_iff)
  then show ?thesis
    using True by (simp add: evaluate_and_record_def EvaluateCollRatio_eq [OF assms(1-3), folded k_def] set_valid_eq)
next
  case False
  then have "\<exists>m. EvaluateCollRatio E ctx os s = Inl (StableError m)" by (auto simp: EvaluateCollRatio_eq [OF assms(1-3), folded k_def])
  then show ?thesis using False by (auto simp: evaluate_and_record_def set_valid_eq [OF assms(2)])
qed

lemma evaluate_and_record_total:
  assumes "dec_laws E" and "stable_ParamSetPairs (st_Params s) = Inr ()"
    and "GetExchangeRateTwap E ctx os (registry_Pair Registry USDC NUSD) \<noteq> Inl DivideByZero"
  shows "\<exists>s'. evaluate_and_record E ctx os s = Inr s'"
proof (cases "GetExchangeRateTwap E ctx os (registry_Pair Registry USDC NUSD)")
  case (Inl e)
  then have "twap_coll E ctx os = Inl (OracleFailed e)" using assms(3) by (simp add: twap_coll_def oracleE_def)
  then have "EvaluateCollRatio E ctx os s = Inl (OracleFailed e)" by (simp add: EvaluateCollRatio_def Let_def)
  then show ?thesis by (simp add: evaluate_and_record_def set_valid_eq [OF assms(2)])
next
  case (Inr price)
  then show ?thesis using evaluate_and_record_eq [OF assms(1,2)] by blast
qed

lemma set_valid_keeps: "set_valid v s = Inr s' \<Longrightarrow> stable_ParamSetPairs (st_Params s') = Inr ()"
  by (auto simp: set_valid_def stable_SetParams_Inr)

lemma evaluate_and_record_keeps: "evaluate_and_record E ctx os s = Inr s' \<Longrightarrow> stable_ParamSetPairs (st_Params s') = Inr ()"
  by (auto simp: evaluate_and_record_def split: sum.splits stable_error.splits dest: set_valid_keeps)

lemma stable_EndBlocker_keeps:
  assumes "stable_EndBlocker E ctx os s = Inr s'" and "stable_ParamSetPairs (st_Params s) = Inr ()"
  shows "stable_ParamSetPairs (st_Params s') = Inr ()"
proof -
  obtain s1 where s1: "(if \<not> IsCollateralRatioValid (st_Params s) then evaluate_and_record E ctx os s else Inr s) = Inr s1"
      and c: "(case twap_coll E ctx os of Inr _ \<Rightarrow> Inr s1 | Inl (StablePanic msg) \<Rightarrow> Inl (StablePanic msg) | Inl _ \<Rightarrow> set_valid False s1) = Inr s'"
    using assms(1) by (auto simp only: stable_EndBlocker_def bindE_eq_Inr)
  have "stable_ParamSetPairs (st_Params s1) = Inr ()"
    using s1 assms(2) evaluate_and_record_keeps [of E ctx os s s1] by (simp split: if_splits)
  then show ?thesis using c set_valid_keeps [of False s1 s'] by (simp split: sum.splits stable_error.splits)
qed

lemma stable_EndBlocker_total:
  assumes "dec_laws E" and "stable_ParamSetPairs (st_Params s) = Inr ()"
    and "GetExchangeRateTwap E ctx os (registry_Pair Registry USDC NUSD) \<noteq> Inl DivideByZero"
  shows "\<exists>s'. stable_EndBlocker E ctx os s = Inr s'"
proof -
  obtain s1 where s1: "(if \<not> IsCollateralRatioValid (st_Params s) then evaluate_and_record E ctx os s else Inr s) = Inr s1"
      and p: "stable_ParamSetPairs (st_Params s1) = Inr ()"
    using evaluate_and_record_total [OF assms] assms(2)
    by (cases "IsCollateralRatioValid (st_Params s)") (auto dest: evaluate_and_record_keeps)
  show ?thesis
    using oracleE_Inl [OF _ assms(3), folded twap_coll_def]
    by (cases "twap_coll E ctx os") (auto simp: stable_EndBlocker_def s1 set_valid_eq [OF p])
qed


section \<open>The ratio along any run\<close>

text \<open>The messages of the module keep its parameters.\<close>

lemma stable_bank_params:
  "st_bank r s = Inr s' \<Longrightarrow> st_Params s' = st_Params s"
  by (auto simp: st_bank_Inr)

lemma stable_emit_params [simp]: "st_Params (stable_emit es s) = st_Params s"
  by (simp add: stable_emit_def)

lemma token_ops_params:
  "burnGovTokens S c s = Inr s' \<Longrightarrow> st_Params s' = st_Params s"
  "burnStableTokens S c s = Inr s' \<Longrightarrow> st_Params s' = st_Params s"
  "mintStable S M c s = Inr s' \<Longrightarrow> st_Params s' = st_Params s"
  "mintGov S M c s = Inr s' \<Longrightarrow> st_Params s' = st_Params s"
  "sendCoinsToModuleAccount E S x cs s = Inr s' \<Longrightarrow> st_Params s' = st_Params s"
  "sendCoinsFromModuleAccountToUser E S x cs s = Inr s' \<Longrightarrow> st_Params s' = st_Params s"
  by (auto simp: burnGovTokens_def burnStableTokens_def mintStable_def mintGov_def stable_burnCoins_def sendCoinsToModuleAccount_def
    sendCoinsFromModuleAccountToUser_def bindE_eq_Inr dest!: stable_bank_params)

lemma ef_fee_params: "ef_fee E S x c cs s = Inr (s', ef) \<Longrightarrow> st_Params s' = st_Params s"
  by (auto simp: ef_fee_def bindE_eq_Inr dest!: stable_bank_params split: if_splits)

lemma stable_split_fees_params: "stable_split_fees E S x r cs ef tr s = Inr (s', ef', tr') \<Longrightarrow> st_Params s' = st_Params s"
  by (induction cs arbitrary: ef tr s) (fastforce simp: Let_def bindE_eq_Inr dest!: ef_fee_params)+

lemma splitAndSend_params: "splitAndSendFeesToEfAndTreasury E S x r cs s = Inr s' \<Longrightarrow> st_Params s' = st_Params s"
  by (auto simp: splitAndSendFeesToEfAndTreasury_def bindE_eq_Inr dest!: stable_bank_params stable_split_fees_params)

lemmas stable_params_steps = stable_bank_params token_ops_params splitAndSend_params

lemma stable_Handler_params: "stable_Handler E S M os msg s = Inr (s', r) \<Longrightarrow> st_Params s' = st_Params s"
  by (cases msg) (auto simp: MintStable_def BurnStable_def Recollateralize_def Buyback_def Let_def bindE_eq_Inr
    split: if_splits dest!: stable_params_steps)

lemma stable_deliver_params: "st_Params (stable_deliver E S M os msg s) = st_Params s"
  by (auto simp: stable_deliver_def bindE_def dest: stable_Handler_params split: sum.splits)

text \<open>A step of the chain for the module: a message, the end of an epoch or of a block, or a change of the bank by another module.\<close>

inductive stable_step :: "'b chain_sdk \<Rightarrow> 'b spot_sdk \<Rightarrow> 'b mint_sdk \<Rightarrow> 'b stable_state \<Rightarrow> 'b stable_state \<Rightarrow> bool"
  for E S M where
  message: "stable_step E S M s (stable_deliver E S M os msg s)"
| epoch_end: "stable_AfterEpochEnd E ctx os epoch n s = Inr s' \<Longrightarrow> stable_step E S M s s'"
| block_end: "stable_EndBlocker E ctx os s = Inr s' \<Longrightarrow> stable_step E S M s s'"
| elsewhere: "stable_step E S M s (s\<lparr>st_sdk := b\<rparr>)"

lemma stable_step_keeps: "stable_step E S M s s' \<Longrightarrow> stable_ParamSetPairs (st_Params s) = Inr () \<Longrightarrow> stable_ParamSetPairs (st_Params s') = Inr ()"
  by (induction rule: stable_step.induct)
    (auto simp: stable_deliver_params stable_AfterEpochEnd_def split: if_splits dest: evaluate_and_record_keeps stable_EndBlocker_keeps)

lemma stable_steps_keep: "(stable_step E S M)\<^sup>*\<^sup>* s s' \<Longrightarrow> stable_ParamSetPairs (st_Params s) = Inr () \<Longrightarrow> stable_ParamSetPairs (st_Params s') = Inr ()"
  by (induction rule: rtranclp_induct) (auto dest: stable_step_keeps)

text \<open>
  C38: from genesis, after any messages, ends of epochs and of blocks and changes of the bank, the collateral ratio is between 0 and 1 and
  every other rate is in its range; the end of a block never fails then, unless the oracle panics on a division by zero.
\<close>

theorem collateral_ratio_stays_in_range:
  assumes "dec_laws E" and "stable_InitGenesis S M g s0 = Inr s" and "(stable_step E S M)\<^sup>*\<^sup>* s s'"
  shows "0 \<le> GetCollRatio E s' \<and> GetCollRatio E s' \<le> OneDec \<and> stable_ParamSetPairs (st_Params s') = Inr ()
    \<and> (\<forall>ctx os. GetExchangeRateTwap E ctx os (registry_Pair Registry USDC NUSD) \<noteq> Inl DivideByZero \<longrightarrow>
         (\<exists>s''. stable_EndBlocker E ctx os s' = Inr s''))"
proof -
  have "stable_ParamSetPairs (st_Params s) = Inr ()" using assms(2) by (auto simp: stable_InitGenesis_def bindE_eq_Inr stable_SetParams_Inr)
  then have p: "stable_ParamSetPairs (st_Params s') = Inr ()" by (rule stable_steps_keep [OF assms(3)])
  then show ?thesis
    using stable_EndBlocker_total [OF assms(1) p] millionths(1) [of "sint (CollRatio (st_Params s'))"]
    by (auto simp: GetCollRatio_eq [OF assms(1)] stable_ParamSetPairs_iff MILLIONTH_def not_less [symmetric])
qed

text \<open>
  At the end of the module's epoch the ratio falls by one step when the price of the collateral in NUSD is at or below the lower bound,
  rises by one step when it is at or above the upper bound, and is kept otherwise; the ratio is marked valid then.  When the step would
  leave the range from 0 to 1 the ratio is kept and marked as not valid.  Nothing else changes.
\<close>

theorem epoch_end_moves_ratio:
  assumes "dec_laws E" and "stable_ParamSetPairs (st_Params s) = Inr ()" and "epoch = DistrEpochIdentifier (st_Params s)"
    and "GetExchangeRateTwap E ctx os (registry_Pair Registry USDC NUSD) = Inr price"
  defines "k \<equiv> next_ratio (st_Params s) price"
  shows "stable_AfterEpochEnd E ctx os epoch n s = Inr (s\<lparr>st_Params :=
    (if 0 \<le> k \<and> k \<le> 1000000 then (st_Params s)\<lparr>CollRatio := word_of_int k, IsCollateralRatioValid := True\<rparr>
     else (st_Params s)\<lparr>IsCollateralRatioValid := False\<rparr>)\<rparr>)"
  using evaluate_and_record_eq [OF assms(1,2,4)] assms(3) by (simp add: stable_AfterEpochEnd_def k_def)

text \<open>
  C39: when the ratio is at 1 and the price at or above the upper bound (and the bounds are in order, and the step positive), the end of the epoch
  marks the ratio as not valid, every later end of a block at such a price leaves it so, and in that state nobody can mint or burn.
\<close>

theorem full_ratio_halts_the_module:
  assumes "dec_laws E" and "stable_ParamSetPairs (st_Params s) = Inr ()" and "epoch = DistrEpochIdentifier (st_Params s)"
    and "sint (CollRatio (st_Params s)) = 1000000" and "0 < sint (AdjustmentStep (st_Params s))"
    and "sint (PriceLowerBound (st_Params s)) < sint (PriceUpperBound (st_Params s))"
    and "\<forall>ctx \<in> set ctxs. \<exists>price. GetExchangeRateTwap E ctx (os ctx) (registry_Pair Registry USDC NUSD) = Inr price
           \<and> sint (PriceUpperBound (st_Params s)) * MILLIONTH \<le> price"
    and "ctx \<in> set ctxs" and "AccAddressFromBech32 E creator = Some x"
  shows "\<exists>h. stable_AfterEpochEnd E ctx (os ctx) epoch n s = Inr h
    \<and> (\<forall>ctx' \<in> set ctxs. stable_EndBlocker E ctx' (os ctx') h = Inr h)
    \<and> MintStable E S M os' creator c h = Inl NoValidCollateralRatio
    \<and> BurnStable E S M os' creator c h = Inl NoValidCollateralRatio"
proof -
  let ?h = "s\<lparr>st_Params := (st_Params s)\<lparr>IsCollateralRatioValid := False\<rparr>\<rparr>"
  have m: "0 < MILLIONTH" by (simp add: MILLIONTH_def)
  have up: "next_ratio (st_Params r) price = 1000000 + sint (AdjustmentStep (st_Params s))"
    if "sint (PriceUpperBound (st_Params s)) * MILLIONTH \<le> price" and "r = s \<or> r = ?h" for r price
    using that assms(4,6) mult_strict_right_mono [OF assms(6) m] by (auto simp: next_ratio_def)
  have hp: "stable_ParamSetPairs (st_Params ?h) = Inr ()" using assms(2) by (simp add: stable_ParamSetPairs_iff)
  have "stable_AfterEpochEnd E ctx (os ctx) epoch n s = Inr ?h"
    using assms(3,5,7,8) evaluate_and_record_eq [OF assms(1,2)] up by (fastforce simp: stable_AfterEpochEnd_def)
  moreover have "stable_EndBlocker E ctx' (os ctx') ?h = Inr ?h" if c: "ctx' \<in> set ctxs" for ctx'
  proof -
    obtain price where p: "GetExchangeRateTwap E ctx' (os ctx') (registry_Pair Registry USDC NUSD) = Inr price"
        "sint (PriceUpperBound (st_Params s)) * MILLIONTH \<le> price" using assms(7) c by blast
    have "evaluate_and_record E ctx' (os ctx') ?h = Inr ?h"
      using evaluate_and_record_eq [OF assms(1) hp p(1)] up [OF p(2), of ?h] assms(5) by simp
    then show ?thesis using p(1) by (simp add: stable_EndBlocker_def twap_coll_def oracleE_def)
  qed
  ultimately show ?thesis
    using assms(9) by (intro exI [of _ ?h]) (simp add: MintStable_def BurnStable_def stable_addr_def)
qed

end
