(* ===== verification/Stable_Buyback.thy ===== *)
theory Stable_Buyback
  imports Stable_Peg
begin

text \<open>
  Recollateralization and buyback: what the caller gives and receives, how much is taken, and that the denomination of the offered coin is
  never looked at.
\<close>

lemma offered_Inr:
  assumes "newcoin_laws E" and "offered E c needed = Inr z" and "0 < needed"
  shows "z = \<lparr>Denom = Denom c, Amount = min (Amount c) needed\<rparr>" and "0 < Amount c"
  using assms(2,3) by (auto simp: offered_def bindE_eq_Inr split: if_splits dest!: st_NewCoin_Inr [OF assms(1)])

definition recoll_gov :: "'b chain_sdk \<Rightarrow> stable_params \<Rightarrow> dec \<Rightarrow> dec \<Rightarrow> int \<Rightarrow> int" where
  "recoll_gov E p pc pg n = dec_TruncateInt E (dec_Quo E (dec_Mul E (pc * n) (OneDec + GetBonusRateRecollAsDec E p)) pg)"

definition buyback_coll :: "'b chain_sdk \<Rightarrow> dec \<Rightarrow> dec \<Rightarrow> int \<Rightarrow> int" where
  "buyback_coll E pc pg n = dec_TruncateInt E (dec_Quo E (pg * n) pc)"

lemma Recollateralize_effect:
  assumes "spot_laws E S M distr" and "newcoin_laws E" and "Recollateralize E S M os creator c s = Inr (s', outGov)"
  shows "\<exists>x pc pg needed n. AccAddressFromBech32 E creator = Some x \<and> price_coll os = Inr pc \<and> price_gov os = Inr pg
    \<and> RecollateralizeCollAmtForTargetCollRatio E S M os s = Inr needed \<and> n = min (Amount c) needed \<and> 0 < n
    \<and> outGov = \<lparr>Denom = NIBI, Amount = recoll_gov E (st_Params s) pc pg n\<rparr>
    \<and> st_effect E M s s' (\<lambda>a d. at_acc x (\<lambda>d. in_denom NIBI (Amount outGov) d - in_denom (Denom c) n d) a d
         + at_acc (stable_acc E) (in_denom (Denom c) n) a d) (in_denom NIBI (Amount outGov))"
proof -
  obtain x needed z cs s1 pc k out s2 s3 where x: "AccAddressFromBech32 E creator = Some x"
      and n: "RecollateralizeCollAmtForTargetCollRatio E S M os s = Inr needed" "0 < needed" "offered E c needed = Inr z"
      and in': "st_NewCoins S [z] = Inr cs" "st_bank (SendCoins_AccountToModule S (st_sdk s) x StableModule cs) s = Inr s1"
      and pc: "price_coll os = Inr pc"
      and k: "GovAmtFromRecollateralize E os (pc * Amount z) (stable_emit [EventTransfer z x (stable_acc E)] s1) = Inr k"
      and out: "st_NewCoin E NIBI k = Inr outGov" "st_NewCoins S [outGov] = Inr out"
        "st_bank (bank_MintCoins M (st_sdk s1) StableModule out) (stable_emit [EventTransfer z x (stable_acc E)] s1) = Inr s2"
        "st_bank (SendCoins_ModuleToAccount S (st_sdk s2) StableModule x out) (stable_emit [EventMintNIBI (Amount outGov)] s2) = Inr s3"
      and s': "s' = stable_emit [EventTransfer outGov (stable_acc E) x, EventRecollateralize x z outGov (GetCollRatioAsDec E (st_Params s))] s3"
    using assms(3) by (auto simp: Recollateralize_def Let_def bindE_eq_Inr stable_addr_def getE_eq_Inr stable_emit_def split: if_splits)
  note z = offered_Inr [OF assms(2) n(3,2)]
  have p: "st_Params s1 = st_Params s" by (rule stable_bank_params [OF in'(2)])
  obtain pg where pg: "price_gov os = Inr pg" "k = recoll_gov E (st_Params s) pc pg (min (Amount c) needed)"
    using k by (auto simp: GovAmtFromRecollateralize_def Let_def bindE_eq_Inr st_Quo_def recoll_gov_def z(1) p split: if_splits)
  have g: "outGov = \<lparr>Denom = NIBI, Amount = k\<rparr>" using st_NewCoin_Inr [OF assms(2) out(1)] by simp
  note A = st_NewCoins_Inr(2) [OF assms(1), unfolded AmountOf_single]
  have e1: "st_effect E M s s2 (\<lambda>a d. at_acc (stable_acc E) (AmountOf cs) a d - at_acc x (AmountOf cs) a d + at_acc (stable_acc E) (AmountOf out) a d)
      (\<lambda>d. 0 + AmountOf out d)"
    using st_effect_trans [OF st_a2m_effect [OF assms(1) in'(2)], of s2 "at_acc (stable_acc E) (AmountOf out)" "AmountOf out"]
      st_mint_effect [OF assms(1), of "stable_emit [EventTransfer z x (stable_acc E)] s1" StableModule out s2] out(3)
    by (simp add: st_effect_from_emit) (simp add: stable_emit_def)
  have e2: "st_effect E M s2 s3 (\<lambda>a d. at_acc x (AmountOf out) a d - at_acc (stable_acc E) (AmountOf out) a d) (\<lambda>d. 0)"
    using st_m2a_effect [OF assms(1), of "stable_emit [EventMintNIBI (Amount outGov)] s2" StableModule x out s3] out(4)
    by (simp add: st_effect_from_emit) (simp add: stable_emit_def)
  have "st_effect E M s s' (\<lambda>a d. at_acc x (\<lambda>d. in_denom NIBI (Amount outGov) d - in_denom (Denom c) (min (Amount c) needed) d) a d
         + at_acc (stable_acc E) (in_denom (Denom c) (min (Amount c) needed)) a d) (in_denom NIBI (Amount outGov))"
    unfolding s' st_effect_emit using st_effect_trans [OF e1 e2]
    by (rule st_effect_eq) (auto simp: A [OF in'(1)] A [OF out(2)] z(1) g at_acc_def in_denom_def)
  then show ?thesis using x pc pg n(1,2) z(2) g by auto
qed

lemma Buyback_effect:
  assumes "spot_laws E S M distr" and "newcoin_laws E" and "Buyback E S M os creator c s = Inr (s', outColl)"
  shows "\<exists>x pc pg needed n. AccAddressFromBech32 E creator = Some x \<and> price_coll os = Inr pc \<and> price_gov os = Inr pg
    \<and> BuybackGovAmtForTargetCollRatio E S M os s = Inr needed \<and> n = min (Amount c) needed \<and> 0 < n
    \<and> outColl = \<lparr>Denom = USDC, Amount = buyback_coll E pc pg n\<rparr>
    \<and> st_effect E M s s' (\<lambda>a d. at_acc x (\<lambda>d. in_denom USDC (Amount outColl) d - in_denom (Denom c) n d) a d
         - at_acc (stable_acc E) (in_denom USDC (Amount outColl)) a d) (\<lambda>d. - in_denom (Denom c) n d)"
proof -
  obtain x needed z cs s1 s2 pg k out s3 where x: "AccAddressFromBech32 E creator = Some x"
      and n: "BuybackGovAmtForTargetCollRatio E S M os s = Inr needed" "0 < needed" "offered E c needed = Inr z"
      and in': "st_NewCoins S [z] = Inr cs" "st_bank (SendCoins_AccountToModule S (st_sdk s) x StableModule cs) s = Inr s1"
        "st_bank (BurnCoins S (st_sdk s1) StableModule cs) (stable_emit [EventTransfer z x (stable_acc E)] s1) = Inr s2"
      and pg: "price_gov os = Inr pg" and k: "CollAmtFromBuyback E os (pg * Amount z) = Inr k"
      and out: "st_NewCoin E USDC k = Inr outColl" "st_NewCoins S [outColl] = Inr out"
        "st_bank (SendCoins_ModuleToAccount S (st_sdk s2) StableModule x out) (stable_emit [EventBurnNIBI (Amount z)] s2) = Inr s3"
      and s': "s' = stable_emit [EventTransfer outColl (stable_acc E) x, EventBuyback x z outColl (GetCollRatioAsDec E (st_Params s))] s3"
    using assms(3) by (auto simp: Buyback_def Let_def bindE_eq_Inr stable_addr_def getE_eq_Inr stable_emit_def split: if_splits)
  note z = offered_Inr [OF assms(2) n(3,2)]
  obtain pc where pc: "price_coll os = Inr pc" "k = buyback_coll E pc pg (min (Amount c) needed)"
    using k by (auto simp: CollAmtFromBuyback_def bindE_eq_Inr st_Quo_def buyback_coll_def z(1) split: if_splits)
  have g: "outColl = \<lparr>Denom = USDC, Amount = k\<rparr>" using st_NewCoin_Inr [OF assms(2) out(1)] by simp
  note A = st_NewCoins_Inr(2) [OF assms(1), unfolded AmountOf_single]
  have e1: "st_effect E M s s2 (\<lambda>a d. at_acc (stable_acc E) (AmountOf cs) a d - at_acc x (AmountOf cs) a d + - at_acc (stable_acc E) (AmountOf cs) a d)
      (\<lambda>d. 0 + - AmountOf cs d)"
    using st_effect_trans [OF st_a2m_effect [OF assms(1) in'(2)], of s2 "\<lambda>a d. - at_acc (stable_acc E) (AmountOf cs) a d" "\<lambda>d. - AmountOf cs d"]
      st_burn_effect [OF assms(1), of "stable_emit [EventTransfer z x (stable_acc E)] s1" StableModule cs s2] in'(3)
    by (simp add: st_effect_from_emit) (simp add: stable_emit_def)
  have e2: "st_effect E M s2 s3 (\<lambda>a d. at_acc x (AmountOf out) a d - at_acc (stable_acc E) (AmountOf out) a d) (\<lambda>d. 0)"
    using st_m2a_effect [OF assms(1), of "stable_emit [EventBurnNIBI (Amount z)] s2" StableModule x out s3] out(3)
    by (simp add: st_effect_from_emit) (simp add: stable_emit_def)
  have "st_effect E M s s' (\<lambda>a d. at_acc x (\<lambda>d. in_denom USDC (Amount outColl) d - in_denom (Denom c) (min (Amount c) needed) d) a d
         - at_acc (stable_acc E) (in_denom USDC (Amount outColl)) a d) (\<lambda>d. - in_denom (Denom c) (min (Amount c) needed) d)"
    unfolding s' st_effect_emit using st_effect_trans [OF e1 e2]
    by (rule st_effect_eq) (auto simp: A [OF in'(1)] A [OF out(2)] z(1) g at_acc_def in_denom_def)
  then show ?thesis using x pc pg n(1,2) z(2) g by auto
qed


text \<open>The amount that is still needed is worth what is missing, up to one unit.\<close>

lemma recollateralize_needed_value:
  assumes "dec_laws E" and "RecollateralizeCollAmtForTargetCollRatio E S M os s = Inr needed"
    and "StableRequiredForTargetCollRatio E S M os s = Inr missing" and "price_coll os = Inr pc" and "0 < pc"
  shows "needed * pc * PREC < missing * PREC + pc * (PREC + 1)"
proof -
  note D = dec_lawsD [OF assms(1)]
  let ?q = "dec_Quo E missing pc"
  have "needed = dec_TruncateInt E (dec_Ceil E ?q)"
    using assms(2-5) by (auto simp: RecollateralizeCollAmtForTargetCollRatio_def or_zero_def bindE_eq_Inr st_Quo_def)
  then have "needed * PREC < ?q + PREC" using sdk_decimal.ceil_truncInt(2) [OF D, of ?q] by simp
  then have "needed * PREC * pc < (?q + PREC) * pc" using assms(5) by (rule mult_strict_right_mono)
  moreover have "?q * pc < missing * PREC + pc" using sdk_decimal.quo_near [OF D, of pc missing] assms(5) by linarith
  ultimately show ?thesis by (simp add: algebra_simps)
qed

text \<open>
  C40: a successful recollateralization takes a positive part of the offered coin, no more than is missing for the collateral ratio up to one
  unit, from the caller to the module, and pays the caller newly minted NIBI for its value at the price of the collateral and the
  bonus rate.
\<close>

theorem Recollateralize_accounting:
  assumes "spot_laws E S M distr" and "newcoin_laws E" and "dec_laws E" and "Recollateralize E S M os creator c s = Inr (s', outGov)"
    and "AccAddressFromBech32 E creator = Some x" and "x \<noteq> stable_acc E" and "price_coll os = Inr pc" and "price_gov os = Inr pg" and "0 < pc"
    and "StableRequiredForTargetCollRatio E S M os s = Inr missing"
  shows "\<exists>n. 0 < n \<and> n \<le> Amount c \<and> n * pc * PREC < missing * PREC + pc * (PREC + 1)
    \<and> outGov = \<lparr>Denom = NIBI, Amount = recoll_gov E (st_Params s) pc pg n\<rparr>
    \<and> (\<forall>d. GetBalance E (st_sdk s') x d = GetBalance E (st_sdk s) x d
         - (if d = Denom c then n else 0) + (if d = NIBI then Amount outGov else 0))
    \<and> (\<forall>d. GetBalance E (st_sdk s') (stable_acc E) d = GetBalance E (st_sdk s) (stable_acc E) d + (if d = Denom c then n else 0))
    \<and> (\<forall>d. GetSupply M (st_sdk s') d = GetSupply M (st_sdk s) d + (if d = NIBI then Amount outGov else 0))"
proof -
  obtain needed n where n: "RecollateralizeCollAmtForTargetCollRatio E S M os s = Inr needed" "n = min (Amount c) needed" "0 < n"
      "outGov = \<lparr>Denom = NIBI, Amount = recoll_gov E (st_Params s) pc pg n\<rparr>"
      "st_effect E M s s' (\<lambda>a d. at_acc x (\<lambda>d. in_denom NIBI (Amount outGov) d - in_denom (Denom c) n d) a d
         + at_acc (stable_acc E) (in_denom (Denom c) n) a d) (in_denom NIBI (Amount outGov))"
    using Recollateralize_effect [OF assms(1,2,4)] assms(5,7,8) by auto
  have "n * pc * PREC \<le> needed * pc * PREC" using n(2) assms(9) by (intro mult_right_mono) simp_all
  then have "n * pc * PREC < missing * PREC + pc * (PREC + 1)"
    using recollateralize_needed_value [OF assms(3) n(1) assms(10,7,9)] by linarith
  then show ?thesis
    using n assms(6) by (intro exI [of _ n]) (auto simp: st_effect_def at_acc_def in_denom_def)
qed

text \<open>
  Buyback pays out the collateral of the module for any coin: whatever the denomination of the offered coin, the caller receives
  collateral worth as many NIBI, and when it is neither NIBI nor the collateral no NIBI changes hands and none is burned.
\<close>

theorem buyback_pays_for_any_coin:
  assumes "spot_laws E S M distr" and "newcoin_laws E" and "Buyback E S M os creator c s = Inr (s', outColl)"
    and "AccAddressFromBech32 E creator = Some x" and "x \<noteq> stable_acc E" and "price_coll os = Inr pc" and "price_gov os = Inr pg"
    and "Denom c \<noteq> NIBI" and "Denom c \<noteq> USDC"
  shows "\<exists>n. 0 < n \<and> n \<le> Amount c \<and> outColl = \<lparr>Denom = USDC, Amount = buyback_coll E pc pg n\<rparr>
    \<and> GetBalance E (st_sdk s') x USDC = GetBalance E (st_sdk s) x USDC + Amount outColl
    \<and> GetBalance E (st_sdk s') (stable_acc E) USDC = GetBalance E (st_sdk s) (stable_acc E) USDC - Amount outColl
    \<and> GetBalance E (st_sdk s') x (Denom c) = GetBalance E (st_sdk s) x (Denom c) - n
    \<and> (\<forall>a. GetBalance E (st_sdk s') a NIBI = GetBalance E (st_sdk s) a NIBI)
    \<and> GetSupply M (st_sdk s') NIBI = GetSupply M (st_sdk s) NIBI"
proof -
  obtain needed n where n: "n = min (Amount c) needed" "0 < n" "outColl = \<lparr>Denom = USDC, Amount = buyback_coll E pc pg n\<rparr>"
      "st_effect E M s s' (\<lambda>a d. at_acc x (\<lambda>d. in_denom USDC (Amount outColl) d - in_denom (Denom c) n d) a d
         - at_acc (stable_acc E) (in_denom USDC (Amount outColl)) a d) (\<lambda>d. - in_denom (Denom c) n d)"
    using Buyback_effect [OF assms(1-3)] assms(4,6,7) by auto
  then show ?thesis
    using assms(5,8,9) by (intro exI [of _ n]) (auto simp: st_effect_def at_acc_def in_denom_def)
qed

end
