(* ===== verification/Stable_Examples.thy ===== *)
theory Stable_Examples
  imports Stable_Buyback Spot_Examples Oracle_Examples
begin

text \<open>
  The theorems on the stablecoin at concrete states: the collateral costs one NUSD and NIBI ten, and the ratio is 60 percent.
\<close>

definition ex_prices :: "dec \<Rightarrow> ref_chain oracle_state" where
  "ex_prices twap = ex_oracle\<lparr>ExchangeRates := [(''unibi:unusd'', 10 * PREC), (''uusdc:unusd'', PREC)],
     PriceSnapshots := [((''uusdc:unusd'', 400000000000),
       \<lparr>ps_Pair = ''uusdc:unusd'', ps_Price = twap, ps_TimestampMs = 400000\<rparr>)]\<rparr>"

definition ex_stable_params :: "64 word \<Rightarrow> stable_params" where
  "ex_stable_params ratio = \<lparr>CollRatio = ratio, FeeRatio = 2000, EfFeeRatio = 500000, BonusRateRecoll = 2000,
     DistrEpochIdentifier = ''15 min'', AdjustmentStep = 2500, PriceLowerBound = 999900, PriceUpperBound = 1000100,
     IsCollateralRatioValid = True\<rparr>"

definition ex_stable_state :: "64 word \<Rightarrow> int \<Rightarrow> ref_chain stable_state" where
  "ex_stable_state ratio coll = \<lparr>st_Params = ex_stable_params ratio,
     st_sdk = ex_supply_chain\<lparr>rc_balances :=
       [((''alice'', ''junk''), 1000), ((''alice'', NIBI), 10 ^ 9), ((''alice'', USDC), 10 ^ 9), ((ledger_module ''stablecoin'', USDC), coll)],
       rc_supply := (\<lambda>d. if d = NUSD then 1000000 else 10 ^ 12)\<rparr>,
     st_events = []\<rparr>"

abbreviation ex_nusd :: "int \<Rightarrow> coin" where
  "ex_nusd n \<equiv> \<lparr>Denom = NUSD, Amount = n\<rparr>"

lemma ex_price: "price_coll (ex_prices t) = Inr PREC" "price_gov (ex_prices t) = Inr (10 * PREC)"
  by (code_simp, code_simp)

lemma ex_stable_accounts: "stable_accounts ref_chain_sdk ''alice''"
  by code_simp

lemma ex_not_module: "''alice'' \<noteq> stable_acc ref_chain_sdk"
  by code_simp

lemma ex_denoms: "NUSD \<noteq> USDC" "NUSD \<noteq> NIBI" "NUSD \<noteq> ''junk''" "USDC \<noteq> ''junk''" "NIBI \<noteq> ''junk''"
  by (simp_all add: NUSD_def USDC_def NIBI_def)

lemma PREC_positive: "0 < PREC"
  by simp

lemmas ref_stable_laws = ref_spot_laws ref_chain_coinset_laws ref_chain_newcoin_laws ref_chain_dec_laws

section \<open>Witnesses\<close>

lemma ex_mixture_NIBI: "mixture ref_chain_sdk (ex_stable_params 600000) PREC (10 * PREC) 1000000 NIBI = 40000"
  by code_simp

lemma ex_mixture_USDC: "mixture ref_chain_sdk (ex_stable_params 600000) PREC (10 * PREC) 1000000 USDC = 600000"
  by code_simp

lemma ex_mixture_NUSD: "mixture ref_chain_sdk (ex_stable_params 600000) PREC (10 * PREC) 1000000 NUSD = 0"
  by code_simp

lemma ex_mixture_fees: "mixture_fee ref_chain_sdk (ex_stable_params 600000) PREC (10 * PREC) 1000000 =
    (\<lambda>d. if d = USDC then 1200 else if d = NIBI then 80 else 0)"
proof -
  have "fee_amt ref_chain_sdk (GetFeeRatioAsDec ref_chain_sdk (ex_stable_params 600000)) 600000 = 1200" by code_simp
  moreover have "fee_amt ref_chain_sdk (GetFeeRatioAsDec ref_chain_sdk (ex_stable_params 600000)) 40000 = 80" by code_simp
  ultimately show ?thesis
    using ex_mixture_NIBI ex_mixture_USDC by (auto simp: fun_eq_iff mixture_fee_def mixture_def in_denom_def ref_chain_dec_laws)
qed

lemmas ex_mixture = ex_mixture_NIBI ex_mixture_USDC ex_mixture_NUSD ex_mixture_fees

lemma ex_stable_sel: "st_Params (ex_stable_state r n) = ex_stable_params r"
  "tbal (rc_balances (st_sdk (ex_stable_state r n))) ''alice'' d =
     (if d = ''junk'' then 1000 else if d = NIBI \<or> d = USDC then 10 ^ 9 else 0)"
  by (simp_all add: ex_stable_state_def tbal_def ex_denoms ledger_module_def NIBI_def USDC_def)


theorem mint_then_burn_costs_fees_witness:
  "\<exists>s1 r1 s2 r2. MintStable ref_chain_sdk ref_spot ref_mint (ex_prices PREC) ''nalice'' (ex_nusd 1000000) (ex_stable_state 600000 0) = Inr (s1, r1)
     \<and> BurnStable ref_chain_sdk ref_spot ref_mint (ex_prices PREC) ''nalice'' (ex_nusd 1000000) s1 = Inr (s2, r2)
     \<and> GetBalance ref_chain_sdk (st_sdk s2) ''alice'' USDC = 10 ^ 9 - 2400
     \<and> GetBalance ref_chain_sdk (st_sdk s2) ''alice'' NIBI = 10 ^ 9 - 160"
proof -
  let ?m = "MintStable ref_chain_sdk ref_spot ref_mint (ex_prices PREC) ''nalice'' (ex_nusd 1000000) (ex_stable_state 600000 0)"
  have "case ?m of Inl _ \<Rightarrow> False | Inr (s1, _) \<Rightarrow>
      \<not> isl (BurnStable ref_chain_sdk ref_spot ref_mint (ex_prices PREC) ''nalice'' (ex_nusd 1000000) s1)" by code_simp
  then obtain s1 r1 s2 r2 where m: "?m = Inr (s1, r1)"
      "BurnStable ref_chain_sdk ref_spot ref_mint (ex_prices PREC) ''nalice'' (ex_nusd 1000000) s1 = Inr (s2, r2)"
    by (auto split: sum.splits prod.splits dest!: not_isl_Inr)
  show ?thesis
    using mint_then_burn_costs_fees [OF ref_stable_laws m ex_user ex_stable_accounts ex_price] m by (auto simp: ex_stable_sel ex_mixture ex_denoms ex_denoms [symmetric])
qed


definition ex_high :: dec where
  "ex_high = 1001 * 10 ^ 15"

text \<open>The price of the collateral over the window, and the parameters of the examples.\<close>

lemma ex_twap: "GetExchangeRateTwap ref_chain_sdk ex_block (ex_prices ex_high) (registry_Pair Registry USDC NUSD) = Inr ex_high"
  by code_simp

lemma ex_params_range: "stable_ParamSetPairs (ex_stable_params 600000) = Inr ()" "stable_ParamSetPairs (ex_stable_params 1000000) = Inr ()"
  by (code_simp, code_simp)

theorem collateral_ratio_stays_in_range_witness:
  "let g = \<lparr>sg_Params = ex_stable_params 600000, sg_ModuleAccountBalance = \<lparr>Denom = USDC, Amount = 0\<rparr>\<rparr>;
       s' = stable_deliver ref_chain_sdk ref_spot ref_mint (ex_prices PREC) (MsgMintStable ''nalice'' (ex_nusd 1000000)) (ex_stable_state 600000 0)
   in stable_InitGenesis ref_spot ref_mint g (ex_stable_state 600000 0) = Inr (ex_stable_state 600000 0)
     \<and> 0 \<le> GetCollRatio ref_chain_sdk s' \<and> GetCollRatio ref_chain_sdk s' \<le> OneDec"
proof -
  let ?g = "\<lparr>sg_Params = ex_stable_params 600000, sg_ModuleAccountBalance = \<lparr>Denom = USDC, Amount = 0\<rparr>\<rparr>"
  have g: "stable_InitGenesis ref_spot ref_mint ?g (ex_stable_state 600000 0) = Inr (ex_stable_state 600000 0)"
    by (simp add: stable_InitGenesis_def stable_SetParams_Inr ex_params_range) (simp add: ex_stable_state_def)
  have "stable_step ref_chain_sdk ref_spot ref_mint (ex_stable_state 600000 0)
      (stable_deliver ref_chain_sdk ref_spot ref_mint (ex_prices PREC) (MsgMintStable ''nalice'' (ex_nusd 1000000)) (ex_stable_state 600000 0))"
    by (rule stable_step.message)
  then have s: "(stable_step ref_chain_sdk ref_spot ref_mint)\<^sup>*\<^sup>* (ex_stable_state 600000 0)
      (stable_deliver ref_chain_sdk ref_spot ref_mint (ex_prices PREC) (MsgMintStable ''nalice'' (ex_nusd 1000000)) (ex_stable_state 600000 0))"
    by (rule r_into_rtranclp)
  show ?thesis using collateral_ratio_stays_in_range [OF ref_chain_dec_laws g s] g by (simp add: Let_def)
qed

theorem epoch_end_moves_ratio_witness:
  "stable_AfterEpochEnd ref_chain_sdk ex_block (ex_prices ex_high) ''15 min'' 7 (ex_stable_state 600000 0) =
     Inr ((ex_stable_state 600000 0)\<lparr>st_Params := ex_stable_params 602500\<rparr>)"
proof -
  have p: "stable_ParamSetPairs (st_Params (ex_stable_state 600000 0)) = Inr ()" by (simp add: ex_stable_sel ex_params_range)
  have d: "''15 min'' = DistrEpochIdentifier (st_Params (ex_stable_state 600000 0))" by (simp add: ex_stable_sel ex_stable_params_def)
  have k: "next_ratio (ex_stable_params 600000) ex_high = 602500" by code_simp
  have "(ex_stable_params 600000)\<lparr>CollRatio := word_of_int 602500, IsCollateralRatioValid := True\<rparr> = ex_stable_params 602500"
    by (simp add: ex_stable_params_def)
  then show ?thesis
    using epoch_end_moves_ratio [OF ref_chain_dec_laws p d ex_twap, of 7] by (simp add: ex_stable_sel k)
qed

theorem full_ratio_halts_the_module_witness:
  "\<exists>h. stable_AfterEpochEnd ref_chain_sdk ex_block (ex_prices ex_high) ''15 min'' 7 (ex_stable_state 1000000 0) = Inr h
     \<and> stable_EndBlocker ref_chain_sdk ex_block (ex_prices ex_high) h = Inr h
     \<and> MintStable ref_chain_sdk ref_spot ref_mint (ex_prices PREC) ''nalice'' (ex_nusd 1000000) h = Inl NoValidCollateralRatio"
proof -
  let ?s = "ex_stable_state 1000000 0"
  have p: "stable_ParamSetPairs (st_Params ?s) = Inr ()" by (simp add: ex_stable_sel ex_params_range)
  have d: "''15 min'' = DistrEpochIdentifier (st_Params ?s)" by (simp add: ex_stable_sel ex_stable_params_def)
  have r: "sint (CollRatio (st_Params ?s)) = 1000000" "0 < sint (AdjustmentStep (st_Params ?s))"
      "sint (PriceLowerBound (st_Params ?s)) < sint (PriceUpperBound (st_Params ?s))"
    by (simp_all add: ex_stable_sel ex_stable_params_def)
  have u: "\<forall>ctx \<in> set [ex_block]. \<exists>price. GetExchangeRateTwap ref_chain_sdk ctx (ex_prices ex_high) (registry_Pair Registry USDC NUSD) = Inr price
      \<and> sint (PriceUpperBound (st_Params ?s)) * MILLIONTH \<le> price"
    using ex_twap by (simp add: ex_stable_sel ex_stable_params_def MILLIONTH_def ex_high_def)
  show ?thesis
    using full_ratio_halts_the_module [where os = "\<lambda>_. ex_prices ex_high", OF ref_chain_dec_laws p d r u _ ex_user, of ex_block 7 ref_spot ref_mint "ex_prices PREC" "ex_nusd 1000000"] by auto
qed

text \<open>The supply is 1000000 NUSD and the ratio 60 percent; the module holds no collateral, or twice what it needs.\<close>

lemma ex_missing: "StableRequiredForTargetCollRatio ref_chain_sdk ref_spot ref_mint (ex_prices PREC) (ex_stable_state 600000 0) = Inr (600000 * PREC)"
  by code_simp

theorem Recollateralize_accounting_witness:
  "\<exists>s. Recollateralize ref_chain_sdk ref_spot ref_mint (ex_prices PREC) ''nalice'' \<lparr>Denom = USDC, Amount = 700000\<rparr> (ex_stable_state 600000 0)
       = Inr (s, \<lparr>Denom = NIBI, Amount = 60120\<rparr>)
     \<and> GetBalance ref_chain_sdk (st_sdk s) ''alice'' NIBI = 10 ^ 9 + 60120"
proof -
  let ?r = "Recollateralize ref_chain_sdk ref_spot ref_mint (ex_prices PREC) ''nalice'' \<lparr>Denom = USDC, Amount = 700000\<rparr> (ex_stable_state 600000 0)"
  have "case ?r of Inl _ \<Rightarrow> False | Inr (s, c) \<Rightarrow> c = \<lparr>Denom = NIBI, Amount = 60120\<rparr>" by code_simp
  then obtain s where r: "?r = Inr (s, \<lparr>Denom = NIBI, Amount = 60120\<rparr>)" by (auto split: sum.splits prod.splits)
  show ?thesis
    using Recollateralize_accounting [OF ref_spot_laws ref_chain_newcoin_laws ref_chain_dec_laws r ex_user ex_not_module ex_price PREC_positive ex_missing] r
    by (auto simp: ex_stable_sel ex_denoms)
qed

theorem buyback_pays_for_any_coin_witness:
  "\<exists>s. Buyback ref_chain_sdk ref_spot ref_mint (ex_prices PREC) ''nalice'' \<lparr>Denom = ''junk'', Amount = 1000\<rparr> (ex_stable_state 600000 1200000)
       = Inr (s, \<lparr>Denom = USDC, Amount = 10000\<rparr>)
     \<and> GetBalance ref_chain_sdk (st_sdk s) ''alice'' USDC = 10 ^ 9 + 10000
     \<and> GetBalance ref_chain_sdk (st_sdk s) ''alice'' NIBI = 10 ^ 9"
proof -
  let ?r = "Buyback ref_chain_sdk ref_spot ref_mint (ex_prices PREC) ''nalice'' \<lparr>Denom = ''junk'', Amount = 1000\<rparr> (ex_stable_state 600000 1200000)"
  have "case ?r of Inl _ \<Rightarrow> False | Inr (s, c) \<Rightarrow> c = \<lparr>Denom = USDC, Amount = 10000\<rparr>" by code_simp
  then obtain s where r: "?r = Inr (s, \<lparr>Denom = USDC, Amount = 10000\<rparr>)" by (auto split: sum.splits prod.splits)
  show ?thesis
    using buyback_pays_for_any_coin [OF ref_spot_laws ref_chain_newcoin_laws r ex_user ex_not_module ex_price] r
    by (auto simp: ex_stable_sel ex_denoms ex_denoms [symmetric])
qed

end
