(* ===== verification/Spec2Isabelle.thy ===== *)
theory Spec2Isabelle
  imports Perp_Findings V1_Examples Epochs Sudo Asset_Registry Oracle_Tally Oracle_Examples Spot_Examples Stable_Examples
begin

text \<open>
  \<^bold>\<open>Verification of the Nibiru chain\<close>

  The program is a blockchain written in Go on the Cosmos SDK.  Its own logic lives in the modules under \<^verbatim>\<open>src/x\<close>: a market for perpetual
  futures (\<^verbatim>\<open>x/perp\<close>), an oracle of prices voted by the validators (\<^verbatim>\<open>x/oracle\<close>), a spot exchange with liquidity pools (\<^verbatim>\<open>x/spot\<close>), a
  stablecoin (\<^verbatim>\<open>x/stablecoin\<close>), the minting of new tokens (\<^verbatim>\<open>x/inflation\<close>), the clock of epochs (\<^verbatim>\<open>x/epochs\<close>), a list of privileged contracts
  (\<^verbatim>\<open>x/sudo\<close>) and shared types (\<^verbatim>\<open>x/common\<close>).  Every module has a keeper with stores, messages that users send, hooks at the end of epochs and
  blocks, queries, and an import and export of its state.

  \<^bold>\<open>How the parts interact.\<close>  At the beginning of a block the epochs module ends the epochs that are due and calls the hooks of the other
  modules: perp moves its funding, inflation mints, the oracle collects its share of the fees, the stablecoin adjusts its collateral ratio.
  The perp modules and the stablecoin read prices of the oracle, the stablecoin also reads the spot pools.  All modules move coins through the bank.
  In the model a module that reads another takes the state of that model as an argument (\<open>'b oracle_state\<close>, \<open>'b spot_state\<close>), and the hooks of the
  epochs module are a parameter of its begin blocker.

  \<^bold>\<open>Conventions.\<close>  Go code that can fail returns \<open>error + result\<close>, sequenced by \<open>bindE\<close>; a panic is an error value too, so that the code that does
  not recover from it is visible.  Stores are association lists sorted by key (\<open>KV_Store\<close>), because the code iterates over them in key order.
  Decimals (\<open>sdk.Dec\<close>) are integers in units of the last of 18 decimal places; their width of 315 bits and the panic beyond it are not modelled.
  \<open>int64\<close>, \<open>uint64\<close> and 256-bit integers are words of that width, with the wrap-around of the code.  Where Go iterates over a map, the order is
  a parameter.  Loops over a list are structural recursion; the stable swap loops run at most 255 times, the bound that the code itself has; the other
  loops (square root, binary search, bit length) have termination proofs.

  \<^bold>\<open>What is a parameter.\<close>  The SDK is not part of the repository.  Its operations are the records \<open>sdk_dec\<close>, \<open>sdk\<close>, \<open>chain_sdk\<close>, \<open>mint_sdk\<close> and \<open>spot_sdk\<close>;
  what the modules rely on is stated as locales (\<open>sdk_decimal\<close>, \<open>bank_keeper\<close>, \<open>coins_bank\<close>, \<open>coin_sets\<close>, \<open>mint_bank\<close>, \<open>spot_bank\<close>) and as predicates
  over the records (\<open>dec_laws\<close>, \<open>bank_laws\<close>, \<open>coins_laws\<close>, \<open>spot_laws\<close> and others).  The locales are interpreted on concrete implementations
  (\<open>Common_Dec\<close>, \<open>Sdk_Reference\<close>, \<open>Oracle_Reference\<close>, \<open>Inflation_Examples\<close>, \<open>Spot_Examples\<close>): rounding to even, a ledger of balances, sorted coin
  sets, and the witnesses of the theorems run on them.

  \<^bold>\<open>Shared theories.\<close>
  \<^item> \<open>Nibiru_Prelude\<close>: results, Go's truncating division, generic lemmas.
  \<^item> \<open>KV_Store\<close>: sorted collections; the locale \<open>kv_collection\<close> is what the keepers use of them.
  \<^item> \<open>Sdk_Decimal\<close>, \<open>Common_Dec\<close> (\<^verbatim>\<open>x/common/dec.go\<close>), \<open>Asset_Pair\<close> (\<^verbatim>\<open>x/common/asset\<close>), \<open>Sdk_Bank\<close>, \<open>Sdk_Reference\<close>: decimals, pairs, the bank.

  \<^bold>\<open>Perpetual futures, version 2\<close> (\<^verbatim>\<open>x/perp/types/v2\<close>, \<^verbatim>\<open>x/perp/keeper/v2\<close>).
  \<^item> Model: \<open>Perp_Types\<close> (records, errors, events, \<open>perp_state\<close>), \<open>Perp_AMM\<close> (reserves and swaps), \<open>Perp_Calc\<close> (notional, profit, funding, averages),
    \<open>Perp_Vault\<close> (withdrawals, bad debt), \<open>Perp_ClearingHouse\<close> (opening and closing), \<open>Perp_Margin\<close>, \<open>Perp_Liquidate\<close>, \<open>Perp_Admin\<close> (repeg, depth, funding
    hook, genesis), \<open>Perp_Msgs\<close> (messages and queries).
  \<^item> Shown: the bias of every market is the sum of the sizes of its positions after any run (\<open>Perp_Accounting\<close> states the contract of a position
    change as the locale \<open>position_change\<close>, \<open>Perp_Invariant\<close> lifts it); swaps keep the product of the reserves up to rounding and undo each other;
    closing pays the equity; a fresh position cannot be liquidated, a healthy one is refused, a liquidation distributes exactly the equity and a
    batch isolates failures; the funding hook moves the premium (\<open>Perp_Flows\<close>, \<open>Perp_Trading\<close>, \<open>Perp_Risk\<close>).  \<open>Perp_Findings\<close> has the witnesses and the deviations.

  \<^bold>\<open>Perpetual futures, version 1\<close> (\<^verbatim>\<open>x/perp/amm\<close>, \<^verbatim>\<open>x/perp/types/v1\<close>, \<^verbatim>\<open>x/perp/keeper/v1\<close>, \<^verbatim>\<open>x/perp/module/v1\<close>), the version whose messages the application serves.
  \<^item> Model: \<open>V1_Market\<close> (reserves, limits, snapshots), \<open>V1_AMM\<close> (the keeper of the markets: swaps, averages, creation and edits of pools, governance
    proposals, end of block, genesis), \<open>V1_Keeper\<close> (opening, closing, margins, bad debt; the state is \<open>'b v1_state\<close>, which extends the state of the
    market maker), \<open>V1_Liquidate\<close> (liquidations, repeg, depth, funding, settlement, migration), \<open>V1_Server\<close> (parameters, messages, queries, genesis).
    The names carry the prefix \<open>v1_\<close>; records with the same fields as in version 2 are shared.
  \<^item> Shown: a swap is the swap of version 2 on the same reserves, peg and bias (\<open>V1_Swap\<close>); the bias of every pool, its metrics and its stored positions
    agree along any run (\<open>V1_Trading\<close>, with the contract of a change of a position as the locale \<open>v1_position_change\<close>, \<open>V1_Books\<close>, \<open>V1_Invariant\<close>); trades
    stay in the price band, a fresh position cannot be liquidated, closing pays the equity (\<open>V1_Safety\<close>); edits of a configuration, genesis,
    migration and settlement lose open interest or coins (\<open>V1_Findings\<close>).  The witnesses are in \<open>V1_Examples\<close>.

  \<^bold>\<open>Epochs\<close> (\<open>Epochs\<close>), \<^bold>\<open>sudo\<close> (\<open>Sudo\<close>), \<^bold>\<open>denominations and moving average\<close> (\<open>Asset_Registry\<close>).
  \<^item> Shown: the begin blocker refines an abstract clock, and no epoch is overdue after a block; an accepted edit of the contracts is the
    set operation by the root, stored in an order that depends on the iteration of a map; the registry is consistent, the average is bounded.

  \<^bold>\<open>Oracle\<close> (\<^verbatim>\<open>x/oracle\<close>).
  \<^item> Model: \<open>Oracle_Sdk\<close> (contracts), \<open>Oracle_Ballot\<close> (ballots and tally, with the deviation in 64-bit floating point), \<open>Oracle_Vote\<close> (votes as text,
    hashes, messages), \<open>Oracle_Params\<close>, \<open>Oracle_Keeper\<close> (stores, prices, message server), \<open>Oracle_Update\<close> (end of a vote period, slashing, rewards),
    \<open>Oracle_Slash\<close> and \<open>Oracle_Genesis\<close>.
  \<^item> Shown: a vote in the store opens a commitment of the period before (\<open>Oracle_Commit\<close>); the prices are weighted medians and do not depend on the
    order of Go's maps (\<open>Oracle_Loops\<close>, \<open>Oracle_Pricing\<close>, \<open>Oracle_Tally\<close>); rewards stay within what was gathered (\<open>Oracle_Rewards\<close>); exactly the
    validators that missed too often are slashed; averages are bounded (\<open>Oracle_Twap\<close>); votes survive printing and parsing.

  \<^bold>\<open>Inflation\<close> (\<^verbatim>\<open>x/inflation\<close>; \<open>Inflation\<close>, \<open>Inflation_Schedule\<close>, \<open>Inflation_Examples\<close>).
  \<^item> Shown: over any sequence of days the module follows an abstract schedule without failing; from the default genesis of the epochs module it never
    mints.

  \<^bold>\<open>Spot exchange\<close> (\<^verbatim>\<open>x/spot\<close>).
  \<^item> Model: \<open>Spot_Pool\<close> (pools, stable swap arithmetic on 256-bit words), \<open>Spot_Shares\<close> (joins, exits, swaps), \<open>Spot_Keeper\<close>, \<open>Spot_Server\<close>.
  \<^item> Shown: after any messages every pool is backed by its account and its shares are the supply of its share token (\<open>Spot_Bank\<close>, \<open>Spot_Join\<close>,
    \<open>Spot_Invariant\<close>, \<open>Spot_Messages\<close>); swaps keep the constant product, a join and exit gains nothing (\<open>Spot_Swap\<close>); stable swap pools with equal
    amounts (\<open>Spot_Stable\<close>); the binary search is a scan (\<open>Spot_Assets\<close>); deviations (\<open>Spot_Findings\<close>).

  \<^bold>\<open>Stablecoin\<close> (\<^verbatim>\<open>x/stablecoin\<close>).
  \<^item> Model: \<open>Stable_Keeper\<close> (parameters, minting, burning), \<open>Stable_Ratio\<close> (collateral ratio, recollateralization, buyback, messages, genesis).
  \<^item> Shown: the books of every message (\<open>Stable_Books\<close>, \<open>Stable_Mint\<close>); minting and burning costs the fees; the ratio stays between 0 and 1 and moves by
    one step (\<open>Stable_Peg\<close>), and at the end of its range the module halts; buyback pays for any coin (\<open>Stable_Buyback\<close>).

  \<^bold>\<open>Not modelled.\<close>
  \<^item> The bindings for contracts (\<^verbatim>\<open>x/wasm/binding\<close>): they decode JSON and dispatch to keepers that are modelled; the decoding and the engine are third-party code.
  \<^item> The application, the command line, the registration of modules and codecs: wiring of third-party constructors and I/O.
  \<^item> Generated protobuf code and gateways (the types are modelled as records), simulations and test fixtures.
  \<^item> Gas, the serialization of stored values and messages, signatures, logs and metrics of the node.
\<close>

end
